(* ===== verification/Prelude.thy ===== *)
theory Prelude
  imports Main "HOL-Library.AList"
begin

text \<open>
  What every component shares: Python values and their accessors, exceptions as values, programs
  with state and exceptions, a calculus for facts about the state a program leaves behind, and
  database tables as lists of rows.
\<close>

section \<open>Collections of facts\<close>

named_theorems prog_simps \<open>equations that run a program on a state\<close>
named_theorems stays_intros \<open>rules for \<open>stays\<close>: a relation between the states before and after\<close>
named_theorems row_simps \<open>equations about table operations\<close>

section \<open>Python values\<close>

text \<open>
  Values as \<open>json.loads\<close> and the JSON columns give them. A float is kept as the text of its
  \<open>repr\<close>, which determines it; no modelled code does arithmetic on one. A \<open>datetime\<close> is a
  number of microseconds. A dict is its list of items in insertion order.
\<close>

type_synonym time = int

datatype pyval =
    PNone
  | PBool bool
  | PInt int
  | PFloat string
  | PStr string
  | PTime time
  | PList "pyval list"
  | PDict "(string \<times> pyval) list"

type_synonym pydict = "(string \<times> pyval) list"

text \<open>Truth of a value, as \<open>if v:\<close> and \<open>not v\<close> read it (a float is false when it is zero).\<close>

fun truthy :: "pyval \<Rightarrow> bool" where
  "truthy PNone = False"
| "truthy (PBool b) = b"
| "truthy (PInt i) = (i \<noteq> 0)"
| "truthy (PFloat r) = (r \<notin> {''0.0'', ''-0.0''})"
| "truthy (PStr s) = (s \<noteq> [])"
| "truthy (PTime t) = True"
| "truthy (PList vs) = (vs \<noteq> [])"
| "truthy (PDict d) = (d \<noteq> [])"

definition dict_get :: "pydict \<Rightarrow> string \<Rightarrow> pyval option" where
  "dict_get d k = map_of d k"

definition dict_set :: "string \<Rightarrow> pyval \<Rightarrow> pydict \<Rightarrow> pydict" where
  "dict_set k v d = AList.update k v d"

definition dict_del :: "string \<Rightarrow> pydict \<Rightarrow> pydict" where
  "dict_del k d = AList.delete k d"

definition dict_has :: "pydict \<Rightarrow> string \<Rightarrow> bool" where
  "dict_has d k = (map_of d k \<noteq> None)"

text \<open>\<open>d.update(e)\<close>: the items of the second dict stored one after the other.\<close>

definition dict_update :: "pydict \<Rightarrow> pydict \<Rightarrow> pydict" where
  "dict_update d e = fold (\<lambda>(k, v). dict_set k v) e d"

lemma dict_get_Nil [simp]: "dict_get [] k = None"
  by (simp add: dict_get_def)

lemma dict_get_Cons [simp]: "dict_get ((k', v) # d) k = (if k' = k then Some v else dict_get d k)"
  by (simp add: dict_get_def)

lemma dict_get_set [simp]: "dict_get (dict_set k v d) k' = (if k = k' then Some v else dict_get d k')"
  by (simp add: dict_get_def dict_set_def update_conv')

lemma dict_get_del [simp]: "dict_get (dict_del k d) k' = (if k = k' then None else dict_get d k')"
  by (auto simp: dict_get_def dict_del_def delete_conv')

lemma dict_has_set [simp]: "dict_has (dict_set k v d) k' = (k = k' \<or> dict_has d k')"
  by (simp add: dict_has_def dict_set_def update_conv')

lemma dict_has_get: "dict_has d k = (dict_get d k \<noteq> None)"
  by (simp add: dict_has_def dict_get_def)

section \<open>Text\<close>

text \<open>Decimal digits, as \<open>str\<close> of an int.\<close>

fun str_nat :: "nat \<Rightarrow> string" where
  "str_nat n = (if n < 10 then [char_of (48 + n)] else str_nat (n div 10) @ [char_of (48 + n mod 10)])"

declare str_nat.simps [simp del]

definition str_int :: "int \<Rightarrow> string" where
  "str_int i = (if i < 0 then ''-'' @ str_nat (nat (- i)) else str_nat (nat i))"

text \<open>A number padded with zeros on the left, as in \<open>%02d\<close>.\<close>

definition pad :: "nat \<Rightarrow> nat \<Rightarrow> string" where
  "pad w n = replicate (w - length (str_nat n)) (CHR ''0'') @ str_nat n"

text \<open>\<open>sep.join(parts)\<close>.\<close>

fun join :: "string \<Rightarrow> string list \<Rightarrow> string" where
  "join sep [] = []"
| "join sep [p] = p"
| "join sep (p # q # ps) = p @ sep @ join sep (q # ps)"

text \<open>\<open>s.split(c)\<close> for a one-character separator: always at least one part.\<close>

fun split_char :: "char \<Rightarrow> string \<Rightarrow> string list" where
  "split_char c [] = [[]]"
| "split_char c (x # xs) =
     (if x = c then [] # split_char c xs
      else (case split_char c xs of [] \<Rightarrow> [[x]] | p # ps \<Rightarrow> (x # p) # ps))"

lemma split_char_not_Nil [simp]: "split_char c s \<noteq> []"
  by (induction s) (auto split: list.splits)

lemma split_char_parts: "p \<in> set (split_char c s) \<Longrightarrow> c \<notin> set p"
proof (induction s arbitrary: p)
  case Nil
  then show ?case by simp
next
  case (Cons x s)
  then show ?case by (cases "split_char c s") (auto split: if_splits)
qed

lemma split_char_single: "c \<notin> set s \<Longrightarrow> split_char c s = [s]"
  by (induction s) auto

text \<open>Whether one text occurs inside another (\<open>a in b\<close> on strings).\<close>

fun prefix_of :: "string \<Rightarrow> string \<Rightarrow> bool" where
  "prefix_of [] s = True"
| "prefix_of (c # cs) [] = False"
| "prefix_of (c # cs) (x # xs) = (c = x \<and> prefix_of cs xs)"

fun substring :: "string \<Rightarrow> string \<Rightarrow> bool" where
  "substring p [] = (p = [])"
| "substring p (x # xs) = (prefix_of p (x # xs) \<or> substring p xs)"

subsection \<open>Calendar\<close>

text \<open>
  \<open>strftime("%Y-%m-%d %H:%M:%S")\<close> and \<open>isoformat()\<close> of a naive \<open>datetime\<close>: the date of a day
  number counted from 1970-01-01, in the proleptic Gregorian calendar that \<open>datetime\<close> uses.
\<close>

definition civil_from_days :: "int \<Rightarrow> int \<times> int \<times> int" where
  "civil_from_days z0 =
     (let z = z0 + 719468;
          era = z div 146097;
          doe = z - era * 146097;
          yoe = (doe - doe div 1460 + doe div 36524 - doe div 146096) div 365;
          doy = doe - (365 * yoe + yoe div 4 - yoe div 100);
          mp = (5 * doy + 2) div 153;
          d = doy - (153 * mp + 2) div 5 + 1;
          m = (if mp < 10 then mp + 3 else mp - 9)
      in (yoe + era * 400 + (if m \<le> 2 then 1 else 0), m, d))"

definition date_text :: "time \<Rightarrow> string" where
  "date_text t =
     (case civil_from_days (t div 86400000000) of
        (y, m, d) \<Rightarrow> pad 4 (nat y) @ ''-'' @ pad 2 (nat m) @ ''-'' @ pad 2 (nat d))"

definition clock_text :: "time \<Rightarrow> string" where
  "clock_text t =
     (let s = (t div 1000000) mod 86400
      in pad 2 (nat (s div 3600)) @ '':'' @ pad 2 (nat ((s div 60) mod 60)) @ '':'' @ pad 2 (nat (s mod 60)))"

definition strftime :: "time \<Rightarrow> string" where
  "strftime t = date_text t @ '' '' @ clock_text t"

definition isoformat :: "time \<Rightarrow> string" where
  "isoformat t = date_text t @ ''T'' @ clock_text t
     @ (if t mod 1000000 = 0 then [] else ''.'' @ pad 6 (nat (t mod 1000000)))"

section \<open>Exceptions\<close>

text \<open>
  An exception is a value. \<open>CustomExc\<close> is an instance of \<open>CustomException\<close> or a subclass: the
  class that handlers test for, the HTTP code, the code, the message and the details. \<open>PyExc\<close> is
  any other Python exception, by class name and text; \<open>DataExc\<close> is one that carries a value instead.
  \<open>Uninitialised\<close> is a \<open>CustomException\<close>
  whose subclass constructor returned without calling \<open>super().__init__\<close>: reading its fields
  raises \<open>AttributeError\<close>.
\<close>

datatype exn_class = BadRequestClass | FailedResponseClass | OtherClass

datatype exn =
    CustomExc exn_class nat int string pydict
  | PyExc string string
  | Uninitialised exn_class
  | DataExc string pyval

text \<open>Pure code that may raise: sequencing, and a comprehension whose body may raise.\<close>

definition sbind :: "exn + 'a \<Rightarrow> ('a \<Rightarrow> exn + 'b) \<Rightarrow> exn + 'b" where
  "sbind r f = (case r of Inl e \<Rightarrow> Inl e | Inr a \<Rightarrow> f a)"

lemma sbind_simps [simp]: "sbind (Inl e) f = Inl e" "sbind (Inr a) f = f a"
  by (simp_all add: sbind_def)

lemma sbind_Inr_iff: "sbind r f = Inr b \<longleftrightarrow> (\<exists>a. r = Inr a \<and> f a = Inr b)"
  by (cases r) simp_all

fun smap :: "('a \<Rightarrow> exn + 'b) \<Rightarrow> 'a list \<Rightarrow> exn + 'b list" where
  "smap f [] = Inr []"
| "smap f (x # xs) = sbind (f x) (\<lambda>y. sbind (smap f xs) (\<lambda>ys. Inr (y # ys)))"

lemma smap_Inr: "(\<And>x. x \<in> set xs \<Longrightarrow> f x = Inr (g x)) \<Longrightarrow> smap f xs = Inr (map g xs)"
  by (induction xs) auto

lemma smap_InrD: "smap f xs = Inr ys \<Longrightarrow> list_all2 (\<lambda>x y. f x = Inr y) xs ys"
  by (induction xs arbitrary: ys) (auto simp: sbind_Inr_iff)

section \<open>Programs\<close>

text \<open>
  A method that reads and writes a state \<open>'s\<close> and may raise: a function from the state to the
  exception or the result, and the state it leaves behind in either case.
\<close>

type_synonym ('s, 'a) prog = "'s \<Rightarrow> (exn + 'a) \<times> 's"

definition ret :: "'a \<Rightarrow> ('s, 'a) prog" where
  "ret a = (\<lambda>s. (Inr a, s))"

definition raise :: "exn \<Rightarrow> ('s, 'a) prog" where
  "raise e = (\<lambda>s. (Inl e, s))"

definition andthen :: "('s, 'a) prog \<Rightarrow> ('a \<Rightarrow> ('s, 'b) prog) \<Rightarrow> ('s, 'b) prog" where
  "andthen m f = (\<lambda>s. case m s of (Inl e, s') \<Rightarrow> (Inl e, s') | (Inr a, s') \<Rightarrow> f a s')"

definition gets :: "('s \<Rightarrow> 'a) \<Rightarrow> ('s, 'a) prog" where
  "gets f = (\<lambda>s. (Inr (f s), s))"

definition modify :: "('s \<Rightarrow> 's) \<Rightarrow> ('s, unit) prog" where
  "modify f = (\<lambda>s. (Inr (), f s))"

definition of_sum :: "exn + 'a \<Rightarrow> ('s, 'a) prog" where
  "of_sum r = (\<lambda>s. (r, s))"

text \<open>\<open>try: m  except Exception as e: h(e)\<close>.\<close>

definition try_except :: "('s, 'a) prog \<Rightarrow> (exn \<Rightarrow> ('s, 'a) prog) \<Rightarrow> ('s, 'a) prog" where
  "try_except m h = (\<lambda>s. case m s of (Inl e, s') \<Rightarrow> h e s' | (Inr a, s') \<Rightarrow> (Inr a, s'))"

text \<open>\<open>for x in xs: f(x)\<close>, stopped by the first exception.\<close>

fun for_each :: "'x list \<Rightarrow> ('x \<Rightarrow> ('s, unit) prog) \<Rightarrow> ('s, unit) prog" where
  "for_each [] f = ret ()"
| "for_each (x # xs) f = andthen (f x) (\<lambda>_. for_each xs f)"

text \<open>\<open>[f(x) for x in xs]\<close> with a body that has effects.\<close>

fun map_each :: "('x \<Rightarrow> ('s, 'y) prog) \<Rightarrow> 'x list \<Rightarrow> ('s, 'y list) prog" where
  "map_each f [] = ret []"
| "map_each f (x # xs) = andthen (f x) (\<lambda>y. andthen (map_each f xs) (\<lambda>ys. ret (y # ys)))"

lemma ret_apply [simp, prog_simps]: "ret a s = (Inr a, s)"
  by (simp add: ret_def)

lemma raise_apply [simp, prog_simps]: "raise e s = (Inl e, s)"
  by (simp add: raise_def)

lemma gets_apply [simp, prog_simps]: "gets f s = (Inr (f s), s)"
  by (simp add: gets_def)

lemma modify_apply [simp, prog_simps]: "modify f s = (Inr (), f s)"
  by (simp add: modify_def)

lemma of_sum_apply [simp, prog_simps]: "of_sum r s = (r, s)"
  by (simp add: of_sum_def)

lemma andthen_apply [prog_simps]:
  "andthen m f s = (case m s of (Inl e, s') \<Rightarrow> (Inl e, s') | (Inr a, s') \<Rightarrow> f a s')"
  by (simp add: andthen_def)

lemma andthen_Inr [simp]: "m s = (Inr a, s') \<Longrightarrow> andthen m f s = f a s'"
  by (simp add: andthen_def)

lemma andthen_Inl [simp]: "m s = (Inl e, s') \<Longrightarrow> andthen m f s = (Inl e, s')"
  by (simp add: andthen_def)

lemma try_except_apply [prog_simps]:
  "try_except m h s = (case m s of (Inl e, s') \<Rightarrow> h e s' | (Inr a, s') \<Rightarrow> (Inr a, s'))"
  by (simp add: try_except_def)

lemma andthen_ret [simp]: "andthen (ret a) f = f a"
  by (simp add: andthen_def ret_def)

lemma andthen_raise [simp]: "andthen (raise e) f = raise e"
  by (simp add: andthen_def raise_def)

lemma andthen_assoc: "andthen (andthen m f) g = andthen m (\<lambda>a. andthen (f a) g)"
  by (rule ext) (simp add: andthen_def split: prod.split sum.split)

lemma for_each_append: "for_each (xs @ ys) f = andthen (for_each xs f) (\<lambda>_. for_each ys f)"
  by (induction xs) (simp_all add: andthen_assoc)

text \<open>When a sequence succeeds, both halves did.\<close>

lemma andthen_InrE:
  assumes "andthen m f s = (Inr b, s2)"
  obtains a s1 where "m s = (Inr a, s1)" and "f a s1 = (Inr b, s2)"
  using assms by (auto simp: andthen_def split: prod.splits sum.splits)

lemma andthen_of_sumE:
  assumes "andthen (of_sum r) f w = (Inr b, w')"
  obtains a where "r = Inr a" and "f a w = (Inr b, w')"
  using assms by (cases r) (auto simp: andthen_apply)

subsection \<open>Relations between the states before and after\<close>

text \<open>
  \<open>stays R m\<close>: whatever \<open>m\<close> does from any state, returning or raising, the state it leaves is
  \<open>R\<close>-related to the one it started from. An invariant \<open>I\<close> is the relation \<open>keeping I\<close>.
\<close>

definition stays :: "('s \<Rightarrow> 's \<Rightarrow> bool) \<Rightarrow> ('s, 'a) prog \<Rightarrow> bool" where
  "stays R m \<longleftrightarrow> (\<forall>s. R s (snd (m s)))"

definition keeping :: "('s \<Rightarrow> bool) \<Rightarrow> 's \<Rightarrow> 's \<Rightarrow> bool" where
  "keeping I s s' \<longleftrightarrow> (I s \<longrightarrow> I s')"

lemma staysD: "stays R m \<Longrightarrow> m s = (r, s') \<Longrightarrow> R s s'"
  unfolding stays_def by (metis snd_conv)

lemma staysI: "(\<And>s r s'. m s = (r, s') \<Longrightarrow> R s s') \<Longrightarrow> stays R m"
  unfolding stays_def by (metis prod.collapse)

lemma stays_keepingD: "stays (keeping I) m \<Longrightarrow> I s \<Longrightarrow> I (snd (m s))"
  by (simp add: stays_def keeping_def)

locale step_frame =
  fixes R :: "'s \<Rightarrow> 's \<Rightarrow> bool"
  assumes refl: "R s s"
    and trans: "R s t \<Longrightarrow> R t u \<Longrightarrow> R s u"
begin

lemma stays_ret: "stays R (ret a)"
  by (simp add: stays_def refl)

lemma stays_raise: "stays R (raise e)"
  by (simp add: stays_def refl)

lemma stays_gets: "stays R (gets f)"
  by (simp add: stays_def refl)

lemma stays_of_sum: "stays R (of_sum r)"
  by (simp add: stays_def refl)

lemma stays_modify: "(\<And>s. R s (f s)) \<Longrightarrow> stays R (modify f)"
  by (simp add: stays_def)

lemma stays_andthen_result:
  assumes "stays R m" and "\<And>s a s'. m s = (Inr a, s') \<Longrightarrow> stays R (f a)"
  shows "stays R (andthen m f)"
proof (rule staysI)
  fix s r s'
  assume run: "andthen m f s = (r, s')"
  obtain q s1 where m: "m s = (q, s1)" by fastforce
  have first: "R s s1" using assms(1) m by (rule staysD)
  show "R s s'"
  proof (cases q)
    case (Inl e)
    with run m first show ?thesis by (simp add: andthen_def)
  next
    case (Inr a)
    with run m have "f a s1 = (r, s')" by (simp add: andthen_def)
    moreover have "stays R (f a)" using assms(2) m Inr by simp
    ultimately have "R s1 s'" by (metis staysD)
    with first show ?thesis by (rule trans)
  qed
qed

lemma stays_andthen: "stays R m \<Longrightarrow> (\<And>a. stays R (f a)) \<Longrightarrow> stays R (andthen m f)"
  by (rule stays_andthen_result)

lemma stays_try_except:
  assumes "stays R m" and "\<And>e. stays R (h e)"
  shows "stays R (try_except m h)"
proof (rule staysI)
  fix s r s'
  assume run: "try_except m h s = (r, s')"
  obtain q s1 where m: "m s = (q, s1)" by fastforce
  have first: "R s s1" using assms(1) m by (rule staysD)
  show "R s s'"
  proof (cases q)
    case (Inr a)
    with run m first show ?thesis by (simp add: try_except_def)
  next
    case (Inl e)
    with run m have "h e s1 = (r, s')" by (simp add: try_except_def)
    with assms(2) have "R s1 s'" by (rule staysD)
    with first show ?thesis by (rule trans)
  qed
qed

lemma stays_for_each: "(\<And>x. x \<in> set xs \<Longrightarrow> stays R (f x)) \<Longrightarrow> stays R (for_each xs f)"
  by (induction xs) (auto intro: stays_ret stays_andthen)

lemma stays_map_each: "(\<And>x. x \<in> set xs \<Longrightarrow> stays R (f x)) \<Longrightarrow> stays R (map_each f xs)"
  by (induction xs) (auto intro: stays_ret stays_andthen)

lemma stays_if: "stays R m \<Longrightarrow> stays R n \<Longrightarrow> stays R (if b then m else n)"
  by simp

text \<open>The same for one starting state.\<close>

lemma leads_andthen:
  assumes "R s (snd (m s))" and "\<And>a s'. m s = (Inr a, s') \<Longrightarrow> R s' (snd (f a s'))"
  shows "R s (snd (andthen m f s))"
proof (cases "m s")
  case (Pair q s1)
  with assms show ?thesis by (cases q) (auto simp: andthen_def intro: trans)
qed

lemma leads_for_each:
  assumes "\<And>x s. x \<in> set xs \<Longrightarrow> R s (snd (f x s))"
  shows "R s (snd (for_each xs f s))"
  using assms by (induction xs arbitrary: s) (auto simp: refl intro!: leads_andthen)

lemma staysD_at: "stays R m \<Longrightarrow> R s (snd (m s))"
  by (simp add: stays_def)

lemmas stays_rules = stays_ret stays_raise stays_gets stays_of_sum stays_andthen
  stays_try_except stays_for_each stays_map_each stays_if

end

text \<open>An invariant is such a relation, whatever it is.\<close>

interpretation keeps: step_frame "keeping I" for I
  by unfold_locales (auto simp: keeping_def)

lemma keeping_andthen:
  assumes "stays (keeping I) m"
    and "\<And>s a s'. I s \<Longrightarrow> m s = (Inr a, s') \<Longrightarrow> stays (keeping I) (f a)"
  shows "stays (keeping I) (andthen m f)"
proof (rule staysI)
  fix s r s'
  assume run: "andthen m f s = (r, s')"
  obtain q s1 where m: "m s = (q, s1)" by fastforce
  show "keeping I s s'"
    unfolding keeping_def
  proof
    assume I: "I s"
    have I1: "I s1" using staysD [OF assms(1) m] I by (simp add: keeping_def)
    show "I s'"
    proof (cases q)
      case (Inl e)
      with run m I1 show ?thesis by (simp add: andthen_def)
    next
      case (Inr a)
      with run m have "f a s1 = (r, s')" by (simp add: andthen_def)
      moreover have "stays (keeping I) (f a)" using assms(2) I m Inr by simp
      ultimately have "keeping I s1 s'" by (metis staysD)
      with I1 show ?thesis by (simp add: keeping_def)
    qed
  qed
qed

text \<open>So is \<open>unchanged g\<close>: the part \<open>g\<close> of the state is left as it was.\<close>

definition unchanged :: "('s \<Rightarrow> 'p) \<Rightarrow> 's \<Rightarrow> 's \<Rightarrow> bool" where
  "unchanged g s s' \<longleftrightarrow> g s' = g s"

interpretation same: step_frame "unchanged g" for g
  by unfold_locales (auto simp: unchanged_def)

subsection \<open>What a program returns\<close>

text \<open>\<open>ensures P m Q\<close>: if \<open>P\<close> holds before and \<open>m\<close> returns \<open>a\<close>, then \<open>Q a\<close> holds after.\<close>

definition ensures :: "('s \<Rightarrow> bool) \<Rightarrow> ('s, 'a) prog \<Rightarrow> ('a \<Rightarrow> 's \<Rightarrow> bool) \<Rightarrow> bool" where
  "ensures P m Q \<longleftrightarrow> (\<forall>s a s'. P s \<longrightarrow> m s = (Inr a, s') \<longrightarrow> Q a s')"

lemma ensuresD: "ensures P m Q \<Longrightarrow> P s \<Longrightarrow> m s = (Inr a, s') \<Longrightarrow> Q a s'"
  by (simp add: ensures_def)

lemma ensures_ret: "(\<And>s. P s \<Longrightarrow> Q a s) \<Longrightarrow> ensures P (ret a) Q"
  by (simp add: ensures_def)

lemma ensures_raise: "ensures P (raise e) Q"
  by (simp add: ensures_def)

lemma ensures_gets: "(\<And>s. P s \<Longrightarrow> Q (f s) s) \<Longrightarrow> ensures P (gets f) Q"
  by (simp add: ensures_def)

lemma ensures_of_sum: "(\<And>a s. r = Inr a \<Longrightarrow> P s \<Longrightarrow> Q a s) \<Longrightarrow> ensures P (of_sum r) Q"
  by (simp add: ensures_def)

lemma ensures_andthen:
  assumes "ensures P m R" and "\<And>a. ensures (R a) (f a) Q"
  shows "ensures P (andthen m f) Q"
  unfolding ensures_def
proof (intro allI impI)
  fix s b s2
  assume "P s" and "andthen m f s = (Inr b, s2)"
  then obtain a s1 where "m s = (Inr a, s1)" and f: "f a s1 = (Inr b, s2)" by (elim andthen_InrE)
  with assms(1) \<open>P s\<close> have "R a s1" by (simp add: ensures_def)
  with assms(2) f show "Q b s2" by (simp add: ensures_def)
qed

section \<open>Tables\<close>

text \<open>
  A table is the list of its rows in insertion order. \<open>select ... limit(1)\<close> with
  \<open>scalar_one_or_none\<close> is the first row that matches.
\<close>

definition first_or_none :: "'r list \<Rightarrow> 'r option" where
  "first_or_none rs = (case rs of [] \<Rightarrow> None | r # _ \<Rightarrow> Some r)"

definition sql_first :: "('r \<Rightarrow> bool) \<Rightarrow> 'r list \<Rightarrow> 'r option" where
  "sql_first p t = first_or_none (filter p t)"

text \<open>\<open>update(T).where(p).values(f)\<close>.\<close>

definition sql_update :: "('r \<Rightarrow> bool) \<Rightarrow> ('r \<Rightarrow> 'r) \<Rightarrow> 'r list \<Rightarrow> 'r list" where
  "sql_update p f t = map (\<lambda>r. if p r then f r else r) t"

text \<open>A change of a row that sets its \<open>updated_at\<close> column when it changes anything.\<close>

definition touch :: "(time \<Rightarrow> 'r \<Rightarrow> 'r) \<Rightarrow> time \<Rightarrow> ('r \<Rightarrow> 'r) \<Rightarrow> 'r \<Rightarrow> 'r" where
  "touch set_updated_at t f r = (if f r = r then r else set_updated_at t (f r))"

text \<open>A loop that changes the first row it finds and breaks.\<close>

fun update_first :: "('r \<Rightarrow> bool) \<Rightarrow> ('r \<Rightarrow> 'r) \<Rightarrow> 'r list \<Rightarrow> 'r list" where
  "update_first p f [] = []"
| "update_first p f (r # t) = (if p r then f r # t else r # update_first p f t)"

text \<open>
  \<open>order_by(k)\<close> ascending and descending. Rows with equal keys come in insertion order in the
  ascending case and in insertion order too in the descending one (the sort is stable).
\<close>

definition order_asc :: "('r \<Rightarrow> 'k :: linorder) \<Rightarrow> 'r list \<Rightarrow> 'r list" where
  "order_asc k t = sort_key k t"

definition order_desc :: "('r \<Rightarrow> 'k :: linorder) \<Rightarrow> 'r list \<Rightarrow> 'r list" where
  "order_desc k t = rev (sort_key k (rev t))"

text \<open>\<open>limit(n).offset(m)\<close>.\<close>

definition limit_offset :: "int \<Rightarrow> int \<Rightarrow> 'r list \<Rightarrow> 'r list" where
  "limit_offset n m t = take (nat n) (drop (nat m) t)"

lemma sql_first_Nil [simp, row_simps]: "sql_first p [] = None"
  by (simp add: sql_first_def first_or_none_def)

lemma sql_first_Cons [simp, row_simps]: "sql_first p (r # t) = (if p r then Some r else sql_first p t)"
  by (simp add: sql_first_def first_or_none_def)

lemma sql_first_None [row_simps]: "sql_first p t = None \<longleftrightarrow> (\<forall>r \<in> set t. \<not> p r)"
  by (induction t) auto

lemma sql_first_SomeD: "sql_first p t = Some r \<Longrightarrow> r \<in> set t \<and> p r"
  by (induction t) (auto split: if_splits)

lemma sql_first_append: "sql_first p (t @ u) = (case sql_first p t of None \<Rightarrow> sql_first p u | Some r \<Rightarrow> Some r)"
  by (induction t) auto

lemma sql_update_Nil [simp, row_simps]: "sql_update p f [] = []"
  by (simp add: sql_update_def)

lemma sql_update_Cons [simp, row_simps]:
  "sql_update p f (r # t) = (if p r then f r else r) # sql_update p f t"
  by (simp add: sql_update_def)

lemma length_sql_update [simp, row_simps]: "length (sql_update p f t) = length t"
  by (simp add: sql_update_def)

lemma set_sql_update: "set (sql_update p f t) = (\<lambda>r. if p r then f r else r) ` set t"
  by (simp add: sql_update_def)

lemma sql_update_mem: "r \<in> set t \<Longrightarrow> p r \<Longrightarrow> f r \<in> set (sql_update p f t)"
  by (auto simp: set_sql_update)

lemma sql_update_append [row_simps]: "sql_update p f (t @ u) = sql_update p f t @ sql_update p f u"
  by (simp add: sql_update_def)

lemma map_sql_update: "(\<And>r. p r \<Longrightarrow> k (f r) = k r) \<Longrightarrow> map k (sql_update p f t) = map k t"
  by (simp add: sql_update_def)

lemma key_set_update: "(\<And>r. p r \<Longrightarrow> k (f r) = k r) \<Longrightarrow> k ` set (sql_update p f t) = k ` set t"
  by (metis (no_types, lifting) list.set_map map_sql_update)

lemma sql_first_no_key: "x \<notin> k ` set t \<Longrightarrow> sql_first (\<lambda>r. k r = x) t = None"
  by (auto simp: sql_first_None)

lemma sql_first_update:
  "(\<And>r. p r \<Longrightarrow> q (f r) = q r) \<Longrightarrow>
   sql_first q (sql_update p f t) = map_option (\<lambda>r. if p r then f r else r) (sql_first q t)"
  by (induction t) auto

lemma update_first_append [row_simps]:
  "update_first p f (t @ u) =
     (if \<exists>r \<in> set t. p r then update_first p f t @ u else t @ update_first p f u)"
  by (induction t) auto

lemma update_first_none: "(\<And>r. r \<in> set t \<Longrightarrow> \<not> p r) \<Longrightarrow> update_first p f t = t"
  by (induction t) auto

lemma map_update_first: "(\<And>r. p r \<Longrightarrow> k (f r) = k r) \<Longrightarrow> map k (update_first p f t) = map k t"
  by (induction t) auto

lemma update_first_all2:
  "(\<And>r. R r r) \<Longrightarrow> (\<And>r. r \<in> set t \<Longrightarrow> p r \<Longrightarrow> R r (f r)) \<Longrightarrow> list_all2 R t (update_first p f t)"
  by (induction t) (auto simp: list.rel_refl)

lemma update_first_all2_first:
  "(\<And>r. R r r) \<Longrightarrow> (\<And>r. sql_first p t = Some r \<Longrightarrow> R r (f r)) \<Longrightarrow>
   list_all2 R t (update_first p f t)"
  by (induction t) (auto simp: list.rel_refl split: if_splits)

lemma sql_first_filter: "sql_first p (filter q t) = sql_first (\<lambda>r. q r \<and> p r) t"
  by (induction t) auto

lemma sql_first_all2:
  assumes "list_all2 R t u" and "\<And>r v. R r v \<Longrightarrow> p r = q v" and "sql_first q u = Some v"
  shows "\<exists>r. sql_first p t = Some r \<and> R r v"
  using assms by (induction t u rule: list_all2_induct) (auto split: if_splits)

lemma sql_update_all2:
  "(\<And>r. R r r) \<Longrightarrow> (\<And>r. r \<in> set t \<Longrightarrow> p r \<Longrightarrow> R r (f r)) \<Longrightarrow> list_all2 R t (sql_update p f t)"
  by (induction t) auto

lemma order_asc_mset [simp]: "set (order_asc k t) = set t"
  by (simp add: order_asc_def)

lemma order_desc_mset [simp]: "set (order_desc k t) = set t"
  by (simp add: order_desc_def)

lemma length_order_asc [simp]: "length (order_asc k t) = length t"
  by (simp add: order_asc_def)

lemma length_order_desc [simp]: "length (order_desc k t) = length t"
  by (simp add: order_desc_def)

subsection \<open>A key column\<close>

text \<open>
  What a table with a unique key promises to the code that reads it: looking a key up finds
  exactly the row that holds it.
\<close>

lemma key_unique:
  "distinct (map k t) \<Longrightarrow> r \<in> set t \<Longrightarrow> r' \<in> set t \<Longrightarrow> k r = k r' \<Longrightarrow> r = r'"
  by (metis distinct_map inj_onD)

lemma sql_first_key:
  "distinct (map k t) \<Longrightarrow> r \<in> set t \<Longrightarrow> sql_first (\<lambda>x. k x = k r) t = Some r"
  by (induction t) (auto simp: image_iff)

end
