(* ===== verification/Common.thy ===== *)
theory Common
  imports Prelude
begin

text \<open>
  The package \<open>src/common\<close>: the exception classes, the JSON text of a response, the decorators
  that turn exceptions into responses and validate requests, the request context, and the helpers
  of \<open>utils.py\<close> that the services call.
\<close>

section \<open>common/exceptions.py\<close>

definition BadRequestException :: "string \<Rightarrow> pydict \<Rightarrow> exn" where
  "BadRequestException message details = CustomExc BadRequestClass 400 0 message details"

definition ForbiddenException :: exn where
  "ForbiddenException = CustomExc OtherClass 403 0 ''Access denied'' []"

definition NotFoundException :: "string \<Rightarrow> exn" where
  "NotFoundException message = CustomExc OtherClass 404 0 message []"

definition ContentTypeNotSupportedException :: exn where
  "ContentTypeNotSupportedException = CustomExc OtherClass 415 0 ''Content type is not supported'' []"

definition FailedResponse :: "int \<Rightarrow> string \<Rightarrow> pydict \<Rightarrow> exn" where
  "FailedResponse code message details = CustomExc FailedResponseClass 400 code message details"

definition MethodNotImplemented :: "pydict \<Rightarrow> exn" where
  "MethodNotImplemented details = CustomExc OtherClass 501 1001 ''Method not implemented'' details"

definition OperationNotAllowed :: "pydict \<Rightarrow> exn" where
  "OperationNotAllowed details = CustomExc OtherClass 403 1002 ''Operation not allowed'' details"

definition BadGateway :: "string \<Rightarrow> pydict \<Rightarrow> exn" where
  "BadGateway message details = CustomExc OtherClass 502 0 message details"

definition TooLargeFileException :: exn where
  "TooLargeFileException = BadRequestException ''Too large file'' []"

definition LighthouseInternalException :: exn where
  "LighthouseInternalException = BadRequestException ''Lighthouse internal exception'' []"

definition WrongTokenSymbolException :: exn where
  "WrongTokenSymbolException = BadRequestException ''Wrong token symbol'' []"

definition KeyError :: "string \<Rightarrow> exn" where
  "KeyError k = PyExc ''KeyError'' k"

definition TypeError :: exn where
  "TypeError = PyExc ''TypeError'' []"

definition AttributeError :: exn where
  "AttributeError = PyExc ''AttributeError'' []"

definition to_dict :: "int \<Rightarrow> string \<Rightarrow> pydict \<Rightarrow> pydict" where
  "to_dict code message details =
     [(''code'', PInt code), (''message'', PStr message), (''details'', PDict details)]"

text \<open>\<open>raise Exception(message)\<close>.\<close>

definition py_exception :: "string \<Rightarrow> exn" where
  "py_exception message = PyExc ''Exception'' message"

definition IndexError :: exn where
  "IndexError = PyExc ''IndexError'' ''list index out of range''"

text \<open>A commit that breaks a key constraint.\<close>

definition IntegrityError :: exn where
  "IntegrityError = PyExc ''IntegrityError'' []"

lemmas exception_defs = BadRequestException_def ForbiddenException_def NotFoundException_def
  FailedResponse_def KeyError_def TypeError_def AttributeError_def

section \<open>Reading values\<close>

text \<open>\<open>v[k]\<close> for a text key: a missing key is a KeyError, a value without text keys a TypeError.\<close>

definition getitem :: "pyval \<Rightarrow> string \<Rightarrow> exn + pyval" where
  "getitem v k =
     (case v of
        PDict d \<Rightarrow> (case dict_get d k of None \<Rightarrow> Inl (KeyError k) | Some x \<Rightarrow> Inr x)
      | _ \<Rightarrow> Inl TypeError)"

text \<open>\<open>k in v\<close> for a text \<open>k\<close>.\<close>

definition py_in :: "string \<Rightarrow> pyval \<Rightarrow> exn + bool" where
  "py_in k v =
     (case v of
        PDict d \<Rightarrow> Inr (dict_has d k)
      | PList vs \<Rightarrow> Inr (PStr k \<in> set vs)
      | PStr s \<Rightarrow> Inr (substring k s)
      | _ \<Rightarrow> Inl TypeError)"

text \<open>What \<open>for x in v\<close> iterates over, and \<open>len(v)\<close>.\<close>

definition py_items :: "pyval \<Rightarrow> exn + pyval list" where
  "py_items v =
     (case v of PList vs \<Rightarrow> Inr vs | PDict d \<Rightarrow> Inr (map (\<lambda>(k, _). PStr k) d)
      | PStr s \<Rightarrow> Inr (map (\<lambda>c. PStr [c]) s) | _ \<Rightarrow> Inl TypeError)"

text \<open>\<open>v.get(k, absent)\<close>.\<close>

definition get_default :: "pyval \<Rightarrow> string \<Rightarrow> pyval \<Rightarrow> exn + pyval" where
  "get_default v k absent =
     (case v of PDict d \<Rightarrow> Inr (case dict_get d k of None \<Rightarrow> absent | Some x \<Rightarrow> x) | _ \<Rightarrow> Inl AttributeError)"

section \<open>json.dumps\<close>

text \<open>
  \<open>json.dumps\<close> with its default arguments: ASCII text, escapes for quotes, backslashes, control
  characters and everything that is not printable ASCII. A \<open>datetime\<close> is not serialisable.
\<close>

definition hex_digit :: "nat \<Rightarrow> char" where
  "hex_digit n = (if n < 10 then char_of (48 + n) else char_of (87 + n))"

definition json_escape :: "char \<Rightarrow> string" where
  "json_escape c =
     (let n = (of_char c :: nat) in
      if n = 34 then [char_of (92 :: nat), char_of (34 :: nat)]
      else if n = 92 then [char_of (92 :: nat), char_of (92 :: nat)]
      else if n = 10 then [char_of (92 :: nat), CHR ''n'']
      else if n = 13 then [char_of (92 :: nat), CHR ''r'']
      else if n = 9 then [char_of (92 :: nat), CHR ''t'']
      else if n = 8 then [char_of (92 :: nat), CHR ''b'']
      else if n = 12 then [char_of (92 :: nat), CHR ''f'']
      else if n < 32 \<or> 126 < n then
        char_of (92 :: nat) # ''u00'' @ [hex_digit (n div 16), hex_digit (n mod 16)]
      else [c])"

definition json_string :: "string \<Rightarrow> string" where
  "json_string s = [char_of (34 :: nat)] @ concat (map json_escape s) @ [char_of (34 :: nat)]"

definition json_float :: "string \<Rightarrow> string" where
  "json_float r =
     (if r = ''nan'' then ''NaN'' else if r = ''inf'' then ''Infinity''
      else if r = ''-inf'' then ''-Infinity'' else r)"

fun json_dumps :: "pyval \<Rightarrow> exn + string"
  and json_dumps_list :: "pyval list \<Rightarrow> exn + string list"
  and json_dumps_items :: "pydict \<Rightarrow> exn + string list" where
  "json_dumps PNone = Inr ''null''"
| "json_dumps (PBool b) = Inr (if b then ''true'' else ''false'')"
| "json_dumps (PInt i) = Inr (str_int i)"
| "json_dumps (PFloat r) = Inr (json_float r)"
| "json_dumps (PStr s) = Inr (json_string s)"
| "json_dumps (PTime t) = Inl TypeError"
| "json_dumps (PList vs) =
     (case json_dumps_list vs of Inl e \<Rightarrow> Inl e | Inr ts \<Rightarrow> Inr (''['' @ join '', '' ts @ '']''))"
| "json_dumps (PDict d) =
     (case json_dumps_items d of Inl e \<Rightarrow> Inl e | Inr ts \<Rightarrow> Inr (''{'' @ join '', '' ts @ ''}''))"
| "json_dumps_list [] = Inr []"
| "json_dumps_list (v # vs) =
     (case json_dumps v of Inl e \<Rightarrow> Inl e
      | Inr t \<Rightarrow> (case json_dumps_list vs of Inl e \<Rightarrow> Inl e | Inr ts \<Rightarrow> Inr (t # ts)))"
| "json_dumps_items [] = Inr []"
| "json_dumps_items ((k, v) # d) =
     (case json_dumps v of Inl e \<Rightarrow> Inl e
      | Inr t \<Rightarrow> (case json_dumps_items d of Inl e \<Rightarrow> Inl e
          | Inr ts \<Rightarrow> Inr ((json_string k @ '': '' @ t) # ts)))"

text \<open>The values \<open>json.dumps\<close> accepts: those with no \<open>datetime\<close> inside.\<close>

fun serialisable :: "pyval \<Rightarrow> bool" where
  "serialisable (PTime t) = False"
| "serialisable (PList vs) = list_all serialisable vs"
| "serialisable (PDict d) = list_all (\<lambda>kv. serialisable (snd kv)) d"
| "serialisable v = True"

lemma json_dumps_serialisable:
  "(\<exists>t. json_dumps v = Inr t) \<longleftrightarrow> serialisable v"
  "(\<exists>ts. json_dumps_list vs = Inr ts) \<longleftrightarrow> list_all serialisable vs"
  "(\<exists>ts. json_dumps_items d = Inr ts) \<longleftrightarrow> list_all (\<lambda>kv. serialisable (snd kv)) d"
  by (induction v and vs and d rule: json_dumps_json_dumps_list_json_dumps_items.induct)
    (auto split: sum.splits)

section \<open>common/utils.py\<close>

fun validate_dict :: "pyval \<Rightarrow> string list \<Rightarrow> exn + bool" where
  "validate_dict data_dict [] = Inr True"
| "validate_dict data_dict (key # required_keys) =
     (case py_in key data_dict of
        Inl e \<Rightarrow> Inl e
      | Inr found \<Rightarrow> if \<not> found then Inr False else validate_dict data_dict required_keys)"

text \<open>\<open>validate_dict(..., strict=True)\<close>: the second pass looks the dict's keys up in the list of
  required keys.\<close>

definition validate_dict_strict :: "pydict \<Rightarrow> string list \<Rightarrow> exn + bool" where
  "validate_dict_strict data_dict required_keys =
     (case validate_dict (PDict data_dict) required_keys of
        Inl e \<Rightarrow> Inl e
      | Inr False \<Rightarrow> Inr False
      | Inr True \<Rightarrow> validate_dict (PList (map PStr required_keys)) (map fst data_dict))"

fun validate_dict_list :: "pyval list \<Rightarrow> string list \<Rightarrow> exn + bool" where
  "validate_dict_list [] required_keys = Inr True"
| "validate_dict_list (data # data_list) required_keys =
     (case validate_dict data required_keys of
        Inl e \<Rightarrow> Inl e
      | Inr False \<Rightarrow> Inr False
      | Inr True \<Rightarrow> validate_dict_list data_list required_keys)"

lemma validate_dict_PDict: "validate_dict (PDict d) ks = Inr (\<forall>k \<in> set ks. dict_has d k)"
  by (induction ks) (auto simp: py_in_def)

definition make_response :: "int \<Rightarrow> pyval \<Rightarrow> pyval \<Rightarrow> pydict" where
  "make_response status_code body header =
     [(''statusCode'', PInt status_code), (''headers'', header), (''body'', body)]"

definition make_response_body :: "pyval \<Rightarrow> pyval \<Rightarrow> pyval \<Rightarrow> pydict" where
  "make_response_body status data error = [(''status'', status), (''data'', data), (''error'', error)]"

record lambda_response =
  status_code :: nat
  resp_headers :: "(string \<times> string) list"
  resp_body :: string
  is_base64_encoded :: bool

definition cors_headers :: "string \<Rightarrow> (string \<times> string) list" where
  "cors_headers methods =
     [(''X-Requested-With'', ''*''),
      (''Access-Control-Allow-Headers'',
        ''Access-Control-Allow-Origin, Content-Type, X-Amz-Date, Authorization,X-Api-Key,x-requested-with''),
      (''Access-Control-Allow-Origin'', ''*''),
      (''Access-Control-Allow-Methods'', methods)]"

text \<open>No caller of this development passes extra headers.\<close>

definition generate_lambda_response :: "nat \<Rightarrow> pyval \<Rightarrow> bool \<Rightarrow> exn + lambda_response" where
  "generate_lambda_response code message cors_enabled =
     (case json_dumps message of
        Inl e \<Rightarrow> Inl e
      | Inr text \<Rightarrow> Inr
          \<lparr>status_code = code,
           resp_headers = (''Content-Type'', ''application/json'') #
             (if cors_enabled then cors_headers ''GET,OPTIONS,POST'' else []),
           resp_body = text, is_base64_encoded = False\<rparr>)"

lemma generate_lambda_response_serialisable:
  "serialisable message \<Longrightarrow>
   \<exists>r. generate_lambda_response code message c = Inr r \<and> status_code r = code
     \<and> json_dumps message = Inr (resp_body r)"
  by (auto simp: generate_lambda_response_def simp flip: json_dumps_serialisable(1))

text \<open>UTF-8 and Base64 of a text file.\<close>

definition utf8_char :: "char \<Rightarrow> nat list" where
  "utf8_char c = (let n = of_char c in if n < 128 then [n] else [192 + n div 64, 128 + n mod 64])"

definition base64_digit :: "nat \<Rightarrow> char" where
  "base64_digit n =
     (if n < 26 then char_of (65 + n) else if n < 52 then char_of (71 + n)
      else if n < 62 then char_of (n - 4) else if n = 62 then CHR ''+'' else CHR ''/'')"

fun b64encode :: "nat list \<Rightarrow> string" where
  "b64encode [] = []"
| "b64encode [a] = [base64_digit (a div 4), base64_digit ((a mod 4) * 16)] @ ''==''"
| "b64encode [a, b] =
     [base64_digit (a div 4), base64_digit ((a mod 4) * 16 + b div 16), base64_digit ((b mod 16) * 4)] @ ''=''"
| "b64encode (a # b # c # bytes) =
     [base64_digit (a div 4), base64_digit ((a mod 4) * 16 + b div 16),
      base64_digit ((b mod 16) * 4 + c div 64), base64_digit (c mod 64)] @ b64encode bytes"

definition generate_lambda_text_file_response :: "string \<Rightarrow> string \<Rightarrow> bool \<Rightarrow> lambda_response" where
  "generate_lambda_text_file_response content filename cors_enabled =
     \<lparr>status_code = 200,
      resp_headers =
        [(''Content-Type'', ''text/plain; charset=utf-8''),
         (''Content-Disposition'',
           ''attachment; filename='' @ [char_of (34 :: nat)] @ filename @ [char_of (34 :: nat)])] @
        (if cors_enabled then cors_headers ''GET,OPTIONS'' else []),
      resp_body = b64encode (concat (map utf8_char content)), is_base64_encoded = True\<rparr>"

definition format_response :: "string \<Rightarrow> pydict \<Rightarrow> pydict" where
  "format_response status response =
     (if status = ''success'' then [(''status'', PStr status), (''data'', PDict response)]
      else if status = ''failed'' then
        (let or_else = (\<lambda>k default. case dict_get response k of None \<Rightarrow> default | Some v \<Rightarrow> v) in
         [(''status'', PStr status),
          (''error'', PDict
            [(''code'', or_else ''code'' (PInt 0)),
             (''message'', or_else ''message'' (PStr ''Unexpected error'')),
             (''details'', or_else ''details'' (PDict []))])])
      else [])"

text \<open>\<open>chunked\<close>: \<open>range(0, len(items), size)\<close> rejects a zero step.\<close>

fun chunks :: "nat \<Rightarrow> nat \<Rightarrow> 'a list \<Rightarrow> 'a list list" where
  "chunks 0 step items = []"
| "chunks (Suc fuel) step items =
     (if items = [] then [] else take step items # chunks fuel step (drop step items))"

definition chunked :: "'a list \<Rightarrow> int \<Rightarrow> exn + 'a list list" where
  "chunked items step =
     (if step = 0 then Inl (PyExc ''ValueError'' ''range() arg 3 must not be zero'')
      else if step < 0 then Inr []
      else Inr (chunks (length items) (nat step) items))"

text \<open>The number of steps is enough: the batches are the list, in order.\<close>

lemma concat_chunks: "0 < step \<Longrightarrow> length items \<le> fuel \<Longrightarrow> concat (chunks fuel step items) = items"
  by (induction fuel step items rule: chunks.induct) auto

lemma chunked_concat: "0 < step \<Longrightarrow> \<exists>batches. chunked items step = Inr batches \<and> concat batches = items"
  by (auto simp: chunked_def concat_chunks)

subsection \<open>Keys in camel case\<close>

definition to_upper :: "char \<Rightarrow> char" where
  "to_upper c = (let n = (of_char c :: nat) in if 97 \<le> n \<and> n \<le> 122 then char_of (n - 32) else c)"

definition to_lower :: "char \<Rightarrow> char" where
  "to_lower c = (let n = (of_char c :: nat) in if 65 \<le> n \<and> n \<le> 90 then char_of (n + 32) else c)"

definition capitalize :: "string \<Rightarrow> string" where
  "capitalize w = (case w of [] \<Rightarrow> [] | c # cs \<Rightarrow> to_upper c # map to_lower cs)"

definition snake_to_camel :: "string \<Rightarrow> string" where
  "snake_to_camel snake_str =
     (case split_char (CHR ''_'') snake_str of
        [] \<Rightarrow> []
      | p # ps \<Rightarrow> p @ concat (map capitalize ps))"

text \<open>The keys one after the other: a later key that becomes the same camel-case key overwrites
  the value of an earlier one.\<close>

fun camel_value :: "bool \<Rightarrow> pyval \<Rightarrow> pyval"
  and camel_items :: "bool \<Rightarrow> pydict \<Rightarrow> pydict \<Rightarrow> pydict" where
  "camel_value recursively (PDict d) = (if recursively then PDict (camel_items recursively d []) else PDict d)"
| "camel_value recursively v = v"
| "camel_items recursively [] result = result"
| "camel_items recursively ((key, value) # rest) result =
     camel_items recursively rest (dict_set (snake_to_camel key) (camel_value recursively value) result)"

definition dict_keys_to_camel_case :: "pydict \<Rightarrow> bool \<Rightarrow> pydict" where
  "dict_keys_to_camel_case snake_keys_dict recursively = camel_items recursively snake_keys_dict []"

subsection \<open>Small text helpers\<close>

text \<open>\<open>s.replace(old, "")\<close> for a non-empty \<open>old\<close>.\<close>

fun remove_all :: "nat \<Rightarrow> string \<Rightarrow> string \<Rightarrow> string" where
  "remove_all 0 old s = s"
| "remove_all (Suc fuel) old [] = []"
| "remove_all (Suc fuel) old (x # xs) =
     (if prefix_of old (x # xs) then remove_all fuel old (drop (length old) (x # xs))
      else x # remove_all fuel old xs)"

text \<open>As many steps as characters are enough.\<close>

lemma remove_all_enough:
  "old \<noteq> [] \<Longrightarrow> length s \<le> m \<Longrightarrow> length s \<le> n \<Longrightarrow> remove_all m old s = remove_all n old s"
proof (induction m arbitrary: n s)
  case 0
  then show ?case by (cases n) simp_all
next
  case (Suc m)
  show ?case
  proof (cases s)
    case Nil
    then show ?thesis by (cases n) simp_all
  next
    case (Cons x xs)
    with Suc.prems obtain n' where n: "n = Suc n'" and le: "length xs \<le> m" "length xs \<le> n'" by (cases n) auto
    from Suc.prems(1) have "length (drop (length old) (x # xs)) \<le> length xs" by (cases old) simp_all
    with le Suc.prems(1) have "remove_all m old (drop (length old) (x # xs)) = remove_all n' old (drop (length old) (x # xs))"
      by (intro Suc.IH) linarith+
    moreover have "remove_all m old xs = remove_all n' old xs" using Suc.prems(1) le by (rule Suc.IH)
    ultimately show ?thesis by (simp add: Cons n)
  qed
qed

definition remove_http_https_prefix :: "string \<Rightarrow> string" where
  "remove_http_https_prefix url =
     (let url1 = remove_all (length url) ''https://'' url
      in remove_all (length url1) ''http://'' url1)"

text \<open>\<open>s.rstrip("\x00")\<close>.\<close>

definition rstrip_nul :: "string \<Rightarrow> string" where
  "rstrip_nul s = rev (dropWhile (\<lambda>c. c = CHR 0x00) (rev s))"

definition if_external_link :: "string \<Rightarrow> bool" where
  "if_external_link link = (prefix_of ''https://'' link \<or> prefix_of ''http://'' link)"

text \<open>The parts of a URL that \<open>urlparse\<close> gives.\<close>

record url_parts =
  url_scheme :: string
  url_hostname :: "string option"
  url_port :: "int option"

text \<open>The address of a daemon from its endpoint: whether the channel is secure, and host and port.\<close>

definition endpoint_channel :: "(string \<Rightarrow> exn + url_parts) \<Rightarrow> string \<Rightarrow> exn + bool \<times> string" where
  "endpoint_channel urlparse daemon_endpoint =
     sbind (urlparse daemon_endpoint) (\<lambda>url.
     case url_hostname url of
       None \<Rightarrow> Inl (PyExc ''ValueError'' (''Invalid daemon endpoint: '' @ daemon_endpoint))
     | Some hostname \<Rightarrow>
         let channel_endpoint = (case url_port url of Some port \<Rightarrow> hostname @ '':'' @ str_int port | None \<Rightarrow> hostname) in
         if url_scheme url = ''http'' then Inr (False, channel_endpoint)
         else if url_scheme url = ''https'' then Inr (True, channel_endpoint)
         else Inl (PyExc ''ValueError'' (''Unsupported scheme in service metadata ('' @ CHR 0x27 # url_scheme url @ CHR 0x27 # '')'')))"

section \<open>common/exception_handler.py\<close>

text \<open>
  The decorator with its default alerts processor, which only logs. The handler's exception
  becomes a response: a \<open>CustomException\<close> with its own code and fields, anything else a 500.
  \<open>response_fields\<close> is \<open>exc.http_code\<close> and \<open>exc.to_dict()\<close>.
\<close>

fun response_fields :: "exn \<Rightarrow> exn + nat \<times> pydict" where
  "response_fields (CustomExc cls http_code code message details) = Inr (http_code, to_dict code message details)"
| "response_fields (PyExc cls message) =
     Inr (500, [(''code'', PInt 0), (''message'', PStr ''Unexpected server error''), (''details'', PDict [])])"
| "response_fields (Uninitialised cls) = Inl AttributeError"
| "response_fields (DataExc cls v) =
     Inr (500, [(''code'', PInt 0), (''message'', PStr ''Unexpected server error''), (''details'', PDict [])])"

definition failure_response :: "exn \<Rightarrow> exn + lambda_response" where
  "failure_response exc =
     (case response_fields exc of
        Inl e \<Rightarrow> Inl e
      | Inr (http_code, response) \<Rightarrow>
          generate_lambda_response http_code (PDict (format_response ''failed'' response)) True)"

definition exception_handler :: "('s, lambda_response) prog \<Rightarrow> ('s, lambda_response) prog" where
  "exception_handler handler = try_except handler (\<lambda>exc. of_sum (failure_response exc))"

text \<open>The decorator of cron and trigger handlers: it swallows every exception.\<close>

definition worker_exception_handler :: "('s, pydict) prog \<Rightarrow> ('s, pydict) prog" where
  "worker_exception_handler handler = try_except handler (\<lambda>exc. ret [])"

section \<open>common/validation_handler.py\<close>

definition payload_error :: "string \<Rightarrow> string" where
  "payload_error payload_type =
     (if payload_type = ''body'' then ''Missing body''
      else if payload_type = ''queryStringParameters'' then ''Missing queryStringParameters''
      else if payload_type = ''pathParameters'' then ''Missing pathParameters''
      else ''Missing headers'')"

text \<open>The first payload the event lacks, or has as \<open>None\<close>.\<close>

fun missing_payload :: "string list \<Rightarrow> pydict \<Rightarrow> string option" where
  "missing_payload [] event = None"
| "missing_payload (t # ts) event =
     (if dict_get event t = None \<or> dict_get event t = Some PNone then Some t
      else missing_payload ts event)"

text \<open>
  The decorator around a request class's \<open>validate_event\<close>. The text of a pydantic
  \<open>ValidationError\<close> is turned into the list of errors by \<open>formatted_errors\<close>, the library's
  \<open>e.errors()\<close> with each location joined by dots.
\<close>

definition validation_handler ::
  "(string \<Rightarrow> pyval) \<Rightarrow> string list \<Rightarrow> (pydict \<Rightarrow> exn + 'a) \<Rightarrow> pydict \<Rightarrow> exn + 'a" where
  "validation_handler formatted_errors payload_types func event =
     (case (case missing_payload payload_types event of
              Some t \<Rightarrow> Inl (PyExc ''AssertionError'' (payload_error t))
            | None \<Rightarrow> func event) of
        Inr a \<Rightarrow> Inr a
      | Inl (PyExc cls text) \<Rightarrow>
          (if cls = ''ValidationError'' then
             Inl (BadRequestException ''Validation failed for request body.''
                    [(''validation_erros'', formatted_errors text)])
           else if cls = ''AssertionError'' then Inl (BadRequestException text [])
           else Inl (BadRequestException ''Error while parsing payload'' []))
      | Inl (CustomExc BadRequestClass h c m d) \<Rightarrow> Inl (CustomExc BadRequestClass h c m d)
      | Inl _ \<Rightarrow> Inl (BadRequestException ''Error while parsing payload'' []))"

section \<open>common/request_context.py\<close>

text \<open>
  API Gateway puts the claims and the headers in the event as text; a claim of another type is
  modelled as a \<open>TypeError\<close>. \<open>offline\<close> says whether \<open>IS_SERVERLESS_OFFLINE\<close> is \<open>true\<close>.
  \<open>RequestContext_as\<close> is the call with a user name and an account of its own, both not empty.
\<close>

record request_context =
  rc_username :: string
  rc_origin :: string
  rc_account_id :: string

fun keyerror_as_bad_request :: "exn + 'a \<Rightarrow> exn + 'a" where
  "keyerror_as_bad_request (Inr a) = Inr a"
| "keyerror_as_bad_request (Inl e) =
     (case e of
        PyExc cls text \<Rightarrow> Inl (if cls = ''KeyError'' then BadRequestException [] [] else PyExc cls text)
      | _ \<Rightarrow> Inl e)"

fun as_text :: "pyval \<Rightarrow> exn + string" where
  "as_text (PStr s) = Inr s"
| "as_text v = Inl TypeError"

fun getitems :: "pyval \<Rightarrow> string list \<Rightarrow> exn + pyval" where
  "getitems v [] = Inr v"
| "getitems v (k # ks) = sbind (getitem v k) (\<lambda>w. getitems w ks)"

definition extract_claim :: "pydict \<Rightarrow> string \<Rightarrow> exn + string" where
  "extract_claim event claim =
     sbind (keyerror_as_bad_request
              (getitems (PDict event) [''requestContext'', ''authorizer'', ''claims'', claim]))
       as_text"

definition extract_username :: "bool \<Rightarrow> pydict \<Rightarrow> exn + string" where
  "extract_username offline event =
     (if offline then Inr ''SERVERLESS_OFFLINE_USER'' else extract_claim event ''email'')"

definition extract_account_id :: "bool \<Rightarrow> pydict \<Rightarrow> exn + string" where
  "extract_account_id offline event =
     (if offline then Inr ''SERVERLESS_OFFLINE_ACCOUNT_ID'' else extract_claim event ''sub'')"

definition extract_origin :: "bool \<Rightarrow> pydict \<Rightarrow> exn + string" where
  "extract_origin offline event =
     (if offline then Inr ''SERVERLESS_OFFLINE_ORIGIN''
      else case keyerror_as_bad_request (getitem (PDict event) ''headers'') of
        Inl e \<Rightarrow> Inl e
      | Inr (PDict hs) \<Rightarrow>
          (let pick = (\<lambda>k. case dict_get hs k of None \<Rightarrow> PNone | Some v \<Rightarrow> v);
               value = (if truthy (pick ''origin'') then pick ''origin'' else pick ''Origin'')
           in if \<not> truthy value then Inl (BadRequestException [] []) else as_text value)
      | Inr _ \<Rightarrow> Inl AttributeError)"

definition RequestContext :: "bool \<Rightarrow> pydict \<Rightarrow> exn + request_context" where
  "RequestContext offline event =
     sbind (extract_username offline event) (\<lambda>user.
     sbind (extract_origin offline event) (\<lambda>orig.
     sbind (extract_account_id offline event) (\<lambda>account.
     Inr \<lparr>rc_username = user, rc_origin = orig, rc_account_id = account\<rparr>)))"

definition RequestContext_as :: "bool \<Rightarrow> pydict \<Rightarrow> string \<Rightarrow> string \<Rightarrow> exn + request_context" where
  "RequestContext_as offline event username account_id =
     sbind (extract_origin offline event) (\<lambda>orig.
     Inr \<lparr>rc_username = username, rc_origin = orig, rc_account_id = account_id\<rparr>)"

end
