(* ===== verification/Payments.thy ===== *)
theory Payments
  imports Common
begin

text \<open>
  The payment service, \<open>src/payments\<close>: the order and payment objects, PayPal payments, the order
  repository over its two tables, the order manager and the HTTP handlers. PayPal, the parameter
  store, \<open>json.loads\<close> and the URL templates of the configuration are fields of an environment;
  PayPal's answers may depend on every PayPal call made so far.
\<close>

section \<open>State and environment\<close>

record order_row =
  or_id :: string
  or_amount :: pydict
  or_username :: pyval
  or_created_at :: time
  or_item_details :: pyval

record payment_row =
  pr_payment_id :: string
  pr_amount :: pydict
  pr_order_id :: string
  pr_payment_details :: pydict
  pr_payment_status :: string
  pr_created_at :: time

record pay_db =
  order_table :: "order_row list"
  payment_table :: "payment_row list"

datatype paypal_call = PayPalCreate pydict | PayPalExecute string pyval

record pay_state =
  pay_db :: pay_db
  paypal_calls :: "paypal_call list"
  uuid_count :: nat

record pay_env =
  pay_now :: time
  pay_json_loads :: "string \<Rightarrow> exn + pyval"
  pay_uuid :: "nat \<Rightarrow> string"
  ssm_parameter :: "string \<Rightarrow> exn + string"
  paypal_create :: "paypal_call list \<Rightarrow> pydict \<Rightarrow> exn + (string \<times> (string \<times> string) list) option"
  paypal_find :: "paypal_call list \<Rightarrow> string \<Rightarrow> exn + unit"
  paypal_execute :: "paypal_call list \<Rightarrow> string \<Rightarrow> pyval \<Rightarrow> exn + bool"
  PAYPAL_CLIENT :: string
  PAYPAL_SECRET :: string
  return_url_format :: "pyval \<Rightarrow> pyval \<Rightarrow> string \<Rightarrow> string \<Rightarrow> string"
  cancel_url_format :: "pyval \<Rightarrow> pyval \<Rightarrow> string \<Rightarrow> string \<Rightarrow> string"

definition PAYMENT_METHOD_PAYPAL :: pyval where
  "PAYMENT_METHOD_PAYPAL = PStr ''paypal''"

definition uuid1 :: "pay_env \<Rightarrow> (pay_state, string) prog" where
  "uuid1 env =
     (\<lambda>s. (Inr (pay_uuid env (uuid_count s)), s\<lparr>uuid_count := Suc (uuid_count s)\<rparr>))"

section \<open>Payments\<close>

text \<open>
  \<open>payment_class\<close> is the class of the object: its \<open>initiate_payment\<close> and \<open>execute_transaction\<close>
  do nothing and return \<open>None\<close> in the base class.
\<close>

datatype payment_class = BasePayment | PaypalPayment

record payment =
  p_class :: payment_class
  p_payment_id :: string
  p_amount :: pyval
  p_currency :: pyval
  p_payment_status :: string
  p_created_at :: time
  p_payment_details :: pydict

definition payee_client_api :: "pay_env \<Rightarrow> (pay_state, unit) prog" where
  "payee_client_api env =
     andthen (of_sum (ssm_parameter env (PAYPAL_CLIENT env))) (\<lambda>_.
     andthen (of_sum (ssm_parameter env (PAYPAL_SECRET env))) (\<lambda>_. ret ()))"

definition get_paypal_payload :: "pay_env \<Rightarrow> payment \<Rightarrow> string \<Rightarrow> pyval \<Rightarrow> pyval \<Rightarrow> pydict" where
  "get_paypal_payload env self order_id org_id service_id =
     [(''intent'', PStr ''sale''),
      (''payer'', PDict [(''payment_method'', PAYMENT_METHOD_PAYPAL)]),
      (''redirect_urls'', PDict
        [(''return_url'', PStr (return_url_format env org_id service_id order_id (p_payment_id self))),
         (''cancel_url'', PStr (cancel_url_format env org_id service_id order_id (p_payment_id self)))]),
      (''transactions'', PList [PDict
        [(''item_list'', PDict
           [(''items'', PList [PDict
              [(''name'', PStr ''item''), (''sku'', PStr ''item''),
               (''price'', p_amount self), (''currency'', p_currency self),
               (''quantity'', PInt 1)]])]),
         (''amount'', PDict [(''total'', p_amount self), (''currency'', p_currency self)]),
         (''description'', PStr '''')]])]"

text \<open>The link loop keeps the last approval link.\<close>

definition approval_url :: "(string \<times> string) list \<Rightarrow> string" where
  "approval_url links =
     fold (\<lambda>(rel, href) url. if rel = ''approval_url'' then href else url) links ''''"

definition initiate_payment ::
  "pay_env \<Rightarrow> payment \<Rightarrow> string \<Rightarrow> pyval \<Rightarrow> (pay_state, payment \<times> pydict) prog" where
  "initiate_payment env self order_id item_details =
     andthen (payee_client_api env) (\<lambda>_.
     andthen (of_sum (getitem item_details ''org_id'')) (\<lambda>org_id.
     andthen (of_sum (getitem item_details ''service_id'')) (\<lambda>service_id.
     (let payload = get_paypal_payload env self order_id org_id service_id in
     andthen (gets (\<lambda>s. paypal_create env (paypal_calls s) payload)) (\<lambda>answer.
     andthen (modify (\<lambda>s. s\<lparr>paypal_calls := paypal_calls s @ [PayPalCreate payload]\<rparr>)) (\<lambda>_.
     andthen (of_sum answer) (\<lambda>created.
     (case created of
        None \<Rightarrow> raise (PyExc ''Exception'' ''Payment failed to create'')
      | Some (paypal_id, links) \<Rightarrow>
          if approval_url links = '''' then raise (PyExc ''Exception'' ''Payment link not found'')
          else ret
            (self\<lparr>p_payment_details := dict_set ''payment_id'' (PStr paypal_id) (p_payment_details self)\<rparr>,
             [(''id'', PStr paypal_id), (''payment_url'', PStr (approval_url links))])))))))))"

definition paypal_execute_transaction ::
  "pay_env \<Rightarrow> payment \<Rightarrow> pyval \<Rightarrow> (pay_state, payment \<times> bool) prog" where
  "paypal_execute_transaction env self paid_payment_details =
     andthen (payee_client_api env) (\<lambda>_.
     andthen (of_sum (sbind (getitem (PDict (p_payment_details self)) ''payment_id'') as_text)) (\<lambda>paypal_payment_id.
     andthen (of_sum (getitem paid_payment_details ''payer_id'')) (\<lambda>payer_id.
     andthen (gets (\<lambda>s. paypal_find env (paypal_calls s) paypal_payment_id)) (\<lambda>found.
     andthen (of_sum found) (\<lambda>_.
     andthen (gets (\<lambda>s. paypal_execute env (paypal_calls s) paypal_payment_id payer_id)) (\<lambda>answer.
     andthen (modify (\<lambda>s. s\<lparr>paypal_calls := paypal_calls s @ [PayPalExecute paypal_payment_id payer_id]\<rparr>)) (\<lambda>_.
     andthen (of_sum answer) (\<lambda>executed.
     ret (if executed then (self\<lparr>p_payment_status := ''SUCCESS''\<rparr>, True)
          else if p_payment_status self = ''PENDING'' then (self\<lparr>p_payment_status := ''FAILED''\<rparr>, False)
          else (self, False))))))))))"

definition execute_transaction ::
  "pay_env \<Rightarrow> payment \<Rightarrow> pyval \<Rightarrow> (pay_state, payment \<times> bool) prog" where
  "execute_transaction env self paid_payment_details =
     (case p_class self of
        BasePayment \<Rightarrow> ret (self, False)
      | PaypalPayment \<Rightarrow> paypal_execute_transaction env self paid_payment_details)"

section \<open>Orders\<close>

record order =
  o_order_id :: string
  o_amount :: pyval
  o_currency :: pyval
  o_item_details :: pyval
  o_username :: pyval
  o_payments :: "payment list"

text \<open>The text of a value in the message of an exception; only texts occur.\<close>

fun message_text :: "pyval \<Rightarrow> string" where
  "message_text (PStr s) = s"
| "message_text v = ''''"

definition create_payment ::
  "pay_env \<Rightarrow> order \<Rightarrow> pyval \<Rightarrow> pyval \<Rightarrow> pyval \<Rightarrow> (pay_state, order \<times> payment \<times> pydict) prog" where
  "create_payment env self amount currency payment_method =
     (if payment_method = PAYMENT_METHOD_PAYPAL then
        andthen (uuid1 env) (\<lambda>payment_id.
        andthen (initiate_payment env
          \<lparr>p_class = PaypalPayment, p_payment_id = payment_id, p_amount = amount,
           p_currency = currency, p_payment_status = ''PENDING'', p_created_at = pay_now env,
           p_payment_details = [(''payment_method'', payment_method)]\<rparr>
          (o_order_id self) (o_item_details self)) (\<lambda>(payment, response).
        ret (self\<lparr>o_payments := o_payments self @ [payment]\<rparr>, payment, response)))
      else raise (PyExc ''Exception'' (''Invalid payment method: '' @ message_text payment_method)))"

definition get_payment :: "order \<Rightarrow> string \<Rightarrow> payment option" where
  "get_payment self payment_id = sql_first (\<lambda>p. p_payment_id p = payment_id) (o_payments self)"

text \<open>The order after the payment object found by \<open>get_payment\<close> was changed in place.\<close>

definition with_payment :: "payment \<Rightarrow> order \<Rightarrow> order" where
  "with_payment p self =
     self\<lparr>o_payments :=
       update_first (\<lambda>q. p_payment_id q = p_payment_id p) (\<lambda>_. p) (o_payments self)\<rparr>"

definition execute_payment ::
  "pay_env \<Rightarrow> order \<Rightarrow> string \<Rightarrow> pyval \<Rightarrow> pyval \<Rightarrow> (pay_state, order \<times> payment) prog" where
  "execute_payment env self payment_id paid_payment_details payment_method =
     (if payment_method = PAYMENT_METHOD_PAYPAL then
        (case get_payment self payment_id of
           None \<Rightarrow> raise AttributeError
         | Some payment \<Rightarrow>
             andthen (execute_transaction env payment paid_payment_details) (\<lambda>(payment', executed).
             if \<not> executed then raise (PyExc ''Exception'' ''Failed payment execution'')
             else ret (with_payment payment' self, payment')))
      else raise (PyExc ''Exception'' (''Invalid payment gateway '' @ message_text payment_method)))"

definition cancel_payment :: "order \<Rightarrow> string \<Rightarrow> exn + order" where
  "cancel_payment self payment_id =
     (case get_payment self payment_id of
        None \<Rightarrow> Inl AttributeError
      | Some payment \<Rightarrow>
          if p_payment_status payment = ''SUCCESS'' then
            Inl (PyExc ''Exception'' (''Payment '' @ payment_id @ '' is already in success status''))
          else if p_payment_status payment = ''FAILED'' then
            Inl (PyExc ''Exception'' (''Payment '' @ payment_id @ '' is already in failed status''))
          else Inr (with_payment (payment\<lparr>p_payment_status := ''FAILED''\<rparr>) self))"

section \<open>The order factory\<close>

text \<open>\<open>order.payments\<close> is the relationship of the row: the payments with the order's id.\<close>

definition payments_of :: "order_row \<Rightarrow> pay_db \<Rightarrow> payment_row list" where
  "payments_of r db = filter (\<lambda>p. pr_order_id p = or_id r) (payment_table db)"

definition payment_from_row :: "payment_row \<Rightarrow> exn + payment" where
  "payment_from_row r =
     sbind (getitem (PDict (pr_amount r)) ''amount'') (\<lambda>amount.
     sbind (getitem (PDict (pr_amount r)) ''currency'') (\<lambda>currency.
     Inr \<lparr>p_class =
            (if dict_get (pr_payment_details r) ''payment_method'' = Some (PStr ''paypal'')
             then PaypalPayment else BasePayment),
          p_payment_id = pr_payment_id r, p_amount = amount, p_currency = currency,
          p_payment_status = pr_payment_status r, p_created_at = pr_created_at r,
          p_payment_details = pr_payment_details r\<rparr>))"

definition create_order_from_repository_order :: "order_row \<Rightarrow> pay_db \<Rightarrow> exn + order" where
  "create_order_from_repository_order r db =
     sbind (smap payment_from_row (payments_of r db)) (\<lambda>payments.
     sbind (getitem (PDict (or_amount r)) ''amount'') (\<lambda>amount.
     sbind (getitem (PDict (or_amount r)) ''currency'') (\<lambda>currency.
     Inr \<lparr>o_order_id = or_id r, o_amount = amount, o_currency = currency,
          o_item_details = or_item_details r, o_username = or_username r,
          o_payments = payments\<rparr>)))"

definition factory_create_order ::
  "pay_env \<Rightarrow> pyval \<Rightarrow> pyval \<Rightarrow> pyval \<Rightarrow> pyval \<Rightarrow> (pay_state, order) prog" where
  "factory_create_order env amount currency item_details username =
     andthen (uuid1 env) (\<lambda>order_id.
     ret \<lparr>o_order_id = order_id, o_amount = amount, o_currency = currency,
          o_item_details = item_details, o_username = username, o_payments = []\<rparr>)"

definition price_of :: "pydict \<Rightarrow> exn + pyval" where
  "price_of amount =
     sbind (getitem (PDict amount) ''amount'') (\<lambda>a.
     sbind (getitem (PDict amount) ''currency'') (\<lambda>c.
     Inr (PDict [(''amount'', a), (''currency'', c)])))"

definition payment_details_entry :: "payment_row \<Rightarrow> exn + pyval" where
  "payment_details_entry r =
     sbind (price_of (pr_amount r)) (\<lambda>price.
     Inr (PDict
       [(''payment_id'', PStr (pr_payment_id r)), (''price'', price),
        (''payment_details'', PDict (pr_payment_details r)),
        (''payment_status'', PStr (pr_payment_status r)),
        (''created_at'', PStr (strftime (pr_created_at r)))]))"

definition create_order_details_from_repository :: "order_row \<Rightarrow> pay_db \<Rightarrow> exn + pydict" where
  "create_order_details_from_repository r db =
     sbind (price_of (or_amount r)) (\<lambda>price.
     sbind (smap payment_details_entry (payments_of r db)) (\<lambda>payments.
     Inr
       [(''order_id'', PStr (or_id r)), (''price'', price), (''username'', or_username r),
        (''created_at'', PStr (strftime (or_created_at r))),
        (''item_details'', or_item_details r), (''payments'', PList payments)]))"

definition get_order_details :: "order_row list \<Rightarrow> pay_db \<Rightarrow> exn + pydict" where
  "get_order_details orders db =
     sbind (smap (\<lambda>r. create_order_details_from_repository r db) orders) (\<lambda>details.
     Inr [(''orders'', PList (map PDict details))])"

section \<open>The order repository\<close>

text \<open>
  A commit that breaks a primary key raises \<open>IntegrityError\<close> and is rolled back.
\<close>

definition add_order :: "order_row \<Rightarrow> (pay_state, unit) prog" where
  "add_order r =
     andthen (gets (\<lambda>s. or_id r \<in> set (map or_id (order_table (pay_db s))))) (\<lambda>taken.
     if taken then raise IntegrityError
     else modify (\<lambda>s. s\<lparr>pay_db := (pay_db s)\<lparr>order_table := order_table (pay_db s) @ [r]\<rparr>\<rparr>))"

definition add_payment :: "payment_row \<Rightarrow> (pay_state, unit) prog" where
  "add_payment r =
     andthen (gets (\<lambda>s. pr_payment_id r \<in> set (map pr_payment_id (payment_table (pay_db s)))
               \<or> pr_order_id r \<notin> set (map or_id (order_table (pay_db s))))) (\<lambda>refused.
     if refused then raise IntegrityError
     else modify (\<lambda>s. s\<lparr>pay_db := (pay_db s)\<lparr>payment_table := payment_table (pay_db s) @ [r]\<rparr>\<rparr>))"

definition persist_order :: "pay_env \<Rightarrow> order \<Rightarrow> (pay_state, unit) prog" where
  "persist_order env order =
     add_order
       \<lparr>or_id = o_order_id order,
        or_amount = [(''amount'', o_amount order), (''currency'', o_currency order)],
        or_username = o_username order, or_created_at = pay_now env,
        or_item_details = o_item_details order\<rparr>"

definition get_order_by_order_id :: "string \<Rightarrow> (pay_state, order_row) prog" where
  "get_order_by_order_id order_id =
     andthen (gets (\<lambda>s. sql_first (\<lambda>r. or_id r = order_id) (order_table (pay_db s)))) (\<lambda>found.
     case found of
       None \<Rightarrow> raise (PyExc ''Exception'' (''No order found with id: '' @ order_id))
     | Some r \<Rightarrow> ret r)"

definition persist_payment :: "order \<Rightarrow> string \<Rightarrow> (pay_state, unit) prog" where
  "persist_payment order payment_id =
     (case get_payment order payment_id of
        None \<Rightarrow> raise (PyExc ''Exception'' (''Payment not found in order instance for the '' @ payment_id))
      | Some payment \<Rightarrow> add_payment
          \<lparr>pr_payment_id = p_payment_id payment,
           pr_amount = [(''amount'', p_amount payment), (''currency'', p_currency payment)],
           pr_order_id = o_order_id order, pr_payment_details = p_payment_details payment,
           pr_payment_status = p_payment_status payment, pr_created_at = p_created_at payment\<rparr>)"

definition update_payment_status :: "order \<Rightarrow> string \<Rightarrow> (pay_state, unit) prog" where
  "update_payment_status order payment_id =
     (case get_payment order payment_id of
        None \<Rightarrow> raise (PyExc ''Exception'' (''Payment not found in order instance for the '' @ payment_id))
      | Some payment \<Rightarrow>
          andthen (gets (\<lambda>s. sql_first (\<lambda>r. or_id r = o_order_id order) (order_table (pay_db s)))) (\<lambda>found.
          case found of
            None \<Rightarrow> raise AttributeError
          | Some order_item \<Rightarrow> modify (\<lambda>s. s\<lparr>pay_db := (pay_db s)\<lparr>payment_table :=
              update_first (\<lambda>r. pr_order_id r = or_id order_item \<and> pr_payment_id r = p_payment_id payment)
                (\<lambda>r. r\<lparr>pr_payment_status := p_payment_status payment\<rparr>)
                (payment_table (pay_db s))\<rparr>\<rparr>)))"

definition get_order_by_username :: "pyval \<Rightarrow> (pay_state, order_row list) prog" where
  "get_order_by_username username =
     gets (\<lambda>s. filter (\<lambda>r. or_username r = username) (order_table (pay_db s)))"

section \<open>The order manager\<close>

definition load_order :: "string \<Rightarrow> (pay_state, order) prog" where
  "load_order order_id =
     andthen (get_order_by_order_id order_id) (\<lambda>r.
     andthen (gets (\<lambda>s. create_order_from_repository_order r (pay_db s))) of_sum)"

definition create_order ::
  "pay_env \<Rightarrow> pyval \<Rightarrow> pyval \<Rightarrow> pyval \<Rightarrow> pyval \<Rightarrow> (pay_state, pydict) prog" where
  "create_order env amount currency item_details username =
     andthen (factory_create_order env amount currency item_details username) (\<lambda>order.
     andthen (persist_order env order) (\<lambda>_.
     ret [(''order_id'', PStr (o_order_id order)), (''item_details'', o_item_details order),
          (''price'', PDict [(''amount'', o_amount order), (''currency'', o_currency order)])]))"

definition initiate_payment_against_order ::
  "pay_env \<Rightarrow> string \<Rightarrow> pyval \<Rightarrow> pyval \<Rightarrow> pyval \<Rightarrow> (pay_state, pydict) prog" where
  "initiate_payment_against_order env order_id amount currency payment_method =
     andthen (load_order order_id) (\<lambda>order.
     andthen (create_payment env order amount currency payment_method) (\<lambda>(order', payment, response).
     andthen (persist_payment order' (p_payment_id payment)) (\<lambda>_.
     ret [(''price'', PDict [(''amount'', p_amount payment), (''currency'', p_currency payment)]),
          (''payment_id'', PStr (p_payment_id payment)),
          (''payment'', PDict (dict_set ''payment_method'' payment_method response)),
          (''order_id'', PStr (o_order_id order'))])))"

definition execute_payment_against_order ::
  "pay_env \<Rightarrow> string \<Rightarrow> string \<Rightarrow> pyval \<Rightarrow> pyval \<Rightarrow> (pay_state, pydict) prog" where
  "execute_payment_against_order env order_id payment_id payment_details payment_method =
     andthen (load_order order_id) (\<lambda>order.
     andthen (execute_payment env order payment_id payment_details payment_method) (\<lambda>(order', payment).
     andthen (update_payment_status order' (p_payment_id payment)) (\<lambda>_.
     ret [(''payment_id'', PStr (p_payment_id payment)),
          (''payment'', PDict (p_payment_details payment)),
          (''order_id'', PStr (o_order_id order'))])))"

definition get_order_details_for_user :: "pyval \<Rightarrow> (pay_state, pydict) prog" where
  "get_order_details_for_user username =
     andthen (get_order_by_username username) (\<lambda>orders.
     andthen (gets (\<lambda>s. get_order_details orders (pay_db s))) of_sum)"

definition cancel_payment_against_order :: "string \<Rightarrow> string \<Rightarrow> (pay_state, string) prog" where
  "cancel_payment_against_order order_id payment_id =
     andthen (load_order order_id) (\<lambda>order.
     andthen (of_sum (cancel_payment order payment_id)) (\<lambda>order'.
     andthen (update_payment_status order' payment_id) (\<lambda>_. ret ''Success'')))"

definition get_order_from_order_id :: "string \<Rightarrow> (pay_state, pydict) prog" where
  "get_order_from_order_id order_id =
     andthen (get_order_by_order_id order_id) (\<lambda>r.
     andthen (gets (\<lambda>s. create_order_details_from_repository r (pay_db s))) of_sum)"

section \<open>HTTP handlers\<close>

text \<open>
  Every handler has the same frame: the body in \<open>try\<close>, any exception turned into a 500 with the
  handler's own text, the response built after the \<open>try\<close>. \<open>bad_request\<close> is the \<open>else\<close> branch.
\<close>

definition respond_to :: "string \<Rightarrow> (pay_state, nat \<times> pyval) prog \<Rightarrow> (pay_state, lambda_response) prog" where
  "respond_to failure_message attempt =
     andthen (try_except attempt (\<lambda>e. ret (500, PStr failure_message))) (\<lambda>(code, response).
     of_sum (generate_lambda_response code response False))"

definition bad_request :: "(pay_state, nat \<times> pyval) prog" where
  "bad_request = ret (400, PStr ''Bad Request'')"

definition json_body :: "pay_env \<Rightarrow> pydict \<Rightarrow> (pay_state, pyval) prog" where
  "json_body env event =
     of_sum (sbind (getitem (PDict event) ''body'') (\<lambda>b. sbind (as_text b) (pay_json_loads env)))"

definition handle_create :: "pay_env \<Rightarrow> pydict \<Rightarrow> (pay_state, lambda_response) prog" where
  "handle_create env event = respond_to ''Failed to create order''
     (andthen (json_body env event) (\<lambda>payload.
      andthen (of_sum (validate_dict payload [''price'', ''username''])) (\<lambda>valid.
      if \<not> valid then bad_request else
      andthen (of_sum (getitems payload [''price'', ''amount''])) (\<lambda>amount.
      andthen (of_sum (getitems payload [''price'', ''currency''])) (\<lambda>currency.
      andthen (of_sum (getitem payload ''username'')) (\<lambda>username.
      andthen (of_sum (getitem payload ''item_details'')) (\<lambda>item_details.
      andthen (create_order env amount currency item_details username) (\<lambda>response.
      ret (201, PDict response)))))))))"

definition handle_get_order_details_for_user :: "pydict \<Rightarrow> (pay_state, lambda_response) prog" where
  "handle_get_order_details_for_user event = respond_to ''Failed to fetch order details''
     (andthen (of_sum (getitem (PDict event) ''queryStringParameters'')) (\<lambda>params.
      andthen (of_sum (py_in ''username'' params)) (\<lambda>present.
      if \<not> present then bad_request else
      andthen (of_sum (getitem params ''username'')) (\<lambda>username.
      andthen (get_order_details_for_user username) (\<lambda>response.
      ret (200, PDict response))))))"

definition handle_get_order_from_order_id :: "pydict \<Rightarrow> (pay_state, lambda_response) prog" where
  "handle_get_order_from_order_id event = respond_to ''Internal Server Error''
     (andthen (of_sum (getitem (PDict event) ''pathParameters'')) (\<lambda>params.
      andthen (of_sum (py_in ''order_id'' params)) (\<lambda>present.
      if \<not> present then bad_request else
      andthen (of_sum (sbind (getitem params ''order_id'') as_text)) (\<lambda>order_id.
      andthen (get_order_from_order_id order_id) (\<lambda>response.
      ret (200, PDict response))))))"

definition handle_initiate :: "pay_env \<Rightarrow> pydict \<Rightarrow> (pay_state, lambda_response) prog" where
  "handle_initiate env event = respond_to ''Failed to initiate payment''
     (andthen (json_body env event) (\<lambda>payload.
      andthen (of_sum (getitem (PDict event) ''pathParameters'')) (\<lambda>path_parameters.
      andthen (of_sum (sbind (validate_dict payload [''price'', ''payment_method'']) (\<lambda>valid.
        if \<not> valid then Inr False else validate_dict path_parameters [''order_id'']))) (\<lambda>valid.
      if \<not> valid then bad_request else
      andthen (of_sum (sbind (getitem path_parameters ''order_id'') as_text)) (\<lambda>order_id.
      andthen (of_sum (getitems payload [''price'', ''amount''])) (\<lambda>amount.
      andthen (of_sum (getitems payload [''price'', ''currency''])) (\<lambda>currency.
      andthen (of_sum (getitem payload ''payment_method'')) (\<lambda>payment_method.
      andthen (initiate_payment_against_order env order_id amount currency payment_method) (\<lambda>response.
      ret (201, PDict response))))))))))"

definition handle_execute :: "pay_env \<Rightarrow> pydict \<Rightarrow> (pay_state, lambda_response) prog" where
  "handle_execute env event = respond_to ''Failed to execute payment''
     (andthen (json_body env event) (\<lambda>payload.
      andthen (of_sum (getitem (PDict event) ''pathParameters'')) (\<lambda>path_parameters.
      andthen (of_sum (sbind (validate_dict payload [''payment_method'', ''payment_details'']) (\<lambda>valid.
        if \<not> valid then Inr False else validate_dict path_parameters [''order_id'', ''payment_id'']))) (\<lambda>valid.
      if \<not> valid then bad_request else
      andthen (of_sum (sbind (getitem path_parameters ''order_id'') as_text)) (\<lambda>order_id.
      andthen (of_sum (sbind (getitem path_parameters ''payment_id'') as_text)) (\<lambda>payment_id.
      andthen (of_sum (getitem payload ''payment_method'')) (\<lambda>payment_method.
      andthen (of_sum (getitem payload ''payment_details'')) (\<lambda>payment_details.
      andthen (execute_payment_against_order env order_id payment_id payment_details payment_method) (\<lambda>response.
      ret (201, PDict response))))))))))"

definition handle_cancel :: "pydict \<Rightarrow> (pay_state, lambda_response) prog" where
  "handle_cancel event = respond_to ''Failed to cancel payment''
     (andthen (of_sum (getitem (PDict event) ''pathParameters'')) (\<lambda>path_parameters.
      andthen (of_sum (validate_dict path_parameters [''order_id'', ''payment_id''])) (\<lambda>valid.
      if \<not> valid then bad_request else
      andthen (of_sum (sbind (getitem path_parameters ''order_id'') as_text)) (\<lambda>order_id.
      andthen (of_sum (sbind (getitem path_parameters ''payment_id'') as_text)) (\<lambda>payment_id.
      andthen (cancel_payment_against_order order_id payment_id) (\<lambda>response.
      ret (201, PStr response)))))))"

end
