(* ===== verification/Payment_Laws.thy ===== *)
theory Payment_Laws
  imports Payments
begin

text \<open>
  What the payment service keeps true: how persisted payments may change (\<open>payments_evolve\<close>, a
  \<open>step_frame\<close>), what the tables always satisfy (\<open>pay_ok\<close>), the behaviour of the order manager's
  operations on every branch, and the responses of the handlers.
\<close>

section \<open>Requests\<close>

text \<open>The calls of the order manager that change the database, in any order, from any instance of
  the service (each with its own clock and external world).\<close>

datatype pay_request =
    CreateOrder pyval pyval pyval pyval
  | InitiatePayment string pyval pyval pyval
  | ExecutePayment string string pyval pyval
  | CancelPayment string string

fun perform :: "pay_env \<Rightarrow> pay_request \<Rightarrow> pay_state \<Rightarrow> pay_state" where
  "perform env (CreateOrder amount currency item_details username) s =
     snd (create_order env amount currency item_details username s)"
| "perform env (InitiatePayment order_id amount currency payment_method) s =
     snd (initiate_payment_against_order env order_id amount currency payment_method s)"
| "perform env (ExecutePayment order_id payment_id payment_details payment_method) s =
     snd (execute_payment_against_order env order_id payment_id payment_details payment_method s)"
| "perform env (CancelPayment order_id payment_id) s =
     snd (cancel_payment_against_order order_id payment_id s)"

fun serve :: "(pay_env \<times> pay_request) list \<Rightarrow> pay_state \<Rightarrow> pay_state" where
  "serve [] s = s"
| "serve ((env, r) # rs) s = serve rs (perform env r s)"

section \<open>How persisted payments change\<close>

text \<open>A row keeps everything but its status, and the status \<open>SUCCESS\<close> for good.\<close>

definition payment_step :: "payment_row \<Rightarrow> payment_row \<Rightarrow> bool" where
  "payment_step r r' \<longleftrightarrow>
     r' = r\<lparr>pr_payment_status := pr_payment_status r'\<rparr>
     \<and> (pr_payment_status r = ''SUCCESS'' \<longrightarrow> pr_payment_status r' = ''SUCCESS'')"

definition grows :: "('r \<Rightarrow> 'r \<Rightarrow> bool) \<Rightarrow> 'r list \<Rightarrow> 'r list \<Rightarrow> bool" where
  "grows R t t' \<longleftrightarrow> (\<exists>upd new. t' = upd @ new \<and> list_all2 R t upd)"

definition payments_evolve :: "pay_state \<Rightarrow> pay_state \<Rightarrow> bool" where
  "payments_evolve s s' \<longleftrightarrow>
     grows payment_step (payment_table (pay_db s)) (payment_table (pay_db s'))
     \<and> grows (=) (order_table (pay_db s)) (order_table (pay_db s'))"

lemma grows_refl: "(\<And>r. R r r) \<Longrightarrow> grows R t t"
  unfolding grows_def by (rule exI [of _ t]) (simp add: list.rel_refl)

lemma grows_append: "(\<And>r. R r r) \<Longrightarrow> grows R t (t @ u)"
  unfolding grows_def by (rule exI [of _ t]) (simp add: list.rel_refl)

lemma grows_all2: "list_all2 R t t' \<Longrightarrow> grows R t t'"
  unfolding grows_def by (rule exI [of _ t']) simp

lemma grows_trans:
  assumes "\<And>a b c. R a b \<Longrightarrow> R b c \<Longrightarrow> R a c" and "grows R t u" and "grows R u v"
  shows "grows R t v"
proof -
  obtain u1 u2 where u: "u = u1 @ u2" "list_all2 R t u1" using assms(2) by (auto simp: grows_def)
  obtain v1 v2 where v: "v = v1 @ v2" "list_all2 R u v1" using assms(3) by (auto simp: grows_def)
  from v(2) u(1) obtain w1 w2 where w: "v1 = w1 @ w2" "list_all2 R u1 w1"
    by (auto simp: list_all2_append1)
  have "list_all2 R t w1" using list_all2_trans [OF assms(1) u(2) w(2)] by simp
  with v w show ?thesis by (auto simp: grows_def)
qed

lemma all2_member: "list_all2 R t u \<Longrightarrow> r \<in> set t \<Longrightarrow> \<exists>r' \<in> set u. R r r'"
  by (induction t u rule: list_all2_induct) auto

lemma grows_member: "grows R t t' \<Longrightarrow> r \<in> set t \<Longrightarrow> \<exists>r' \<in> set t'. R r r'"
  unfolding grows_def by (auto dest!: all2_member)

lemma payment_step_refl: "payment_step r r"
  by (simp add: payment_step_def)

lemma payment_step_trans: "payment_step a b \<Longrightarrow> payment_step b c \<Longrightarrow> payment_step a c"
  by (cases a, cases b, cases c) (auto simp: payment_step_def)

interpretation evolve: step_frame payments_evolve
proof
  show "payments_evolve s s" for s
    by (simp add: payments_evolve_def grows_refl payment_step_refl)
  show "payments_evolve s t \<Longrightarrow> payments_evolve t u \<Longrightarrow> payments_evolve s u" for s t u
    unfolding payments_evolve_def
    by (meson grows_trans [of payment_step] payment_step_trans grows_trans [of "(=)"] trans)
qed

lemma evolve_unchanged: "stays (unchanged pay_db) m \<Longrightarrow> stays payments_evolve m"
  by (auto simp: stays_def unchanged_def payments_evolve_def grows_refl payment_step_refl)

text \<open>PayPal and the domain objects do not touch the database.\<close>

lemma uuid1_db [stays_intros]: "stays (unchanged pay_db) (uuid1 env)"
  by (simp add: stays_def unchanged_def uuid1_def)

lemma calls_db [stays_intros]: "stays (unchanged pay_db) (modify (\<lambda>s. s\<lparr>paypal_calls := f s\<rparr>))"
  by (simp add: stays_def unchanged_def)

lemma payee_client_api_db [stays_intros]: "stays (unchanged pay_db) (payee_client_api env)"
  unfolding payee_client_api_def by (intro same.stays_rules)

lemma initiate_payment_db [stays_intros]: "stays (unchanged pay_db) (initiate_payment env p oid d)"
  unfolding initiate_payment_def Let_def
  by (intro same.stays_rules stays_intros)
    (auto split: option.split prod.split intro!: same.stays_rules)

lemma execute_transaction_db [stays_intros]: "stays (unchanged pay_db) (execute_transaction env p d)"
  unfolding execute_transaction_def paypal_execute_transaction_def
  by (cases "p_class p") (auto intro!: same.stays_rules stays_intros)

lemma create_payment_db [stays_intros]: "stays (unchanged pay_db) (create_payment env order a c m)"
  unfolding create_payment_def
  by (intro same.stays_rules stays_intros) (auto split: prod.split intro: same.stays_rules)

lemma execute_payment_db [stays_intros]: "stays (unchanged pay_db) (execute_payment env order pid d m)"
  unfolding execute_payment_def
  by (auto split: option.split prod.split intro!: same.stays_rules stays_intros)

lemma load_order_run:
  "load_order order_id s =
     (case sql_first (\<lambda>r. or_id r = order_id) (order_table (pay_db s)) of
        None \<Rightarrow> Inl (PyExc ''Exception'' (''No order found with id: '' @ order_id))
      | Some r \<Rightarrow> create_order_from_repository_order r (pay_db s), s)"
  by (simp add: load_order_def get_order_by_order_id_def andthen_def split: option.split sum.split)

lemma load_order_db [stays_intros]: "stays (unchanged pay_db) (load_order order_id)"
  by (simp add: stays_def unchanged_def load_order_run)

section \<open>The order manager\<close>

lemma payment_from_row_fields:
  "payment_from_row row = Inr p \<Longrightarrow>
     p_payment_id p = pr_payment_id row \<and> p_payment_status p = pr_payment_status row
     \<and> p_payment_details p = pr_payment_details row
     \<and> (p_class p = PaypalPayment \<longleftrightarrow>
          dict_get (pr_payment_details row) ''payment_method'' = Some (PStr ''paypal''))"
  by (auto simp: payment_from_row_def sbind_Inr_iff split: if_splits)

text \<open>An order that was loaded knows exactly the rows of its payments.\<close>

lemma load_orderD:
  assumes "load_order oid s = (Inr order, s')"
  shows "s' = s" and "o_order_id order = oid"
    and "\<exists>r. sql_first (\<lambda>r. or_id r = oid) (order_table (pay_db s)) = Some r \<and> or_id r = oid"
    and "list_all2 (\<lambda>row p. payment_from_row row = Inr p)
           (filter (\<lambda>r. pr_order_id r = oid) (payment_table (pay_db s))) (o_payments order)"
proof -
  have s: "s' = s" using assms by (simp add: load_order_run)
  obtain r where r: "sql_first (\<lambda>r. or_id r = oid) (order_table (pay_db s)) = Some r"
    and order: "create_order_from_repository_order r (pay_db s) = Inr order"
    using assms by (cases "sql_first (\<lambda>r. or_id r = oid) (order_table (pay_db s))")
      (auto simp: load_order_run s)
  have oid: "or_id r = oid" using sql_first_SomeD [OF r] by simp
  show "s' = s" by (rule s)
  show "\<exists>r. sql_first (\<lambda>r. or_id r = oid) (order_table (pay_db s)) = Some r \<and> or_id r = oid"
    using r oid by blast
  from order oid show "o_order_id order = oid"
    and "list_all2 (\<lambda>row p. payment_from_row row = Inr p)
           (filter (\<lambda>r. pr_order_id r = oid) (payment_table (pay_db s))) (o_payments order)"
    by (auto simp: create_order_from_repository_order_def payments_of_def sbind_Inr_iff
        dest!: smap_InrD)
qed

definition payment_key :: "string \<Rightarrow> string \<Rightarrow> payment_row \<Rightarrow> bool" where
  "payment_key oid pid row \<longleftrightarrow> pr_order_id row = oid \<and> pr_payment_id row = pid"

lemma loaded_payment:
  assumes "load_order oid s = (Inr order, s')" and "get_payment order pid = Some p"
  shows "\<exists>row. sql_first (payment_key oid pid) (payment_table (pay_db s)) = Some row
            \<and> payment_from_row row = Inr p"
proof -
  have "\<exists>row. sql_first (\<lambda>r. pr_payment_id r = pid)
              (filter (\<lambda>r. pr_order_id r = oid) (payment_table (pay_db s))) = Some row
            \<and> payment_from_row row = Inr p"
    using load_orderD(4) [OF assms(1)] _ assms(2) [unfolded get_payment_def]
    by (rule sql_first_all2) (simp add: payment_from_row_fields)
  then show ?thesis
    by (simp add: sql_first_filter payment_key_def [abs_def])
qed

text \<open>Storing a status changes the first row of the key and nothing else.\<close>

definition set_status :: "string \<Rightarrow> string \<Rightarrow> string \<Rightarrow> pay_state \<Rightarrow> pay_state" where
  "set_status oid pid st s =
     s\<lparr>pay_db := (pay_db s)\<lparr>payment_table :=
       update_first (payment_key oid pid) (\<lambda>r. r\<lparr>pr_payment_status := st\<rparr>)
         (payment_table (pay_db s))\<rparr>\<rparr>"

lemma update_payment_status_run:
  assumes "get_payment order pid = Some p" and "p_payment_id p = pid"
    and "sql_first (\<lambda>r. or_id r = o_order_id order) (order_table (pay_db s)) = Some r"
  shows "update_payment_status order pid s =
           (Inr (), set_status (o_order_id order) pid (p_payment_status p) s)"
  using assms sql_first_SomeD [OF assms(3)]
  by (simp add: update_payment_status_def andthen_def set_status_def payment_key_def [abs_def])

lemma set_status_evolves:
  assumes "\<And>row. sql_first (payment_key oid pid) (payment_table (pay_db s)) = Some row \<Longrightarrow>
             pr_payment_status row = ''SUCCESS'' \<Longrightarrow> st = ''SUCCESS''"
  shows "payments_evolve s (set_status oid pid st s)"
proof -
  have "list_all2 payment_step (payment_table (pay_db s)) (payment_table (pay_db (set_status oid pid st s)))"
    unfolding set_status_def using assms
    by (auto intro!: update_first_all2_first simp: payment_step_refl) (auto simp: payment_step_def)
  then show ?thesis
    by (simp add: payments_evolve_def grows_all2 set_status_def grows_refl)
qed

lemma get_payment_with_payment:
  "get_payment order (p_payment_id p) = Some q \<Longrightarrow>
   get_payment (with_payment p order) (p_payment_id p) = Some p"
proof -
  have "sql_first (\<lambda>q. p_payment_id q = p_payment_id p) ps = Some q \<Longrightarrow>
        sql_first (\<lambda>q. p_payment_id q = p_payment_id p)
          (update_first (\<lambda>q. p_payment_id q = p_payment_id p) (\<lambda>_. p) ps) = Some p" for ps
    by (induction ps) (auto split: if_splits)
  then show "get_payment order (p_payment_id p) = Some q \<Longrightarrow> ?thesis"
    by (simp add: get_payment_def with_payment_def)
qed

lemma get_payment_id: "get_payment order pid = Some p \<Longrightarrow> p_payment_id p = pid"
  unfolding get_payment_def by (drule sql_first_SomeD) simp

lemma cancel_payment_InrD:
  assumes "cancel_payment order pid = Inr order'"
  shows "\<exists>p. get_payment order pid = Some p \<and> p_payment_status p \<notin> {''SUCCESS'', ''FAILED''}
           \<and> order' = with_payment (p\<lparr>p_payment_status := ''FAILED''\<rparr>) order"
  using assms by (auto simp: cancel_payment_def split: option.splits if_splits)

text \<open>What a cancellation does to the state, on every branch.\<close>

lemma cancel_run:
  assumes "load_order oid s = (Inr order, s')"
  shows "cancel_payment_against_order oid pid s =
           (case cancel_payment order pid of
              Inl e \<Rightarrow> (Inl e, s)
            | Inr _ \<Rightarrow> (Inr ''Success'', set_status oid pid ''FAILED'' s))"
proof (cases "cancel_payment order pid")
  case (Inl e)
  with assms load_orderD(1) [OF assms] show ?thesis
    by (simp add: cancel_payment_against_order_def)
next
  case (Inr order')
  then obtain p where p: "get_payment order pid = Some p"
    and order': "order' = with_payment (p\<lparr>p_payment_status := ''FAILED''\<rparr>) order"
    by (auto dest: cancel_payment_InrD)
  obtain r where r: "sql_first (\<lambda>r. or_id r = oid) (order_table (pay_db s)) = Some r"
    using load_orderD(3) [OF assms] by blast
  have pid: "p_payment_id p = pid" using p by (rule get_payment_id)
  have "get_payment order' pid = Some (p\<lparr>p_payment_status := ''FAILED''\<rparr>)"
    using get_payment_with_payment [of order "p\<lparr>p_payment_status := ''FAILED''\<rparr>" p] p pid order'
    by simp
  moreover have "o_order_id order' = oid"
    using load_orderD(2) [OF assms] order' by (simp add: with_payment_def)
  ultimately have "update_payment_status order' pid s = (Inr (), set_status oid pid ''FAILED'' s)"
    using r pid by (simp add: update_payment_status_run)
  with Inr assms load_orderD(1) [OF assms] show ?thesis
    by (simp add: cancel_payment_against_order_def)
qed

text \<open>A payment that was executed is in status SUCCESS, in the order it belongs to.\<close>

lemma execute_transaction_True:
  "execute_transaction env p d s = (Inr (p', True), s') \<Longrightarrow>
   p' = p\<lparr>p_payment_status := ''SUCCESS''\<rparr> \<and> p_class p = PaypalPayment"
  by (auto simp: execute_transaction_def paypal_execute_transaction_def elim!: andthen_InrE
      split: payment_class.splits if_splits)

lemma execute_paymentD:
  assumes "execute_payment env order pid d m s = (Inr (order', p), s')"
  shows "\<exists>q. get_payment order pid = Some q \<and> p = q\<lparr>p_payment_status := ''SUCCESS''\<rparr>
           \<and> order' = with_payment p order \<and> get_payment order' pid = Some p \<and> p_payment_id p = pid"
proof -
  from assms obtain q where q: "get_payment order pid = Some q"
    and run: "andthen (execute_transaction env q d) (\<lambda>(payment', executed).
             if \<not> executed then raise (PyExc ''Exception'' ''Failed payment execution'')
             else ret (with_payment payment' order, payment')) s = (Inr (order', p), s')"
    by (auto simp: execute_payment_def split: if_splits option.splits)
  from run have p: "p = q\<lparr>p_payment_status := ''SUCCESS''\<rparr>" "order' = with_payment p order"
    by (auto elim!: andthen_InrE split: if_splits dest: execute_transaction_True)
  have pid: "p_payment_id p = pid" using q p(1) by (simp add: get_payment_id)
  have "get_payment order' pid = Some p"
    using get_payment_with_payment [of order p q] q pid p(2) by simp
  with q p pid show ?thesis by blast
qed

section \<open>Every request only evolves the payments\<close>

lemma add_order_evolves [stays_intros]: "stays payments_evolve (add_order r)"
  by (auto simp: stays_def add_order_def andthen_def payments_evolve_def grows_refl grows_append
      payment_step_refl)

lemma add_payment_evolves [stays_intros]: "stays payments_evolve (add_payment r)"
  by (auto simp: stays_def add_payment_def andthen_def payments_evolve_def grows_refl grows_append
      payment_step_refl)

lemmas evolve_db = uuid1_db [THEN evolve_unchanged] load_order_db [THEN evolve_unchanged]
  create_payment_db [THEN evolve_unchanged] execute_payment_db [THEN evolve_unchanged]

lemma create_order_evolves: "stays payments_evolve (create_order env a c d u)"
  unfolding create_order_def factory_create_order_def persist_order_def
  by (intro evolve.stays_rules evolve_db stays_intros)

lemma initiate_evolves: "stays payments_evolve (initiate_payment_against_order env oid a c m)"
  unfolding initiate_payment_against_order_def persist_payment_def
  by (intro evolve.stays_andthen evolve_db)
    (auto split: prod.split option.split intro!: evolve.stays_rules stays_intros)

lemma update_success_evolves:
  assumes "get_payment order pid = Some p" and "p_payment_status p = ''SUCCESS''"
  shows "stays payments_evolve (update_payment_status order pid)"
proof (rule staysI)
  fix s r s'
  assume run: "update_payment_status order pid s = (r, s')"
  have pid: "p_payment_id p = pid" using assms(1) by (rule get_payment_id)
  show "payments_evolve s s'"
  proof (cases "sql_first (\<lambda>r. or_id r = o_order_id order) (order_table (pay_db s))")
    case None
    with run assms(1) have "s' = s" by (simp add: update_payment_status_def andthen_def)
    then show ?thesis by (simp add: evolve.refl)
  next
    case (Some row)
    with run update_payment_status_run [OF assms(1) pid Some] assms(2)
    have "s' = set_status (o_order_id order) pid ''SUCCESS'' s" by simp
    then show ?thesis by (simp add: set_status_evolves)
  qed
qed

lemma execute_evolves: "stays payments_evolve (execute_payment_against_order env oid pid d m)"
  unfolding execute_payment_against_order_def
proof (rule evolve.stays_andthen [OF evolve_db(2)],
    rule evolve.stays_andthen_result [OF evolve_db(4)])
  fix order s a s'
  assume run: "execute_payment env order pid d m s = (Inr a, s')"
  obtain order' p where a: "a = (order', p)" by fastforce
  with run execute_paymentD have p: "get_payment order' pid = Some p"
    "p_payment_status p = ''SUCCESS''" "p_payment_id p = pid" by fastforce+
  then show "stays payments_evolve (case a of (order', payment) \<Rightarrow>
    andthen (update_payment_status order' (p_payment_id payment)) (\<lambda>_.
    ret [(''payment_id'', PStr (p_payment_id payment)),
         (''payment'', PDict (p_payment_details payment)), (''order_id'', PStr (o_order_id order'))]))"
    unfolding a by (auto intro!: evolve.stays_andthen evolve.stays_ret update_success_evolves)
qed

lemma cancel_evolves: "stays payments_evolve (cancel_payment_against_order oid pid)"
proof (rule staysI)
  fix s r s'
  assume run: "cancel_payment_against_order oid pid s = (r, s')"
  obtain q s1 where load: "load_order oid s = (q, s1)" by fastforce
  show "payments_evolve s s'"
  proof (cases q)
    case (Inl e)
    moreover have "s1 = s" using load by (simp add: load_order_run)
    ultimately have "load_order oid s = (Inl e, s)" using load by simp
    with run have "s' = s" by (simp add: cancel_payment_against_order_def)
    then show ?thesis by (simp add: evolve.refl)
  next
    case (Inr order)
    with load have load': "load_order oid s = (Inr order, s1)" by simp
    show ?thesis
    proof (cases "cancel_payment order pid")
      case (Inl e)
      with run cancel_run [OF load'] show ?thesis by (simp add: evolve.refl)
    next
      case (Inr order')
      with run cancel_run [OF load'] have s': "s' = set_status oid pid ''FAILED'' s" by simp
      from Inr obtain p where p: "get_payment order pid = Some p"
        "p_payment_status p \<notin> {''SUCCESS'', ''FAILED''}" by (auto dest: cancel_payment_InrD)
      from loaded_payment [OF load' p(1)] p(2) show ?thesis
        unfolding s' by (intro set_status_evolves) (auto dest: payment_from_row_fields)
    qed
  qed
qed

lemma perform_evolves: "payments_evolve s (perform env r s)"
  using create_order_evolves initiate_evolves execute_evolves cancel_evolves
  by (cases r) (auto simp: stays_def)

lemma serve_evolves: "payments_evolve s (serve rs s)"
proof (induction rs arbitrary: s)
  case Nil
  show ?case by (simp add: evolve.refl)
next
  case (Cons er rs)
  obtain env r where er: "er = (env, r)" by fastforce
  show ?case
    unfolding er serve.simps by (rule evolve.trans [OF perform_evolves Cons.IH])
qed

text \<open>
  C3. A payment stored with status SUCCESS stays in the table, with every field as it was, under
  any sequence of order manager calls, whatever PayPal answers: it can be neither cancelled, nor
  failed, nor altered, nor deleted.
\<close>

theorem successful_payment_is_final:
  assumes "row \<in> set (payment_table (pay_db s))" and "pr_payment_status row = ''SUCCESS''"
  shows "row \<in> set (payment_table (pay_db (serve requests s)))"
proof -
  from serve_evolves [of s requests] assms(1)
  obtain row' where row': "row' \<in> set (payment_table (pay_db (serve requests s)))"
    and step: "payment_step row row'"
    by (auto simp: payments_evolve_def dest: grows_member)
  from step assms(2) have "row' = row"
    by (cases row, cases row') (simp add: payment_step_def)
  with row' show ?thesis by simp
qed

definition demo_payment :: payment_row where
  "demo_payment = \<lparr>pr_payment_id = ''p1'', pr_amount = [(''amount'', PInt 10), (''currency'', PStr ''USD'')],
     pr_order_id = ''o1'', pr_payment_details = [(''payment_method'', PStr ''paypal''), (''payment_id'', PStr ''PAY-1'')],
     pr_payment_status = ''SUCCESS'', pr_created_at = 0\<rparr>"

definition demo_order :: order_row where
  "demo_order = \<lparr>or_id = ''o1'', or_amount = [(''amount'', PInt 10), (''currency'', PStr ''USD'')],
     or_username = PStr ''user'', or_created_at = 0,
     or_item_details = PDict [(''org_id'', PStr ''snet''), (''service_id'', PStr ''echo'')]\<rparr>"

definition demo_state :: "string \<Rightarrow> pay_state" where
  "demo_state st = \<lparr>pay_db = \<lparr>order_table = [demo_order],
     payment_table = [demo_payment\<lparr>pr_payment_status := st\<rparr>]\<rparr>, paypal_calls = [], uuid_count = 0\<rparr>"

lemma successful_payment_is_final_witness:
  "demo_payment \<in> set (payment_table (pay_db
     (perform undefined (CancelPayment ''o1'' ''p1'') (demo_state ''SUCCESS''))))"
  using successful_payment_is_final
    [of demo_payment "demo_state ''SUCCESS''" "[(undefined, CancelPayment ''o1'' ''p1'')]"]
  by (simp add: demo_state_def demo_payment_def)

section \<open>What the tables always satisfy\<close>

definition order_row_ok :: "order_row \<Rightarrow> bool" where
  "order_row_ok r \<longleftrightarrow>
     (\<exists>a c. or_amount r = [(''amount'', a), (''currency'', c)] \<and> serialisable a \<and> serialisable c)
     \<and> serialisable (or_username r) \<and> serialisable (or_item_details r)"

definition payment_row_ok :: "payment_row \<Rightarrow> bool" where
  "payment_row_ok r \<longleftrightarrow>
     (\<exists>a c. pr_amount r = [(''amount'', a), (''currency'', c)] \<and> serialisable a \<and> serialisable c)
     \<and> (\<exists>pid. pr_payment_details r =
            [(''payment_method'', PAYMENT_METHOD_PAYPAL), (''payment_id'', PStr pid)])
     \<and> pr_payment_status r \<in> {''PENDING'', ''SUCCESS'', ''FAILED''}"

definition pay_ok :: "pay_db \<Rightarrow> bool" where
  "pay_ok db \<longleftrightarrow>
     distinct (map or_id (order_table db)) \<and> distinct (map pr_payment_id (payment_table db))
     \<and> list_all order_row_ok (order_table db) \<and> list_all payment_row_ok (payment_table db)
     \<and> pr_order_id ` set (payment_table db) \<subseteq> or_id ` set (order_table db)"

definition pay_inv :: "pay_state \<Rightarrow> bool" where
  "pay_inv s \<longleftrightarrow> pay_ok (pay_db s)"

fun request_ok :: "pay_request \<Rightarrow> bool" where
  "request_ok (CreateOrder a c d u) = (serialisable a \<and> serialisable c \<and> serialisable d \<and> serialisable u)"
| "request_ok (InitiatePayment oid a c m) = (serialisable a \<and> serialisable c)"
| "request_ok r = True"

lemma keeping_unchanged: "stays (unchanged pay_db) m \<Longrightarrow> stays (keeping pay_inv) m"
  by (auto simp: stays_def unchanged_def keeping_def pay_inv_def)

lemmas inv_db = uuid1_db [THEN keeping_unchanged] load_order_db [THEN keeping_unchanged]
  create_payment_db [THEN keeping_unchanged] execute_payment_db [THEN keeping_unchanged]

lemma add_order_keeps: "order_row_ok r \<Longrightarrow> stays (keeping pay_inv) (add_order r)"
  by (auto simp: stays_def keeping_def add_order_def andthen_def pay_inv_def pay_ok_def)

lemma add_payment_keeps: "payment_row_ok r \<Longrightarrow> stays (keeping pay_inv) (add_payment r)"
  by (auto simp: stays_def keeping_def add_payment_def andthen_def pay_inv_def pay_ok_def)

lemma payment_row_ok_status:
  "payment_row_ok r \<Longrightarrow> st \<in> {''PENDING'', ''SUCCESS'', ''FAILED''} \<Longrightarrow>
   payment_row_ok (r\<lparr>pr_payment_status := st\<rparr>)"
  by (auto simp: payment_row_ok_def)

lemma list_all_update_first:
  "list_all P t \<Longrightarrow> (\<And>r. P r \<Longrightarrow> P (f r)) \<Longrightarrow> list_all P (update_first p f t)"
  by (induction t) auto

lemma set_status_keeps:
  assumes "pay_inv s" and "st \<in> {''PENDING'', ''SUCCESS'', ''FAILED''}"
  shows "pay_inv (set_status oid pid st s)"
proof -
  let ?f = "\<lambda>r. r\<lparr>pr_payment_status := st\<rparr>"
  let ?t = "payment_table (pay_db s)" and ?u = "update_first (payment_key oid pid) ?f (payment_table (pay_db s))"
  have "map pr_payment_id ?u = map pr_payment_id ?t" and "map pr_order_id ?u = map pr_order_id ?t"
    by (rule map_update_first, simp)+
  then have "distinct (map pr_payment_id ?u) = distinct (map pr_payment_id ?t)"
    and "pr_order_id ` set ?u = pr_order_id ` set ?t"
    by (simp_all flip: set_map)
  moreover have "list_all payment_row_ok ?u" if "list_all payment_row_ok ?t"
    using that assms(2) by (intro list_all_update_first payment_row_ok_status)
  ultimately show ?thesis
    using assms(1) by (simp add: pay_inv_def pay_ok_def set_status_def)
qed

lemma create_order_keeps:
  assumes "request_ok (CreateOrder a c d u)"
  shows "stays (keeping pay_inv) (create_order env a c d u)"
proof -
  have "order_row_ok \<lparr>or_id = oid, or_amount = [(''amount'', a), (''currency'', c)],
      or_username = u, or_created_at = pay_now env, or_item_details = d\<rparr>" for oid
    using assms by (simp add: order_row_ok_def)
  then show ?thesis
    unfolding create_order_def factory_create_order_def persist_order_def andthen_assoc andthen_ret
    by (intro keeps.stays_andthen keeps.stays_ret inv_db) (simp add: add_order_keeps)
qed

text \<open>The payment that \<open>create_payment\<close> hands over for storing.\<close>

lemma create_payment_InrD:
  assumes "create_payment env order a c m s = (Inr (order', p, resp), s')"
  shows "\<exists>paypal_id url. m = PAYMENT_METHOD_PAYPAL \<and> order' = order\<lparr>o_payments := o_payments order @ [p]\<rparr>
    \<and> p_amount p = a \<and> p_currency p = c \<and> p_payment_status p = ''PENDING''
    \<and> p_payment_details p = [(''payment_method'', m), (''payment_id'', PStr paypal_id)]
    \<and> resp = [(''id'', PStr paypal_id), (''payment_url'', PStr url)]"
proof -
  from assms have m: "m = PAYMENT_METHOD_PAYPAL" by (auto simp: create_payment_def split: if_splits)
  from assms m obtain pid s1 where
    init: "initiate_payment env \<lparr>p_class = PaypalPayment, p_payment_id = pid, p_amount = a,
       p_currency = c, p_payment_status = ''PENDING'', p_created_at = pay_now env,
       p_payment_details = [(''payment_method'', m)]\<rparr>
       (o_order_id order) (o_item_details order) s1 = (Inr (p, resp), s')"
    and order': "order' = order\<lparr>o_payments := o_payments order @ [p]\<rparr>"
    by (auto simp: create_payment_def elim!: andthen_InrE)
  from init show ?thesis
    unfolding order' using m
    by (auto simp: initiate_payment_def Let_def dict_set_def elim!: andthen_InrE
        split: option.splits if_splits)
qed

definition payment_ok :: "payment \<Rightarrow> bool" where
  "payment_ok p \<longleftrightarrow> serialisable (p_amount p) \<and> serialisable (p_currency p)
     \<and> (\<exists>pid. p_payment_details p =
            [(''payment_method'', PAYMENT_METHOD_PAYPAL), (''payment_id'', PStr pid)])
     \<and> p_payment_status p \<in> {''PENDING'', ''SUCCESS'', ''FAILED''}"

lemma payment_from_row_ok: "payment_row_ok row \<Longrightarrow> \<exists>p. payment_from_row row = Inr p \<and> payment_ok p"
  by (auto simp: payment_row_ok_def payment_ok_def payment_from_row_def getitem_def)

lemma payment_row_of_ok:
  "payment_ok p \<Longrightarrow> payment_row_ok
     \<lparr>pr_payment_id = p_payment_id p,
      pr_amount = [(''amount'', p_amount p), (''currency'', p_currency p)],
      pr_order_id = oid, pr_payment_details = p_payment_details p,
      pr_payment_status = p_payment_status p, pr_created_at = p_created_at p\<rparr>"
  by (auto simp: payment_row_ok_def payment_ok_def)

lemma loaded_payments_ok:
  assumes "pay_inv s" and "load_order oid s = (Inr order, s')"
  shows "list_all payment_ok (o_payments order)"
proof -
  have rows: "\<forall>row \<in> set (payment_table (pay_db s)). payment_row_ok row"
    using assms(1) by (simp add: pay_inv_def pay_ok_def list_all_iff)
  have "\<forall>p \<in> set (o_payments order). \<exists>row. payment_row_ok row \<and> payment_from_row row = Inr p"
    using load_orderD(4) [OF assms(2)] rows
    by (auto simp: list_all2_conv_all_nth in_set_conv_nth) (metis (no_types, lifting) filter_is_subset nth_mem subsetD)
  then show ?thesis
    using payment_from_row_ok by (fastforce simp: list_all_iff)
qed

lemma persist_payment_keeps:
  assumes "list_all payment_ok (o_payments order)"
  shows "stays (keeping pay_inv) (persist_payment order pid)"
proof (cases "get_payment order pid")
  case None
  then show ?thesis by (simp add: persist_payment_def keeps.stays_raise)
next
  case (Some p)
  then have "payment_ok p"
    using assms by (auto simp: get_payment_def list_all_iff dest: sql_first_SomeD)
  with Some show ?thesis
    by (simp add: persist_payment_def add_payment_keeps payment_row_of_ok)
qed

lemma initiate_keeps:
  assumes "request_ok (InitiatePayment oid a c m)"
  shows "stays (keeping pay_inv) (initiate_payment_against_order env oid a c m)"
  unfolding initiate_payment_against_order_def
proof (rule keeping_andthen [OF inv_db(2)], rule keeping_andthen [OF inv_db(3)])
  fix s order s' t x t'
  assume inv: "pay_inv s" and load: "load_order oid s = (Inr order, s')"
    and create: "create_payment env order a c m t = (Inr x, t')"
  obtain order' p resp where x: "x = (order', p, resp)" by (cases x)
  have "list_all payment_ok (o_payments order')"
    using create_payment_InrD [OF create [unfolded x]] loaded_payments_ok [OF inv load] assms
    by (auto simp: payment_ok_def)
  then show "stays (keeping pay_inv) (case x of (order', payment, response) \<Rightarrow>
     andthen (persist_payment order' (p_payment_id payment)) (\<lambda>_.
     ret [(''price'', PDict [(''amount'', p_amount payment), (''currency'', p_currency payment)]),
          (''payment_id'', PStr (p_payment_id payment)),
          (''payment'', PDict (dict_set ''payment_method'' m response)),
          (''order_id'', PStr (o_order_id order'))]))"
    unfolding x by (auto intro!: keeps.stays_andthen keeps.stays_ret persist_payment_keeps)
qed

text \<open>Whatever status an operation stores comes from a payment of the three statuses.\<close>

lemma update_payment_status_keeps:
  assumes "get_payment order pid = Some p" and "p_payment_status p \<in> {''PENDING'', ''SUCCESS'', ''FAILED''}"
  shows "stays (keeping pay_inv) (update_payment_status order pid)"
proof (rule staysI)
  fix s r s'
  assume run: "update_payment_status order pid s = (r, s')"
  have pid: "p_payment_id p = pid" using assms(1) by (rule get_payment_id)
  show "keeping pay_inv s s'"
  proof (cases "sql_first (\<lambda>r. or_id r = o_order_id order) (order_table (pay_db s))")
    case None
    with run assms(1) have "s' = s" by (simp add: update_payment_status_def andthen_def)
    then show ?thesis by (simp add: keeping_def)
  next
    case (Some row)
    with run update_payment_status_run [OF assms(1) pid Some]
    have "s' = set_status (o_order_id order) pid (p_payment_status p) s" by simp
    then show ?thesis using assms(2) by (simp add: keeping_def set_status_keeps)
  qed
qed

lemma execute_keeps: "stays (keeping pay_inv) (execute_payment_against_order env oid pid d m)"
  unfolding execute_payment_against_order_def
proof (rule keeps.stays_andthen [OF inv_db(2)], rule keeping_andthen [OF inv_db(4)])
  fix order s a s'
  assume run: "execute_payment env order pid d m s = (Inr a, s')"
  obtain order' p where a: "a = (order', p)" by fastforce
  with run execute_paymentD have p: "get_payment order' pid = Some p"
    "p_payment_status p = ''SUCCESS''" "p_payment_id p = pid" by fastforce+
  then show "stays (keeping pay_inv) (case a of (order', payment) \<Rightarrow>
    andthen (update_payment_status order' (p_payment_id payment)) (\<lambda>_.
    ret [(''payment_id'', PStr (p_payment_id payment)),
         (''payment'', PDict (p_payment_details payment)), (''order_id'', PStr (o_order_id order'))]))"
    unfolding a by (auto intro!: keeps.stays_andthen keeps.stays_ret update_payment_status_keeps)
qed

lemma cancel_keeps: "stays (keeping pay_inv) (cancel_payment_against_order oid pid)"
  unfolding cancel_payment_against_order_def
proof (rule keeps.stays_andthen [OF inv_db(2)], rule keeping_andthen [OF keeps.stays_of_sum])
  fix order s order' s'
  assume "of_sum (cancel_payment order pid) s = (Inr order', s' :: pay_state)"
  then obtain p where p: "get_payment order pid = Some p"
    and order': "order' = with_payment (p\<lparr>p_payment_status := ''FAILED''\<rparr>) order"
    by (auto dest: cancel_payment_InrD)
  have "get_payment order' pid = Some (p\<lparr>p_payment_status := ''FAILED''\<rparr>)"
    using get_payment_with_payment [of order "p\<lparr>p_payment_status := ''FAILED''\<rparr>" p] p
      get_payment_id [OF p] order' by simp
  then have "stays (keeping pay_inv) (update_payment_status order' pid)"
    by (rule update_payment_status_keeps) simp
  then show "stays (keeping pay_inv) (andthen (update_payment_status order' pid) (\<lambda>_. ret ''Success''))"
    by (intro keeps.stays_andthen keeps.stays_ret)
qed

lemma perform_keeps: "request_ok r \<Longrightarrow> pay_inv s \<Longrightarrow> pay_inv (perform env r s)"
  using create_order_keeps [THEN stays_keepingD] initiate_keeps [THEN stays_keepingD]
    execute_keeps [THEN stays_keepingD] cancel_keeps [THEN stays_keepingD]
  by (cases r) simp_all

text \<open>
  C19. The tables stay well formed under any sequence of calls with JSON arguments: order ids and
  payment ids are unique, every payment belongs to a stored order, every amount has its amount and
  currency, every payment is a PayPal payment with PayPal's id, in one of the three statuses, and
  every stored value can be put in a response.
\<close>

theorem pay_ok_preserved:
  assumes "pay_ok (pay_db s)" and "list_all (\<lambda>(env, r). request_ok r) requests"
  shows "pay_ok (pay_db (serve requests s))"
  using assms
proof (induction requests arbitrary: s)
  case Nil
  then show ?case by simp
next
  case (Cons er requests)
  then show ?case
    using perform_keeps by (cases er) (simp add: pay_inv_def)
qed

lemma pay_ok_demo: "st \<in> {''PENDING'', ''SUCCESS'', ''FAILED''} \<Longrightarrow> pay_ok (pay_db (demo_state st))"
  by (auto simp: demo_state_def demo_order_def demo_payment_def pay_ok_def order_row_ok_def
      payment_row_ok_def PAYMENT_METHOD_PAYPAL_def)

lemma pay_ok_preserved_witness:
  "pay_ok (pay_db (serve [(undefined, CancelPayment ''o1'' ''p1'')] (demo_state ''PENDING'')))"
  using pay_ok_preserved [of "demo_state ''PENDING''" "[(undefined, CancelPayment ''o1'' ''p1'')]"]
  by (simp add: pay_ok_demo)

section \<open>What each operation does, on every branch\<close>

text \<open>In well-formed tables every payment row can be reached through its order.\<close>

lemma load_order_total:
  assumes "pay_inv s" and "r \<in> set (order_table (pay_db s))"
  shows "\<exists>order. load_order (or_id r) s = (Inr order, s)"
proof -
  have "sql_first (\<lambda>x. or_id x = or_id r) (order_table (pay_db s)) = Some r"
    using assms by (intro sql_first_key) (simp_all add: pay_inv_def pay_ok_def)
  moreover have "\<exists>order. create_order_from_repository_order r (pay_db s) = Inr order"
  proof -
    have "\<exists>ps. smap payment_from_row rows = Inr ps" if "\<forall>row \<in> set rows. payment_row_ok row" for rows
      using that
    proof (induction rows)
      case Nil
      show ?case by simp
    next
      case (Cons row rows)
      then obtain ps where "smap payment_from_row rows = Inr ps" by auto
      moreover from Cons.prems obtain p where "payment_from_row row = Inr p"
        using payment_from_row_ok by fastforce
      ultimately show ?case by simp
    qed
    moreover have "\<forall>row \<in> set (payments_of r (pay_db s)). payment_row_ok row" and "order_row_ok r"
      using assms by (simp_all add: pay_inv_def pay_ok_def list_all_iff payments_of_def)
    ultimately obtain ps where "smap payment_from_row (payments_of r (pay_db s)) = Inr ps" by blast
    then show ?thesis using \<open>order_row_ok r\<close>
      by (auto simp: create_order_from_repository_order_def order_row_ok_def getitem_def)
  qed
  ultimately show ?thesis by (auto simp: load_order_run)
qed

lemma find_payment:
  assumes inv: "pay_inv s" and row: "row \<in> set (payment_table (pay_db s))"
  shows "\<exists>order p. load_order (pr_order_id row) s = (Inr order, s)
     \<and> get_payment order (pr_payment_id row) = Some p \<and> payment_from_row row = Inr p"
proof -
  have "pr_order_id row \<in> or_id ` set (order_table (pay_db s))"
    using inv row by (auto simp: pay_inv_def pay_ok_def)
  then obtain order where load: "load_order (pr_order_id row) s = (Inr order, s)"
    using load_order_total [OF inv] by force
  have key: "row' = row" if "row' \<in> set (payment_table (pay_db s))" "pr_payment_id row' = pr_payment_id row" for row'
    using inv row that key_unique [of pr_payment_id "payment_table (pay_db s)"]
    by (simp add: pay_inv_def pay_ok_def)
  have "\<exists>p \<in> set (o_payments order). payment_from_row row = Inr p"
    using all2_member [OF load_orderD(4) [OF load]] row by simp
  then have "get_payment order (pr_payment_id row) \<noteq> None"
    by (auto simp: get_payment_def sql_first_None dest: payment_from_row_fields)
  then obtain p where p: "get_payment order (pr_payment_id row) = Some p" by blast
  from loaded_payment [OF load p] obtain row' where
    "sql_first (payment_key (pr_order_id row) (pr_payment_id row)) (payment_table (pay_db s)) = Some row'"
    and from_row: "payment_from_row row' = Inr p" by blast
  then have "row' = row"
    using key by (auto dest!: sql_first_SomeD simp: payment_key_def)
  with load p from_row show ?thesis by blast
qed

text \<open>The table with the status of one row changed.\<close>

definition with_status :: "payment_row \<Rightarrow> string \<Rightarrow> payment_row list \<Rightarrow> payment_row list" where
  "with_status row st t = map (\<lambda>r. if r = row then r\<lparr>pr_payment_status := st\<rparr> else r) t"

lemma update_first_row:
  assumes "distinct (map pr_payment_id t)" and "row \<in> set t"
  shows "update_first (payment_key (pr_order_id row) (pr_payment_id row))
           (\<lambda>r. r\<lparr>pr_payment_status := st\<rparr>) t = with_status row st t"
  using assms
proof (induction t)
  case Nil
  then show ?case by (simp add: with_status_def)
next
  case (Cons r t)
  show ?case
  proof (cases "pr_payment_id r = pr_payment_id row")
    case True
    with Cons.prems have "r = row" by (auto simp: image_iff)
    moreover have "row \<notin> set t" using Cons.prems(1) True by (auto simp: image_iff)
    ultimately show ?thesis
      by (auto simp: with_status_def payment_key_def intro!: map_idI [symmetric])
  next
    case False
    with Cons show ?thesis by (auto simp: with_status_def payment_key_def)
  qed
qed

lemma set_status_row:
  assumes "pay_inv s" and "row \<in> set (payment_table (pay_db s))"
  shows "set_status (pr_order_id row) (pr_payment_id row) st s =
     s\<lparr>pay_db := (pay_db s)\<lparr>payment_table := with_status row st (payment_table (pay_db s))\<rparr>\<rparr>"
  using assms by (simp add: set_status_def update_first_row pay_inv_def pay_ok_def)

text \<open>
  Cancelling an existing payment: a payment in status SUCCESS or FAILED is refused with its own
  message and nothing changes; a pending one gets status FAILED, in that row only.
\<close>

theorem cancel_payment_branches:
  assumes "pay_ok (pay_db s)" and "row \<in> set (payment_table (pay_db s))"
  shows "cancel_payment_against_order (pr_order_id row) (pr_payment_id row) s =
    (if pr_payment_status row = ''SUCCESS'' then
       (Inl (PyExc ''Exception'' (''Payment '' @ pr_payment_id row @ '' is already in success status'')), s)
     else if pr_payment_status row = ''FAILED'' then
       (Inl (PyExc ''Exception'' (''Payment '' @ pr_payment_id row @ '' is already in failed status'')), s)
     else (Inr ''Success'', s\<lparr>pay_db := (pay_db s)\<lparr>payment_table :=
             with_status row ''FAILED'' (payment_table (pay_db s))\<rparr>\<rparr>))"
proof -
  have inv: "pay_inv s" using assms(1) by (simp add: pay_inv_def)
  obtain order p where load: "load_order (pr_order_id row) s = (Inr order, s)"
    and p: "get_payment order (pr_payment_id row) = Some p" and row: "payment_from_row row = Inr p"
    using find_payment [OF inv assms(2)] by blast
  have "p_payment_status p = pr_payment_status row" using row by (simp add: payment_from_row_fields)
  then show ?thesis
    unfolding cancel_run [OF load] using p set_status_row [OF inv assms(2)]
    by (simp add: cancel_payment_def)
qed

lemma cancel_payment_branches_witness:
  "fst (cancel_payment_against_order ''o1'' ''p1'' (demo_state ''PENDING'')) = Inr ''Success''"
  using cancel_payment_branches [of "demo_state ''PENDING''" "demo_payment\<lparr>pr_payment_status := ''PENDING''\<rparr>"]
    pay_ok_demo [of "''PENDING''"]
  by (simp add: demo_state_def demo_payment_def)

text \<open>
  C20. Executing an existing payment once PayPal has answered. If PayPal executed it, the payment is
  stored as SUCCESS whatever its status was before, a cancelled or failed one included. If PayPal
  refused it, the request raises before anything is stored: the database is left as it was, so a
  refused payment stays PENDING and is never recorded as FAILED.
\<close>

theorem execute_payment_branches:
  assumes "pay_ok (pay_db s)" and "row \<in> set (payment_table (pay_db s))"
    and "ssm_parameter env (PAYPAL_CLIENT env) = Inr client"
    and "ssm_parameter env (PAYPAL_SECRET env) = Inr secret"
    and paypal_id: "dict_get (pr_payment_details row) ''payment_id'' = Some (PStr paypal_id)"
    and payer: "getitem payment_details ''payer_id'' = Inr payer_id"
    and "paypal_find env (paypal_calls s) paypal_id = Inr ()"
    and "paypal_execute env (paypal_calls s) paypal_id payer_id = Inr executed"
  shows "execute_payment_against_order env (pr_order_id row) (pr_payment_id row) payment_details
           PAYMENT_METHOD_PAYPAL s =
    (let s' = s\<lparr>paypal_calls := paypal_calls s @ [PayPalExecute paypal_id payer_id]\<rparr> in
     if executed then
       (Inr [(''payment_id'', PStr (pr_payment_id row)), (''payment'', PDict (pr_payment_details row)),
             (''order_id'', PStr (pr_order_id row))],
        s'\<lparr>pay_db := (pay_db s)\<lparr>payment_table := with_status row ''SUCCESS'' (payment_table (pay_db s))\<rparr>\<rparr>)
     else (Inl (PyExc ''Exception'' ''Failed payment execution''), s'))"
proof -
  have inv: "pay_inv s" using assms(1) by (simp add: pay_inv_def)
  obtain order p where load: "load_order (pr_order_id row) s = (Inr order, s)"
    and p: "get_payment order (pr_payment_id row) = Some p" and row: "payment_from_row row = Inr p"
    using find_payment [OF inv assms(2)] by blast
  have "payment_row_ok row" using assms(1,2) by (simp add: pay_ok_def list_all_iff)
  then have cls: "p_class p = PaypalPayment" and details: "p_payment_details p = pr_payment_details row"
    using payment_from_row_fields [OF row] by (auto simp: payment_row_ok_def PAYMENT_METHOD_PAYPAL_def)
  let ?s' = "s\<lparr>paypal_calls := paypal_calls s @ [PayPalExecute paypal_id payer_id]\<rparr>"
  have exec: "execute_transaction env p payment_details s =
     (Inr (if executed then (p\<lparr>p_payment_status := ''SUCCESS''\<rparr>, True)
           else if p_payment_status p = ''PENDING'' then (p\<lparr>p_payment_status := ''FAILED''\<rparr>, False)
           else (p, False)), ?s')"
    using assms(3-8) cls details
    by (simp add: execute_transaction_def paypal_execute_transaction_def payee_client_api_def getitem_def)
  show ?thesis
  proof (cases executed)
    case False
    with exec p load show ?thesis
      by (simp add: execute_payment_against_order_def execute_payment_def Let_def)
  next
    case True
    let ?p = "p\<lparr>p_payment_status := ''SUCCESS''\<rparr>"
    have run: "execute_payment env order (pr_payment_id row) payment_details PAYMENT_METHOD_PAYPAL s =
        (Inr (with_payment ?p order, ?p), ?s')"
      using True exec p by (simp add: execute_payment_def)
    have pid: "p_payment_id p = pr_payment_id row" using p by (rule get_payment_id)
    have "get_payment (with_payment ?p order) (pr_payment_id row) = Some ?p"
      using get_payment_with_payment [of order ?p p] p pid by simp
    moreover have oid: "o_order_id (with_payment ?p order) = pr_order_id row"
      using load_orderD(2) [OF load] by (simp add: with_payment_def)
    moreover obtain r where "sql_first (\<lambda>r. or_id r = pr_order_id row) (order_table (pay_db ?s')) = Some r"
      using load_orderD(3) [OF load] by auto
    ultimately have "update_payment_status (with_payment ?p order) (pr_payment_id row) ?s' =
        (Inr (), set_status (pr_order_id row) (pr_payment_id row) ''SUCCESS'' ?s')"
      using pid by (subst update_payment_status_run [where p = ?p]) auto
    moreover have "set_status (pr_order_id row) (pr_payment_id row) ''SUCCESS'' ?s' =
        ?s'\<lparr>pay_db := (pay_db s)\<lparr>payment_table := with_status row ''SUCCESS'' (payment_table (pay_db s))\<rparr>\<rparr>"
      using set_status_row [of ?s' row] inv assms(2) by (simp add: pay_inv_def)
    ultimately show ?thesis
      using True load run pid details oid
      by (simp add: execute_payment_against_order_def Let_def)
  qed
qed

definition demo_env :: "bool \<Rightarrow> pay_env" where
  "demo_env executed = \<lparr>pay_now = 0, pay_json_loads = (\<lambda>_. Inr PNone), pay_uuid = (\<lambda>n. ''id'' @ str_nat n),
     ssm_parameter = (\<lambda>_. Inr ''secret''), paypal_create = (\<lambda>_ _. Inr None), paypal_find = (\<lambda>_ _. Inr ()),
     paypal_execute = (\<lambda>_ _ _. Inr executed), PAYPAL_CLIENT = ''client'', PAYPAL_SECRET = ''key'',
     return_url_format = (\<lambda>_ _ _ _. ''return''), cancel_url_format = (\<lambda>_ _ _ _. ''cancel'')\<rparr>"

lemma execute_payment_branches_witness:
  "pr_payment_status ` set (payment_table (pay_db (snd (execute_payment_against_order (demo_env True)
      ''o1'' ''p1'' (PDict [(''payer_id'', PStr ''payer'')]) PAYMENT_METHOD_PAYPAL (demo_state ''FAILED''))))) =
   {''SUCCESS''}"
  using execute_payment_branches [of "demo_state ''FAILED''" "demo_payment\<lparr>pr_payment_status := ''FAILED''\<rparr>"
      "demo_env True" "''secret''" "''secret''" "''PAY-1''" "PDict [(''payer_id'', PStr ''payer'')]" "PStr ''payer''" True]
    pay_ok_demo [of "''FAILED''"]
  by (simp add: demo_state_def demo_payment_def demo_env_def getitem_def with_status_def Let_def)

text \<open>
  An order that was created can be read back: the response of creating it names a new id, and
  reading that id returns the same price, user and item details, the creation time, and no
  payments.
\<close>

theorem created_order_can_be_read:
  assumes "pay_ok (pay_db s)" and "pay_uuid env (uuid_count s) \<notin> or_id ` set (order_table (pay_db s))"
  shows "\<exists>s'. create_order env amount currency item_details user s =
      (Inr [(''order_id'', PStr (pay_uuid env (uuid_count s))), (''item_details'', item_details),
            (''price'', PDict [(''amount'', amount), (''currency'', currency)])], s')
    \<and> get_order_from_order_id (pay_uuid env (uuid_count s)) s' =
      (Inr [(''order_id'', PStr (pay_uuid env (uuid_count s))),
            (''price'', PDict [(''amount'', amount), (''currency'', currency)]),
            (''username'', user), (''created_at'', PStr (strftime (pay_now env))),
            (''item_details'', item_details), (''payments'', PList [])], s')"
proof -
  let ?id = "pay_uuid env (uuid_count s)"
  have "filter (\<lambda>p. pr_order_id p = ?id) (payment_table (pay_db s)) = []"
    using assms by (simp add: filter_empty_conv pay_ok_def) (metis imageI subsetD)
  moreover have "sql_first (\<lambda>r. or_id r = ?id) (order_table (pay_db s)) = None"
    using assms(2) by (force simp: sql_first_None)
  ultimately show ?thesis
    using assms(2)
    by (auto simp: create_order_def factory_create_order_def uuid1_def persist_order_def add_order_def
        get_order_from_order_id_def get_order_by_order_id_def andthen_def sql_first_append
        create_order_details_from_repository_def payments_of_def price_of_def getitem_def)
qed

lemma created_order_can_be_read_witness:
  "fst (create_order (demo_env True) (PInt 5) (PStr ''USD'') (PDict []) (PStr ''bob'') (demo_state ''PENDING'')) =
   Inr [(''order_id'', PStr (''id'' @ str_nat 0)), (''item_details'', PDict []),
        (''price'', PDict [(''amount'', PInt 5), (''currency'', PStr ''USD'')])]"
  using created_order_can_be_read [of "demo_state ''PENDING''" "demo_env True" "PInt 5" "PStr ''USD''"
      "PDict []" "PStr ''bob''"] pay_ok_demo [of "''PENDING''"]
  by (auto simp: demo_env_def demo_state_def demo_order_def)

end
