(* ===== verification/Payment_Handlers.thy ===== *)
theory Payment_Handlers
  imports Payment_Laws
begin

text \<open>
  The handlers of the payment service always answer: whatever the event, an exception inside becomes
  a 500 and every value that reaches \<open>json.dumps\<close> can be written.
\<close>

section \<open>Handlers\<close>

lemma serialisable_getitem: "getitem v k = Inr w \<Longrightarrow> serialisable v \<Longrightarrow> serialisable w"
  by (auto simp: getitem_def dict_get_def list_all_iff split: pyval.splits option.splits
      dest!: map_of_SomeD)

lemma serialisable_getitems: "getitems v ks = Inr w \<Longrightarrow> serialisable v \<Longrightarrow> serialisable w"
  by (induction v ks rule: getitems.induct) (auto simp: sbind_Inr_iff dest: serialisable_getitem)

text \<open>What the handlers put into a response.\<close>

definition answers :: "(pay_state, nat \<times> pyval) prog \<Rightarrow> bool" where
  "answers attempt \<longleftrightarrow>
     (\<forall>s code v s'. pay_inv s \<longrightarrow> attempt s = (Inr (code, v), s') \<longrightarrow>
        serialisable v \<and> code \<in> {200, 201, 400})"

lemma respond_to_answers:
  assumes "answers attempt" and "pay_inv s"
  shows "\<exists>resp. fst (respond_to message attempt s) = Inr resp \<and> status_code resp \<in> {200, 201, 400, 500}"
proof -
  obtain q s1 where run: "attempt s = (q, s1)" by fastforce
  show ?thesis
  proof (cases q)
    case (Inl e)
    with run show ?thesis
      using generate_lambda_response_serialisable [of "PStr message" 500 False]
      by (auto simp: respond_to_def andthen_def try_except_def)
  next
    case (Inr cv)
    obtain code v where cv: "cv = (code, v)" by fastforce
    with run Inr assms have "serialisable v" and code: "code \<in> {200, 201, 400}"
      unfolding answers_def by blast+
    with run Inr cv show ?thesis
      using generate_lambda_response_serialisable [of v code False]
      by (auto simp: respond_to_def andthen_def try_except_def)
  qed
qed

lemma create_order_answer:
  "create_order env a c d u s = (Inr resp, s') \<Longrightarrow> serialisable a \<Longrightarrow> serialisable c \<Longrightarrow>
   serialisable d \<Longrightarrow> serialisable (PDict resp)"
  by (auto simp: create_order_def factory_create_order_def elim!: andthen_InrE)

lemma initiate_answer:
  assumes "initiate_payment_against_order env oid a c m s = (Inr resp, s')"
    and "serialisable a" and "serialisable c"
  shows "serialisable (PDict resp)"
proof -
  from assms(1) obtain order s1 order' p r s2 where
    create: "create_payment env order a c m s1 = (Inr (order', p, r), s2)"
    and resp: "resp = [(''price'', PDict [(''amount'', p_amount p), (''currency'', p_currency p)]),
          (''payment_id'', PStr (p_payment_id p)),
          (''payment'', PDict (dict_set ''payment_method'' m r)), (''order_id'', PStr (o_order_id order'))]"
    by (auto simp: initiate_payment_against_order_def elim!: andthen_InrE)
  from create_payment_InrD [OF create] assms(2,3) show ?thesis
    unfolding resp by (auto simp: dict_set_def PAYMENT_METHOD_PAYPAL_def)
qed

lemma execute_answer:
  assumes "execute_payment_against_order env oid pid d m s = (Inr resp, s')" and "pay_inv s"
  shows "serialisable (PDict resp)"
proof -
  from assms(1) obtain order s1 order' p s2 where load: "load_order oid s = (Inr order, s1)"
    and exec: "execute_payment env order pid d m s1 = (Inr (order', p), s2)"
    and resp: "resp = [(''payment_id'', PStr (p_payment_id p)), (''payment'', PDict (p_payment_details p)),
          (''order_id'', PStr (o_order_id order'))]"
    by (auto simp: execute_payment_against_order_def elim!: andthen_InrE)
  from execute_paymentD [OF exec] obtain q where "get_payment order pid = Some q"
    and p: "p = q\<lparr>p_payment_status := ''SUCCESS''\<rparr>" by blast
  then have "payment_ok q"
    using loaded_payments_ok [OF assms(2) load] by (auto simp: get_payment_def list_all_iff dest: sql_first_SomeD)
  then show ?thesis
    unfolding resp p by (auto simp: payment_ok_def PAYMENT_METHOD_PAYPAL_def)
qed

lemma order_details_answer:
  assumes "create_order_details_from_repository r (pay_db s) = Inr resp" and "pay_inv s"
    and "r \<in> set (order_table (pay_db s))"
  shows "serialisable (PDict resp)"
proof -
  have row: "order_row_ok r" and payments: "\<forall>p \<in> set (payments_of r (pay_db s)). payment_row_ok p"
    using assms(2,3) by (auto simp: pay_inv_def pay_ok_def list_all_iff payments_of_def)
  have entry: "serialisable v" if "payment_row_ok p" "payment_details_entry p = Inr v" for p v
    using that by (auto simp: payment_row_ok_def payment_details_entry_def price_of_def getitem_def
        PAYMENT_METHOD_PAYPAL_def)
  have "list_all serialisable vs" if "smap payment_details_entry ps = Inr vs" "\<forall>p \<in> set ps. payment_row_ok p"
    for ps vs
    using that by (induction ps arbitrary: vs) (auto simp: sbind_Inr_iff entry)
  with assms(1) row payments show ?thesis
    by (auto simp: create_order_details_from_repository_def sbind_Inr_iff order_row_ok_def
        price_of_def getitem_def)
qed

lemma user_orders_answer:
  assumes "get_order_details_for_user u s = (Inr resp, s')" and "pay_inv s"
  shows "serialisable (PDict resp)"
proof -
  have "list_all (\<lambda>d. serialisable (PDict d)) ds"
    if "smap (\<lambda>r. create_order_details_from_repository r (pay_db s)) rs = Inr ds"
      "set rs \<subseteq> set (order_table (pay_db s))" for rs ds
    using that
    by (induction rs arbitrary: ds) (auto simp: sbind_Inr_iff dest: order_details_answer [OF _ assms(2)])
  with assms(1) show ?thesis
    by (auto simp: get_order_details_for_user_def get_order_by_username_def get_order_details_def
        sbind_Inr_iff list_all_iff elim!: andthen_InrE)
qed

lemma order_answer:
  assumes "get_order_from_order_id oid s = (Inr resp, s')" and "pay_inv s"
  shows "serialisable (PDict resp)"
proof -
  from assms(1) obtain r where "sql_first (\<lambda>r. or_id r = oid) (order_table (pay_db s)) = Some r"
    and details: "create_order_details_from_repository r (pay_db s) = Inr resp"
    by (auto simp: get_order_from_order_id_def get_order_by_order_id_def elim!: andthen_InrE
        split: option.splits)
  then have "r \<in> set (order_table (pay_db s))" by (blast dest: sql_first_SomeD)
  then show ?thesis by (rule order_details_answer [OF details assms(2)])
qed

lemmas answer_rules = create_order_answer initiate_answer execute_answer user_orders_answer
  order_answer

text \<open>The six endpoints, with the event each gets.\<close>

definition pay_endpoints :: "pay_env \<Rightarrow> pydict \<Rightarrow> (pay_state, lambda_response) prog list" where
  "pay_endpoints env event =
     [handle_create env event, handle_get_order_details_for_user event,
      handle_get_order_from_order_id event, handle_initiate env event, handle_execute env event,
      handle_cancel event]"

text \<open>\<open>json.loads\<close> builds values of JSON types only, never a \<open>datetime\<close>.\<close>

definition json_decoder :: "pay_env \<Rightarrow> bool" where
  "json_decoder env \<longleftrightarrow> (\<forall>t v. pay_json_loads env t = Inr v \<longrightarrow> serialisable v)"

lemma json_bodyD:
  "json_body env event s = (Inr v, s') \<Longrightarrow> json_decoder env \<Longrightarrow> serialisable v \<and> s' = s"
  by (auto simp: json_body_def sbind_Inr_iff json_decoder_def)

lemma create_answers: "json_decoder env \<Longrightarrow> pay_inv s \<Longrightarrow>
  \<exists>resp. fst (handle_create env event s) = Inr resp \<and> status_code resp \<in> {200, 201, 400, 500}"
  unfolding handle_create_def
  by (rule respond_to_answers, unfold answers_def)
    (auto elim!: andthen_InrE split: if_splits simp: bad_request_def simp del: getitems.simps
      serialisable.simps(3) dest!: json_bodyD,
     (blast intro: answer_rules dest: serialisable_getitem serialisable_getitems)+)

lemma initiate_answers: "json_decoder env \<Longrightarrow> pay_inv s \<Longrightarrow>
  \<exists>resp. fst (handle_initiate env event s) = Inr resp \<and> status_code resp \<in> {200, 201, 400, 500}"
  unfolding handle_initiate_def
  by (rule respond_to_answers, unfold answers_def)
    (auto elim!: andthen_InrE split: if_splits simp: bad_request_def simp del: getitems.simps
      serialisable.simps(3) dest!: json_bodyD,
     (blast intro: answer_rules dest: serialisable_getitem serialisable_getitems)+)

lemma execute_answers: "json_decoder env \<Longrightarrow> pay_inv s \<Longrightarrow>
  \<exists>resp. fst (handle_execute env event s) = Inr resp \<and> status_code resp \<in> {200, 201, 400, 500}"
  unfolding handle_execute_def
  by (rule respond_to_answers, unfold answers_def)
    (auto elim!: andthen_InrE split: if_splits simp: bad_request_def simp del: getitems.simps
      serialisable.simps(3) dest!: json_bodyD, blast intro: answer_rules)

lemma cancel_answers: "pay_inv s \<Longrightarrow>
  \<exists>resp. fst (handle_cancel event s) = Inr resp \<and> status_code resp \<in> {200, 201, 400, 500}"
  unfolding handle_cancel_def
  by (rule respond_to_answers, unfold answers_def)
    (auto elim!: andthen_InrE split: if_splits simp: bad_request_def)

lemma user_orders_answers: "pay_inv s \<Longrightarrow>
  \<exists>resp. fst (handle_get_order_details_for_user event s) = Inr resp
    \<and> status_code resp \<in> {200, 201, 400, 500}"
  unfolding handle_get_order_details_for_user_def
  by (rule respond_to_answers, unfold answers_def)
    (auto elim!: andthen_InrE split: if_splits simp: bad_request_def simp del: serialisable.simps(3),
     blast intro: answer_rules)

lemma order_answers: "pay_inv s \<Longrightarrow>
  \<exists>resp. fst (handle_get_order_from_order_id event s) = Inr resp
    \<and> status_code resp \<in> {200, 201, 400, 500}"
  unfolding handle_get_order_from_order_id_def
  by (rule respond_to_answers, unfold answers_def)
    (auto elim!: andthen_InrE split: if_splits simp: bad_request_def simp del: serialisable.simps(3),
     blast intro: answer_rules)

text \<open>
  In well-formed tables every endpoint returns a response with status 200, 201, 400 or 500 for
  every event: no exception, of PayPal, of the database or of a malformed event, leaves a handler.
\<close>

theorem pay_endpoints_answer:
  assumes "json_decoder env" and "pay_ok (pay_db s)" and "h \<in> set (pay_endpoints env event)"
  shows "\<exists>resp. fst (h s) = Inr resp \<and> status_code resp \<in> {200, 201, 400, 500}"
proof -
  have "pay_inv s" using assms(2) by (simp add: pay_inv_def)
  with assms(1,3) create_answers initiate_answers execute_answers cancel_answers
    user_orders_answers order_answers
  show ?thesis by (auto simp: pay_endpoints_def)
qed

lemma pay_endpoints_answer_witness:
  "\<exists>resp. fst (handle_cancel [] (demo_state ''PENDING'')) = Inr resp
     \<and> status_code resp \<in> {200, 201, 400, 500}"
  using pay_endpoints_answer [of "demo_env True" "demo_state ''PENDING''" "handle_cancel []" "[]"]
    pay_ok_demo [of "''PENDING''"]
  by (simp add: json_decoder_def demo_env_def pay_endpoints_def)

end
