(* ===== verification/Deployer_Model.thy ===== *)
theory Deployer_Model
  imports Common
begin

text \<open>
  The data of \<open>src/deployer\<close>: the enumerations and tables of \<open>infrastructure/models.py\<close>, the
  domain objects the factories build from rows and their responses, the exceptions, the state of
  the service and its environment.
\<close>

section \<open>deployer/infrastructure/models.py: enumerations\<close>

datatype daemon_status = Daemon_INIT | Daemon_STARTING | Daemon_UP | Daemon_DOWN | Daemon_ERROR

datatype hosted_service_status =
    HS_INIT | HS_VALIDATING | HS_REGISTERING | HS_PUSHING_NEW_VERSION | HS_BUILDING | HS_DEPLOYING
  | HS_PROFILING | HS_UP | HS_DOWN | HS_ERROR

datatype order_status = CREATED | PROCESSING | SUCCESS | FAILED | CANCELLED | EXPIRED

datatype evm_transaction_status = TX_PENDING | TX_SUCCESS | TX_FAILED

fun daemon_status_value :: "daemon_status \<Rightarrow> string" where
  "daemon_status_value Daemon_INIT = ''INIT''"
| "daemon_status_value Daemon_STARTING = ''STARTING''"
| "daemon_status_value Daemon_UP = ''UP''"
| "daemon_status_value Daemon_DOWN = ''DOWN''"
| "daemon_status_value Daemon_ERROR = ''ERROR''"

fun hosted_service_status_value :: "hosted_service_status \<Rightarrow> string" where
  "hosted_service_status_value HS_INIT = ''INIT''"
| "hosted_service_status_value HS_VALIDATING = ''VALIDATING''"
| "hosted_service_status_value HS_REGISTERING = ''REGISTERING''"
| "hosted_service_status_value HS_PUSHING_NEW_VERSION = ''PUSHING_NEW_VERSION''"
| "hosted_service_status_value HS_BUILDING = ''BUILDING''"
| "hosted_service_status_value HS_DEPLOYING = ''DEPLOYING''"
| "hosted_service_status_value HS_PROFILING = ''PROFILING''"
| "hosted_service_status_value HS_UP = ''UP''"
| "hosted_service_status_value HS_DOWN = ''DOWN''"
| "hosted_service_status_value HS_ERROR = ''ERROR''"

fun order_status_value :: "order_status \<Rightarrow> string" where
  "order_status_value CREATED = ''CREATED''"
| "order_status_value PROCESSING = ''PROCESSING''"
| "order_status_value SUCCESS = ''SUCCESS''"
| "order_status_value FAILED = ''FAILED''"
| "order_status_value CANCELLED = ''CANCELLED''"
| "order_status_value EXPIRED = ''EXPIRED''"

fun evm_transaction_status_value :: "evm_transaction_status \<Rightarrow> string" where
  "evm_transaction_status_value TX_PENDING = ''PENDING''"
| "evm_transaction_status_value TX_SUCCESS = ''SUCCESS''"
| "evm_transaction_status_value TX_FAILED = ''FAILED''"

section \<open>deployer/constant.py\<close>

text \<open>The messages of HaaS carry a status of these enumerations, which is then turned into the
  status of the same name: \<open>DaemonStatus(request.status)\<close>.\<close>

datatype haas_daemon_status = Haas_STARTING | Haas_UP | Haas_DOWN | Haas_ERROR

fun to_daemon_status :: "haas_daemon_status \<Rightarrow> daemon_status" where
  "to_daemon_status Haas_STARTING = Daemon_STARTING"
| "to_daemon_status Haas_UP = Daemon_UP"
| "to_daemon_status Haas_DOWN = Daemon_DOWN"
| "to_daemon_status Haas_ERROR = Daemon_ERROR"

datatype haas_hosted_service_status =
    Haas_HS_VALIDATING | Haas_HS_REGISTERING | Haas_HS_PUSHING_NEW_VERSION | Haas_HS_BUILDING
  | Haas_HS_DEPLOYING | Haas_HS_PROFILING | Haas_HS_UP | Haas_HS_DOWN | Haas_HS_ERROR

fun to_hosted_service_status :: "haas_hosted_service_status \<Rightarrow> hosted_service_status" where
  "to_hosted_service_status Haas_HS_VALIDATING = HS_VALIDATING"
| "to_hosted_service_status Haas_HS_REGISTERING = HS_REGISTERING"
| "to_hosted_service_status Haas_HS_PUSHING_NEW_VERSION = HS_PUSHING_NEW_VERSION"
| "to_hosted_service_status Haas_HS_BUILDING = HS_BUILDING"
| "to_hosted_service_status Haas_HS_DEPLOYING = HS_DEPLOYING"
| "to_hosted_service_status Haas_HS_PROFILING = HS_PROFILING"
| "to_hosted_service_status Haas_HS_UP = HS_UP"
| "to_hosted_service_status Haas_HS_DOWN = HS_DOWN"
| "to_hosted_service_status Haas_HS_ERROR = HS_ERROR"

datatype period_type = Hour | Day | Week | Month | Year | AllTime
datatype order_type = Asc | Desc
datatype movement_type = Income | Expense | AllFunds
datatype income_status = IncomePending | IncomeSuccess | IncomeFailed | IncomeAll

fun order_type_value :: "order_type \<Rightarrow> string" where
  "order_type_value Asc = ''asc''"
| "order_type_value Desc = ''desc''"

fun period_type_value :: "period_type \<Rightarrow> string" where
  "period_type_value Hour = ''hour''"
| "period_type_value Day = ''day''"
| "period_type_value Week = ''week''"
| "period_type_value Month = ''month''"
| "period_type_value Year = ''year''"
| "period_type_value AllTime = ''all''"

definition minutes :: "int \<Rightarrow> time" where
  "minutes n = n * 60 * 1000000"

text \<open>\<open>PERIOD_TYPE_TIMEDELTA\<close> has no entry for \<open>ALL\<close>.\<close>

fun period_timedelta :: "period_type \<Rightarrow> time option" where
  "period_timedelta Hour = Some (minutes 60)"
| "period_timedelta Day = Some (minutes (24 * 60))"
| "period_timedelta Week = Some (minutes (7 * 24 * 60))"
| "period_timedelta Month = Some (minutes (30 * 24 * 60))"
| "period_timedelta Year = Some (minutes (365 * 24 * 60))"
| "period_timedelta AllTime = None"

text \<open>The periods in the order of their length.\<close>

definition period_rank :: "period_type \<Rightarrow> nat" where
  "period_rank p = (case p of Hour \<Rightarrow> 0 | Day \<Rightarrow> 1 | Week \<Rightarrow> 2 | Month \<Rightarrow> 3 | Year \<Rightarrow> 4 | AllTime \<Rightarrow> 5)"

instantiation period_type :: linorder
begin

definition less_eq_period_type :: "period_type \<Rightarrow> period_type \<Rightarrow> bool" where
  "p \<le> q \<longleftrightarrow> period_rank p \<le> period_rank q"

definition less_period_type :: "period_type \<Rightarrow> period_type \<Rightarrow> bool" where
  "p < q \<longleftrightarrow> period_rank p < period_rank q"

instance
  by standard (auto simp: less_eq_period_type_def less_period_type_def period_rank_def
      split: period_type.splits)

end

lemma period_timedelta_mono:
  "p \<le> q \<Longrightarrow> period_timedelta q = Some d \<Longrightarrow> \<exists>d'. period_timedelta p = Some d' \<and> d' \<le> d"
  by (cases p; cases q) (auto simp: less_eq_period_type_def period_rank_def minutes_def)

section \<open>deployer/infrastructure/models.py: tables\<close>

record account_balance_row =
  ab_account_id :: string
  ab_balance_in_cogs :: int
  ab_created_at :: time
  ab_updated_at :: time

record daemon_row =
  d_id :: string
  d_account_id :: string
  d_org_id :: string
  d_service_id :: string
  d_status :: daemon_status
  d_daemon_config :: pydict
  d_daemon_endpoint :: string
  d_status_observed_at :: "time option"
  d_status_resource_version :: "string option"
  d_created_at :: time
  d_updated_at :: time

record hosted_service_row =
  hs_id :: string
  hs_daemon_id :: string
  hs_status :: hosted_service_status
  hs_github_account_name :: string
  hs_github_repository_name :: string
  hs_last_commit_url :: string
  hs_created_at :: time
  hs_updated_at :: time

record order_row =
  ord_id :: string
  ord_account_id :: string
  ord_status :: order_status
  ord_amount :: int
  ord_created_at :: time
  ord_updated_at :: time

record evm_transaction_row =
  tx_hash :: string
  tx_order_id :: string
  tx_status :: evm_transaction_status
  tx_sender :: string
  tx_recipient :: string
  tx_created_at :: time
  tx_updated_at :: time

record transactions_metadata_row =
  tm_id :: int
  tm_recipient :: string
  tm_last_block_no :: int
  tm_fetch_limit :: int
  tm_block_adjustment :: int
  tm_created_at :: time
  tm_updated_at :: time

record token_rate_row =
  tr_id :: int
  tr_token_symbol :: string
  tr_usd_per_token :: string
  tr_cogs_per_usd :: int
  tr_created_at :: time
  tr_updated_at :: time

record deployer_db =
  account_balance_table :: "account_balance_row list"
  daemon_table :: "daemon_row list"
  hosted_service_table :: "hosted_service_row list"
  order_table :: "order_row list"
  evm_transaction_table :: "evm_transaction_row list"
  transactions_metadata_table :: "transactions_metadata_row list"
  token_rate_table :: "token_rate_row list"

section \<open>deployer/domain\<close>

text \<open>
  The domain objects of account balances, hosted services, transactions and transaction metadata
  are field by field copies of their rows. Those of daemons and orders add the related rows.
\<close>

type_synonym account_balance_domain = account_balance_row
type_synonym hosted_service_domain = hosted_service_row
type_synonym evm_transaction_domain = evm_transaction_row
type_synonym transactions_metadata_domain = transactions_metadata_row

record daemon_domain = daemon_row +
  dd_hosted_service :: "hosted_service_domain option"

record order_domain = order_row +
  od_evm_transactions :: "evm_transaction_domain list"

text \<open>Arguments of the repositories: the \<open>New...Domain\<close> classes.\<close>

record new_daemon =
  nd_id :: string
  nd_account_id :: string
  nd_org_id :: string
  nd_service_id :: string
  nd_status :: daemon_status
  nd_daemon_config :: pydict
  nd_daemon_endpoint :: string
  nd_status_observed_at :: "time option"
  nd_status_resource_version :: "string option"

record new_hosted_service =
  nhs_id :: string
  nhs_daemon_id :: string
  nhs_status :: hosted_service_status
  nhs_github_account_name :: string
  nhs_github_repository_name :: string
  nhs_last_commit_url :: string

record new_order =
  no_id :: string
  no_account_id :: string
  no_status :: order_status
  no_amount :: int

record new_evm_transaction =
  nt_hash :: string
  nt_order_id :: string
  nt_status :: evm_transaction_status
  nt_sender :: string
  nt_recipient :: string

definition account_balance_from_db_model :: "account_balance_row \<Rightarrow> account_balance_domain" where
  "account_balance_from_db_model r =
     \<lparr>ab_account_id = ab_account_id r, ab_balance_in_cogs = ab_balance_in_cogs r,
      ab_created_at = ab_created_at r, ab_updated_at = ab_updated_at r\<rparr>"

definition hosted_service_from_db_model :: "hosted_service_row \<Rightarrow> hosted_service_domain" where
  "hosted_service_from_db_model r =
     \<lparr>hs_id = hs_id r, hs_daemon_id = hs_daemon_id r, hs_status = hs_status r,
      hs_github_account_name = hs_github_account_name r,
      hs_github_repository_name = hs_github_repository_name r,
      hs_last_commit_url = hs_last_commit_url r,
      hs_created_at = hs_created_at r, hs_updated_at = hs_updated_at r\<rparr>"

definition transaction_from_db_model :: "evm_transaction_row \<Rightarrow> evm_transaction_domain" where
  "transaction_from_db_model r =
     \<lparr>tx_hash = tx_hash r, tx_order_id = tx_order_id r, tx_status = tx_status r,
      tx_sender = tx_sender r, tx_recipient = tx_recipient r,
      tx_created_at = tx_created_at r, tx_updated_at = tx_updated_at r\<rparr>"

definition transactions_metadata_from_db_model ::
  "transactions_metadata_row \<Rightarrow> transactions_metadata_domain" where
  "transactions_metadata_from_db_model r =
     \<lparr>tm_id = tm_id r, tm_recipient = tm_recipient r, tm_last_block_no = tm_last_block_no r,
      tm_fetch_limit = tm_fetch_limit r, tm_block_adjustment = tm_block_adjustment r,
      tm_created_at = tm_created_at r, tm_updated_at = tm_updated_at r\<rparr>"

lemma factory_copies [simp]:
  "account_balance_from_db_model r = r"
  "hosted_service_from_db_model h = h"
  "transaction_from_db_model t = t"
  "transactions_metadata_from_db_model m = m"
  by (simp_all add: account_balance_from_db_model_def hosted_service_from_db_model_def
      transaction_from_db_model_def transactions_metadata_from_db_model_def)

text \<open>The relationships of the ORM: \<open>daemon.hosted_service\<close> and \<open>order.evm_transactions\<close>.\<close>

definition hosted_service_of :: "deployer_db \<Rightarrow> daemon_row \<Rightarrow> hosted_service_row option" where
  "hosted_service_of db r = sql_first (\<lambda>h. hs_daemon_id h = d_id r) (hosted_service_table db)"

definition daemon_from_db_model :: "deployer_db \<Rightarrow> daemon_row \<Rightarrow> daemon_domain" where
  "daemon_from_db_model db r =
     \<lparr>d_id = d_id r, d_account_id = d_account_id r, d_org_id = d_org_id r,
      d_service_id = d_service_id r, d_status = d_status r, d_daemon_config = d_daemon_config r,
      d_daemon_endpoint = d_daemon_endpoint r, d_status_observed_at = d_status_observed_at r,
      d_status_resource_version = d_status_resource_version r,
      d_created_at = d_created_at r, d_updated_at = d_updated_at r,
      dd_hosted_service = map_option hosted_service_from_db_model (hosted_service_of db r)\<rparr>"

definition daemons_from_db_model :: "deployer_db \<Rightarrow> daemon_row list \<Rightarrow> daemon_domain list" where
  "daemons_from_db_model db rs = map (daemon_from_db_model db) rs"

definition order_from_db_model :: "deployer_db \<Rightarrow> order_row \<Rightarrow> order_domain" where
  "order_from_db_model db r =
     \<lparr>ord_id = ord_id r, ord_account_id = ord_account_id r, ord_status = ord_status r,
      ord_amount = ord_amount r, ord_created_at = ord_created_at r, ord_updated_at = ord_updated_at r,
      od_evm_transactions = map transaction_from_db_model
        (filter (\<lambda>t. tx_order_id t = ord_id r) (evm_transaction_table db))\<rparr>"

definition orders_from_db_model :: "deployer_db \<Rightarrow> order_row list \<Rightarrow> order_domain list" where
  "orders_from_db_model db rs = map (order_from_db_model db) rs"

lemma daemon_from_db_model_simps [simp]:
  "d_id (daemon_from_db_model db r) = d_id r"
  "d_account_id (daemon_from_db_model db r) = d_account_id r"
  "d_org_id (daemon_from_db_model db r) = d_org_id r"
  "d_service_id (daemon_from_db_model db r) = d_service_id r"
  "d_status (daemon_from_db_model db r) = d_status r"
  "d_daemon_config (daemon_from_db_model db r) = d_daemon_config r"
  "d_daemon_endpoint (daemon_from_db_model db r) = d_daemon_endpoint r"
  "d_status_observed_at (daemon_from_db_model db r) = d_status_observed_at r"
  "d_status_resource_version (daemon_from_db_model db r) = d_status_resource_version r"
  "d_updated_at (daemon_from_db_model db r) = d_updated_at r"
  "dd_hosted_service (daemon_from_db_model db r) = hosted_service_of db r"
  by (cases "hosted_service_of db r"; simp add: daemon_from_db_model_def)+

lemma order_from_db_model_simps [simp]:
  "ord_id (order_from_db_model db r) = ord_id r"
  "ord_account_id (order_from_db_model db r) = ord_account_id r"
  "ord_status (order_from_db_model db r) = ord_status r"
  "ord_amount (order_from_db_model db r) = ord_amount r"
  "ord_updated_at (order_from_db_model db r) = ord_updated_at r"
  by (simp_all add: order_from_db_model_def)

section \<open>deployer/domain/models: responses\<close>

text \<open>
  \<open>BaseDomain.to_response\<close> on the fields that \<open>asdict\<close> gives: the two timestamps come first, an
  enumeration is represented by its value, and the loop turns datetimes into text at the top level.
\<close>

definition asdict :: "time \<Rightarrow> time \<Rightarrow> pydict \<Rightarrow> pydict" where
  "asdict created updated items =
     (''created_at'', PTime created) # (''updated_at'', PTime updated) # items"

fun response_value :: "pyval \<Rightarrow> pyval" where
  "response_value (PTime t) = PStr (isoformat t)"
| "response_value v = v"

definition base_to_response :: "bool \<Rightarrow> pydict \<Rightarrow> pydict" where
  "base_to_response remove_created_updated items =
     (let result = (if remove_created_updated then dict_del ''updated_at'' (dict_del ''created_at'' items)
                    else items)
      in dict_keys_to_camel_case (map (\<lambda>(k, v). (k, response_value v)) result) True)"

definition account_balance_to_response :: "account_balance_domain \<Rightarrow> pydict" where
  "account_balance_to_response b = [(''balanceInCogs'', PInt (ab_balance_in_cogs b))]"

definition hosted_service_asdict :: "hosted_service_domain \<Rightarrow> pydict" where
  "hosted_service_asdict h =
     asdict (hs_created_at h) (hs_updated_at h)
       [(''id'', PStr (hs_id h)), (''daemon_id'', PStr (hs_daemon_id h)),
        (''status'', PStr (hosted_service_status_value (hs_status h))),
        (''github_account_name'', PStr (hs_github_account_name h)),
        (''github_repository_name'', PStr (hs_github_repository_name h)),
        (''last_commit_url'', PStr (hs_last_commit_url h))]"

definition hosted_service_to_response :: "bool \<Rightarrow> hosted_service_domain \<Rightarrow> pydict" where
  "hosted_service_to_response remove_created_updated h =
     (let result = dict_del ''daemonId'' (base_to_response remove_created_updated (hosted_service_asdict h))
      in if dict_get result ''status'' \<notin> Some ` {PStr ''INIT'', PStr ''UP'', PStr ''DOWN'', PStr ''ERROR''}
         then dict_set ''status'' (PStr ''STARTING'') result
         else result)"

definition hosted_service_to_short_response :: "hosted_service_domain \<Rightarrow> pydict" where
  "hosted_service_to_short_response h =
     [(''id'', PStr (hs_id h)),
      (''status'', PStr (if hs_status h \<notin> {HS_INIT, HS_UP, HS_DOWN, HS_ERROR} then ''STARTING''
                       else hosted_service_status_value (hs_status h))),
      (''updatedAt'', PStr (isoformat (hs_updated_at h)))]"

definition daemon_to_response :: "bool \<Rightarrow> daemon_domain \<Rightarrow> pydict" where
  "daemon_to_response with_hosted_service d =
     [(''orgId'', PStr (d_org_id d)), (''serviceId'', PStr (d_service_id d)),
      (''daemon'', PDict
        [(''id'', PStr (d_id d)), (''status'', PStr (daemon_status_value (d_status d))),
         (''daemonConfig'', PDict (dict_keys_to_camel_case (d_daemon_config d) True)),
         (''daemonEndpoint'', PStr (d_daemon_endpoint d)),
         (''updatedAt'', PStr (isoformat (d_updated_at d)))])] @
     (if with_hosted_service then
        [(''hostedService'', case dd_hosted_service d of None \<Rightarrow> PNone
            | Some h \<Rightarrow> PDict (hosted_service_to_response True h))]
      else [])"

definition daemon_to_short_response :: "daemon_domain \<Rightarrow> pydict" where
  "daemon_to_short_response d =
     [(''orgId'', PStr (d_org_id d)), (''serviceId'', PStr (d_service_id d)),
      (''daemon'', PDict
        [(''id'', PStr (d_id d)), (''status'', PStr (daemon_status_value (d_status d))),
         (''updatedAt'', PStr (isoformat (d_updated_at d)))]),
      (''hostedService'', case dd_hosted_service d of None \<Rightarrow> PNone
         | Some h \<Rightarrow> PDict (hosted_service_to_short_response h))]"

definition evm_transaction_asdict :: "evm_transaction_domain \<Rightarrow> pydict" where
  "evm_transaction_asdict t =
     asdict (tx_created_at t) (tx_updated_at t)
       [(''hash'', PStr (tx_hash t)), (''order_id'', PStr (tx_order_id t)),
        (''status'', PStr (evm_transaction_status_value (tx_status t))),
        (''sender'', PStr (tx_sender t)), (''recipient'', PStr (tx_recipient t))]"

definition evm_transaction_to_response :: "bool \<Rightarrow> evm_transaction_domain \<Rightarrow> pydict" where
  "evm_transaction_to_response remove_created_updated t =
     base_to_response remove_created_updated (evm_transaction_asdict t)"

definition order_asdict :: "order_domain \<Rightarrow> pydict" where
  "order_asdict r =
     asdict (ord_created_at r) (ord_updated_at r)
       [(''id'', PStr (ord_id r)), (''account_id'', PStr (ord_account_id r)),
        (''status'', PStr (order_status_value (ord_status r))), (''amount'', PInt (ord_amount r)),
        (''evm_transactions'', PList (map (\<lambda>t. PDict (evm_transaction_asdict t)) (od_evm_transactions r)))]"

definition order_to_response :: "bool \<Rightarrow> order_domain \<Rightarrow> pydict" where
  "order_to_response remove_created_updated r =
     dict_set ''evmTransactions''
       (PList (map (\<lambda>t.
          (let txn = evm_transaction_to_response remove_created_updated t
           in PDict (if remove_created_updated then txn else dict_del ''createdAt'' txn)))
          (od_evm_transactions r)))
       (base_to_response remove_created_updated (order_asdict r))"

definition order_to_short_response :: "order_domain \<Rightarrow> pydict" where
  "order_to_short_response r = dict_del ''evmTransactions'' (base_to_response True (order_asdict r))"

section \<open>deployer/exceptions.py\<close>

definition InvalidServiceAuthParameters :: exn where
  "InvalidServiceAuthParameters = BadRequestException
     ''Invalid service auth parameters! Must be 'key', 'value' and 'location' and not empty.'' []"

definition MissingServiceEventParameters :: exn where
  "MissingServiceEventParameters =
     BadRequestException ''Missing service event parameters: serviceId and/or metadataUri!'' []"

definition DaemonNotFoundException :: "string \<Rightarrow> exn" where
  "DaemonNotFoundException daemon_id =
     NotFoundException (''Daemon with id '' @ daemon_id @ '' not found!'')"

definition DaemonNotFoundForServiceException :: "string \<Rightarrow> string \<Rightarrow> exn" where
  "DaemonNotFoundForServiceException org_id service_id =
     NotFoundException (''Daemon for service with org_id='' @ org_id @ '' and service_id='' @ service_id
       @ '' not found!'')"

definition MissingServiceEndpointException :: exn where
  "MissingServiceEndpointException = BadRequestException ''Missing service endpoint!'' []"

definition UpdateConfigNotAvailableException :: exn where
  "UpdateConfigNotAvailableException = BadRequestException ''Config update is not available!'' []"

definition MissingGithubParametersException :: exn where
  "MissingGithubParametersException =
     BadRequestException ''Missing github account name or repository name!'' []"

definition MissingCommitHashParameter :: exn where
  "MissingCommitHashParameter = BadRequestException ''Missing commit hash parameter!'' []"

definition OrderNotFoundException :: "string \<Rightarrow> exn" where
  "OrderNotFoundException order_id = NotFoundException (''Order with id '' @ order_id @ '' not found!'')"

definition UnacceptableOrderStatusException :: "string \<Rightarrow> exn" where
  "UnacceptableOrderStatusException status =
     BadRequestException (''Order status '' @ status @ '' is not acceptable for this operation!'') []"

definition DaemonAlreadyExistsException :: "string \<Rightarrow> string \<Rightarrow> exn" where
  "DaemonAlreadyExistsException org_id service_id =
     BadRequestException (''Daemon for service with org_id='' @ org_id @ '' and service_id='' @ service_id
       @ '' already exists!'') []"

definition DaemonAndHostedServiceAlreadyExistException :: "string \<Rightarrow> string \<Rightarrow> exn" where
  "DaemonAndHostedServiceAlreadyExistException org_id service_id =
     BadRequestException (''Daemon and hosted service for service with org_id='' @ org_id
       @ '' and service_id='' @ service_id @ '' already exist!'') []"

text \<open>With neither both ids of the service nor the id of the hosted service, the constructor returns
  without calling its superclass.\<close>

definition HostedServiceNotFoundException :: "string \<Rightarrow> string \<Rightarrow> string \<Rightarrow> exn" where
  "HostedServiceNotFoundException hosted_service_id org_id service_id =
     (if org_id \<noteq> [] \<and> service_id \<noteq> [] then
        NotFoundException (''Hosted service for service with org_id='' @ org_id
          @ '' and service_id='' @ service_id @ '' not found!'')
      else if hosted_service_id \<noteq> [] then
        NotFoundException (''Hosted service with id='' @ hosted_service_id @ '' not found!'')
      else Uninitialised OtherClass)"

definition WrongIncomeStatusForTypeException :: exn where
  "WrongIncomeStatusForTypeException =
     BadRequestException ''There must be only 'all' status parameter for 'expense' type!'' []"

definition TokenRateUnavailableException :: exn where
  "TokenRateUnavailableException = NotFoundException ''There is no data about token rate for now!''"

definition ArchiveError :: "string \<Rightarrow> exn" where
  "ArchiveError message = PyExc ''ArchiveError'' message"

definition LogsAreNotAvailableException :: exn where
  "LogsAreNotAvailableException =
     BadRequestException ''Logs are not available! Deployment must have UP status!'' []"

end
