(* ===== verification/Deployer_Clients.thy ===== *)
theory Deployer_Clients
  imports Deployer_Model
begin

text \<open>
  The state of the deployer service, its environment, database sessions, and the clients of the
  systems it calls: HaaS, GitHub, other lambdas, SNS and the price service.

  Every call of another system is recorded, in order, in \<open>ext_calls\<close>; the environment answers a
  call as a function of the calls made before it. A session that fails is rolled back: the
  database is as before, the calls made stay made.
\<close>

section \<open>State and environment\<close>

text \<open>An HTTP request: method, URL, headers and JSON body.\<close>

datatype ext_call =
    HttpCall string string pydict pyval
  | SnsPublish string string
  | LambdaInvoke string bool string
  | ReadBlockNumber
  | ReadTransfers string int int string
  | ReadTransaction string
  | StorageGet string bool

record http_response =
  http_status :: nat
  http_text :: string
  http_json :: "exn + pyval"

record lambda_reply =
  lr_status :: nat
  lr_payload :: string
  lr_text :: string

text \<open>An ERC-20 \<open>Transfer\<close> event: \<open>event["transactionHash"].hex()\<close> and its arguments.\<close>

record transfer_event =
  te_transaction_hash :: string
  te_from :: string
  te_to :: string
  te_value :: int

text \<open>deployer/domain/schemas/haas_responses.py: the text of the UTC offset is empty for a naive
  timestamp.\<close>

record call_event =
  ce_org_id :: string
  ce_service_id :: string
  ce_duration :: int
  ce_amount :: int
  ce_timestamp :: time
  ce_utc_offset :: string

record get_call_events_response =
  ger_events :: "call_event list"
  ger_total_count :: int

record world =
  wdb :: deployer_db
  ext_calls :: "ext_call list"
  uuid_supply :: nat

text \<open>
  The environment of one operation. \<open>now\<close> is the clock, \<open>column_time\<close> what a TIMESTAMP column
  keeps of a datetime. \<open>tar_members\<close> lists an archive as \<open>tarfile\<close> reads it: for each member, whether
  it is a file, and its content if it can be extracted. \<open>py_repr\<close> is the text of a value in a
  message. \<open>cogs_per_usd_of\<close> is \<open>round(10**TOKEN_DECIMALS / rate)\<close> in floating point. The
  \<open>pydantic_\<close> functions are the conversions of that library in its default mode,
  \<open>validation_errors\<close> its list of errors; \<open>pandas_metrics\<close> is the data frame part of the metrics.
\<close>

record denv =
  now :: time
  column_time :: "time \<Rightarrow> time"
  new_uuid :: "nat \<Rightarrow> string"
  loads :: "string \<Rightarrow> exn + pyval"
  py_repr :: "pyval \<Rightarrow> string"
  py_float :: "pyval \<Rightarrow> exn + string"
  cogs_per_usd_of :: "string \<Rightarrow> exn + int"
  utf8_decode :: "nat list \<Rightarrow> exn + string"
  sha224_hex :: "string \<Rightarrow> string"
  github_jwt :: "exn + string"
  http_answer :: "ext_call list \<Rightarrow> ext_call \<Rightarrow> exn + http_response"
  sns_answer :: "ext_call list \<Rightarrow> ext_call \<Rightarrow> exn + nat"
  lambda_answer :: "ext_call list \<Rightarrow> ext_call \<Rightarrow> exn + lambda_reply"
  block_number :: "ext_call list \<Rightarrow> ext_call \<Rightarrow> exn + int"
  transfer_events :: "ext_call list \<Rightarrow> ext_call \<Rightarrow> exn + transfer_event list"
  transaction_input_hex :: "ext_call list \<Rightarrow> ext_call \<Rightarrow> exn + string"
  storage_metadata :: "ext_call list \<Rightarrow> ext_call \<Rightarrow> exn + pyval"
  storage_bytes :: "ext_call list \<Rightarrow> ext_call \<Rightarrow> exn + nat list"
  tar_members :: "nat list \<Rightarrow> exn + (bool \<times> nat list option) list"
  parse_call_events :: "pyval \<Rightarrow> exn + get_call_events_response"
  load_contract :: "string \<Rightarrow> exn + pyval"
  contracts_path :: string
  pydantic_int :: "pyval \<Rightarrow> int option"
  pydantic_bool :: "pyval \<Rightarrow> bool option"
  pydantic_datetime :: "pyval \<Rightarrow> time option"
  validation_errors :: "string \<Rightarrow> pyval"
  literal_eval :: "string \<Rightarrow> exn + pydict"
  web3_to_text :: "pyval \<Rightarrow> exn + string"
  pandas_metrics :: "call_event list \<Rightarrow> string \<Rightarrow> exn + pydict"
  serverless_offline :: bool
  HAAS_BASE_URL :: string
  HAAS_DEPLOY_DAEMON_PATH :: "string \<Rightarrow> string \<Rightarrow> string"
  HAAS_DELETE_DAEMON_PATH :: "string \<Rightarrow> string \<Rightarrow> string"
  HAAS_GET_DAEMON_LOGS_PATH :: "string \<Rightarrow> string \<Rightarrow> string"
  HAAS_GET_PUBLIC_KEY_PATH :: string
  HAAS_DELETE_HOSTED_SERVICE_PATH :: "string \<Rightarrow> string \<Rightarrow> string"
  HAAS_GET_HOSTED_SERVICE_LOGS_PATH :: "string \<Rightarrow> string \<Rightarrow> string"
  HAAS_GET_CALL_EVENTS_PATH :: string
  HAAS_DAEMON_IMAGE :: string
  HAAS_DAEMON_BASE_URL :: string
  DEPLOY_SERVICE_TOPIC_ARN :: string
  START_DAEMON_ARN :: string
  GET_ALL_ORGS_ARN :: string
  TOKEN_JSON_FILE_NAME :: string
  NETWORK_ID :: int
  TRANSACTION_TTL_IN_MINUTES :: int

definition REQUEST_MAX_LIMIT :: int where "REQUEST_MAX_LIMIT = 100"
definition TOKEN_NAME :: string where "TOKEN_NAME = ''FET''"
definition DEFAULT_DAEMON_STORAGE_TYPE :: string where "DEFAULT_DAEMON_STORAGE_TYPE = ''etcd''"
definition AUTH_PARAMETERS :: "string list" where "AUTH_PARAMETERS = [''key'', ''value'', ''location'']"

type_synonym 'a dprog = "(world, 'a) prog"

definition external :: "(ext_call list \<Rightarrow> ext_call \<Rightarrow> exn + 'a) \<Rightarrow> ext_call \<Rightarrow> 'a dprog" where
  "external answer c =
     (\<lambda>w. (answer (ext_calls w) c, w\<lparr>ext_calls := ext_calls w @ [c]\<rparr>))"

definition generate_uuid :: "denv \<Rightarrow> string dprog" where
  "generate_uuid env =
     (\<lambda>w. (Inr (new_uuid env (uuid_supply w)), w\<lparr>uuid_supply := Suc (uuid_supply w)\<rparr>))"

section \<open>deployer/infrastructure/db.py\<close>

definition session_scope :: "'a dprog \<Rightarrow> 'a dprog" where
  "session_scope body =
     (\<lambda>w. case body w of
        (Inl e, w') \<Rightarrow> (Inl e, w'\<lparr>wdb := wdb w\<rparr>)
      | (Inr a, w') \<Rightarrow> (Inr a, w'))"

text \<open>The database part of a session.\<close>

definition query :: "(deployer_db \<Rightarrow> 'a) \<Rightarrow> 'a dprog" where
  "query f = gets (\<lambda>w. f (wdb w))"

definition execute :: "(deployer_db \<Rightarrow> deployer_db) \<Rightarrow> unit dprog" where
  "execute f = modify (\<lambda>w. w\<lparr>wdb := f (wdb w)\<rparr>)"

text \<open>An insert is refused when it breaks a key, unique or foreign key constraint.\<close>

definition insert_checked :: "(deployer_db \<Rightarrow> bool) \<Rightarrow> (deployer_db \<Rightarrow> deployer_db) \<Rightarrow> unit dprog" where
  "insert_checked ok f = andthen (query ok) (\<lambda>b. if b then execute f else raise IntegrityError)"

lemma session_scope_Inr [simp]: "body w = (Inr a, w') \<Longrightarrow> session_scope body w = (Inr a, w')"
  by (simp add: session_scope_def)

lemma session_scope_Inl [simp]:
  "body w = (Inl e, w') \<Longrightarrow> session_scope body w = (Inl e, w'\<lparr>wdb := wdb w\<rparr>)"
  by (simp add: session_scope_def)

lemma session_scope_InrD: "session_scope body w = (Inr a, w') \<Longrightarrow> body w = (Inr a, w')"
  by (auto simp: session_scope_def split: prod.splits sum.splits)

lemma session_scope_InlD:
  "session_scope body w = (Inl e, w') \<Longrightarrow> \<exists>w1. body w = (Inl e, w1) \<and> w' = w1\<lparr>wdb := wdb w\<rparr>"
  by (auto simp: session_scope_def split: prod.splits sum.splits)

lemma query_apply [simp, prog_simps]: "query f w = (Inr (f (wdb w)), w)"
  by (simp add: query_def)

lemma execute_apply [simp, prog_simps]: "execute f w = (Inr (), w\<lparr>wdb := f (wdb w)\<rparr>)"
  by (simp add: execute_def)

lemma insert_checked_apply [simp, prog_simps]:
  "insert_checked ok f w =
     (if ok (wdb w) then (Inr (), w\<lparr>wdb := f (wdb w)\<rparr>) else (Inl IntegrityError, w))"
  by (simp add: insert_checked_def andthen_def)

lemma external_apply [simp, prog_simps]:
  "external answer c w = (answer (ext_calls w) c, w\<lparr>ext_calls := ext_calls w @ [c]\<rparr>)"
  by (simp add: external_def)

lemma generate_uuid_apply [simp, prog_simps]:
  "generate_uuid env w = (Inr (new_uuid env (uuid_supply w)), w\<lparr>uuid_supply := Suc (uuid_supply w)\<rparr>)"
  by (simp add: generate_uuid_def)

text \<open>The same at the head of a sequence.\<close>

lemma andthen_query [simp, prog_simps]: "andthen (query f) k w = k (f (wdb w)) w"
  by (simp add: andthen_def)

lemma andthen_execute [simp, prog_simps]: "andthen (execute f) k w = k () (w\<lparr>wdb := f (wdb w)\<rparr>)"
  by (simp add: andthen_def)

lemma andthen_uuid [simp, prog_simps]:
  "andthen (generate_uuid env) k w = k (new_uuid env (uuid_supply w)) (w\<lparr>uuid_supply := Suc (uuid_supply w)\<rparr>)"
  by (simp add: andthen_def)

subsection \<open>Programs and the database\<close>

text \<open>
  A relation between databases, lifted to states. A session keeps an invariant of the database
  when its body does. Code that only calls other systems leaves the database alone, which is
  \<open>unchanged wdb\<close>.
\<close>

definition on_db :: "(deployer_db \<Rightarrow> deployer_db \<Rightarrow> bool) \<Rightarrow> world \<Rightarrow> world \<Rightarrow> bool" where
  "on_db R w w' \<longleftrightarrow> R (wdb w) (wdb w')"

locale db_frame = step_frame R for R :: "deployer_db \<Rightarrow> deployer_db \<Rightarrow> bool"
begin

lemma stays_quiet: "stays (unchanged wdb) m \<Longrightarrow> stays (on_db R) m"
  by (simp add: stays_def unchanged_def on_db_def refl)

lemma stays_query: "stays (on_db R) (query f)"
  by (simp add: stays_def on_db_def refl)

lemma stays_execute: "(\<And>db. R db (f db)) \<Longrightarrow> stays (on_db R) (execute f)"
  by (simp add: stays_def on_db_def)

lemma stays_insert: "(\<And>db. ok db \<Longrightarrow> R db (f db)) \<Longrightarrow> stays (on_db R) (insert_checked ok f)"
  by (simp add: stays_def on_db_def refl)

lemma stays_session: "stays (on_db R) m \<Longrightarrow> stays (on_db R) (session_scope m)"
  unfolding stays_def session_scope_def on_db_def
  by (auto simp: refl split: prod.split sum.split) (metis snd_conv)

lemma lifted: "step_frame (on_db R)"
  by unfold_locales (auto simp: on_db_def intro: refl trans)

lemmas session_rules = stays_query stays_session

end

interpretation db_invariant: db_frame "keeping I" for I
  by unfold_locales

interpretation db_part: db_frame "unchanged g" for g
  by unfold_locales

lemma quiet_external [stays_intros]: "stays (unchanged wdb) (external a c)"
  by (simp add: stays_def unchanged_def)

lemma quiet_uuid [stays_intros]: "stays (unchanged wdb) (generate_uuid env)"
  by (simp add: stays_def unchanged_def)

lemma quiet_query [stays_intros]: "stays (unchanged wdb) (query f)"
  by (simp add: stays_def unchanged_def)

lemma quiet_session [stays_intros]:
  "stays (unchanged wdb) m \<Longrightarrow> stays (unchanged wdb) (session_scope m)"
  unfolding stays_def session_scope_def unchanged_def
  by (auto split: prod.split sum.split) (metis snd_conv)

lemmas quiet_rules = same.stays_rules quiet_external quiet_uuid quiet_query quiet_session

section \<open>deployer/infrastructure/clients/haas_client.py\<close>

text \<open>\<open>str(e)\<close>.\<close>

fun exn_str :: "exn \<Rightarrow> string" where
  "exn_str (PyExc cls message) = (if cls = ''KeyError'' then CHR 0x27 # message @ [CHR 0x27] else message)"
| "exn_str (CustomExc cls http_code code message details) = ''[code '' @ str_int code @ ''] '' @ message"
| "exn_str (Uninitialised cls) = []"
| "exn_str (DataExc cls v) = []"

definition HaaSClientError :: "string \<Rightarrow> exn" where
  "HaaSClientError message = PyExc ''HaaSClientError'' (''Error while interacting with HaaS: '' @ message)"

definition response_ok :: "http_response \<Rightarrow> bool" where
  "response_ok r = (http_status r < 400)"

text \<open>The \<open>try\<close> block that every HTTP method of the client has: a failing answer raises inside it,
  so its message is wrapped twice.\<close>

definition haas_request ::
  "denv \<Rightarrow> string \<Rightarrow> string \<Rightarrow> pyval \<Rightarrow> (http_response \<Rightarrow> exn + 'a) \<Rightarrow> 'a dprog" where
  "haas_request env http_method url body read_result =
     try_except
       (andthen (external (http_answer env) (HttpCall http_method url [] body)) (\<lambda>result.
        if response_ok result then of_sum (read_result result)
        else raise (HaaSClientError (http_text result))))
       (\<lambda>e. raise (HaaSClientError (exn_str e)))"

definition haas_deploy_daemon :: "denv \<Rightarrow> string \<Rightarrow> string \<Rightarrow> pydict \<Rightarrow> unit dprog" where
  "haas_deploy_daemon env org_id service_id daemon_config =
     (let url = HAAS_BASE_URL env @ HAAS_DEPLOY_DAEMON_PATH env org_id service_id;
          config = PDict daemon_config in
     andthen (of_sum (getitem config ''daemon_group'')) (\<lambda>daemon_group.
     andthen (of_sum (getitem config ''service_class'')) (\<lambda>service_class.
     andthen (of_sum (getitem config ''service_endpoint'')) (\<lambda>service_endpoint.
     andthen (of_sum (getitem config ''payment_channel_storage_type'')) (\<lambda>storage_type.
     andthen (of_sum (getitem config ''is_service_hosted'')) (\<lambda>is_service_hosted.
     (let request_data =
            [(''daemonGroup'', daemon_group), (''serviceClass'', service_class),
             (''serviceEndpoint'', service_endpoint), (''daemonImage'', PStr (HAAS_DAEMON_IMAGE env)),
             (''paymentChannelStorageType'', storage_type), (''isServiceHosted'', is_service_hosted)] in
     andthen
       (if dict_has daemon_config ''serviceCredentials'' then
          andthen (of_sum (getitem config ''service_credentials'')) (\<lambda>credentials.
          ret (dict_set ''service_credentials'' credentials request_data))
        else ret request_data) (\<lambda>request_data.
     haas_request env ''POST'' url (PDict request_data) (\<lambda>_. Inr ())))))))))"

definition haas_delete_daemon :: "denv \<Rightarrow> string \<Rightarrow> string \<Rightarrow> unit dprog" where
  "haas_delete_daemon env org_id service_id =
     haas_request env ''DELETE'' (HAAS_BASE_URL env @ HAAS_DELETE_DAEMON_PATH env org_id service_id) PNone
       (\<lambda>_. Inr ())"

definition json_field :: "string list \<Rightarrow> http_response \<Rightarrow> exn + pyval" where
  "json_field path result = sbind (http_json result) (\<lambda>v. getitems v path)"

definition haas_get_daemon_logs :: "denv \<Rightarrow> string \<Rightarrow> string \<Rightarrow> int \<Rightarrow> pyval dprog" where
  "haas_get_daemon_logs env org_id service_id tail =
     haas_request env ''GET''
       (HAAS_BASE_URL env @ HAAS_GET_DAEMON_LOGS_PATH env org_id service_id @ ''?tail='' @ str_int tail) PNone
       (json_field [''data'', ''logs''])"

definition haas_get_public_key :: "denv \<Rightarrow> pyval dprog" where
  "haas_get_public_key env =
     haas_request env ''GET'' (HAAS_BASE_URL env @ HAAS_GET_PUBLIC_KEY_PATH env) PNone
       (json_field [''data'', ''publicKey''])"

definition haas_delete_hosted_service :: "denv \<Rightarrow> string \<Rightarrow> string \<Rightarrow> unit dprog" where
  "haas_delete_hosted_service env org_id service_id =
     haas_request env ''DELETE''
       (HAAS_BASE_URL env @ HAAS_DELETE_HOSTED_SERVICE_PATH env org_id service_id) PNone (\<lambda>_. Inr ())"

definition haas_get_hosted_service_logs :: "denv \<Rightarrow> string \<Rightarrow> string \<Rightarrow> int \<Rightarrow> pyval dprog" where
  "haas_get_hosted_service_logs env org_id service_id tail =
     haas_request env ''GET''
       (HAAS_BASE_URL env @ HAAS_GET_HOSTED_SERVICE_LOGS_PATH env org_id service_id
         @ ''?tail='' @ str_int tail) PNone
       (json_field [''data'', ''logs''])"

text \<open>common/boto_utils.py\<close>

definition publish_data_to_sns_topic :: "denv \<Rightarrow> string \<Rightarrow> pydict \<Rightarrow> unit dprog" where
  "publish_data_to_sns_topic env topic_arn payload =
     andthen (of_sum (json_dumps (PDict payload))) (\<lambda>text.
     andthen (of_sum (json_dumps (PDict [(''default'', PStr text)]))) (\<lambda>message.
     andthen (external (sns_answer env) (SnsPublish topic_arn message)) (\<lambda>status.
     if status \<noteq> 200 then raise (PyExc ''Exception'' ''Failed to publish data to SNS topic!'')
     else ret ())))"

definition push_deploy_service_event ::
  "denv \<Rightarrow> string \<Rightarrow> string \<Rightarrow> string \<Rightarrow> pyval \<Rightarrow> string \<Rightarrow> unit dprog" where
  "push_deploy_service_event env org_id service_id github_repo_url installation_id commit =
     publish_data_to_sns_topic env (DEPLOY_SERVICE_TOPIC_ARN env)
       [(''orgId'', PStr org_id), (''serviceId'', PStr service_id),
        (''gitRepoUrl'', PStr github_repo_url), (''commit'', PStr commit),
        (''installationId'', installation_id)]"

definition get_call_events ::
  "denv \<Rightarrow> int \<Rightarrow> int \<Rightarrow> order_type \<Rightarrow> period_type \<Rightarrow> (string \<times> string) list \<Rightarrow>
   get_call_events_response dprog" where
  "get_call_events env limit page order period services =
     haas_request env ''POST'' (HAAS_BASE_URL env @ HAAS_GET_CALL_EVENTS_PATH env)
       (PDict
         [(''services'', PList (map (\<lambda>(org_id, service_id).
             PDict [(''orgId'', PStr org_id), (''serviceId'', PStr service_id)]) services)),
          (''limit'', PInt limit), (''page'', PInt page), (''order'', PStr (order_type_value order)),
          (''period'', PStr (period_type_value period))])
       (\<lambda>response. sbind (http_json response) (parse_call_events env))"

section \<open>deployer/infrastructure/clients/github_api_client.py\<close>

definition GithubAPIClientError :: "string \<Rightarrow> exn" where
  "GithubAPIClientError message =
     PyExc ''GithubAPIClientError'' (''Github API Client error: '' @ message)"

definition get_installation :: "denv \<Rightarrow> string \<Rightarrow> string \<Rightarrow> (nat \<times> pyval) dprog" where
  "get_installation env account_name repository_name =
     try_except
       (andthen (of_sum (github_jwt env)) (\<lambda>token.
        andthen (external (http_answer env) (HttpCall ''GET''
            (''https://api.github.com/repos/'' @ account_name @ ''/'' @ repository_name @ ''/installation'')
            [(''Authorization'', PStr (''Bearer '' @ token)), (''Accept'', PStr ''application/vnd.github+json'')]
            PNone)) (\<lambda>response.
        andthen (of_sum (http_json response)) (\<lambda>body.
        ret (http_status response, body)))))
       (\<lambda>e. raise (GithubAPIClientError (''Error getting installation: '' @ exn_str e)))"

definition check_repo_installation :: "denv \<Rightarrow> string \<Rightarrow> string \<Rightarrow> bool dprog" where
  "check_repo_installation env account_name repository_name =
     andthen (get_installation env account_name repository_name) (\<lambda>(status, response).
     if status = 200 then ret True
     else if status = 404 then ret False
     else raise (GithubAPIClientError (''Error checking installation: status code - '' @ str_nat status
            @ '', body - '' @ py_repr env response)))"

definition get_installation_id :: "denv \<Rightarrow> string \<Rightarrow> string \<Rightarrow> pyval dprog" where
  "get_installation_id env account_name repository_name =
     andthen (get_installation env account_name repository_name) (\<lambda>(status, response).
     if status = 200 then of_sum (getitem response ''id'')
     else raise (GithubAPIClientError (''Error getting installation id: status code - '' @ str_nat status
            @ '', body - '' @ py_repr env response)))"

definition make_commit_url :: "string \<Rightarrow> string \<Rightarrow> string \<Rightarrow> string" where
  "make_commit_url account_name repository_name commit_hash =
     ''https://github.com/'' @ account_name @ ''/'' @ repository_name @ ''/commit/'' @ commit_hash"

definition make_repository_url :: "string \<Rightarrow> string \<Rightarrow> string" where
  "make_repository_url account_name repository_name = account_name @ ''/'' @ repository_name"

section \<open>common/lambda_client.py and the clients on top of it\<close>

definition LambdaClientError :: "string \<Rightarrow> string \<Rightarrow> exn" where
  "LambdaClientError client message = PyExc ''LambdaClientError'' (client @ '' response error: '' @ message)"

definition optional_item :: "string \<Rightarrow> pyval option \<Rightarrow> pydict" where
  "optional_item k v = (case v of None \<Rightarrow> [] | Some x \<Rightarrow> [(k, x)])"

text \<open>The request; neither client of this service passes headers, query parameters or a body.\<close>

definition lambda_payload ::
  "pydict option \<Rightarrow> string option \<Rightarrow> string option \<Rightarrow> string option \<Rightarrow> pydict" where
  "lambda_payload path_parameters authorizer_email authorizer_sub origin =
     optional_item ''pathParameters'' (map_option PDict path_parameters) @
     [(''headers'', PDict (optional_item ''origin'' (map_option PStr origin)))] @
     (if authorizer_email \<noteq> None \<or> authorizer_sub \<noteq> None then
        [(''requestContext'', PDict [(''authorizer'', PDict [(''claims'', PDict
            (optional_item ''email'' (map_option PStr authorizer_email) @
             optional_item ''sub'' (map_option PStr authorizer_sub)))])])]
      else [])"

definition invoke_lambda ::
  "denv \<Rightarrow> string \<Rightarrow> string \<Rightarrow> pydict \<Rightarrow> bool \<Rightarrow> pyval dprog" where
  "invoke_lambda env client lambda_function_arn payload asynchronous =
     try_except
       (andthen (of_sum (json_dumps (PDict payload))) (\<lambda>text.
        andthen (external (lambda_answer env) (LambdaInvoke lambda_function_arn asynchronous text)) (\<lambda>response.
        if \<not> asynchronous then
          andthen (of_sum (loads env (lr_payload response))) (\<lambda>answer.
          andthen (of_sum (sbind (getitem answer ''body'') as_text)) (\<lambda>body.
          andthen (of_sum (loads env body)) (\<lambda>response_body.
          andthen (of_sum (getitem response_body ''status'')) (\<lambda>status.
          if status = PStr ''success'' then of_sum (getitem response_body ''data'')
          else raise (LambdaClientError client (py_repr env response_body))))))
        else if lr_status response \<noteq> 202 then
          raise (LambdaClientError client (lr_text response))
        else ret PNone)))
       (\<lambda>e. raise (LambdaClientError client (exn_str e)))"

text \<open>deployer/infrastructure/clients/deployer_client.py\<close>

definition client_deploy_daemon :: "denv \<Rightarrow> string \<Rightarrow> bool \<Rightarrow> pyval dprog" where
  "client_deploy_daemon env daemon_id asynchronous =
     invoke_lambda env ''DeployerClient'' (START_DAEMON_ARN env)
       (lambda_payload (Some [(''daemonId'', PStr daemon_id)]) None None None) asynchronous"

text \<open>deployer/infrastructure/clients/registry_client.py\<close>

definition get_all_orgs :: "denv \<Rightarrow> string \<Rightarrow> string \<Rightarrow> string \<Rightarrow> pyval dprog" where
  "get_all_orgs env username account_id origin =
     invoke_lambda env ''RegistryClient'' (GET_ALL_ORGS_ARN env)
       (lambda_payload None (Some username) (Some account_id) (Some origin)) False"

section \<open>deployer/infrastructure/clients/crypto_exchange_client.py\<close>

definition CryptoExchangeClientError :: "string \<Rightarrow> string \<Rightarrow> exn" where
  "CryptoExchangeClientError name message =
     PyExc ''CryptoExchangeClientError'' (''Crypto Exchange ('' @ name @ '') Client error: '' @ message)"

definition get_token_rate :: "denv \<Rightarrow> string \<Rightarrow> string dprog" where
  "get_token_rate env token_symbol =
     try_except
       (andthen (external (http_answer env) (HttpCall ''GET'' ''https://api.coingecko.com/api/v3/simple/price'' []
            (PDict [(''symbols'', PStr token_symbol), (''vs_currencies'', PStr ''usd'')]))) (\<lambda>response.
        of_sum (sbind (json_field [token_symbol, ''usd''] response) (py_float env))))
       (\<lambda>e. raise (CryptoExchangeClientError ''coingecko'' (exn_str e)))"

section \<open>Clients leave the database alone\<close>

lemma quiet_case_prod [stays_intros]:
  "(\<And>a b. stays (unchanged wdb) (f a b)) \<Longrightarrow> stays (unchanged wdb) (case p of (a, b) \<Rightarrow> f a b)"
  by (cases p) simp

lemma quiet_haas_request [stays_intros]: "stays (unchanged wdb) (haas_request env h u b r)"
  unfolding haas_request_def by (intro quiet_rules)

lemma quiet_invoke_lambda [stays_intros]: "stays (unchanged wdb) (invoke_lambda env c a p s)"
  unfolding invoke_lambda_def by (intro quiet_rules)

lemma quiet_clients [stays_intros]:
  "stays (unchanged wdb) (haas_deploy_daemon env a b c)"
  "stays (unchanged wdb) (haas_delete_daemon env a b)"
  "stays (unchanged wdb) (haas_get_daemon_logs env a b n)"
  "stays (unchanged wdb) (haas_get_public_key env)"
  "stays (unchanged wdb) (haas_delete_hosted_service env a b)"
  "stays (unchanged wdb) (haas_get_hosted_service_logs env a b n)"
  "stays (unchanged wdb) (push_deploy_service_event env a b g i k)"
  "stays (unchanged wdb) (get_call_events env n p ord per svcs)"
  "stays (unchanged wdb) (check_repo_installation env a b)"
  "stays (unchanged wdb) (get_installation_id env a b)"
  "stays (unchanged wdb) (client_deploy_daemon env a sync)"
  "stays (unchanged wdb) (get_all_orgs env u a org)"
  "stays (unchanged wdb) (get_token_rate env t)"
  unfolding haas_deploy_daemon_def haas_delete_daemon_def haas_get_daemon_logs_def
    haas_get_public_key_def haas_delete_hosted_service_def haas_get_hosted_service_logs_def
    push_deploy_service_event_def publish_data_to_sns_topic_def get_call_events_def
    check_repo_installation_def get_installation_id_def get_installation_def
    client_deploy_daemon_def get_all_orgs_def get_token_rate_def Let_def
  by (intro quiet_rules quiet_haas_request quiet_invoke_lambda quiet_case_prod)+

end
