(* ===== verification/Deployer_Repositories.thy ===== *)
theory Deployer_Repositories
  imports Deployer_Clients
begin

text \<open>
  \<open>src/deployer/infrastructure/repositories\<close>: the queries and updates of the seven tables. An
  update that changes a row sets its \<open>updated_at\<close>, as the tables declare
  (\<open>ON UPDATE CURRENT_TIMESTAMP\<close>); an insert sets both timestamps. Rows a query leaves unordered
  come in insertion order.
\<close>

section \<open>Timestamps\<close>

definition db_now :: "denv \<Rightarrow> time" where
  "db_now env = column_time env (now env)"

definition touch_account_balance ::
  "denv \<Rightarrow> (account_balance_row \<Rightarrow> account_balance_row) \<Rightarrow> account_balance_row \<Rightarrow> account_balance_row" where
  "touch_account_balance env = touch (\<lambda>t r. r\<lparr>ab_updated_at := t\<rparr>) (db_now env)"

definition touch_daemon :: "denv \<Rightarrow> (daemon_row \<Rightarrow> daemon_row) \<Rightarrow> daemon_row \<Rightarrow> daemon_row" where
  "touch_daemon env = touch (\<lambda>t r. r\<lparr>d_updated_at := t\<rparr>) (db_now env)"

definition touch_hosted_service ::
  "denv \<Rightarrow> (hosted_service_row \<Rightarrow> hosted_service_row) \<Rightarrow> hosted_service_row \<Rightarrow> hosted_service_row" where
  "touch_hosted_service env = touch (\<lambda>t r. r\<lparr>hs_updated_at := t\<rparr>) (db_now env)"

definition touch_order :: "denv \<Rightarrow> (order_row \<Rightarrow> order_row) \<Rightarrow> order_row \<Rightarrow> order_row" where
  "touch_order env = touch (\<lambda>t r. r\<lparr>ord_updated_at := t\<rparr>) (db_now env)"

definition touch_evm_transaction ::
  "denv \<Rightarrow> (evm_transaction_row \<Rightarrow> evm_transaction_row) \<Rightarrow> evm_transaction_row \<Rightarrow> evm_transaction_row" where
  "touch_evm_transaction env = touch (\<lambda>t r. r\<lparr>tx_updated_at := t\<rparr>) (db_now env)"

definition touch_transactions_metadata ::
  "denv \<Rightarrow> (transactions_metadata_row \<Rightarrow> transactions_metadata_row) \<Rightarrow>
   transactions_metadata_row \<Rightarrow> transactions_metadata_row" where
  "touch_transactions_metadata env = touch (\<lambda>t r. r\<lparr>tm_updated_at := t\<rparr>) (db_now env)"

lemmas touch_defs = touch_account_balance_def touch_daemon_def touch_hosted_service_def
  touch_order_def touch_evm_transaction_def touch_transactions_metadata_def

text \<open>A field other than \<open>updated_at\<close> after an update is what the update made of it.\<close>

lemma touch_field:
  assumes "\<And>r. k (put t r) = k r"
  shows "k (touch put t f r) = k (f r)"
proof (cases "f r = r")
  case True
  then show ?thesis by (simp add: touch_def)
next
  case False
  then show ?thesis using assms by (simp add: touch_def)
qed

lemma touch_account_balance_fields [simp, row_simps]:
  "ab_account_id (touch_account_balance env f r) = ab_account_id (f r)"
  "ab_balance_in_cogs (touch_account_balance env f r) = ab_balance_in_cogs (f r)"
  "ab_created_at (touch_account_balance env f r) = ab_created_at (f r)"
  unfolding touch_account_balance_def by (rule touch_field; simp)+

lemma touch_daemon_fields [simp, row_simps]:
  "d_id (touch_daemon env g d) = d_id (g d)"
  "d_account_id (touch_daemon env g d) = d_account_id (g d)"
  "d_org_id (touch_daemon env g d) = d_org_id (g d)"
  "d_service_id (touch_daemon env g d) = d_service_id (g d)"
  "d_status (touch_daemon env g d) = d_status (g d)"
  "d_daemon_config (touch_daemon env g d) = d_daemon_config (g d)"
  "d_daemon_endpoint (touch_daemon env g d) = d_daemon_endpoint (g d)"
  "d_status_observed_at (touch_daemon env g d) = d_status_observed_at (g d)"
  "d_status_resource_version (touch_daemon env g d) = d_status_resource_version (g d)"
  "d_created_at (touch_daemon env g d) = d_created_at (g d)"
  unfolding touch_daemon_def by (rule touch_field; simp)+

lemma touch_hosted_service_fields [simp, row_simps]:
  "hs_id (touch_hosted_service env g h) = hs_id (g h)"
  "hs_daemon_id (touch_hosted_service env g h) = hs_daemon_id (g h)"
  "hs_status (touch_hosted_service env g h) = hs_status (g h)"
  "hs_github_account_name (touch_hosted_service env g h) = hs_github_account_name (g h)"
  "hs_github_repository_name (touch_hosted_service env g h) = hs_github_repository_name (g h)"
  "hs_last_commit_url (touch_hosted_service env g h) = hs_last_commit_url (g h)"
  unfolding touch_hosted_service_def by (rule touch_field; simp)+

lemma touch_order_fields [simp, row_simps]:
  "ord_id (touch_order env g r) = ord_id (g r)"
  "ord_account_id (touch_order env g r) = ord_account_id (g r)"
  "ord_status (touch_order env g r) = ord_status (g r)"
  "ord_amount (touch_order env g r) = ord_amount (g r)"
  "ord_created_at (touch_order env g r) = ord_created_at (g r)"
  unfolding touch_order_def by (rule touch_field; simp)+

lemma touch_evm_transaction_fields [simp, row_simps]:
  "tx_hash (touch_evm_transaction env g t) = tx_hash (g t)"
  "tx_order_id (touch_evm_transaction env g t) = tx_order_id (g t)"
  "tx_status (touch_evm_transaction env g t) = tx_status (g t)"
  "tx_sender (touch_evm_transaction env g t) = tx_sender (g t)"
  "tx_recipient (touch_evm_transaction env g t) = tx_recipient (g t)"
  unfolding touch_evm_transaction_def by (rule touch_field; simp)+

lemma touch_transactions_metadata_fields [simp, row_simps]:
  "tm_id (touch_transactions_metadata env g m) = tm_id (g m)"
  "tm_recipient (touch_transactions_metadata env g m) = tm_recipient (g m)"
  "tm_last_block_no (touch_transactions_metadata env g m) = tm_last_block_no (g m)"
  "tm_fetch_limit (touch_transactions_metadata env g m) = tm_fetch_limit (g m)"
  "tm_block_adjustment (touch_transactions_metadata env g m) = tm_block_adjustment (g m)"
  unfolding touch_transactions_metadata_def by (rule touch_field; simp)+

section \<open>account\_balance\_repository.py\<close>

definition get_account_balance :: "string \<Rightarrow> account_balance_domain option dprog" where
  "get_account_balance account_id =
     query (\<lambda>db. map_option account_balance_from_db_model
       (sql_first (\<lambda>b. ab_account_id b = account_id) (account_balance_table db)))"

definition upsert_account_balance :: "denv \<Rightarrow> string \<Rightarrow> int \<Rightarrow> unit dprog" where
  "upsert_account_balance env account_id balance_in_cogs =
     andthen (query (\<lambda>db. sql_first (\<lambda>b. ab_account_id b = account_id) (account_balance_table db))) (\<lambda>found.
     case found of
       Some _ \<Rightarrow> execute (\<lambda>db. db\<lparr>account_balance_table :=
           sql_update (\<lambda>b. ab_account_id b = account_id)
             (touch_account_balance env (\<lambda>b. b\<lparr>ab_balance_in_cogs := balance_in_cogs\<rparr>))
             (account_balance_table db)\<rparr>)
     | None \<Rightarrow> insert_checked (\<lambda>db. account_id \<notin> ab_account_id ` set (account_balance_table db))
         (\<lambda>db. db\<lparr>account_balance_table := account_balance_table db @
            [\<lparr>ab_account_id = account_id, ab_balance_in_cogs = balance_in_cogs,
              ab_created_at = db_now env, ab_updated_at = db_now env\<rparr>]\<rparr>))"

text \<open>The step that \<open>create_order\<close> and \<open>initiate_deployment\<close> share: an account that has no row yet
  gets one with nothing on it.\<close>

definition ensure_account_balance :: "denv \<Rightarrow> string \<Rightarrow> unit dprog" where
  "ensure_account_balance env account_id =
     andthen (get_account_balance account_id) (\<lambda>account_balance.
     if account_balance = None then upsert_account_balance env account_id 0 else ret ())"

definition increase_account_balance :: "denv \<Rightarrow> string \<Rightarrow> int \<Rightarrow> unit dprog" where
  "increase_account_balance env account_id amount =
     execute (\<lambda>db. db\<lparr>account_balance_table :=
       sql_update (\<lambda>b. ab_account_id b = account_id)
         (touch_account_balance env (\<lambda>b. b\<lparr>ab_balance_in_cogs := ab_balance_in_cogs b + amount\<rparr>))
         (account_balance_table db)\<rparr>)"

definition decrease_account_balance :: "denv \<Rightarrow> string \<Rightarrow> int \<Rightarrow> unit dprog" where
  "decrease_account_balance env account_id amount =
     execute (\<lambda>db. db\<lparr>account_balance_table :=
       sql_update (\<lambda>b. ab_account_id b = account_id)
         (touch_account_balance env (\<lambda>b. b\<lparr>ab_balance_in_cogs := ab_balance_in_cogs b - amount\<rparr>))
         (account_balance_table db)\<rparr>)"

definition get_account_balance_by_service ::
  "string \<Rightarrow> string \<Rightarrow> account_balance_domain option dprog" where
  "get_account_balance_by_service org_id service_id =
     query (\<lambda>db. map_option account_balance_from_db_model
       (sql_first (\<lambda>b. \<exists>d \<in> set (daemon_table db). d_account_id d = ab_account_id b \<and>
            d_org_id d = org_id \<and> d_service_id d = service_id) (account_balance_table db)))"

section \<open>daemon\_repository.py\<close>

definition create_daemon :: "denv \<Rightarrow> new_daemon \<Rightarrow> unit dprog" where
  "create_daemon env n =
     insert_checked
       (\<lambda>db. nd_id n \<notin> d_id ` set (daemon_table db) \<and>
          nd_account_id n \<in> ab_account_id ` set (account_balance_table db) \<and>
          (nd_org_id n, nd_service_id n) \<notin> (\<lambda>d. (d_org_id d, d_service_id d)) ` set (daemon_table db))
       (\<lambda>db. db\<lparr>daemon_table := daemon_table db @
          [\<lparr>d_id = nd_id n, d_account_id = nd_account_id n, d_org_id = nd_org_id n,
            d_service_id = nd_service_id n, d_status = nd_status n, d_daemon_config = nd_daemon_config n,
            d_daemon_endpoint = nd_daemon_endpoint n, d_status_observed_at = nd_status_observed_at n,
            d_status_resource_version = nd_status_resource_version n,
            d_created_at = db_now env, d_updated_at = db_now env\<rparr>]\<rparr>)"

definition update_daemons :: "denv \<Rightarrow> string \<Rightarrow> (daemon_row \<Rightarrow> daemon_row) \<Rightarrow> unit dprog" where
  "update_daemons env daemon_id f =
     execute (\<lambda>db. db\<lparr>daemon_table :=
       sql_update (\<lambda>d. d_id d = daemon_id) (touch_daemon env f) (daemon_table db)\<rparr>)"

definition update_daemon_status ::
  "denv \<Rightarrow> string \<Rightarrow> daemon_status \<Rightarrow> time option \<Rightarrow> string option \<Rightarrow> unit dprog" where
  "update_daemon_status env daemon_id status status_observed_at status_resource_version =
     update_daemons env daemon_id (\<lambda>d. d\<lparr>d_status := status,
       d_status_observed_at := map_option (column_time env) status_observed_at,
       d_status_resource_version := status_resource_version\<rparr>)"

definition update_daemon_config :: "denv \<Rightarrow> string \<Rightarrow> pydict \<Rightarrow> unit dprog" where
  "update_daemon_config env daemon_id daemon_config =
     update_daemons env daemon_id (\<lambda>d. d\<lparr>d_daemon_config := daemon_config\<rparr>)"

definition update_daemon_endpoint :: "denv \<Rightarrow> string \<Rightarrow> string \<Rightarrow> unit dprog" where
  "update_daemon_endpoint env daemon_id daemon_endpoint =
     update_daemons env daemon_id (\<lambda>d. d\<lparr>d_daemon_endpoint := daemon_endpoint\<rparr>)"

definition first_daemon :: "(deployer_db \<Rightarrow> daemon_row \<Rightarrow> bool) \<Rightarrow> daemon_domain option dprog" where
  "first_daemon p = query (\<lambda>db. map_option (daemon_from_db_model db) (sql_first (p db) (daemon_table db)))"

definition get_daemon :: "string \<Rightarrow> daemon_domain option dprog" where
  "get_daemon daemon_id = first_daemon (\<lambda>_ d. d_id d = daemon_id)"

text \<open>\<open>order_by\<close> has the one value \<open>created_at\<close>.\<close>

definition get_user_daemons ::
  "string \<Rightarrow> (int \<times> int) option \<Rightarrow> order_type \<Rightarrow> daemon_domain list dprog" where
  "get_user_daemons account_id page_limit order =
     query (\<lambda>db.
       (let selected = filter (\<lambda>d. d_account_id d = account_id) (daemon_table db);
            ordered = (case order of Asc \<Rightarrow> order_asc d_created_at selected
                       | Desc \<Rightarrow> order_desc d_created_at selected)
        in daemons_from_db_model db
             (case page_limit of None \<Rightarrow> ordered
              | Some (page, limit) \<Rightarrow> limit_offset limit ((page - 1) * limit) ordered)))"

definition get_user_daemons_total_count :: "string \<Rightarrow> int dprog" where
  "get_user_daemons_total_count account_id =
     query (\<lambda>db. int (length (filter (\<lambda>d. d_account_id d = account_id) (daemon_table db))))"

definition search_daemon :: "string \<Rightarrow> string \<Rightarrow> daemon_domain option dprog" where
  "search_daemon org_id service_id =
     first_daemon (\<lambda>_ d. d_org_id d = org_id \<and> d_service_id d = service_id)"

definition get_all_daemon_ids :: "daemon_status list option \<Rightarrow> string list dprog" where
  "get_all_daemon_ids status =
     query (\<lambda>db. map d_id (filter
       (\<lambda>d. case status of None \<Rightarrow> True | Some ss \<Rightarrow> d_status d \<in> set ss) (daemon_table db)))"

definition get_daemon_by_account_and_daemon :: "string \<Rightarrow> string \<Rightarrow> daemon_domain option dprog" where
  "get_daemon_by_account_and_daemon account_id daemon_id =
     first_daemon (\<lambda>_ d. d_id d = daemon_id \<and> d_account_id d = account_id)"

definition get_daemon_by_hosted_service :: "string \<Rightarrow> daemon_domain option dprog" where
  "get_daemon_by_hosted_service hosted_service_id =
     first_daemon (\<lambda>db d. \<exists>h \<in> set (hosted_service_table db).
       hs_daemon_id h = d_id d \<and> hs_id h = hosted_service_id)"

section \<open>hosted\_service\_repository.py\<close>

definition create_hosted_service :: "denv \<Rightarrow> new_hosted_service \<Rightarrow> unit dprog" where
  "create_hosted_service env n =
     insert_checked
       (\<lambda>db. nhs_id n \<notin> hs_id ` set (hosted_service_table db) \<and>
          nhs_daemon_id n \<in> d_id ` set (daemon_table db) \<and>
          nhs_daemon_id n \<notin> hs_daemon_id ` set (hosted_service_table db))
       (\<lambda>db. db\<lparr>hosted_service_table := hosted_service_table db @
          [\<lparr>hs_id = nhs_id n, hs_daemon_id = nhs_daemon_id n, hs_status = nhs_status n,
            hs_github_account_name = nhs_github_account_name n,
            hs_github_repository_name = nhs_github_repository_name n,
            hs_last_commit_url = nhs_last_commit_url n,
            hs_created_at = db_now env, hs_updated_at = db_now env\<rparr>]\<rparr>)"

definition update_hosted_service_status ::
  "denv \<Rightarrow> string \<Rightarrow> hosted_service_status \<Rightarrow> string option \<Rightarrow> unit dprog" where
  "update_hosted_service_status env hosted_service_id status last_commit_url =
     execute (\<lambda>db. db\<lparr>hosted_service_table :=
       sql_update (\<lambda>h. hs_id h = hosted_service_id)
         (touch_hosted_service env (\<lambda>h. (case last_commit_url of
            None \<Rightarrow> h\<lparr>hs_status := status\<rparr>
          | Some url \<Rightarrow> h\<lparr>hs_status := status, hs_last_commit_url := url\<rparr>)))
         (hosted_service_table db)\<rparr>)"

definition first_hosted_service ::
  "(deployer_db \<Rightarrow> hosted_service_row \<Rightarrow> bool) \<Rightarrow> hosted_service_domain option dprog" where
  "first_hosted_service p =
     query (\<lambda>db. map_option hosted_service_from_db_model (sql_first (p db) (hosted_service_table db)))"

definition get_hosted_service :: "string \<Rightarrow> hosted_service_domain option dprog" where
  "get_hosted_service hosted_service_id = first_hosted_service (\<lambda>_ h. hs_id h = hosted_service_id)"

definition get_hosted_service_by_account_and_service ::
  "string \<Rightarrow> string \<Rightarrow> hosted_service_domain option dprog" where
  "get_hosted_service_by_account_and_service account_id hosted_service_id =
     first_hosted_service (\<lambda>db h. hs_id h = hosted_service_id \<and>
       (\<exists>d \<in> set (daemon_table db). d_id d = hs_daemon_id h \<and> d_account_id d = account_id))"

definition search_hosted_service :: "string \<Rightarrow> string \<Rightarrow> hosted_service_domain option dprog" where
  "search_hosted_service org_id service_id =
     first_hosted_service (\<lambda>db h. \<exists>d \<in> set (daemon_table db).
       d_id d = hs_daemon_id h \<and> d_org_id d = org_id \<and> d_service_id d = service_id)"

section \<open>order\_repository.py\<close>

text \<open>
  \<open>status\<close> is absent, a text or a list of statuses. A text that is no member of the enumeration is
  passed to the database, which compares it with the column case-insensitively.
\<close>

datatype status_filter = AnyStatus | StatusText string | StatusList "order_status list"

fun status_matches :: "status_filter \<Rightarrow> order_status \<Rightarrow> bool" where
  "status_matches AnyStatus st = True"
| "status_matches (StatusText t) st = (map to_lower t = map to_lower (order_status_value st))"
| "status_matches (StatusList sts) st = (st \<in> set sts)"

definition in_period :: "denv \<Rightarrow> period_type \<Rightarrow> time \<Rightarrow> bool" where
  "in_period env period updated_at =
     (case period_timedelta period of None \<Rightarrow> True | Some delta \<Rightarrow> updated_at > now env - delta)"

definition orders_selected ::
  "denv \<Rightarrow> string \<Rightarrow> period_type \<Rightarrow> status_filter \<Rightarrow> deployer_db \<Rightarrow> order_row list" where
  "orders_selected env account_id period status db =
     filter (\<lambda>r. ord_account_id r = account_id \<and> status_matches status (ord_status r)
       \<and> in_period env period (ord_updated_at r)) (order_table db)"

definition get_orders ::
  "denv \<Rightarrow> string \<Rightarrow> int \<Rightarrow> int \<Rightarrow> order_type \<Rightarrow> period_type \<Rightarrow> status_filter \<Rightarrow> order_domain list dprog" where
  "get_orders env account_id limit page order period status =
     query (\<lambda>db.
       (let selected = orders_selected env account_id period status db;
            ordered = (case order of Asc \<Rightarrow> order_asc ord_updated_at selected
                       | Desc \<Rightarrow> order_desc ord_updated_at selected)
        in orders_from_db_model db (limit_offset limit ((page - 1) * limit) ordered)))"

definition get_orders_total_count ::
  "denv \<Rightarrow> string \<Rightarrow> period_type \<Rightarrow> status_filter \<Rightarrow> int dprog" where
  "get_orders_total_count env account_id period status =
     query (\<lambda>db. int (length (orders_selected env account_id period status db)))"

definition order_selected ::
  "string option \<Rightarrow> string option \<Rightarrow> order_status option \<Rightarrow> order_row \<Rightarrow> bool" where
  "order_selected order_id account_id status r =
     ((order_id = None \<or> order_id = Some (ord_id r)) \<and>
      (account_id = None \<or> account_id = Some (ord_account_id r)) \<and>
      (status = None \<or> status = Some (ord_status r)))"

definition get_order ::
  "string option \<Rightarrow> string option \<Rightarrow> order_status option \<Rightarrow> order_domain option dprog" where
  "get_order order_id account_id status =
     query (\<lambda>db. map_option (order_from_db_model db)
       (first_or_none (order_desc ord_updated_at
         (filter (order_selected order_id account_id status) (order_table db)))))"

definition create_order_row :: "denv \<Rightarrow> new_order \<Rightarrow> unit dprog" where
  "create_order_row env n =
     insert_checked
       (\<lambda>db. no_id n \<notin> ord_id ` set (order_table db) \<and>
          no_account_id n \<in> ab_account_id ` set (account_balance_table db))
       (\<lambda>db. db\<lparr>order_table := order_table db @
          [\<lparr>ord_id = no_id n, ord_account_id = no_account_id n, ord_status = no_status n,
            ord_amount = no_amount n, ord_created_at = db_now env, ord_updated_at = db_now env\<rparr>]\<rparr>)"

definition update_orders :: "denv \<Rightarrow> (order_row \<Rightarrow> bool) \<Rightarrow> order_status \<Rightarrow> unit dprog" where
  "update_orders env p status =
     execute (\<lambda>db. db\<lparr>order_table :=
       sql_update p (touch_order env (\<lambda>r. r\<lparr>ord_status := status\<rparr>)) (order_table db)\<rparr>)"

definition update_order_status :: "denv \<Rightarrow> string \<Rightarrow> order_status \<Rightarrow> unit dprog" where
  "update_order_status env order_id status = update_orders env (\<lambda>r. ord_id r = order_id) status"

definition expiry :: "denv \<Rightarrow> time" where
  "expiry env = now env - minutes (TRANSACTION_TTL_IN_MINUTES env)"

definition fail_old_orders :: "denv \<Rightarrow> unit dprog" where
  "fail_old_orders env =
     update_orders env (\<lambda>r. ord_status r = PROCESSING \<and> ord_updated_at r < expiry env) FAILED"

definition expire_old_orders :: "denv \<Rightarrow> unit dprog" where
  "expire_old_orders env =
     update_orders env (\<lambda>r. ord_status r = CREATED \<and> ord_updated_at r < expiry env) EXPIRED"

section \<open>transaction\_repository.py\<close>

definition upsert_transaction :: "denv \<Rightarrow> new_evm_transaction \<Rightarrow> unit dprog" where
  "upsert_transaction env n =
     andthen (query (\<lambda>db. sql_first (\<lambda>t. tx_hash t = nt_hash n) (evm_transaction_table db))) (\<lambda>found.
     case found of
       Some _ \<Rightarrow> execute (\<lambda>db. db\<lparr>evm_transaction_table :=
           sql_update (\<lambda>t. tx_hash t = nt_hash n)
             (touch_evm_transaction env (\<lambda>t. t\<lparr>tx_status := nt_status n\<rparr>)) (evm_transaction_table db)\<rparr>)
     | None \<Rightarrow> insert_checked
         (\<lambda>db. nt_hash n \<notin> tx_hash ` set (evm_transaction_table db) \<and>
            nt_order_id n \<in> ord_id ` set (order_table db))
         (\<lambda>db. db\<lparr>evm_transaction_table := evm_transaction_table db @
            [\<lparr>tx_hash = nt_hash n, tx_order_id = nt_order_id n, tx_status = nt_status n,
              tx_sender = nt_sender n, tx_recipient = nt_recipient n,
              tx_created_at = db_now env, tx_updated_at = db_now env\<rparr>]\<rparr>))"

definition get_transaction :: "string \<Rightarrow> evm_transaction_domain option dprog" where
  "get_transaction transaction_hash =
     query (\<lambda>db. map_option transaction_from_db_model
       (sql_first (\<lambda>t. tx_hash t = transaction_hash) (evm_transaction_table db)))"

definition get_transactions_metadata :: "transactions_metadata_domain list dprog" where
  "get_transactions_metadata =
     query (\<lambda>db. map transactions_metadata_from_db_model (transactions_metadata_table db))"

definition update_transactions_metadata :: "denv \<Rightarrow> int \<Rightarrow> int \<Rightarrow> unit dprog" where
  "update_transactions_metadata env metadata_id last_block_no =
     execute (\<lambda>db. db\<lparr>transactions_metadata_table :=
       sql_update (\<lambda>m. tm_id m = metadata_id)
         (touch_transactions_metadata env (\<lambda>m. m\<lparr>tm_last_block_no := last_block_no\<rparr>))
         (transactions_metadata_table db)\<rparr>)"

definition fail_old_transactions :: "denv \<Rightarrow> unit dprog" where
  "fail_old_transactions env =
     execute (\<lambda>db. db\<lparr>evm_transaction_table :=
       sql_update (\<lambda>t. tx_status t = TX_PENDING \<and> tx_updated_at t < expiry env)
         (touch_evm_transaction env (\<lambda>t. t\<lparr>tx_status := TX_FAILED\<rparr>)) (evm_transaction_table db)\<rparr>)"

section \<open>token\_rate\_repository.py\<close>

text \<open>
  The database's average of a DECIMAL column has four more digits; Python's \<open>round\<close> of a decimal
  rounds half to even. The symbol is compared case-insensitively, as the code relies on: it writes
  the symbol in lower case and looks it up in upper case.
\<close>

definition sql_average_4 :: "int list \<Rightarrow> int" where
  "sql_average_4 xs =
     (let n = int (length xs); s = sum_list xs * 10000
      in if s \<ge> 0 then (2 * s + n) div (2 * n) else - ((- 2 * s + n) div (2 * n)))"

definition round_half_even :: "int \<Rightarrow> int \<Rightarrow> int" where
  "round_half_even num den =
     (let q = num div den; r = num mod den
      in if 2 * r < den then q else if 2 * r > den then q + 1 else if even q then q else q + 1)"

definition same_symbol :: "string \<Rightarrow> string \<Rightarrow> bool" where
  "same_symbol s t = (map to_lower s = map to_lower t)"

definition get_average_cogs_per_usd :: "string \<Rightarrow> int option dprog" where
  "get_average_cogs_per_usd token_symbol =
     query (\<lambda>db.
       (let rates = map tr_cogs_per_usd (filter (\<lambda>r. same_symbol (tr_token_symbol r) token_symbol)
                      (token_rate_table db))
        in if rates = [] then None else Some (round_half_even (sql_average_4 rates) 10000)))"

text \<open>The id comes from the table's counter.\<close>

definition add_token_rate :: "denv \<Rightarrow> string \<Rightarrow> string \<Rightarrow> int \<Rightarrow> unit dprog" where
  "add_token_rate env token_symbol usd_per_token cogs_per_usd =
     execute (\<lambda>db. db\<lparr>token_rate_table := token_rate_table db @
       [\<lparr>tr_id = 1 + fold max (map tr_id (token_rate_table db)) 0, tr_token_symbol = token_symbol,
         tr_usd_per_token = usd_per_token, tr_cogs_per_usd = cogs_per_usd,
         tr_created_at = db_now env, tr_updated_at = db_now env\<rparr>]\<rparr>)"

definition delete_old_token_rates :: "denv \<Rightarrow> unit dprog" where
  "delete_old_token_rates env =
     execute (\<lambda>db. db\<lparr>token_rate_table :=
       filter (\<lambda>r. \<not> tr_created_at r < now env - minutes (24 * 60)) (token_rate_table db)\<rparr>)"

end
