(* ===== verification/Deployer_Billing.thy ===== *)
theory Deployer_Billing
  imports Deployer_Repositories "HOL-Library.List_Lexorder" "HOL-Library.Char_ord"
begin

text \<open>
  \<open>application/services/billing_service.py\<close>: orders, the transactions that pay them, balances and
  their history, the charge of a service call, token rates.
\<close>

section \<open>application/schemas/billing\_schemas.py: the validated requests\<close>

record create_order_request =
  cor_amount :: int

record save_evm_transaction_request =
  ser_sender :: string
  ser_recipient :: string
  ser_order_id :: string
  ser_transaction_hash :: string

record get_balance_history_request =
  bh_limit :: int
  bh_page :: int
  bh_order :: order_type
  bh_period :: period_type
  bh_income_status :: income_status
  bh_type_of_movement :: "movement_type option"

record get_metrics_request =
  gm_hosted_service_id :: string
  gm_period :: period_type

record call_event_consumer_request =
  cer_org_id :: string
  cer_service_id :: string
  cer_duration :: int
  cer_amount :: int
  cer_timestamp :: time

record service_request =
  srv_org_id :: string
  srv_service_id :: string

section \<open>Orders\<close>

definition place_order :: "denv \<Rightarrow> string \<Rightarrow> int \<Rightarrow> string dprog" where
  "place_order env account_id amount =
     andthen (ensure_account_balance env account_id) (\<lambda>_.
     andthen (generate_uuid env) (\<lambda>order_id.
     andthen (create_order_row env
        \<lparr>no_id = order_id, no_account_id = account_id, no_status = CREATED, no_amount = amount\<rparr>) (\<lambda>_.
     ret order_id)))"

definition create_order :: "denv \<Rightarrow> create_order_request \<Rightarrow> string \<Rightarrow> pydict dprog" where
  "create_order env request account_id =
     andthen (session_scope
       (andthen (get_order None (Some account_id) (Some CREATED)) (\<lambda>order.
        case order of
          None \<Rightarrow> place_order env account_id (cor_amount request)
        | Some ord \<Rightarrow>
            if ord_amount ord = cor_amount request then ret (ord_id ord)
            else andthen (update_order_status env (ord_id ord) CANCELLED) (\<lambda>_.
                 place_order env account_id (cor_amount request))))) (\<lambda>order_id.
     ret [(''orderId'', PStr order_id)])"

definition save_evm_transaction :: "denv \<Rightarrow> save_evm_transaction_request \<Rightarrow> pydict dprog" where
  "save_evm_transaction env request =
     andthen (session_scope
       (andthen (get_order (Some (ser_order_id request)) None None) (\<lambda>order.
        case order of
          None \<Rightarrow> raise AttributeError
        | Some ord \<Rightarrow>
            if ord_status ord \<notin> {CREATED, FAILED} then
              raise (UnacceptableOrderStatusException (order_status_value (ord_status ord)))
            else
              andthen (upsert_transaction env
                \<lparr>nt_hash = ser_transaction_hash request, nt_order_id = ser_order_id request,
                 nt_status = TX_PENDING, nt_sender = ser_sender request,
                 nt_recipient = ser_recipient request\<rparr>) (\<lambda>_.
              update_order_status env (ser_order_id request) PROCESSING)))) (\<lambda>_.
     ret [])"

section \<open>Balances\<close>

definition get_balance :: "string \<Rightarrow> pydict dprog" where
  "get_balance account_id =
     andthen (session_scope (get_account_balance account_id)) (\<lambda>account_balance.
     ret [(''balanceInCogs'', PInt (case account_balance of None \<Rightarrow> 0 | Some b \<Rightarrow> ab_balance_in_cogs b))])"

definition get_balance_and_rate :: "service_request \<Rightarrow> pydict dprog" where
  "get_balance_and_rate request =
     andthen (session_scope
       (andthen (get_account_balance_by_service (srv_org_id request) (srv_service_id request)) (\<lambda>account_balance.
        andthen (get_average_cogs_per_usd TOKEN_NAME) (\<lambda>average_cogs_per_usd.
        case average_cogs_per_usd of
          None \<Rightarrow> raise TokenRateUnavailableException
        | Some rate \<Rightarrow> ret (case account_balance of None \<Rightarrow> 0 | Some b \<Rightarrow> ab_balance_in_cogs b, rate)))))
       (\<lambda>(balance, rate). ret [(''balanceInCogs'', PInt balance), (''cogsPerUsd'', PInt rate)])"

section \<open>Balance history\<close>

definition expense_event :: "call_event \<Rightarrow> pydict" where
  "expense_event e =
     [(''type'', PStr ''expense''), (''eventName'', PStr ''Service Call''), (''amount'', PInt (ce_amount e)),
      (''timestamp'', PStr (isoformat (ce_timestamp e) @ ce_utc_offset e))]"

definition income_event :: "order_domain \<Rightarrow> pydict" where
  "income_event r =
     [(''type'', PStr ''income''), (''eventName'', PStr ''Top Up''), (''amount'', PInt (ord_amount r)),
      (''timestamp'', PStr (isoformat (ord_updated_at r))),
      (''evmTransactions'',
        case dict_get (order_to_response False r) ''evmTransactions'' of None \<Rightarrow> PNone | Some v \<Rightarrow> v)]"

fun income_status_filter :: "income_status \<Rightarrow> status_filter" where
  "income_status_filter IncomeAll = AnyStatus"
| "income_status_filter IncomePending = StatusText ''PROCESSING''"
| "income_status_filter IncomeFailed = StatusList [FAILED, CANCELLED, EXPIRED]"
| "income_status_filter IncomeSuccess = StatusText ''success''"

definition event_timestamp :: "pydict \<Rightarrow> string" where
  "event_timestamp d = (case dict_get d ''timestamp'' of Some (PStr t) \<Rightarrow> t | _ \<Rightarrow> [])"

definition expenses_page ::
  "denv \<Rightarrow> get_balance_history_request \<Rightarrow> string \<Rightarrow> (pydict list \<times> int) dprog" where
  "expenses_page env request account_id =
     andthen (session_scope (get_user_daemons account_id None Asc)) (\<lambda>daemons.
     andthen (get_call_events env (bh_limit request) (bh_page request) (bh_order request) (bh_period request)
        (map (\<lambda>d. (d_org_id d, d_service_id d)) daemons)) (\<lambda>response.
     ret (map expense_event (ger_events response), ger_total_count response)))"

definition incomes_page ::
  "denv \<Rightarrow> get_balance_history_request \<Rightarrow> string \<Rightarrow> (pydict list \<times> int) dprog" where
  "incomes_page env request account_id =
     (let status = income_status_filter (bh_income_status request) in
     andthen (session_scope
       (andthen (get_orders env account_id (bh_limit request) (bh_page request) (bh_order request)
          (bh_period request) status) (\<lambda>orders.
        andthen (get_orders_total_count env account_id (bh_period request) status) (\<lambda>count.
        ret (orders, count))))) (\<lambda>(top_up_events, count).
     ret (map income_event top_up_events, count)))"

definition merge_history :: "get_balance_history_request \<Rightarrow> pydict list \<Rightarrow> pydict list" where
  "merge_history request events =
     (if bh_type_of_movement request = Some AllFunds then
        take (nat (bh_limit request))
          (case bh_order request of Asc \<Rightarrow> order_asc event_timestamp events
           | Desc \<Rightarrow> order_desc event_timestamp events)
      else events)"

definition get_balance_history ::
  "denv \<Rightarrow> get_balance_history_request \<Rightarrow> string \<Rightarrow> pydict dprog" where
  "get_balance_history env request account_id =
     andthen (if bh_type_of_movement request \<noteq> Some Income then expenses_page env request account_id
              else ret ([], 0)) (\<lambda>(expenses, expense_count).
     andthen (if bh_type_of_movement request \<noteq> Some Expense then incomes_page env request account_id
              else ret ([], 0)) (\<lambda>(incomes, income_count).
     ret [(''events'', PList (map PDict (merge_history request (expenses @ incomes)))),
          (''totalCount'', PInt (expense_count + income_count))]))"

section \<open>Transactions of the blockchain\<close>

text \<open>\<open>bytes.fromhex\<close>: pairs of hexadecimal digits, with white space between them skipped.\<close>

definition hex_value :: "char \<Rightarrow> nat option" where
  "hex_value c =
     (let n = of_char c in
      if 48 \<le> n \<and> n \<le> 57 then Some (n - 48)
      else if 97 \<le> n \<and> n \<le> 102 then Some (n - 87)
      else if 65 \<le> n \<and> n \<le> 70 then Some (n - 55)
      else None)"

definition ascii_space :: "char \<Rightarrow> bool" where
  "ascii_space c = ((of_char c :: nat) \<in> {9, 10, 11, 12, 13, 32})"

definition ValueError :: "string \<Rightarrow> exn" where
  "ValueError message = PyExc ''ValueError'' message"

fun fromhex :: "string \<Rightarrow> exn + nat list" where
  "fromhex [] = Inr []"
| "fromhex [c] = (if ascii_space c then Inr [] else Inl (ValueError ''non-hexadecimal number''))"
| "fromhex (c # d # s) =
     (if ascii_space c then fromhex (d # s)
      else case (hex_value c, hex_value d) of
        (Some h, Some l) \<Rightarrow> sbind (fromhex s) (\<lambda>bytes. Inr ((16 * h + l) # bytes))
      | _ \<Rightarrow> Inl (ValueError ''non-hexadecimal number''))"

definition get_order_id_from_transaction :: "denv \<Rightarrow> string \<Rightarrow> string dprog" where
  "get_order_id_from_transaction env transaction_hash =
     andthen (external (transaction_input_hex env) (ReadTransaction transaction_hash)) (\<lambda>input_data_hex.
     (let extra_data_hex = drop 136 input_data_hex in
      if length extra_data_hex = 0 then ret []
      else of_sum (sbind (fromhex extra_data_hex) (\<lambda>bytes.
                   sbind (utf8_decode env bytes) (\<lambda>text. Inr (rstrip_nul text))))))"

definition get_token_contract :: "denv \<Rightarrow> string dprog" where
  "get_token_contract env =
     andthen (of_sum (load_contract env (contracts_path env @ ''/abi/'' @ TOKEN_JSON_FILE_NAME env))) (\<lambda>contract_abi.
     andthen (of_sum (load_contract env (contracts_path env @ ''/networks/'' @ TOKEN_JSON_FILE_NAME env))) (\<lambda>contract_network.
     of_sum (sbind (getitems contract_network [str_int (NETWORK_ID env), ''address'']) as_text)))"

definition new_transaction_of :: "transfer_event \<Rightarrow> string \<Rightarrow> new_evm_transaction" where
  "new_transaction_of event order_id =
     (let h = te_transaction_hash event in
      \<lparr>nt_hash = (if prefix_of ''0x'' h then h else ''0x'' @ h),
       nt_order_id = order_id, nt_status = TX_SUCCESS, nt_sender = te_from event, nt_recipient = te_to event\<rparr>)"

definition last_fetched_block :: "transactions_metadata_domain \<Rightarrow> int \<Rightarrow> int" where
  "last_fetched_block m current_block =
     min (current_block - tm_block_adjustment m) (tm_last_block_no m + 1 + tm_fetch_limit m - 1)"

definition get_transactions_from_blockchain ::
  "denv \<Rightarrow> transactions_metadata_domain \<Rightarrow> ((new_evm_transaction \<times> int) list \<times> int) dprog" where
  "get_transactions_from_blockchain env tx_metadata =
     andthen (external (block_number env) ReadBlockNumber) (\<lambda>current_block.
     andthen (get_token_contract env) (\<lambda>address.
     (let from_block = tm_last_block_no tx_metadata + 1;
          to_block = last_fetched_block tx_metadata current_block in
     andthen (external (transfer_events env)
        (ReadTransfers address from_block to_block (tm_recipient tx_metadata))) (\<lambda>events.
     andthen (map_each (\<lambda>event.
        andthen (get_order_id_from_transaction env (te_transaction_hash event)) (\<lambda>order_id.
        ret (new_transaction_of event order_id, te_value event))) events) (\<lambda>result.
     ret (result, to_block))))))"

text \<open>The body of the loop over the transactions found, from the point where the transaction has
  an order id.\<close>

definition settle_transaction :: "denv \<Rightarrow> new_evm_transaction \<Rightarrow> int \<Rightarrow> unit dprog" where
  "settle_transaction env new_transaction amount =
     andthen (upsert_transaction env new_transaction) (\<lambda>_.
     andthen (get_order (Some (nt_order_id new_transaction)) None None) (\<lambda>order.
     case order of
       None \<Rightarrow> raise AttributeError
     | Some ord \<Rightarrow>
         if ord_amount ord \<noteq> amount then ret ()
         else if ord_status ord \<noteq> PROCESSING then ret ()
         else andthen (update_order_status env (ord_id ord) SUCCESS) (\<lambda>_.
              increase_account_balance env (ord_account_id ord) (ord_amount ord))))"

definition process_transaction :: "denv \<Rightarrow> new_evm_transaction \<times> int \<Rightarrow> unit dprog" where
  "process_transaction env transaction =
     (let (new_transaction, amount) = transaction in
     andthen (get_transaction (nt_hash new_transaction)) (\<lambda>existing_transaction.
     if nt_order_id new_transaction = [] then
       (case existing_transaction of
          None \<Rightarrow> ret ()
        | Some existing \<Rightarrow>
            settle_transaction env (new_transaction\<lparr>nt_order_id := tx_order_id existing\<rparr>) amount)
     else settle_transaction env new_transaction amount))"

definition process_recipient :: "denv \<Rightarrow> transactions_metadata_domain \<Rightarrow> unit dprog" where
  "process_recipient env transactions_metadata =
     andthen (get_transactions_from_blockchain env transactions_metadata) (\<lambda>(transactions, last_block).
     andthen (for_each transactions (process_transaction env)) (\<lambda>_.
     update_transactions_metadata env (tm_id transactions_metadata) last_block))"

definition update_transaction_status :: "denv \<Rightarrow> unit dprog" where
  "update_transaction_status env =
     session_scope
       (andthen get_transactions_metadata (\<lambda>transactions_metadata_list.
        andthen (for_each transactions_metadata_list (process_recipient env)) (\<lambda>_.
        andthen (fail_old_transactions env) (\<lambda>_.
        andthen (fail_old_orders env) (\<lambda>_.
        expire_old_orders env)))))"

section \<open>Charges and token rates\<close>

definition process_call_event :: "denv \<Rightarrow> call_event_consumer_request \<Rightarrow> unit dprog" where
  "process_call_event env request =
     session_scope
       (andthen (search_daemon (cer_org_id request) (cer_service_id request)) (\<lambda>daemon.
        case daemon of
          None \<Rightarrow> raise (HostedServiceNotFoundException [] (cer_org_id request) (cer_service_id request))
        | Some d \<Rightarrow>
            (case dd_hosted_service d of
               None \<Rightarrow> raise (HostedServiceNotFoundException [] (cer_org_id request) (cer_service_id request))
             | Some _ \<Rightarrow> decrease_account_balance env (d_account_id d) (cer_amount request))))"

definition update_token_rate :: "denv \<Rightarrow> unit dprog" where
  "update_token_rate env =
     (let token_symbol = map to_lower TOKEN_NAME in
     andthen (get_token_rate env token_symbol) (\<lambda>token_rate.
     andthen (of_sum (cogs_per_usd_of env token_rate)) (\<lambda>cogs_per_usd.
     session_scope
       (andthen (add_token_rate env token_symbol token_rate cogs_per_usd) (\<lambda>_.
        delete_old_token_rates env)))))"

end
