(* ===== verification/Deployer_Daemons.thy ===== *)
theory Deployer_Daemons
  imports Deployer_Repositories
begin

text \<open>
  \<open>application/services/daemon_service.py\<close> and \<open>hosted_services_service.py\<close>: the life of daemons
  and hosted services, their logs, and the messages of HaaS about them.
\<close>

section \<open>application/schemas: the validated requests\<close>

record daemon_request =
  dr_daemon_id :: string

record update_config_request =
  uc_daemon_id :: string
  uc_service_endpoint :: "string option"
  uc_service_credentials :: "pydict list option"

text \<open>The timestamp is the one in the message without its time zone, which is how both uses of it
  read it.\<close>

record update_daemon_status_request =
  ud_org_id :: string
  ud_service_id :: string
  ud_status :: haas_daemon_status
  ud_status_observed_at :: time
  ud_status_resource_version :: string

record hosted_service_request =
  hr_hosted_service_id :: string

record update_hosted_service_status_request =
  uh_org_id :: string
  uh_service_id :: string
  uh_status :: haas_hosted_service_status
  uh_commit :: string

record check_github_repository_request =
  gr_account_name :: string
  gr_repository_name :: string

section \<open>application/services/daemon\_service.py\<close>

text \<open>A field of \<open>None\<close> is an \<open>AttributeError\<close>.\<close>

definition attribute_of :: "'a option \<Rightarrow> 'a dprog" where
  "attribute_of v = (case v of None \<Rightarrow> raise AttributeError | Some a \<Rightarrow> ret a)"

definition service_get_daemon :: "daemon_request \<Rightarrow> pydict dprog" where
  "service_get_daemon request =
     andthen (session_scope (get_daemon (dr_daemon_id request))) (\<lambda>daemon.
     andthen (attribute_of daemon) (\<lambda>d.
     (let result = daemon_to_response False d in
     andthen (of_sum (getitem (PDict result) ''daemon'')) (\<lambda>inner.
     ret (dict_del ''daemon'' (dict_update result (case inner of PDict items \<Rightarrow> items | _ \<Rightarrow> [])))))))"

definition get_daemon_logs :: "denv \<Rightarrow> daemon_request \<Rightarrow> pyval dprog" where
  "get_daemon_logs env request =
     andthen (session_scope (get_daemon (dr_daemon_id request))) (\<lambda>daemon.
     andthen (attribute_of daemon) (\<lambda>d.
     if d_status d \<noteq> Daemon_UP then raise LogsAreNotAvailableException
     else haas_get_daemon_logs env (d_org_id d) (d_service_id d) 200))"

text \<open>\<open>sep.join(v)\<close> for a value that came from JSON.\<close>

definition py_join :: "string \<Rightarrow> pyval \<Rightarrow> exn + string" where
  "py_join sep v =
     (case v of
        PList vs \<Rightarrow> sbind (smap as_text vs) (\<lambda>parts. Inr (join sep parts))
      | PStr s \<Rightarrow> Inr (join sep (map (\<lambda>c. [c]) s))
      | PDict d \<Rightarrow> Inr (join sep (map fst d))
      | _ \<Rightarrow> Inl TypeError)"

definition newline :: string where "newline = [CHR 0x0A]"

definition download_daemon_logs :: "denv \<Rightarrow> daemon_request \<Rightarrow> (string \<times> string) dprog" where
  "download_daemon_logs env request =
     andthen (get_daemon_logs env request) (\<lambda>daemon_logs.
     andthen (of_sum (py_join newline daemon_logs)) (\<lambda>content.
     ret (content, ''daemon_'' @ dr_daemon_id request @ ''_logs.txt'')))"

definition redeploy_all_daemons :: "denv \<Rightarrow> pydict dprog" where
  "redeploy_all_daemons env =
     andthen (session_scope
       (andthen (get_all_daemon_ids (Some [Daemon_UP])) (\<lambda>daemon_ids.
        for_each daemon_ids (\<lambda>daemon_id.
          andthen (client_deploy_daemon env daemon_id True) (\<lambda>_. ret ()))))) (\<lambda>_.
     ret [])"

definition service_update_daemon_status :: "denv \<Rightarrow> update_daemon_status_request \<Rightarrow> unit dprog" where
  "service_update_daemon_status env request =
     session_scope
       (andthen (search_daemon (ud_org_id request) (ud_service_id request)) (\<lambda>daemon.
        case daemon of
          None \<Rightarrow> raise (DaemonNotFoundForServiceException (ud_org_id request) (ud_service_id request))
        | Some d \<Rightarrow>
            if d_status_resource_version d = Some (ud_status_resource_version request) then ret ()
            else if (case d_status_observed_at d of None \<Rightarrow> False
                     | Some t \<Rightarrow> t > ud_status_observed_at request) then ret ()
            else update_daemon_status env (d_id d) (to_daemon_status (ud_status request))
                   (Some (ud_status_observed_at request)) (Some (ud_status_resource_version request))))"

text \<open>The call of HaaS and the status it leaves, which \<open>deploy_daemon\<close> and
  \<open>redeploy_daemon_forcibly\<close> share.\<close>

definition start_daemon :: "denv \<Rightarrow> daemon_domain \<Rightarrow> unit dprog" where
  "start_daemon env d =
     andthen (haas_deploy_daemon env (d_org_id d) (d_service_id d) (d_daemon_config d)) (\<lambda>_.
     session_scope (update_daemon_status env (d_id d) Daemon_STARTING
       (d_status_observed_at d) (d_status_resource_version d)))"

definition deploy_daemon :: "denv \<Rightarrow> daemon_request \<Rightarrow> pydict dprog" where
  "deploy_daemon env request =
     andthen (session_scope (get_daemon (dr_daemon_id request))) (\<lambda>daemon.
     case daemon of
       None \<Rightarrow> raise (DaemonNotFoundException (dr_daemon_id request))
     | Some d \<Rightarrow>
         if d_status d \<notin> {Daemon_INIT, Daemon_UP, Daemon_DOWN} then ret []
         else andthen (start_daemon env d) (\<lambda>_. ret []))"

definition update_found_config :: "denv \<Rightarrow> update_config_request \<Rightarrow> daemon_domain \<Rightarrow> unit dprog" where
  "update_found_config env request d =
     (if dd_hosted_service d \<noteq> None \<or> d_status d = Daemon_STARTING then
          raise UpdateConfigNotAvailableException
        else
          (let with_endpoint =
                 (case uc_service_endpoint request of
                    Some (c # cs) \<Rightarrow> dict_set ''service_endpoint'' (PStr (c # cs)) (d_daemon_config d)
                  | _ \<Rightarrow> d_daemon_config d);
               daemon_config =
                 (case uc_service_credentials request of
                    Some (v # vs) \<Rightarrow> dict_set ''service_credentials'' (PList (map PDict (v # vs))) with_endpoint
                  | _ \<Rightarrow> with_endpoint) in
          andthen (update_daemon_config env (uc_daemon_id request) daemon_config) (\<lambda>_.
          if d_status d = Daemon_UP then
            andthen (client_deploy_daemon env (uc_daemon_id request) True) (\<lambda>_. ret ())
          else ret ())))"

definition update_config :: "denv \<Rightarrow> update_config_request \<Rightarrow> pydict dprog" where
  "update_config env request =
     andthen (session_scope
       (andthen (get_daemon (uc_daemon_id request)) (\<lambda>daemon.
        andthen (attribute_of daemon) (update_found_config env request)))) (\<lambda>_.
     ret [])"

definition redeploy_daemon_forcibly :: "denv \<Rightarrow> daemon_request \<Rightarrow> unit dprog" where
  "redeploy_daemon_forcibly env request =
     andthen (session_scope (get_daemon (dr_daemon_id request))) (\<lambda>daemon.
     case daemon of
       None \<Rightarrow> raise (DaemonNotFoundException (dr_daemon_id request))
     | Some d \<Rightarrow> start_daemon env d)"

section \<open>application/services/hosted\_services\_service.py\<close>

text \<open>The daemon of a hosted service with that service: \<open>daemon\<close> and \<open>daemon.hosted_service\<close>.\<close>

definition daemon_and_service :: "string \<Rightarrow> (daemon_domain \<times> hosted_service_domain) dprog" where
  "daemon_and_service hosted_service_id =
     andthen (session_scope (get_daemon_by_hosted_service hosted_service_id)) (\<lambda>daemon.
     andthen (attribute_of daemon) (\<lambda>d.
     andthen (attribute_of (dd_hosted_service d)) (\<lambda>h. ret (d, h))))"

definition service_get_hosted_service :: "hosted_service_request \<Rightarrow> pydict dprog" where
  "service_get_hosted_service request =
     andthen (daemon_and_service (hr_hosted_service_id request)) (\<lambda>(d, h).
     ret (dict_set ''serviceId'' (PStr (d_service_id d))
           (dict_set ''orgId'' (PStr (d_org_id d)) (hosted_service_to_response False h))))"

definition get_hosted_service_logs :: "denv \<Rightarrow> hosted_service_request \<Rightarrow> pyval dprog" where
  "get_hosted_service_logs env request =
     andthen (daemon_and_service (hr_hosted_service_id request)) (\<lambda>(d, h).
     if hs_status h \<noteq> HS_UP then raise LogsAreNotAvailableException
     else haas_get_hosted_service_logs env (d_org_id d) (d_service_id d) 400)"

definition download_hosted_service_logs ::
  "denv \<Rightarrow> hosted_service_request \<Rightarrow> (string \<times> string) dprog" where
  "download_hosted_service_logs env request =
     andthen (get_hosted_service_logs env request) (\<lambda>hosted_service_logs.
     andthen (of_sum (py_join newline hosted_service_logs)) (\<lambda>content.
     ret (content, ''hosted_service_'' @ hr_hosted_service_id request @ ''_logs.txt'')))"

definition check_github_repository :: "denv \<Rightarrow> check_github_repository_request \<Rightarrow> pydict dprog" where
  "check_github_repository env request =
     andthen (check_repo_installation env (gr_account_name request) (gr_repository_name request)) (\<lambda>is_installed.
     ret ([(''isInstalled'', PBool is_installed)] @
       (if \<not> is_installed then
          [(''message'', PStr (''The application is not installed in the repository with account name ''
             @ gr_account_name request @ '' and repository name '' @ gr_repository_name request
             @ '', or the account and/or repository name does not exist''))]
        else [])))"

definition service_update_hosted_service_status ::
  "denv \<Rightarrow> update_hosted_service_status_request \<Rightarrow> unit dprog" where
  "service_update_hosted_service_status env request =
     session_scope
       (andthen (search_hosted_service (uh_org_id request) (uh_service_id request)) (\<lambda>hosted_service.
        case hosted_service of
          None \<Rightarrow> raise (HostedServiceNotFoundException [] (uh_org_id request) (uh_service_id request))
        | Some h \<Rightarrow>
            update_hosted_service_status env (hs_id h) (to_hosted_service_status (uh_status request))
              (Some (make_commit_url (hs_github_account_name h) (hs_github_repository_name h)
                 (uh_commit request)))))"

definition redeploy_hosted_service_forcibly :: "denv \<Rightarrow> hosted_service_request \<Rightarrow> unit dprog" where
  "redeploy_hosted_service_forcibly env request =
     andthen (session_scope
       (andthen (get_daemon_by_hosted_service (hr_hosted_service_id request)) (\<lambda>daemon.
        case daemon of
          None \<Rightarrow> raise (HostedServiceNotFoundException (hr_hosted_service_id request) [] [])
        | Some d \<Rightarrow>
            (case dd_hosted_service d of
               None \<Rightarrow> raise (HostedServiceNotFoundException (hr_hosted_service_id request) [] [])
             | Some h \<Rightarrow> ret (d, h))))) (\<lambda>(d, h).
     andthen (get_installation_id env (hs_github_account_name h) (hs_github_repository_name h)) (\<lambda>installation_id.
     push_deploy_service_event env (d_org_id d) (d_service_id d)
       (make_repository_url (hs_github_account_name h) (hs_github_repository_name h))
       installation_id (hs_last_commit_url h)))"

end
