(* ===== verification/Deployer_Deployments.thy ===== *)
theory Deployer_Deployments
  imports Deployer_Daemons
begin

text \<open>
  \<open>application/services/deployments_service.py\<close>: setting up a daemon and hosted service, listing
  and searching them, and the registry events that configure, redeploy and delete them.
\<close>

section \<open>application/schemas/deployments\_schemas.py: the validated requests\<close>

record initiate_deployment_request =
  id_org_id :: string
  id_service_id :: string
  id_only_daemon :: bool
  id_service_endpoint :: string
  id_service_credentials :: "pydict list"
  id_github_account_name :: string
  id_github_repository_name :: string

record get_user_deployments_request =
  gu_page :: int
  gu_limit :: int
  gu_order :: order_type

record search_deployments_request =
  sd_org_id :: string
  sd_service_id :: string

record registry_event_consumer_request =
  re_event_name :: string
  re_org_id :: string
  re_service_id :: "string option"
  re_metadata_uri :: "string option"

section \<open>Setting up a deployment\<close>

definition get_daemon_endpoint :: "denv \<Rightarrow> string \<Rightarrow> string \<Rightarrow> string" where
  "get_daemon_endpoint env org_id service_id =
     ''https://'' @ sha224_hex env (org_id @ ''-'' @ service_id) @ ''.'' @ HAAS_DAEMON_BASE_URL env"

text \<open>The branch that would delete credentials from the fresh configuration never does: it has
  none.\<close>

definition initial_daemon_config :: "initiate_deployment_request \<Rightarrow> pydict" where
  "initial_daemon_config request =
     (let config = [(''payment_channel_storage_type'', PStr DEFAULT_DAEMON_STORAGE_TYPE)] in
      if id_only_daemon request then
        dict_set ''service_credentials'' (PList (map PDict (id_service_credentials request)))
          (dict_set ''service_endpoint'' (PStr (id_service_endpoint request))
            (dict_set ''is_service_hosted'' (PBool False) config))
      else
        (let config = dict_set ''service_endpoint'' (PStr [])
               (dict_set ''is_service_hosted'' (PBool True) config)
         in if dict_get config ''service_credentials'' \<notin> {None, Some PNone}
            then dict_del ''service_credentials'' config else config))"

definition place_daemon ::
  "denv \<Rightarrow> initiate_deployment_request \<Rightarrow> string \<Rightarrow> daemon_domain option \<Rightarrow> string \<Rightarrow> unit dprog" where
  "place_daemon env request account_id daemon daemon_id =
     (let org_id = id_org_id request;
          service_id = id_service_id request;
          endpoint = get_daemon_endpoint env org_id service_id;
          daemon_config = initial_daemon_config request in
      case daemon of
        None \<Rightarrow> create_daemon env
          \<lparr>nd_id = daemon_id, nd_account_id = account_id, nd_org_id = org_id, nd_service_id = service_id,
           nd_status = Daemon_INIT, nd_daemon_config = daemon_config, nd_daemon_endpoint = endpoint,
           nd_status_observed_at = None, nd_status_resource_version = None\<rparr>
      | Some d \<Rightarrow>
          andthen (update_daemon_config env daemon_id daemon_config) (\<lambda>_.
          if substring (d_org_id d) (d_daemon_endpoint d) \<or> substring (d_service_id d) (d_daemon_endpoint d)
          then update_daemon_endpoint env daemon_id endpoint
          else ret ()))"

definition initiate_deployment ::
  "denv \<Rightarrow> initiate_deployment_request \<Rightarrow> string \<Rightarrow> pydict dprog" where
  "initiate_deployment env request account_id =
     session_scope
       (andthen (search_daemon (id_org_id request) (id_service_id request)) (\<lambda>daemon.
        andthen
          (case daemon of
             None \<Rightarrow> ret ()
           | Some d \<Rightarrow>
               if dd_hosted_service d \<noteq> None \<and> \<not> id_only_daemon request then
                 raise (DaemonAndHostedServiceAlreadyExistException (id_org_id request) (id_service_id request))
               else if id_only_daemon request then
                 raise (DaemonAlreadyExistsException (id_org_id request) (id_service_id request))
               else ret ()) (\<lambda>_.
        andthen (ensure_account_balance env account_id) (\<lambda>_.
        andthen (case daemon of None \<Rightarrow> generate_uuid env | Some d \<Rightarrow> ret (d_id d)) (\<lambda>daemon_id.
        andthen (place_daemon env request account_id daemon daemon_id) (\<lambda>_.
        andthen
          (if \<not> id_only_daemon request then
             andthen (generate_uuid env) (\<lambda>hosted_service_id.
             create_hosted_service env
               \<lparr>nhs_id = hosted_service_id, nhs_daemon_id = daemon_id, nhs_status = HS_INIT,
                nhs_github_account_name = id_github_account_name request,
                nhs_github_repository_name = id_github_repository_name request,
                nhs_last_commit_url = []\<rparr>)
           else ret ()) (\<lambda>_.
        andthen (search_daemon (id_org_id request) (id_service_id request)) (\<lambda>created.
        andthen (attribute_of created) (\<lambda>d.
        ret (dict_set ''accountsMatch'' (PBool (account_id = d_account_id d)) (daemon_to_response True d)))))))))))"

section \<open>Listing and searching\<close>

definition get_user_deployments :: "get_user_deployments_request \<Rightarrow> string \<Rightarrow> pydict dprog" where
  "get_user_deployments request account_id =
     andthen (session_scope
       (andthen (get_user_daemons account_id (Some (gu_page request, gu_limit request)) (gu_order request)) (\<lambda>daemons.
        andthen (get_user_daemons_total_count account_id) (\<lambda>count. ret (daemons, count))))) (\<lambda>(daemons, count).
     ret [(''deployments'', PList (map (\<lambda>d. PDict (daemon_to_short_response d)) daemons)),
          (''totalCount'', PInt count)])"

definition search_deployments :: "search_deployments_request \<Rightarrow> string \<Rightarrow> pydict dprog" where
  "search_deployments request account_id =
     andthen (session_scope (search_daemon (sd_org_id request) (sd_service_id request))) (\<lambda>daemon.
     case daemon of
       None \<Rightarrow> ret [(''daemon'', PNone), (''hostedService'', PNone)]
     | Some d \<Rightarrow>
         ret (dict_set ''accountsMatch'' (PBool (account_id = d_account_id d)) (daemon_to_response True d)))"

definition get_public_key :: "denv \<Rightarrow> pydict dprog" where
  "get_public_key env =
     andthen (haas_get_public_key env) (\<lambda>public_key. ret [(''publicKey'', public_key)])"

section \<open>The service class of an API source archive\<close>

text \<open>\<open>str.splitlines\<close> and \<open>str.strip\<close>.\<close>

definition line_break :: "char \<Rightarrow> bool" where
  "line_break c = ((of_char c :: nat) \<in> {10, 11, 12, 13, 28, 29, 30, 133})"

fun splitlines :: "string \<Rightarrow> string list" where
  "splitlines [] = []"
| "splitlines (c # s) =
     (if c = CHR 0x0D \<and> prefix_of [CHR 0x0A] s then
        (case splitlines s of [] \<Rightarrow> [] | _ # ls \<Rightarrow> [] # ls)
      else if line_break c then [] # splitlines s
      else (case splitlines s of [] \<Rightarrow> [[c]] | l # ls \<Rightarrow> (c # l) # ls))"

definition white_space :: "char \<Rightarrow> bool" where
  "white_space c = (let n = (of_char c :: nat) in 9 \<le> n \<and> n \<le> 13 \<or> 28 \<le> n \<and> n \<le> 32 \<or> n = 133 \<or> n = 160)"

definition strip :: "string \<Rightarrow> string" where
  "strip s = rev (dropWhile white_space (rev (dropWhile white_space s)))"

definition replace_all_with_nothing :: "string \<Rightarrow> string \<Rightarrow> string" where
  "replace_all_with_nothing old s = remove_all (length s) old s"

definition package_line :: "string \<Rightarrow> bool" where
  "package_line line = (prefix_of ''package '' line \<and> line \<noteq> [] \<and> last line = CHR '';'')"

definition package_name :: "string \<Rightarrow> string" where
  "package_name line = strip (replace_all_with_nothing '';'' (replace_all_with_nothing ''package '' line))"

definition find_package :: "string \<Rightarrow> pyval" where
  "find_package content_text =
     (case find package_line (map strip (splitlines content_text)) of
        None \<Rightarrow> PNone
      | Some line \<Rightarrow> PStr (package_name line))"

definition archive_error :: "exn \<Rightarrow> exn" where
  "archive_error e =
     (case e of
        PyExc cls message \<Rightarrow>
          (if cls = ''TarError'' then ArchiveError (''Invalid or corrupted tar archive: '' @ message)
           else if cls = ''OSError'' then ArchiveError (''Failed to read tar archive: '' @ message)
           else if cls = ''ArchiveError'' then e
           else ArchiveError (''Unexpected error processing tar file: '' @ exn_str e))
      | _ \<Rightarrow> ArchiveError (''Unexpected error processing tar file: '' @ exn_str e))"

definition get_service_class :: "denv \<Rightarrow> string \<Rightarrow> pyval dprog" where
  "get_service_class env service_api_source =
     andthen (external (storage_bytes env) (StorageGet service_api_source False)) (\<lambda>tar_bytes.
     try_except
       (of_sum
         (sbind (tar_members env tar_bytes) (\<lambda>all_members.
          (case filter fst all_members of
             [] \<Rightarrow> Inl (ArchiveError ''No files found in tar archive'')
           | (_, file_content) # _ \<Rightarrow>
               (case file_content of
                  None \<Rightarrow> Inl (ArchiveError ''Failed to extract file from tar archive'')
                | Some bytes \<Rightarrow> sbind (utf8_decode env bytes) (\<lambda>content_text. Inr (find_package content_text)))))))
       (\<lambda>e. raise (archive_error e)))"

section \<open>Registry events\<close>

definition AllowedRegistryEventNames :: "string list" where
  "AllowedRegistryEventNames = [''ServiceCreated'', ''ServiceMetadataModified'', ''ServiceDeleted'']"

definition delete_deployments :: "denv \<Rightarrow> daemon_domain \<Rightarrow> unit dprog" where
  "delete_deployments env daemon =
     andthen (if d_status daemon = Daemon_UP then haas_delete_daemon env (d_org_id daemon) (d_service_id daemon)
              else ret ()) (\<lambda>_.
     case dd_hosted_service daemon of
       None \<Rightarrow> ret ()
     | Some h \<Rightarrow> if hs_status h = HS_UP
                 then haas_delete_hosted_service env (d_org_id daemon) (d_service_id daemon) else ret ())"

text \<open>\<open>v[0]\<close>.\<close>

definition getindex_0 :: "pyval \<Rightarrow> exn + pyval" where
  "getindex_0 v =
     (case v of
        PList [] \<Rightarrow> Inl (PyExc ''IndexError'' ''list index out of range'')
      | PList (x # xs) \<Rightarrow> Inr x
      | PStr [] \<Rightarrow> Inl (PyExc ''IndexError'' ''string index out of range'')
      | PStr (c # cs) \<Rightarrow> Inr (PStr [c])
      | PDict d \<Rightarrow> Inl (KeyError ''0'')
      | _ \<Rightarrow> Inl TypeError)"

text \<open>The group name and the API source of the metadata. The exception handler around these lines
  raises again what it caught.\<close>

definition metadata_fields :: "pyval \<Rightarrow> exn + pyval \<times> pyval" where
  "metadata_fields metadata =
     sbind (getitem metadata ''groups'') (\<lambda>groups.
     sbind (getindex_0 groups) (\<lambda>daemon_group.
     sbind (getitem daemon_group ''group_name'') (\<lambda>group_name.
     sbind (getitem metadata ''service_api_source'') (\<lambda>service_api_source.
     Inr (group_name, service_api_source)))))"

definition configure_daemon :: "denv \<Rightarrow> daemon_domain \<Rightarrow> string option \<Rightarrow> unit dprog" where
  "configure_daemon env daemon metadata_uri =
     andthen (attribute_of metadata_uri) (\<lambda>uri.
     andthen (external (storage_metadata env) (StorageGet uri True)) (\<lambda>metadata.
     andthen (of_sum (metadata_fields metadata)) (\<lambda>(group_name, service_api_source).
     andthen (of_sum (as_text service_api_source)) (\<lambda>source_uri.
     andthen (get_service_class env source_uri) (\<lambda>service_class.
     andthen (update_daemon_config env (d_id daemon)
        (dict_set ''service_class'' service_class
          (dict_set ''daemon_group'' group_name (d_daemon_config daemon)))) (\<lambda>_.
     andthen (client_deploy_daemon env (d_id daemon) True) (\<lambda>_.
     case dd_hosted_service daemon of
       None \<Rightarrow> ret ()
     | Some h \<Rightarrow>
         if hs_status h = HS_INIT then
           andthen (get_installation_id env (hs_github_account_name h) (hs_github_repository_name h)) (\<lambda>installation_id.
           push_deploy_service_event env (d_org_id daemon) (d_service_id daemon)
             (make_repository_url (hs_github_account_name h) (hs_github_repository_name h)) installation_id [])
         else ret ())))))))"

definition process_registry_event :: "denv \<Rightarrow> registry_event_consumer_request \<Rightarrow> unit dprog" where
  "process_registry_event env request =
     (if re_event_name request \<notin> set AllowedRegistryEventNames then ret ()
      else session_scope
        (andthen (case re_service_id request of None \<Rightarrow> ret None
                  | Some service_id \<Rightarrow> search_daemon (re_org_id request) service_id) (\<lambda>daemon.
         case daemon of
           None \<Rightarrow> ret ()
         | Some d \<Rightarrow>
             if re_event_name request = ''ServiceDeleted'' then delete_deployments env d
             else configure_daemon env d (re_metadata_uri request))))"

end
