(* ===== verification/Deployer_Access.thy ===== *)
theory Deployer_Access
  imports Deployer_Billing Deployer_Deployments
begin

text \<open>
  \<open>application/services/authorization_service.py\<close> and \<open>metrics_service.py\<close>: who may use a daemon,
  order or hosted service, and the call events of a hosted service.
\<close>

section \<open>application/services/authorization\_service.py\<close>

definition check_local_access ::
  "string \<Rightarrow> string option \<Rightarrow> string option \<Rightarrow> string option \<Rightarrow> unit dprog" where
  "check_local_access account_id daemon_id order_id hosted_service_id =
     (if length (filter (\<lambda>p. p \<noteq> None) [daemon_id, order_id, hosted_service_id]) \<noteq> 1 then
        raise (ValueError ''Exactly one of daemon_id, order_id or hosted_service_id must be provided'')
      else
        andthen (session_scope
          (case daemon_id of
             Some d \<Rightarrow> andthen (get_daemon_by_account_and_daemon account_id d) (\<lambda>e. ret (e \<noteq> None))
           | None \<Rightarrow>
               (case order_id of
                  Some r \<Rightarrow> andthen (get_order (Some r) (Some account_id) None) (\<lambda>e. ret (e \<noteq> None))
                | None \<Rightarrow> andthen (get_hosted_service_by_account_and_service account_id (the hosted_service_id))
                            (\<lambda>e. ret (e \<noteq> None))))) (\<lambda>found.
        if \<not> found then raise ForbiddenException else ret ()))"

text \<open>What \<open>for org in orgs\<close> iterates over.\<close>

definition iterate :: "pyval \<Rightarrow> exn + pyval list" where
  "iterate v =
     (case v of
        PList vs \<Rightarrow> Inr vs
      | PDict d \<Rightarrow> Inr (map (\<lambda>(k, _). PStr k) d)
      | PStr s \<Rightarrow> Inr (map (\<lambda>c. PStr [c]) s)
      | _ \<Rightarrow> Inl TypeError)"

fun has_org :: "pyval list \<Rightarrow> string \<Rightarrow> exn + bool" where
  "has_org [] org_id = Inr False"
| "has_org (org # orgs) org_id =
     sbind (getitem org ''org_id'') (\<lambda>v. if v = PStr org_id then Inr True else has_org orgs org_id)"

definition check_service_access :: "denv \<Rightarrow> request_context \<Rightarrow> string \<Rightarrow> unit dprog" where
  "check_service_access env ctx org_id =
     andthen (get_all_orgs env (rc_username ctx) (rc_account_id ctx) (rc_origin ctx)) (\<lambda>answer.
     andthen (of_sum (iterate answer)) (\<lambda>orgs.
     andthen (of_sum (has_org orgs org_id)) (\<lambda>is_accessed.
     if \<not> is_accessed then raise ForbiddenException else ret ())))"

section \<open>application/services/metrics\_service.py\<close>

text \<open>
  The loop over the pages of call events runs while HaaS reports more events than were received.
  It may run forever, so its value is an option: \<open>None\<close> when it does not return.
\<close>

partial_function (option) fetch_pages ::
  "denv \<Rightarrow> period_type \<Rightarrow> string \<times> string \<Rightarrow> int \<Rightarrow> call_event list \<Rightarrow> int \<Rightarrow> world \<Rightarrow>
   ((exn + call_event list) \<times> world) option" where
  "fetch_pages env period service page events total_count w =
     (if total_count > int (length events) then
        (case get_call_events env REQUEST_MAX_LIMIT (page + 1) Asc period [service] w of
           (Inl e, w') \<Rightarrow> Some (Inl e, w')
         | (Inr response, w') \<Rightarrow>
             fetch_pages env period service (page + 1) (events @ ger_events response)
               (ger_total_count response) w')
      else Some (Inr events, w))"

definition get_all_events ::
  "denv \<Rightarrow> get_metrics_request \<Rightarrow> world \<Rightarrow> ((exn + call_event list) \<times> world) option" where
  "get_all_events env request w =
     (case (andthen (session_scope (get_daemon_by_hosted_service (gm_hosted_service_id request))) (\<lambda>daemon.
            andthen (attribute_of daemon) (\<lambda>d.
            andthen (get_call_events env REQUEST_MAX_LIMIT 1 Asc (gm_period request)
               [(d_org_id d, d_service_id d)]) (\<lambda>response.
            ret ((d_org_id d, d_service_id d), response))))) w of
        (Inl e, w') \<Rightarrow> Some (Inl e, w')
      | (Inr (service, response), w') \<Rightarrow>
          fetch_pages env (gm_period request) service 1 (ger_events response) (ger_total_count response) w')"

definition get_empty_metrics_response :: pydict where
  "get_empty_metrics_response =
     (let stats = PDict [(''total'', PInt 0), (''avg'', PInt 0), (''max'', PInt 0), (''min'', PInt 0)] in
      [(''labels'', PList []),
       (''values'', PDict
         [(''requestsCount'', PList []), (''costsSum'', PList []), (''costsAvg'', PList []),
          (''durationsSum'', PList []), (''durationsAvg'', PList [])]),
       (''summary'', PDict
         [(''requests'', PDict [(''total'', PInt 0)]), (''costs'', stats), (''durations'', stats)])])"

text \<open>\<open>FREQUENCY_BY_PERIOD\<close>: the width of the groups the data frame is cut into.\<close>

fun frequency_by_period :: "period_type \<Rightarrow> string" where
  "frequency_by_period Hour = ''min''"
| "frequency_by_period Day = ''h''"
| "frequency_by_period Week = ''4h''"
| "frequency_by_period Month = ''D''"
| "frequency_by_period Year = ''7D''"
| "frequency_by_period AllTime = ''30D''"

definition get_metrics ::
  "denv \<Rightarrow> get_metrics_request \<Rightarrow> world \<Rightarrow> ((exn + pydict) \<times> world) option" where
  "get_metrics env request w =
     (case get_all_events env request w of
        None \<Rightarrow> None
      | Some (Inl e, w') \<Rightarrow> Some (Inl e, w')
      | Some (Inr events, w') \<Rightarrow>
          Some (if events = [] then Inr get_empty_metrics_response
                else pandas_metrics env events (frequency_by_period (gm_period request)), w'))"

text \<open>\<open>str\<close> of a datetime, and the lines of the file.\<close>

definition str_datetime :: "call_event \<Rightarrow> string" where
  "str_datetime e =
     (let t = ce_timestamp e in
      strftime t @ (if t mod 1000000 = 0 then [] else ''.'' @ pad 6 (nat (t mod 1000000))) @ ce_utc_offset e)"

definition metrics_line :: "call_event \<Rightarrow> string" where
  "metrics_line e =
     newline @ ce_org_id e @ '','' @ ce_service_id e @ '','' @ str_int (ce_duration e) @ '',''
       @ str_int (ce_amount e) @ '','' @ str_datetime e"

definition download_metrics ::
  "denv \<Rightarrow> get_metrics_request \<Rightarrow> world \<Rightarrow> ((exn + string \<times> string) \<times> world) option" where
  "download_metrics env request w =
     (case get_all_events env request w of
        None \<Rightarrow> None
      | Some (Inl e, w') \<Rightarrow> Some (Inl e, w')
      | Some (Inr events, w') \<Rightarrow>
          Some (Inr (''orgId,serviceId,duration,amount,timestamp'' @ concat (map metrics_line events),
                     ''hosted_service_'' @ gm_hosted_service_id request @ ''_metrics.csv''), w'))"

end
