(* ===== verification/Requests.thy ===== *)
theory Requests
  imports Common
begin

text \<open>
  What the request classes of the services share: reading the parts of an API Gateway event, and
  the fields of a pydantic model by name, with conversion, default and error.
\<close>

section \<open>Fields of a request\<close>

definition ValidationError :: exn where
  "ValidationError = PyExc ''ValidationError'' []"

text \<open>A field by its alias: converted when present, its default when absent; \<open>None\<close> is an error.\<close>

definition field :: "pydict \<Rightarrow> string \<Rightarrow> (pyval \<Rightarrow> 'a option) \<Rightarrow> 'a option \<Rightarrow> 'a option" where
  "field d alias convert absent = (case dict_get d alias of None \<Rightarrow> absent | Some v \<Rightarrow> convert v)"

fun text_value :: "pyval \<Rightarrow> string option" where
  "text_value (PStr s) = Some s"
| "text_value v = None"

definition optional :: "(pyval \<Rightarrow> 'a option) \<Rightarrow> pyval \<Rightarrow> 'a option option" where
  "optional convert v = (if v = PNone then Some None else map_option Some (convert v))"

text \<open>The member of an enumeration with a given value.\<close>

definition enum_value :: "('a \<Rightarrow> string) \<Rightarrow> 'a list \<Rightarrow> pyval \<Rightarrow> 'a option" where
  "enum_value value_of members v = find (\<lambda>m. PStr (value_of m) = v) members"

definition model_validate :: "(pydict \<Rightarrow> exn + 'a) \<Rightarrow> pyval \<Rightarrow> exn + 'a" where
  "model_validate parse v = (case v of PDict d \<Rightarrow> parse d | _ \<Rightarrow> Inl ValidationError)"

definition event_part :: "pydict \<Rightarrow> string \<Rightarrow> pyval" where
  "event_part event k = (case dict_get event k of None \<Rightarrow> PNone | Some v \<Rightarrow> v)"

text \<open>\<open>{**a, **b}\<close>.\<close>

definition merged :: "pyval \<Rightarrow> pyval \<Rightarrow> exn + pyval" where
  "merged a b =
     (case (a, b) of
        (PDict d, PDict e) \<Rightarrow> Inr (PDict (dict_update d e))
      | _ \<Rightarrow> Inl TypeError)"

abbreviation body_part :: string where "body_part \<equiv> ''body''"
abbreviation query_part :: string where "query_part \<equiv> ''queryStringParameters''"
abbreviation path_part :: string where "path_part \<equiv> ''pathParameters''"

section \<open>Parts of models, and the frame of a request\<close>

definition object_value :: "(pydict \<Rightarrow> 'a option) \<Rightarrow> pyval \<Rightarrow> 'a option" where
  "object_value parse v = (case v of PDict d \<Rightarrow> parse d | _ \<Rightarrow> None)"

definition obind :: "'a option \<Rightarrow> ('a \<Rightarrow> 'b option) \<Rightarrow> 'b option" where
  "obind v f = (case v of None \<Rightarrow> None | Some a \<Rightarrow> f a)"

fun all_values :: "(pyval \<Rightarrow> 'a option) \<Rightarrow> pyval list \<Rightarrow> 'a list option" where
  "all_values convert [] = Some []"
| "all_values convert (v # vs) = obind (convert v) (\<lambda>a. map_option ((#) a) (all_values convert vs))"

text \<open>
  The frame of \<open>validate_event\<close>: \<open>str\<close> of the failed assertion is the name of the member of its enumeration.
  The details of a failed validation are under the key \<open>key\<close>.
\<close>

definition parse_error :: exn where
  "parse_error = BadRequestException ''Error while parsing payload'' []"

definition parsed_request ::
  "(pyval \<Rightarrow> pyval) \<Rightarrow> string \<Rightarrow> (pydict \<Rightarrow> 'a option) \<Rightarrow> exn + pyval \<Rightarrow> exn + 'a" where
  "parsed_request errors key parse data =
     (case data of
        Inl e \<Rightarrow> Inl (case e of PyExc c t \<Rightarrow> if c = ''AssertionError'' then BadRequestException t [] else parse_error
                  | _ \<Rightarrow> parse_error)
      | Inr v \<Rightarrow>
          (case object_value parse v of
             Some a \<Rightarrow> Inr a
           | None \<Rightarrow> Inl (BadRequestException ''Validation failed for request body.'' [(key, errors v)])))"

definition asserted_payload :: "(string \<Rightarrow> exn + pyval) \<Rightarrow> pydict \<Rightarrow> exn + pyval" where
  "asserted_payload loads event =
     (if event_part event body_part = PNone then Inl (PyExc ''AssertionError'' ''PayloadAssertionError.MISSING_BODY'')
      else sbind (as_text (event_part event body_part)) loads)"

end
