(* ===== verification/Deployer_Handlers.thy ===== *)
theory Deployer_Handlers
  imports Deployer_Access Requests
begin

text \<open>
  \<open>src/deployer/application\<close>: the request classes of \<open>schemas\<close> with their validators, the queue
  messages, and the lambda handlers.
\<close>

section \<open>Fields of a request\<close>

definition int_between :: "denv \<Rightarrow> int \<Rightarrow> int option \<Rightarrow> pyval \<Rightarrow> int option" where
  "int_between env least greatest v =
     (case pydantic_int env v of
        None \<Rightarrow> None
      | Some n \<Rightarrow> if n \<ge> least \<and> (case greatest of None \<Rightarrow> True | Some g \<Rightarrow> n \<le> g) then Some n else None)"

fun movement_type_value :: "movement_type \<Rightarrow> string" where
  "movement_type_value Income = ''income''"
| "movement_type_value Expense = ''expense''"
| "movement_type_value AllFunds = ''all''"

fun income_status_value :: "income_status \<Rightarrow> string" where
  "income_status_value IncomePending = ''pending''"
| "income_status_value IncomeSuccess = ''success''"
| "income_status_value IncomeFailed = ''failed''"
| "income_status_value IncomeAll = ''all''"

definition order_type_of :: "pyval \<Rightarrow> order_type option" where
  "order_type_of = enum_value order_type_value [Asc, Desc]"

definition period_type_of :: "pyval \<Rightarrow> period_type option" where
  "period_type_of = enum_value period_type_value [Hour, Day, Week, Month, Year, AllTime]"

definition haas_daemon_status_of :: "pyval \<Rightarrow> haas_daemon_status option" where
  "haas_daemon_status_of = enum_value (\<lambda>s. daemon_status_value (to_daemon_status s))
     [Haas_STARTING, Haas_UP, Haas_DOWN, Haas_ERROR]"

definition haas_hosted_service_status_of :: "pyval \<Rightarrow> haas_hosted_service_status option" where
  "haas_hosted_service_status_of =
     enum_value (\<lambda>s. hosted_service_status_value (to_hosted_service_status s))
       [Haas_HS_VALIDATING, Haas_HS_REGISTERING, Haas_HS_PUSHING_NEW_VERSION, Haas_HS_BUILDING,
        Haas_HS_DEPLOYING, Haas_HS_PROFILING, Haas_HS_UP, Haas_HS_DOWN, Haas_HS_ERROR]"

definition json_body :: "denv \<Rightarrow> pydict \<Rightarrow> exn + pyval" where
  "json_body env event = sbind (as_text (event_part event ''body'')) (loads env)"

section \<open>schemas/billing\_schemas.py\<close>

definition CreateOrderRequest :: "denv \<Rightarrow> pydict \<Rightarrow> exn + create_order_request" where
  "CreateOrderRequest env d =
     (case field d ''amount'' (int_between env 1 None) None of
        Some amount \<Rightarrow> Inr \<lparr>cor_amount = amount\<rparr>
      | None \<Rightarrow> Inl ValidationError)"

definition SaveEVMTransactionRequest :: "pydict \<Rightarrow> exn + save_evm_transaction_request" where
  "SaveEVMTransactionRequest d =
     (case (field d ''sender'' text_value None, field d ''recipient'' text_value None,
            field d ''orderId'' text_value None, field d ''transactionHash'' text_value None) of
        (Some s, Some r, Some i, Some h) \<Rightarrow>
          Inr \<lparr>ser_sender = s, ser_recipient = r, ser_order_id = i, ser_transaction_hash = h\<rparr>
      | _ \<Rightarrow> Inl ValidationError)"

definition GetBalanceHistoryRequest :: "denv \<Rightarrow> pydict \<Rightarrow> exn + get_balance_history_request" where
  "GetBalanceHistoryRequest env d =
     (case (field d ''limit'' (int_between env 1 (Some REQUEST_MAX_LIMIT)) (Some REQUEST_MAX_LIMIT),
            field d ''page'' (int_between env 1 None) (Some 1),
            field d ''order'' order_type_of (Some Asc),
            field d ''period'' period_type_of (Some AllTime),
            field d ''status'' (enum_value income_status_value
              [IncomePending, IncomeSuccess, IncomeFailed, IncomeAll]) (Some IncomeAll),
            field d ''type'' (optional (enum_value movement_type_value [Income, Expense, AllFunds]))
              (Some (Some AllFunds))) of
        (Some l, Some p, Some ord, Some per, Some st, Some ty) \<Rightarrow>
          if ty = Some Expense \<and> st \<noteq> IncomeAll then Inl WrongIncomeStatusForTypeException
          else Inr \<lparr>bh_limit = l, bh_page = p, bh_order = ord, bh_period = per, bh_income_status = st,
                    bh_type_of_movement = ty\<rparr>
      | _ \<Rightarrow> Inl ValidationError)"

definition GetMetricsRequest :: "pydict \<Rightarrow> exn + get_metrics_request" where
  "GetMetricsRequest d =
     (case (field d ''hostedServiceId'' text_value None, field d ''period'' period_type_of (Some AllTime)) of
        (Some i, Some per) \<Rightarrow> Inr \<lparr>gm_hosted_service_id = i, gm_period = per\<rparr>
      | _ \<Rightarrow> Inl ValidationError)"

definition CallEventConsumerRequest :: "denv \<Rightarrow> pydict \<Rightarrow> exn + call_event_consumer_request" where
  "CallEventConsumerRequest env d =
     (case (field d ''orgId'' text_value None, field d ''serviceId'' text_value None,
            field d ''duration'' (pydantic_int env) None, field d ''amount'' (pydantic_int env) None,
            field d ''timestamp'' (pydantic_datetime env) None) of
        (Some og, Some sv, Some du, Some am, Some ts) \<Rightarrow>
          Inr \<lparr>cer_org_id = og, cer_service_id = sv, cer_duration = du, cer_amount = am, cer_timestamp = ts\<rparr>
      | _ \<Rightarrow> Inl ValidationError)"

definition GetBalanceAndRateRequest :: "pydict \<Rightarrow> exn + service_request" where
  "GetBalanceAndRateRequest d =
     (case (field d ''orgId'' text_value None, field d ''serviceId'' text_value None) of
        (Some og, Some sv) \<Rightarrow> Inr \<lparr>srv_org_id = og, srv_service_id = sv\<rparr>
      | _ \<Rightarrow> Inl ValidationError)"

section \<open>schemas/daemon\_schemas.py\<close>

definition DaemonRequest :: "pydict \<Rightarrow> exn + daemon_request" where
  "DaemonRequest d =
     (case field d ''daemonId'' text_value None of
        Some i \<Rightarrow> Inr \<lparr>dr_daemon_id = i\<rparr> | None \<Rightarrow> Inl ValidationError)"

definition credential_list :: "pyval \<Rightarrow> pydict list option" where
  "credential_list v =
     (case v of
        PList vs \<Rightarrow> if list_all (\<lambda>x. case x of PDict _ \<Rightarrow> True | _ \<Rightarrow> False) vs
                   then Some (map (\<lambda>x. case x of PDict d \<Rightarrow> d | _ \<Rightarrow> []) vs) else None
      | _ \<Rightarrow> None)"

text \<open>A credential names each parameter with a value that is not empty.\<close>

definition credential_ok :: "pydict \<Rightarrow> bool" where
  "credential_ok c =
     list_all (\<lambda>p. case dict_get c p of None \<Rightarrow> False | Some v \<Rightarrow> truthy v) AUTH_PARAMETERS"

definition UpdateConfigRequest :: "denv \<Rightarrow> pydict \<Rightarrow> exn + update_config_request" where
  "UpdateConfigRequest env d =
     (let credentials = field d ''serviceCredentials'' (optional credential_list) (Some None) in
      if (case credentials of Some (Some cs) \<Rightarrow> \<not> list_all credential_ok cs | _ \<Rightarrow> False) then
        Inl InvalidServiceAuthParameters
      else
        (case (field d ''daemonId'' text_value None,
               field d ''serviceEndpoint'' (optional text_value) (Some None), credentials) of
           (Some i, Some e, Some cs) \<Rightarrow>
             Inr \<lparr>uc_daemon_id = i, uc_service_endpoint = e, uc_service_credentials = cs\<rparr>
         | _ \<Rightarrow> Inl ValidationError))"

definition UpdateDaemonStatusRequest :: "denv \<Rightarrow> pydict \<Rightarrow> exn + update_daemon_status_request" where
  "UpdateDaemonStatusRequest env d =
     (case (field d ''orgId'' text_value None, field d ''serviceId'' text_value None,
            field d ''status'' haas_daemon_status_of None,
            field d ''observedAt'' (pydantic_datetime env) None,
            field d ''resourceVersion'' text_value None) of
        (Some og, Some sv, Some st, Some ob, Some rv) \<Rightarrow>
          Inr \<lparr>ud_org_id = og, ud_service_id = sv, ud_status = st, ud_status_observed_at = ob,
               ud_status_resource_version = rv\<rparr>
      | _ \<Rightarrow> Inl ValidationError)"

section \<open>schemas/deployments\_schemas.py\<close>

definition InitiateDeploymentRequest :: "denv \<Rightarrow> pydict \<Rightarrow> exn + initiate_deployment_request" where
  "InitiateDeploymentRequest env d =
     (let credentials = field d ''serviceCredentials'' credential_list (Some []) in
      if (case credentials of Some cs \<Rightarrow> \<not> list_all credential_ok cs | None \<Rightarrow> False) then
        Inl InvalidServiceAuthParameters
      else
        (case (field d ''orgId'' text_value None, field d ''serviceId'' text_value None,
               field d ''onlyDaemon'' (pydantic_bool env) None,
               field d ''serviceEndpoint'' text_value (Some []), credentials,
               field d ''githubAccountName'' text_value (Some []),
               field d ''githubRepositoryName'' text_value (Some [])) of
           (Some og, Some sv, Some od, Some ep, Some cs, Some ga, Some gr) \<Rightarrow>
             if od then
               (if ep = [] then Inl MissingServiceEndpointException
                else Inr \<lparr>id_org_id = og, id_service_id = sv, id_only_daemon = od, id_service_endpoint = ep,
                          id_service_credentials = cs, id_github_account_name = ga,
                          id_github_repository_name = gr\<rparr>)
             else if ga = [] \<or> gr = [] then Inl MissingGithubParametersException
             else Inr \<lparr>id_org_id = og, id_service_id = sv, id_only_daemon = od, id_service_endpoint = ep,
                       id_service_credentials = cs, id_github_account_name = ga,
                       id_github_repository_name = gr\<rparr>
         | _ \<Rightarrow> Inl ValidationError))"

definition GetUserDeploymentsRequest :: "denv \<Rightarrow> pydict \<Rightarrow> exn + get_user_deployments_request" where
  "GetUserDeploymentsRequest env d =
     (case (field d ''page'' (int_between env 1 None) (Some 1),
            field d ''limit'' (int_between env 1 (Some REQUEST_MAX_LIMIT)) (Some REQUEST_MAX_LIMIT),
            field d ''order'' order_type_of (Some Desc),
            field d ''orderBy'' (\<lambda>v. if v = PStr ''created_at'' then Some () else None) (Some ())) of
        (Some p, Some l, Some ord, Some _) \<Rightarrow> Inr \<lparr>gu_page = p, gu_limit = l, gu_order = ord\<rparr>
      | _ \<Rightarrow> Inl ValidationError)"

definition SearchDeploymentsRequest :: "pydict \<Rightarrow> exn + search_deployments_request" where
  "SearchDeploymentsRequest d =
     (case (field d ''orgId'' text_value None, field d ''serviceId'' text_value None) of
        (Some og, Some sv) \<Rightarrow> Inr \<lparr>sd_org_id = og, sd_service_id = sv\<rparr>
      | _ \<Rightarrow> Inl ValidationError)"

text \<open>The validator that runs before the fields: every value but the name becomes text.\<close>

definition convert_data :: "denv \<Rightarrow> pyval \<Rightarrow> exn + pydict" where
  "convert_data env data =
     sbind (getitem data ''name'') (\<lambda>name.
     sbind (sbind (getitems data [''data'', ''json_str'']) as_text) (\<lambda>json_str.
     sbind (literal_eval env json_str) (\<lambda>items.
     Inr (dict_update [(''name'', name)] items))))"

definition convert_data_types :: "denv \<Rightarrow> pyval \<Rightarrow> exn + pydict" where
  "convert_data_types env data =
     sbind (convert_data env data) (\<lambda>d.
     smap (\<lambda>(k, v). if k \<noteq> ''name'' then sbind (web3_to_text env v) (\<lambda>t. Inr (k, PStr (rstrip_nul t)))
                    else Inr (k, v)) d)"

text \<open>A validator's \<open>ValueError\<close> or \<open>AssertionError\<close> becomes a validation error.\<close>

definition in_validator :: "exn + 'a \<Rightarrow> exn + 'a" where
  "in_validator r =
     (case r of
        Inl (PyExc cls t) \<Rightarrow> Inl (if cls \<in> {''ValueError'', ''AssertionError''} then ValidationError else PyExc cls t)
      | _ \<Rightarrow> r)"

definition RegistryEventConsumerRequest :: "denv \<Rightarrow> pyval \<Rightarrow> exn + registry_event_consumer_request" where
  "RegistryEventConsumerRequest env data =
     sbind (in_validator (convert_data_types env data)) (\<lambda>d.
     (case (field d ''name'' text_value None, field d ''orgId'' text_value None,
            field d ''serviceId'' (optional text_value) (Some None),
            field d ''metadataURI'' (optional text_value) (Some None)) of
        (Some nm, Some og, Some sv, Some uri) \<Rightarrow>
          if nm \<in> set AllowedRegistryEventNames \<and> (sv \<in> {None, Some []} \<or> uri \<in> {None, Some []}) then
            Inl MissingServiceEventParameters
          else Inr \<lparr>re_event_name = nm, re_org_id = og, re_service_id = sv, re_metadata_uri = uri\<rparr>
      | _ \<Rightarrow> Inl ValidationError))"

section \<open>schemas/hosted\_services\_schemas.py\<close>

definition HostedServiceRequest :: "pydict \<Rightarrow> exn + hosted_service_request" where
  "HostedServiceRequest d =
     (case field d ''hostedServiceId'' text_value None of
        Some i \<Rightarrow> Inr \<lparr>hr_hosted_service_id = i\<rparr> | None \<Rightarrow> Inl ValidationError)"

definition UpdateHostedServiceStatusRequest :: "pydict \<Rightarrow> exn + update_hosted_service_status_request" where
  "UpdateHostedServiceStatusRequest d =
     (case (field d ''orgId'' text_value None, field d ''serviceId'' text_value None,
            field d ''status'' haas_hosted_service_status_of None, field d ''commit'' text_value (Some [])) of
        (Some og, Some sv, Some st, Some co) \<Rightarrow>
          if st \<notin> {Haas_HS_UP, Haas_HS_DOWN, Haas_HS_ERROR} \<and> co = [] then Inl MissingCommitHashParameter
          else Inr \<lparr>uh_org_id = og, uh_service_id = sv, uh_status = st, uh_commit = co\<rparr>
      | _ \<Rightarrow> Inl ValidationError)"

definition CheckGithubRepositoryRequest :: "pydict \<Rightarrow> exn + check_github_repository_request" where
  "CheckGithubRepositoryRequest d =
     (case (field d ''accountName'' text_value None, field d ''repositoryName'' text_value None) of
        (Some a, Some r) \<Rightarrow> Inr \<lparr>gr_account_name = a, gr_repository_name = r\<rparr>
      | _ \<Rightarrow> Inl ValidationError)"

section \<open>validate\_event\<close>

text \<open>From the body, the query, the path, or the path and the body together.\<close>

definition from_body :: "denv \<Rightarrow> (pydict \<Rightarrow> exn + 'a) \<Rightarrow> pydict \<Rightarrow> exn + 'a" where
  "from_body env parse = validation_handler (validation_errors env) [body_part]
     (\<lambda>event. sbind (json_body env event) (model_validate parse))"

definition from_query :: "denv \<Rightarrow> (pydict \<Rightarrow> exn + 'a) \<Rightarrow> pydict \<Rightarrow> exn + 'a" where
  "from_query env parse = validation_handler (validation_errors env) [query_part]
     (\<lambda>event. model_validate parse (event_part event query_part))"

definition from_path :: "denv \<Rightarrow> (pydict \<Rightarrow> exn + 'a) \<Rightarrow> pydict \<Rightarrow> exn + 'a" where
  "from_path env parse = validation_handler (validation_errors env) [path_part]
     (\<lambda>event. sbind (merged (event_part event path_part) (PDict [])) (model_validate parse))"

definition from_path_and_body :: "denv \<Rightarrow> (pydict \<Rightarrow> exn + 'a) \<Rightarrow> pydict \<Rightarrow> exn + 'a" where
  "from_path_and_body env parse = validation_handler (validation_errors env) [path_part, body_part]
     (\<lambda>event. sbind (json_body env event) (\<lambda>body.
        sbind (merged (event_part event path_part) body) (model_validate parse)))"

definition from_path_and_query :: "denv \<Rightarrow> (pydict \<Rightarrow> exn + 'a) \<Rightarrow> pydict \<Rightarrow> exn + 'a" where
  "from_path_and_query env parse = validation_handler (validation_errors env) [path_part, query_part]
     (\<lambda>event. sbind (merged (event_part event path_part) (event_part event query_part))
        (model_validate parse))"

text \<open>A queue message: any JSON value.\<close>

definition from_message :: "denv \<Rightarrow> (pyval \<Rightarrow> exn + 'a) \<Rightarrow> pyval \<Rightarrow> exn + 'a" where
  "from_message env parse v = validation_handler (validation_errors env) [] (\<lambda>_. parse v) []"

section \<open>schemas/queue\_schema.py\<close>

text \<open>\<open>v.get(k)\<close> on a value that should be a dict.\<close>

definition get_method :: "pyval \<Rightarrow> string \<Rightarrow> pyval \<Rightarrow> exn + pyval" where
  "get_method v k absent =
     (case v of
        PDict d \<Rightarrow> Inr (case dict_get d k of None \<Rightarrow> absent | Some x \<Rightarrow> x)
      | _ \<Rightarrow> Inl AttributeError)"

definition message_of_record :: "denv \<Rightarrow> pyval \<Rightarrow> exn + pyval list" where
  "message_of_record env record_value =
     sbind (get_method record_value ''body'' PNone) (\<lambda>body.
     if \<not> truthy body then Inr []
     else sbind (sbind (as_text body) (loads env)) (\<lambda>parsed_body.
       sbind (get_method parsed_body ''Message'' PNone) (\<lambda>message.
       if \<not> truthy message then Inr []
       else sbind (sbind (as_text message) (loads env)) (\<lambda>event. Inr [event]))))"

definition get_events_from_queue :: "denv \<Rightarrow> pydict \<Rightarrow> exn + pyval list" where
  "get_events_from_queue env event =
     (let records = (case dict_get event ''Records'' of None \<Rightarrow> PList [] | Some v \<Rightarrow> v) in
      if \<not> truthy records then Inr []
      else sbind (iterate records) (\<lambda>rs. sbind (smap (message_of_record env) rs) (\<lambda>ms. Inr (concat ms))))"

end
