(* ===== verification/Deployer_Lambdas.thy ===== *)
theory Deployer_Lambdas
  imports Deployer_Handlers
begin

text \<open>
  The lambda handlers of \<open>src/deployer/application/handlers\<close>: what each reads from its event, whom it
  lets through, which service it calls and how it answers. A handler with the decorator always
  answers; a consumer of a queue lets its exception out and the queue delivers the batch again.
\<close>

section \<open>Common steps\<close>

definition request_context :: "denv \<Rightarrow> pydict \<Rightarrow> request_context dprog" where
  "request_context env event = of_sum (RequestContext (serverless_offline env) event)"

definition success_response :: "pyval \<Rightarrow> lambda_response dprog" where
  "success_response data =
     of_sum (generate_lambda_response 200
       (PDict [(''status'', PStr ''success''), (''data'', data), (''error'', PDict [])]) True)"

definition file_response :: "string \<times> string \<Rightarrow> lambda_response dprog" where
  "file_response file = ret (generate_lambda_text_file_response (fst file) (snd file) True)"

text \<open>The events of a queue message batch, one after the other.\<close>

definition consume ::
  "denv \<Rightarrow> pydict \<Rightarrow> (pyval \<Rightarrow> unit dprog) \<Rightarrow> pydict dprog" where
  "consume env event handle_one =
     andthen (of_sum (get_events_from_queue env event)) (\<lambda>events.
     andthen (for_each events handle_one) (\<lambda>_. ret []))"

section \<open>handlers/billing\_handlers.py\<close>

definition handle_create_order :: "denv \<Rightarrow> pydict \<Rightarrow> lambda_response dprog" where
  "handle_create_order env event = exception_handler
     (andthen (request_context env event) (\<lambda>ctx.
     andthen (of_sum (from_body env (CreateOrderRequest env) event)) (\<lambda>request.
     andthen (create_order env request (rc_account_id ctx)) (\<lambda>response.
     success_response (PDict response)))))"

definition handle_save_evm_transaction :: "denv \<Rightarrow> pydict \<Rightarrow> lambda_response dprog" where
  "handle_save_evm_transaction env event = exception_handler
     (andthen (request_context env event) (\<lambda>ctx.
     andthen (of_sum (from_body env SaveEVMTransactionRequest event)) (\<lambda>request.
     andthen (check_local_access (rc_account_id ctx) None (Some (ser_order_id request)) None) (\<lambda>_.
     andthen (save_evm_transaction env request) (\<lambda>response.
     success_response (PDict response))))))"

definition handle_get_balance :: "denv \<Rightarrow> pydict \<Rightarrow> lambda_response dprog" where
  "handle_get_balance env event = exception_handler
     (andthen (request_context env event) (\<lambda>ctx.
     andthen (get_balance (rc_account_id ctx)) (\<lambda>response.
     success_response (PDict response))))"

definition handle_get_balance_history :: "denv \<Rightarrow> pydict \<Rightarrow> lambda_response dprog" where
  "handle_get_balance_history env event = exception_handler
     (andthen (request_context env event) (\<lambda>ctx.
     andthen (of_sum (from_query env (GetBalanceHistoryRequest env) event)) (\<lambda>request.
     andthen (get_balance_history env request (rc_account_id ctx)) (\<lambda>response.
     success_response (PDict response)))))"

text \<open>The two metrics handlers do not return when the loop over the pages does not.\<close>

definition metrics_handler ::
  "denv \<Rightarrow> pydict \<Rightarrow> (get_metrics_request \<Rightarrow> world \<Rightarrow> ((exn + 'a) \<times> world) option) \<Rightarrow>
   ('a \<Rightarrow> lambda_response dprog) \<Rightarrow> world \<Rightarrow> ((exn + lambda_response) \<times> world) option" where
  "metrics_handler env event compute answer w =
     (let authorized =
        andthen (request_context env event) (\<lambda>ctx.
        andthen (of_sum (from_path_and_query env GetMetricsRequest event)) (\<lambda>request.
        andthen (check_local_access (rc_account_id ctx) None None (Some (gm_hosted_service_id request))) (\<lambda>_.
        ret request))) in
      case authorized w of
        (Inl e, w1) \<Rightarrow> Some (exception_handler (raise e) w1)
      | (Inr request, w1) \<Rightarrow>
          (case compute request w1 of
             None \<Rightarrow> None
           | Some (Inl e, w2) \<Rightarrow> Some (exception_handler (raise e) w2)
           | Some (Inr a, w2) \<Rightarrow> Some (exception_handler (answer a) w2)))"

definition handle_get_metrics ::
  "denv \<Rightarrow> pydict \<Rightarrow> world \<Rightarrow> ((exn + lambda_response) \<times> world) option" where
  "handle_get_metrics env event =
     metrics_handler env event (get_metrics env) (\<lambda>response. success_response (PDict response))"

definition handle_download_metrics ::
  "denv \<Rightarrow> pydict \<Rightarrow> world \<Rightarrow> ((exn + lambda_response) \<times> world) option" where
  "handle_download_metrics env event = metrics_handler env event (download_metrics env) file_response"

definition handle_get_balance_and_rate :: "denv \<Rightarrow> pydict \<Rightarrow> lambda_response dprog" where
  "handle_get_balance_and_rate env event = exception_handler
     (andthen (of_sum (from_query env GetBalanceAndRateRequest event)) (\<lambda>request.
     andthen (get_balance_and_rate request) (\<lambda>response.
     success_response (PDict response))))"

definition handle_update_transaction_status :: "denv \<Rightarrow> pydict \<Rightarrow> pydict dprog" where
  "handle_update_transaction_status env event = andthen (update_transaction_status env) (\<lambda>_. ret [])"

definition call_event_consumer :: "denv \<Rightarrow> pydict \<Rightarrow> pydict dprog" where
  "call_event_consumer env event =
     consume env event (\<lambda>e.
       andthen (of_sum (from_message env (model_validate (CallEventConsumerRequest env)) e)) (\<lambda>request.
       process_call_event env request))"

definition handle_update_token_rate :: "denv \<Rightarrow> pydict \<Rightarrow> pydict dprog" where
  "handle_update_token_rate env event = andthen (update_token_rate env) (\<lambda>_. ret [])"

section \<open>handlers/daemon\_handlers.py\<close>

definition handle_get_daemon :: "denv \<Rightarrow> pydict \<Rightarrow> lambda_response dprog" where
  "handle_get_daemon env event = exception_handler
     (andthen (request_context env event) (\<lambda>ctx.
     andthen (of_sum (from_path env DaemonRequest event)) (\<lambda>request.
     andthen (check_local_access (rc_account_id ctx) (Some (dr_daemon_id request)) None None) (\<lambda>_.
     andthen (service_get_daemon request) (\<lambda>response.
     success_response (PDict response))))))"

definition handle_get_daemon_logs :: "denv \<Rightarrow> pydict \<Rightarrow> lambda_response dprog" where
  "handle_get_daemon_logs env event = exception_handler
     (andthen (request_context env event) (\<lambda>ctx.
     andthen (of_sum (from_path env DaemonRequest event)) (\<lambda>request.
     andthen (check_local_access (rc_account_id ctx) (Some (dr_daemon_id request)) None None) (\<lambda>_.
     andthen (get_daemon_logs env request) (\<lambda>response.
     success_response response)))))"

definition handle_download_daemon_logs :: "denv \<Rightarrow> pydict \<Rightarrow> lambda_response dprog" where
  "handle_download_daemon_logs env event = exception_handler
     (andthen (request_context env event) (\<lambda>ctx.
     andthen (of_sum (from_path env DaemonRequest event)) (\<lambda>request.
     andthen (check_local_access (rc_account_id ctx) (Some (dr_daemon_id request)) None None) (\<lambda>_.
     andthen (download_daemon_logs env request) (\<lambda>file.
     file_response file)))))"

definition handle_update_config :: "denv \<Rightarrow> pydict \<Rightarrow> lambda_response dprog" where
  "handle_update_config env event = exception_handler
     (andthen (request_context env event) (\<lambda>ctx.
     andthen (of_sum (from_path_and_body env (UpdateConfigRequest env) event)) (\<lambda>request.
     andthen (check_local_access (rc_account_id ctx) (Some (uc_daemon_id request)) None None) (\<lambda>_.
     andthen (update_config env request) (\<lambda>response.
     success_response (PDict response))))))"

definition handle_update_daemon_status :: "denv \<Rightarrow> pydict \<Rightarrow> pydict dprog" where
  "handle_update_daemon_status env event =
     consume env event (\<lambda>e.
       andthen (of_sum (from_message env (model_validate (UpdateDaemonStatusRequest env)) e)) (\<lambda>request.
       service_update_daemon_status env request))"

definition handle_deploy_daemon :: "denv \<Rightarrow> pydict \<Rightarrow> lambda_response dprog" where
  "handle_deploy_daemon env event = exception_handler
     (andthen (of_sum (from_path env DaemonRequest event)) (\<lambda>request.
     andthen (deploy_daemon env request) (\<lambda>response.
     success_response (PDict response))))"

definition handle_redeploy_all_daemons :: "denv \<Rightarrow> pydict \<Rightarrow> lambda_response dprog" where
  "handle_redeploy_all_daemons env event = exception_handler
     (andthen (redeploy_all_daemons env) (\<lambda>response.
     success_response (PDict response)))"

definition handle_redeploy_daemon_forcibly :: "denv \<Rightarrow> pydict \<Rightarrow> lambda_response dprog" where
  "handle_redeploy_daemon_forcibly env event = exception_handler
     (andthen (of_sum (from_path env DaemonRequest event)) (\<lambda>request.
     andthen (redeploy_daemon_forcibly env request) (\<lambda>_.
     success_response (PDict []))))"

section \<open>handlers/deployments\_handlers.py\<close>

definition handle_initiate_deployment :: "denv \<Rightarrow> pydict \<Rightarrow> lambda_response dprog" where
  "handle_initiate_deployment env event = exception_handler
     (andthen (request_context env event) (\<lambda>ctx.
     andthen (of_sum (from_body env (InitiateDeploymentRequest env) event)) (\<lambda>request.
     andthen (check_service_access env ctx (id_org_id request)) (\<lambda>_.
     andthen (initiate_deployment env request (rc_account_id ctx)) (\<lambda>response.
     success_response (PDict response))))))"

definition handle_get_user_deployments :: "denv \<Rightarrow> pydict \<Rightarrow> lambda_response dprog" where
  "handle_get_user_deployments env event = exception_handler
     (andthen (request_context env event) (\<lambda>ctx.
     andthen (of_sum (from_query env (GetUserDeploymentsRequest env) event)) (\<lambda>request.
     andthen (get_user_deployments request (rc_account_id ctx)) (\<lambda>response.
     success_response (PDict response)))))"

definition handle_search_deployments :: "denv \<Rightarrow> pydict \<Rightarrow> lambda_response dprog" where
  "handle_search_deployments env event = exception_handler
     (andthen (request_context env event) (\<lambda>ctx.
     andthen (of_sum (from_query env SearchDeploymentsRequest event)) (\<lambda>request.
     andthen (check_service_access env ctx (sd_org_id request)) (\<lambda>_.
     andthen (search_deployments request (rc_account_id ctx)) (\<lambda>response.
     success_response (PDict response))))))"

definition handle_get_public_key :: "denv \<Rightarrow> pydict \<Rightarrow> lambda_response dprog" where
  "handle_get_public_key env event = exception_handler
     (andthen (get_public_key env) (\<lambda>response.
     success_response (PDict response)))"

definition registry_event_consumer :: "denv \<Rightarrow> pydict \<Rightarrow> pydict dprog" where
  "registry_event_consumer env event =
     consume env event (\<lambda>e.
       andthen (of_sum (getitem e ''blockchain_event'')) (\<lambda>blockchain_event.
       andthen (of_sum (from_message env (RegistryEventConsumerRequest env) blockchain_event)) (\<lambda>request.
       if re_event_name request \<in> {''ServiceCreated'', ''ServiceMetadataModified'', ''ServiceDeleted''}
       then process_registry_event env request else ret ())))"

section \<open>handlers/hosted\_services\_handlers.py\<close>

definition handle_get_hosted_service :: "denv \<Rightarrow> pydict \<Rightarrow> lambda_response dprog" where
  "handle_get_hosted_service env event = exception_handler
     (andthen (request_context env event) (\<lambda>ctx.
     andthen (of_sum (from_path env HostedServiceRequest event)) (\<lambda>request.
     andthen (check_local_access (rc_account_id ctx) None None (Some (hr_hosted_service_id request))) (\<lambda>_.
     andthen (service_get_hosted_service request) (\<lambda>response.
     success_response (PDict response))))))"

definition handle_check_github_repository :: "denv \<Rightarrow> pydict \<Rightarrow> lambda_response dprog" where
  "handle_check_github_repository env event = exception_handler
     (andthen (of_sum (from_query env CheckGithubRepositoryRequest event)) (\<lambda>request.
     andthen (check_github_repository env request) (\<lambda>response.
     success_response (PDict response))))"

definition handle_get_hosted_service_logs :: "denv \<Rightarrow> pydict \<Rightarrow> lambda_response dprog" where
  "handle_get_hosted_service_logs env event = exception_handler
     (andthen (request_context env event) (\<lambda>ctx.
     andthen (of_sum (from_path env HostedServiceRequest event)) (\<lambda>request.
     andthen (check_local_access (rc_account_id ctx) None None (Some (hr_hosted_service_id request))) (\<lambda>_.
     andthen (get_hosted_service_logs env request) (\<lambda>response.
     success_response response)))))"

definition handle_download_hosted_service_logs :: "denv \<Rightarrow> pydict \<Rightarrow> lambda_response dprog" where
  "handle_download_hosted_service_logs env event = exception_handler
     (andthen (request_context env event) (\<lambda>ctx.
     andthen (of_sum (from_path env HostedServiceRequest event)) (\<lambda>request.
     andthen (check_local_access (rc_account_id ctx) None None (Some (hr_hosted_service_id request))) (\<lambda>_.
     andthen (download_hosted_service_logs env request) (\<lambda>file.
     file_response file)))))"

definition handle_update_hosted_service_status :: "denv \<Rightarrow> pydict \<Rightarrow> pydict dprog" where
  "handle_update_hosted_service_status env event =
     consume env event (\<lambda>e.
       andthen (of_sum (from_message env (model_validate UpdateHostedServiceStatusRequest) e)) (\<lambda>request.
       service_update_hosted_service_status env request))"

definition handle_redeploy_hosted_service_forcibly :: "denv \<Rightarrow> pydict \<Rightarrow> lambda_response dprog" where
  "handle_redeploy_hosted_service_forcibly env event = exception_handler
     (andthen (of_sum (from_path env HostedServiceRequest event)) (\<lambda>request.
     andthen (redeploy_hosted_service_forcibly env request) (\<lambda>_.
     success_response PNone)))"

end
