(* ===== verification/Deployer_Demo.thy ===== *)
theory Deployer_Demo
  imports Deployer_Lambdas
begin

text \<open>
  A concrete environment and state of the deployer, on which the witnesses evaluate its operations:
  one account with a hosted service, one order whose payment is on the blockchain.
\<close>

definition demo_http :: "ext_call list \<Rightarrow> ext_call \<Rightarrow> exn + http_response" where
  "demo_http calls c = Inr \<lparr>http_status = 200, http_text = ''ok'',
     http_json = Inr (PDict [(''data'', PDict [(''logs'', PList [PStr ''line'']), (''publicKey'', PStr ''key'')]),
                             (''id'', PInt 7)])\<rparr>"

text \<open>A \<open>transfer\<close> call: selector, recipient, amount, then the order id \<open>o1\<close> as two more bytes.\<close>

definition demo_input :: string where
  "demo_input = replicate 136 (CHR ''0'') @ ''6f31''"

definition demo_env :: denv where
  "demo_env =
     \<lparr>now = 1700000000000000, column_time = (\<lambda>t. t - t mod 1000000),
      new_uuid = (\<lambda>n. ''u'' @ replicate n (CHR ''u'')), loads = (\<lambda>t. Inr (PDict [])),
      py_repr = (\<lambda>v. ''value''), py_float = (\<lambda>v. Inr ''0.5''), cogs_per_usd_of = (\<lambda>r. Inr 2),
      utf8_decode = (\<lambda>bs. if list_all (\<lambda>b. b < 128) bs then Inr (map char_of bs)
                         else Inl (PyExc ''UnicodeDecodeError'' [])),
      sha224_hex = (\<lambda>s. ''d1''), github_jwt = Inr ''token'',
      http_answer = demo_http, sns_answer = (\<lambda>_ _. Inr 200),
      lambda_answer = (\<lambda>_ _. Inr \<lparr>lr_status = 202, lr_payload = ''{}'', lr_text = ''accepted''\<rparr>),
      block_number = (\<lambda>_ _. Inr 100),
      transfer_events = (\<lambda>_ _. Inr [\<lparr>te_transaction_hash = ''0xaa'', te_from = ''sender'',
         te_to = ''recipient'', te_value = 5\<rparr>]),
      transaction_input_hex = (\<lambda>_ _. Inr demo_input),
      storage_metadata = (\<lambda>_ _. Inr (PDict
         [(''groups'', PList [PDict [(''group_name'', PStr ''group'')]]),
          (''service_api_source'', PStr ''ipfs://source'')])),
      storage_bytes = (\<lambda>_ _. Inr [1]), tar_members = (\<lambda>_. Inr [(True, Some [112])]),
      parse_call_events = (\<lambda>_. Inr \<lparr>ger_events = [], ger_total_count = 0\<rparr>),
      load_contract = (\<lambda>_. Inr (PDict [(''1'', PDict [(''address'', PStr ''0xcc'')])])),
      contracts_path = ''/contracts'',
      pydantic_int = (\<lambda>v. case v of PInt i \<Rightarrow> Some i | _ \<Rightarrow> None),
      pydantic_bool = (\<lambda>v. case v of PBool b \<Rightarrow> Some b | _ \<Rightarrow> None),
      pydantic_datetime = (\<lambda>v. case v of PTime t \<Rightarrow> Some t | _ \<Rightarrow> None),
      validation_errors = (\<lambda>t. PList []), literal_eval = (\<lambda>t. Inr []),
      web3_to_text = (\<lambda>v. case v of PStr s \<Rightarrow> Inr s | _ \<Rightarrow> Inl TypeError),
      pandas_metrics = (\<lambda>es f. Inr []), serverless_offline = False,
      HAAS_BASE_URL = ''https://haas'', HAAS_DEPLOY_DAEMON_PATH = (\<lambda>a b. ''/deploy''),
      HAAS_DELETE_DAEMON_PATH = (\<lambda>a b. ''/delete''), HAAS_GET_DAEMON_LOGS_PATH = (\<lambda>a b. ''/logs''),
      HAAS_GET_PUBLIC_KEY_PATH = ''/key'', HAAS_DELETE_HOSTED_SERVICE_PATH = (\<lambda>a b. ''/delete-service''),
      HAAS_GET_HOSTED_SERVICE_LOGS_PATH = (\<lambda>a b. ''/service-logs''), HAAS_GET_CALL_EVENTS_PATH = ''/events'',
      HAAS_DAEMON_IMAGE = ''image'', HAAS_DAEMON_BASE_URL = ''haas'', DEPLOY_SERVICE_TOPIC_ARN = ''topic'',
      START_DAEMON_ARN = ''start'', GET_ALL_ORGS_ARN = ''orgs'', TOKEN_JSON_FILE_NAME = ''FET.json'',
      NETWORK_ID = 1, TRANSACTION_TTL_IN_MINUTES = 10\<rparr>"

definition demo_account :: account_balance_row where
  "demo_account = \<lparr>ab_account_id = ''a1'', ab_balance_in_cogs = 3, ab_created_at = 1, ab_updated_at = 1\<rparr>"

definition demo_daemon :: daemon_row where
  "demo_daemon =
     \<lparr>d_id = ''d1'', d_account_id = ''a1'', d_org_id = ''org'', d_service_id = ''svc'', d_status = Daemon_UP,
      d_daemon_config = [(''payment_channel_storage_type'', PStr ''etcd''), (''is_service_hosted'', PBool True),
        (''service_endpoint'', PStr ''''), (''daemon_group'', PStr ''group''), (''service_class'', PStr ''cls'')],
      d_daemon_endpoint = ''https://d1.haas'', d_status_observed_at = Some 5000000,
      d_status_resource_version = Some ''7'', d_created_at = 1, d_updated_at = 1\<rparr>"

definition demo_hosted_service :: hosted_service_row where
  "demo_hosted_service =
     \<lparr>hs_id = ''h1'', hs_daemon_id = ''d1'', hs_status = HS_UP, hs_github_account_name = ''acc'',
      hs_github_repository_name = ''repo'', hs_last_commit_url = '''', hs_created_at = 1, hs_updated_at = 1\<rparr>"

definition demo_order :: "order_status \<Rightarrow> order_row" where
  "demo_order st =
     \<lparr>ord_id = ''o1'', ord_account_id = ''a1'', ord_status = st, ord_amount = 5,
      ord_created_at = 1700000000000000, ord_updated_at = 1700000000000000\<rparr>"

definition demo_metadata :: transactions_metadata_row where
  "demo_metadata =
     \<lparr>tm_id = 1, tm_recipient = ''recipient'', tm_last_block_no = 10, tm_fetch_limit = 50,
      tm_block_adjustment = 5, tm_created_at = 1, tm_updated_at = 1\<rparr>"

definition demo_db :: "order_status \<Rightarrow> deployer_db" where
  "demo_db st =
     \<lparr>account_balance_table = [demo_account], daemon_table = [demo_daemon],
      hosted_service_table = [demo_hosted_service], order_table = [demo_order st],
      evm_transaction_table = [], transactions_metadata_table = [demo_metadata], token_rate_table = []\<rparr>"

definition demo_world :: "order_status \<Rightarrow> world" where
  "demo_world st = \<lparr>wdb = demo_db st, ext_calls = [], uuid_supply = 0\<rparr>"

lemmas demo_defs = demo_world_def demo_db_def demo_metadata_def demo_order_def demo_hosted_service_def
  demo_daemon_def demo_account_def

end
