(* ===== verification/Deployer_Tables.thy ===== *)
theory Deployer_Tables
  imports Deployer_Demo
begin

text \<open>
  The integrity of the deployer's tables and the money in them: keys are unique, references point
  to rows, and for every account the balance differs from the credited orders only by what was
  charged. Each repository operation is related to both once, here.
\<close>

section \<open>Keys and references\<close>

definition account_keys :: "deployer_db \<Rightarrow> string list" where
  "account_keys db = map ab_account_id (account_balance_table db)"

definition daemon_keys :: "deployer_db \<Rightarrow> (string \<times> string \<times> string \<times> string) list" where
  "daemon_keys db = map (\<lambda>d. (d_id d, d_account_id d, d_org_id d, d_service_id d)) (daemon_table db)"

definition hosted_service_keys :: "deployer_db \<Rightarrow> (string \<times> string) list" where
  "hosted_service_keys db = map (\<lambda>h. (hs_id h, hs_daemon_id h)) (hosted_service_table db)"

definition order_keys :: "deployer_db \<Rightarrow> (string \<times> string) list" where
  "order_keys db = map (\<lambda>r. (ord_id r, ord_account_id r)) (order_table db)"

definition transaction_keys :: "deployer_db \<Rightarrow> (string \<times> string) list" where
  "transaction_keys db = map (\<lambda>t. (tx_hash t, tx_order_id t)) (evm_transaction_table db)"

lemmas key_defs = account_keys_def daemon_keys_def hosted_service_keys_def order_keys_def
  transaction_keys_def

text \<open>
  The constraints of the tables: primary keys, \<open>uq_org_srvc\<close>, \<open>uq_daemon\<close> and the four foreign
  keys.
\<close>

definition tables_ok :: "deployer_db \<Rightarrow> bool" where
  "tables_ok db \<longleftrightarrow>
     distinct (account_keys db) \<and>
     distinct (map fst (daemon_keys db)) \<and>
     distinct (map (\<lambda>(i, a, og, sv). (og, sv)) (daemon_keys db)) \<and>
     (\<forall>(i, a, os) \<in> set (daemon_keys db). a \<in> set (account_keys db)) \<and>
     distinct (map fst (hosted_service_keys db)) \<and>
     distinct (map snd (hosted_service_keys db)) \<and>
     (\<forall>(i, d) \<in> set (hosted_service_keys db). d \<in> fst ` set (daemon_keys db)) \<and>
     distinct (map fst (order_keys db)) \<and>
     (\<forall>(i, a) \<in> set (order_keys db). a \<in> set (account_keys db)) \<and>
     distinct (map fst (transaction_keys db)) \<and>
     (\<forall>(h, i) \<in> set (transaction_keys db). i \<in> fst ` set (order_keys db))"

definition same_keys :: "deployer_db \<Rightarrow> deployer_db \<Rightarrow> bool" where
  "same_keys db db' \<longleftrightarrow>
     account_keys db' = account_keys db \<and> daemon_keys db' = daemon_keys db \<and>
     hosted_service_keys db' = hosted_service_keys db \<and> order_keys db' = order_keys db \<and>
     transaction_keys db' = transaction_keys db"

lemma same_keys_tables_ok: "same_keys db db' \<Longrightarrow> tables_ok db' = tables_ok db"
  by (simp add: same_keys_def tables_ok_def)

lemma tables_ok_accounts: "tables_ok db \<Longrightarrow> distinct (map ab_account_id (account_balance_table db))"
  by (simp add: tables_ok_def account_keys_def)

lemma tables_ok_orders: "tables_ok db \<Longrightarrow> distinct (map ord_id (order_table db))"
  by (simp add: tables_ok_def order_keys_def comp_def)

lemma tables_ok_daemons: "tables_ok db \<Longrightarrow> distinct (map d_id (daemon_table db))"
  by (simp add: tables_ok_def daemon_keys_def comp_def)

lemma tables_ok_hosted_services: "tables_ok db \<Longrightarrow> distinct (map hs_id (hosted_service_table db))"
  by (simp add: tables_ok_def hosted_service_keys_def comp_def)

lemma tables_ok_transactions: "tables_ok db \<Longrightarrow> distinct (map tx_hash (evm_transaction_table db))"
  by (simp add: tables_ok_def transaction_keys_def comp_def)

lemma tables_ok_order_account:
  "tables_ok db \<Longrightarrow> r \<in> set (order_table db) \<Longrightarrow> ord_account_id r \<in> ab_account_id ` set (account_balance_table db)"
  by (auto simp: tables_ok_def order_keys_def account_keys_def)

section \<open>Money\<close>

definition balance :: "string \<Rightarrow> deployer_db \<Rightarrow> int" where
  "balance a db = sum_list (map ab_balance_in_cogs (filter (\<lambda>b. ab_account_id b = a) (account_balance_table db)))"

definition credited :: "string \<Rightarrow> deployer_db \<Rightarrow> int" where
  "credited a db =
     sum_list (map ord_amount (filter (\<lambda>r. ord_account_id r = a \<and> ord_status r = SUCCESS) (order_table db)))"

text \<open>What has been taken off an account, were it only ever credited with paid orders.\<close>

definition net :: "string \<Rightarrow> deployer_db \<Rightarrow> int" where
  "net a db = balance a db - credited a db"

text \<open>The life of an order, as the comments of \<open>OrderStatus\<close> tell it.\<close>

inductive order_step :: "order_status \<Rightarrow> order_status \<Rightarrow> bool" where
  cancelled: "order_step CREATED CANCELLED"
| expired: "order_step CREATED EXPIRED"
| submitted: "order_step CREATED PROCESSING"
| resubmitted: "order_step FAILED PROCESSING"
| confirmed: "order_step PROCESSING SUCCESS"
| failed: "order_step PROCESSING FAILED"

inductive_cases order_step_SUCCESS [elim!]: "order_step SUCCESS st"
inductive_cases order_step_CANCELLED [elim!]: "order_step CANCELLED st"
inductive_cases order_step_EXPIRED [elim!]: "order_step EXPIRED st"
inductive_simps order_step_simps [simp]: "order_step CREATED st" "order_step FAILED st" "order_step PROCESSING st"

lemma paid_is_final: "order_step\<^sup>*\<^sup>* SUCCESS st \<Longrightarrow> st = SUCCESS"
  by (erule converse_rtranclpE) auto

definition follows :: "order_row \<Rightarrow> order_row \<Rightarrow> bool" where
  "follows r r' \<longleftrightarrow> ord_id r' = ord_id r \<and> ord_account_id r' = ord_account_id r \<and>
     ord_amount r' = ord_amount r \<and> order_step\<^sup>*\<^sup>* (ord_status r) (ord_status r')"

definition orders_follow :: "deployer_db \<Rightarrow> deployer_db \<Rightarrow> bool" where
  "orders_follow db db' \<longleftrightarrow> (\<forall>r \<in> set (order_table db). \<exists>r' \<in> set (order_table db'). follows r r')"

lemma follows_refl [simp]: "follows r r"
  by (simp add: follows_def)

lemma follows_trans: "follows r s \<Longrightarrow> follows s t \<Longrightarrow> follows r t"
  by (auto simp: follows_def)

lemma orders_follow_refl [simp]: "orders_follow db db"
  by (auto simp: orders_follow_def intro: follows_refl)

lemma orders_follow_trans: "orders_follow a b \<Longrightarrow> orders_follow b c \<Longrightarrow> orders_follow a c"
  unfolding orders_follow_def by (meson follows_trans)

lemma orders_follow_same: "order_table db' = order_table db \<Longrightarrow> orders_follow db db'"
  by (auto simp: orders_follow_def intro: follows_refl)

definition one_created :: "deployer_db \<Rightarrow> bool" where
  "one_created db \<longleftrightarrow>
     (\<forall>r \<in> set (order_table db). \<forall>r' \<in> set (order_table db).
        ord_status r = CREATED \<and> ord_status r' = CREATED \<and> ord_account_id r = ord_account_id r' \<longrightarrow>
        ord_id r = ord_id r')"

definition deployer_ok :: "deployer_db \<Rightarrow> bool" where
  "deployer_ok db \<longleftrightarrow> tables_ok db \<and> one_created db"

text \<open>The relation every operation but a charge keeps.\<close>

definition ledger :: "deployer_db \<Rightarrow> deployer_db \<Rightarrow> bool" where
  "ledger db db' \<longleftrightarrow>
     (deployer_ok db \<longrightarrow>
        deployer_ok db' \<and> (\<forall>a. net a db' = net a db) \<and> orders_follow db db')"

interpretation books: db_frame ledger
  by unfold_locales (auto simp: ledger_def intro: orders_follow_trans)

interpretation book_steps: step_frame "on_db ledger"
  by (rule books.lifted)

lemma ledgerI:
  assumes "deployer_ok db \<Longrightarrow> tables_ok db'" and "deployer_ok db \<Longrightarrow> one_created db'"
    and "\<And>a. deployer_ok db \<Longrightarrow> net a db' = net a db"
    and "deployer_ok db \<Longrightarrow> orders_follow db db'"
  shows "ledger db db'"
  using assms by (simp add: ledger_def deployer_ok_def)

text \<open>Changes elsewhere.\<close>

lemma ledger_same_money:
  assumes "deployer_ok db \<Longrightarrow> tables_ok db'"
    and "order_table db' = order_table db" and "\<And>a. deployer_ok db \<Longrightarrow> balance a db' = balance a db"
  shows "ledger db db'"
proof (rule ledgerI)
  assume ok: "deployer_ok db"
  from ok show "tables_ok db'" by (rule assms(1))
  from ok show "one_created db'" unfolding deployer_ok_def one_created_def assms(2) by blast
  show "orders_follow db db'" by (rule orders_follow_same) (fact assms(2))
next
  fix a assume "deployer_ok db"
  then show "net a db' = net a db" unfolding net_def credited_def assms(2) by (simp add: assms(3))
qed

lemma ledger_elsewhere:
  assumes "deployer_ok db \<Longrightarrow> tables_ok db'"
    and "order_table db' = order_table db" and "account_balance_table db' = account_balance_table db"
  shows "ledger db db'"
proof (rule ledger_same_money)
  fix a show "balance a db' = balance a db" by (simp only: balance_def assms(3))
qed (fact assms)+

section \<open>Updates that keep the keys\<close>

lemma map_touched: "(\<And>r. p r \<Longrightarrow> k (f r) = k r) \<Longrightarrow> map k (sql_update p f t) = map k t"
  by (rule map_sql_update)

lemma ledger_update_daemons:
  assumes "\<And>d. d_id (f d) = d_id d \<and> d_account_id (f d) = d_account_id d \<and>
    d_org_id (f d) = d_org_id d \<and> d_service_id (f d) = d_service_id d"
  shows "stays (on_db ledger) (update_daemons env i f)"
  unfolding update_daemons_def
proof (rule books.stays_execute, rule ledger_elsewhere)
  fix db
  assume "deployer_ok db"
  moreover have "same_keys db (db\<lparr>daemon_table := sql_update (\<lambda>d. d_id d = i) (touch_daemon env f) (daemon_table db)\<rparr>)"
    using assms by (simp add: same_keys_def key_defs map_sql_update)
  ultimately show "tables_ok (db\<lparr>daemon_table := sql_update (\<lambda>d. d_id d = i) (touch_daemon env f) (daemon_table db)\<rparr>)"
    by (simp add: same_keys_tables_ok deployer_ok_def)
qed simp_all

lemma ledger_daemon_updates [stays_intros]:
  "stays (on_db ledger) (update_daemon_status env i s t v)"
  "stays (on_db ledger) (update_daemon_config env i c)"
  "stays (on_db ledger) (update_daemon_endpoint env i e)"
  unfolding update_daemon_status_def update_daemon_config_def update_daemon_endpoint_def
  by (rule ledger_update_daemons; simp)+

lemma ledger_update_hosted_service_status [stays_intros]:
  "stays (on_db ledger) (update_hosted_service_status env i s u)"
  unfolding update_hosted_service_status_def
proof (rule books.stays_execute, rule ledger_elsewhere)
  fix db :: deployer_db
  let ?f = "touch_hosted_service env (\<lambda>h. case u of None \<Rightarrow> h\<lparr>hs_status := s\<rparr>
      | Some url \<Rightarrow> h\<lparr>hs_status := s, hs_last_commit_url := url\<rparr>)"
  assume "deployer_ok db"
  moreover have "same_keys db (db\<lparr>hosted_service_table := sql_update (\<lambda>h. hs_id h = i) ?f (hosted_service_table db)\<rparr>)"
    by (simp add: same_keys_def key_defs map_sql_update split: option.split)
  ultimately show "tables_ok (db\<lparr>hosted_service_table := sql_update (\<lambda>h. hs_id h = i) ?f (hosted_service_table db)\<rparr>)"
    by (simp add: same_keys_tables_ok deployer_ok_def)
qed simp_all

lemma ledger_update_transactions:
  "(\<And>t. tx_hash (f t) = tx_hash t \<and> tx_order_id (f t) = tx_order_id t) \<Longrightarrow>
   ledger db (db\<lparr>evm_transaction_table := sql_update p (touch_evm_transaction env f) (evm_transaction_table db)\<rparr>)"
proof (rule ledger_elsewhere)
  assume keep: "\<And>t. tx_hash (f t) = tx_hash t \<and> tx_order_id (f t) = tx_order_id t" and "deployer_ok db"
  moreover have "same_keys db
      (db\<lparr>evm_transaction_table := sql_update p (touch_evm_transaction env f) (evm_transaction_table db)\<rparr>)"
    using keep by (simp add: same_keys_def key_defs map_sql_update)
  ultimately show "tables_ok
      (db\<lparr>evm_transaction_table := sql_update p (touch_evm_transaction env f) (evm_transaction_table db)\<rparr>)"
    by (simp add: same_keys_tables_ok deployer_ok_def)
qed simp_all

lemma ledger_fail_old_transactions [stays_intros]: "stays (on_db ledger) (fail_old_transactions env)"
  unfolding fail_old_transactions_def by (intro books.stays_execute ledger_update_transactions) simp

lemma ledger_metadata [stays_intros]: "stays (on_db ledger) (update_transactions_metadata env i n)"
  unfolding update_transactions_metadata_def
proof (rule books.stays_execute, rule ledger_elsewhere)
  fix db :: deployer_db and t
  assume "deployer_ok db"
  then show "tables_ok (db\<lparr>transactions_metadata_table := t\<rparr>)"
    by (simp add: tables_ok_def deployer_ok_def key_defs)
qed simp_all

lemma ledger_token_rates [stays_intros]:
  "stays (on_db ledger) (add_token_rate env s u c)"
  "stays (on_db ledger) (delete_old_token_rates env)"
  unfolding add_token_rate_def delete_old_token_rates_def
  by (intro books.stays_execute ledger_elsewhere; simp add: tables_ok_def deployer_ok_def key_defs)+

section \<open>Inserts\<close>

lemma ledger_create_daemon [stays_intros]: "stays (on_db ledger) (create_daemon env n)"
  unfolding create_daemon_def
  by (intro books.stays_insert ledger_elsewhere)
    (auto simp: tables_ok_def deployer_ok_def key_defs comp_def image_iff)

lemma ledger_create_hosted_service [stays_intros]: "stays (on_db ledger) (create_hosted_service env n)"
  unfolding create_hosted_service_def
  by (intro books.stays_insert ledger_elsewhere)
    (auto simp: tables_ok_def deployer_ok_def key_defs comp_def image_iff)

lemma ledger_upsert_transaction [stays_intros]: "stays (on_db ledger) (upsert_transaction env n)"
proof -
  have insert: "ledger db (db\<lparr>evm_transaction_table := evm_transaction_table db @ [row]\<rparr>)"
    if "tx_hash row \<notin> tx_hash ` set (evm_transaction_table db)" "tx_order_id row \<in> ord_id ` set (order_table db)"
    for db row
    using that by (intro ledger_elsewhere)
      (auto simp: tables_ok_def deployer_ok_def key_defs comp_def image_iff)
  show ?thesis
    unfolding upsert_transaction_def
    by (intro book_steps.stays_andthen books.stays_query)
      (auto split: option.split intro!: books.stays_execute books.stays_insert ledger_update_transactions insert)
qed

lemma ledger_new_account:
  assumes "a \<notin> ab_account_id ` set (account_balance_table db)"
  shows "ledger db (db\<lparr>account_balance_table := account_balance_table db @
            [\<lparr>ab_account_id = a, ab_balance_in_cogs = 0, ab_created_at = t, ab_updated_at = u\<rparr>]\<rparr>)"
  using assms by (auto intro!: ledger_same_money simp: tables_ok_def deployer_ok_def key_defs balance_def)

end
