(* ===== verification/Deployer_Ledger.thy ===== *)
theory Deployer_Ledger
  imports Deployer_Tables
begin

text \<open>
  The ledger: every operation of the deployer keeps the books balanced. A balance moves when an
  order is paid, by the amount of the order, and when a service call is charged, by the amount of
  the call; nothing else moves it.
\<close>

section \<open>Orders found and changed\<close>

lemma first_orderD:
  "first_or_none (order_desc k (filter P t)) = Some r \<Longrightarrow> r \<in> set t \<and> P r"
proof -
  assume "first_or_none (order_desc k (filter P t)) = Some r"
  then have "r \<in> set (order_desc k (filter P t))"
    by (cases "order_desc k (filter P t)") (auto simp: first_or_none_def)
  then show ?thesis by simp
qed

lemma first_order_None: "first_or_none (order_desc k (filter P t)) = None \<longleftrightarrow> (\<forall>r \<in> set t. \<not> P r)"
proof -
  have "first_or_none (order_desc k (filter P t)) = None \<longleftrightarrow> set (order_desc k (filter P t)) = {}"
    by (cases "order_desc k (filter P t)") (auto simp: first_or_none_def)
  then show ?thesis by (auto simp: filter_empty_conv)
qed

lemma order_by_id:
  "tables_ok db \<Longrightarrow> r \<in> set (order_table db) \<Longrightarrow> r' \<in> set (order_table db) \<Longrightarrow> ord_id r' = ord_id r \<Longrightarrow> r' = r"
  by (metis tables_ok_orders key_unique)

lemma rows_with_id:
  "tables_ok db \<Longrightarrow> r \<in> set (order_table db) \<Longrightarrow> P r \<Longrightarrow>
   \<forall>x \<in> set (order_table db). ord_id x = ord_id r \<longrightarrow> P x"
  by (metis order_by_id)

text \<open>The order that \<open>get_order\<close> returns for an id is the row with that id.\<close>

lemma get_order_by_id:
  assumes "tables_ok db"
  shows "first_or_none (order_desc ord_updated_at
           (filter (order_selected (Some i) None None) (order_table db))) =
         sql_first (\<lambda>r. ord_id r = i) (order_table db)"
proof (cases "sql_first (\<lambda>r. ord_id r = i) (order_table db)")
  case None
  then have "\<forall>r \<in> set (order_table db). \<not> order_selected (Some i) None None r"
    by (auto simp: sql_first_None order_selected_def)
  with None show ?thesis by (metis first_order_None)
next
  case (Some r)
  then have r: "r \<in> set (order_table db)" "ord_id r = i" by (auto dest: sql_first_SomeD)
  then obtain r' where r': "first_or_none (order_desc ord_updated_at
      (filter (order_selected (Some i) None None) (order_table db))) = Some r'"
    using first_order_None [of ord_updated_at "order_selected (Some i) None None" "order_table db"]
    by (fastforce simp: order_selected_def)
  from first_orderD [OF r'] have "r' \<in> set (order_table db)" "ord_id r' = i"
    by (auto simp: order_selected_def)
  with r assms have "r' = r" by (simp add: order_by_id)
  with r' Some show ?thesis by simp
qed

lemma sum_filter_update:
  "(\<And>r. r \<in> set t \<Longrightarrow> p r \<Longrightarrow> \<not> P r \<and> \<not> P (f r)) \<Longrightarrow>
   sum_list (map (v :: _ \<Rightarrow> int) (filter P (sql_update p f t))) = sum_list (map v (filter P t))"
  by (induction t) auto

definition set_status :: "denv \<Rightarrow> (order_row \<Rightarrow> bool) \<Rightarrow> order_status \<Rightarrow> deployer_db \<Rightarrow> deployer_db" where
  "set_status env p st db =
     db\<lparr>order_table := sql_update p (touch_order env (\<lambda>r. r\<lparr>ord_status := st\<rparr>)) (order_table db)\<rparr>"

lemma update_orders_set_status: "update_orders env p st = execute (set_status env p st)"
  by (simp add: update_orders_def set_status_def [abs_def])

lemma set_status_keys: "same_keys db (set_status env p st db)"
  by (simp add: same_keys_def set_status_def key_defs map_sql_update)

lemma set_status_tables [simp]:
  "account_balance_table (set_status env p st db) = account_balance_table db"
  "evm_transaction_table (set_status env p st db) = evm_transaction_table db"
  "daemon_table (set_status env p st db) = daemon_table db"
  "hosted_service_table (set_status env p st db) = hosted_service_table db"
  by (simp_all add: set_status_def)

lemma set_status_rows:
  "r' \<in> set (order_table (set_status env p st db)) \<Longrightarrow>
   \<exists>r \<in> set (order_table db). ord_id r' = ord_id r \<and> ord_account_id r' = ord_account_id r \<and>
     ord_amount r' = ord_amount r \<and> ord_status r' = (if p r then st else ord_status r)"
  by (auto simp: set_status_def set_sql_update split: if_splits)

text \<open>Moving unpaid orders to another status that is neither new nor paid.\<close>

lemma ledger_set_status:
  assumes step: "\<And>r. deployer_ok db \<Longrightarrow> r \<in> set (order_table db) \<Longrightarrow> p r \<Longrightarrow> order_step (ord_status r) st"
    and "st \<noteq> SUCCESS" and "st \<noteq> CREATED"
  shows "ledger db (set_status env p st db)"
proof (rule ledgerI)
  assume ok: "deployer_ok db"
  then show "tables_ok (set_status env p st db)"
    using same_keys_tables_ok [OF set_status_keys] by (simp add: deployer_ok_def)
  from ok show "one_created (set_status env p st db)"
    unfolding deployer_ok_def one_created_def
    by (metis assms(3) set_status_rows)
  show "orders_follow db (set_status env p st db)"
    unfolding orders_follow_def
  proof
    fix r assume r: "r \<in> set (order_table db)"
    let ?r' = "if p r then touch_order env (\<lambda>r. r\<lparr>ord_status := st\<rparr>) r else r"
    have "?r' \<in> set (order_table (set_status env p st db))"
      using r by (auto simp: set_status_def set_sql_update)
    moreover have "follows r ?r'"
      using step [OF ok r] by (auto simp: follows_def)
    ultimately show "\<exists>r' \<in> set (order_table (set_status env p st db)). follows r r'" by blast
  qed
next
  fix a assume ok: "deployer_ok db"
  have "ord_status r \<noteq> SUCCESS" if "r \<in> set (order_table db)" "p r" for r
    using step [OF ok that] by (cases "ord_status r") auto
  then have "credited a (set_status env p st db) = credited a db"
    unfolding credited_def set_status_def
    using assms(2) by (simp, intro sum_filter_update) auto
  then show "net a (set_status env p st db) = net a db" by (simp add: net_def balance_def)
qed

lemma ledger_fail_old_orders [stays_intros]: "stays (on_db ledger) (fail_old_orders env)"
  unfolding fail_old_orders_def update_orders_set_status
  by (intro books.stays_execute ledger_set_status) auto

lemma ledger_expire_old_orders [stays_intros]: "stays (on_db ledger) (expire_old_orders env)"
  unfolding expire_old_orders_def update_orders_set_status
  by (intro books.stays_execute ledger_set_status) auto

section \<open>create\_order\<close>

definition no_created :: "string \<Rightarrow> deployer_db \<Rightarrow> bool" where
  "no_created a db \<longleftrightarrow> (\<forall>r \<in> set (order_table db). ord_account_id r = a \<longrightarrow> ord_status r \<noteq> CREATED)"

lemma one_createdD:
  "one_created db \<Longrightarrow> r \<in> set (order_table db) \<Longrightarrow> r' \<in> set (order_table db) \<Longrightarrow>
   ord_status r = CREATED \<Longrightarrow> ord_status r' = CREATED \<Longrightarrow> ord_account_id r = ord_account_id r' \<Longrightarrow>
   ord_id r = ord_id r'"
  unfolding one_created_def by (drule (1) bspec, drule (1) bspec, simp)

lemma ledger_new_order:
  assumes "i \<notin> ord_id ` set (order_table db)" and "a \<in> ab_account_id ` set (account_balance_table db)"
    and "no_created a db"
  shows "ledger db (db\<lparr>order_table := order_table db @
           [\<lparr>ord_id = i, ord_account_id = a, ord_status = CREATED, ord_amount = n,
             ord_created_at = t, ord_updated_at = u\<rparr>]\<rparr>)" (is "ledger db ?db'")
proof (rule ledgerI)
  assume ok: "deployer_ok db"
  have keys: "order_keys ?db' = order_keys db @ [(i, a)]" "account_keys ?db' = account_keys db"
    "daemon_keys ?db' = daemon_keys db" "hosted_service_keys ?db' = hosted_service_keys db"
    "transaction_keys ?db' = transaction_keys db"
    by (simp_all add: key_defs)
  have "i \<notin> fst ` set (order_keys db)" "a \<in> set (account_keys db)"
    using assms(1,2) by (auto simp: key_defs)
  with ok show "tables_ok ?db'"
    unfolding tables_ok_def deployer_ok_def keys by auto
  show "one_created ?db'"
    unfolding one_created_def
  proof (intro ballI impI, elim conjE)
    fix x y
    assume xy: "x \<in> set (order_table ?db')" "y \<in> set (order_table ?db')"
      and created: "ord_status x = CREATED" "ord_status y = CREATED"
      and same: "ord_account_id x = ord_account_id y"
    have old: "r \<in> set (order_table db) \<or> (ord_id r = i \<and> ord_account_id r = a)"
      if "r \<in> set (order_table ?db')" for r
      using that by auto
    show "ord_id x = ord_id y"
      using old [OF xy(1)] old [OF xy(2)] created same assms(3) ok
      unfolding no_created_def deployer_ok_def one_created_def by metis
  qed
  show "orders_follow db ?db'" by (auto simp: orders_follow_def intro: follows_refl)
qed (simp add: net_def balance_def credited_def)

lemma ensure_account_balance_result:
  "ensure_account_balance env a w =
     (Inr (), if a \<in> ab_account_id ` set (account_balance_table (wdb w)) then w
      else w\<lparr>wdb := (wdb w)\<lparr>account_balance_table := account_balance_table (wdb w) @
        [\<lparr>ab_account_id = a, ab_balance_in_cogs = 0, ab_created_at = db_now env, ab_updated_at = db_now env\<rparr>]\<rparr>\<rparr>)"
proof (cases "sql_first (\<lambda>b. ab_account_id b = a) (account_balance_table (wdb w))")
  case None
  then have "a \<notin> ab_account_id ` set (account_balance_table (wdb w))" by (auto simp: sql_first_None)
  with None show ?thesis
    by (simp add: ensure_account_balance_def get_account_balance_def upsert_account_balance_def)
next
  case (Some b)
  then have "a \<in> ab_account_id ` set (account_balance_table (wdb w))" by (auto dest: sql_first_SomeD)
  with Some show ?thesis by (simp add: ensure_account_balance_def get_account_balance_def)
qed

lemma ledger_ensure_account [stays_intros]: "stays (on_db ledger) (ensure_account_balance env a)"
  unfolding stays_def on_db_def
  by (auto simp: ensure_account_balance_result books.refl intro!: ledger_new_account split: if_splits)

text \<open>Once the account has no open order, a new one can be added.\<close>

lemma ledger_place_order:
  assumes "deployer_ok (wdb w) \<Longrightarrow> no_created a (wdb w)"
  shows "on_db ledger w (snd (place_order env a n w))"
proof (cases "deployer_ok (wdb w)")
  case False
  then show ?thesis by (simp add: on_db_def ledger_def)
next
  case True
  show ?thesis
    unfolding place_order_def
  proof (rule book_steps.leads_andthen)
    show "on_db ledger w (snd (ensure_account_balance env a w))"
      by (rule book_steps.staysD_at [OF ledger_ensure_account])
  next
    fix x w1
    assume "ensure_account_balance env a w = (Inr x, w1)"
    then have "order_table (wdb w1) = order_table (wdb w)"
      by (auto simp: ensure_account_balance_result split: if_splits)
    with assms True have "no_created a (wdb w1)" by (simp add: no_created_def)
    then show "on_db ledger w1 (snd (andthen (generate_uuid env) (\<lambda>i.
        andthen (create_order_row env
          \<lparr>no_id = i, no_account_id = a, no_status = CREATED, no_amount = n\<rparr>) (\<lambda>_. ret i)) w1))"
      by (auto simp: on_db_def create_order_row_def andthen_apply books.refl intro!: ledger_new_order)
  qed
qed

text \<open>Cancelling the one open order of an account leaves none.\<close>

lemma cancel_open_order:
  fixes env :: denv
  assumes ok: "deployer_ok db" and r: "r \<in> set (order_table db)" "ord_status r = CREATED"
  defines "db' \<equiv> set_status env (\<lambda>x. ord_id x = ord_id r) CANCELLED db"
  shows "ledger db db'" and "no_created (ord_account_id r) db'"
proof -
  have unpaid: "\<And>x. x \<in> set (order_table db) \<Longrightarrow> ord_id x = ord_id r \<Longrightarrow> order_step (ord_status x) CANCELLED"
    using rows_with_id [of db r "\<lambda>x. order_step (ord_status x) CANCELLED"] ok r by (simp add: deployer_ok_def)
  show "ledger db db'"
    unfolding db'_def by (rule ledger_set_status; (rule unpaid; assumption)?; simp?)
  have unique: "ord_id x = ord_id r"
    if "x \<in> set (order_table db)" "ord_account_id x = ord_account_id r" "ord_status x = CREATED" for x
    using that ok r by (auto simp: deployer_ok_def intro: one_createdD)
  show "no_created (ord_account_id r) db'"
    unfolding no_created_def
  proof (intro ballI impI notI)
    fix x assume x: "x \<in> set (order_table db')" "ord_account_id x = ord_account_id r" "ord_status x = CREATED"
    from set_status_rows [OF x(1) [unfolded db'_def]] obtain y where y: "y \<in> set (order_table db)"
      "ord_account_id x = ord_account_id y" "ord_status x = (if ord_id y = ord_id r then CANCELLED else ord_status y)"
      by blast
    with x have "ord_id y \<noteq> ord_id r" "ord_status y = CREATED" by (auto split: if_splits)
    with y x unique [of y] show False by simp
  qed
qed

lemma ledger_create_order [stays_intros]: "stays (on_db ledger) (create_order env req a)"
proof -
  let ?find = "\<lambda>db. first_or_none (order_desc ord_updated_at
      (filter (order_selected None (Some a) (Some CREATED)) (order_table db)))"
  let ?body = "\<lambda>order. case order of
          None \<Rightarrow> place_order env a (cor_amount req)
        | Some ord \<Rightarrow>
            if ord_amount ord = cor_amount req then ret (ord_id ord)
            else andthen (update_order_status env (ord_id ord) CANCELLED) (\<lambda>_.
                 place_order env a (cor_amount req))"
  have "stays (on_db ledger) (andthen (get_order None (Some a) (Some CREATED)) ?body)"
    unfolding stays_def
  proof
    fix w
    show "on_db ledger w (snd (andthen (get_order None (Some a) (Some CREATED)) ?body w))"
    proof (cases "deployer_ok (wdb w)")
      case False
      then show ?thesis by (simp add: on_db_def ledger_def)
    next
      case ok: True
      show ?thesis
      proof (cases "?find (wdb w)")
        case None
        then have "no_created a (wdb w)"
          by (auto simp: first_order_None order_selected_def no_created_def)
        with None show ?thesis by (simp add: get_order_def ledger_place_order)
      next
        case (Some r)
        from first_orderD [OF this] have r: "r \<in> set (order_table (wdb w))" "ord_account_id r = a"
          "ord_status r = CREATED" by (auto simp: order_selected_def)
        let ?w1 = "w\<lparr>wdb := set_status env (\<lambda>x. ord_id x = ord_id r) CANCELLED (wdb w)\<rparr>"
        note cancel = cancel_open_order [OF ok r(1,3), where env = env]
        have "on_db ledger w ?w1" using cancel(1) by (simp add: on_db_def)
        moreover have "on_db ledger ?w1 (snd (place_order env a (cor_amount req) ?w1))"
          using cancel(2) r(2) by (intro ledger_place_order) simp
        ultimately have "on_db ledger w (snd (place_order env a (cor_amount req) ?w1))"
          by (rule book_steps.trans)
        with Some show ?thesis
          by (simp add: get_order_def update_order_status_def update_orders_set_status book_steps.refl)
      qed
    qed
  qed
  then show ?thesis
    unfolding create_order_def
    by (rule book_steps.stays_andthen [OF books.stays_session book_steps.stays_ret])
qed

section \<open>save\_evm\_transaction\<close>

lemma ledger_when_ok: "(deployer_ok (wdb w) \<Longrightarrow> on_db ledger w w') \<Longrightarrow> on_db ledger w w'"
  by (auto simp: on_db_def ledger_def)

lemma upsert_keeps_orders:
  "order_table (wdb (snd (upsert_transaction env n w))) = order_table (wdb w)"
  "account_balance_table (wdb (snd (upsert_transaction env n w))) = account_balance_table (wdb w)"
  by (auto simp: upsert_transaction_def split: option.split)

text \<open>A status change of the one row with an id.\<close>

lemma ledger_order_status:
  assumes "deployer_ok db \<Longrightarrow> \<forall>r \<in> set (order_table db). ord_id r = i \<longrightarrow> order_step (ord_status r) st"
    and "st \<noteq> SUCCESS" and "st \<noteq> CREATED"
  shows "ledger db (set_status env (\<lambda>r. ord_id r = i) st db)"
  using assms by (intro ledger_set_status) auto

lemma ledger_save_evm_transaction [stays_intros]: "stays (on_db ledger) (save_evm_transaction env req)"
proof -
  let ?i = "ser_order_id req"
  let ?n = "\<lparr>nt_hash = ser_transaction_hash req, nt_order_id = ?i, nt_status = TX_PENDING,
    nt_sender = ser_sender req, nt_recipient = ser_recipient req\<rparr>"
  have pay: "on_db ledger w (snd (andthen (upsert_transaction env ?n)
      (\<lambda>_. update_order_status env ?i PROCESSING) w))"
    if "\<forall>r \<in> set (order_table (wdb w)). ord_id r = ?i \<longrightarrow> order_step (ord_status r) PROCESSING" for w
  proof (rule book_steps.leads_andthen)
    show "on_db ledger w (snd (upsert_transaction env ?n w))"
      by (rule book_steps.staysD_at [OF ledger_upsert_transaction])
  next
    fix a w1 assume "upsert_transaction env ?n w = (Inr a, w1)"
    then have "order_table (wdb w1) = order_table (wdb w)"
      using upsert_keeps_orders [of env ?n w] by simp
    with that show "on_db ledger w1 (snd (update_order_status env ?i PROCESSING w1))"
      by (simp add: update_order_status_def update_orders_set_status on_db_def ledger_order_status)
  qed
  let ?body = "\<lambda>order. case order of
          None \<Rightarrow> raise AttributeError
        | Some ord \<Rightarrow>
            if ord_status ord \<notin> {CREATED, FAILED} then
              raise (UnacceptableOrderStatusException (order_status_value (ord_status ord)))
            else andthen (upsert_transaction env ?n) (\<lambda>_. update_order_status env ?i PROCESSING)"
  have "stays (on_db ledger) (andthen (get_order (Some ?i) None None) ?body)"
    unfolding stays_def
  proof (rule allI, rule ledger_when_ok)
    fix w :: world assume ok: "deployer_ok (wdb w)"
    then have tables: "tables_ok (wdb w)" by (simp add: deployer_ok_def)
    show "on_db ledger w (snd (andthen (get_order (Some ?i) None None) ?body w))"
    proof (cases "sql_first (\<lambda>r. ord_id r = ?i) (order_table (wdb w))")
      case None
      then show ?thesis by (simp add: get_order_def get_order_by_id [OF tables] book_steps.refl)
    next
      case (Some r)
      then have r: "r \<in> set (order_table (wdb w))" "ord_id r = ?i" by (auto dest: sql_first_SomeD)
      show ?thesis
      proof (cases "ord_status r \<in> {CREATED, FAILED}")
        case True
        then have "order_step (ord_status r) PROCESSING" by auto
        from rows_with_id [OF tables r(1), of "\<lambda>x. order_step (ord_status x) PROCESSING", OF this]
        have "\<forall>x \<in> set (order_table (wdb w)). ord_id x = ?i \<longrightarrow> order_step (ord_status x) PROCESSING"
          unfolding r(2) .
        from pay [OF this] Some True show ?thesis
          by (simp add: get_order_def get_order_by_id [OF tables])
      next
        case False
        with Some show ?thesis by (simp add: get_order_def get_order_by_id [OF tables] book_steps.refl)
      qed
    qed
  qed
  then show ?thesis
    unfolding save_evm_transaction_def
    by (rule book_steps.stays_andthen [OF books.stays_session book_steps.stays_ret])
qed

section \<open>Settlement\<close>

lemma balance_credit:
  assumes "distinct (map ab_account_id t)" and "a \<in> ab_account_id ` set t"
  shows "sum_list (map ab_balance_in_cogs (filter (\<lambda>b. ab_account_id b = c)
      (sql_update (\<lambda>b. ab_account_id b = a)
        (touch_account_balance env (\<lambda>b. b\<lparr>ab_balance_in_cogs := ab_balance_in_cogs b + n\<rparr>)) t))) =
    sum_list (map ab_balance_in_cogs (filter (\<lambda>b. ab_account_id b = c) t)) + (if c = a then n else 0)"
  using assms
proof (induction t)
  case Nil
  then show ?case by simp
next
  case (Cons b t)
  show ?case
  proof (cases "ab_account_id b = a")
    case True
    with Cons.prems have "\<forall>x \<in> set t. ab_account_id x \<noteq> a" by (auto simp: image_iff)
    then have "sql_update (\<lambda>b. ab_account_id b = a) f t = t" for f
      by (simp add: sql_update_def map_idI)
    with True show ?thesis by simp
  next
    case False
    with Cons show ?thesis by auto
  qed
qed

lemma credited_pay:
  assumes "distinct (map ord_id t)" and "r \<in> set t" and "ord_status r \<noteq> SUCCESS"
  shows "sum_list (map ord_amount (filter (\<lambda>x. ord_account_id x = c \<and> ord_status x = SUCCESS)
      (sql_update (\<lambda>x. ord_id x = ord_id r) (touch_order env (\<lambda>x. x\<lparr>ord_status := SUCCESS\<rparr>)) t))) =
    sum_list (map ord_amount (filter (\<lambda>x. ord_account_id x = c \<and> ord_status x = SUCCESS) t)) +
      (if c = ord_account_id r then ord_amount r else 0)"
  using assms
proof (induction t)
  case Nil
  then show ?case by simp
next
  case (Cons x t)
  show ?case
  proof (cases "x = r")
    case True
    with Cons.prems have "\<forall>y \<in> set t. ord_id y \<noteq> ord_id r" by (auto simp: image_iff)
    then have "sql_update (\<lambda>y. ord_id y = ord_id r) f t = t" for f
      by (simp add: sql_update_def map_idI)
    with True Cons.prems show ?thesis by simp
  next
    case False
    with Cons.prems have "r \<in> set t" "ord_id x \<noteq> ord_id r" by (auto simp: image_iff)
    with Cons show ?thesis by auto
  qed
qed

definition credit :: "denv \<Rightarrow> string \<Rightarrow> int \<Rightarrow> deployer_db \<Rightarrow> deployer_db" where
  "credit env a n db = db\<lparr>account_balance_table :=
     sql_update (\<lambda>b. ab_account_id b = a)
       (touch_account_balance env (\<lambda>b. b\<lparr>ab_balance_in_cogs := ab_balance_in_cogs b + n\<rparr>))
       (account_balance_table db)\<rparr>"

lemma increase_is_credit: "increase_account_balance env a n = execute (credit env a n)"
  by (simp add: increase_account_balance_def credit_def [abs_def])

lemma decrease_is_credit: "decrease_account_balance env a n = execute (credit env a (- n))"
  by (simp add: decrease_account_balance_def credit_def [abs_def])

lemma credit_keys: "same_keys db (credit env a n db)"
  by (simp add: same_keys_def credit_def key_defs map_sql_update)

lemma credit_orders [simp]: "order_table (credit env a n db) = order_table db"
  by (simp add: credit_def)

lemma balance_of_credit:
  "tables_ok db \<Longrightarrow> a \<in> ab_account_id ` set (account_balance_table db) \<Longrightarrow>
   balance c (credit env a n db) = balance c db + (if c = a then n else 0)"
  unfolding balance_def credit_def by (simp add: balance_credit tables_ok_accounts)

text \<open>Paying an order and crediting its account together keep the books.\<close>

lemma ledger_pay_order:
  fixes env :: denv
  assumes r: "r \<in> set (order_table db)" "ord_status r = PROCESSING"
  shows "ledger db (credit env (ord_account_id r) (ord_amount r)
           (set_status env (\<lambda>x. ord_id x = ord_id r) SUCCESS db))" (is "ledger db ?db2")
proof (rule ledgerI)
  let ?db1 = "set_status env (\<lambda>x. ord_id x = ord_id r) SUCCESS db"
  assume ok: "deployer_ok db"
  then have tables: "tables_ok db" by (simp add: deployer_ok_def)
  then have tables1: "tables_ok ?db1" using same_keys_tables_ok [OF set_status_keys] by simp
  then show "tables_ok ?db2" using same_keys_tables_ok [OF credit_keys] by simp
  show "one_created ?db2"
    unfolding one_created_def
  proof (intro ballI impI, elim conjE)
    fix x y assume xy: "x \<in> set (order_table ?db2)" "y \<in> set (order_table ?db2)"
      "ord_status x = CREATED" "ord_status y = CREATED" "ord_account_id x = ord_account_id y"
    from xy(1,3) obtain x' where x': "x' \<in> set (order_table db)" "ord_id x = ord_id x'"
      "ord_account_id x = ord_account_id x'" "ord_status x' = CREATED"
      by (auto dest!: set_status_rows split: if_splits)
    from xy(2,4) obtain y' where y': "y' \<in> set (order_table db)" "ord_id y = ord_id y'"
      "ord_account_id y = ord_account_id y'" "ord_status y' = CREATED"
      by (auto dest!: set_status_rows split: if_splits)
    from ok x' y' xy(5) show "ord_id x = ord_id y"
      using one_createdD [of db x' y'] by (simp add: deployer_ok_def)
  qed
  show "orders_follow db ?db2"
    unfolding orders_follow_def
  proof
    fix x assume x: "x \<in> set (order_table db)"
    let ?x' = "if ord_id x = ord_id r then touch_order env (\<lambda>x. x\<lparr>ord_status := SUCCESS\<rparr>) x else x"
    have "?x' \<in> set (order_table ?db2)"
      using x by (auto simp: set_status_def set_sql_update)
    moreover have "follows x ?x'"
      using order_by_id [OF tables r(1) x] r(2) by (auto simp: follows_def)
    ultimately show "\<exists>r' \<in> set (order_table ?db2). follows x r'" by blast
  qed
next
  fix c assume ok: "deployer_ok db"
  let ?db1 = "set_status env (\<lambda>x. ord_id x = ord_id r) SUCCESS db"
  from ok have tables: "tables_ok db" by (simp add: deployer_ok_def)
  then have tables1: "tables_ok ?db1" using same_keys_tables_ok [OF set_status_keys] by simp
  have "credited c ?db2 = credited c db + (if c = ord_account_id r then ord_amount r else 0)"
    unfolding credited_def credit_orders set_status_def
    using credited_pay [OF tables_ok_orders [OF tables] r(1)] r(2) by simp
  moreover have "balance c ?db2 = balance c db + (if c = ord_account_id r then ord_amount r else 0)"
    using balance_of_credit [OF tables1] tables_ok_order_account [OF tables r(1)] by (simp add: balance_def)
  ultimately show "net c ?db2 = net c db" by (simp add: net_def)
qed

lemma ledger_settle_transaction: "stays (on_db ledger) (settle_transaction env n amount)"
  unfolding settle_transaction_def
proof (rule book_steps.stays_andthen [OF ledger_upsert_transaction], unfold stays_def, rule allI, rule ledger_when_ok)
  fix u :: unit and w :: world
  let ?i = "nt_order_id n"
  let ?body = "\<lambda>order. case order of
       None \<Rightarrow> raise AttributeError
     | Some ord \<Rightarrow>
         if ord_amount ord \<noteq> amount then ret ()
         else if ord_status ord \<noteq> PROCESSING then ret ()
         else andthen (update_order_status env (ord_id ord) SUCCESS) (\<lambda>_.
              increase_account_balance env (ord_account_id ord) (ord_amount ord))"
  assume "deployer_ok (wdb w)"
  then have tables: "tables_ok (wdb w)" by (simp add: deployer_ok_def)
  show "on_db ledger w (snd (andthen (get_order (Some ?i) None None) ?body w))"
  proof (cases "sql_first (\<lambda>r. ord_id r = ?i) (order_table (wdb w))")
    case None
    then show ?thesis by (simp add: get_order_def get_order_by_id [OF tables] book_steps.refl)
  next
    case (Some r)
    then have r: "r \<in> set (order_table (wdb w))" by (auto dest: sql_first_SomeD)
    show ?thesis
    proof (cases "ord_amount r = amount \<and> ord_status r = PROCESSING")
      case True
      with Some ledger_pay_order [OF r, of env] show ?thesis
        by (simp add: get_order_def get_order_by_id [OF tables] update_order_status_def
            update_orders_set_status increase_is_credit on_db_def)
    next
      case False
      with Some show ?thesis
        by (auto simp: get_order_def get_order_by_id [OF tables] book_steps.refl)
    qed
  qed
qed

lemma ledger_process_transaction: "stays (on_db ledger) (process_transaction env t)"
  unfolding process_transaction_def get_transaction_def
  by (cases t) (auto intro!: book_steps.stays_andthen books.stays_query book_steps.stays_ret
      ledger_settle_transaction split: option.split)

lemma quiet_blockchain: "stays (unchanged wdb) (get_transactions_from_blockchain env m)"
  unfolding get_transactions_from_blockchain_def get_token_contract_def
    get_order_id_from_transaction_def Let_def
  by (intro quiet_rules)

lemma ledger_process_recipient: "stays (on_db ledger) (process_recipient env m)"
  unfolding process_recipient_def
  by (rule book_steps.stays_andthen [OF books.stays_quiet [OF quiet_blockchain]])
    (auto intro!: book_steps.stays_andthen book_steps.stays_for_each ledger_process_transaction
      ledger_metadata)

lemma ledger_update_transaction_status [stays_intros]: "stays (on_db ledger) (update_transaction_status env)"
  unfolding update_transaction_status_def get_transactions_metadata_def
  by (intro books.stays_session book_steps.stays_andthen books.stays_query book_steps.stays_for_each
      ledger_process_recipient ledger_fail_old_transactions ledger_fail_old_orders ledger_expire_old_orders)

end
