(* ===== verification/Deployer_Runs.thy ===== *)
theory Deployer_Runs
  imports Deployer_Ledger
begin

text \<open>
  Runs of the deployer: any sequence of its operations, each with its own environment, and what
  they keep: the integrity of the tables, the books of every account, and the life of every order.
\<close>

section \<open>The other operations keep the books\<close>

lemma ledger_update_token_rate [stays_intros]: "stays (on_db ledger) (update_token_rate env)"
  unfolding update_token_rate_def Let_def
  by (rule book_steps.stays_andthen [OF books.stays_quiet [OF quiet_clients(13)]],
      rule book_steps.stays_andthen [OF book_steps.stays_of_sum],
      rule books.stays_session, rule book_steps.stays_andthen; rule ledger_token_rates)

lemma ledger_place_daemon [stays_intros]: "stays (on_db ledger) (place_daemon env req a d i)"
  unfolding place_daemon_def Let_def
  by (auto split: option.split intro!: ledger_create_daemon book_steps.stays_andthen
      ledger_daemon_updates book_steps.stays_ret)

lemma quiet_attribute_of [stays_intros]: "stays (unchanged wdb) (attribute_of v)"
  by (simp add: attribute_of_def same.stays_raise same.stays_ret split: option.split)

lemma ledger_initiate_deployment [stays_intros]: "stays (on_db ledger) (initiate_deployment env req a)"
  unfolding initiate_deployment_def search_daemon_def first_daemon_def
  by (intro books.stays_session book_steps.stays_andthen books.stays_query
      ledger_ensure_account ledger_place_daemon book_steps.stays_if ledger_create_hosted_service
      books.stays_quiet [OF quiet_attribute_of] books.stays_quiet [OF quiet_uuid] book_steps.stays_ret)
    (auto split: option.split intro!: book_steps.stays_if book_steps.stays_raise book_steps.stays_ret
      books.stays_quiet [OF quiet_uuid])

lemma quiet_get_daemon [stays_intros]: "stays (unchanged wdb) (get_daemon i)"
  "stays (unchanged wdb) (search_daemon a b)" "stays (unchanged wdb) (get_daemon_by_hosted_service i)"
  unfolding get_daemon_def search_daemon_def get_daemon_by_hosted_service_def first_daemon_def
  by (rule quiet_query)+

lemma quiet_search_hosted_service [stays_intros]: "stays (unchanged wdb) (search_hosted_service a b)"
  unfolding search_hosted_service_def first_hosted_service_def by (rule quiet_query)

lemmas book_rules = book_steps.stays_andthen book_steps.stays_ret book_steps.stays_raise
  book_steps.stays_of_sum book_steps.stays_if books.stays_session

lemma ledger_start_daemon [stays_intros]: "stays (on_db ledger) (start_daemon env d)"
  unfolding start_daemon_def
  by (intro book_rules books.stays_quiet [OF quiet_clients(1)] ledger_daemon_updates)

lemma ledger_deploy_daemon [stays_intros]: "stays (on_db ledger) (deploy_daemon env req)"
  unfolding deploy_daemon_def
  by (rule book_steps.stays_andthen [OF books.stays_quiet [OF quiet_session [OF quiet_get_daemon(1)]]])
    (auto split: option.split intro!: book_rules ledger_start_daemon)

lemma ledger_redeploy_daemon [stays_intros]: "stays (on_db ledger) (redeploy_daemon_forcibly env req)"
  unfolding redeploy_daemon_forcibly_def
  by (rule book_steps.stays_andthen [OF books.stays_quiet [OF quiet_session [OF quiet_get_daemon(1)]]])
    (auto split: option.split intro!: book_rules ledger_start_daemon)

lemma ledger_service_update_daemon_status [stays_intros]:
  "stays (on_db ledger) (service_update_daemon_status env req)"
  unfolding service_update_daemon_status_def
  by (rule books.stays_session, rule book_steps.stays_andthen [OF books.stays_quiet [OF quiet_get_daemon(2)]])
    (auto split: option.split intro!: book_rules ledger_daemon_updates)

lemma ledger_update_config [stays_intros]: "stays (on_db ledger) (update_config env req)"
  unfolding update_config_def update_found_config_def Let_def
  by (intro book_rules books.stays_quiet [OF quiet_get_daemon(1)] books.stays_quiet [OF quiet_attribute_of]
      ledger_daemon_updates books.stays_quiet [OF quiet_clients(11)])

lemma quiet_redeploy_all [stays_intros]: "stays (unchanged wdb) (redeploy_all_daemons env)"
  unfolding redeploy_all_daemons_def get_all_daemon_ids_def
  by (intro quiet_rules quiet_clients)

lemma ledger_service_update_hosted_service_status [stays_intros]:
  "stays (on_db ledger) (service_update_hosted_service_status env req)"
  unfolding service_update_hosted_service_status_def
  by (rule books.stays_session,
      rule book_steps.stays_andthen [OF books.stays_quiet [OF quiet_search_hosted_service]])
    (auto split: option.split intro!: book_rules ledger_update_hosted_service_status)

lemma quiet_redeploy_hosted_service [stays_intros]:
  "stays (unchanged wdb) (redeploy_hosted_service_forcibly env req)"
  unfolding redeploy_hosted_service_forcibly_def
  by (intro same.stays_andthen quiet_session quiet_get_daemon)
    (auto split: option.split prod.split intro!: quiet_rules quiet_clients)

lemma quiet_delete_deployments [stays_intros]: "stays (unchanged wdb) (delete_deployments env d)"
  unfolding delete_deployments_def
  by (auto split: option.split intro!: quiet_rules quiet_clients)

lemma quiet_get_service_class [stays_intros]: "stays (unchanged wdb) (get_service_class env u)"
  unfolding get_service_class_def by (intro quiet_rules)

lemma ledger_configure_daemon [stays_intros]: "stays (on_db ledger) (configure_daemon env d uri)"
  unfolding configure_daemon_def
  by (intro book_rules books.stays_quiet [OF quiet_attribute_of] books.stays_quiet [OF quiet_external])
    (auto split: option.split prod.split intro!: book_rules ledger_daemon_updates
      books.stays_quiet [OF quiet_get_service_class] books.stays_quiet [OF quiet_clients(7)]
      books.stays_quiet [OF quiet_clients(10)] books.stays_quiet [OF quiet_clients(11)])

lemma ledger_process_registry_event [stays_intros]: "stays (on_db ledger) (process_registry_event env req)"
  unfolding process_registry_event_def
  by (intro book_rules)
    (auto split: option.split intro!: book_rules ledger_configure_daemon
      books.stays_quiet [OF quiet_delete_deployments] books.stays_quiet [OF quiet_get_daemon(2)])

section \<open>Charges\<close>

text \<open>What a call event takes from an account: the amount, from the account of the daemon of a
  service that is hosted.\<close>

definition charged_daemon :: "string \<Rightarrow> string \<Rightarrow> deployer_db \<Rightarrow> daemon_row option" where
  "charged_daemon org_id service_id db =
     (case sql_first (\<lambda>d. d_org_id d = org_id \<and> d_service_id d = service_id) (daemon_table db) of
        None \<Rightarrow> None
      | Some d \<Rightarrow> if hosted_service_of db d = None then None else Some d)"

definition charge :: "call_event_consumer_request \<Rightarrow> string \<Rightarrow> deployer_db \<Rightarrow> int" where
  "charge request a db =
     (case charged_daemon (cer_org_id request) (cer_service_id request) db of
        None \<Rightarrow> 0
      | Some d \<Rightarrow> if d_account_id d = a then cer_amount request else 0)"

lemma process_call_event_result:
  "process_call_event env req w =
     (case charged_daemon (cer_org_id req) (cer_service_id req) (wdb w) of
        None \<Rightarrow> (Inl (HostedServiceNotFoundException [] (cer_org_id req) (cer_service_id req)), w)
      | Some d \<Rightarrow> (Inr (), w\<lparr>wdb := credit env (d_account_id d) (- cer_amount req) (wdb w)\<rparr>))"
  by (simp add: process_call_event_def search_daemon_def first_daemon_def charged_daemon_def
      session_scope_def decrease_is_credit split: option.split)

lemma tables_ok_daemon_account:
  "tables_ok db \<Longrightarrow> d \<in> set (daemon_table db) \<Longrightarrow> d_account_id d \<in> ab_account_id ` set (account_balance_table db)"
  by (auto simp: tables_ok_def daemon_keys_def account_keys_def)

lemma charged_daemonD: "charged_daemon og sv db = Some d \<Longrightarrow> d \<in> set (daemon_table db)"
  by (auto simp: charged_daemon_def dest: sql_first_SomeD split: option.splits if_splits)

lemma credit_one_created: "one_created (credit env a n db) = one_created db"
  unfolding one_created_def credit_orders ..

lemma process_call_event_books:
  fixes env :: denv and req :: call_event_consumer_request
  assumes ok: "deployer_ok (wdb w)"
  defines "w' \<equiv> snd (process_call_event env req w)"
  shows "deployer_ok (wdb w')" and "net a (wdb w') = net a (wdb w) - charge req a (wdb w)"
    and "orders_follow (wdb w) (wdb w')"
proof -
  from ok have tables: "tables_ok (wdb w)" by (simp add: deployer_ok_def)
  show "deployer_ok (wdb w')"
    using ok same_keys_tables_ok [OF credit_keys]
    unfolding w'_def process_call_event_result deployer_ok_def
    by (simp add: credit_one_created split: option.split)
  show "orders_follow (wdb w) (wdb w')"
    unfolding w'_def process_call_event_result by (simp add: orders_follow_same split: option.split)
  show "net a (wdb w') = net a (wdb w) - charge req a (wdb w)"
  proof (cases "charged_daemon (cer_org_id req) (cer_service_id req) (wdb w)")
    case None
    then show ?thesis by (simp add: w'_def process_call_event_result charge_def)
  next
    case (Some d)
    from tables_ok_daemon_account [OF tables charged_daemonD [OF Some]]
    have "balance a (credit env (d_account_id d) (- cer_amount req) (wdb w)) =
        balance a (wdb w) + (if a = d_account_id d then - cer_amount req else 0)"
      by (rule balance_of_credit [OF tables])
    with Some show ?thesis
      by (auto simp: w'_def process_call_event_result charge_def net_def credited_def)
  qed
qed

section \<open>Runs\<close>

datatype deployer_op =
    CreateOrder create_order_request string
  | SaveEVMTransaction save_evm_transaction_request
  | UpdateTransactionStatus
  | ProcessCallEvent call_event_consumer_request
  | UpdateTokenRate
  | InitiateDeployment initiate_deployment_request string
  | ProcessRegistryEvent registry_event_consumer_request
  | DeployDaemon daemon_request
  | RedeployDaemonForcibly daemon_request
  | RedeployAllDaemons
  | UpdateConfig update_config_request
  | UpdateDaemonStatus update_daemon_status_request
  | UpdateHostedServiceStatus update_hosted_service_status_request
  | RedeployHostedServiceForcibly hosted_service_request

definition ignore :: "'a dprog \<Rightarrow> unit dprog" where
  "ignore m = andthen m (\<lambda>_. ret ())"

fun perform :: "denv \<Rightarrow> deployer_op \<Rightarrow> unit dprog" where
  "perform env (CreateOrder r a) = ignore (create_order env r a)"
| "perform env (SaveEVMTransaction r) = ignore (save_evm_transaction env r)"
| "perform env UpdateTransactionStatus = update_transaction_status env"
| "perform env (ProcessCallEvent r) = process_call_event env r"
| "perform env UpdateTokenRate = update_token_rate env"
| "perform env (InitiateDeployment r a) = ignore (initiate_deployment env r a)"
| "perform env (ProcessRegistryEvent r) = process_registry_event env r"
| "perform env (DeployDaemon r) = ignore (deploy_daemon env r)"
| "perform env (RedeployDaemonForcibly r) = redeploy_daemon_forcibly env r"
| "perform env RedeployAllDaemons = ignore (redeploy_all_daemons env)"
| "perform env (UpdateConfig r) = ignore (update_config env r)"
| "perform env (UpdateDaemonStatus r) = service_update_daemon_status env r"
| "perform env (UpdateHostedServiceStatus r) = service_update_hosted_service_status env r"
| "perform env (RedeployHostedServiceForcibly r) = redeploy_hosted_service_forcibly env r"

fun op_charge :: "deployer_op \<Rightarrow> string \<Rightarrow> deployer_db \<Rightarrow> int" where
  "op_charge (ProcessCallEvent r) a db = charge r a db"
| "op_charge _ a db = 0"

fun run_ops :: "(denv \<times> deployer_op) list \<Rightarrow> world \<Rightarrow> world" where
  "run_ops [] w = w"
| "run_ops ((env, x) # ops) w = run_ops ops (snd (perform env x w))"

fun charges :: "(denv \<times> deployer_op) list \<Rightarrow> string \<Rightarrow> world \<Rightarrow> int" where
  "charges [] a w = 0"
| "charges ((env, x) # ops) a w = op_charge x a (wdb w) + charges ops a (snd (perform env x w))"

lemma ledger_ignore: "stays (on_db ledger) m \<Longrightarrow> stays (on_db ledger) (ignore m)"
  unfolding ignore_def by (intro book_rules)

lemma perform_ledger:
  "(\<nexists>r. x = ProcessCallEvent r) \<Longrightarrow> stays (on_db ledger) (perform env x)"
  by (cases x) (auto intro!: ledger_ignore ledger_create_order ledger_save_evm_transaction
      ledger_update_transaction_status ledger_update_token_rate ledger_initiate_deployment
      ledger_process_registry_event ledger_deploy_daemon ledger_redeploy_daemon ledger_update_config
      ledger_service_update_daemon_status ledger_service_update_hosted_service_status
      books.stays_quiet [OF quiet_redeploy_all] books.stays_quiet [OF quiet_redeploy_hosted_service])

lemma perform_books:
  assumes "deployer_ok (wdb w)"
  shows "deployer_ok (wdb (snd (perform env x w)))"
    and "net a (wdb (snd (perform env x w))) = net a (wdb w) - op_charge x a (wdb w)"
    and "orders_follow (wdb w) (wdb (snd (perform env x w)))"
proof -
  have "deployer_ok (wdb (snd (perform env x w))) \<and>
    net a (wdb (snd (perform env x w))) = net a (wdb w) - op_charge x a (wdb w) \<and>
    orders_follow (wdb w) (wdb (snd (perform env x w)))"
  proof (cases "\<exists>r. x = ProcessCallEvent r")
    case True
    then show ?thesis using process_call_event_books [OF assms] by auto
  next
    case False
    then have "op_charge x a (wdb w) = 0" by (cases x) auto
    moreover have "ledger (wdb w) (wdb (snd (perform env x w)))"
      using perform_ledger [of x env] False book_steps.staysD_at unfolding on_db_def by blast
    ultimately show ?thesis using assms by (simp add: ledger_def)
  qed
  then show "deployer_ok (wdb (snd (perform env x w)))"
    and "net a (wdb (snd (perform env x w))) = net a (wdb w) - op_charge x a (wdb w)"
    and "orders_follow (wdb w) (wdb (snd (perform env x w)))"
    by blast+
qed

lemma run_books:
  "deployer_ok (wdb w) \<Longrightarrow>
   deployer_ok (wdb (run_ops ops w)) \<and>
   net a (wdb (run_ops ops w)) = net a (wdb w) - charges ops a w \<and>
   orders_follow (wdb w) (wdb (run_ops ops w))"
proof (induction ops arbitrary: w)
  case Nil
  then show ?case by simp
next
  case (Cons eo ops)
  obtain env x where eo: "eo = (env, x)" by fastforce
  let ?w1 = "snd (perform env x w)"
  from Cons.IH [OF perform_books(1) [OF Cons.prems, of env x]]
    perform_books(2) [OF Cons.prems, of a env x] perform_books(3) [OF Cons.prems, of env x] show ?case
    unfolding eo by (auto intro: orders_follow_trans)
qed

section \<open>A run\<close>

definition demo_call :: call_event_consumer_request where
  "demo_call = \<lparr>cer_org_id = ''org'', cer_service_id = ''svc'', cer_duration = 1, cer_amount = 2, cer_timestamp = 1\<rparr>"

definition demo_ops :: "(denv \<times> deployer_op) list" where
  "demo_ops = [(demo_env, UpdateTransactionStatus), (demo_env, ProcessCallEvent demo_call)]"

lemma demo_ok: "deployer_ok (wdb (demo_world st))"
  by (simp add: deployer_ok_def tables_ok_def one_created_def key_defs demo_defs)

lemma demo_run:
  "balance ''a1'' (wdb (run_ops demo_ops (demo_world PROCESSING))) = 6"
  by code_simp

section \<open>Properties of runs\<close>

text \<open>
  C1. The ledger is conserved: after any sequence of deployer operations, whatever other systems
  answer, the balance of every account is its balance before, plus the orders of the account that
  became paid, minus the call events charged to it.
\<close>

theorem ledger_conserved:
  assumes "deployer_ok (wdb w)"
  shows "balance a (wdb (run_ops ops w)) =
    balance a (wdb w) + (credited a (wdb (run_ops ops w)) - credited a (wdb w)) - charges ops a w"
  using run_books [OF assms, of ops a] by (simp add: net_def)

lemma ledger_conserved_witness:
  "balance ''a1'' (wdb (run_ops demo_ops (demo_world PROCESSING))) =
     balance ''a1'' (demo_db PROCESSING) +
     (credited ''a1'' (wdb (run_ops demo_ops (demo_world PROCESSING))) - credited ''a1'' (demo_db PROCESSING))
     - charges demo_ops ''a1'' (demo_world PROCESSING)"
  using ledger_conserved [OF demo_ok, of "''a1''" demo_ops PROCESSING] by (simp add: demo_world_def)

text \<open>
  C7. The tables keep their integrity under any sequence of operations: unique keys, references
  that point to rows, and at most one open (CREATED) order per account.
\<close>

theorem tables_stay_ok: "deployer_ok (wdb w) \<Longrightarrow> deployer_ok (wdb (run_ops ops w))"
  using run_books by blast

lemma tables_stay_ok_witness: "deployer_ok (wdb (run_ops demo_ops (demo_world CREATED)))"
  using tables_stay_ok [OF demo_ok] .

text \<open>
  C8. An order only moves along its life: through any sequence of operations it keeps its id,
  account and amount, its status follows the transitions of \<open>order_step\<close>, and once it is paid it
  stays paid, so that it is credited at most once.
\<close>

theorem order_life:
  assumes "deployer_ok (wdb w)" and "r \<in> set (order_table (wdb w))"
  shows "\<exists>r' \<in> set (order_table (wdb (run_ops ops w))).
    ord_id r' = ord_id r \<and> ord_account_id r' = ord_account_id r \<and> ord_amount r' = ord_amount r \<and>
    order_step\<^sup>*\<^sup>* (ord_status r) (ord_status r') \<and> (ord_status r = SUCCESS \<longrightarrow> ord_status r' = SUCCESS)"
proof -
  from run_books [OF assms(1), of ops] assms(2)
  obtain r' where "r' \<in> set (order_table (wdb (run_ops ops w)))" and "follows r r'"
    unfolding orders_follow_def by blast
  then show ?thesis by (intro bexI [of _ r']) (auto simp: follows_def dest: paid_is_final)
qed

lemma order_life_witness:
  "\<exists>r' \<in> set (order_table (wdb (run_ops demo_ops (demo_world SUCCESS)))).
     ord_id r' = ''o1'' \<and> ord_amount r' = 5 \<and> ord_status r' = SUCCESS"
  using order_life [OF demo_ok, of "demo_order SUCCESS" SUCCESS demo_ops]
  by (auto simp: demo_world_def demo_db_def demo_order_def)

end
