(* ===== verification/Deployer_Billing_Laws.thy ===== *)
theory Deployer_Billing_Laws
  imports Deployer_Runs
begin

text \<open>
  What each billing operation does: orders and their payments, the blockchain poll, charges and the
  balance history.
\<close>

section \<open>Creating orders\<close>

definition open_order :: "string \<Rightarrow> deployer_db \<Rightarrow> order_row option" where
  "open_order a db = first_or_none (order_desc ord_updated_at
     (filter (order_selected None (Some a) (Some CREATED)) (order_table db)))"

lemma open_orderD:
  "open_order a db = Some r \<Longrightarrow> r \<in> set (order_table db) \<and> ord_account_id r = a \<and> ord_status r = CREATED"
  unfolding open_order_def by (drule first_orderD) (auto simp: order_selected_def)

lemma open_order_None:
  "open_order a db = None \<Longrightarrow> r \<in> set (order_table db) \<Longrightarrow> ord_account_id r = a \<Longrightarrow> ord_status r \<noteq> CREATED"
  unfolding open_order_def by (auto simp: first_order_None order_selected_def)

lemma create_order_existing:
  "open_order a (wdb w) = Some r \<Longrightarrow> ord_amount r = cor_amount req \<Longrightarrow>
   create_order env req a w = (Inr [(''orderId'', PStr (ord_id r))], w)"
  by (simp add: create_order_def get_order_def open_order_def)

lemma place_order_InrD:
  assumes "place_order env a n w = (Inr i, w')"
  shows "\<exists>t u. order_table (wdb w') = order_table (wdb w) @
    [\<lparr>ord_id = i, ord_account_id = a, ord_status = CREATED, ord_amount = n, ord_created_at = t, ord_updated_at = u\<rparr>]"
proof -
  obtain w1 where w1: "ensure_account_balance env a w = (Inr (), w1)" "order_table (wdb w1) = order_table (wdb w)"
    by (auto simp: ensure_account_balance_result)
  with assms show ?thesis
    by (auto simp: place_order_def create_order_row_def andthen_apply split: if_splits)
qed

text \<open>A created order that is returned is in the table.\<close>

lemma create_order_InrD:
  assumes "create_order env req a w = (Inr resp, w')"
  shows "\<exists>r \<in> set (order_table (wdb w')). resp = [(''orderId'', PStr (ord_id r))] \<and>
    ord_account_id r = a \<and> ord_status r = CREATED \<and> ord_amount r = cor_amount req"
proof (cases "\<exists>r. open_order a (wdb w) = Some r \<and> ord_amount r = cor_amount req")
  case True
  then obtain r where r: "open_order a (wdb w) = Some r" "ord_amount r = cor_amount req" by blast
  with assms open_orderD [OF r(1)] show ?thesis by (auto simp: create_order_existing)
next
  case False
  from assms False obtain i w0 where placed: "place_order env a (cor_amount req) w0 = (Inr i, w')"
    and resp: "resp = [(''orderId'', PStr i)]"
    by (auto simp: create_order_def get_order_def update_order_status_def update_orders_set_status
        simp flip: open_order_def split: option.splits elim!: andthen_InrE dest!: session_scope_InrD)
  from place_order_InrD [OF placed] resp show ?thesis by auto
qed

lemma perform_create_ok:
  assumes "deployer_ok (wdb w)" and "create_order env req a w = (r, w')"
  shows "deployer_ok (wdb w')"
  using book_steps.staysD_at [OF ledger_create_order, of w env req a] assms
  by (simp add: on_db_def ledger_def)



section \<open>Submitting a transaction\<close>

lemma order_row_of_id:
  assumes "tables_ok db" and "r \<in> set (order_table db)"
  shows "sql_first (\<lambda>x. ord_id x = ord_id r) (order_table db) = Some r"
  using assms by (intro sql_first_key tables_ok_orders)

lemma get_order_of_row:
  assumes "tables_ok (wdb w)" and "r \<in> set (order_table (wdb w))"
  shows "get_order (Some (ord_id r)) None None w = (Inr (Some (order_from_db_model (wdb w) r)), w)"
  using assms by (simp add: get_order_def get_order_by_id order_row_of_id)

lemma upsert_transaction_runs:
  assumes "nt_order_id n \<in> ord_id ` set (order_table (wdb w))"
  shows "\<exists>w'. upsert_transaction env n w = (Inr (), w') \<and>
    order_table (wdb w') = order_table (wdb w) \<and>
    account_balance_table (wdb w') = account_balance_table (wdb w) \<and>
    (\<exists>t \<in> set (evm_transaction_table (wdb w')). tx_hash t = nt_hash n \<and> tx_status t = nt_status n)"
proof (cases "sql_first (\<lambda>t. tx_hash t = nt_hash n) (evm_transaction_table (wdb w))")
  case None
  then have "nt_hash n \<notin> tx_hash ` set (evm_transaction_table (wdb w))" by (auto simp: sql_first_None)
  with None assms show ?thesis by (simp add: upsert_transaction_def)
next
  case (Some t)
  then have "t \<in> set (evm_transaction_table (wdb w))" "tx_hash t = nt_hash n" by (auto dest: sql_first_SomeD)
  from sql_update_mem [where p = "\<lambda>t. tx_hash t = nt_hash n", OF this,
      of "touch_evm_transaction env (\<lambda>t. t\<lparr>tx_status := nt_status n\<rparr>)"] Some \<open>tx_hash t = nt_hash n\<close>
  show ?thesis by (auto simp: upsert_transaction_def intro!: rev_bexI)
qed

text \<open>
  Submitting a transaction for an order: unless the order is CREATED or FAILED the request is
  refused with the status in the message and nothing changes; otherwise the order is PROCESSING,
  a PENDING transaction with the hash is on record, and no balance changes.
\<close>

theorem save_evm_transaction_effect:
  assumes ok: "tables_ok (wdb w)" and r: "r \<in> set (order_table (wdb w))" "ord_id r = ser_order_id req"
  shows "if ord_status r \<in> {CREATED, FAILED} then
      \<exists>w'. save_evm_transaction env req w = (Inr [], w') \<and>
        (\<exists>x \<in> set (order_table (wdb w')). ord_id x = ord_id r \<and> ord_status x = PROCESSING) \<and>
        (\<exists>t \<in> set (evm_transaction_table (wdb w')).
           tx_hash t = ser_transaction_hash req \<and> tx_status t = TX_PENDING) \<and>
        account_balance_table (wdb w') = account_balance_table (wdb w)
    else save_evm_transaction env req w =
      (Inl (UnacceptableOrderStatusException (order_status_value (ord_status r))), w)"
proof (cases "ord_status r \<in> {CREATED, FAILED}")
  case False
  then show ?thesis
    using get_order_of_row [OF ok r(1)] r(2) by (simp add: save_evm_transaction_def)
next
  case True
  let ?n = "\<lparr>nt_hash = ser_transaction_hash req, nt_order_id = ser_order_id req, nt_status = TX_PENDING,
    nt_sender = ser_sender req, nt_recipient = ser_recipient req\<rparr>"
  from r have "nt_order_id ?n \<in> ord_id ` set (order_table (wdb w))" by force
  from upsert_transaction_runs [OF this, of env] obtain w1 where
    up: "upsert_transaction env ?n w = (Inr (), w1)" and orders: "order_table (wdb w1) = order_table (wdb w)"
    and accounts: "account_balance_table (wdb w1) = account_balance_table (wdb w)"
    and t: "\<exists>t \<in> set (evm_transaction_table (wdb w1)).
      tx_hash t = ser_transaction_hash req \<and> tx_status t = TX_PENDING" by auto
  let ?w' = "w1\<lparr>wdb := set_status env (\<lambda>x. ord_id x = ser_order_id req) PROCESSING (wdb w1)\<rparr>"
  have run: "save_evm_transaction env req w = (Inr [], ?w')"
    using get_order_of_row [OF ok r(1)] r(2) True up
    by (simp add: save_evm_transaction_def update_order_status_def update_orders_set_status)
  have "touch_order env (\<lambda>x. x\<lparr>ord_status := PROCESSING\<rparr>) r \<in> set (order_table (wdb ?w'))"
    using r orders by (auto simp: set_status_def set_sql_update)
  then have "\<exists>x \<in> set (order_table (wdb ?w')). ord_id x = ord_id r \<and> ord_status x = PROCESSING"
    by (rule rev_bexI) simp
  with True run t accounts show ?thesis by auto
qed

lemma save_evm_transaction_effect_witness:
  "save_evm_transaction demo_env \<lparr>ser_sender = ''s'', ser_recipient = ''r'', ser_order_id = ''o1'',
       ser_transaction_hash = ''0xaa''\<rparr> (demo_world SUCCESS) =
     (Inl (UnacceptableOrderStatusException ''SUCCESS''), demo_world SUCCESS)"
  using save_evm_transaction_effect [of "demo_world SUCCESS" "demo_order SUCCESS"
      "\<lparr>ser_sender = ''s'', ser_recipient = ''r'', ser_order_id = ''o1'', ser_transaction_hash = ''0xaa''\<rparr>" demo_env]
    demo_ok [of SUCCESS]
  by (simp add: deployer_ok_def demo_world_def demo_db_def demo_order_def)

section \<open>Settling a transaction\<close>

definition pays :: "order_row \<Rightarrow> int \<Rightarrow> bool" where
  "pays r amount \<longleftrightarrow> ord_amount r = amount \<and> ord_status r = PROCESSING"

lemma settle_transaction_runs:
  assumes ok: "tables_ok (wdb w)" and r: "r \<in> set (order_table (wdb w))" "ord_id r = nt_order_id n"
  shows "\<exists>w'. settle_transaction env n amount w = (Inr (), w') \<and>
    (\<exists>t \<in> set (evm_transaction_table (wdb w')). tx_hash t = nt_hash n \<and> tx_status t = nt_status n) \<and>
    (\<forall>a. balance a (wdb w') = balance a (wdb w) + (if pays r amount \<and> a = ord_account_id r then amount else 0)) \<and>
    order_table (wdb w') =
      (if pays r amount then sql_update (\<lambda>x. ord_id x = ord_id r) (touch_order env (\<lambda>x. x\<lparr>ord_status := SUCCESS\<rparr>))
         (order_table (wdb w))
       else order_table (wdb w))"
proof -
  from r have "nt_order_id n \<in> ord_id ` set (order_table (wdb w))" by force
  from upsert_transaction_runs [OF this, of env] obtain w1 where
    up: "upsert_transaction env n w = (Inr (), w1)" and orders: "order_table (wdb w1) = order_table (wdb w)"
    and accounts: "account_balance_table (wdb w1) = account_balance_table (wdb w)"
    and t: "\<exists>t \<in> set (evm_transaction_table (wdb w1)). tx_hash t = nt_hash n \<and> tx_status t = nt_status n"
    by blast
  have find1: "first_or_none (order_desc ord_updated_at
      (filter (order_selected (Some (nt_order_id n)) None None) (order_table (wdb w1)))) = Some r"
    using get_order_by_id [OF ok] order_row_of_id [OF ok r(1)] r(2) orders by simp
  show ?thesis
  proof (cases "pays r amount")
    case False
    then have "settle_transaction env n amount w = (Inr (), w1)"
      using up find1 by (auto simp: settle_transaction_def get_order_def pays_def)
    with False t orders accounts show ?thesis by (auto simp: balance_def)
  next
    case True
    let ?db1 = "set_status env (\<lambda>x. ord_id x = ord_id r) SUCCESS (wdb w1)"
    let ?w' = "w1\<lparr>wdb := credit env (ord_account_id r) (ord_amount r) ?db1\<rparr>"
    have run: "settle_transaction env n amount w = (Inr (), ?w')"
      using True up find1 by (simp add: settle_transaction_def get_order_def pays_def
          update_order_status_def update_orders_set_status increase_is_credit)
    have "balance a (wdb ?w') = balance a (wdb w) + (if a = ord_account_id r then amount else 0)" for a
      using balance_credit [OF tables_ok_accounts [OF ok] tables_ok_order_account [OF ok r(1)]]
        accounts True by (simp add: balance_def credit_def pays_def)
    moreover have "evm_transaction_table (wdb ?w') = evm_transaction_table (wdb w1)"
      by (simp add: credit_def)
    moreover have "order_table (wdb ?w') =
        sql_update (\<lambda>x. ord_id x = ord_id r) (touch_order env (\<lambda>x. x\<lparr>ord_status := SUCCESS\<rparr>)) (order_table (wdb w))"
      using orders by (simp add: set_status_def)
    ultimately show ?thesis using True run t by auto
  qed
qed

text \<open>
  C15. Settling a transfer for an order: it is recorded; the order becomes paid and its account is
  credited with the amount of the order exactly when the order is PROCESSING and the amounts agree.
  In every other case no order and no balance changes.
\<close>

theorem settle_transaction_effect:
  assumes ok: "tables_ok (wdb w)" and r: "r \<in> set (order_table (wdb w))" "ord_id r = nt_order_id n"
  shows "\<exists>w'. settle_transaction env n amount w = (Inr (), w') \<and>
    (\<exists>t \<in> set (evm_transaction_table (wdb w')). tx_hash t = nt_hash n \<and> tx_status t = nt_status n) \<and>
    (\<forall>a. balance a (wdb w') = balance a (wdb w) + (if pays r amount \<and> a = ord_account_id r then amount else 0)) \<and>
    order_table (wdb w') =
      (if pays r amount then sql_update (\<lambda>x. ord_id x = ord_id r) (touch_order env (\<lambda>x. x\<lparr>ord_status := SUCCESS\<rparr>))
         (order_table (wdb w))
       else order_table (wdb w))"
  by (rule settle_transaction_runs [OF assms])

definition demo_transfer :: new_evm_transaction where
  "demo_transfer = \<lparr>nt_hash = ''0xaa'', nt_order_id = ''o1'', nt_status = TX_SUCCESS, nt_sender = ''s'', nt_recipient = ''r''\<rparr>"

lemma settle_transaction_effect_witness:
  "\<exists>w'. settle_transaction demo_env demo_transfer 5 (demo_world PROCESSING) = (Inr (), w') \<and>
     balance ''a1'' (wdb w') = balance ''a1'' (demo_db PROCESSING) + 5"
  using settle_transaction_effect [of "demo_world PROCESSING" "demo_order PROCESSING" demo_transfer demo_env 5]
    demo_ok [of PROCESSING]
  by (auto simp: deployer_ok_def demo_world_def demo_db_def demo_order_def demo_transfer_def pays_def)

lemma settle_keeps_ok:
  assumes "deployer_ok (wdb w)" and "settle_transaction env n amount w = (r, w')"
  shows "deployer_ok (wdb w')"
  using book_steps.staysD_at [OF ledger_settle_transaction, of w env n amount] assms
  by (simp add: on_db_def ledger_def)

text \<open>
  C5. A transfer that is seen again, by a later poll or in a range of blocks scanned twice, credits
  nothing: settling it a second time changes no balance and no order.
\<close>

theorem transfer_credited_once:
  assumes ok: "deployer_ok (wdb w)" and r: "r \<in> set (order_table (wdb w))" "ord_id r = nt_order_id n"
    and run: "settle_transaction env n amount w = (Inr (), w1)"
  shows "\<exists>w2. settle_transaction env' n amount w1 = (Inr (), w2) \<and>
    (\<forall>a. balance a (wdb w2) = balance a (wdb w1)) \<and> order_table (wdb w2) = order_table (wdb w1)"
proof -
  let ?paid = "touch_order env (\<lambda>x. x\<lparr>ord_status := SUCCESS\<rparr>)"
  from ok have tables: "tables_ok (wdb w)" by (simp add: deployer_ok_def)
  from settle_keeps_ok [OF ok run] have tables1: "tables_ok (wdb w1)" by (simp add: deployer_ok_def)
  from settle_transaction_runs [OF tables r, of env amount] run
  have orders: "order_table (wdb w1) =
      (if pays r amount then sql_update (\<lambda>x. ord_id x = ord_id r) ?paid (order_table (wdb w))
       else order_table (wdb w))" by auto
  define r1 where "r1 = (if pays r amount then ?paid r else r)"
  have "r1 \<in> set (order_table (wdb w1))"
    using sql_update_mem [OF r(1), of "\<lambda>x. ord_id x = ord_id r" ?paid] r(1) by (auto simp: r1_def orders)
  moreover have "ord_id r1 = nt_order_id n" using r(2) by (simp add: r1_def)
  moreover have "\<not> pays r1 amount" by (auto simp: r1_def pays_def)
  ultimately show ?thesis
    using settle_transaction_runs [OF tables1, of r1 n env' amount] by auto
qed

lemma transfer_credited_once_witness:
  "balance ''a1'' (wdb (snd (settle_transaction demo_env demo_transfer 5
     (snd (settle_transaction demo_env demo_transfer 5 (demo_world PROCESSING)))))) =
   balance ''a1'' (wdb (snd (settle_transaction demo_env demo_transfer 5 (demo_world PROCESSING))))"
proof -
  obtain w1 where run: "settle_transaction demo_env demo_transfer 5 (demo_world PROCESSING) = (Inr (), w1)"
    using settle_transaction_runs [of "demo_world PROCESSING" "demo_order PROCESSING" demo_transfer demo_env 5]
      demo_ok [of PROCESSING]
    by (auto simp: deployer_ok_def demo_world_def demo_db_def demo_order_def demo_transfer_def)
  have "demo_order PROCESSING \<in> set (order_table (wdb (demo_world PROCESSING)))"
    "ord_id (demo_order PROCESSING) = nt_order_id demo_transfer"
    by (simp_all add: demo_world_def demo_db_def demo_order_def demo_transfer_def)
  from transfer_credited_once [OF demo_ok this run, of demo_env] run show ?thesis by auto
qed

section \<open>The blockchain poll\<close>

lemma keeps_metadata_upsert: "stays (unchanged (\<lambda>w. transactions_metadata_table (wdb w))) (upsert_transaction env n)"
  by (auto simp: stays_def unchanged_def upsert_transaction_def split: option.split)

lemma keeps_metadata_process:
  "stays (unchanged (\<lambda>w. transactions_metadata_table (wdb w))) (process_transaction env t)"
proof -
  have settle: "stays (unchanged (\<lambda>w. transactions_metadata_table (wdb w))) (settle_transaction env n a)" for n a
    unfolding settle_transaction_def
    by (rule same.stays_andthen [OF keeps_metadata_upsert])
      (auto simp: stays_def unchanged_def get_order_def update_order_status_def update_orders_def
        increase_account_balance_def split: option.split)
  show ?thesis
    unfolding process_transaction_def
    by (cases t) (auto intro!: same.stays_andthen same.stays_ret settle
        simp: get_transaction_def stays_def [of _ "query _"] unchanged_def split: option.split)
qed

text \<open>
  C16. A poll that succeeds for a recipient has asked for the transfers of the blocks right after the
  last one of the poll before, up to the block \<open>block_adjustment\<close> behind the head and at most
  \<open>fetch_limit\<close> blocks, and leaves the last block it asked for in that recipient's row, and in no
  other.
\<close>

theorem poll_cursor:
  assumes run: "process_recipient env m w = (Inr (), w')"
  shows "\<exists>head address events.
    block_number env (ext_calls w) ReadBlockNumber = Inr head \<and>
    transfer_events env (ext_calls w @ [ReadBlockNumber])
      (ReadTransfers address (tm_last_block_no m + 1)
        (min (head - tm_block_adjustment m) (tm_last_block_no m + tm_fetch_limit m)) (tm_recipient m)) = Inr events \<and>
    map (\<lambda>x. (tm_id x, tm_last_block_no x)) (transactions_metadata_table (wdb w')) =
    map (\<lambda>x. (tm_id x, if tm_id x = tm_id m
        then min (head - tm_block_adjustment m) (tm_last_block_no m + tm_fetch_limit m)
        else tm_last_block_no x)) (transactions_metadata_table (wdb w))"
proof -
  from run obtain txs to w1 w2 where fetch: "get_transactions_from_blockchain env m w = (Inr (txs, to), w1)"
    and each: "for_each txs (process_transaction env) w1 = (Inr (), w2)"
    and upd: "update_transactions_metadata env (tm_id m) to w2 = (Inr (), w')"
    by (auto simp: process_recipient_def elim!: andthen_InrE)
  from fetch obtain head address events where
    head: "block_number env (ext_calls w) ReadBlockNumber = Inr head"
    and events: "transfer_events env (ext_calls w @ [ReadBlockNumber])
      (ReadTransfers address (tm_last_block_no m + 1) (last_fetched_block m head) (tm_recipient m)) = Inr events"
    and to: "to = last_fetched_block m head"
    by (auto simp: get_transactions_from_blockchain_def get_token_contract_def Let_def elim!: andthen_InrE)
  have "wdb w1 = wdb w"
    using staysD [OF quiet_blockchain fetch] by (simp add: unchanged_def)
  moreover have "transactions_metadata_table (wdb w2) = transactions_metadata_table (wdb w1)"
    using staysD [OF same.stays_for_each [OF keeps_metadata_process] each] by (simp add: unchanged_def)
  ultimately have table: "transactions_metadata_table (wdb w') =
      sql_update (\<lambda>x. tm_id x = tm_id m)
        (touch_transactions_metadata env (\<lambda>x. x\<lparr>tm_last_block_no := to\<rparr>)) (transactions_metadata_table (wdb w))"
    using upd by (auto simp: update_transactions_metadata_def)
  have "map (\<lambda>x. (tm_id x, tm_last_block_no x)) (transactions_metadata_table (wdb w')) =
    map (\<lambda>x. (tm_id x, if tm_id x = tm_id m then to else tm_last_block_no x)) (transactions_metadata_table (wdb w))"
    by (simp add: table sql_update_def)
  moreover have "last_fetched_block m head =
      min (head - tm_block_adjustment m) (tm_last_block_no m + tm_fetch_limit m)"
    by (simp add: last_fetched_block_def)
  ultimately show ?thesis using head events to by auto
qed

lemma poll_cursor_witness:
  "\<exists>head. block_number demo_env [] ReadBlockNumber = Inr head \<and>
     map (\<lambda>x. (tm_id x, tm_last_block_no x)) (transactions_metadata_table
       (wdb (snd (process_recipient demo_env demo_metadata (demo_world PROCESSING))))) =
     [(1, min (head - 5) 60)]"
proof -
  have "fst (process_recipient demo_env demo_metadata (demo_world PROCESSING)) = Inr ()"
    by code_simp
  then obtain w' where run: "process_recipient demo_env demo_metadata (demo_world PROCESSING) = (Inr (), w')"
    by (metis prod.collapse)
  from poll_cursor [OF run] run show ?thesis
    by (auto simp: demo_world_def demo_db_def demo_metadata_def)
qed

end
