(* ===== verification/Deployer_Billing_Cases.thy ===== *)
theory Deployer_Billing_Cases
  imports Deployer_Billing_Laws
begin

text \<open>
  The hard cases of billing: a transfer that names an order nobody knows, the order id hidden in
  the input of a transaction, charges and batches delivered twice, and the pages of the history.
\<close>

section \<open>A transfer for an unknown order\<close>

definition order_unknown :: "new_evm_transaction \<Rightarrow> deployer_db \<Rightarrow> bool" where
  "order_unknown n db \<longleftrightarrow>
     nt_order_id n \<noteq> [] \<and> nt_order_id n \<notin> ord_id ` set (order_table db) \<and>
     nt_hash n \<notin> tx_hash ` set (evm_transaction_table db)"

lemma unknown_order_fails:
  "order_unknown n (wdb w) \<Longrightarrow> process_transaction env (n, amount) w = (Inl IntegrityError, w)"
  by (simp add: process_transaction_def get_transaction_def order_unknown_def settle_transaction_def
      upsert_transaction_def andthen_apply sql_first_no_key)

text \<open>Other transactions do not make the order known.\<close>

lemma unknown_after_upsert:
  assumes "nt_hash t \<noteq> nt_hash n" and "order_unknown n (wdb w)"
  shows "order_unknown n (wdb (snd (upsert_transaction env t w)))"
  using assms
  by (auto simp: upsert_transaction_def order_unknown_def key_set_update split: option.split)

lemma unknown_set_status: "order_unknown n (set_status env p st db) = order_unknown n db"
  by (simp add: order_unknown_def set_status_def key_set_update)

lemma unknown_credit: "order_unknown n (credit env a x db) = order_unknown n db"
  by (simp add: order_unknown_def credit_def)

lemma unknown_through_settle:
  assumes "nt_hash t \<noteq> nt_hash n"
  shows "stays (keeping (\<lambda>w. order_unknown n (wdb w))) (settle_transaction env t amount)"
  unfolding settle_transaction_def
proof (rule keeps.stays_andthen)
  show "stays (keeping (\<lambda>w. order_unknown n (wdb w))) (upsert_transaction env t)"
    using unknown_after_upsert [OF assms] by (simp add: stays_def keeping_def)
qed (auto simp: stays_def keeping_def get_order_def update_order_status_def update_orders_set_status
    increase_is_credit unknown_set_status unknown_credit split: option.split)

lemma unknown_through_process:
  assumes "nt_hash (fst t) \<noteq> nt_hash n"
  shows "stays (keeping (\<lambda>w. order_unknown n (wdb w))) (process_transaction env t)"
  unfolding process_transaction_def get_transaction_def
  using assms by (cases t) (auto intro!: keeps.stays_andthen keeps.stays_ret unknown_through_settle
      simp: stays_def [of _ "query _"] keeping_def [of _ _ "_ :: world"] split: option.split)

text \<open>
  One transfer that names an unknown order stops the poll: whatever the other transfers are, the
  whole poll fails and is rolled back, so that no order is paid and the cursor stays where it was
  (and the next poll reads the same transfer again).
\<close>

theorem unknown_order_blocks_poll:
  assumes metadata: "transactions_metadata_table (wdb w) = [m]"
    and fetched: "get_transactions_from_blockchain env m w = (Inr (before @ (n, amount) # after, last_block), w1)"
    and others: "\<And>t. t \<in> set before \<Longrightarrow> nt_hash (fst t) \<noteq> nt_hash n"
    and unknown: "order_unknown n (wdb w)"
  shows "\<exists>e w'. update_transaction_status env w = (Inl e, w') \<and> wdb w' = wdb w"
proof -
  have "wdb w1 = wdb w" using staysD [OF quiet_blockchain fetched] by (simp add: unchanged_def)
  with unknown have start: "order_unknown n (wdb w1)" by simp
  have "\<exists>e w2. for_each (before @ (n, amount) # after) (process_transaction env) w1 = (Inl e, w2)"
  proof (cases "for_each before (process_transaction env) w1")
    case (Pair q w2)
    have "stays (keeping (\<lambda>w. order_unknown n (wdb w))) (for_each before (process_transaction env))"
      by (intro keeps.stays_for_each unknown_through_process others)
    from staysD [OF this Pair] start have "order_unknown n (wdb w2)" by (simp add: keeping_def)
    from unknown_order_fails [OF this] Pair show ?thesis
      by (cases q) (simp_all add: for_each_append andthen_apply)
  qed
  then obtain e w2 where each: "for_each (before @ (n, amount) # after) (process_transaction env) w1 = (Inl e, w2)"
    by blast
  have "process_recipient env m w = (Inl e, w2)"
    unfolding process_recipient_def using fetched each by (simp add: andthen_apply)
  then have "update_transaction_status env w = (Inl e, w2\<lparr>wdb := wdb w\<rparr>)"
    using metadata
    by (simp add: update_transaction_status_def get_transactions_metadata_def session_scope_def andthen_apply)
  then show ?thesis by auto
qed

definition lost_env :: denv where
  "lost_env = demo_env\<lparr>transaction_input_hex := (\<lambda>_ _. Inr (replicate 136 (CHR ''0'') @ ''7a7a''))\<rparr>"

definition lost_transfer :: new_evm_transaction where
  "lost_transfer = \<lparr>nt_hash = ''0xaa'', nt_order_id = ''zz'', nt_status = TX_SUCCESS, nt_sender = ''sender'',
     nt_recipient = ''recipient''\<rparr>"

lemma unknown_order_blocks_poll_witness:
  "\<exists>e w'. update_transaction_status lost_env (demo_world PROCESSING) = (Inl e, w') \<and> wdb w' = demo_db PROCESSING"
proof -
  have "fst (get_transactions_from_blockchain lost_env demo_metadata (demo_world PROCESSING)) =
      Inr ([(lost_transfer, 5)], 60)"
    by code_simp
  then obtain w1 where "get_transactions_from_blockchain lost_env demo_metadata (demo_world PROCESSING) =
      (Inr ([] @ (lost_transfer, 5) # [], 60), w1)"
    by (metis append_Nil prod.collapse)
  from unknown_order_blocks_poll [OF _ this] show ?thesis
    by (simp add: demo_world_def demo_db_def order_unknown_def lost_transfer_def demo_order_def)
qed

section \<open>The order id in the input of a transaction\<close>

definition hex_of :: "nat list \<Rightarrow> string" where
  "hex_of bytes = concat (map (\<lambda>b. [hex_digit (b div 16), hex_digit (b mod 16)]) bytes)"

lemma hex_digit_value:
  assumes "d < 16"
  shows "hex_value (hex_digit d) = Some d" and "\<not> ascii_space (hex_digit d)"
  using assms by (auto simp: hex_digit_def hex_value_def ascii_space_def Let_def)

lemma char_of_zero: "char_of (0 :: nat) = CHR 0x00"
  by (simp add: char_of_def)

lemma fromhex_hex_of: "list_all (\<lambda>b. b < 256) bytes \<Longrightarrow> fromhex (hex_of bytes) = Inr bytes"
proof (induction bytes)
  case Nil
  then show ?case by (simp add: hex_of_def)
next
  case (Cons b bytes)
  have "hex_of (b # bytes) = hex_digit (b div 16) # hex_digit (b mod 16) # hex_of bytes"
    by (simp add: hex_of_def)
  moreover have "b div 16 < 16" "b mod 16 < 16" using Cons.prems by auto
  ultimately show ?case using Cons by (simp add: hex_digit_value)
qed

lemma dropWhile_padding: "P x \<Longrightarrow> dropWhile P (replicate k x @ xs) = dropWhile P xs"
  by (induction k) auto

lemma rstrip_nul_padded:
  assumes "s \<noteq> []" and "last s \<noteq> CHR 0x00"
  shows "rstrip_nul (s @ replicate k (CHR 0x00)) = s"
proof -
  from assms obtain c cs where "rev s = c # cs" "c \<noteq> CHR 0x00"
    by (cases "rev s") (auto simp: last_rev simp flip: hd_rev)
  moreover from this have "s = rev (c # cs)" by (metis rev_rev_ident)
  ultimately show ?thesis by (simp add: rstrip_nul_def dropWhile_padding)
qed

text \<open>
  C22. The order id round trip: when the data of a token transfer is its 68 bytes followed by the
  bytes of an ASCII order id and any number of zero bytes, the poll reads exactly that order id.
\<close>

theorem order_id_round_trip:
  assumes input: "transaction_input_hex env (ext_calls w) (ReadTransaction h) =
      Inr (call @ hex_of (map of_char order_id @ replicate k 0))"
    and call: "length call = 136"
    and ascii: "\<And>c. c \<in> set order_id \<Longrightarrow> of_char c < (128 :: nat)"
    and id: "order_id \<noteq> []" "last order_id \<noteq> CHR 0x00"
    and decode: "\<And>bytes. list_all (\<lambda>b. b < 128) bytes \<Longrightarrow> utf8_decode env bytes = Inr (map char_of bytes)"
  shows "fst (get_order_id_from_transaction env h w) = Inr order_id"
proof -
  let ?bytes = "map of_char order_id @ replicate k (0 :: nat)"
  have small: "list_all (\<lambda>b. b < 128) ?bytes" using ascii by (auto simp: list_all_iff)
  then have "list_all (\<lambda>b. b < 256) ?bytes" by (auto simp: list_all_iff)
  then have bytes: "fromhex (hex_of ?bytes) = Inr ?bytes" by (rule fromhex_hex_of)
  have "hex_of ?bytes \<noteq> []" using id by (cases order_id) (auto simp: hex_of_def)
  moreover have "map char_of ?bytes = order_id @ replicate k (CHR 0x00)" by (simp add: comp_def char_of_zero)
  ultimately show ?thesis
    using input call bytes decode [OF small] rstrip_nul_padded [OF id]
    by (simp add: get_order_id_from_transaction_def andthen_apply char_of_zero)
qed

lemma order_id_round_trip_witness:
  "fst (get_order_id_from_transaction demo_env ''0xaa'' (demo_world CREATED)) = Inr ''o1''"
proof (rule order_id_round_trip [of demo_env "demo_world CREATED" _ "replicate 136 (CHR ''0'')" _ 0])
  show "transaction_input_hex demo_env (ext_calls (demo_world CREATED)) (ReadTransaction ''0xaa'') =
      Inr (replicate 136 (CHR ''0'') @ hex_of (map of_char ''o1'' @ replicate 0 0))"
    by (simp add: demo_env_def demo_input_def hex_of_def hex_digit_def char_of_def bit_simps)
qed (auto simp: demo_env_def list_all_iff)

section \<open>Charges\<close>

text \<open>
  A call event is charged to the account of the daemon of its service, by its amount and to no
  other account, when that service is hosted; otherwise it is refused and nothing changes.
\<close>

theorem call_event_charge:
  assumes "tables_ok (wdb w)"
  shows "case charged_daemon (cer_org_id req) (cer_service_id req) (wdb w) of
      None \<Rightarrow> process_call_event env req w =
        (Inl (HostedServiceNotFoundException [] (cer_org_id req) (cer_service_id req)), w)
    | Some d \<Rightarrow> \<exists>w'. process_call_event env req w = (Inr (), w') \<and>
        (\<forall>a. balance a (wdb w') = balance a (wdb w) - (if a = d_account_id d then cer_amount req else 0)) \<and>
        order_table (wdb w') = order_table (wdb w)"
proof (cases "charged_daemon (cer_org_id req) (cer_service_id req) (wdb w)")
  case None
  then show ?thesis by (simp add: process_call_event_result)
next
  case (Some d)
  then show ?thesis
    using balance_of_credit [OF assms tables_ok_daemon_account [OF assms charged_daemonD [OF Some]]]
    by (simp add: process_call_event_result)
qed

lemma call_event_charge_witness:
  "\<exists>w'. process_call_event demo_env demo_call (demo_world CREATED) = (Inr (), w') \<and>
     balance ''a1'' (wdb w') = balance ''a1'' (demo_db CREATED) - 2"
proof -
  have "charged_daemon ''org'' ''svc'' (demo_db CREATED) = Some demo_daemon"
    by (simp add: charged_daemon_def hosted_service_of_def demo_defs)
  then show ?thesis
    using call_event_charge [of "demo_world CREATED" demo_env demo_call] demo_ok [of CREATED]
    by (auto simp: deployer_ok_def demo_world_def demo_call_def demo_daemon_def)
qed

end
