(* ===== verification/Deployer_History.thy ===== *)
theory Deployer_History
  imports Deployer_Billing_Cases
begin

text \<open>
  Batches of call events that are delivered again, and the pages of the balance history.
\<close>

section \<open>Batches\<close>

lemma credit_daemons [simp]:
  "daemon_table (credit env a n db) = daemon_table db"
  "hosted_service_table (credit env a n db) = hosted_service_table db"
  by (simp_all add: credit_def)

lemma charged_daemon_credit: "charged_daemon og sv (credit env a n db) = charged_daemon og sv db"
  by (simp add: charged_daemon_def hosted_service_of_def split: option.split)


definition queue_env :: denv where
  "queue_env = demo_env\<lparr>loads := (\<lambda>t.
     if t = ''m1'' then Inr (PDict [(''orgId'', PStr ''org''), (''serviceId'', PStr ''svc''),
        (''duration'', PInt 1), (''amount'', PInt 2), (''timestamp'', PTime 1)])
     else if t = ''m2'' then Inr (PDict [])
     else Inr (PDict [(''Message'', PStr t)]))\<rparr>"

definition queue_event :: pydict where
  "queue_event = [(''Records'', PList [PDict [(''body'', PStr ''b1'')], PDict [(''body'', PStr ''b2'')]])]"

definition batch_env :: denv where
  "batch_env = queue_env\<lparr>loads := (\<lambda>t.
     if t = ''b1'' then Inr (PDict [(''Message'', PStr ''m1'')])
     else if t = ''b2'' then Inr (PDict [(''Message'', PStr ''m2'')])
     else loads queue_env t)\<rparr>"


section \<open>Pages of the history\<close>

lemma quiet_balance_history: "stays (unchanged wdb) (get_balance_history env req a)"
proof -
  have reads: "stays (unchanged wdb) (get_user_daemons b pl ord)"
    "stays (unchanged wdb) (get_orders env b l p ord per st)"
    "stays (unchanged wdb) (get_orders_total_count env b per st)" for b pl ord l p per st
    unfolding get_user_daemons_def get_orders_def get_orders_total_count_def by (rule quiet_query)+
  show ?thesis
    unfolding get_balance_history_def expenses_page_def incomes_page_def Let_def
    by (intro quiet_rules quiet_clients quiet_case_prod reads)
qed

lemma sorted_order_asc: "sorted (map k (order_asc k t))"
  by (simp add: order_asc_def)

lemma sorted_order_desc: "sorted (rev (map k (order_desc k t)))"
  by (simp add: order_desc_def rev_map)

definition in_order :: "order_type \<Rightarrow> string list \<Rightarrow> bool" where
  "in_order ord ts = (case ord of Asc \<Rightarrow> sorted ts | Desc \<Rightarrow> sorted (rev ts))"

lemma merge_history_page:
  assumes "bh_type_of_movement req = Some AllFunds"
  shows "length (merge_history req es) \<le> nat (bh_limit req)"
    and "in_order (bh_order req) (map event_timestamp (merge_history req es))"
    and "set (merge_history req es) \<subseteq> set es"
proof -
  show "length (merge_history req es) \<le> nat (bh_limit req)" using assms by (simp add: merge_history_def)
  show "set (merge_history req es) \<subseteq> set es"
    using assms by (auto simp: merge_history_def dest: in_set_takeD split: order_type.split)
  show "in_order (bh_order req) (map event_timestamp (merge_history req es))"
  proof (cases "bh_order req")
    case Asc
    with assms show ?thesis
      using sorted_order_asc [of event_timestamp es]
      by (simp add: merge_history_def in_order_def sorted_wrt_take take_map [symmetric])
  next
    case Desc
    with assms show ?thesis
      using sorted_order_desc [of event_timestamp es]
      by (simp add: merge_history_def in_order_def rev_take rev_map sorted_wrt_drop flip: drop_map take_map)
  qed
qed


text \<open>An account with one paid order and one service call, one event a page.\<close>

definition history_env :: denv where
  "history_env = demo_env\<lparr>
     http_answer := (\<lambda>_ c. Inr \<lparr>http_status = 200, http_text = [],
        http_json = Inr (case c of HttpCall _ _ _ (PDict d) \<Rightarrow> event_part d ''page'' | _ \<Rightarrow> PNone)\<rparr>),
     parse_call_events := (\<lambda>v. Inr \<lparr>ger_events = (if v = PInt 1 then
          [\<lparr>ce_org_id = ''org'', ce_service_id = ''svc'', ce_duration = 1, ce_amount = 2,
            ce_timestamp = 1700000001000000, ce_utc_offset = []\<rparr>] else []), ger_total_count = 1\<rparr>)\<rparr>"

definition history_request :: "int \<Rightarrow> get_balance_history_request" where
  "history_request page = \<lparr>bh_limit = 1, bh_page = page, bh_order = Asc, bh_period = AllTime,
     bh_income_status = IncomeAll, bh_type_of_movement = Some AllFunds\<rparr>"

definition history_items :: "int \<Rightarrow> pyval option" where
  "history_items page =
     (case fst (get_balance_history history_env (history_request page) ''a1'' (demo_world SUCCESS)) of
        Inl e \<Rightarrow> None
      | Inr resp \<Rightarrow> Some (PList (map (\<lambda>k. event_part resp k) [''events'', ''totalCount''])))"


lemma event_timestamps [simp]:
  "event_timestamp (income_event r) = isoformat (ord_updated_at r)"
  "event_timestamp (expense_event e) = isoformat (ce_timestamp e) @ ce_utc_offset e"
  by (simp_all add: event_timestamp_def income_event_def expense_event_def)

lemma income_event_type: "dict_get (income_event r) ''type'' = Some (PStr ''income'')"
  by (simp add: income_event_def)

lemmas history_run = history_items_def get_balance_history_def history_request_def expenses_page_def
  incomes_page_def get_user_daemons_def get_call_events_def haas_request_def history_env_def
  response_ok_def get_orders_def get_orders_total_count_def session_scope_def andthen_apply
  try_except_apply Let_def event_part_def demo_world_def


end
