(* ===== verification/Deployer_Metrics.thy ===== *)
theory Deployer_Metrics
  imports Deployer_Runs
begin

text \<open>
  The loop of the metrics over the pages of call events: it returns every event of a source that
  serves its events in pages, with the least number of requests, and it never returns when the
  source announces more events than it serves.
\<close>

section \<open>Requests for a page\<close>

definition events_call :: "denv \<Rightarrow> period_type \<Rightarrow> string \<times> string \<Rightarrow> int \<Rightarrow> ext_call" where
  "events_call env period service page =
     HttpCall ''POST'' (HAAS_BASE_URL env @ HAAS_GET_CALL_EVENTS_PATH env) []
       (PDict
         [(''services'', PList [PDict [(''orgId'', PStr (fst service)), (''serviceId'', PStr (snd service))]]),
          (''limit'', PInt REQUEST_MAX_LIMIT), (''page'', PInt page), (''order'', PStr (order_type_value Asc)),
          (''period'', PStr (period_type_value period))])"

definition called :: "ext_call list \<Rightarrow> world \<Rightarrow> world" where
  "called calls w = w\<lparr>ext_calls := ext_calls w @ calls\<rparr>"

lemma called_called [simp]: "called ds (called cs w) = called (cs @ ds) w"
  by (simp add: called_def)

lemma called_Nil [simp]: "called [] w = w"
  by (simp add: called_def)

lemma get_call_events_world:
  "snd (get_call_events env REQUEST_MAX_LIMIT page Asc period [service] w) =
   called [events_call env period service page] w"
  by (cases service) (auto simp: get_call_events_def haas_request_def events_call_def called_def
      try_except_apply andthen_apply split: sum.split prod.split if_splits)

text \<open>HaaS serves the events of a service, in pages of the limit, with their number.\<close>

definition serves_pages :: "denv \<Rightarrow> period_type \<Rightarrow> string \<times> string \<Rightarrow> call_event list \<Rightarrow> bool" where
  "serves_pages env period service items \<longleftrightarrow>
     (\<forall>page w. 1 \<le> page \<longrightarrow>
        fst (get_call_events env REQUEST_MAX_LIMIT page Asc period [service] w) =
        Inr \<lparr>ger_events = take (nat REQUEST_MAX_LIMIT) (drop (nat (REQUEST_MAX_LIMIT * (page - 1))) items),
             ger_total_count = int (length items)\<rparr>)"

lemma served_page:
  assumes "serves_pages env period service items" and "1 \<le> page"
  shows "get_call_events env REQUEST_MAX_LIMIT page Asc period [service] w =
     (Inr \<lparr>ger_events = take 100 (drop (nat (100 * (page - 1))) items), ger_total_count = int (length items)\<rparr>,
      called [events_call env period service page] w)"
  using assms get_call_events_world [of env page period service w]
  unfolding serves_pages_def by (simp add: prod_eq_iff REQUEST_MAX_LIMIT_def)

section \<open>A source that serves every event\<close>

definition pages_of :: "call_event list \<Rightarrow> int" where
  "pages_of items = max 1 ((int (length items) + 99) div 100)"

lemma fetch_pages_all:
  assumes serves: "serves_pages env period service items" and "1 \<le> page" and "page \<le> pages_of items"
  shows "fetch_pages env period service page (take (nat (100 * page)) items) (int (length items)) w =
    Some (Inr items, called (map (events_call env period service) [page + 1..pages_of items]) w)"
  using assms(2,3)
proof (induction "nat (pages_of items - page)" arbitrary: page w)
  case 0
  then have "page = pages_of items" by simp
  with 0 have "int (length items) \<le> 100 * page" by (simp add: pages_of_def)
  then have "length items \<le> nat (100 * page)" by simp
  then show ?case using \<open>page = pages_of items\<close> by (subst fetch_pages.simps) simp
next
  case (Suc n)
  then have more: "page < pages_of items" by simp
  with Suc.prems have len: "100 * page < int (length items)" by (simp add: pages_of_def)
  have next_page: "take (nat (100 * page)) items @ take 100 (drop (nat (100 * page)) items) =
      take (nat (100 * (page + 1))) items"
    using Suc.prems by (simp flip: take_add add: nat_add_distrib algebra_simps)
  have "fetch_pages env period service page (take (nat (100 * page)) items) (int (length items)) w =
      fetch_pages env period service (page + 1) (take (nat (100 * (page + 1))) items) (int (length items))
        (called [events_call env period service (page + 1)] w)"
    using len Suc.prems next_page
    by (subst fetch_pages.simps) (simp add: served_page [OF serves])
  also have "\<dots> = Some (Inr items, called (map (events_call env period service) [page + 1 + 1..pages_of items])
      (called [events_call env period service (page + 1)] w))"
    using Suc.hyps(2) Suc.prems more by (intro Suc.hyps(1)) auto
  also have "\<dots> = Some (Inr items, called (map (events_call env period service) [page + 1..pages_of items]) w)"
    using more by (simp add: upto_rec1 [of "page + 1"])
  finally show ?case .
qed

text \<open>The daemon of a hosted service, which both metrics operations look up.\<close>

lemma daemon_of_hosted_service:
  assumes ok: "tables_ok (wdb w)" and d: "d \<in> set (daemon_table (wdb w))"
    and h: "h \<in> set (hosted_service_table (wdb w))" "hs_daemon_id h = d_id d"
  shows "get_daemon_by_hosted_service (hs_id h) w = (Inr (Some (daemon_from_db_model (wdb w) d)), w)"
proof -
  let ?p = "\<lambda>x. \<exists>h' \<in> set (hosted_service_table (wdb w)). hs_daemon_id h' = d_id x \<and> hs_id h' = hs_id h"
  have "sql_first ?p (daemon_table (wdb w)) \<noteq> None" unfolding sql_first_None using d h by blast
  then obtain x where x: "sql_first ?p (daemon_table (wdb w)) = Some x" by blast
  then obtain h' where "x \<in> set (daemon_table (wdb w))" "h' \<in> set (hosted_service_table (wdb w))"
    "hs_daemon_id h' = d_id x" "hs_id h' = hs_id h" by (auto dest: sql_first_SomeD)
  moreover from this h have "h' = h" using key_unique [OF tables_ok_hosted_services [OF ok]] by blast
  ultimately have "x = d" using key_unique [OF tables_ok_daemons [OF ok]] d h by metis
  with x show ?thesis by (simp add: get_daemon_by_hosted_service_def first_daemon_def)
qed

text \<open>
  C13. The events of a hosted service's metrics: when HaaS serves the events of its service in pages,
  the loop over the pages ends, it has read every event once and in order, it asked for the pages one
  after the other, no more of them than the events fill, and the database is as before.
\<close>

theorem metrics_read_every_event:
  assumes "tables_ok (wdb w)" and "d \<in> set (daemon_table (wdb w))"
    and "h \<in> set (hosted_service_table (wdb w))" "hs_daemon_id h = d_id d" "hs_id h = gm_hosted_service_id request"
    and serves: "serves_pages env (gm_period request) (d_org_id d, d_service_id d) items"
  shows "get_all_events env request w =
    Some (Inr items, called
      (map (events_call env (gm_period request) (d_org_id d, d_service_id d)) [1..pages_of items]) w)"
proof -
  let ?call = "events_call env (gm_period request) (d_org_id d, d_service_id d)"
  have "session_scope (get_daemon_by_hosted_service (gm_hosted_service_id request)) w =
      (Inr (Some (daemon_from_db_model (wdb w) d)), w)"
    using daemon_of_hosted_service [OF assms(1,2,3,4)] assms(5) by simp
  then have "get_all_events env request w =
      fetch_pages env (gm_period request) (d_org_id d, d_service_id d) 1 (take 100 items) (int (length items))
        (called [?call 1] w)"
    using served_page [OF serves, of 1 w]
    by (simp add: get_all_events_def attribute_of_def daemon_from_db_model_def andthen_apply)
  also have "\<dots> = Some (Inr items, called (map ?call [2..pages_of items]) (called [?call 1] w))"
    using fetch_pages_all [OF serves, of 1] by (simp add: pages_of_def)
  also have "\<dots> = Some (Inr items, called (map ?call [1..pages_of items]) w)"
    by (simp add: pages_of_def upto_rec1 [of 1])
  finally show ?thesis .
qed

text \<open>A HaaS that serves a list of events: its answer names the page, which the client's parser reads.\<close>

definition echo_page :: "ext_call list \<Rightarrow> ext_call \<Rightarrow> exn + http_response" where
  "echo_page calls c =
     (case c of
        HttpCall m u hs (PDict body) \<Rightarrow>
          Inr \<lparr>http_status = 200, http_text = [],
               http_json = Inr (case dict_get body ''page'' of Some v \<Rightarrow> v | None \<Rightarrow> PNone)\<rparr>
      | _ \<Rightarrow> Inl TypeError)"

definition serving_env :: "call_event list \<Rightarrow> denv" where
  "serving_env items = demo_env\<lparr>http_answer := echo_page,
     parse_call_events := (\<lambda>v. case v of
        PInt page \<Rightarrow> Inr \<lparr>ger_events = take 100 (drop (nat (100 * (page - 1))) items),
                          ger_total_count = int (length items)\<rparr>
      | _ \<Rightarrow> Inl TypeError)\<rparr>"

lemma serving_env_serves: "serves_pages (serving_env items) period service items"
  by (cases service) (simp add: serves_pages_def get_call_events_def haas_request_def serving_env_def echo_page_def
      try_except_apply andthen_apply response_ok_def REQUEST_MAX_LIMIT_def)

definition demo_event :: call_event where
  "demo_event = \<lparr>ce_org_id = ''org'', ce_service_id = ''svc'', ce_duration = 1, ce_amount = 2,
     ce_timestamp = 3, ce_utc_offset = []\<rparr>"

lemma metrics_read_every_event_witness:
  "\<exists>calls. length calls = 2 \<and>
    get_all_events (serving_env (replicate 150 demo_event)) \<lparr>gm_hosted_service_id = ''h1'', gm_period = Day\<rparr>
      (demo_world CREATED) = Some (Inr (replicate 150 demo_event), called calls (demo_world CREATED))"
  using metrics_read_every_event [of "demo_world CREATED" demo_daemon demo_hosted_service
      "\<lparr>gm_hosted_service_id = ''h1'', gm_period = Day\<rparr>" "serving_env (replicate 150 demo_event)"
      "replicate 150 demo_event"]
    demo_ok [of CREATED] serving_env_serves
  by (intro exI) (auto simp: deployer_ok_def demo_defs pages_of_def)

section \<open>A source that announces more than it serves\<close>

lemma fetch_pages_stalls:
  assumes stalls: "\<And>page w. 1 < page \<Longrightarrow>
      \<exists>n. n > int (length events) \<and>
        fst (get_call_events env REQUEST_MAX_LIMIT page Asc period [service] w) =
        Inr \<lparr>ger_events = [], ger_total_count = n\<rparr>"
    and "1 \<le> page" and "n > int (length events)"
  shows "fetch_pages env period service page events n w = None"
proof (rule ccontr)
  assume "fetch_pages env period service page events n w \<noteq> None"
  then obtain y where "fetch_pages env period service page events n w = Some y" by blast
  moreover have "fetch_pages e p s page ev n w = Some y \<Longrightarrow> e = env \<Longrightarrow> p = period \<Longrightarrow> s = service \<Longrightarrow> ev = events \<Longrightarrow>
      1 \<le> page \<Longrightarrow> n > int (length events) \<Longrightarrow> False" for e p s page ev n w
  proof (induction e p s page ev n w y rule: fetch_pages.raw_induct [rotated 1, consumes 1])
    case (1 f e p s page ev n w y)
    obtain n' where n': "n' > int (length events)"
      "fst (get_call_events env REQUEST_MAX_LIMIT (page + 1) Asc period [service] w) =
        Inr \<lparr>ger_events = [], ger_total_count = n'\<rparr>" using stalls [of "page + 1" w] 1 by auto
    with 1(2-) obtain w' where "f env period service (page + 1) events n' w' = Some y"
      by (auto split: prod.splits sum.splits if_splits)
    from 1(1) [OF this refl refl refl refl] 1 n'(1) show ?case by simp
  qed
  ultimately show False using assms(2,3) by blast
qed

text \<open>
  C14. The loop over the pages has no bound of its own: when HaaS announces more events than the first
  page holds and every later page is empty while the announced number stays above it, neither the
  metrics nor their download ever returns.
\<close>

theorem metrics_never_return:
  assumes "tables_ok (wdb w)" and "d \<in> set (daemon_table (wdb w))"
    and "h \<in> set (hosted_service_table (wdb w))" "hs_daemon_id h = d_id d" "hs_id h = gm_hosted_service_id request"
    and first: "\<And>w. fst (get_call_events env REQUEST_MAX_LIMIT 1 Asc (gm_period request) [(d_org_id d, d_service_id d)] w) =
        Inr \<lparr>ger_events = events, ger_total_count = n\<rparr>" and n: "n > int (length events)"
    and stalls: "\<And>page w. 1 < page \<Longrightarrow> \<exists>n. n > int (length events) \<and>
        fst (get_call_events env REQUEST_MAX_LIMIT page Asc (gm_period request) [(d_org_id d, d_service_id d)] w) =
        Inr \<lparr>ger_events = [], ger_total_count = n\<rparr>"
  shows "get_metrics env request w = None \<and> download_metrics env request w = None"
proof -
  have "session_scope (get_daemon_by_hosted_service (gm_hosted_service_id request)) w =
      (Inr (Some (daemon_from_db_model (wdb w) d)), w)"
    using daemon_of_hosted_service [OF assms(1,2,3,4)] assms(5) by simp
  moreover obtain w' where "get_call_events env REQUEST_MAX_LIMIT 1 Asc (gm_period request)
      [(d_org_id d, d_service_id d)] w = (Inr \<lparr>ger_events = events, ger_total_count = n\<rparr>, w')"
    using first [of w] by (metis prod.collapse)
  ultimately have "get_all_events env request w = None"
    using fetch_pages_stalls [OF stalls, of 1 n w'] n
    by (simp add: get_all_events_def attribute_of_def daemon_from_db_model_def andthen_apply)
  then show ?thesis by (simp add: get_metrics_def download_metrics_def)
qed

definition stalling_env :: denv where
  "stalling_env = demo_env\<lparr>http_answer := echo_page,
     parse_call_events := (\<lambda>v. Inr \<lparr>ger_events = (if v = PInt 1 then [demo_event] else []), ger_total_count = 2\<rparr>)\<rparr>"

lemma stalling_env_page:
  "fst (get_call_events stalling_env REQUEST_MAX_LIMIT page Asc period [service] w) =
   Inr \<lparr>ger_events = (if page = 1 then [demo_event] else []), ger_total_count = 2\<rparr>"
  by (cases service) (simp add: get_call_events_def haas_request_def stalling_env_def echo_page_def
      try_except_apply andthen_apply response_ok_def)

lemma metrics_never_return_witness:
  "get_metrics stalling_env \<lparr>gm_hosted_service_id = ''h1'', gm_period = Day\<rparr> (demo_world CREATED) = None"
  using metrics_never_return [of "demo_world CREATED" demo_daemon demo_hosted_service
      "\<lparr>gm_hosted_service_id = ''h1'', gm_period = Day\<rparr>" stalling_env "[demo_event]" 2]
    demo_ok [of CREATED] stalling_env_page
  by (simp add: deployer_ok_def demo_defs)

section \<open>Access\<close>

text \<open>The response to a request for what belongs to another account.\<close>

definition access_denied :: "lambda_response dprog" where
  "access_denied = exception_handler (raise ForbiddenException)"

lemma refused:
  assumes "RequestContext (serverless_offline env) event = Inr ctx" and "parsed = Inr request"
    and "check ctx request w = (Inl ForbiddenException, w)"
  shows "exception_handler (andthen (Deployer_Lambdas.request_context env event) (\<lambda>ctx. andthen (of_sum parsed) (\<lambda>request.
     andthen (check ctx request) (k ctx request)))) w = access_denied w"
  using assms by (simp add: Deployer_Lambdas.request_context_def exception_handler_def access_denied_def try_except_apply andthen_apply)

lemma foreign_daemon:
  assumes "\<forall>d \<in> set (daemon_table (wdb w)). d_id d = i \<longrightarrow> d_account_id d \<noteq> a"
  shows "check_local_access a (Some i) None None w = (Inl ForbiddenException, w)"
proof -
  have "sql_first (\<lambda>d. d_id d = i \<and> d_account_id d = a) (daemon_table (wdb w)) = None"
    using assms by (auto simp: sql_first_None)
  then show ?thesis
    by (simp add: check_local_access_def get_daemon_by_account_and_daemon_def first_daemon_def andthen_apply
        session_scope_def)
qed

lemma foreign_hosted_service:
  assumes "\<forall>h \<in> set (hosted_service_table (wdb w)). \<forall>d \<in> set (daemon_table (wdb w)).
      hs_id h = i \<longrightarrow> hs_daemon_id h = d_id d \<longrightarrow> d_account_id d \<noteq> a"
  shows "check_local_access a None None (Some i) w = (Inl ForbiddenException, w)"
proof -
  have "sql_first (\<lambda>h. hs_id h = i \<and> (\<exists>d \<in> set (daemon_table (wdb w)). d_id d = hs_daemon_id h \<and> d_account_id d = a))
      (hosted_service_table (wdb w)) = None"
    using assms by (auto simp: sql_first_None)
  then show ?thesis
    by (simp add: check_local_access_def get_hosted_service_by_account_and_service_def first_hosted_service_def
        andthen_apply session_scope_def)
qed

lemma foreign_order:
  assumes "\<forall>r \<in> set (order_table (wdb w)). ord_id r = i \<longrightarrow> ord_account_id r \<noteq> a"
  shows "check_local_access a None (Some i) None w = (Inl ForbiddenException, w)"
proof -
  have "filter (order_selected (Some i) (Some a) None) (order_table (wdb w)) = []"
    using assms by (auto simp: order_selected_def filter_empty_conv)
  then show ?thesis
    by (simp add: check_local_access_def get_order_def first_or_none_def order_desc_def andthen_apply session_scope_def)
qed

definition refuses :: "(exn + lambda_response) \<times> world \<Rightarrow> world \<Rightarrow> bool" where
  "refuses answer w \<longleftrightarrow> (\<exists>resp. answer = (Inr resp, w) \<and> status_code resp = 403)"

lemma access_denied_refuses: "refuses (access_denied w) w"
  using generate_lambda_response_serialisable [of "PDict (format_response ''failed'' (to_dict 0 ''Access denied'' []))" 403 True]
  by (auto simp: refuses_def access_denied_def exception_handler_def try_except_apply failure_response_def
      ForbiddenException_def format_response_def to_dict_def)

lemma metrics_refused:
  assumes "RequestContext (serverless_offline env) event = Inr ctx"
    and "from_path_and_query env GetMetricsRequest event = Inr request"
    and "check_local_access (rc_account_id ctx) None None (Some (gm_hosted_service_id request)) w = (Inl ForbiddenException, w)"
  shows "metrics_handler env event compute answer w = Some (access_denied w)"
  using assms by (simp add: metrics_handler_def Deployer_Lambdas.request_context_def access_denied_def andthen_apply)


definition demo_event_of :: "string \<Rightarrow> pydict \<Rightarrow> pydict" where
  "demo_event_of account path =
     [(''requestContext'', PDict [(''authorizer'', PDict [(''claims'',
         PDict [(''email'', PStr ''mail''), (''sub'', PStr account)])])]),
      (''headers'', PDict [(''origin'', PStr ''portal'')]), (''pathParameters'', PDict path)]"


section \<open>Credentials\<close>

definition no_request_key :: "string \<Rightarrow> ext_call \<Rightarrow> bool" where
  "no_request_key k c =
     (case c of HttpCall m u hs (PDict body) \<Rightarrow> \<not> dict_has body k | _ \<Rightarrow> True)"

lemma no_request_keyD: "no_request_key k (HttpCall m u hs (PDict body)) \<Longrightarrow> \<not> dict_has body k"
  by (simp add: no_request_key_def)

definition calls_without :: "string \<Rightarrow> world \<Rightarrow> world \<Rightarrow> bool" where
  "calls_without k w w' \<longleftrightarrow>
     (\<exists>calls. ext_calls w' = ext_calls w @ calls \<and> list_all (no_request_key k) calls)"

interpretation silent: step_frame "calls_without k" for k
  by unfold_locales (auto simp: calls_without_def intro: exI [of _ "[]"])

lemma silent_external: "no_request_key k c \<Longrightarrow> stays (calls_without k) (external a c)"
  by (auto simp: stays_def calls_without_def)

lemma silent_execute: "stays (calls_without k) (execute f)" "stays (calls_without k) (query g)"
  by (auto simp: stays_def calls_without_def)

lemma silent_session:
  assumes "stays (calls_without k) m"
  shows "stays (calls_without k) (session_scope m)"
proof (rule staysI)
  fix w r w'
  assume run: "session_scope m w = (r, w')"
  obtain q w1 where m: "m w = (q, w1)" by fastforce
  with assms have "calls_without k w w1" by (metis staysD)
  moreover have "ext_calls w' = ext_calls w1" using run m by (cases q) (auto simp: session_scope_def)
  ultimately show "calls_without k w w'" by (simp add: calls_without_def)
qed

lemma silent_haas_request:
  "no_request_key k (HttpCall m u [] b) \<Longrightarrow> stays (calls_without k) (haas_request env m u b f)"
  unfolding haas_request_def by (auto intro!: silent.stays_rules silent_external)

lemma silent_haas_deploy:
  assumes "\<not> dict_has config ''serviceCredentials''"
  shows "stays (calls_without ''service_credentials'') (haas_deploy_daemon env org_id service_id config)"
  using assms unfolding haas_deploy_daemon_def Let_def
  by (auto intro!: silent.stays_rules silent_haas_request simp: no_request_key_def dict_has_def)

definition plain_configs :: "world \<Rightarrow> bool" where
  "plain_configs w \<longleftrightarrow> (\<forall>d \<in> set (daemon_table (wdb w)). \<not> dict_has (d_daemon_config d) ''serviceCredentials'')"

lemma silent_start_daemon:
  assumes "\<not> dict_has (d_daemon_config d) ''serviceCredentials''"
  shows "stays (calls_without ''service_credentials'') (start_daemon env d)"
  unfolding start_daemon_def update_daemon_status_def update_daemons_def
  using assms by (auto intro!: silent.stays_rules silent_haas_deploy silent_session silent_execute)

lemma plain_lookup:
  assumes "plain_configs w" and "session_scope (get_daemon i) w = (Inr (Some d), w')"
  shows "\<not> dict_has (d_daemon_config d) ''serviceCredentials'' \<and> w' = w"
  using assms by (auto simp: plain_configs_def get_daemon_def first_daemon_def session_scope_def
      daemon_from_db_model_def dest: sql_first_SomeD)

lemma plain_deploy:
  assumes "plain_configs w"
  shows "calls_without ''service_credentials'' w (snd (deploy_daemon env request w))"
  unfolding deploy_daemon_def
proof (rule silent.leads_andthen)
  show "calls_without ''service_credentials'' w (snd (session_scope (get_daemon (dr_daemon_id request)) w))"
    unfolding get_daemon_def first_daemon_def by (rule silent.staysD_at [OF silent_session [OF silent_execute(2)]])
next
  fix found w'
  assume found: "session_scope (get_daemon (dr_daemon_id request)) w = (Inr found, w')"
  show "calls_without ''service_credentials'' w' (snd ((case found of None \<Rightarrow> raise (DaemonNotFoundException (dr_daemon_id request))
      | Some d \<Rightarrow> if d_status d \<notin> {Daemon_INIT, Daemon_UP, Daemon_DOWN} then ret ([] :: pydict)
          else andthen (start_daemon env d) (\<lambda>_. ret [])) w'))"
  proof (cases found)
    case None
    then show ?thesis by (simp add: calls_without_def)
  next
    case (Some d)
    have "\<not> dict_has (d_daemon_config d) ''serviceCredentials''"
      using plain_lookup [OF assms] found Some by blast
    then have "stays (calls_without ''service_credentials'') (andthen (start_daemon env d) (\<lambda>_. ret ([] :: pydict)))"
      by (intro silent.stays_andthen silent_start_daemon silent.stays_ret)
    from silent.staysD_at [OF this, of w'] Some show ?thesis by (simp add: silent.refl)
  qed
qed

lemma plain_session:
  "stays (keeping plain_configs) m \<Longrightarrow> stays (keeping plain_configs) (session_scope m)"
  using db_invariant.stays_session [of "\<lambda>db. \<forall>d \<in> set (daemon_table db). \<not> dict_has (d_daemon_config d) ''serviceCredentials''"]
  by (simp add: stays_def on_db_def keeping_def plain_configs_def)

lemma plain_update:
  "\<not> dict_has config ''serviceCredentials'' \<Longrightarrow> stays (keeping plain_configs) (update_daemon_config env i config)"
  by (auto simp: stays_def keeping_def plain_configs_def update_daemon_config_def update_daemons_def
      set_sql_update touch_daemon_def touch_def)

lemma update_config_plain: "stays (keeping plain_configs) (update_config env request)"
proof -
  have lambda: "stays (keeping plain_configs) (client_deploy_daemon env i b)" for i b
    using quiet_clients [of env] by (auto simp: stays_def keeping_def unchanged_def plain_configs_def)
  have found: "\<not> dict_has (d_daemon_config d) ''serviceCredentials''"
    if "plain_configs s" "get_daemon i s = (Inr (Some d), s')" for s i d s'
    using that by (auto simp: plain_configs_def get_daemon_def first_daemon_def daemon_from_db_model_def
        dest: sql_first_SomeD)
  show ?thesis
    unfolding update_config_def
  proof (rule keeps.stays_andthen [OF plain_session keeps.stays_ret], rule keeping_andthen)
    show "stays (keeping plain_configs) (get_daemon (uc_daemon_id request))"
      by (simp add: get_daemon_def first_daemon_def stays_def keeping_def)
  next
    fix s daemon s'
    assume "plain_configs s" and "get_daemon (uc_daemon_id request) s = (Inr daemon, s')"
    then have "\<not> dict_has (d_daemon_config d) ''serviceCredentials''" if "daemon = Some d" for d
      using found that by blast
    then show "stays (keeping plain_configs) (andthen (attribute_of daemon) (update_found_config env request))"
      by (cases daemon) (auto simp: attribute_of_def update_found_config_def Let_def keeps.stays_ret keeps.stays_raise
          intro!: keeps.stays_andthen lambda plain_update split: option.split list.split)
  qed
qed



end
