(* ===== verification/Registry_Model.thy ===== *)
theory Registry_Model
  imports Requests
begin

text \<open>
  The organization part of the registry: \<open>src/registry/constants.py\<close>, the tables of
  \<open>infrastructure/models.py\<close>, the domain classes of \<open>domain/models\<close>, and the state of the service
  with its database session.

  A column or field whose content comes from JSON is kept as the value it has; the columns the code
  itself writes hold texts. A row of a table that no modelled code reads the timestamps of has none.
\<close>

section \<open>constants.py\<close>

datatype organization_status = ONBOARDING | ONBOARDING_APPROVED | DRAFT | APPROVAL_PENDING | APPROVED
  | PUBLISH_IN_PROGRESS | PUBLISHED | REJECTED | FAILED | PUBLISHED_UNAPPROVED | ONBOARDING_REJECTED
  | CHANGE_REQUESTED

fun organization_status_value :: "organization_status \<Rightarrow> string" where
  "organization_status_value ONBOARDING = ''ONBOARDING''"
| "organization_status_value ONBOARDING_APPROVED = ''ONBOARDING_APPROVED''"
| "organization_status_value DRAFT = ''DRAFT''"
| "organization_status_value APPROVAL_PENDING = ''APPROVAL_PENDING''"
| "organization_status_value APPROVED = ''APPROVED''"
| "organization_status_value PUBLISH_IN_PROGRESS = ''PUBLISH_IN_PROGRESS''"
| "organization_status_value PUBLISHED = ''PUBLISHED''"
| "organization_status_value REJECTED = ''REJECTED''"
| "organization_status_value FAILED = ''FAILED''"
| "organization_status_value PUBLISHED_UNAPPROVED = ''PUBLISHED_UNAPPROVED''"
| "organization_status_value ONBOARDING_REJECTED = ''ONBOARDING_REJECTED''"
| "organization_status_value CHANGE_REQUESTED = ''CHANGE_REQUESTED''"

definition ORG_STATUS_LIST :: "string list" where
  "ORG_STATUS_LIST = map organization_status_value [APPROVED, REJECTED, CHANGE_REQUESTED]"

datatype organization_actions = DRAFT_ACTION | SUBMIT_ACTION | CREATE_ACTION

fun organization_actions_value :: "organization_actions \<Rightarrow> string" where
  "organization_actions_value DRAFT_ACTION = ''DRAFT''"
| "organization_actions_value SUBMIT_ACTION = ''SUBMIT''"
| "organization_actions_value CREATE_ACTION = ''CREATE''"

datatype organization_member_status = Member_PUBLISHED | Member_PENDING | Member_PUBLISH_IN_PROGRESS
  | Member_ACCEPTED

fun organization_member_status_value :: "organization_member_status \<Rightarrow> string" where
  "organization_member_status_value Member_PUBLISHED = ''PUBLISHED''"
| "organization_member_status_value Member_PENDING = ''PENDING''"
| "organization_member_status_value Member_PUBLISH_IN_PROGRESS = ''PUBLISH_IN_PROGRESS''"
| "organization_member_status_value Member_ACCEPTED = ''ACCEPTED''"

datatype role = OWNER | MEMBER

fun role_value :: "role \<Rightarrow> string" where
  "role_value OWNER = ''OWNER''"
| "role_value MEMBER = ''MEMBER''"

datatype action = CREATE | SUBMIT | PUBLISH | UPDATE | READ

datatype organization_type = ORGANIZATION | INDIVIDUAL

fun organization_type_value :: "organization_type \<Rightarrow> string" where
  "organization_type_value ORGANIZATION = ''organization''"
| "organization_type_value INDIVIDUAL = ''individual''"

definition ORG_TYPE_VERIFICATION_TYPE_MAPPING :: "(string \<times> string) list" where
  "ORG_TYPE_VERIFICATION_TYPE_MAPPING =
     [(''INDIVIDUAL'', organization_type_value INDIVIDUAL), (''DUNS'', organization_type_value ORGANIZATION)]"

abbreviation MAIL_ADDRESS :: string where "MAIL_ADDRESS \<equiv> ''mailing_address''"
abbreviation HEAD_QUARTER_ADDRESS :: string where "HEAD_QUARTER_ADDRESS \<equiv> ''headquarters_address''"

section \<open>infrastructure/models.py\<close>

record organization_row =
  org_uuid :: string
  org_name :: pyval
  org_org_id :: pyval
  org_org_type :: pyval
  org_origin :: pyval
  org_description :: pyval
  org_short_description :: pyval
  org_url :: pyval
  org_duns_no :: pyval
  org_contacts :: pyval
  org_assets :: pydict
  org_metadata_uri :: pyval

record address_row =
  adr_org_uuid :: string
  adr_address_type :: pyval
  adr_street_address :: pyval
  adr_apartment :: pyval
  adr_city :: pyval
  adr_pincode :: pyval
  adr_state :: pyval
  adr_country :: pyval

record org_state_row =
  os_org_uuid :: string
  os_state :: string
  os_transaction_hash :: pyval
  os_nonce :: "int option"
  os_test_transaction_hash :: "string option"
  os_wallet_address :: pyval
  os_created_by :: string
  os_updated_by :: string
  os_reviewed_by :: pyval
  os_reviewed_on :: "time option"
  os_comments :: "pyval list"
  os_created_on :: time
  os_updated_on :: time

record member_row =
  mb_invite_code :: pyval
  mb_org_uuid :: string
  mb_role :: pyval
  mb_username :: pyval
  mb_address :: pyval
  mb_status :: pyval
  mb_transaction_hash :: pyval
  mb_invited_on :: "time option"
  mb_updated_on :: time

record group_row =
  grp_name :: pyval
  grp_id :: pyval
  grp_org_uuid :: string
  grp_payment_address :: pyval
  grp_payment_config :: pyval
  grp_status :: pyval

record archive_row =
  arc_organization :: organization_row
  arc_groups :: pyval
  arc_org_state :: pyval

section \<open>domain/models\<close>

record org_group =
  g_name :: pyval
  g_group_id :: pyval
  g_payment_address :: pyval
  g_payment_config :: pyval
  g_status :: pyval

record org_address =
  a_address_type :: pyval
  a_street_address :: pyval
  a_apartment :: pyval
  a_pincode :: pyval
  a_city :: pyval
  a_country :: pyval
  a_state :: pyval

record comment =
  c_comment :: pyval
  c_created_by :: pyval
  c_created_on :: pyval

record organization_state =
  st_org_uuid :: string
  st_state :: string
  st_transaction_hash :: pyval
  st_wallet_address :: pyval
  st_created_by :: string
  st_updated_by :: string
  st_reviewed_by :: pyval
  st_reviewed_on :: "time option"
  st_comments :: "comment list"
  st_updated_on :: time
  st_created_on :: time

text \<open>The state of an organization that does not come from the database is nothing: \<open>None\<close> for a
  request, an empty list when there is no row, the text \<open>DRAFT\<close> for a blockchain event.\<close>

record organization =
  o_uuid :: string
  o_id :: pyval
  o_name :: pyval
  o_org_type :: pyval
  o_origin :: pyval
  o_description :: pyval
  o_short_description :: pyval
  o_url :: pyval
  o_contacts :: pyval
  o_assets :: pydict
  o_metadata_uri :: pyval
  o_duns_no :: pyval
  o_groups :: "org_group list"
  o_addresses :: "org_address list"
  o_org_state :: "organization_state option"

record org_member =
  m_org_uuid :: string
  m_username :: pyval
  m_status :: pyval
  m_role :: pyval
  m_address :: pyval
  m_invite_code :: pyval
  m_transaction_hash :: pyval
  m_invited_on :: "time option"
  m_updated_on :: "time option"

section \<open>State and environment\<close>

text \<open>
  The database session is shared and long-lived: what it shows is the stored tables and the changes
  that are not committed yet.
\<close>

record reg_db =
  organization_table :: "organization_row list"
  org_state_table :: "org_state_row list"
  group_table :: "group_row list"
  address_table :: "address_row list"
  member_table :: "member_row list"
  archive_table :: "archive_row list"

text \<open>The mails of \<open>mail_templates.py\<close> by template and arguments.\<close>

datatype mail = OrgMemberInviteMail pyval pyval | OrgRejectedMail pyval pyval
  | OrgChangesRequestedMail pyval pyval | OrgApprovedMail pyval

datatype storage_provider_type = IPFS | FILECOIN

datatype reg_call =
    Notify pyval mail
  | DownloadAsset pyval
  | UploadFile storage_provider_type string
  | DownloadFile storage_provider_type string
  | GetOrganizationById string
  | GetTransactionReceipt pyval

record reg_world =
  session :: reg_db
  stored :: reg_db
  reg_calls :: "reg_call list"
  random_supply :: nat

text \<open>
  A blockchain organization as the contract's getter gives it: the metadata URI with its padding, the
  owner and the members. \<open>deep_diff\<close> is \<open>bool(DeepDiff(a, b, ...))\<close> for the excluded types, paths
  and path patterns.
\<close>

record blockchain_organization =
  bo_found :: bool
  bo_metadata_uri :: string
  bo_owner :: pyval
  bo_members :: "pyval list"

record reg_env =
  now :: time
  column_time :: "time \<Rightarrow> time"
  uuid4_hex :: "nat \<Rightarrow> string"
  random_group_id :: "nat \<Rightarrow> string"
  loads :: "string \<Rightarrow> exn + pyval"
  is_address :: "string \<Rightarrow> bool"
  notification :: "reg_call list \<Rightarrow> reg_call \<Rightarrow> exn + unit"
  download :: "reg_call list \<Rightarrow> reg_call \<Rightarrow> exn + nat \<times> string"
  upload :: "reg_call list \<Rightarrow> reg_call \<Rightarrow> exn + string"
  download_file :: "reg_call list \<Rightarrow> reg_call \<Rightarrow> exn + string"
  get_organization_by_id :: "reg_call list \<Rightarrow> reg_call \<Rightarrow> exn + blockchain_organization"
  transaction_receipt :: "reg_call list \<Rightarrow> reg_call \<Rightarrow> exn + int option"
  deep_diff :: "string list \<Rightarrow> string list \<Rightarrow> string list \<Rightarrow> organization \<Rightarrow> organization \<Rightarrow> bool"
  literal_eval :: "string \<Rightarrow> exn + pydict"
  web3_to_text :: "pyval \<Rightarrow> exn + string"
  ALLOWED_ORIGIN :: "string list"
  serverless_offline :: bool
  pydantic_int :: "pyval \<Rightarrow> int option"

type_synonym 'a rprog = "(reg_world, 'a) prog"

definition reg_external :: "(reg_call list \<Rightarrow> reg_call \<Rightarrow> exn + 'a) \<Rightarrow> reg_call \<Rightarrow> 'a rprog" where
  "reg_external answer c =
     (\<lambda>w. (answer (reg_calls w) c, w\<lparr>reg_calls := reg_calls w @ [c]\<rparr>))"

definition draw :: "(nat \<Rightarrow> string) \<Rightarrow> string rprog" where
  "draw generator = (\<lambda>w. (Inr (generator (random_supply w)), w\<lparr>random_supply := Suc (random_supply w)\<rparr>))"

subsection \<open>infrastructure/repositories/base\_repository.py\<close>

definition reg_query :: "(reg_db \<Rightarrow> 'a) \<Rightarrow> 'a rprog" where
  "reg_query f = gets (\<lambda>w. f (session w))"

definition reg_execute :: "(reg_db \<Rightarrow> reg_db) \<Rightarrow> unit rprog" where
  "reg_execute f = modify (\<lambda>w. w\<lparr>session := f (session w)\<rparr>)"

definition commit :: "unit rprog" where
  "commit = modify (\<lambda>w. w\<lparr>stored := session w\<rparr>)"

definition rollback :: "unit rprog" where
  "rollback = modify (\<lambda>w. w\<lparr>session := stored w\<rparr>)"

definition write_ops :: "'a rprog \<Rightarrow> 'a rprog" where
  "write_ops m = try_except m (\<lambda>e. andthen rollback (\<lambda>_. raise e))"

text \<open>\<open>add_item\<close> and \<open>add_all_items\<close>: the rows are inserted when the session is committed.\<close>

definition add_items :: "(reg_db \<Rightarrow> bool) \<Rightarrow> (reg_db \<Rightarrow> reg_db) \<Rightarrow> unit rprog" where
  "add_items ok f =
     write_ops (andthen (reg_query ok) (\<lambda>b.
       if b then andthen (reg_execute f) (\<lambda>_. commit) else raise IntegrityError))"

lemma reg_query_apply [simp, prog_simps]: "reg_query f w = (Inr (f (session w)), w)"
  by (simp add: reg_query_def)

lemma reg_execute_apply [simp, prog_simps]: "reg_execute f w = (Inr (), w\<lparr>session := f (session w)\<rparr>)"
  by (simp add: reg_execute_def)

lemma commit_apply [simp, prog_simps]: "commit w = (Inr (), w\<lparr>stored := session w\<rparr>)"
  by (simp add: commit_def)

lemma rollback_apply [simp, prog_simps]: "rollback w = (Inr (), w\<lparr>session := stored w\<rparr>)"
  by (simp add: rollback_def)

lemma reg_external_apply [simp, prog_simps]:
  "reg_external answer c w = (answer (reg_calls w) c, w\<lparr>reg_calls := reg_calls w @ [c]\<rparr>)"
  by (simp add: reg_external_def)

lemma draw_apply [simp, prog_simps]:
  "draw g w = (Inr (g (random_supply w)), w\<lparr>random_supply := Suc (random_supply w)\<rparr>)"
  by (simp add: draw_def)

lemma write_ops_apply [prog_simps]:
  "write_ops m w = (case m w of (Inl e, w') \<Rightarrow> (Inl e, w'\<lparr>session := stored w'\<rparr>) | (Inr a, w') \<Rightarrow> (Inr a, w'))"
  by (simp add: write_ops_def try_except_def andthen_def split: prod.split sum.split)

lemma andthen_head [simp]:
  "andthen (reg_query f) k w = k (f (session w)) w"
  "andthen (reg_execute g) k' w = k' () (w\<lparr>session := g (session w)\<rparr>)"
  "andthen commit k' w = k' () (w\<lparr>stored := session w\<rparr>)"
  "andthen (draw h) k'' w = k'' (h (random_supply w)) (w\<lparr>random_supply := Suc (random_supply w)\<rparr>)"
  by (simp_all add: andthen_def)

lemma add_items_apply [simp, prog_simps]:
  "add_items ok f w =
     (if ok (session w) then (Inr (), w\<lparr>session := f (session w), stored := f (session w)\<rparr>)
      else (Inl IntegrityError, w\<lparr>session := stored w\<rparr>))"
  by (simp add: add_items_def write_ops_apply)

end
