(* ===== verification/Registry_Domain.thy ===== *)
theory Registry_Domain
  imports Registry_Model "HOL-Library.List_Lexorder" "HOL-Library.Char_ord"
begin

text \<open>
  \<open>domain/models\<close> and \<open>domain/factory/organization_factory.py\<close>: the operations of the domain classes
  of an organization and the conversions between requests, metadata, rows and domain objects.
\<close>

section \<open>exceptions.py\<close>

definition OrganizationNotFoundException :: exn where
  "OrganizationNotFoundException = BadRequestException ''Bad request exception'' []"

definition InvalidOriginException :: exn where
  "InvalidOriginException = BadRequestException ''Invalid origin'' []"

definition InvalidOrganizationStateException :: exn where
  "InvalidOrganizationStateException = BadRequestException ''Invalid organization state'' []"

definition NewMemberAddressException :: exn where
  "NewMemberAddressException = BadRequestException ''New member address equals owner address'' []"

section \<open>domain/models/group.py\<close>

definition group_to_metadata :: "org_group \<Rightarrow> exn + pyval" where
  "group_to_metadata g =
     sbind (getitem (g_payment_config g) ''payment_expiration_threshold'') (\<lambda>threshold.
     sbind (getitem (g_payment_config g) ''payment_channel_storage_type'') (\<lambda>storage_type.
     sbind (getitem (g_payment_config g) ''payment_channel_storage_client'') (\<lambda>storage_client.
     Inr (PDict
       [(''group_name'', g_name g), (''group_id'', g_group_id g),
        (''payment'', PDict
          [(''payment_address'', g_payment_address g), (''payment_expiration_threshold'', threshold),
           (''payment_channel_storage_type'', storage_type),
           (''payment_channel_storage_client'', storage_client)])]))))"

definition group_to_response :: "org_group \<Rightarrow> pyval" where
  "group_to_response g = PDict
     [(''name'', g_name g), (''id'', g_group_id g), (''payment_address'', g_payment_address g),
      (''payment_config'', g_payment_config g), (''status'', g_status g)]"

definition py_len :: "pyval \<Rightarrow> exn + nat" where
  "py_len v =
     (case v of PStr s \<Rightarrow> Inr (length s) | PList vs \<Rightarrow> Inr (length vs) | PDict d \<Rightarrow> Inr (length d)
      | _ \<Rightarrow> Inl TypeError)"

definition group_setup_id :: "reg_env \<Rightarrow> org_group \<Rightarrow> org_group rprog" where
  "group_setup_id env g =
     andthen (if g_group_id g = PNone then ret True
              else andthen (of_sum (py_len (g_group_id g))) (\<lambda>n. ret (n = 0))) (\<lambda>missing.
     if missing then
       andthen (draw (random_group_id env)) (\<lambda>i. ret (g\<lparr>g_group_id := PStr i\<rparr>))
     else ret g)"

section \<open>domain/models/organization\_address.py\<close>

definition address_to_response :: "org_address \<Rightarrow> pyval" where
  "address_to_response a = PDict
     [(''address_type'', a_address_type a), (''street_address'', a_street_address a),
      (''apartment'', a_apartment a), (''city'', a_city a), (''pincode'', a_pincode a),
      (''state'', a_state a), (''country'', a_country a)]"

text \<open>Equality of addresses leaves their type out.\<close>

definition address_eq :: "org_address \<Rightarrow> org_address \<Rightarrow> bool" where
  "address_eq a b \<longleftrightarrow>
     a_apartment a = a_apartment b \<and> a_street_address a = a_street_address b \<and> a_city a = a_city b \<and>
     a_state a = a_state b \<and> a_pincode a = a_pincode b \<and> a_country a = a_country b"

section \<open>domain/models/comment.py and organization\_member.py\<close>

definition comment_to_dict :: "comment \<Rightarrow> pyval" where
  "comment_to_dict c = PDict
     [(''comment'', c_comment c), (''created_by'', c_created_by c), (''created_on'', c_created_on c)]"

definition time_text :: "time option \<Rightarrow> pyval" where
  "time_text t = PStr (case t of None \<Rightarrow> [] | Some x \<Rightarrow> strftime x)"

definition member_to_response :: "org_member \<Rightarrow> pydict" where
  "member_to_response m =
     [(''username'', m_username m), (''address'', m_address m), (''status'', m_status m), (''role'', m_role m),
      (''invited_on'', time_text (m_invited_on m)), (''updated_on'', time_text (m_updated_on m))]"

section \<open>domain/models/organization.py\<close>

text \<open>Sorting compares the creation times, which are texts; a single comment is not compared.\<close>

definition comment_dict_list :: "comment list \<Rightarrow> exn + pyval list" where
  "comment_dict_list cs =
     (case cs of
        [] \<Rightarrow> Inr []
      | [c] \<Rightarrow> Inr [comment_to_dict c]
      | _ \<Rightarrow> sbind (smap (\<lambda>c. sbind (as_text (c_created_on c)) (\<lambda>t. Inr (t, c))) cs) (\<lambda>keyed.
             Inr (map (\<lambda>p. comment_to_dict (snd p)) (order_desc fst keyed))))"

definition state_to_response :: "organization_state \<Rightarrow> exn + pyval" where
  "state_to_response st =
     sbind (comment_dict_list (st_comments st)) (\<lambda>comments.
     Inr (PDict
       [(''state'', PStr (st_state st)), (''updated_on'', PStr (strftime (st_updated_on st))),
        (''updated_by'', PStr (st_updated_by st)), (''reviewed_by'', st_reviewed_by st),
        (''reviewed_on'', time_text (st_reviewed_on st)), (''comments'', PList comments)]))"

definition state_to_dict :: "organization_state \<Rightarrow> pyval" where
  "state_to_dict st = PDict
     [(''state'', PStr (st_state st)), (''transaction_hash'', st_transaction_hash st),
      (''wallet_address'', st_wallet_address st), (''created_by'', PStr (st_created_by st)),
      (''updated_by'', PStr (st_updated_by st)), (''reviewed_by'', st_reviewed_by st),
      (''reviewed_on'', time_text (st_reviewed_on st)), (''created_on'', PStr (strftime (st_created_on st))),
      (''updated_on'', PStr (strftime (st_updated_on st)))]"

definition get_status :: "organization \<Rightarrow> string option" where
  "get_status org = map_option st_state (o_org_state org)"

text \<open>infrastructure/storage\_provider.py\<close>

fun storage_provider_value :: "storage_provider_type \<Rightarrow> string" where
  "storage_provider_value IPFS = ''ipfs''"
| "storage_provider_value FILECOIN = ''filecoin''"

definition get_storage_provider_by_uri :: "string \<Rightarrow> string" where
  "get_storage_provider_by_uri uri =
     (if prefix_of ''ipfs://'' uri then storage_provider_value IPFS
      else if prefix_of ''filecoin://'' uri then storage_provider_value FILECOIN
      else storage_provider_value IPFS)"

definition hash_to_uri :: "string \<Rightarrow> storage_provider_type \<Rightarrow> string" where
  "hash_to_uri metadata_hash provider_type =
     (case provider_type of IPFS \<Rightarrow> ''ipfs://'' @ metadata_hash | FILECOIN \<Rightarrow> ''filecoin://'' @ metadata_hash)"

definition uri_to_hash :: "string \<Rightarrow> storage_provider_type \<times> string" where
  "uri_to_hash s =
     (if prefix_of ''ipfs://'' s then (IPFS, drop 7 s)
      else if prefix_of ''filecoin://'' s then (FILECOIN, drop 11 s)
      else (IPFS, s))"

text \<open>A text value, or the \<open>AttributeError\<close> of a text method on anything else.\<close>

definition text_of :: "pyval \<Rightarrow> exn + string" where
  "text_of v = (case v of PStr s \<Rightarrow> Inr s | _ \<Rightarrow> Inl AttributeError)"

definition value_get :: "pyval \<Rightarrow> string \<Rightarrow> pyval \<Rightarrow> exn + pyval" where
  "value_get v k otherwise =
     (case v of PDict d \<Rightarrow> Inr (case dict_get d k of None \<Rightarrow> otherwise | Some x \<Rightarrow> x) | _ \<Rightarrow> Inl AttributeError)"

definition asset_uri :: "pyval \<Rightarrow> exn + pyval" where
  "asset_uri asset =
     sbind (value_get asset ''ipfs_hash'' PNone) (\<lambda>ipfs_hash.
     sbind (if truthy ipfs_hash then Inr ipfs_hash else value_get asset ''hash'' (PStr [])) (\<lambda>v.
     sbind (text_of v) (\<lambda>hash_uri.
     Inr (PStr (if \<not> prefix_of ''ipfs://'' hash_uri \<and> \<not> prefix_of ''filecoin://'' hash_uri
                then ''ipfs://'' @ hash_uri else hash_uri)))))"

definition to_metadata :: "organization \<Rightarrow> exn + pydict" where
  "to_metadata org =
     sbind (smap (\<lambda>(key, asset). sbind (asset_uri asset) (\<lambda>u. Inr (key, u))) (o_assets org)) (\<lambda>result_assets.
     sbind (smap group_to_metadata (o_groups org)) (\<lambda>groups.
     Inr [(''org_name'', o_name org), (''org_id'', o_id org), (''org_type'', o_org_type org),
          (''description'', PDict
            [(''description'', o_description org), (''short_description'', o_short_description org),
             (''url'', o_url org)]),
          (''contacts'', o_contacts org), (''assets'', PDict result_assets), (''groups'', PList groups)]))"

text \<open>The last address of each type.\<close>

definition last_address :: "string \<Rightarrow> org_address list \<Rightarrow> org_address option" where
  "last_address t as = first_or_none (rev (filter (\<lambda>a. a_address_type a = PStr t) as))"

definition to_response :: "organization \<Rightarrow> exn + pydict" where
  "to_response org =
     (let same = (case (last_address MAIL_ADDRESS (o_addresses org), last_address HEAD_QUARTER_ADDRESS (o_addresses org)) of
                    (Some m, Some h) \<Rightarrow> address_eq m h | _ \<Rightarrow> False) in
      sbind (if truthy (o_metadata_uri org)
             then sbind (text_of (o_metadata_uri org)) (\<lambda>u. Inr (PStr (get_storage_provider_by_uri u)))
             else Inr PNone) (\<lambda>provider.
      sbind (case o_org_state org of None \<Rightarrow> Inr (PDict []) | Some st \<Rightarrow> state_to_response st) (\<lambda>state.
      Inr [(''org_name'', o_name org), (''org_id'', o_id org), (''org_uuid'', PStr (o_uuid org)),
           (''org_type'', o_org_type org), (''description'', o_description org),
           (''short_description'', o_short_description org), (''url'', o_url org), (''duns_no'', o_duns_no org),
           (''origin'', o_origin org), (''contacts'', o_contacts org), (''assets'', PDict (o_assets org)),
           (''metadata_uri'', o_metadata_uri org), (''storage_provider'', provider),
           (''groups'', PList (map group_to_response (o_groups org))),
           (''org_address'', PDict
             [(''mail_address_same_hq_address'', PBool same),
              (''addresses'', PList (map address_to_response (o_addresses org)))]),
           (''state'', state)])))"

definition setup_id :: "reg_env \<Rightarrow> organization \<Rightarrow> organization rprog" where
  "setup_id env org =
     andthen (draw (uuid4_hex env)) (\<lambda>uuid.
     ret (if o_org_type org = PStr (organization_type_value INDIVIDUAL)
          then org\<lparr>o_uuid := uuid, o_id := PStr uuid\<rparr> else org\<lparr>o_uuid := uuid\<rparr>))"

text \<open>The paths that the comparison of two organizations leaves out. The class is a dataclass, so its
  fields are at \<open>root.uuid\<close>, \<open>root.org_state\<close> and so on.\<close>

definition BLOCKCHAIN_EXCLUDE_PATHS :: "string list" where
  "BLOCKCHAIN_EXCLUDE_PATHS =
     [''root._Organization__uuid'', ''root._Organization__duns_no'', ''root._Organization__registration_id'',
      ''root._Organization__registration_type'', ''root._Organization__origin'', ''root._Organization__state'',
      ''root._Organization__addresses'',
      ''root._Organization__assets['' @ [CHR 0x27] @ ''hero_image'' @ [CHR 0x27] @ '']['' @ [CHR 0x27] @ ''url'' @ [CHR 0x27] @ '']'']"

definition BLOCKCHAIN_EXCLUDE_REGEX_PATH :: "string list" where
  "BLOCKCHAIN_EXCLUDE_REGEX_PATH =
     [''root'' @ [CHR 0x5C] @ ''._Organization__groups'' @ [CHR 0x5C] @ ''[.*'' @ [CHR 0x5C] @ '']'' @ [CHR 0x5C] @ ''.status'']"

definition is_blockchain_major_change :: "reg_env \<Rightarrow> organization \<Rightarrow> organization \<Rightarrow> bool" where
  "is_blockchain_major_change env org updated =
     deep_diff env [''OrganizationAddress'', ''OrganizationState''] BLOCKCHAIN_EXCLUDE_PATHS
       BLOCKCHAIN_EXCLUDE_REGEX_PATH org updated"

text \<open>The machine of the states an owner's own actions lead through.\<close>

definition next_state_for_update :: "organization \<Rightarrow> exn + string" where
  "next_state_for_update current =
     (let status = get_status current; is_status = (\<lambda>s. status = Some (organization_status_value s)) in
      if is_status CHANGE_REQUESTED \<or> is_status ONBOARDING then
        Inr (organization_status_value ONBOARDING_APPROVED)
      else if is_status APPROVED \<or> is_status PUBLISHED then Inr (organization_status_value APPROVED)
      else if is_status ONBOARDING_APPROVED then Inr (organization_status_value ONBOARDING_APPROVED)
      else if is_status APPROVAL_PENDING then Inr (organization_status_value APPROVED)
      else Inl (OperationNotAllowed []))"

definition next_state :: "organization option \<Rightarrow> string \<Rightarrow> exn + string" where
  "next_state current act =
     (if act = organization_actions_value DRAFT_ACTION \<or> act = organization_actions_value SUBMIT_ACTION then
        (case current of None \<Rightarrow> Inl AttributeError | Some org \<Rightarrow> next_state_for_update org)
      else if act = organization_actions_value CREATE_ACTION then
        Inr (organization_status_value ONBOARDING_APPROVED)
      else Inl (py_exception ''Invalid Action for Organization''))"

section \<open>domain/factory/organization\_factory.py\<close>

definition group_domain_entity_from_payload :: "reg_env \<Rightarrow> pyval \<Rightarrow> org_group rprog" where
  "group_domain_entity_from_payload env payload =
     andthen (of_sum (getitem payload ''id'')) (\<lambda>group_id.
     andthen (of_sum (getitem payload ''name'')) (\<lambda>group_name.
     andthen (of_sum (getitem payload ''payment_address'')) (\<lambda>payment_address.
     andthen (of_sum (getitem payload ''payment_config'')) (\<lambda>payment_config.
     group_setup_id env
       \<lparr>g_name = group_name, g_group_id = group_id, g_payment_address = payment_address,
        g_payment_config = payment_config, g_status = PStr []\<rparr>))))"

definition group_domain_entity_from_group_list_payload :: "reg_env \<Rightarrow> pyval list \<Rightarrow> org_group list rprog" where
  "group_domain_entity_from_group_list_payload env payload =
     map_each (group_domain_entity_from_payload env) payload"

definition domain_address_entity_from_payload :: "pyval \<Rightarrow> exn + org_address" where
  "domain_address_entity_from_payload payload =
     sbind (value_get payload ''address_type'' PNone) (\<lambda>address_type.
     if address_type \<notin> {PStr HEAD_QUARTER_ADDRESS, PStr MAIL_ADDRESS} then Inl (BadRequestException [] [])
     else
       (case payload of
          PDict d \<Rightarrow>
            (let part = (\<lambda>k. case dict_get d k of None \<Rightarrow> PNone | Some v \<Rightarrow> v) in
             Inr \<lparr>a_address_type = address_type, a_street_address = part ''street_address'',
                  a_apartment = part ''apartment'', a_pincode = part ''pincode'', a_city = part ''city'',
                  a_country = part ''country'', a_state = part ''state''\<rparr>)
        | _ \<Rightarrow> Inl AttributeError))"

text \<open>A loop over a value that should be a list.\<close>

definition py_iter :: "pyval \<Rightarrow> exn + pyval list" where
  "py_iter v =
     (case v of
        PList vs \<Rightarrow> Inr vs
      | PDict d \<Rightarrow> Inr (map (\<lambda>(k, _). PStr k) d)
      | PStr s \<Rightarrow> Inr (map (\<lambda>c. PStr [c]) s)
      | _ \<Rightarrow> Inl TypeError)"

definition domain_address_entity_from_address_list_payload :: "pyval \<Rightarrow> exn + org_address list" where
  "domain_address_entity_from_address_list_payload raw_addresses =
     sbind (py_iter raw_addresses) (smap domain_address_entity_from_payload)"

text \<open>application/schemas/organization.py: the validated request to create or update.\<close>

record organization_request =
  rq_uuid :: string
  rq_id :: string
  rq_name :: string
  rq_type :: string
  rq_description :: string
  rq_short_description :: string
  rq_url :: string
  rq_duns_no :: string
  rq_origin :: string
  rq_contacts :: "pyval list"
  rq_assets :: pydict
  rq_metadata_uri :: string
  rq_groups :: "pyval list"
  rq_org_address :: pydict

definition create_organization_entity_from_request ::
  "reg_env \<Rightarrow> organization_request \<Rightarrow> organization rprog" where
  "create_organization_entity_from_request env request =
     andthen (group_domain_entity_from_group_list_payload env (rq_groups request)) (\<lambda>groups.
     andthen (of_sum (sbind (getitem (PDict (rq_org_address request)) ''addresses'')
       domain_address_entity_from_address_list_payload)) (\<lambda>addresses.
     ret \<lparr>o_uuid = rq_uuid request, o_id = PStr (rq_id request), o_name = PStr (rq_name request),
          o_org_type = PStr (rq_type request), o_origin = PStr (rq_origin request),
          o_description = PStr (rq_description request),
          o_short_description = PStr (rq_short_description request), o_url = PStr (rq_url request),
          o_contacts = PList (rq_contacts request), o_assets = rq_assets request,
          o_metadata_uri = PStr (rq_metadata_uri request), o_duns_no = PStr (rq_duns_no request),
          o_groups = groups, o_addresses = addresses, o_org_state = None\<rparr>))"

definition get_comment_from_db :: "pyval list \<Rightarrow> exn + comment list" where
  "get_comment_from_db comments =
     smap (\<lambda>c. sbind (getitem c ''comment'') (\<lambda>text.
       sbind (getitem c ''created_by'') (\<lambda>author.
       sbind (getitem c ''created_at'') (\<lambda>time.
       Inr \<lparr>c_comment = text, c_created_by = author, c_created_on = time\<rparr>)))) comments"

definition parse_group_data_model :: "group_row list \<Rightarrow> org_group list" where
  "parse_group_data_model items =
     map (\<lambda>r. \<lparr>g_name = grp_name r, g_group_id = grp_id r, g_payment_address = grp_payment_address r,
               g_payment_config = grp_payment_config r, g_status = grp_status r\<rparr>) items"

definition parse_organization_address_data_model :: "address_row list \<Rightarrow> org_address list" where
  "parse_organization_address_data_model items =
     map (\<lambda>r. \<lparr>a_address_type = adr_address_type r, a_street_address = adr_street_address r,
               a_apartment = adr_apartment r, a_pincode = adr_pincode r, a_city = adr_city r,
               a_country = adr_country r, a_state = adr_state r\<rparr>) items"

definition parse_organization_state_from_db :: "org_state_row \<Rightarrow> exn + organization_state" where
  "parse_organization_state_from_db item =
     sbind (get_comment_from_db (os_comments item)) (\<lambda>comments.
     Inr \<lparr>st_org_uuid = os_org_uuid item, st_state = os_state item,
          st_transaction_hash = os_transaction_hash item, st_wallet_address = os_wallet_address item,
          st_created_by = os_created_by item, st_updated_by = os_updated_by item,
          st_reviewed_by = os_reviewed_by item, st_reviewed_on = os_reviewed_on item,
          st_comments = comments, st_updated_on = os_updated_on item, st_created_on = os_created_on item\<rparr>)"

definition parse_organization_state_data_model :: "org_state_row list \<Rightarrow> exn + organization_state option" where
  "parse_organization_state_data_model items =
     (case items of [] \<Rightarrow> Inr None
      | item # _ \<Rightarrow> sbind (parse_organization_state_from_db item) (\<lambda>st. Inr (Some st)))"

definition parse_organization_state_from_db_list :: "org_state_row list \<Rightarrow> exn + organization_state list" where
  "parse_organization_state_from_db_list rows = smap parse_organization_state_from_db rows"

text \<open>The relationships of a row: the rows of the other tables that refer to it.\<close>

definition states_of :: "reg_db \<Rightarrow> string \<Rightarrow> org_state_row list" where
  "states_of db uuid = filter (\<lambda>s. os_org_uuid s = uuid) (org_state_table db)"

definition groups_of :: "reg_db \<Rightarrow> string \<Rightarrow> group_row list" where
  "groups_of db uuid = filter (\<lambda>g. grp_org_uuid g = uuid) (group_table db)"

definition addresses_of :: "reg_db \<Rightarrow> string \<Rightarrow> address_row list" where
  "addresses_of db uuid = filter (\<lambda>a. adr_org_uuid a = uuid) (address_table db)"

definition org_domain_entity_from_repo_model :: "reg_db \<Rightarrow> organization_row \<Rightarrow> exn + organization" where
  "org_domain_entity_from_repo_model db r =
     sbind (parse_organization_state_data_model (states_of db (org_uuid r))) (\<lambda>state.
     Inr \<lparr>o_uuid = org_uuid r, o_id = org_org_id r, o_name = org_name r, o_org_type = org_org_type r,
          o_origin = org_origin r, o_description = org_description r,
          o_short_description = org_short_description r, o_url = org_url r, o_contacts = org_contacts r,
          o_assets = org_assets r, o_metadata_uri = org_metadata_uri r, o_duns_no = org_duns_no r,
          o_groups = parse_group_data_model (groups_of db (org_uuid r)),
          o_addresses = parse_organization_address_data_model (addresses_of db (org_uuid r)),
          o_org_state = state\<rparr>)"

definition org_member_domain_entity_from_repo_model :: "member_row \<Rightarrow> org_member" where
  "org_member_domain_entity_from_repo_model r =
     \<lparr>m_org_uuid = mb_org_uuid r, m_username = mb_username r, m_status = mb_status r, m_role = mb_role r,
      m_address = mb_address r, m_invite_code = mb_invite_code r, m_transaction_hash = mb_transaction_hash r,
      m_invited_on = mb_invited_on r, m_updated_on = Some (mb_updated_on r)\<rparr>"

definition org_member_domain_entity_from_payload :: "string \<Rightarrow> pyval \<Rightarrow> exn + org_member" where
  "org_member_domain_entity_from_payload uuid payload =
     (case payload of
        PDict d \<Rightarrow>
          (let part = (\<lambda>k. case dict_get d k of None \<Rightarrow> PStr [] | Some v \<Rightarrow> v) in
           Inr \<lparr>m_org_uuid = uuid, m_username = part ''username'', m_status = part ''status'',
                m_role = part ''role'', m_address = part ''address'', m_invite_code = part ''invite_code'',
                m_transaction_hash = part ''transaction_hash'', m_invited_on = None, m_updated_on = None\<rparr>)
      | _ \<Rightarrow> Inl AttributeError)"

definition org_member_domain_entity_from_payload_list :: "pyval list \<Rightarrow> string \<Rightarrow> exn + org_member list" where
  "org_member_domain_entity_from_payload_list payload uuid =
     smap (org_member_domain_entity_from_payload uuid) payload"

definition parse_group_domain_entity_from_metadata :: "reg_env \<Rightarrow> pyval \<Rightarrow> org_group rprog" where
  "parse_group_domain_entity_from_metadata env payload =
     andthen (of_sum (getitem payload ''group_id'')) (\<lambda>group_id.
     andthen (of_sum (getitem payload ''group_name'')) (\<lambda>group_name.
     andthen (of_sum (getitems payload [''payment'', ''payment_address''])) (\<lambda>payment_address.
     andthen (of_sum (getitems payload [''payment'', ''payment_expiration_threshold''])) (\<lambda>threshold.
     andthen (of_sum (getitems payload [''payment'', ''payment_channel_storage_type''])) (\<lambda>storage_type.
     andthen (of_sum (getitems payload [''payment'', ''payment_channel_storage_client''])) (\<lambda>storage_client.
     group_setup_id env
       \<lparr>g_name = group_name, g_group_id = group_id, g_payment_address = payment_address,
        g_payment_config = PDict
          [(''payment_expiration_threshold'', threshold), (''payment_channel_storage_type'', storage_type),
           (''payment_channel_storage_client'', storage_client)],
        g_status = PStr []\<rparr>))))))"

definition group_domain_entity_from_group_list_metadata :: "reg_env \<Rightarrow> pyval \<Rightarrow> org_group list rprog" where
  "group_domain_entity_from_group_list_metadata env payload =
     andthen (of_sum (py_iter payload)) (\<lambda>groups. map_each (parse_group_domain_entity_from_metadata env) groups)"

text \<open>The URL of an asset is carried from one asset to the next when the existing one has none.\<close>

fun metadata_assets :: "pydict \<Rightarrow> pyval \<Rightarrow> pydict \<Rightarrow> exn + pydict" where
  "metadata_assets existing_assets url [] = Inr []"
| "metadata_assets existing_assets url ((key, v) # rest) =
     sbind (case dict_get existing_assets key of
              None \<Rightarrow> Inr (PStr [])
            | Some old \<Rightarrow>
                if truthy old then
                  sbind (py_in ''url'' old) (\<lambda>has. if has then getitem old ''url'' else Inr url)
                else Inr url) (\<lambda>url'.
     sbind (metadata_assets existing_assets url' rest) (\<lambda>assets.
     Inr ((key, PDict [(''hash'', v), (''url'', url')]) # assets)))"

definition parse_organization_metadata_assets :: "pydict \<Rightarrow> pydict \<Rightarrow> exn + pydict" where
  "parse_organization_metadata_assets assets existing_assets =
     sbind (metadata_assets existing_assets (PStr []) assets) (\<lambda>parsed.
     Inr (dict_update existing_assets parsed))"

end
