(* ===== verification/Registry_Repository.thy ===== *)
theory Registry_Repository
  imports Registry_Domain
begin

text \<open>
  \<open>infrastructure/repositories/organization_repository.py\<close>: the queries and writes of the
  organization tables. A write method commits what it did, or rolls the session back and raises; the
  two deletions at the end differ in this, and \<open>delete_org_member\<close> does not commit at all.
\<close>

section \<open>Timestamps\<close>

definition db_now :: "reg_env \<Rightarrow> time" where
  "db_now env = column_time env (now env)"

definition touch_state :: "reg_env \<Rightarrow> (org_state_row \<Rightarrow> org_state_row) \<Rightarrow> org_state_row \<Rightarrow> org_state_row" where
  "touch_state env = touch (\<lambda>t r. r\<lparr>os_updated_on := t\<rparr>) (db_now env)"

definition touch_member :: "reg_env \<Rightarrow> (member_row \<Rightarrow> member_row) \<Rightarrow> member_row \<Rightarrow> member_row" where
  "touch_member env = touch (\<lambda>t r. r\<lparr>mb_updated_on := t\<rparr>) (db_now env)"

text \<open>\<open>column.in_(values)\<close>: never true of NULL.\<close>

definition sql_in :: "pyval \<Rightarrow> pyval list \<Rightarrow> bool" where
  "sql_in v vs \<longleftrightarrow> v \<noteq> PNone \<and> v \<in> set vs"

section \<open>Queries\<close>

definition get_organizations :: "string \<Rightarrow> int option \<Rightarrow> string \<Rightarrow> organization list rprog" where
  "get_organizations status limit org_type =
     andthen (reg_query (\<lambda>db. (db,
       (case limit of Some n \<Rightarrow> (if n = 0 then (\<lambda>rows. rows) else take (nat n)) | None \<Rightarrow> (\<lambda>rows. rows))
         (filter (\<lambda>r. (\<exists>s \<in> set (org_state_table db). os_org_uuid s = org_uuid r \<and>
              (status = [] \<or> os_state s = status)) \<and>
            (org_type = [] \<or> org_org_type r = PStr org_type)) (organization_table db))))) (\<lambda>(db, rows).
     of_sum (smap (org_domain_entity_from_repo_model db) rows))"

definition get_organization :: "string option \<Rightarrow> string option \<Rightarrow> organization option rprog" where
  "get_organization org_id uuid =
     andthen (reg_query (\<lambda>db. (db, sql_first (\<lambda>r.
       states_of db (org_uuid r) \<noteq> [] \<and>
       (case org_id of Some (c # cs) \<Rightarrow> org_org_id r = PStr (c # cs) | _ \<Rightarrow> True) \<and>
       (case uuid of Some (c # cs) \<Rightarrow> org_uuid r = c # cs | _ \<Rightarrow> True)) (organization_table db)))) (\<lambda>(db, row).
     case row of
       None \<Rightarrow> ret None
     | Some r \<Rightarrow> andthen (of_sum (org_domain_entity_from_repo_model db r)) (\<lambda>org. ret (Some org)))"

text \<open>Each organization the user belongs to, with each of its owners.\<close>

definition get_all_orgs_for_user :: "string \<Rightarrow> (organization \<times> org_member) list rprog" where
  "get_all_orgs_for_user username =
     andthen (reg_query (\<lambda>db. (db, concat (map (\<lambda>r.
        if \<exists>m \<in> set (member_table db). mb_org_uuid m = org_uuid r \<and> mb_username m = PStr username \<and>
             mb_role m \<in> {PStr (role_value MEMBER), PStr (role_value OWNER)}
        then map (\<lambda>owner. (r, owner)) (filter (\<lambda>m. mb_org_uuid m = org_uuid r \<and>
             mb_role m = PStr (role_value OWNER)) (member_table db))
        else []) (organization_table db))))) (\<lambda>(db, pairs).
     of_sum (smap (\<lambda>(r, owner). sbind (org_domain_entity_from_repo_model db r) (\<lambda>org.
       Inr (org, org_member_domain_entity_from_repo_model owner))) pairs))"

definition get_groups_for_org :: "string \<Rightarrow> org_group list rprog" where
  "get_groups_for_org uuid = reg_query (\<lambda>db. parse_group_data_model (groups_of db uuid))"

definition member_selected ::
  "pyval option \<Rightarrow> string option \<Rightarrow> string option \<Rightarrow> string option \<Rightarrow> string option \<Rightarrow> member_row \<Rightarrow> bool" where
  "member_selected username uuid role status invite_code m =
     ((uuid = None \<or> uuid = Some (mb_org_uuid m)) \<and>
      (invite_code = None \<or> map_option PStr invite_code = Some (mb_invite_code m)) \<and>
      (username = None \<or> username = Some (mb_username m)) \<and>
      (role = None \<or> map_option PStr role = Some (mb_role m)) \<and>
      (status = None \<or> map_option PStr status = Some (mb_status m)))"

definition get_org_member ::
  "pyval option \<Rightarrow> string option \<Rightarrow> string option \<Rightarrow> string option \<Rightarrow> string option \<Rightarrow> org_member list rprog" where
  "get_org_member username uuid role status invite_code =
     reg_query (\<lambda>db. map org_member_domain_entity_from_repo_model
       (filter (member_selected username uuid role status invite_code) (member_table db)))"

definition org_member_verify :: "string \<Rightarrow> string \<Rightarrow> bool rprog" where
  "org_member_verify username invite_code =
     reg_query (\<lambda>db. filter (member_selected (Some (PStr username)) None None
       (Some (organization_member_status_value Member_PENDING)) (Some invite_code)) (member_table db) \<noteq> [])"

definition get_org_state_with_status :: "string \<Rightarrow> organization_state list rprog" where
  "get_org_state_with_status status =
     andthen (reg_query (\<lambda>db. filter (\<lambda>s. os_state s = status) (org_state_table db))) (\<lambda>rows.
     of_sum (parse_organization_state_from_db_list rows))"

section \<open>Writes\<close>

definition find_organization :: "string \<Rightarrow> organization_row option rprog" where
  "find_organization uuid = reg_query (\<lambda>db. sql_first (\<lambda>r. org_uuid r = uuid) (organization_table db))"

definition update_organization_row :: "string \<Rightarrow> (organization_row \<Rightarrow> organization_row) \<Rightarrow> unit rprog" where
  "update_organization_row uuid f =
     reg_execute (\<lambda>db. db\<lparr>organization_table := sql_update (\<lambda>r. org_uuid r = uuid) f (organization_table db)\<rparr>)"

text \<open>A change of \<open>organization.org_state[0]\<close>.\<close>

definition update_first_state :: "reg_env \<Rightarrow> string \<Rightarrow> (org_state_row \<Rightarrow> org_state_row) \<Rightarrow> unit rprog" where
  "update_first_state env uuid f =
     andthen (reg_query (\<lambda>db. states_of db uuid)) (\<lambda>states.
     if states = [] then raise IndexError
     else reg_execute (\<lambda>db. db\<lparr>org_state_table :=
        update_first (\<lambda>s. os_org_uuid s = uuid) (touch_state env f) (org_state_table db)\<rparr>))"

definition store_metadata_uri :: "reg_env \<Rightarrow> organization \<Rightarrow> string \<Rightarrow> unit rprog" where
  "store_metadata_uri env org username = write_ops
     (andthen (find_organization (o_uuid org)) (\<lambda>row.
      case row of
        None \<Rightarrow> raise OrganizationNotFoundException
      | Some _ \<Rightarrow>
          andthen (update_organization_row (o_uuid org)
            (\<lambda>r. r\<lparr>org_assets := o_assets org, org_metadata_uri := o_metadata_uri org\<rparr>)) (\<lambda>_.
          andthen (update_first_state env (o_uuid org) (\<lambda>s. s\<lparr>os_updated_by := username\<rparr>)) (\<lambda>_.
          commit))))"

text \<open>The owner's row is compared with a text, so its status changes always.\<close>

definition persist_publish_org_transaction_hash ::
  "reg_env \<Rightarrow> string \<Rightarrow> string \<Rightarrow> string \<Rightarrow> int option \<Rightarrow> string \<Rightarrow> unit rprog" where
  "persist_publish_org_transaction_hash env uuid transaction_hash wallet_address nonce username = write_ops
     (andthen (find_organization uuid) (\<lambda>row.
      andthen (reg_query (\<lambda>db. sql_first (\<lambda>m. mb_role m = PStr (role_value OWNER) \<and> mb_org_uuid m = uuid)
        (member_table db))) (\<lambda>owner.
      if row = None \<or> owner = None then raise OrganizationNotFoundException
      else
        andthen (update_first_state env uuid (\<lambda>s. s\<lparr>os_wallet_address := PStr wallet_address,
           os_state := organization_status_value PUBLISH_IN_PROGRESS, os_updated_by := username,
           os_transaction_hash := PStr transaction_hash, os_nonce := nonce\<rparr>)) (\<lambda>_.
        andthen (reg_execute (\<lambda>db. db\<lparr>member_table :=
           update_first (\<lambda>m. mb_role m = PStr (role_value OWNER) \<and> mb_org_uuid m = uuid)
             (touch_member env (\<lambda>m. m\<lparr>mb_address := PStr wallet_address, mb_transaction_hash := PStr transaction_hash,
                mb_status := PStr (organization_member_status_value Member_PUBLISH_IN_PROGRESS)\<rparr>))
             (member_table db)\<rparr>)) (\<lambda>_.
        commit)))))"

definition group_rows :: "organization \<Rightarrow> group_row list" where
  "group_rows org =
     map (\<lambda>g. \<lparr>grp_name = g_name g, grp_id = g_group_id g, grp_org_uuid = o_uuid org,
               grp_payment_address = g_payment_address g, grp_payment_config = g_payment_config g,
               grp_status = g_status g\<rparr>) (o_groups org)"

definition address_rows :: "organization \<Rightarrow> address_row list" where
  "address_rows org =
     map (\<lambda>a. \<lparr>adr_org_uuid = o_uuid org, adr_address_type = a_address_type a,
               adr_street_address = a_street_address a, adr_apartment = a_apartment a, adr_city = a_city a,
               adr_pincode = a_pincode a, adr_state = a_state a, adr_country = a_country a\<rparr>) (o_addresses org)"

definition organization_row_of :: "organization \<Rightarrow> organization_row" where
  "organization_row_of org =
     \<lparr>org_uuid = o_uuid org, org_name = o_name org, org_org_id = o_id org, org_org_type = o_org_type org,
      org_origin = o_origin org, org_description = o_description org,
      org_short_description = o_short_description org, org_url = o_url org, org_duns_no = o_duns_no org,
      org_contacts = o_contacts org, org_assets = o_assets org, org_metadata_uri = o_metadata_uri org\<rparr>"

definition new_state_row :: "reg_env \<Rightarrow> organization \<Rightarrow> string \<Rightarrow> string \<Rightarrow> string option \<Rightarrow> org_state_row" where
  "new_state_row env org username state test_transaction_hash =
     \<lparr>os_org_uuid = o_uuid org, os_state = state, os_transaction_hash = PStr [], os_nonce = None,
      os_test_transaction_hash = test_transaction_hash, os_wallet_address = PStr [], os_created_by = username,
      os_updated_by = username, os_reviewed_by = PStr [], os_reviewed_on = None, os_comments = [],
      os_created_on = db_now env, os_updated_on = db_now env\<rparr>"

definition with_organization ::
  "reg_env \<Rightarrow> organization \<Rightarrow> string \<Rightarrow> string \<Rightarrow> string option \<Rightarrow> reg_db \<Rightarrow> reg_db" where
  "with_organization env org username state test_transaction_hash db =
     db\<lparr>organization_table := organization_table db @ [organization_row_of org],
        org_state_table := org_state_table db @ [new_state_row env org username state test_transaction_hash],
        group_table := group_table db @ group_rows org,
        address_table := address_table db @ address_rows org\<rparr>"

definition add_organization ::
  "reg_env \<Rightarrow> organization \<Rightarrow> string \<Rightarrow> string \<Rightarrow> string option \<Rightarrow> organization rprog" where
  "add_organization env org username state test_transaction_hash = write_ops
     (andthen (add_items (\<lambda>db. o_uuid org \<notin> org_uuid ` set (organization_table db))
        (with_organization env org username state test_transaction_hash)) (\<lambda>_.
      andthen (draw (uuid4_hex env)) (\<lambda>invite_code.
      andthen (add_items (\<lambda>db. o_uuid org \<in> org_uuid ` set (organization_table db)) (\<lambda>db. db\<lparr>member_table := member_table db @
         [\<lparr>mb_invite_code = PStr invite_code, mb_org_uuid = o_uuid org, mb_role = PStr (role_value OWNER),
           mb_username = PStr username, mb_address = PStr [],
           mb_status = PStr (organization_member_status_value Member_ACCEPTED), mb_transaction_hash = PStr [],
           mb_invited_on = Some (column_time env (now env)), mb_updated_on = db_now env\<rparr>]\<rparr>)) (\<lambda>_.
      andthen (reg_query (\<lambda>db. org_domain_entity_from_repo_model db (organization_row_of org))) of_sum))))"

definition overwrite_organization ::
  "reg_env \<Rightarrow> organization \<Rightarrow> string \<Rightarrow> string \<Rightarrow> string option \<Rightarrow> unit rprog" where
  "overwrite_organization env org username state test_transaction_hash = write_ops
     (andthen (update_organization_row (o_uuid org) (\<lambda>r. organization_row_of org)) (\<lambda>_.
      andthen (update_first_state env (o_uuid org) (\<lambda>s. s\<lparr>os_state := state,
         os_test_transaction_hash := (case test_transaction_hash of None \<Rightarrow> os_test_transaction_hash s | Some h \<Rightarrow> Some h),
         os_updated_by := username\<rparr>)) (\<lambda>_.
      andthen commit (\<lambda>_.
      andthen (reg_execute (\<lambda>db. db\<lparr>address_table := filter (\<lambda>a. adr_org_uuid a \<noteq> o_uuid org) (address_table db),
         group_table := filter (\<lambda>g. grp_org_uuid g \<noteq> o_uuid org) (group_table db)\<rparr>)) (\<lambda>_.
      andthen commit (\<lambda>_.
      andthen (add_items (\<lambda>db. set (map adr_org_uuid (address_rows org)) \<subseteq> org_uuid ` set (organization_table db))
         (\<lambda>db. db\<lparr>address_table := address_table db @ address_rows org\<rparr>)) (\<lambda>_.
      add_items (\<lambda>db. set (map grp_org_uuid (group_rows org)) \<subseteq> org_uuid ` set (organization_table db))
         (\<lambda>db. db\<lparr>group_table := group_table db @ group_rows org\<rparr>))))))))"

definition store_organization ::
  "reg_env \<Rightarrow> organization \<Rightarrow> string \<Rightarrow> string \<Rightarrow> string option \<Rightarrow> unit rprog" where
  "store_organization env org username state test_transaction_hash = write_ops
     (if state \<in> set (map organization_status_value [DRAFT, APPROVAL_PENDING, PUBLISHED_UNAPPROVED]) then
        andthen (find_organization (o_uuid org)) (\<lambda>row.
        case row of
          None \<Rightarrow> andthen (add_organization env org username state test_transaction_hash) (\<lambda>_. ret ())
        | Some _ \<Rightarrow> overwrite_organization env org username state test_transaction_hash)
      else ret ())"

definition update_organization ::
  "reg_env \<Rightarrow> organization \<Rightarrow> string \<Rightarrow> string \<Rightarrow> string option \<Rightarrow> unit rprog" where
  "update_organization env org username state test_transaction_hash = write_ops
     (andthen (find_organization (o_uuid org)) (\<lambda>row.
      case row of
        None \<Rightarrow> raise OrganizationNotFoundException
      | Some _ \<Rightarrow> overwrite_organization env org username state test_transaction_hash))"

definition reviewed_status :: "string \<Rightarrow> string \<Rightarrow> string" where
  "reviewed_status current status =
     (if current \<in> set (map organization_status_value [ONBOARDING, ONBOARDING_REJECTED, ONBOARDING_APPROVED]) then
        (if status = organization_status_value REJECTED then organization_status_value ONBOARDING_REJECTED
         else if status = organization_status_value APPROVED then organization_status_value ONBOARDING_APPROVED
         else status)
      else status)"

definition update_organization_status ::
  "reg_env \<Rightarrow> string \<Rightarrow> string \<Rightarrow> string \<Rightarrow> comment option \<Rightarrow> unit rprog" where
  "update_organization_status env uuid status updated_by comment = write_ops
     (andthen (find_organization uuid) (\<lambda>row.
      case row of
        None \<Rightarrow> raise OrganizationNotFoundException
      | Some _ \<Rightarrow>
          andthen (update_first_state env uuid (\<lambda>s. s\<lparr>os_state := reviewed_status (os_state s) status,
             os_updated_by := updated_by,
             os_comments := os_comments s @ (case comment of None \<Rightarrow> [] | Some c \<Rightarrow> [comment_to_dict c])\<rparr>)) (\<lambda>_.
          commit)))"

definition add_organization_archive :: "organization \<Rightarrow> unit rprog" where
  "add_organization_archive org = write_ops
     (case o_org_state org of
        None \<Rightarrow> raise AttributeError
      | Some st \<Rightarrow> add_items (\<lambda>db. True) (\<lambda>db. db\<lparr>archive_table := archive_table db @
          [\<lparr>arc_organization = organization_row_of org, arc_groups = PList (map group_to_response (o_groups org)),
            arc_org_state = state_to_dict st\<rparr>]\<rparr>))"

definition member_row_of :: "reg_env \<Rightarrow> org_member \<Rightarrow> member_row" where
  "member_row_of env m =
     \<lparr>mb_invite_code = m_invite_code m, mb_org_uuid = m_org_uuid m, mb_role = m_role m,
      mb_username = m_username m, mb_address = m_address m, mb_status = m_status m,
      mb_transaction_hash = m_transaction_hash m, mb_invited_on = map_option (column_time env) (m_invited_on m),
      mb_updated_on = db_now env\<rparr>"

definition add_member :: "reg_env \<Rightarrow> org_member list \<Rightarrow> unit rprog" where
  "add_member env members =
     add_items (\<lambda>db. set (map m_org_uuid members) \<subseteq> org_uuid ` set (organization_table db))
       (\<lambda>db. db\<lparr>member_table := member_table db @ map (member_row_of env) members\<rparr>)"

definition delete_members :: "org_member list \<Rightarrow> string list \<Rightarrow> unit rprog" where
  "delete_members members member_status = write_ops
     (andthen (reg_execute (\<lambda>db. db\<lparr>member_table :=
        filter (\<lambda>m. \<not> (sql_in (mb_username m) (map m_username members) \<and> sql_in (mb_status m) (map PStr member_status)))
          (member_table db)\<rparr>)) (\<lambda>_. commit))"

definition persist_publish_org_member_transaction_hash ::
  "reg_env \<Rightarrow> org_member list \<Rightarrow> string \<Rightarrow> string \<Rightarrow> unit rprog" where
  "persist_publish_org_member_transaction_hash env members transaction_hash uuid = write_ops
     (andthen (reg_execute (\<lambda>db. db\<lparr>member_table :=
        sql_update (\<lambda>m. sql_in (mb_username m) (map m_username members) \<and>
             mb_status m = PStr (organization_member_status_value Member_ACCEPTED) \<and> mb_org_uuid m = uuid)
          (touch_member env (\<lambda>m. m\<lparr>mb_status := PStr (organization_member_status_value Member_PUBLISH_IN_PROGRESS),
             mb_transaction_hash := PStr transaction_hash\<rparr>)) (member_table db)\<rparr>)) (\<lambda>_. commit))"

text \<open>The row is one with status \<open>PENDING\<close>, so only the second branch of the method is taken.\<close>

definition update_org_member :: "reg_env \<Rightarrow> string \<Rightarrow> string \<Rightarrow> string \<Rightarrow> unit rprog" where
  "update_org_member env username wallet_address invite_code = write_ops
     (let selected = member_selected (Some (PStr username)) None None
            (Some (organization_member_status_value Member_PENDING)) (Some invite_code) in
      andthen (reg_query (\<lambda>db. sql_first selected (member_table db))) (\<lambda>org_member.
      case org_member of
        None \<Rightarrow> raise (py_exception ''No member found'')
      | Some _ \<Rightarrow>
          andthen (reg_execute (\<lambda>db. db\<lparr>member_table := update_first selected
             (touch_member env (\<lambda>m. m\<lparr>mb_address := PStr wallet_address,
                mb_status := PStr (organization_member_status_value Member_ACCEPTED)\<rparr>)) (member_table db)\<rparr>)) (\<lambda>_.
          commit)))"

text \<open>The state an individual's verification leaves one of his organizations in.\<close>

definition verify_individual :: "reg_env \<Rightarrow> string \<Rightarrow> string \<Rightarrow> string \<Rightarrow> unit rprog" where
  "verify_individual env status updated_by uuid =
     andthen (reg_query (\<lambda>db. states_of db uuid)) (\<lambda>states.
     case states of
       [] \<Rightarrow> raise IndexError
     | s # _ \<Rightarrow>
         if os_state s = organization_status_value ONBOARDING then
           (if status = ''APPROVED'' then
              update_first_state env uuid (\<lambda>s. s\<lparr>os_updated_by := updated_by,
                os_state := organization_status_value ONBOARDING_APPROVED\<rparr>)
            else if status = ''REJECTED'' then
              update_first_state env uuid (\<lambda>s. s\<lparr>os_updated_by := updated_by,
                os_state := organization_status_value ONBOARDING_REJECTED\<rparr>)
            else raise (py_exception ''Invalid verification status''))
         else ret ())"

definition update_all_individual_organization_for_user ::
  "reg_env \<Rightarrow> pyval \<Rightarrow> string \<Rightarrow> string \<Rightarrow> unit rprog" where
  "update_all_individual_organization_for_user env username status updated_by = write_ops
     (andthen (reg_query (\<lambda>db. map org_uuid (filter (\<lambda>r. \<exists>m \<in> set (member_table db).
        mb_org_uuid m = org_uuid r \<and> mb_username m = username \<and> mb_role m = PStr (role_value OWNER))
        (organization_table db)))) (\<lambda>uuids.
      andthen (for_each uuids (verify_individual env status updated_by)) (\<lambda>_.
      commit)))"

definition update_org_status :: "reg_env \<Rightarrow> string list \<Rightarrow> string \<Rightarrow> string \<Rightarrow> unit rprog" where
  "update_org_status env uuids prev_state next = write_ops
     (andthen (reg_execute (\<lambda>db. db\<lparr>org_state_table :=
        sql_update (\<lambda>s. os_org_uuid s \<in> set uuids \<and> os_state s = prev_state)
          (touch_state env (\<lambda>s. s\<lparr>os_state := next\<rparr>)) (org_state_table db)\<rparr>)) (\<lambda>_. commit))"

definition upsert_org_member :: "reg_env \<Rightarrow> org_member \<Rightarrow> unit rprog" where
  "upsert_org_member env m = write_ops
     (let same = (\<lambda>r. mb_org_uuid r = m_org_uuid m \<and> mb_username r = m_username m \<and> mb_role r = m_role m) in
      andthen (reg_query (\<lambda>db. sql_first same (member_table db))) (\<lambda>current_member.
      andthen (case current_member of
          None \<Rightarrow> add_items (\<lambda>db. m_org_uuid m \<in> org_uuid ` set (organization_table db))
            (\<lambda>db. db\<lparr>member_table := member_table db @ [member_row_of env m]\<rparr>)
        | Some _ \<Rightarrow> reg_execute (\<lambda>db. db\<lparr>member_table := update_first same
            (touch_member env (\<lambda>r. r\<lparr>mb_status := m_status m, mb_address := m_address m,
               mb_invite_code := m_invite_code m,
               mb_invited_on := map_option (column_time env) (m_invited_on m),
               mb_transaction_hash := m_transaction_hash m\<rparr>)) (member_table db)\<rparr>)) (\<lambda>_.
      commit)))"

definition delete_org_member :: "org_member \<Rightarrow> unit rprog" where
  "delete_org_member m = write_ops
     (reg_execute (\<lambda>db. db\<lparr>member_table := filter (\<lambda>r. \<not> (mb_org_uuid r = m_org_uuid m \<and>
        mb_username r = m_username m \<and> mb_role r = m_role m \<and> mb_status r = m_status m)) (member_table db)\<rparr>))"

text \<open>The rows that refer to the organization go with it.\<close>

definition delete_organization :: "string \<Rightarrow> unit rprog" where
  "delete_organization uuid = write_ops
     (andthen (reg_execute (\<lambda>db. db\<lparr>
        organization_table := filter (\<lambda>r. org_uuid r \<noteq> uuid) (organization_table db),
        org_state_table := filter (\<lambda>s. os_org_uuid s \<noteq> uuid) (org_state_table db),
        group_table := filter (\<lambda>g. grp_org_uuid g \<noteq> uuid) (group_table db),
        address_table := filter (\<lambda>a. adr_org_uuid a \<noteq> uuid) (address_table db),
        member_table := filter (\<lambda>m. mb_org_uuid m \<noteq> uuid) (member_table db)\<rparr>)) (\<lambda>_. commit))"

end
