(* ===== verification/Registry_Publisher.thy ===== *)
theory Registry_Publisher
  imports Registry_Repository
begin

text \<open>
  \<open>application/services/organization_publisher_service.py\<close>, \<open>org_transaction_status.py\<close>, the storage
  of \<open>infrastructure/storage_provider.py\<close> and \<open>application/access_control/authorization.py\<close>.
\<close>

section \<open>application/schemas/organization.py: the validated requests\<close>

record publish_organization_request =
  po_org_uuid :: string
  po_storage_provider :: storage_provider_type
  po_lighthouse_token :: "string option"

record save_transaction_hash_request =
  sth_org_uuid :: string
  sth_transaction_hash :: string
  sth_wallet_address :: string
  sth_nonce :: "int option"

record get_all_members_request =
  gam_org_uuid :: string
  gam_status :: "string option"
  gam_role :: "string option"

record get_member_request =
  gme_org_uuid :: string
  gme_member_username :: string

record members_request =
  mr_org_uuid :: string
  mr_members :: "pyval list"

record publish_members_request =
  pm_org_uuid :: string
  pm_transaction_hash :: string
  pm_members :: "pyval list"

record register_member_request =
  rm_invite_code :: string
  rm_wallet_address :: string

record verify_org_request =
  vo_status :: string
  vo_updated_by :: string
  vo_username :: "string option"
  vo_org_uuid :: "string option"
  vo_comment :: "string option"
  vo_org_type :: string

text \<open>A text that may be \<open>None\<close>.\<close>

definition maybe_text :: "string option \<Rightarrow> pyval" where
  "maybe_text v = (case v of None \<Rightarrow> PNone | Some s \<Rightarrow> PStr s)"

section \<open>infrastructure/storage\_provider.py\<close>

definition storage_publish :: "reg_env \<Rightarrow> string \<Rightarrow> storage_provider_type \<Rightarrow> string rprog" where
  "storage_publish env content provider_type =
     try_except
       (andthen (reg_external (upload env) (UploadFile provider_type content)) (\<lambda>metadata_hash.
        ret (hash_to_uri metadata_hash provider_type)))
       (\<lambda>e. raise (case provider_type of IPFS \<Rightarrow> TooLargeFileException | FILECOIN \<Rightarrow> LighthouseInternalException))"

definition storage_get :: "reg_env \<Rightarrow> string \<Rightarrow> pyval rprog" where
  "storage_get env metadata_uri =
     (case uri_to_hash metadata_uri of (provider_type, metadata_hash) \<Rightarrow>
      andthen (reg_external (download_file env) (DownloadFile provider_type metadata_hash)) (\<lambda>text.
      of_sum (loads env text)))"

section \<open>application/services/organization\_publisher\_service.py\<close>

definition get_all_org_for_user :: "string \<Rightarrow> pyval list rprog" where
  "get_all_org_for_user username =
     andthen (get_all_orgs_for_user username) (\<lambda>organizations.
     of_sum (smap (\<lambda>(org, member). sbind (to_response org) (\<lambda>result.
       Inr (PDict (dict_set ''owner'' (PDict (member_to_response member)) result)))) organizations))"

definition get_all_org_id :: "pyval list rprog" where
  "get_all_org_id = andthen (get_organizations [] None []) (\<lambda>organizations. ret (map o_id organizations))"

definition is_org_published :: "reg_env \<Rightarrow> string \<Rightarrow> bool rprog" where
  "is_org_published env org_id =
     andthen (reg_external (get_organization_by_id env) (GetOrganizationById org_id)) (\<lambda>org_data.
     ret (bo_found org_data))"

definition get_org_id_availability_status :: "reg_env \<Rightarrow> string \<Rightarrow> string rprog" where
  "get_org_id_availability_status env org_id =
     andthen get_all_org_id (\<lambda>org_ids.
     if PStr org_id \<in> set org_ids then ret ''UNAVAILABLE''
     else andthen (is_org_published env org_id) (\<lambda>published.
          ret (if published then ''UNAVAILABLE'' else ''AVAILABLE'')))"

definition service_get_groups_for_org :: "string \<Rightarrow> pydict rprog" where
  "service_get_groups_for_org uuid =
     andthen (get_groups_for_org uuid) (\<lambda>groups.
     ret [(''org_uuid'', PStr uuid), (''groups'', PList (map group_to_response groups))])"

definition create_organization :: "reg_env \<Rightarrow> string \<Rightarrow> organization_request \<Rightarrow> pydict rprog" where
  "create_organization env username request =
     andthen (create_organization_entity_from_request env request) (\<lambda>org.
     andthen (setup_id env org) (\<lambda>org.
     andthen get_all_org_id (\<lambda>org_ids.
     if o_id org \<in> set org_ids then raise (py_exception ''Org_id already exists'')
     else
       andthen (of_sum (next_state None (organization_actions_value CREATE_ACTION))) (\<lambda>updated_state.
       andthen (add_organization env org username updated_state None) (\<lambda>org.
       of_sum (to_response org))))))"

definition archive_current_organization :: "organization option \<Rightarrow> unit rprog" where
  "archive_current_organization org =
     (case org of
        None \<Rightarrow> raise AttributeError
      | Some o' \<Rightarrow>
          if get_status o' = Some (organization_status_value PUBLISHED) then add_organization_archive o' else ret ())"

definition service_update_organization ::
  "reg_env \<Rightarrow> string \<Rightarrow> organization_request \<Rightarrow> string \<Rightarrow> string rprog" where
  "service_update_organization env username request act =
     andthen (create_organization_entity_from_request env request) (\<lambda>updated_organization.
     andthen (get_organization None (Some (rq_uuid request))) (\<lambda>current_organization.
     andthen (archive_current_organization current_organization) (\<lambda>_.
     andthen (of_sum (next_state current_organization act)) (\<lambda>updated_state.
     andthen (update_organization env updated_organization username updated_state None) (\<lambda>_.
     ret ''OK'')))))"

text \<open>Each asset with a URL is fetched and stored, and keeps the hash.\<close>

definition publish_asset :: "reg_env \<Rightarrow> storage_provider_type \<Rightarrow> string \<times> pyval \<Rightarrow> (string \<times> pyval) rprog" where
  "publish_asset env provider_type = (\<lambda>(asset_type, asset).
     andthen (of_sum (py_in ''url'' asset)) (\<lambda>has_url.
     if has_url then
       andthen (of_sum (getitem asset ''url'')) (\<lambda>url.
       andthen (reg_external (download env) (DownloadAsset url)) (\<lambda>(status, content).
       if 400 \<le> status then raise (PyExc ''HTTPError'' [])
       else
         andthen (storage_publish env content provider_type) (\<lambda>asset_hash.
         ret (asset_type, (case asset of PDict d \<Rightarrow> PDict (dict_set ''hash'' (PStr asset_hash) d) | v \<Rightarrow> v)))))
     else ret (asset_type, asset)))"

definition publish_assets_to_storage_provider ::
  "reg_env \<Rightarrow> organization \<Rightarrow> storage_provider_type \<Rightarrow> organization rprog" where
  "publish_assets_to_storage_provider env org provider_type =
     andthen (map_each (publish_asset env provider_type) (o_assets org)) (\<lambda>assets.
     ret (org\<lparr>o_assets := assets\<rparr>))"

definition publish_metadata_to_storage_provider ::
  "reg_env \<Rightarrow> organization \<Rightarrow> storage_provider_type \<Rightarrow> (organization \<times> string) rprog" where
  "publish_metadata_to_storage_provider env org storage_type =
     andthen (publish_assets_to_storage_provider env org storage_type) (\<lambda>org.
     andthen (of_sum (sbind (to_metadata org) (\<lambda>metadata. json_dumps (PDict metadata)))) (\<lambda>content.
     andthen (storage_publish env content storage_type) (\<lambda>uri.
     ret (org, uri))))"

definition publish_organization :: "reg_env \<Rightarrow> string \<Rightarrow> publish_organization_request \<Rightarrow> pydict rprog" where
  "publish_organization env username request =
     andthen (get_organization None (Some (po_org_uuid request))) (\<lambda>found.
     case found of
       None \<Rightarrow> raise (py_exception ''Get organization is None'')
     | Some org \<Rightarrow>
         andthen (publish_metadata_to_storage_provider env org (po_storage_provider request)) (\<lambda>(org, uri).
         (let org = org\<lparr>o_metadata_uri := PStr uri\<rparr> in
          andthen (store_metadata_uri env org username) (\<lambda>_.
          of_sum (to_response org)))))"

definition save_transaction_hash_for_publish_org ::
  "reg_env \<Rightarrow> string \<Rightarrow> save_transaction_hash_request \<Rightarrow> string rprog" where
  "save_transaction_hash_for_publish_org env username request =
     andthen (persist_publish_org_transaction_hash env (sth_org_uuid request) (sth_transaction_hash request)
       (sth_wallet_address request) (sth_nonce request) username) (\<lambda>_.
     ret ''OK'')"

definition get_all_member :: "get_all_members_request \<Rightarrow> pyval list rprog" where
  "get_all_member request =
     andthen (get_org_member None (Some (gam_org_uuid request)) (gam_role request) (gam_status request) None) (\<lambda>members.
     ret (map (\<lambda>m. PDict (member_to_response m)) members))"

definition get_member :: "get_member_request \<Rightarrow> pyval list rprog" where
  "get_member request =
     andthen (get_org_member (Some (PStr (gme_member_username request))) (Some (gme_org_uuid request)) None None None) (\<lambda>members.
     ret (map (\<lambda>m. PDict (member_to_response m)) members))"

definition verify_invite :: "string \<Rightarrow> string \<Rightarrow> string rprog" where
  "verify_invite username invite_code =
     andthen (org_member_verify username invite_code) (\<lambda>found. ret (if found then ''OK'' else ''NOT_FOUND''))"

definition service_delete_members :: "members_request \<Rightarrow> string rprog" where
  "service_delete_members request =
     andthen (of_sum (org_member_domain_entity_from_payload_list (mr_members request) (mr_org_uuid request))) (\<lambda>members.
     andthen (delete_members members (map organization_member_status_value [Member_PENDING, Member_ACCEPTED])) (\<lambda>_.
     ret ''OK''))"

definition publish_members :: "reg_env \<Rightarrow> publish_members_request \<Rightarrow> string rprog" where
  "publish_members env request =
     andthen (of_sum (org_member_domain_entity_from_payload_list (pm_members request) (pm_org_uuid request))) (\<lambda>members.
     andthen (persist_publish_org_member_transaction_hash env members (pm_transaction_hash request)
       (pm_org_uuid request)) (\<lambda>_.
     ret ''OK''))"

text \<open>\<open>xs[0]\<close>.\<close>

definition first_item :: "'a list \<Rightarrow> exn + 'a" where
  "first_item xs = (case xs of [] \<Rightarrow> Inl IndexError | x # _ \<Rightarrow> Inr x)"

definition register_member :: "reg_env \<Rightarrow> string \<Rightarrow> register_member_request \<Rightarrow> string rprog" where
  "register_member env username request =
     (if is_address env (rm_wallet_address request) then
        andthen (get_org_member (Some (PStr username)) None None None (Some (rm_invite_code request))) (\<lambda>invited.
        andthen (of_sum (first_item invited)) (\<lambda>member.
        andthen (get_org_member None (Some (m_org_uuid member)) (Some (role_value OWNER)) None None) (\<lambda>owners.
        andthen (of_sum (first_item owners)) (\<lambda>org_owner.
        if m_address org_owner = PStr (rm_wallet_address request) then raise NewMemberAddressException
        else
          andthen (update_org_member env username (rm_wallet_address request) (rm_invite_code request)) (\<lambda>_.
          ret ''OK'')))))
      else raise (py_exception ''Invalid wallet address''))"

definition invited :: "reg_env \<Rightarrow> org_member \<Rightarrow> org_member rprog" where
  "invited env m =
     andthen (draw (uuid4_hex env)) (\<lambda>invite_code.
     ret (m\<lparr>m_invite_code := PStr invite_code,
            m_status := PStr (organization_member_status_value Member_PENDING),
            m_role := PStr (role_value MEMBER), m_invited_on := Some (now env), m_updated_on := Some (now env)\<rparr>))"

definition send_invitations :: "reg_env \<Rightarrow> org_member list \<Rightarrow> pyval \<Rightarrow> unit rprog" where
  "send_invitations env members name =
     for_each members (\<lambda>m. reg_external (notification env)
       (Notify (m_username m) (OrgMemberInviteMail name (m_invite_code m))))"

definition invite_members :: "reg_env \<Rightarrow> members_request \<Rightarrow> pydict rprog" where
  "invite_members env request =
     andthen (of_sum (org_member_domain_entity_from_payload_list (mr_members request) (mr_org_uuid request))) (\<lambda>requested.
     andthen (get_org_member None (Some (mr_org_uuid request)) None None None) (\<lambda>current.
     (let names = map m_username current in
     andthen (map_each (invited env) (filter (\<lambda>m. m_username m \<notin> set names) requested)) (\<lambda>eligible.
     andthen (get_organization None (Some (mr_org_uuid request))) (\<lambda>found.
     case found of
       None \<Rightarrow> raise (py_exception ''Organization doesnt exist'')
     | Some org \<Rightarrow>
         andthen (send_invitations env eligible (o_name org)) (\<lambda>_.
         andthen (add_member env eligible) (\<lambda>_.
         ret [(''member'', PList (map (\<lambda>m. PDict (member_to_response m)) eligible)),
              (''failed_invitation'', PList (map m_username (filter (\<lambda>m. m_username m \<in> set names) requested)))])))))))"

definition review_mail :: "pyval \<Rightarrow> pyval \<Rightarrow> string \<Rightarrow> exn + mail" where
  "review_mail org_id comment status =
     (if status = organization_status_value REJECTED then Inr (OrgRejectedMail org_id comment)
      else if status = organization_status_value CHANGE_REQUESTED then Inr (OrgChangesRequestedMail org_id comment)
      else if status = organization_status_value APPROVED then Inr (OrgApprovedMail org_id)
      else Inl InvalidOrganizationStateException)"

text \<open>A mail that cannot be sent is only logged.\<close>

definition send_mail_to_owner :: "reg_env \<Rightarrow> pyval \<Rightarrow> pyval \<Rightarrow> pyval \<Rightarrow> string \<Rightarrow> unit rprog" where
  "send_mail_to_owner env owner_email_address comment org_id status =
     andthen (of_sum (review_mail org_id comment status)) (\<lambda>mail.
     if truthy owner_email_address then
       try_except (reg_external (notification env) (Notify owner_email_address mail)) (\<lambda>_. ret ())
     else ret ())"

definition update_verification :: "reg_env \<Rightarrow> verify_org_request \<Rightarrow> unit rprog" where
  "update_verification env request =
     (if vo_org_type request = organization_type_value INDIVIDUAL then
        update_all_individual_organization_for_user env (maybe_text (vo_username request)) (vo_status request)
          (vo_updated_by request)
      else if vo_org_type request = organization_type_value ORGANIZATION then
        (case vo_org_uuid request of
           None \<Rightarrow> raise OrganizationNotFoundException
         | Some uuid \<Rightarrow>
             andthen (update_organization_status env uuid (vo_status request) (vo_updated_by request) None) (\<lambda>_.
             andthen (get_organization None (Some uuid)) (\<lambda>found.
             case found of
               None \<Rightarrow> raise (BadRequestException [] [])
             | Some org \<Rightarrow>
                 andthen (get_org_member None (Some uuid) (Some (role_value OWNER)) None None) (\<lambda>owners.
                 andthen (of_sum (first_item owners)) (\<lambda>owner.
                 send_mail_to_owner env (m_username owner) (maybe_text (vo_comment request)) (o_id org)
                   (vo_status request))))))
      else ret ())"

section \<open>application/services/org\_transaction\_status.py\<close>

definition failed_transaction :: "reg_env \<Rightarrow> organization_state \<Rightarrow> string list rprog" where
  "failed_transaction env org_state =
     andthen (reg_external (transaction_receipt env) (GetTransactionReceipt (st_transaction_hash org_state))) (\<lambda>receipt.
     ret (if receipt = Some 0 then [st_org_uuid org_state] else []))"

definition update_transaction_status :: "reg_env \<Rightarrow> unit rprog" where
  "update_transaction_status env =
     andthen (get_org_state_with_status (organization_status_value PUBLISH_IN_PROGRESS)) (\<lambda>org_transaction_data.
     andthen (map_each (failed_transaction env) org_transaction_data) (\<lambda>failed.
     if concat failed \<noteq> [] then
       update_org_status env (concat failed) (organization_status_value PUBLISH_IN_PROGRESS)
         (organization_status_value FAILED)
     else ret ()))"

section \<open>application/access\_control/authorization.py\<close>

fun POLICY :: "role \<Rightarrow> action list" where
  "POLICY OWNER = [CREATE, SUBMIT, PUBLISH, UPDATE, READ]"
| "POLICY MEMBER = [CREATE, SUBMIT, UPDATE, READ]"

definition role_of :: "pyval \<Rightarrow> exn + role" where
  "role_of v = (if v = PStr (role_value OWNER) then Inr OWNER else if v = PStr (role_value MEMBER) then Inr MEMBER
     else Inl (PyExc ''KeyError'' []))"

text \<open>A missing name or id selects every row, as the repository reads \<open>None\<close>.\<close>

definition is_access_allowed :: "pyval \<Rightarrow> action \<Rightarrow> pyval \<Rightarrow> bool rprog" where
  "is_access_allowed username act uuid =
     andthen (reg_query (\<lambda>db. filter (\<lambda>m. (uuid = PNone \<or> uuid = PStr (mb_org_uuid m)) \<and>
        (username = PNone \<or> username = mb_username m)) (member_table db))) (\<lambda>members.
     case members of
       [] \<Rightarrow> ret False
     | m # _ \<Rightarrow> andthen (of_sum (role_of (mb_role m))) (\<lambda>r. ret (act \<in> set (POLICY r))))"

text \<open>\<open>reduce(dict.get, path, event)\<close>.\<close>

fun path_value :: "pyval \<Rightarrow> string list \<Rightarrow> exn + pyval" where
  "path_value v [] = Inr v"
| "path_value v (k # ks) =
     (case v of PDict d \<Rightarrow> path_value (case dict_get d k of None \<Rightarrow> PNone | Some x \<Rightarrow> x) ks | _ \<Rightarrow> Inl TypeError)"

definition secured :: "action \<Rightarrow> string list \<Rightarrow> string list \<Rightarrow> (pydict \<Rightarrow> 'a rprog) \<Rightarrow> pydict \<Rightarrow> 'a rprog" where
  "secured act org_uuid_path username_path func event =
     andthen (of_sum (path_value (PDict event) org_uuid_path)) (\<lambda>uuid.
     andthen (of_sum (path_value (PDict event) username_path)) (\<lambda>username.
     andthen (is_access_allowed username act uuid) (\<lambda>allowed.
     if allowed then func event else raise ForbiddenException)))"

end
