(* ===== verification/Registry_Consumer.thy ===== *)
theory Registry_Consumer
  imports Registry_Publisher
begin

text \<open>
  \<open>consumer/organization_event_consumer.py\<close> and the dispatch of
  \<open>application/handlers/consumer_handlers.py\<close>: what the blockchain's organization events do to the
  tables.
\<close>

abbreviation BLOCKCHAIN_USER :: string where "BLOCKCHAIN_USER \<equiv> ''BLOCKCHAIN_EVENT''"

definition get_org_id_from_event :: "reg_env \<Rightarrow> pyval \<Rightarrow> exn + string" where
  "get_org_id_from_event env event =
     sbind (getitems event [''data'', ''json_str'']) (\<lambda>json_str.
     sbind (sbind (as_text json_str) (literal_eval env)) (\<lambda>event_org_data.
     sbind (getitem (PDict event_org_data) ''orgId'') (\<lambda>org_id_bytes.
     sbind (web3_to_text env org_id_bytes) (\<lambda>org_id.
     Inr (rstrip_nul org_id)))))"

record org_details =
  od_org_id :: string
  od_metadata :: pyval
  od_metadata_uri :: string
  od_transaction_hash :: pyval
  od_owner :: pyval
  od_members :: "pyval list"

definition get_org_details_from_blockchain :: "reg_env \<Rightarrow> pyval \<Rightarrow> org_details rprog" where
  "get_org_details_from_blockchain env event =
     andthen (of_sum (get_org_id_from_event env event)) (\<lambda>org_id.
     andthen (of_sum (getitems event [''data'', ''transaction_hash''])) (\<lambda>transaction_hash.
     andthen (reg_external (get_organization_by_id env) (GetOrganizationById org_id)) (\<lambda>blockchain_org_data.
     (let metadata_uri = rstrip_nul (bo_metadata_uri blockchain_org_data) in
      andthen (storage_get env metadata_uri) (\<lambda>org_metadata.
      ret \<lparr>od_org_id = org_id, od_metadata = org_metadata, od_metadata_uri = metadata_uri,
           od_transaction_hash = transaction_hash, od_owner = bo_owner blockchain_org_data,
           od_members = remove1 (bo_owner blockchain_org_data) (bo_members blockchain_org_data)\<rparr>)))))"

section \<open>Members\<close>

text \<open>The current members by address; a later row with the same address takes the place of an earlier
  one.\<close>

definition members_map :: "org_member list \<Rightarrow> (pyval \<times> org_member) list" where
  "members_map members =
     fold (\<lambda>m entries. AList.update (m_address m) m entries) (filter (\<lambda>m. m_address m \<noteq> PNone) members) []"

definition published_member :: "string \<Rightarrow> role \<Rightarrow> pyval \<Rightarrow> org_member" where
  "published_member uuid r address =
     \<lparr>m_org_uuid = uuid, m_username = PStr [], m_status = PStr (organization_member_status_value Member_PUBLISHED),
      m_role = PStr (role_value r), m_address = address, m_invite_code = PNone, m_transaction_hash = PNone,
      m_invited_on = None, m_updated_on = None\<rparr>"

definition publish_as :: "role \<Rightarrow> org_member \<Rightarrow> org_member" where
  "publish_as r m = m\<lparr>m_status := PStr (organization_member_status_value Member_PUBLISHED),
     m_role := PStr (role_value r)\<rparr>"

definition process_owner ::
  "reg_env \<Rightarrow> string \<Rightarrow> pyval \<Rightarrow> (pyval \<times> org_member) list \<Rightarrow> (pyval \<times> org_member) list rprog" where
  "process_owner env uuid owner_address current_members_map =
     (let owner = (case map_of current_members_map owner_address of
                     None \<Rightarrow> published_member uuid OWNER owner_address
                   | Some m \<Rightarrow> publish_as OWNER m);
          current_members_map' = AList.update owner_address owner current_members_map in
      andthen (upsert_org_member env owner) (\<lambda>_.
      andthen (for_each current_members_map' (\<lambda>(address, m).
        if m_role m \<noteq> PStr (role_value OWNER) then ret ()
        else if address \<noteq> owner_address \<or> m_status m \<noteq> PStr (organization_member_status_value Member_PUBLISHED) \<or>
            m_username m \<noteq> m_username owner
        then delete_org_member m else ret ())) (\<lambda>_.
      ret current_members_map')))"

definition process_members ::
  "reg_env \<Rightarrow> string \<Rightarrow> pyval list \<Rightarrow> (pyval \<times> org_member) list \<Rightarrow> unit rprog" where
  "process_members env uuid member_addresses current_members_map =
     for_each member_addresses (\<lambda>member_address.
       upsert_org_member env (case map_of current_members_map member_address of
           None \<Rightarrow> published_member uuid MEMBER member_address
         | Some m \<Rightarrow> publish_as MEMBER m))"

definition update_org_members :: "reg_env \<Rightarrow> string \<Rightarrow> pyval \<Rightarrow> pyval list \<Rightarrow> unit rprog" where
  "update_org_members env uuid owner_address member_addresses =
     andthen (get_org_member None (Some uuid) None None None) (\<lambda>current_members.
     andthen (process_owner env uuid owner_address (members_map current_members)) (\<lambda>current_members_map.
     process_members env uuid member_addresses current_members_map))"

section \<open>OrganizationCreatedAndModifiedEventConsumer\<close>

definition organization_of_metadata :: "reg_env \<Rightarrow> pyval \<Rightarrow> string \<Rightarrow> organization rprog" where
  "organization_of_metadata env org_metadata metadata_uri =
     andthen (of_sum (value_get org_metadata ''org_id'' PNone)) (\<lambda>org_id.
     andthen (of_sum (value_get org_metadata ''org_name'' PNone)) (\<lambda>name.
     andthen (of_sum (value_get org_metadata ''org_type'' PNone)) (\<lambda>org_type.
     andthen (of_sum (value_get org_metadata ''description'' (PDict []))) (\<lambda>description.
     andthen (of_sum (value_get description ''short_description'' (PStr []))) (\<lambda>short_description.
     andthen (of_sum (value_get description ''description'' (PStr []))) (\<lambda>long_description.
     andthen (of_sum (value_get description ''url'' (PStr []))) (\<lambda>url.
     andthen (of_sum (value_get org_metadata ''contacts'' PNone)) (\<lambda>contacts.
     andthen (of_sum (value_get org_metadata ''assets'' (PDict []))) (\<lambda>raw_assets.
     andthen (of_sum (case raw_assets of PDict d \<Rightarrow> parse_organization_metadata_assets d [] | _ \<Rightarrow> Inl AttributeError)) (\<lambda>assets.
     andthen (of_sum (value_get org_metadata ''groups'' (PList []))) (\<lambda>raw_groups.
     andthen (group_domain_entity_from_group_list_metadata env raw_groups) (\<lambda>groups.
     ret \<lparr>o_uuid = [], o_id = org_id, o_name = name, o_org_type = org_type, o_origin = PStr [],
          o_description = long_description, o_short_description = short_description, o_url = url,
          o_contacts = contacts, o_assets = assets, o_metadata_uri = PStr metadata_uri, o_duns_no = PStr [],
          o_groups = groups, o_addresses = [], o_org_state = None\<rparr>))))))))))))"

text \<open>\<open>existing.org_state.transaction_hash\<close>; the empty list of an organization without state has no
  such attribute.\<close>

definition org_transaction_hash :: "organization \<Rightarrow> exn + pyval" where
  "org_transaction_hash org = (case o_org_state org of None \<Rightarrow> Inl AttributeError | Some st \<Rightarrow> Inr (st_transaction_hash st))"

definition mark_existing_publish_in_progress_as_published :: "reg_env \<Rightarrow> organization \<Rightarrow> unit rprog" where
  "mark_existing_publish_in_progress_as_published env org =
     update_organization env org BLOCKCHAIN_USER (organization_status_value PUBLISHED) (Some [])"

definition create_event_outside_publisher_portal :: "reg_env \<Rightarrow> organization \<Rightarrow> unit rprog" where
  "create_event_outside_publisher_portal env org =
     store_organization env org BLOCKCHAIN_USER (organization_status_value PUBLISHED_UNAPPROVED) (Some [])"

definition store_event_organization :: "reg_env \<Rightarrow> organization option \<Rightarrow> organization \<Rightarrow> pyval \<Rightarrow> string rprog" where
  "store_event_organization env existing received transaction_hash =
     (case existing of
        None \<Rightarrow>
          andthen (setup_id env received) (\<lambda>received.
          andthen (create_event_outside_publisher_portal env received) (\<lambda>_.
          ret (o_uuid received)))
      | Some org \<Rightarrow>
          andthen (of_sum (org_transaction_hash org)) (\<lambda>known_hash.
          if known_hash \<noteq> transaction_hash \<and> is_blockchain_major_change env org received then
            andthen (store_organization env org BLOCKCHAIN_USER (organization_status_value APPROVAL_PENDING) (Some [])) (\<lambda>_.
            ret (o_uuid org))
          else
            andthen (mark_existing_publish_in_progress_as_published env org) (\<lambda>_.
            ret (o_uuid org))))"

text \<open>The message of the exception also names the organization.\<close>

definition process_organization_create_event :: "reg_env \<Rightarrow> org_details \<Rightarrow> unit rprog" where
  "process_organization_create_event env details =
     try_except
       (andthen (get_organization (Some (od_org_id details)) None) (\<lambda>existing.
        andthen (organization_of_metadata env (od_metadata details) (od_metadata_uri details)) (\<lambda>received.
        andthen (store_event_organization env existing received (od_transaction_hash details)) (\<lambda>uuid.
        update_org_members env uuid (od_owner details) (od_members details)))))
       (\<lambda>e. raise (py_exception ''Error while processing org created event''))"

definition organization_created_on_event :: "reg_env \<Rightarrow> pyval \<Rightarrow> unit rprog" where
  "organization_created_on_event env event =
     andthen (get_org_details_from_blockchain env event) (process_organization_create_event env)"

section \<open>OrganizationDeletedEventConsumer\<close>

definition organization_deleted_on_event :: "reg_env \<Rightarrow> pyval \<Rightarrow> unit rprog" where
  "organization_deleted_on_event env event =
     andthen (of_sum (get_org_id_from_event env event)) (\<lambda>org_id.
     andthen (get_organization (Some org_id) None) (\<lambda>found.
     case found of
       None \<Rightarrow> ret ()
     | Some org \<Rightarrow> delete_organization (o_uuid org)))"

section \<open>application/handlers/consumer\_handlers.py\<close>

text \<open>The consumers of service events are a parameter.\<close>

definition registry_event_consumer ::
  "reg_env \<Rightarrow> (pyval \<Rightarrow> unit rprog) \<Rightarrow> pyval \<Rightarrow> unit rprog" where
  "registry_event_consumer env service_consumer event =
     andthen (of_sum (getitem event ''name'')) (\<lambda>name.
     if name \<in> {PStr ''OrganizationCreated'', PStr ''OrganizationModified''} then organization_created_on_event env event
     else if name \<in> {PStr ''ServiceCreated'', PStr ''ServiceMetadataModified''} then service_consumer event
     else if name = PStr ''OrganizationDeleted'' then organization_deleted_on_event env event
     else if name = PStr ''ServiceDeleted'' then service_consumer event
     else ret ())"

fun payloads_of_records :: "reg_env \<Rightarrow> pyval list \<Rightarrow> exn + pyval list" where
  "payloads_of_records env [] = Inr []"
| "payloads_of_records env (record # records) =
     sbind (value_get record ''body'' PNone) (\<lambda>body.
     sbind (if truthy body then
              sbind (sbind (as_text body) (loads env)) (\<lambda>parsed_body.
              sbind (value_get parsed_body ''Message'' PNone) (\<lambda>message.
              if truthy message then
                sbind (sbind (as_text message) (loads env)) (\<lambda>payload.
                sbind (getitem payload ''blockchain_event'') (\<lambda>e. Inr [e]))
              else Inr []))
            else Inr []) (\<lambda>converted.
     sbind (payloads_of_records env records) (\<lambda>rest. Inr (converted @ rest))))"

definition get_payload_from_queue_event :: "reg_env \<Rightarrow> pydict \<Rightarrow> exn + pyval list" where
  "get_payload_from_queue_event env event =
     (case dict_get event ''Records'' of
        None \<Rightarrow> Inr []
      | Some records \<Rightarrow>
          if truthy records then sbind (py_iter records) (payloads_of_records env) else Inr [])"

definition registry_event_consumer_handler ::
  "reg_env \<Rightarrow> (pyval \<Rightarrow> unit rprog) \<Rightarrow> pydict \<Rightarrow> pydict rprog" where
  "registry_event_consumer_handler env service_consumer event =
     andthen (of_sum (get_payload_from_queue_event env event)) (\<lambda>events.
     andthen (for_each events (registry_event_consumer env service_consumer)) (\<lambda>_.
     ret []))"

end
