(* ===== verification/Registry_Requests.thy ===== *)
theory Registry_Requests
  imports Registry_Consumer
begin

text \<open>
  \<open>application/schemas/organization.py\<close> and \<open>application/handlers/organization_handlers.py\<close>: the
  request classes with their \<open>validate_event\<close>, and the lambda handlers with their access checks.
\<close>

section \<open>validate\_event\<close>

text \<open>
  A request class is a list of fields: the name in error messages, the keys that may give the value,
  and whether a value is accepted. A failed validation names the fields that failed; for a payload
  that is not an object it names nothing, and taking the first name fails.
\<close>

type_synonym field_spec = "string \<times> string list \<times> (pyval option \<Rightarrow> bool)"

fun lookup_first :: "pydict \<Rightarrow> string list \<Rightarrow> pyval option" where
  "lookup_first d [] = None"
| "lookup_first d (k # ks) = (case dict_get d k of None \<Rightarrow> lookup_first d ks | Some v \<Rightarrow> Some v)"

definition is_text :: "pyval option \<Rightarrow> bool" where
  "is_text v \<longleftrightarrow> (case v of Some (PStr _) \<Rightarrow> True | _ \<Rightarrow> False)"

definition is_list :: "pyval option \<Rightarrow> bool" where
  "is_list v \<longleftrightarrow> (case v of Some (PList _) \<Rightarrow> True | _ \<Rightarrow> False)"

definition is_dict :: "pyval option \<Rightarrow> bool" where
  "is_dict v \<longleftrightarrow> (case v of Some (PDict _) \<Rightarrow> True | _ \<Rightarrow> False)"

definition is_text_or_none :: "pyval option \<Rightarrow> bool" where
  "is_text_or_none v \<longleftrightarrow> v = None \<or> v = Some PNone \<or> is_text v"

definition the_text :: "pydict \<Rightarrow> string list \<Rightarrow> string" where
  "the_text d keys = (case lookup_first d keys of Some (PStr s) \<Rightarrow> s | _ \<Rightarrow> [])"

definition the_list :: "pydict \<Rightarrow> string list \<Rightarrow> pyval list" where
  "the_list d keys = (case lookup_first d keys of Some (PList vs) \<Rightarrow> vs | _ \<Rightarrow> [])"

definition the_dict :: "pydict \<Rightarrow> string list \<Rightarrow> pydict" where
  "the_dict d keys = (case lookup_first d keys of Some (PDict e) \<Rightarrow> e | _ \<Rightarrow> [])"

definition maybe :: "pydict \<Rightarrow> string \<Rightarrow> string option" where
  "maybe d k = (case dict_get d k of Some (PStr s) \<Rightarrow> Some s | _ \<Rightarrow> None)"

definition check_fields :: "field_spec list \<Rightarrow> pydict \<Rightarrow> exn + unit" where
  "check_fields specs d =
     (case filter (\<lambda>(name, keys, accepts). \<not> accepts (lookup_first d keys)) specs of
        [] \<Rightarrow> Inr ()
      | bad \<Rightarrow> Inl (PyExc ''ValidationError'' (join '', '' (map fst bad))))"

definition validate_object :: "(pydict \<Rightarrow> exn + 'a) \<Rightarrow> pyval \<Rightarrow> exn + 'a" where
  "validate_object parse v = (case v of PDict d \<Rightarrow> parse d | _ \<Rightarrow> Inl (PyExc ''ModelTypeError'' []))"

abbreviation parse_error :: exn where
  "parse_error \<equiv> BadRequestException ''Error while parsing payload'' []"

definition validate_event :: "bool \<Rightarrow> string list \<Rightarrow> (pydict \<Rightarrow> exn + 'a) \<Rightarrow> pydict \<Rightarrow> exn + 'a" where
  "validate_event bad_requests_pass payload_types func event =
     (case (case missing_payload payload_types event of
              Some t \<Rightarrow> Inl (PyExc ''AssertionError'' (payload_error t))
            | None \<Rightarrow> func event) of
        Inr a \<Rightarrow> Inr a
      | Inl (PyExc cls text) \<Rightarrow>
          (if cls = ''ValidationError'' then Inl (BadRequestException (''Missing required parameters: '' @ text) [])
           else if cls = ''ModelTypeError'' then Inl IndexError
           else if cls = ''AssertionError'' then Inl (BadRequestException text [])
           else Inl parse_error)
      | Inl (CustomExc BadRequestClass h c m d) \<Rightarrow>
          Inl (if bad_requests_pass then CustomExc BadRequestClass h c m d else parse_error)
      | Inl _ \<Rightarrow> Inl parse_error)"

definition body_of :: "reg_env \<Rightarrow> pydict \<Rightarrow> exn + pyval" where
  "body_of env event = sbind (as_text (event_part event body_part)) (loads env)"

definition body_and_path :: "reg_env \<Rightarrow> pydict \<Rightarrow> exn + pyval" where
  "body_and_path env event = sbind (body_of env event) (\<lambda>body. merged body (event_part event path_part))"

section \<open>The request classes\<close>

definition text_field :: "string \<Rightarrow> field_spec" where
  "text_field name = (name, [name], is_text)"

definition GetGroupByOrganizationIdRequest :: "pydict \<Rightarrow> exn + string" where
  "GetGroupByOrganizationIdRequest = validate_event False [path_part] (\<lambda>event.
     sbind (value_get (event_part event path_part) ''org_uuid'' PNone) (\<lambda>v.
     if v = PNone then Inl (PyExc ''AssertionError'' ''Missing organization UUID'')
     else validate_object (\<lambda>d. sbind (check_fields [text_field ''org_uuid''] d) (\<lambda>_.
        Inr (the_text d [''org_uuid'']))) (event_part event path_part)))"

definition organization_fields :: "field_spec list" where
  "organization_fields =
     [(''org_uuid'', [''org_uuid'', ''uuid''], is_text), (''org_id'', [''org_id'', ''id''], is_text),
      (''org_name'', [''org_name'', ''name''], is_text), (''org_type'', [''org_type'', ''type''], is_text),
      text_field ''description'', text_field ''short_description'', text_field ''url'', text_field ''duns_no'',
      text_field ''origin'', (''contacts'', [''contacts''], is_list), (''assets'', [''assets''], is_dict),
      text_field ''metadata_uri'', (''groups'', [''groups''], is_list), (''org_address'', [''org_address''], is_dict)]"

definition organization_request_of :: "pydict \<Rightarrow> organization_request" where
  "organization_request_of d =
     \<lparr>rq_uuid = the_text d [''org_uuid'', ''uuid''], rq_id = the_text d [''org_id'', ''id''],
      rq_name = the_text d [''org_name'', ''name''], rq_type = the_text d [''org_type'', ''type''],
      rq_description = the_text d [''description''], rq_short_description = the_text d [''short_description''],
      rq_url = the_text d [''url''], rq_duns_no = the_text d [''duns_no''], rq_origin = the_text d [''origin''],
      rq_contacts = the_list d [''contacts''], rq_assets = the_dict d [''assets''],
      rq_metadata_uri = the_text d [''metadata_uri''], rq_groups = the_list d [''groups''],
      rq_org_address = the_dict d [''org_address'']\<rparr>"

text \<open>The addresses that are copied to the top of the payload are not a field, so the copy only fails
  when the address is not something to search in.\<close>

definition extract_addresses :: "pyval \<Rightarrow> exn + pyval" where
  "extract_addresses data =
     sbind (py_in ''org_address'' data) (\<lambda>has_address.
     if has_address then
       sbind (getitem data ''org_address'') (\<lambda>address. sbind (py_in ''addresses'' address) (\<lambda>has_addresses.
       if has_addresses then sbind (getitem address ''addresses'') (\<lambda>_. Inr data) else Inr data))
     else Inr data)"

definition CreateOrganizationRequest :: "reg_env \<Rightarrow> pydict \<Rightarrow> exn + organization_request" where
  "CreateOrganizationRequest env = validate_event True [body_part] (\<lambda>event.
     sbind (body_of env event) (\<lambda>body.
     sbind (extract_addresses body)
       (validate_object (\<lambda>d.
          if is_text (dict_get d ''origin'') \<and> the_text d [''origin''] \<notin> set (ALLOWED_ORIGIN env)
          then Inl InvalidOriginException
          else sbind (check_fields organization_fields d) (\<lambda>_. Inr (organization_request_of d))))))"

definition is_action :: "pyval option \<Rightarrow> bool" where
  "is_action v \<longleftrightarrow> v \<in> {Some (PStr (organization_actions_value DRAFT_ACTION)), Some (PStr (organization_actions_value SUBMIT_ACTION))}"

definition UpdateOrganizationRequest :: "reg_env \<Rightarrow> pydict \<Rightarrow> exn + organization_request \<times> string" where
  "UpdateOrganizationRequest env = validate_event True [path_part, body_part] (\<lambda>event.
     sbind (body_of env event) (\<lambda>body.
     sbind (if truthy (event_part event query_part) then value_get (event_part event query_part) ''action'' PNone
            else Inr PNone) (\<lambda>act.
     sbind (merged body (PDict [(''action'', act)])) (\<lambda>data.
     sbind (merged data (event_part event path_part))
       (validate_object (\<lambda>d.
          sbind (check_fields (organization_fields @ [(''action'', [''action''], is_action)]) d) (\<lambda>_.
          Inr (organization_request_of d, the_text d [''action'']))))))))"

definition storage_provider_of :: "pyval option \<Rightarrow> storage_provider_type option" where
  "storage_provider_of v =
     (if v = None \<or> v = Some (PStr (storage_provider_value IPFS)) then Some IPFS
      else if v = Some (PStr (storage_provider_value FILECOIN)) then Some FILECOIN else None)"

definition PublishOrganizationRequest :: "reg_env \<Rightarrow> pydict \<Rightarrow> exn + publish_organization_request" where
  "PublishOrganizationRequest env = validate_event False [path_part, body_part] (\<lambda>event.
     sbind (body_and_path env event) (validate_object (\<lambda>d.
       sbind (check_fields [text_field ''org_uuid'',
           (''storage_provider'', [''storage_provider''], \<lambda>v. storage_provider_of v \<noteq> None),
           (''lighthouse_token'', [''lighthouse_token''], is_text_or_none)] d) (\<lambda>_.
       Inr \<lparr>po_org_uuid = the_text d [''org_uuid''],
            po_storage_provider = the (storage_provider_of (dict_get d ''storage_provider'')),
            po_lighthouse_token = maybe d ''lighthouse_token''\<rparr>))))"

definition SaveTransactionHashForOrganizationRequest ::
  "reg_env \<Rightarrow> pydict \<Rightarrow> exn + save_transaction_hash_request" where
  "SaveTransactionHashForOrganizationRequest env = validate_event False [path_part, body_part] (\<lambda>event.
     sbind (body_and_path env event) (validate_object (\<lambda>d.
       sbind (check_fields [text_field ''org_uuid'', text_field ''transaction_hash'', text_field ''wallet_address'',
           (''nonce'', [''nonce''], \<lambda>v. case v of None \<Rightarrow> True | Some x \<Rightarrow> x = PNone \<or> pydantic_int env x \<noteq> None)] d) (\<lambda>_.
       Inr \<lparr>sth_org_uuid = the_text d [''org_uuid''], sth_transaction_hash = the_text d [''transaction_hash''],
            sth_wallet_address = the_text d [''wallet_address''],
            sth_nonce = (case dict_get d ''nonce'' of None \<Rightarrow> None
              | Some v \<Rightarrow> if v = PNone then None else pydantic_int env v)\<rparr>))))"

definition GetAllMembersRequest :: "pydict \<Rightarrow> exn + get_all_members_request" where
  "GetAllMembersRequest = validate_event False [path_part, query_part] (\<lambda>event.
     sbind (merged (event_part event path_part) (event_part event query_part)) (validate_object (\<lambda>d.
       sbind (check_fields [text_field ''org_uuid'', (''status'', [''status''], is_text_or_none),
           (''role'', [''role''], is_text_or_none)] d) (\<lambda>_.
       Inr \<lparr>gam_org_uuid = the_text d [''org_uuid''], gam_status = maybe d ''status'', gam_role = maybe d ''role''\<rparr>))))"

definition GetMemberRequest :: "pydict \<Rightarrow> exn + get_member_request" where
  "GetMemberRequest = validate_event False [path_part] (\<lambda>event.
     validate_object (\<lambda>d.
       sbind (check_fields [text_field ''org_uuid'', (''username'', [''username'', ''member_username''], is_text)] d) (\<lambda>_.
       Inr \<lparr>gme_org_uuid = the_text d [''org_uuid''],
            gme_member_username = the_text d [''username'', ''member_username'']\<rparr>)) (event_part event path_part))"

text \<open>\<open>InviteMembersRequest\<close> and \<open>DeleteMembersRequest\<close>.\<close>

definition MembersRequest :: "reg_env \<Rightarrow> pydict \<Rightarrow> exn + members_request" where
  "MembersRequest env = validate_event False [path_part, body_part] (\<lambda>event.
     sbind (body_and_path env event) (validate_object (\<lambda>d.
       sbind (check_fields [text_field ''org_uuid'', (''members'', [''members''], is_list)] d) (\<lambda>_.
       Inr \<lparr>mr_org_uuid = the_text d [''org_uuid''], mr_members = the_list d [''members'']\<rparr>))))"

definition VerifyCodeRequest :: "pydict \<Rightarrow> exn + string" where
  "VerifyCodeRequest = validate_event False [query_part] (\<lambda>event.
     validate_object (\<lambda>d. sbind (check_fields [text_field ''invite_code''] d) (\<lambda>_.
       Inr (the_text d [''invite_code'']))) (event_part event query_part))"

definition PublishMembersRequest :: "reg_env \<Rightarrow> pydict \<Rightarrow> exn + publish_members_request" where
  "PublishMembersRequest env = validate_event False [path_part, body_part] (\<lambda>event.
     sbind (body_and_path env event) (validate_object (\<lambda>d.
       sbind (check_fields [text_field ''org_uuid'', text_field ''transaction_hash'',
           (''members'', [''members''], is_list)] d) (\<lambda>_.
       Inr \<lparr>pm_org_uuid = the_text d [''org_uuid''], pm_transaction_hash = the_text d [''transaction_hash''],
            pm_members = the_list d [''members'']\<rparr>))))"

definition RegisterMemberRequest :: "reg_env \<Rightarrow> pydict \<Rightarrow> exn + register_member_request" where
  "RegisterMemberRequest env = validate_event False [body_part] (\<lambda>event.
     sbind (body_of env event) (validate_object (\<lambda>d.
       sbind (check_fields [text_field ''invite_code'', text_field ''wallet_address''] d) (\<lambda>_.
       Inr \<lparr>rm_invite_code = the_text d [''invite_code''], rm_wallet_address = the_text d [''wallet_address'']\<rparr>))))"

text \<open>An unknown verification type, or a status that is not reviewed, is \<open>MethodNotImplemented\<close>, which
  \<open>validate_event\<close> turns into a parse error.\<close>

definition VerifyOrgRequest :: "pydict \<Rightarrow> exn + verify_org_request" where
  "VerifyOrgRequest = validate_event True [query_part] (\<lambda>event.
     validate_object (\<lambda>d.
       if is_text (dict_get d ''verification_type'') \<and>
          map_of ORG_TYPE_VERIFICATION_TYPE_MAPPING (the_text d [''verification_type'']) = None
       then Inl (MethodNotImplemented [])
       else
         sbind (check_fields [text_field ''verification_type'', text_field ''status'', text_field ''updated_by'',
             (''username'', [''username''], is_text_or_none), (''org_uuid'', [''org_uuid''], is_text_or_none),
             (''comment'', [''comment''], is_text_or_none), (''org_type'', [''org_type''], is_text_or_none)] d) (\<lambda>_.
         (let org_type = the (map_of ORG_TYPE_VERIFICATION_TYPE_MAPPING (the_text d [''verification_type''])) in
          if org_type = organization_type_value ORGANIZATION \<and> the_text d [''status''] \<notin> set ORG_STATUS_LIST
          then Inl (MethodNotImplemented [])
          else Inr \<lparr>vo_status = the_text d [''status''], vo_updated_by = the_text d [''updated_by''],
                    vo_username = maybe d ''username'', vo_org_uuid = maybe d ''org_uuid'',
                    vo_comment = maybe d ''comment'', vo_org_type = org_type\<rparr>)))
       (event_part event query_part))"

definition VerifyOrgIdRequest :: "pydict \<Rightarrow> exn + string" where
  "VerifyOrgIdRequest = validate_event False [query_part] (\<lambda>event.
     validate_object (\<lambda>d. sbind (check_fields [text_field ''org_id''] d) (\<lambda>_.
       Inr (the_text d [''org_id'']))) (event_part event query_part))"

section \<open>application/handlers/organization\_handlers.py\<close>

definition reg_context :: "reg_env \<Rightarrow> pydict \<Rightarrow> request_context rprog" where
  "reg_context env event = of_sum (RequestContext (serverless_offline env) event)"

definition answer_with :: "nat \<Rightarrow> bool \<Rightarrow> pyval \<Rightarrow> lambda_response rprog" where
  "answer_with code cors data =
     of_sum (generate_lambda_response code
       (PDict [(''status'', PStr ''success''), (''data'', data), (''error'', PDict [])]) cors)"

definition org_uuid_path :: "string list" where "org_uuid_path = [''pathParameters'', ''org_uuid'']"

definition username_path :: "string list" where
  "username_path = [''requestContext'', ''authorizer'', ''claims'', ''email'']"

abbreviation guarded :: "action \<Rightarrow> (pydict \<Rightarrow> lambda_response rprog) \<Rightarrow> pydict \<Rightarrow> lambda_response rprog" where
  "guarded act func event \<equiv> exception_handler (secured act org_uuid_path username_path func event)"

definition handle_get_all_org :: "reg_env \<Rightarrow> pydict \<Rightarrow> lambda_response rprog" where
  "handle_get_all_org env event = exception_handler
     (andthen (reg_context env event) (\<lambda>ctx.
      andthen (get_all_org_for_user (rc_username ctx)) (\<lambda>response. answer_with 200 True (PList response))))"

definition handle_get_group_for_org :: "reg_env \<Rightarrow> pydict \<Rightarrow> lambda_response rprog" where
  "handle_get_group_for_org env = guarded CREATE (\<lambda>event.
     andthen (of_sum (GetGroupByOrganizationIdRequest event)) (\<lambda>uuid.
     andthen (service_get_groups_for_org uuid) (\<lambda>response. answer_with 200 True (PDict response))))"

definition handle_create_organization :: "reg_env \<Rightarrow> pydict \<Rightarrow> lambda_response rprog" where
  "handle_create_organization env event = exception_handler
     (andthen (reg_context env event) (\<lambda>ctx.
      andthen (of_sum (CreateOrganizationRequest env event)) (\<lambda>request.
      andthen (create_organization env (rc_username ctx) request) (\<lambda>response.
      answer_with 200 True (PDict response)))))"

definition handle_update_org :: "reg_env \<Rightarrow> pydict \<Rightarrow> lambda_response rprog" where
  "handle_update_org env = guarded UPDATE (\<lambda>event.
     andthen (reg_context env event) (\<lambda>ctx.
     andthen (of_sum (UpdateOrganizationRequest env event)) (\<lambda>(request, act).
     andthen (service_update_organization env (rc_username ctx) request act) (\<lambda>response.
     answer_with 200 True (PStr response)))))"

definition handle_publish_organization :: "reg_env \<Rightarrow> pydict \<Rightarrow> lambda_response rprog" where
  "handle_publish_organization env = guarded CREATE (\<lambda>event.
     andthen (reg_context env event) (\<lambda>ctx.
     andthen (of_sum (PublishOrganizationRequest env event)) (\<lambda>request.
     andthen (publish_organization env (rc_username ctx) request) (\<lambda>response.
     answer_with 200 True (PDict response)))))"

definition handle_save_transaction_hash_for_publish_org :: "reg_env \<Rightarrow> pydict \<Rightarrow> lambda_response rprog" where
  "handle_save_transaction_hash_for_publish_org env = guarded CREATE (\<lambda>event.
     andthen (reg_context env event) (\<lambda>ctx.
     andthen (of_sum (SaveTransactionHashForOrganizationRequest env event)) (\<lambda>request.
     andthen (save_transaction_hash_for_publish_org env (rc_username ctx) request) (\<lambda>response.
     answer_with 200 True (PStr response)))))"

definition handle_get_all_members :: "reg_env \<Rightarrow> pydict \<Rightarrow> lambda_response rprog" where
  "handle_get_all_members env = guarded CREATE (\<lambda>event.
     andthen (of_sum (GetAllMembersRequest event)) (\<lambda>request.
     andthen (get_all_member request) (\<lambda>response. answer_with 200 True (PList response))))"

definition handle_get_member :: "reg_env \<Rightarrow> pydict \<Rightarrow> lambda_response rprog" where
  "handle_get_member env = guarded CREATE (\<lambda>event.
     andthen (of_sum (GetMemberRequest event)) (\<lambda>request.
     andthen (get_member request) (\<lambda>response. answer_with 200 True (PList response))))"

definition handle_invite_members :: "reg_env \<Rightarrow> pydict \<Rightarrow> lambda_response rprog" where
  "handle_invite_members env = guarded CREATE (\<lambda>event.
     andthen (of_sum (MembersRequest env event)) (\<lambda>request.
     andthen (invite_members env request) (\<lambda>response. answer_with 201 True (PDict response))))"

definition handle_verify_code :: "reg_env \<Rightarrow> pydict \<Rightarrow> lambda_response rprog" where
  "handle_verify_code env event = exception_handler
     (andthen (reg_context env event) (\<lambda>ctx.
      andthen (of_sum (VerifyCodeRequest event)) (\<lambda>invite_code.
      andthen (verify_invite (rc_username ctx) invite_code) (\<lambda>response. answer_with 200 True (PStr response)))))"

definition handle_publish_members :: "reg_env \<Rightarrow> pydict \<Rightarrow> lambda_response rprog" where
  "handle_publish_members env = guarded CREATE (\<lambda>event.
     andthen (reg_context env event) (\<lambda>ctx.
     andthen (of_sum (PublishMembersRequest env event)) (\<lambda>request.
     andthen (publish_members env request) (\<lambda>response. answer_with 201 True (PStr response)))))"

definition handle_delete_members :: "reg_env \<Rightarrow> pydict \<Rightarrow> lambda_response rprog" where
  "handle_delete_members env event = exception_handler
     (andthen (reg_context env event) (\<lambda>ctx.
      andthen (of_sum (MembersRequest env event)) (\<lambda>request.
      andthen (service_delete_members request) (\<lambda>response. answer_with 201 True (PStr response)))))"

definition handle_register_member :: "reg_env \<Rightarrow> pydict \<Rightarrow> lambda_response rprog" where
  "handle_register_member env event = exception_handler
     (andthen (reg_context env event) (\<lambda>ctx.
      andthen (of_sum (RegisterMemberRequest env event)) (\<lambda>request.
      andthen (register_member env (rc_username ctx) request) (\<lambda>response. answer_with 201 True (PStr response)))))"

definition handle_org_verification :: "reg_env \<Rightarrow> pydict \<Rightarrow> lambda_response rprog" where
  "handle_org_verification env event = exception_handler
     (andthen (of_sum (VerifyOrgRequest event)) (\<lambda>request.
      andthen (update_verification env request) (\<lambda>_. answer_with 201 False PNone)))"

definition handle_verify_org_id :: "reg_env \<Rightarrow> pydict \<Rightarrow> lambda_response rprog" where
  "handle_verify_org_id env event = exception_handler
     (andthen (of_sum (VerifyOrgIdRequest event)) (\<lambda>org_id.
      andthen (get_org_id_availability_status env org_id) (\<lambda>response. answer_with 200 True (PStr response))))"

definition handle_update_transaction :: "reg_env \<Rightarrow> pydict \<Rightarrow> lambda_response rprog" where
  "handle_update_transaction env event = exception_handler
     (andthen (update_transaction_status env) (\<lambda>_. of_sum (generate_lambda_response 200 (PStr ''OK'') False)))"

end
