(* ===== verification/Registry_Laws.thy ===== *)
theory Registry_Laws
  imports Registry_Requests
begin

text \<open>
  How the organization tables may change. \<open>reg_ok\<close> is what they always satisfy. A \<open>lifecycle\<close> is a
  relation between the states of an organization with the states a new one may start in; that an
  operation tracks a lifecycle means that it keeps the tables well formed, removes no organization,
  and moves every organization's state along the lifecycle, whether it returns or raises.
\<close>

section \<open>Well-formed tables\<close>

text \<open>Every organization has one state row, and all rows refer to organizations.\<close>

definition org_uuids :: "reg_db \<Rightarrow> string list" where
  "org_uuids db = map org_uuid (organization_table db)"

definition reg_ok :: "reg_db \<Rightarrow> bool" where
  "reg_ok db \<longleftrightarrow>
     distinct (org_uuids db) \<and> [] \<notin> set (org_uuids db) \<and>
     map os_org_uuid (org_state_table db) = org_uuids db \<and>
     grp_org_uuid ` set (group_table db) \<subseteq> set (org_uuids db) \<and>
     adr_org_uuid ` set (address_table db) \<subseteq> set (org_uuids db) \<and>
     mb_org_uuid ` set (member_table db) \<subseteq> set (org_uuids db)"

definition reg_inv :: "reg_world \<Rightarrow> bool" where
  "reg_inv w \<longleftrightarrow> reg_ok (session w) \<and> reg_ok (stored w) \<and> org_uuids (session w) = org_uuids (stored w)"

definition state_rows :: "reg_world \<Rightarrow> org_state_row set" where
  "state_rows w = set (org_state_table (session w)) \<union> set (org_state_table (stored w))"

lemma reg_ok_states_of:
  assumes "reg_ok db" and "uuid \<in> set (org_uuids db)"
  shows "\<exists>s. states_of db uuid = [s] \<and> s \<in> set (org_state_table db) \<and> os_org_uuid s = uuid"
proof -
  have dist: "distinct (map os_org_uuid (org_state_table db))" and "uuid \<in> os_org_uuid ` set (org_state_table db)"
    using assms by (auto simp: reg_ok_def simp flip: set_map)
  then obtain s where s: "s \<in> set (org_state_table db)" "os_org_uuid s = uuid" by auto
  moreover have "states_of db uuid = [s]"
  proof -
    have "distinct (map os_org_uuid t) \<Longrightarrow> s \<in> set t \<Longrightarrow> filter (\<lambda>x. os_org_uuid x = os_org_uuid s) t = [s]" for t
      by (induction t) (auto simp: filter_empty_conv image_iff)
    with dist s show ?thesis by (simp add: states_of_def)
  qed
  ultimately show ?thesis by blast
qed

lemma states_of_none: "reg_ok db \<Longrightarrow> uuid \<notin> set (org_uuids db) \<Longrightarrow> states_of db uuid = []"
  by (auto simp: states_of_def filter_empty_conv reg_ok_def) (metis image_eqI list.set_map)

lemma reg_ok_uuid: "reg_ok db \<Longrightarrow> r \<in> set (organization_table db) \<Longrightarrow> org_uuid r \<noteq> []"
  unfolding reg_ok_def org_uuids_def set_map by (metis imageI)

section \<open>Lifecycles\<close>

locale lifecycle =
  fixes step :: "string \<Rightarrow> string \<Rightarrow> bool" and start :: "string \<Rightarrow> bool"
begin

text \<open>Where the state rows of one database come from, in terms of another.\<close>

definition db_tracks :: "reg_db \<Rightarrow> reg_db \<Rightarrow> bool" where
  "db_tracks db db' \<longleftrightarrow> (reg_ok db \<longrightarrow>
     reg_ok db' \<and> org_uuids db' = org_uuids db \<and>
     (\<forall>s' \<in> set (org_state_table db'). \<exists>s \<in> set (org_state_table db).
        os_org_uuid s = os_org_uuid s' \<and> step\<^sup>*\<^sup>* (os_state s) (os_state s')))"

definition tracks :: "reg_world \<Rightarrow> reg_world \<Rightarrow> bool" where
  "tracks w w' \<longleftrightarrow> (reg_inv w \<longrightarrow>
     reg_inv w' \<and> set (org_uuids (session w)) \<subseteq> set (org_uuids (session w')) \<and>
     (\<forall>s' \<in> state_rows w'.
        (\<exists>s \<in> state_rows w. os_org_uuid s = os_org_uuid s' \<and> step\<^sup>*\<^sup>* (os_state s) (os_state s')) \<or>
        (os_org_uuid s' \<notin> set (org_uuids (session w)) \<and> (\<exists>i. start i \<and> step\<^sup>*\<^sup>* i (os_state s')))))"

lemma tracks_refl: "tracks w w"
  by (auto simp: tracks_def)

lemma tracks_trans:
  assumes "tracks u v" and "tracks v w"
  shows "tracks u w"
  unfolding tracks_def
proof (intro impI conjI ballI)
  assume u: "reg_inv u"
  with assms(1) have v: "reg_inv v" by (simp add: tracks_def)
  with assms(2) show "reg_inv w" by (simp add: tracks_def)
  have uv: "set (org_uuids (session u)) \<subseteq> set (org_uuids (session v))" using assms(1) u by (simp add: tracks_def)
  moreover have "set (org_uuids (session v)) \<subseteq> set (org_uuids (session w))" using assms(2) v by (simp add: tracks_def)
  ultimately show "set (org_uuids (session u)) \<subseteq> set (org_uuids (session w))" by blast
  fix s'' assume s'': "s'' \<in> state_rows w"
  from assms(2) v s'' consider
      s' where "s' \<in> state_rows v" "os_org_uuid s' = os_org_uuid s''" "step\<^sup>*\<^sup>* (os_state s') (os_state s'')"
    | "os_org_uuid s'' \<notin> set (org_uuids (session v))" "\<exists>i. start i \<and> step\<^sup>*\<^sup>* i (os_state s'')"
    unfolding tracks_def by blast
  then show "(\<exists>s \<in> state_rows u. os_org_uuid s = os_org_uuid s'' \<and> step\<^sup>*\<^sup>* (os_state s) (os_state s'')) \<or>
      (os_org_uuid s'' \<notin> set (org_uuids (session u)) \<and> (\<exists>i. start i \<and> step\<^sup>*\<^sup>* i (os_state s'')))"
  proof cases
    case 1
    from assms(1) u 1(1) consider
        s where "s \<in> state_rows u" "os_org_uuid s = os_org_uuid s'" "step\<^sup>*\<^sup>* (os_state s) (os_state s')"
      | i where "os_org_uuid s' \<notin> set (org_uuids (session u))" "start i" "step\<^sup>*\<^sup>* i (os_state s')"
      unfolding tracks_def by blast
    then show ?thesis
    proof cases
      case (1 s)
      with \<open>step\<^sup>*\<^sup>* (os_state s') (os_state s'')\<close> \<open>os_org_uuid s' = os_org_uuid s''\<close> show ?thesis
        by (metis rtranclp_trans)
    next
      case (2 i)
      with \<open>step\<^sup>*\<^sup>* (os_state s') (os_state s'')\<close> \<open>os_org_uuid s' = os_org_uuid s''\<close> show ?thesis
        by (metis rtranclp_trans)
    qed
  next
    case 2
    with uv show ?thesis by blast
  qed
qed

sublocale frame: step_frame tracks
  by unfold_locales (rule tracks_refl, rule tracks_trans)

lemma db_tracks_same:
  "org_state_table db' = org_state_table db \<Longrightarrow> organization_table db' = organization_table db \<Longrightarrow>
   (reg_ok db \<Longrightarrow> reg_ok db') \<Longrightarrow> db_tracks db db'"
  by (auto simp: db_tracks_def org_uuids_def)

lemma tracks_session:
  assumes "db_tracks (session w) db'"
  shows "tracks w (w\<lparr>session := db'\<rparr>)"
  using assms unfolding tracks_def db_tracks_def reg_inv_def state_rows_def
  by simp (metis UnI1 UnI2 Un_iff rtranclp.rtrancl_refl)

lemma tracks_commit: "tracks w (w\<lparr>stored := session w\<rparr>)"
  unfolding tracks_def reg_inv_def state_rows_def by auto

lemma tracks_rollback: "tracks w (w\<lparr>session := stored w\<rparr>)"
  unfolding tracks_def reg_inv_def state_rows_def by auto

lemma tracks_both:
  assumes "db_tracks (session w) db'"
  shows "tracks w (w\<lparr>session := db', stored := db'\<rparr>)"
  using tracks_trans [OF tracks_session [OF assms] tracks_commit] by simp

lemma tracks_quiet: "session w' = session w \<Longrightarrow> stored w' = stored w \<Longrightarrow> tracks w w'"
  unfolding tracks_def reg_inv_def state_rows_def by auto

subsection \<open>Programs that track a lifecycle\<close>

lemma stays_quiet_programs:
  "stays tracks (reg_query f)" "stays tracks (reg_external a c)" "stays tracks (draw g)" "stays tracks commit"
  "stays tracks rollback"
  by (simp_all add: stays_def tracks_refl tracks_commit tracks_rollback tracks_quiet)

lemma stays_execute: "(\<And>db. db_tracks db (g db)) \<Longrightarrow> stays tracks (reg_execute g)"
  by (simp add: stays_def tracks_session)

lemma stays_add: "(\<And>db. ok db \<Longrightarrow> db_tracks db (g db)) \<Longrightarrow> stays tracks (add_items ok g)"
  by (simp add: stays_def tracks_both tracks_rollback)

lemma stays_write_ops: "stays tracks m \<Longrightarrow> stays tracks (write_ops m)"
  unfolding write_ops_def by (intro frame.stays_rules stays_quiet_programs)

lemma leads_write_ops:
  assumes "tracks w (snd (m w))"
  shows "tracks w (snd (write_ops m w))"
  using assms tracks_trans [OF _ tracks_rollback]
  by (auto simp: write_ops_apply split: prod.split sum.split)

lemmas base_rules = frame.stays_rules stays_quiet_programs stays_write_ops

lemma db_tracks_first_state:
  assumes "\<And>s. os_org_uuid (f s) = os_org_uuid s"
    and "\<And>s. s \<in> set (org_state_table db) \<Longrightarrow> os_org_uuid s = uuid \<Longrightarrow> step\<^sup>*\<^sup>* (os_state s) (os_state (f s))"
  shows "db_tracks db (db\<lparr>org_state_table := update_first (\<lambda>s. os_org_uuid s = uuid) f (org_state_table db)\<rparr>)"
proof -
  have "\<exists>s \<in> set t. os_org_uuid s = os_org_uuid s' \<and> step\<^sup>*\<^sup>* (os_state s) (os_state s')"
    if "s' \<in> set (update_first (\<lambda>s. os_org_uuid s = uuid) f t)" "set t \<subseteq> set (org_state_table db)" for t s'
    using that assms by (induction t) (auto split: if_splits)
  moreover have "map os_org_uuid (update_first (\<lambda>s. os_org_uuid s = uuid) f (org_state_table db)) =
      map os_org_uuid (org_state_table db)"
    using assms(1) by (intro map_update_first) simp
  ultimately show ?thesis by (auto simp: db_tracks_def reg_ok_def org_uuids_def)
qed

lemma touch_state_fields:
  assumes "os_org_uuid (f s) = os_org_uuid s"
  shows "os_org_uuid (touch_state env f s) = os_org_uuid s" "os_state (touch_state env f s) = os_state (f s)"
  using assms by (auto simp: touch_state_def touch_def)

lemma leads_update_first_state:
  assumes "\<And>s. os_org_uuid (f s) = os_org_uuid s"
    and "\<And>s. s \<in> set (org_state_table (session w)) \<Longrightarrow> os_org_uuid s = uuid \<Longrightarrow> step\<^sup>*\<^sup>* (os_state s) (os_state (f s))"
  shows "tracks w (snd (update_first_state env uuid f w))"
  using assms by (auto simp: update_first_state_def touch_state_fields intro!: tracks_refl tracks_session db_tracks_first_state)

lemma stays_update_first_state:
  "(\<And>s. os_org_uuid (f s) = os_org_uuid s) \<Longrightarrow> (\<And>s. step\<^sup>*\<^sup>* (os_state s) (os_state (f s))) \<Longrightarrow>
   stays tracks (update_first_state env uuid f)"
  by (simp add: stays_def leads_update_first_state)

lemma db_tracks_members:
  "(reg_ok db \<Longrightarrow> mb_org_uuid ` set t \<subseteq> set (org_uuids db)) \<Longrightarrow> db_tracks db (db\<lparr>member_table := t\<rparr>)"
  by (rule db_tracks_same) (auto simp: reg_ok_def org_uuids_def)

lemma ok_members: "reg_ok db \<Longrightarrow> mb_org_uuid ` set (member_table db) \<subseteq> set (org_uuids db)"
  by (simp add: reg_ok_def)

lemma db_tracks_member_update:
  "(\<And>m. mb_org_uuid (f m) = mb_org_uuid m) \<Longrightarrow>
   db_tracks db (db\<lparr>member_table := update_first p f (member_table db)\<rparr>)"
  "(\<And>m. mb_org_uuid (f m) = mb_org_uuid m) \<Longrightarrow>
   db_tracks db (db\<lparr>member_table := sql_update p f (member_table db)\<rparr>)"
  by (rule db_tracks_members, metis list.set_map map_update_first ok_members)
    (rule db_tracks_members, metis key_set_update ok_members)

lemma db_tracks_member_filter: "db_tracks db (db\<lparr>member_table := filter p (member_table db)\<rparr>)"
  by (rule db_tracks_members) (auto dest!: ok_members)

end

lemma touch_member_uuid: "mb_org_uuid (f m) = mb_org_uuid m \<Longrightarrow> mb_org_uuid (touch_member env f m) = mb_org_uuid m"
  by (simp add: touch_member_def touch_def)

section \<open>The repository\<close>

context lifecycle
begin

lemma stays_option:
  "stays tracks m \<Longrightarrow> (\<And>x. stays tracks (n x)) \<Longrightarrow> stays tracks (case v of None \<Rightarrow> m | Some x \<Rightarrow> n x)"
  by (cases v) auto

lemma stays_find: "stays tracks (find_organization uuid)"
  unfolding find_organization_def by (rule stays_quiet_programs)

lemma stays_organization_row:
  "(\<And>r. org_uuid r = uuid \<Longrightarrow> org_uuid (f r) = org_uuid r) \<Longrightarrow> stays tracks (update_organization_row uuid f)"
proof -
  assume same: "\<And>r. org_uuid r = uuid \<Longrightarrow> org_uuid (f r) = org_uuid r"
  then have "map org_uuid (sql_update (\<lambda>r. org_uuid r = uuid) f t) = map org_uuid t" for t
    by (intro map_sql_update) simp
  then show ?thesis
    unfolding update_organization_row_def by (auto simp: db_tracks_def reg_ok_def org_uuids_def intro!: stays_execute)
qed

lemma stays_store_metadata_uri: "stays tracks (store_metadata_uri env org username)"
  unfolding store_metadata_uri_def
  by (intro base_rules stays_find stays_option stays_organization_row stays_update_first_state) auto

lemma stays_persist_publish_org:
  assumes "\<And>s. step\<^sup>*\<^sup>* s (organization_status_value PUBLISH_IN_PROGRESS)"
  shows "stays tracks (persist_publish_org_transaction_hash env uuid h a n username)"
  unfolding persist_publish_org_transaction_hash_def using assms
  by (intro base_rules stays_find stays_update_first_state stays_execute db_tracks_member_update touch_member_uuid) auto

lemma stays_member_writes:
  "stays tracks (delete_members members status)"
  "stays tracks (persist_publish_org_member_transaction_hash env members h uuid)"
  "stays tracks (update_org_member env username address invite_code)"
  "stays tracks (delete_org_member m)"
  unfolding delete_members_def persist_publish_org_member_transaction_hash_def update_org_member_def
    delete_org_member_def Let_def
  by (intro base_rules stays_execute stays_option db_tracks_member_update db_tracks_member_filter touch_member_uuid; simp)+

lemma stays_add_member: "stays tracks (add_member env members)"
  unfolding add_member_def
  by (intro stays_add db_tracks_members) (auto simp: member_row_of_def org_uuids_def dest!: ok_members)

lemma stays_upsert_org_member: "stays tracks (upsert_org_member env m)"
  unfolding upsert_org_member_def Let_def
  by (intro base_rules stays_option stays_add stays_execute db_tracks_member_update touch_member_uuid db_tracks_members)
    (simp_all add: member_row_of_def org_uuids_def reg_ok_def)

lemma stays_archive: "stays tracks (add_organization_archive org)"
  unfolding add_organization_archive_def
  by (intro base_rules stays_option stays_add db_tracks_same) (auto simp: reg_ok_def org_uuids_def)

lemma stays_update_organization_status:
  assumes "\<And>s. step\<^sup>*\<^sup>* s (reviewed_status s status)"
  shows "stays tracks (update_organization_status env uuid status updated_by comment)"
  unfolding update_organization_status_def using assms
  by (intro base_rules stays_find stays_option stays_update_first_state) auto

lemma stays_update_org_status:
  assumes "step\<^sup>*\<^sup>* prev next"
  shows "stays tracks (update_org_status env uuids prev next)"
proof -
  let ?upd = "\<lambda>t. sql_update (\<lambda>s. os_org_uuid s \<in> set uuids \<and> os_state s = prev) (touch_state env (\<lambda>s. s\<lparr>os_state := next\<rparr>)) t"
  have "map os_org_uuid (?upd t) = map os_org_uuid t" for t
    by (intro map_sql_update) (simp add: touch_state_fields)
  moreover have "\<exists>s \<in> set t. os_org_uuid s = os_org_uuid s' \<and> step\<^sup>*\<^sup>* (os_state s) (os_state s')" if "s' \<in> set (?upd t)" for s' t
  proof -
    from that obtain s where s: "s \<in> set t" "s' = (if os_org_uuid s \<in> set uuids \<and> os_state s = prev
        then touch_state env (\<lambda>s. s\<lparr>os_state := next\<rparr>) s else s)" by (auto simp: set_sql_update)
    with assms show ?thesis by (intro bexI [of _ s]) (simp_all add: touch_state_fields)
  qed
  ultimately have "db_tracks db (db\<lparr>org_state_table := ?upd (org_state_table db)\<rparr>)" for db
    by (simp add: db_tracks_def reg_ok_def org_uuids_def)
  then show ?thesis unfolding update_org_status_def by (intro base_rules stays_execute)
qed

lemma stays_individual:
  assumes "step\<^sup>*\<^sup>* (organization_status_value ONBOARDING) (organization_status_value ONBOARDING_APPROVED)"
    and "step\<^sup>*\<^sup>* (organization_status_value ONBOARDING) (organization_status_value ONBOARDING_REJECTED)"
  shows "stays tracks (update_all_individual_organization_for_user env username status updated_by)"
proof -
  have "tracks w (snd (verify_individual env status updated_by uuid w))" for uuid w
  proof (cases "reg_inv w \<and> uuid \<in> set (org_uuids (session w))")
    case True
    then obtain s where s: "states_of (session w) uuid = [s]"
      using reg_ok_states_of [of "session w" uuid] by (auto simp: reg_inv_def)
    then have only: "os_state r = os_state s" if "r \<in> set (org_state_table (session w))" "os_org_uuid r = uuid" for r
    proof -
      have "r \<in> set (states_of (session w) uuid)" using that by (simp add: states_of_def)
      with s show ?thesis by simp
    qed
    show ?thesis
      using s assms only
      by (auto simp: verify_individual_def tracks_refl intro!: leads_update_first_state)
  next
    case False
    show ?thesis
    proof (cases "reg_inv w")
      case True
      with False have "states_of (session w) uuid = []" by (intro states_of_none) (auto simp: reg_inv_def)
      then show ?thesis by (simp add: verify_individual_def tracks_refl)
    qed (simp add: tracks_def)
  qed
  then have "stays tracks (verify_individual env status updated_by uuid)" for uuid by (simp add: stays_def)
  then show ?thesis unfolding update_all_individual_organization_for_user_def by (intro base_rules)
qed

lemma leads_overwrite:
  assumes "\<And>s. s \<in> set (org_state_table (session w)) \<Longrightarrow> os_org_uuid s = o_uuid org \<Longrightarrow> step\<^sup>*\<^sup>* (os_state s) state"
  shows "tracks w (snd (overwrite_organization env org username state h w))"
proof -
  have "stays tracks (andthen commit (\<lambda>_.
      andthen (reg_execute (\<lambda>db. db\<lparr>address_table := filter (\<lambda>a. adr_org_uuid a \<noteq> o_uuid org) (address_table db),
         group_table := filter (\<lambda>g. grp_org_uuid g \<noteq> o_uuid org) (group_table db)\<rparr>)) (\<lambda>_.
      andthen commit (\<lambda>_.
      andthen (add_items (\<lambda>db. set (map adr_org_uuid (address_rows org)) \<subseteq> org_uuid ` set (organization_table db))
         (\<lambda>db. db\<lparr>address_table := address_table db @ address_rows org\<rparr>)) (\<lambda>_.
      add_items (\<lambda>db. set (map grp_org_uuid (group_rows org)) \<subseteq> org_uuid ` set (organization_table db))
         (\<lambda>db. db\<lparr>group_table := group_table db @ group_rows org\<rparr>))))))"
    by (intro base_rules stays_add stays_execute db_tracks_same) (auto simp: reg_ok_def org_uuids_def)
  note rest = this
  show ?thesis
    unfolding overwrite_organization_def
  proof (rule leads_write_ops, rule frame.leads_andthen)
    show "tracks w (snd (update_organization_row (o_uuid org) (\<lambda>r. organization_row_of org) w))"
      by (rule frame.staysD_at [OF stays_organization_row]) (simp add: organization_row_of_def)
  next
    fix a w1
    assume "update_organization_row (o_uuid org) (\<lambda>r. organization_row_of org) w = (Inr a, w1)"
    then have states: "org_state_table (session w1) = org_state_table (session w)"
      by (auto simp: update_organization_row_def)
    show "tracks w1 (snd (andthen (update_first_state env (o_uuid org) (\<lambda>s. s\<lparr>os_state := state,
         os_test_transaction_hash := (case h of None \<Rightarrow> os_test_transaction_hash s | Some h \<Rightarrow> Some h),
         os_updated_by := username\<rparr>)) (\<lambda>_.
      andthen commit (\<lambda>_.
      andthen (reg_execute (\<lambda>db. db\<lparr>address_table := filter (\<lambda>a. adr_org_uuid a \<noteq> o_uuid org) (address_table db),
         group_table := filter (\<lambda>g. grp_org_uuid g \<noteq> o_uuid org) (group_table db)\<rparr>)) (\<lambda>_.
      andthen commit (\<lambda>_.
      andthen (add_items (\<lambda>db. set (map adr_org_uuid (address_rows org)) \<subseteq> org_uuid ` set (organization_table db))
         (\<lambda>db. db\<lparr>address_table := address_table db @ address_rows org\<rparr>)) (\<lambda>_.
      add_items (\<lambda>db. set (map grp_org_uuid (group_rows org)) \<subseteq> org_uuid ` set (organization_table db))
         (\<lambda>db. db\<lparr>group_table := group_table db @ group_rows org\<rparr>)))))) w1))"
      using assms by (intro frame.leads_andthen leads_update_first_state frame.staysD_at [OF rest]) (auto simp: states)
  qed
qed

lemma tracks_new_organization:
  assumes "start state" and "o_uuid org \<notin> org_uuid ` set (organization_table (session w))" and "o_uuid org \<noteq> []"
  shows "tracks w (w\<lparr>session := with_organization env org username state h (session w),
     stored := with_organization env org username state h (session w)\<rparr>)"
proof -
  let ?db = "with_organization env org username state h (session w)"
  have rows: "grp_org_uuid ` set (group_rows org) \<subseteq> {o_uuid org}" "adr_org_uuid ` set (address_rows org) \<subseteq> {o_uuid org}"
    by (auto simp: group_rows_def address_rows_def)
  have "reg_ok (session w) \<Longrightarrow> reg_ok ?db"
    using assms(2,3) rows
    by (auto simp: reg_ok_def org_uuids_def with_organization_def organization_row_of_def new_state_row_def)
  moreover have "os_org_uuid (new_state_row env org username state h) = o_uuid org"
    "os_state (new_state_row env org username state h) = state" by (simp_all add: new_state_row_def)
  moreover have "reg_inv w \<Longrightarrow> o_uuid org \<notin> org_uuid ` set (organization_table (stored w))"
    using assms(2) by (metis list.set_map org_uuids_def reg_inv_def)
  ultimately show ?thesis
    using assms(1,2) unfolding tracks_def reg_inv_def state_rows_def
    by (auto simp: with_organization_def org_uuids_def)
qed

lemma stays_add_organization:
  assumes "start state" and "o_uuid org \<noteq> []"
  shows "stays tracks (add_organization env org username state h)"
proof -
  have "stays tracks (add_items (\<lambda>db. o_uuid org \<notin> org_uuid ` set (organization_table db))
      (with_organization env org username state h))"
    using tracks_new_organization [OF assms(1) _ assms(2)] by (simp add: stays_def tracks_rollback)
  note first = this
  show ?thesis
    unfolding add_organization_def
    by (intro first base_rules stays_add db_tracks_members) (auto simp: reg_ok_def org_uuids_def)
qed

lemma leads_update_organization:
  assumes "\<And>s. s \<in> set (org_state_table (session w)) \<Longrightarrow> os_org_uuid s = o_uuid org \<Longrightarrow> step\<^sup>*\<^sup>* (os_state s) state"
  shows "tracks w (snd (update_organization env org username state h w))"
  using leads_overwrite [OF assms] unfolding update_organization_def find_organization_def
  by (intro leads_write_ops) (auto simp: tracks_refl split: option.split)

lemma stays_store_organization:
  assumes "start state" and "o_uuid org \<noteq> []" and "\<And>s. step\<^sup>*\<^sup>* s state"
  shows "stays tracks (store_organization env org username state h)"
proof -
  have "stays tracks (overwrite_organization env org username state h)"
    using leads_overwrite assms(3) by (simp add: stays_def)
  with stays_add_organization [OF assms(1,2)] show ?thesis
    unfolding store_organization_def by (intro base_rules stays_find stays_option)
qed

end

end
