(* ===== verification/Registry_Portal.thy ===== *)
theory Registry_Portal
  imports Registry_Laws
begin

text \<open>
  The portal's side of an organization's life: every request handler moves the states of the
  organizations along \<open>portal_step\<close> only. Publication is not in it: that is the blockchain's.
\<close>

section \<open>The steps that requests take\<close>

inductive portal_step :: "string \<Rightarrow> string \<Rightarrow> bool" where
  edit_draft: "s \<in> organization_status_value ` {CHANGE_REQUESTED, ONBOARDING} \<Longrightarrow>
     portal_step s (organization_status_value ONBOARDING_APPROVED)"
| edit_approved: "s \<in> organization_status_value ` {APPROVED, PUBLISHED, APPROVAL_PENDING} \<Longrightarrow>
     portal_step s (organization_status_value APPROVED)"
| transaction_sent: "portal_step s (organization_status_value PUBLISH_IN_PROGRESS)"
| transaction_failed: "portal_step (organization_status_value PUBLISH_IN_PROGRESS) (organization_status_value FAILED)"
| review_draft: "s \<in> organization_status_value ` {ONBOARDING, ONBOARDING_REJECTED, ONBOARDING_APPROVED} \<Longrightarrow>
     s' \<in> organization_status_value ` {ONBOARDING_APPROVED, ONBOARDING_REJECTED, CHANGE_REQUESTED} \<Longrightarrow> portal_step s s'"
| review: "s \<notin> organization_status_value ` {ONBOARDING, ONBOARDING_REJECTED, ONBOARDING_APPROVED} \<Longrightarrow>
     s' \<in> organization_status_value ` {APPROVED, REJECTED, CHANGE_REQUESTED} \<Longrightarrow> portal_step s s'"

inductive_simps portal_step_iff: "portal_step s s'"

definition portal_start :: "string \<Rightarrow> bool" where
  "portal_start s \<longleftrightarrow> s = organization_status_value ONBOARDING_APPROVED"

interpretation portal: lifecycle portal_step portal_start .

lemma review_steps:
  assumes "status \<in> set ORG_STATUS_LIST"
  shows "portal_step s (reviewed_status s status)"
proof (cases "s \<in> organization_status_value ` {ONBOARDING, ONBOARDING_REJECTED, ONBOARDING_APPROVED}")
  case True
  then show ?thesis using assms by (intro review_draft) (auto simp: reviewed_status_def ORG_STATUS_LIST_def)
next
  case False
  then show ?thesis using assms by (intro review) (auto simp: reviewed_status_def ORG_STATUS_LIST_def)
qed

lemma edit_steps:
  assumes "next_state_for_update org = Inr s'" and "get_status org = Some s"
  shows "portal_step\<^sup>*\<^sup>* s s'"
proof -
  from assms have "portal_step s s' \<or> s' = s"
    unfolding portal_step_iff by (auto simp: next_state_for_update_def Let_def split: if_splits)
  then show ?thesis by auto
qed

section \<open>The service\<close>

lemma portal_create_entity: "stays portal.tracks (create_organization_entity_from_request env request)"
proof -
  have "stays portal.tracks (group_domain_entity_from_payload env p)" for p
    unfolding group_domain_entity_from_payload_def group_setup_id_def by (intro portal.base_rules)
  then show ?thesis
    unfolding create_organization_entity_from_request_def group_domain_entity_from_group_list_payload_def
    by (intro portal.base_rules)
qed

lemma stays_case_prod: "(\<And>x y. stays R (f x y)) \<Longrightarrow> stays R (case p of (x, y) \<Rightarrow> f x y)"
  by (cases p) simp

lemma portal_reads:
  "stays portal.tracks (get_organizations a b c)" "stays portal.tracks (get_organization x y)"
  "stays portal.tracks (get_org_member u i r st v)" "stays portal.tracks (get_all_orgs_for_user name)"
  "stays portal.tracks (get_groups_for_org uuid)" "stays portal.tracks (org_member_verify name code)"
  "stays portal.tracks (get_org_state_with_status text)"
  unfolding get_organizations_def get_organization_def get_org_member_def get_all_orgs_for_user_def
    get_groups_for_org_def org_member_verify_def get_org_state_with_status_def
  by (intro portal.base_rules stays_case_prod portal.stays_option)+

definition uuids_given :: "reg_env \<Rightarrow> bool" where
  "uuids_given env \<longleftrightarrow> (\<forall>n. uuid4_hex env n \<noteq> [])"

lemma of_sum_Inr: "of_sum (Inr a) = ret a"
  by (rule ext) simp

lemma portal_create_organization:
  assumes "uuids_given env"
  shows "stays portal.tracks (create_organization env username request)"
proof -
  have "stays portal.tracks (setup_id env org)" for org
    unfolding setup_id_def by (intro portal.base_rules)
  moreover have "stays portal.tracks get_all_org_id"
    unfolding get_all_org_id_def by (intro portal.base_rules portal_reads)
  moreover have "o_uuid org' \<noteq> []" if "setup_id env org w = (Inr org', w')" for org org' w w'
    using that assms by (auto simp: setup_id_def uuids_given_def split: if_splits)
  moreover have "next_state None (organization_actions_value CREATE_ACTION) = Inr (organization_status_value ONBOARDING_APPROVED)"
    by (simp add: next_state_def)
  ultimately show ?thesis
    unfolding create_organization_def
    by (simp only: of_sum_Inr andthen_ret, intro portal.frame.stays_andthen [OF portal_create_entity]
        portal.frame.stays_andthen_result [of "setup_id env _"] portal.base_rules portal.stays_add_organization)
      (auto simp: portal_start_def)
qed

lemma found_organization:
  assumes "get_organization None (Some uuid) w = (Inr (Some org), w')" and "reg_ok (session w)" and "uuid \<noteq> []"
  shows "w' = w \<and> o_uuid org = uuid \<and> (\<exists>s. states_of (session w) uuid = [s] \<and> get_status org = Some (os_state s))"
proof -
  obtain c cs where uuid: "uuid = c # cs" using assms(3) by (cases uuid) auto
  let ?rows = "sql_first (\<lambda>r. states_of (session w) (org_uuid r) \<noteq> [] \<and> org_uuid r = uuid) (organization_table (session w))"
  have run: "(case ?rows of None \<Rightarrow> ret None
     | Some r \<Rightarrow> andthen (of_sum (org_domain_entity_from_repo_model (session w) r)) (\<lambda>org. ret (Some org))) w =
     (Inr (Some org), w')"
    using assms(1) by (simp add: get_organization_def uuid)
  then obtain r where row: "?rows = Some r" by (cases ?rows) auto
  with run have org: "org_domain_entity_from_repo_model (session w) r = Inr org" and "w' = w"
    by (auto elim!: andthen_InrE)
  from row have r: "r \<in> set (organization_table (session w))" "org_uuid r = uuid" by (auto dest: sql_first_SomeD)
  from r have "uuid \<in> set (org_uuids (session w))" by (auto simp: org_uuids_def)
  then obtain s where s: "states_of (session w) uuid = [s]" using reg_ok_states_of [OF assms(2)] by blast
  from org r s have "o_uuid org = uuid" "get_status org = Some (os_state s)"
    by (auto simp: org_domain_entity_from_repo_model_def parse_organization_state_data_model_def sbind_Inr_iff
        parse_organization_state_from_db_def get_status_def)
  with s \<open>w' = w\<close> show ?thesis by blast
qed

lemma entity_uuid:
  assumes "create_organization_entity_from_request env request w = (Inr org, w')"
  shows "o_uuid org = rq_uuid request"
  using assms by (auto simp: create_organization_entity_from_request_def elim!: andthen_InrE)

lemma missing_organization:
  assumes "reg_inv w" and "o_uuid org = []"
  shows "portal.tracks w (snd (update_organization env org username state h w))"
proof -
  have "sql_first (\<lambda>r. org_uuid r = o_uuid org) (organization_table (session w)) = None"
    using reg_ok_uuid [of "session w"] assms by (auto simp: sql_first_None reg_inv_def)
  then have "snd (update_organization env org username state h w) = w\<lparr>session := stored w\<rparr>"
    by (simp add: update_organization_def find_organization_def write_ops_apply)
  then show ?thesis by (simp add: portal.tracks_rollback)
qed

lemma reg_ok_archive: "reg_ok (db\<lparr>archive_table := t\<rparr>) = reg_ok db"
  by (simp add: reg_ok_def org_uuids_def)

lemma archive_keeps:
  assumes "archive_current_organization current w = (Inr u, w')"
  shows "\<exists>t. session w' = (session w)\<lparr>archive_table := t\<rparr>"
proof (cases current)
  case None
  with assms show ?thesis by (simp add: archive_current_organization_def)
next
  case (Some c)
  have "\<exists>t. session w = (session w)\<lparr>archive_table := t\<rparr>"
    by (rule exI [of _ "archive_table (session w)"]) simp
  with assms Some show ?thesis
    by (cases "o_org_state c")
      (auto simp: archive_current_organization_def add_organization_archive_def write_ops_apply get_status_def
        split: if_splits)
qed

lemma get_organization_reads: "get_organization x y w = (r, w') \<Longrightarrow> w' = w"
  by (auto simp: get_organization_def andthen_apply split: option.splits sum.splits)

text \<open>An update moves the state of the organization it overwrites, whatever that is.\<close>

lemma update_edits:
  assumes current: "get_organization None (Some (o_uuid org)) w = (Inr (Some c), w2)"
    and archived: "archive_current_organization (Some c) w2 = (Inr u, w3)" and "reg_inv w3"
    and state: "next_state_for_update c = Inr state"
  shows "portal.tracks w3 (snd (update_organization env org username state h w3))"
proof (cases "o_uuid org = []")
  case True
  with \<open>reg_inv w3\<close> show ?thesis by (rule missing_organization)
next
  case False
  obtain t where t: "session w3 = (session w)\<lparr>archive_table := t\<rparr>"
    using archive_keeps [OF archived] get_organization_reads [OF current] by blast
  with \<open>reg_inv w3\<close> have "reg_ok (session w)" by (simp add: reg_inv_def reg_ok_archive)
  from found_organization [OF current this False] obtain s where s: "states_of (session w) (o_uuid org) = [s]" "get_status c = Some (os_state s)" by blast
  show ?thesis
  proof (rule portal.leads_update_organization)
    fix r
    assume "r \<in> set (org_state_table (session w3))" "os_org_uuid r = o_uuid org"
    then have "r \<in> set (states_of (session w) (o_uuid org))"
      using t by (simp add: states_of_def)
    with s(1) have "r = s" by simp
    with edit_steps [OF state s(2)] show "portal_step\<^sup>*\<^sup>* (os_state r) state" by simp
  qed
qed

lemma portal_service_update:
  assumes act: "act \<in> organization_actions_value ` {DRAFT_ACTION, SUBMIT_ACTION}"
  shows "stays portal.tracks (service_update_organization env username request act)"
  unfolding service_update_organization_def
proof (rule portal.frame.stays_andthen_result [OF portal_create_entity])
  fix w0 org w1
  assume "create_organization_entity_from_request env request w0 = (Inr org, w1)"
  then have uuid: "rq_uuid request = o_uuid org" by (simp add: entity_uuid)
  show "stays portal.tracks (andthen (get_organization None (Some (rq_uuid request))) (\<lambda>current.
     andthen (archive_current_organization current) (\<lambda>_.
     andthen (of_sum (next_state current act)) (\<lambda>updated_state.
     andthen (update_organization env org username updated_state None) (\<lambda>_. ret ''OK'')))))"
    unfolding stays_def uuid
  proof (intro allI portal.frame.leads_andthen [OF portal.frame.staysD_at [OF portal_reads(2)]])
    fix w current w2
    assume current: "get_organization None (Some (o_uuid org)) w = (Inr current, w2)"
    have "stays portal.tracks (archive_current_organization current)"
      unfolding archive_current_organization_def
      by (intro portal.stays_option portal.base_rules portal.stays_archive)
    note archive = portal.frame.staysD_at [OF this]
    show "portal.tracks w2 (snd (andthen (archive_current_organization current) (\<lambda>_.
       andthen (of_sum (next_state current act)) (\<lambda>updated_state.
       andthen (update_organization env org username updated_state None) (\<lambda>_. ret ''OK''))) w2))"
    proof (rule portal.frame.leads_andthen [OF archive])
      fix u w3
      assume archived: "archive_current_organization current w2 = (Inr u, w3)"
      then obtain c where c: "current = Some c" by (cases current) (auto simp: archive_current_organization_def)
      show "portal.tracks w3 (snd (andthen (of_sum (next_state current act)) (\<lambda>updated_state.
         andthen (update_organization env org username updated_state None) (\<lambda>_. ret ''OK'')) w3))"
      proof (rule portal.frame.leads_andthen)
        fix state w4
        assume "of_sum (next_state current act) w3 = (Inr state, w4)"
        with act c have edit: "next_state_for_update c = Inr state" and "w4 = w3" by (auto simp: next_state_def)
        have "portal.tracks w3 (snd (update_organization env org username state None w3))"
        proof (cases "reg_inv w3")
          case True
          from update_edits [OF current [unfolded c] archived [unfolded c] this edit] show ?thesis .
        qed (simp add: portal.tracks_def)
        then show "portal.tracks w4 (snd (andthen (update_organization env org username state None) (\<lambda>_. ret ''OK'') w4))"
          unfolding \<open>w4 = w3\<close> by (rule portal.frame.leads_andthen) (simp add: portal.tracks_refl)
      qed (simp add: portal.tracks_refl)
    qed
  qed
qed

lemma portal_storage: "stays portal.tracks (storage_publish env content t)"
  unfolding storage_publish_def by (intro portal.base_rules)

lemma portal_publish: "stays portal.tracks (publish_organization env username request)"
proof -
  have "stays portal.tracks (publish_asset env t a)" for t a
    unfolding publish_asset_def by (intro portal.base_rules stays_case_prod portal_storage)
  then have "stays portal.tracks (publish_metadata_to_storage_provider env org t)" for org t
    unfolding publish_metadata_to_storage_provider_def publish_assets_to_storage_provider_def
    by (intro portal.base_rules portal_storage)
  then show ?thesis
    unfolding publish_organization_def Let_def
    by (intro portal.base_rules portal_reads portal.stays_option stays_case_prod portal.stays_store_metadata_uri)
qed

lemma portal_members:
  "stays portal.tracks (get_all_member r1)" "stays portal.tracks (get_member r2)"
  "stays portal.tracks (verify_invite username code)" "stays portal.tracks (service_delete_members r3)"
  "stays portal.tracks (publish_members env r4)" "stays portal.tracks (register_member env username r5)"
  unfolding get_all_member_def get_member_def verify_invite_def service_delete_members_def publish_members_def
    register_member_def
  by (intro portal.base_rules portal_reads portal.stays_member_writes)+

lemma portal_invite: "stays portal.tracks (invite_members env request)"
  unfolding invite_members_def Let_def invited_def send_invitations_def
  by (intro portal.base_rules portal_reads portal.stays_option portal.stays_add_member)

lemma portal_save_transaction: "stays portal.tracks (save_transaction_hash_for_publish_org env username request)"
  unfolding save_transaction_hash_for_publish_org_def
  by (intro portal.base_rules portal.stays_persist_publish_org r_into_rtranclp [of portal_step, OF transaction_sent])

lemma portal_mail: "stays portal.tracks (send_mail_to_owner env a c i st)"
  unfolding send_mail_to_owner_def by (intro portal.base_rules)

lemma individual_steps:
  "portal_step (organization_status_value ONBOARDING) (organization_status_value ONBOARDING_APPROVED)"
  "portal_step (organization_status_value ONBOARDING) (organization_status_value ONBOARDING_REJECTED)"
  by (simp_all add: portal_step_iff)

lemma portal_verification:
  assumes "vo_org_type request = organization_type_value ORGANIZATION \<Longrightarrow> vo_status request \<in> set ORG_STATUS_LIST"
  shows "stays portal.tracks (update_verification env request)"
proof (cases "vo_org_type request = organization_type_value ORGANIZATION")
  case True
  with assms have "portal_step\<^sup>*\<^sup>* s (reviewed_status s (vo_status request))" for s by (blast intro: review_steps)
  with True show ?thesis
    unfolding update_verification_def
    by (auto intro!: portal.base_rules portal_reads portal.stays_option portal.stays_update_organization_status
        portal_mail simp: portal.frame.stays_raise split: option.split)
next
  case False
  then show ?thesis
    unfolding update_verification_def
    by (auto intro!: portal.stays_individual individual_steps portal.frame.stays_ret)
qed

lemma portal_transaction_status: "stays portal.tracks (update_transaction_status env)"
  unfolding update_transaction_status_def failed_transaction_def
  by (intro portal.base_rules portal_reads portal.stays_update_org_status
      r_into_rtranclp [of portal_step, OF transaction_failed])

lemma portal_queries:
  "stays portal.tracks (get_all_org_for_user username)" "stays portal.tracks (service_get_groups_for_org uuid)"
  "stays portal.tracks (get_org_id_availability_status env i)"
  unfolding get_all_org_for_user_def service_get_groups_for_org_def get_org_id_availability_status_def
    get_all_org_id_def is_org_published_def
  by (intro portal.base_rules portal_reads)+

section \<open>The handlers\<close>

lemma portal_handler: "stays portal.tracks m \<Longrightarrow> stays portal.tracks (exception_handler m)"
  unfolding exception_handler_def by (intro portal.base_rules)

lemma portal_secured:
  assumes "stays portal.tracks (func event)"
  shows "stays portal.tracks (secured act up np func event)"
proof -
  have "stays portal.tracks (is_access_allowed username act uuid)" for username uuid
  proof -
    have "stays portal.tracks (case members of [] \<Rightarrow> ret False
        | m # _ \<Rightarrow> andthen (of_sum (role_of (mb_role m))) (\<lambda>r. ret (act \<in> set (POLICY r))))" for members
      by (cases members) (auto intro!: portal.base_rules simp: portal.frame.stays_ret)
    then show ?thesis unfolding is_access_allowed_def by (intro portal.base_rules)
  qed
  with assms show ?thesis unfolding secured_def by (intro portal.base_rules)
qed

lemma validated:
  assumes "validate_event b ts f event = Inr r"
  shows "f event = Inr r"
  using assms by (auto simp: validate_event_def split: option.splits sum.splits exn.splits exn_class.splits if_splits)

lemma validated_object: "validate_object parse v = Inr r \<Longrightarrow> \<exists>d. v = PDict d \<and> parse d = Inr r"
  by (cases v) (simp_all add: validate_object_def)

lemma checked_field:
  assumes "check_fields specs d = Inr u" and "(name, keys, accepts) \<in> set specs"
  shows "accepts (lookup_first d keys)"
proof -
  have "filter (\<lambda>(name, keys, accepts). \<not> accepts (lookup_first d keys)) specs = []"
    using assms(1) by (auto simp: check_fields_def split: list.splits)
  with assms(2) show ?thesis by (fastforce simp: filter_empty_conv)
qed

lemma update_request_action:
  assumes "UpdateOrganizationRequest env event = Inr (request, act)"
  shows "act \<in> organization_actions_value ` {DRAFT_ACTION, SUBMIT_ACTION}"
proof -
  obtain d where d: "check_fields (organization_fields @ [(''action'', [''action''], is_action)]) d = Inr ()"
    "act = the_text d [''action'']"
    using validated [OF assms [unfolded UpdateOrganizationRequest_def]]
    by (auto simp: sbind_Inr_iff dest!: validated_object)
  from checked_field [OF d(1), of "''action''" "[''action'']" is_action]
  have "is_action (lookup_first d [''action''])" by simp
  with d(2) show ?thesis by (auto simp: is_action_def the_text_def)
qed

lemma verify_request_status:
  assumes "VerifyOrgRequest event = Inr request" and "vo_org_type request = organization_type_value ORGANIZATION"
  shows "vo_status request \<in> set ORG_STATUS_LIST"
  using validated [OF assms(1) [unfolded VerifyOrgRequest_def]] assms(2)
  by (auto simp: sbind_Inr_iff validate_object_def Let_def split: pyval.splits if_splits)

text \<open>The handlers of the portal, in the order of the file.\<close>

definition portal_handlers :: "reg_env \<Rightarrow> pydict \<Rightarrow> lambda_response rprog list" where
  "portal_handlers env event = map (\<lambda>h. h env event)
     [handle_get_all_org, handle_get_group_for_org, handle_create_organization, handle_update_org,
      handle_publish_organization, handle_save_transaction_hash_for_publish_org, handle_get_all_members,
      handle_get_member, handle_invite_members, handle_verify_code, handle_publish_members,
      handle_delete_members, handle_register_member, handle_org_verification, handle_verify_org_id,
      handle_update_transaction]"

lemma portal_answer: "stays portal.tracks (answer_with n b v)"
  unfolding answer_with_def by (rule portal.frame.stays_of_sum)

lemma portal_context: "stays portal.tracks (reg_context env event)"
  unfolding reg_context_def by (rule portal.frame.stays_of_sum)

lemmas portal_rules = portal_handler portal_secured portal_answer portal_context portal.base_rules
  portal_queries portal_members portal_invite portal_publish portal_save_transaction portal_transaction_status

lemma portal_update_handler: "stays portal.tracks (handle_update_org env event)"
  unfolding handle_update_org_def
proof (intro portal_handler portal_secured portal.frame.stays_andthen [OF portal_context]
    portal.frame.stays_andthen_result [OF portal.frame.stays_of_sum])
  fix s p s'
  assume "of_sum (UpdateOrganizationRequest env event) s = (Inr p, s')"
  then have "UpdateOrganizationRequest env event = Inr (fst p, snd p)" by simp
  from portal_service_update [OF update_request_action [OF this]]
  show "stays portal.tracks ((\<lambda>(request, act). andthen (service_update_organization env (rc_username ctx) request act)
      (\<lambda>response. answer_with 200 True (PStr response))) p)" for ctx
    by (cases p) (simp add: portal.frame.stays_andthen portal_answer)
qed

lemma portal_verification_handler: "stays portal.tracks (handle_org_verification env event)"
  unfolding handle_org_verification_def
  by (intro portal_handler portal.frame.stays_andthen_result [OF portal.frame.stays_of_sum]
      portal.frame.stays_andthen [OF portal_verification] portal_answer) (auto intro: verify_request_status)

lemma portal_handlers_track:
  assumes "uuids_given env" and "h \<in> set (portal_handlers env event)"
  shows "stays portal.tracks h"
proof -
  have others: "stays portal.tracks (handle_get_all_org env event)" "stays portal.tracks (handle_get_group_for_org env event)"
    "stays portal.tracks (handle_publish_organization env event)"
    "stays portal.tracks (handle_save_transaction_hash_for_publish_org env event)"
    "stays portal.tracks (handle_get_all_members env event)" "stays portal.tracks (handle_get_member env event)"
    "stays portal.tracks (handle_invite_members env event)" "stays portal.tracks (handle_verify_code env event)"
    "stays portal.tracks (handle_publish_members env event)" "stays portal.tracks (handle_delete_members env event)"
    "stays portal.tracks (handle_register_member env event)" "stays portal.tracks (handle_verify_org_id env event)"
    "stays portal.tracks (handle_update_transaction env event)"
    unfolding handle_get_all_org_def handle_get_group_for_org_def handle_publish_organization_def
      handle_save_transaction_hash_for_publish_org_def handle_get_all_members_def handle_get_member_def
      handle_invite_members_def handle_verify_code_def handle_publish_members_def handle_delete_members_def
      handle_register_member_def handle_verify_org_id_def handle_update_transaction_def
    by (intro portal_rules)+
  have "stays portal.tracks (handle_create_organization env event)"
    unfolding handle_create_organization_def by (intro portal_rules portal_create_organization [OF assms(1)])
  with assms(2) others portal_update_handler portal_verification_handler show ?thesis
    by (auto simp: portal_handlers_def)
qed

section \<open>Runs of the portal\<close>

inductive portal_run :: "reg_world \<Rightarrow> reg_world \<Rightarrow> bool" where
  no_request: "portal_run w w"
| request: "portal_run w w1 \<Longrightarrow> uuids_given env \<Longrightarrow> h \<in> set (portal_handlers env event) \<Longrightarrow> portal_run w (snd (h w1))"

lemma portal_run_tracks: "portal_run w w' \<Longrightarrow> portal.tracks w w'"
proof (induction rule: portal_run.induct)
  case (no_request w)
  show ?case by (rule portal.tracks_refl)
next
  case (request w w1 env h event)
  from portal.tracks_trans [OF request.IH portal.frame.staysD_at [OF portal_handlers_track [OF request.hyps(2,3)]]]
  show ?case .
qed

lemma portal_steps_unpublish:
  "portal_step\<^sup>*\<^sup>* s s' \<Longrightarrow> s' \<in> organization_status_value ` {PUBLISHED, PUBLISHED_UNAPPROVED, APPROVAL_PENDING} \<Longrightarrow> s = s'"
  by (induction rule: rtranclp_induct) (auto simp: portal_step_iff)

end
