(* ===== verification/Registry_Demo.thy ===== *)
theory Registry_Demo
  imports Registry_Portal
begin

text \<open>
  A concrete environment and state of the registry, on which the witnesses evaluate its operations:
  a published organization with an owner and an invited member, and one whose transaction failed.
\<close>

definition reg_demo_env :: reg_env where
  "reg_demo_env =
     \<lparr>now = 1700000000000000, column_time = (\<lambda>t. t - t mod 1000000),
      uuid4_hex = (\<lambda>n. ''x'' @ replicate n (CHR ''x'')), random_group_id = (\<lambda>n. ''g''),
      loads = (\<lambda>t. Inr (PDict [(''members'', PList [PDict [(''username'', PStr ''guest'')]])])),
      is_address = (\<lambda>a. True), notification = (\<lambda>_ _. Inr ()), download = (\<lambda>_ _. Inr (200, ''image'')),
      upload = (\<lambda>_ _. Inr ''hash''), download_file = (\<lambda>_ _. Inr ''{}''),
      get_organization_by_id = (\<lambda>_ _. Inr \<lparr>bo_found = True, bo_metadata_uri = ''ipfs://m'',
        bo_owner = PStr ''0xowner'', bo_members = [PStr ''0xa'', PStr ''0xb'']\<rparr>),
      transaction_receipt = (\<lambda>_ _. Inr (Some 0)), deep_diff = (\<lambda>_ _ _ a b. a \<noteq> b),
      literal_eval = (\<lambda>t. Inr [(''orgId'', PStr ''snet'')]),
      web3_to_text = (\<lambda>v. case v of PStr s \<Rightarrow> Inr s | _ \<Rightarrow> Inl TypeError),
      ALLOWED_ORIGIN = [''portal''], serverless_offline = False,
      pydantic_int = (\<lambda>v. case v of PInt i \<Rightarrow> Some i | _ \<Rightarrow> None)\<rparr>"

definition demo_organization :: "string \<Rightarrow> string \<Rightarrow> organization_row" where
  "demo_organization uuid i =
     \<lparr>org_uuid = uuid, org_name = PStr ''name'', org_org_id = PStr i, org_org_type = PStr ''organization'',
      org_origin = PStr ''portal'', org_description = PStr ''text'', org_short_description = PStr ''text'',
      org_url = PStr ''url'', org_duns_no = PStr ''duns'', org_contacts = PList [], org_assets = [],
      org_metadata_uri = PStr ''ipfs://m''\<rparr>"

definition demo_org_state :: "string \<Rightarrow> organization_status \<Rightarrow> org_state_row" where
  "demo_org_state uuid st =
     \<lparr>os_org_uuid = uuid, os_state = organization_status_value st, os_transaction_hash = PStr ''0x1'',
      os_nonce = None, os_test_transaction_hash = None, os_wallet_address = PStr [], os_created_by = ''owner'',
      os_updated_by = ''owner'', os_reviewed_by = PStr [], os_reviewed_on = None, os_comments = [],
      os_created_on = 0, os_updated_on = 0\<rparr>"

definition demo_member :: "string \<Rightarrow> role \<Rightarrow> string \<Rightarrow> organization_member_status \<Rightarrow> member_row" where
  "demo_member uuid r username st =
     \<lparr>mb_invite_code = PStr ''code'', mb_org_uuid = uuid, mb_role = PStr (role_value r),
      mb_username = PStr username, mb_address = PStr [], mb_status = PStr (organization_member_status_value st),
      mb_transaction_hash = PStr [], mb_invited_on = Some 0, mb_updated_on = 0\<rparr>"

definition demo_reg_db :: reg_db where
  "demo_reg_db =
     \<lparr>organization_table = [demo_organization ''u1'' ''snet'', demo_organization ''u2'' ''other''],
      org_state_table = [demo_org_state ''u1'' PUBLISHED, demo_org_state ''u2'' PUBLISH_IN_PROGRESS],
      group_table = [], address_table = [],
      member_table = [demo_member ''u1'' OWNER ''owner'' Member_ACCEPTED, demo_member ''u1'' MEMBER ''guest'' Member_PENDING,
        demo_member ''u2'' OWNER ''boss'' Member_ACCEPTED],
      archive_table = []\<rparr>"

definition demo_reg_world :: reg_world where
  "demo_reg_world = \<lparr>session = demo_reg_db, stored = demo_reg_db, reg_calls = [], random_supply = 0\<rparr>"

lemmas reg_demo_defs = demo_reg_world_def demo_reg_db_def demo_organization_def demo_org_state_def demo_member_def

lemma reg_demo_ok: "reg_ok demo_reg_db"
  by (simp add: reg_ok_def org_uuids_def reg_demo_defs)

lemma reg_demo_uuids: "uuids_given reg_demo_env"
  by (simp add: uuids_given_def reg_demo_env_def)

text \<open>A request of a user, with a path and a query.\<close>

definition user_event :: "string \<Rightarrow> pydict \<Rightarrow> pydict" where
  "user_event username path =
     [(''requestContext'', PDict [(''authorizer'', PDict [(''claims'',
         PDict [(''email'', PStr username), (''sub'', PStr username)])])]),
      (''headers'', PDict [(''origin'', PStr ''portal'')]), (''pathParameters'', PDict path),
      (''body'', PStr ''{}'')]"

section \<open>The portal's properties\<close>


lemma demo_portal_run:
  "portal_run demo_reg_world (snd (handle_update_transaction reg_demo_env [] demo_reg_world))"
  by (rule portal_run.request [OF portal_run.no_request reg_demo_uuids, where event = "[]"])
    (simp add: portal_handlers_def)


text \<open>
  C12. Only the blockchain publishes: an organization that is stored as PUBLISHED, PUBLISHED_UNAPPROVED
  or APPROVAL_PENDING after any requests was stored so before them.
\<close>

theorem only_blockchain_publishes:
  assumes "portal_run w w'" and "session w = stored w" and "reg_ok (stored w)"
    and "s' \<in> set (org_state_table (stored w'))"
    and "os_state s' \<in> organization_status_value ` {PUBLISHED, PUBLISHED_UNAPPROVED, APPROVAL_PENDING}"
  shows "\<exists>s \<in> set (org_state_table (stored w)). os_org_uuid s = os_org_uuid s' \<and> os_state s = os_state s'"
proof -
  have "s' \<in> state_rows w'" using assms(4) by (simp add: state_rows_def)
  with portal_run_tracks [OF assms(1)] assms(2,3)
  consider s where "s \<in> set (org_state_table (stored w))" "os_org_uuid s = os_org_uuid s'"
      "portal_step\<^sup>*\<^sup>* (os_state s) (os_state s')"
    | "portal_step\<^sup>*\<^sup>* (organization_status_value ONBOARDING_APPROVED) (os_state s')"
    unfolding portal.tracks_def reg_inv_def state_rows_def portal_start_def by auto
  then show ?thesis
  proof cases
    case 1
    with portal_steps_unpublish [OF 1(3) assms(5)] show ?thesis by blast
  next
    case 2
    from portal_steps_unpublish [OF 2 assms(5)] assms(5) show ?thesis by auto
  qed
qed

lemma only_blockchain_publishes_witness:
  "demo_org_state ''u1'' PUBLISHED \<in> set (org_state_table (stored (snd (handle_update_transaction reg_demo_env [] demo_reg_world))))
   \<and> (\<exists>s \<in> set (org_state_table (stored demo_reg_world)). os_org_uuid s = ''u1'' \<and> os_state s = ''PUBLISHED'')"
proof -
  have here: "demo_org_state ''u1'' PUBLISHED \<in> set (org_state_table (stored (snd (handle_update_transaction reg_demo_env [] demo_reg_world))))"
    by code_simp
  from only_blockchain_publishes [OF demo_portal_run _ _ here] reg_demo_ok
  have "\<exists>s \<in> set (org_state_table (stored demo_reg_world)). os_org_uuid s = ''u1'' \<and> os_state s = ''PUBLISHED''"
    by (simp add: demo_reg_world_def demo_org_state_def)
  with here show ?thesis by blast
qed

section \<open>Access to an organization\<close>

definition guarded_handlers :: "reg_env \<Rightarrow> pydict \<Rightarrow> lambda_response rprog list" where
  "guarded_handlers env event = map (\<lambda>h. h env event)
     [handle_get_group_for_org, handle_update_org, handle_publish_organization,
      handle_save_transaction_hash_for_publish_org, handle_get_all_members, handle_get_member,
      handle_invite_members, handle_publish_members]"

lemma outsider_not_allowed:
  assumes "\<forall>m \<in> set (member_table (session w)). \<not> (mb_org_uuid m = uuid \<and> mb_username m = PStr username)"
  shows "is_access_allowed (PStr username) act (PStr uuid) w = (Inr False, w)"
proof -
  have "filter (\<lambda>m. (PStr uuid = PNone \<or> PStr uuid = PStr (mb_org_uuid m)) \<and>
      (PStr username = PNone \<or> PStr username = mb_username m)) (member_table (session w)) = []"
    using assms by (auto simp: filter_empty_conv)
  then show ?thesis by (simp add: is_access_allowed_def)
qed

lemma forbidden_answer:
  "\<exists>resp. exception_handler (raise ForbiddenException) w = (Inr resp, w) \<and> status_code resp = 403"
  using generate_lambda_response_serialisable [of "PDict (format_response ''failed'' (to_dict 0 ''Access denied'' []))" 403 True]
  by (auto simp: exception_handler_def try_except_apply failure_response_def ForbiddenException_def
      format_response_def to_dict_def)

lemma outsider_refused:
  assumes "path_value (PDict event) org_uuid_path = Inr (PStr uuid)"
    and "path_value (PDict event) username_path = Inr (PStr username)"
    and "\<forall>m \<in> set (member_table (session w)). \<not> (mb_org_uuid m = uuid \<and> mb_username m = PStr username)"
  shows "exception_handler (secured act org_uuid_path username_path func event) w = exception_handler (raise ForbiddenException) w"
  using assms(1,2) outsider_not_allowed [OF assms(3), of act]
  by (simp add: exception_handler_def secured_def try_except_apply andthen_apply)



text \<open>
  Members can be deleted by anybody and across organizations: a deletion request of any user, for
  whatever organization in its path, removes every row that has one of the named users and is PENDING
  or ACCEPTED, in every organization, owners included, and keeps every other row.
\<close>

theorem members_deleted_everywhere:
  assumes "RequestContext (serverless_offline env) event = Inr ctx"
    and "MembersRequest env event = Inr request"
    and "org_member_domain_entity_from_payload_list (mr_members request) (mr_org_uuid request) = Inr members"
  shows "\<exists>resp w'. handle_delete_members env event w = (Inr resp, w') \<and> status_code resp = 201 \<and>
    member_table (stored w') = filter (\<lambda>m. \<not> (mb_username m \<noteq> PNone \<and> mb_username m \<in> m_username ` set members \<and>
       mb_status m \<in> {PStr ''PENDING'', PStr ''ACCEPTED''})) (member_table (session w))"
proof -
  let ?keep = "\<lambda>m. \<not> (mb_username m \<noteq> PNone \<and> mb_username m \<in> m_username ` set members \<and>
       mb_status m \<in> {PStr ''PENDING'', PStr ''ACCEPTED''})"
  have keep: "filter (\<lambda>m. \<not> (sql_in (mb_username m) (map m_username members) \<and>
      sql_in (mb_status m) (map PStr (map organization_member_status_value [Member_PENDING, Member_ACCEPTED])))) t = filter ?keep t" for t
    by (rule filter_cong) (auto simp: sql_in_def)
  obtain resp where resp: "generate_lambda_response 201
      (PDict [(''status'', PStr ''success''), (''data'', PStr ''OK''), (''error'', PDict [])]) True = Inr resp"
    "status_code resp = 201"
    using generate_lambda_response_serialisable [of "PDict [(''status'', PStr ''success''), (''data'', PStr ''OK''), (''error'', PDict [])]" 201 True]
    by auto
  let ?db = "(session w)\<lparr>member_table := filter ?keep (member_table (session w))\<rparr>"
  have "delete_members members (map organization_member_status_value [Member_PENDING, Member_ACCEPTED]) w =
      (Inr (), w\<lparr>session := ?db, stored := ?db\<rparr>)"
    unfolding delete_members_def keep by (simp add: write_ops_apply)
  then have "service_delete_members request w = (Inr ''OK'', w\<lparr>session := ?db, stored := ?db\<rparr>)"
    using assms(3) by (simp add: service_delete_members_def andthen_apply)
  then have "handle_delete_members env event w = (Inr resp, w\<lparr>session := ?db, stored := ?db\<rparr>)"
    using assms(1,2) resp(1)
    by (simp add: handle_delete_members_def exception_handler_def try_except_apply reg_context_def answer_with_def andthen_apply)
  with resp(2) show ?thesis by simp
qed

lemma members_deleted_everywhere_witness:
  "\<exists>resp w'. handle_delete_members reg_demo_env (user_event ''stranger'' [(''org_uuid'', PStr ''u2'')]) demo_reg_world = (Inr resp, w')
     \<and> map mb_username (member_table (stored w')) = [PStr ''owner'', PStr ''boss'']"
proof -
  let ?event = "user_event ''stranger'' [(''org_uuid'', PStr ''u2'')]"
  let ?guest = "\<lparr>m_org_uuid = ''u2'', m_username = PStr ''guest'', m_status = PStr [], m_role = PStr [], m_address = PStr [],
    m_invite_code = PStr [], m_transaction_hash = PStr [], m_invited_on = None, m_updated_on = None\<rparr>"
  have "RequestContext (serverless_offline reg_demo_env) ?event =
      Inr \<lparr>rc_username = ''stranger'', rc_origin = ''portal'', rc_account_id = ''stranger''\<rparr>" by code_simp
  moreover have "MembersRequest reg_demo_env ?event =
      Inr \<lparr>mr_org_uuid = ''u2'', mr_members = [PDict [(''username'', PStr ''guest'')]]\<rparr>" by code_simp
  moreover have "org_member_domain_entity_from_payload_list [PDict [(''username'', PStr ''guest'')]] ''u2'' = Inr [?guest]"
    by code_simp
  ultimately obtain resp w' where run: "handle_delete_members reg_demo_env ?event demo_reg_world = (Inr resp, w')"
    and left: "member_table (stored w') = filter (\<lambda>m. \<not> (mb_username m \<noteq> PNone \<and> mb_username m \<in> m_username ` set [?guest] \<and>
       mb_status m \<in> {PStr ''PENDING'', PStr ''ACCEPTED''})) (member_table (session demo_reg_world))"
    using members_deleted_everywhere [of reg_demo_env ?event] by fastforce
  then have "map mb_username (member_table (stored w')) = [PStr ''owner'', PStr ''boss'']"
    by (simp add: reg_demo_defs)
  with run show ?thesis by (intro exI [of _ resp] exI [of _ w']) simp
qed

end
