(* ===== verification/Registry_Events.thy ===== *)
theory Registry_Events
  imports Registry_Demo
begin

text \<open>
  The blockchain's side: what its organization events do to the states of organizations and to their
  members, and the invariant of the tables under requests and events together.
\<close>

section \<open>The steps that events take\<close>

definition chain_step :: "string \<Rightarrow> string \<Rightarrow> bool" where
  "chain_step s s' \<longleftrightarrow> s' \<in> organization_status_value ` {PUBLISHED, APPROVAL_PENDING, PUBLISHED_UNAPPROVED}"

definition chain_start :: "string \<Rightarrow> bool" where
  "chain_start s \<longleftrightarrow> s \<in> organization_status_value ` {PUBLISHED_UNAPPROVED, APPROVAL_PENDING}"

interpretation chain: lifecycle chain_step chain_start .

lemma chain_reads:
  "stays chain.tracks (get_organization x y)" "stays chain.tracks (get_org_member u i r st v)"
  unfolding get_organization_def get_org_member_def
  by (intro chain.base_rules stays_case_prod chain.stays_option)+

lemma get_organization_result:
  assumes "get_organization x y w = (Inr (Some org), w')"
  shows "\<exists>r \<in> set (organization_table (session w)).
    org_domain_entity_from_repo_model (session w) r = Inr org \<and> o_uuid org = org_uuid r"
proof -
  let ?row = "sql_first (\<lambda>r. states_of (session w) (org_uuid r) \<noteq> [] \<and>
       (case x of Some (c # cs) \<Rightarrow> org_org_id r = PStr (c # cs) | _ \<Rightarrow> True) \<and>
       (case y of Some (c # cs) \<Rightarrow> org_uuid r = c # cs | _ \<Rightarrow> True)) (organization_table (session w))"
  have run: "(case ?row of None \<Rightarrow> ret None
     | Some r \<Rightarrow> andthen (of_sum (org_domain_entity_from_repo_model (session w) r)) (\<lambda>org. ret (Some org))) w =
     (Inr (Some org), w')"
    using assms by (simp add: get_organization_def)
  then obtain r where r: "?row = Some r" by (cases ?row) auto
  with run have "org_domain_entity_from_repo_model (session w) r = Inr org" by (auto elim!: andthen_InrE)
  moreover from this have "o_uuid org = org_uuid r"
    by (auto simp: org_domain_entity_from_repo_model_def sbind_Inr_iff)
  moreover from r have "r \<in> set (organization_table (session w))" by (auto dest: sql_first_SomeD)
  ultimately show ?thesis by blast
qed

lemma chain_members:
  "stays chain.tracks (update_org_members env uuid owner members)"
proof -
  have "stays chain.tracks (process_owner env uuid owner entries)" for entries
    unfolding process_owner_def Let_def
    by (auto intro!: chain.base_rules chain.stays_upsert_org_member chain.stays_member_writes
        simp: chain.frame.stays_ret split: prod.split)
  moreover have "stays chain.tracks (process_members env uuid members entries)" for entries
    unfolding process_members_def by (intro chain.base_rules chain.stays_upsert_org_member)
  ultimately show ?thesis unfolding update_org_members_def by (intro chain.base_rules chain_reads)
qed

lemma chain_step_any:
  "chain_step\<^sup>*\<^sup>* s (organization_status_value PUBLISHED)"
  "chain_step\<^sup>*\<^sup>* s (organization_status_value APPROVAL_PENDING)"
  "chain_step\<^sup>*\<^sup>* s (organization_status_value PUBLISHED_UNAPPROVED)"
  by (auto simp: chain_step_def intro!: r_into_rtranclp)

lemma chain_store_event:
  assumes "uuids_given env" and "\<And>org. existing = Some org \<Longrightarrow> o_uuid org \<noteq> []"
  shows "stays chain.tracks (store_event_organization env existing received hash)"
proof (cases existing)
  case None
  have given_id: "stays chain.tracks (setup_id env received)"
    unfolding setup_id_def by (intro chain.base_rules)
  have create: "stays chain.tracks (create_event_outside_publisher_portal env org)" if uuid: "o_uuid org \<noteq> []" for org
    unfolding create_event_outside_publisher_portal_def
    by (intro chain.stays_store_organization chain_step_any uuid) (simp add: chain_start_def)
  have "stays chain.tracks (andthen (setup_id env received) (\<lambda>org.
      andthen (create_event_outside_publisher_portal env org) (\<lambda>_. ret (o_uuid org))))"
  proof (rule chain.frame.stays_andthen_result [OF given_id])
    fix w org w'
    assume "setup_id env received w = (Inr org, w')"
    then have "o_uuid org \<noteq> []"
      using assms(1) by (auto simp: setup_id_def uuids_given_def split: if_splits)
    from create [OF this] show "stays chain.tracks
        (andthen (create_event_outside_publisher_portal env org) (\<lambda>_. ret (o_uuid org)))"
      by (intro chain.frame.stays_andthen chain.frame.stays_ret)
  qed
  then show ?thesis
    using None unfolding store_event_organization_def by simp
next
  case (Some org)
  have "stays chain.tracks (mark_existing_publish_in_progress_as_published env org)"
    unfolding mark_existing_publish_in_progress_as_published_def stays_def
    using chain.leads_update_organization chain_step_any by blast
  moreover have "stays chain.tracks (store_organization env org BLOCKCHAIN_USER (organization_status_value APPROVAL_PENDING) h)" for h
    by (intro chain.stays_store_organization chain_step_any assms(2) Some) (simp add: chain_start_def)
  ultimately show ?thesis
    using Some unfolding store_event_organization_def
    by (auto intro!: chain.base_rules simp: chain.frame.stays_of_sum)
qed

lemma chain_metadata: "stays chain.tracks (organization_of_metadata env metadata uri)"
proof -
  have "stays chain.tracks (group_domain_entity_from_group_list_metadata env v)" for v
    unfolding group_domain_entity_from_group_list_metadata_def parse_group_domain_entity_from_metadata_def
      group_setup_id_def
    by (intro chain.base_rules)
  then show ?thesis unfolding organization_of_metadata_def by (intro chain.base_rules)
qed

lemma chain_create_event:
  assumes "uuids_given env"
  shows "stays chain.tracks (process_organization_create_event env details)"
  unfolding stays_def
proof
  fix w
  show "chain.tracks w (snd (process_organization_create_event env details w))"
  proof (cases "reg_inv w")
    case True
    have "chain.tracks w (snd (andthen (get_organization (Some (od_org_id details)) None) (\<lambda>existing.
        andthen (organization_of_metadata env (od_metadata details) (od_metadata_uri details)) (\<lambda>received.
        andthen (store_event_organization env existing received (od_transaction_hash details)) (\<lambda>uuid.
        update_org_members env uuid (od_owner details) (od_members details)))) w))"
    proof (rule chain.frame.leads_andthen [OF chain.frame.staysD_at [OF chain_reads(1)]])
      fix existing w'
      assume found: "get_organization (Some (od_org_id details)) None w = (Inr existing, w')"
      have "o_uuid org \<noteq> []" if "existing = Some org" for org
      proof -
        from get_organization_result [OF found [unfolded that]] obtain r where
          "r \<in> set (organization_table (session w))" "o_uuid org = org_uuid r" by blast
        with True show ?thesis using reg_ok_uuid [of "session w" r] by (simp add: reg_inv_def)
      qed
      note known = chain_store_event [OF assms this]
      show "chain.tracks w' (snd (andthen (organization_of_metadata env (od_metadata details) (od_metadata_uri details)) (\<lambda>received.
        andthen (store_event_organization env existing received (od_transaction_hash details)) (\<lambda>uuid.
        update_org_members env uuid (od_owner details) (od_members details))) w'))"
        by (rule chain.frame.staysD_at) (intro chain.frame.stays_andthen chain_metadata known chain_members)
    qed
    then show ?thesis
      unfolding process_organization_create_event_def by (auto simp: try_except_apply split: prod.split sum.split)
  qed (simp add: chain.tracks_def)
qed

lemma chain_created: "uuids_given env \<Longrightarrow> stays chain.tracks (organization_created_on_event env event)"
  unfolding organization_created_on_event_def get_org_details_from_blockchain_def Let_def storage_get_def
  by (intro chain.base_rules stays_case_prod chain_create_event)

section \<open>Deletion\<close>

lemma map_filter_key: "map k (filter (\<lambda>r. k r \<noteq> x) t) = filter (\<lambda>y. y \<noteq> x) (map k t)"
  by (induction t) auto

lemma reg_ok_without:
  assumes "reg_ok db"
  shows "reg_ok (db\<lparr>organization_table := filter (\<lambda>r. org_uuid r \<noteq> uuid) (organization_table db),
     org_state_table := filter (\<lambda>s. os_org_uuid s \<noteq> uuid) (org_state_table db),
     group_table := filter (\<lambda>g. grp_org_uuid g \<noteq> uuid) (group_table db),
     address_table := filter (\<lambda>a. adr_org_uuid a \<noteq> uuid) (address_table db),
     member_table := filter (\<lambda>m. mb_org_uuid m \<noteq> uuid) (member_table db)\<rparr>)"
proof -
  have "map os_org_uuid (filter (\<lambda>s. os_org_uuid s \<noteq> uuid) (org_state_table db)) =
      map org_uuid (filter (\<lambda>r. org_uuid r \<noteq> uuid) (organization_table db))"
    using assms unfolding map_filter_key by (simp add: reg_ok_def org_uuids_def)
  with assms show ?thesis
    by (auto simp: reg_ok_def org_uuids_def distinct_map inj_on_def)
qed

lemma deletion_keeps_inv: "stays (keeping reg_inv) (organization_deleted_on_event env event)"
proof -
  have delete: "stays (keeping reg_inv) (delete_organization uuid)" for uuid
    using reg_ok_without
    by (auto simp: stays_def keeping_def delete_organization_def write_ops_apply reg_inv_def)
  have "stays (keeping reg_inv) (get_organization x y)" for x y
    by (auto simp: stays_def keeping_def dest: get_organization_reads)
      (metis get_organization_reads prod.collapse)
  with delete show ?thesis
    unfolding organization_deleted_on_event_def
    by (auto intro!: keeps.stays_andthen keeps.stays_of_sum keeps.stays_ret split: option.split)
qed

lemma chain_keeps_inv: "stays chain.tracks m \<Longrightarrow> stays (keeping reg_inv) m"
  by (simp add: stays_def keeping_def chain.tracks_def)

lemma portal_keeps_inv: "stays portal.tracks m \<Longrightarrow> stays (keeping reg_inv) m"
  by (simp add: stays_def keeping_def portal.tracks_def)

lemma events_keep_inv:
  assumes "uuids_given env" and "\<And>e. stays (keeping reg_inv) (service_consumer e)"
  shows "stays (keeping reg_inv) (registry_event_consumer_handler env service_consumer event)"
proof -
  have "stays (keeping reg_inv) (registry_event_consumer env service_consumer e)" for e
    unfolding registry_event_consumer_def
    by (intro keeps.stays_andthen keeps.stays_of_sum keeps.stays_if chain_keeps_inv [OF chain_created] assms
        deletion_keeps_inv keeps.stays_ret)
  then show ?thesis
    unfolding registry_event_consumer_handler_def by (intro keeps.stays_rules)
qed

section \<open>The registry's tables under requests and events\<close>

inductive registry_run :: "reg_world \<Rightarrow> reg_world \<Rightarrow> bool" where
  no_input: "registry_run w w"
| request: "registry_run w w1 \<Longrightarrow> uuids_given env \<Longrightarrow> h \<in> set (portal_handlers env event) \<Longrightarrow> registry_run w (snd (h w1))"
| events: "registry_run w w1 \<Longrightarrow> uuids_given env \<Longrightarrow> (\<And>e. stays (keeping reg_inv) (service_consumer e)) \<Longrightarrow>
    registry_run w (snd (registry_event_consumer_handler env service_consumer event w1))"

text \<open>
  C6. However requests of users and batches of blockchain events follow each other, failures included,
  the registry's tables stay consistent, in the session and stored: organizations have different
  identifiers, each has exactly one state row, and no group, address or member row refers to an
  organization that is not there.
\<close>

theorem registry_stays_consistent:
  assumes "registry_run w w'" and "reg_inv w"
  shows "reg_inv w'"
  using assms
proof (induction rule: registry_run.induct)
  case (no_input w)
  then show ?case .
next
  case (request w w1 env h event)
  from stays_keepingD [OF portal_keeps_inv [OF portal_handlers_track [OF request.hyps(2,3)]]] request.IH request.prems
  show ?case by blast
next
  case (events w w1 env service_consumer event)
  from stays_keepingD [OF events_keep_inv [OF events.hyps(2)]] events.hyps(3) events.IH events.prems
  show ?case by blast
qed

lemma demo_reg_inv: "reg_inv demo_reg_world"
  using reg_demo_ok by (simp add: reg_inv_def demo_reg_world_def)

text \<open>A queue that carries one event: the organization \<open>snet\<close> modified by another transaction.\<close>

definition event_demo_env :: reg_env where
  "event_demo_env = reg_demo_env\<lparr>loads := (\<lambda>t. Inr (PDict [(''Message'', PStr ''m''),
     (''blockchain_event'', PDict [(''name'', PStr ''OrganizationModified''),
        (''data'', PDict [(''json_str'', PStr ''e''), (''transaction_hash'', PStr ''0x2'')])])]))\<rparr>"

definition demo_queue_run :: reg_world where
  "demo_queue_run = snd (registry_event_consumer_handler event_demo_env (\<lambda>e. ret ())
     [(''Records'', PList [PDict [(''body'', PStr ''b'')]])] demo_reg_world)"

lemma registry_stays_consistent_witness:
  "reg_inv demo_queue_run \<and> map os_state (org_state_table (stored demo_queue_run)) = [''APPROVAL_PENDING'', ''PUBLISH_IN_PROGRESS'']"
proof -
  have "uuids_given event_demo_env" using reg_demo_uuids by (simp add: event_demo_env_def uuids_given_def)
  from registry_run.events [OF registry_run.no_input this, of "\<lambda>e. ret ()"]
  have "registry_run demo_reg_world demo_queue_run"
    unfolding demo_queue_run_def by (simp add: keeps.stays_ret)
  from registry_stays_consistent [OF this] demo_reg_inv have "reg_inv demo_queue_run" by blast
  moreover have "map os_state (org_state_table (stored demo_queue_run)) = [''APPROVAL_PENDING'', ''PUBLISH_IN_PROGRESS'']"
    by code_simp
  ultimately show ?thesis by blast
qed

section \<open>An event on an organization that the registry knows\<close>

lemma sql_update_same: "(\<And>x. x \<in> set t \<Longrightarrow> p x \<Longrightarrow> f x = x) \<Longrightarrow> sql_update p f t = t"
  by (simp add: sql_update_def map_idI)

lemma overwrite_result:
  assumes "overwrite_organization env org username st (Some h) w = (Inr (), w')"
  shows "session w' = stored w'"
    and "organization_table (session w') =
      sql_update (\<lambda>r. org_uuid r = o_uuid org) (\<lambda>r. organization_row_of org) (organization_table (session w))"
    and "org_state_table (session w') = update_first (\<lambda>s. os_org_uuid s = o_uuid org)
      (touch_state env (\<lambda>s. s\<lparr>os_state := st, os_test_transaction_hash := Some h, os_updated_by := username\<rparr>))
      (org_state_table (session w))"
  using assms
  by (auto simp: overwrite_organization_def write_ops_apply update_organization_row_def update_first_state_def
      andthen_apply split: if_splits prod.splits sum.splits)

lemma known_row:
  "org_domain_entity_from_repo_model db r = Inr org \<Longrightarrow> organization_row_of org = r"
  by (auto simp: org_domain_entity_from_repo_model_def sbind_Inr_iff organization_row_of_def)

text \<open>The tables of organizations and of their states, in the session and stored.\<close>

definition shows_tables :: "organization_row list \<Rightarrow> org_state_row list \<Rightarrow> reg_world \<Rightarrow> bool" where
  "shows_tables rows states w \<longleftrightarrow>
     organization_table (session w) = rows \<and> organization_table (stored w) = rows \<and>
     org_state_table (session w) = states \<and> org_state_table (stored w) = states"

lemma members_keep_tables: "stays (keeping (shows_tables rows states)) (update_org_members env uuid owner members)"
proof -
  have upsert: "stays (keeping (shows_tables rows states)) (upsert_org_member env m)" for m
    by (auto simp: stays_def keeping_def shows_tables_def upsert_org_member_def write_ops_apply andthen_apply Let_def
        split: option.split)
  have delete: "stays (keeping (shows_tables rows states)) (delete_org_member m)" for m
    by (auto simp: stays_def keeping_def shows_tables_def delete_org_member_def write_ops_apply)
  have "stays (keeping (shows_tables rows states)) (process_owner env uuid owner entries)" for entries
    unfolding process_owner_def Let_def
    by (auto intro!: keeps.stays_andthen keeps.stays_for_each keeps.stays_ret upsert delete split: prod.split)
  moreover have "stays (keeping (shows_tables rows states)) (process_members env uuid members entries)" for entries
    unfolding process_members_def by (intro keeps.stays_for_each upsert)
  moreover have "stays (keeping (shows_tables rows states)) (get_org_member u i r st v)" for u i r st v
    by (simp add: stays_def keeping_def get_org_member_def)
  ultimately show ?thesis unfolding update_org_members_def by (intro keeps.stays_andthen)
qed

text \<open>Reading metadata touches no table.\<close>

definition same_tables :: "reg_world \<Rightarrow> reg_world \<Rightarrow> bool" where
  "same_tables w w' \<longleftrightarrow> session w' = session w \<and> stored w' = stored w"

interpretation same_tables: step_frame same_tables
  by unfold_locales (auto simp: same_tables_def)

lemma metadata_keeps_tables: "stays same_tables (organization_of_metadata env metadata uri)"
proof -
  have "stays same_tables (draw g)" for g
    by (simp add: stays_def same_tables_def)
  then have "stays same_tables (group_domain_entity_from_group_list_metadata env v)" for v
    unfolding group_domain_entity_from_group_list_metadata_def parse_group_domain_entity_from_metadata_def
      group_setup_id_def
    by (intro same_tables.stays_rules same_tables.stays_of_sum) 
  then show ?thesis unfolding organization_of_metadata_def
    by (intro same_tables.stays_rules same_tables.stays_of_sum)
qed

lemma touched_fields:
  "os_org_uuid (touch_state env f x) = os_org_uuid (f x)" "os_state (touch_state env f x) = os_state (f x)"
  by (simp_all add: touch_state_def touch_def)

lemma update_first_hits: "s \<in> set t \<Longrightarrow> p s \<Longrightarrow> \<exists>x. p x \<and> f x \<in> set (update_first p f t)"
  by (induction t) auto

text \<open>The status a known organization gets.\<close>

definition status_after_event :: "reg_env \<Rightarrow> organization \<Rightarrow> organization \<Rightarrow> pyval \<Rightarrow> organization_status" where
  "status_after_event env org received hash =
     (if org_transaction_hash org \<noteq> Inr hash \<and> is_blockchain_major_change env org received
      then APPROVAL_PENDING else PUBLISHED)"

lemma store_known_event:
  assumes "reg_inv w" and "org_domain_entity_from_repo_model (session w) r = Inr org"
    and "r \<in> set (organization_table (session w))"
    and "store_event_organization env (Some org) received hash w = (Inr uuid, w')"
  shows "uuid = o_uuid org \<and> session w' = stored w' \<and> organization_table (session w') = organization_table (session w)
    \<and> (\<exists>s \<in> set (org_state_table (session w')). os_org_uuid s = o_uuid org \<and>
         os_state s = organization_status_value (status_after_event env org received hash))"
proof -
  let ?st = "organization_status_value (status_after_event env org received hash)"
  let ?f = "touch_state env (\<lambda>s. s\<lparr>os_state := ?st, os_test_transaction_hash := Some [], os_updated_by := BLOCKCHAIN_USER\<rparr>)"
  have uuid: "o_uuid org = org_uuid r" and row: "organization_row_of org = r"
    using known_row [OF assms(2)] by (auto simp: organization_row_of_def)
  have found: "sql_first (\<lambda>r. org_uuid r = o_uuid org) (organization_table (session w)) \<noteq> None"
    using assms(3) by (auto simp: uuid sql_first_None)
  have h: "overwrite_organization env org BLOCKCHAIN_USER ?st (Some []) w = (Inr (), w') \<and> uuid = o_uuid org"
    using assms(4) found
    by (auto simp: store_event_organization_def status_after_event_def store_organization_def
        mark_existing_publish_in_progress_as_published_def update_organization_def find_organization_def
        write_ops_apply andthen_apply split: if_splits option.splits sum.splits prod.splits)
  note after = overwrite_result [OF conjunct1 [OF h]]
  have "r' = r" if "r' \<in> set (organization_table (session w))" "org_uuid r' = org_uuid r" for r'
    using that assms(1,3) by (auto simp: reg_inv_def reg_ok_def org_uuids_def distinct_map inj_on_def)
  then have rows: "organization_table (session w') = organization_table (session w)"
    unfolding after(2) uuid row by (intro sql_update_same) auto
  from assms(1,3) obtain s where "s \<in> set (org_state_table (session w))" "os_org_uuid s = o_uuid org"
    by (metis (no_types, lifting) imageE image_eqI list.set_map org_uuids_def reg_inv_def reg_ok_def uuid)
  from update_first_hits [OF this(1), of "\<lambda>s. os_org_uuid s = o_uuid org" ?f] this(2)
  obtain x where "os_org_uuid x = o_uuid org" "?f x \<in> set (org_state_table (session w'))"
    unfolding after(3) by blast
  moreover from this have "os_org_uuid (?f x) = o_uuid org" "os_state (?f x) = ?st"
    by (simp_all add: touched_fields)
  ultimately have "\<exists>s \<in> set (org_state_table (session w')). os_org_uuid s = o_uuid org \<and> os_state s = ?st"
    by blast
  with h after(1) rows show ?thesis by blast
qed

lemma known_event_result:
  assumes "reg_inv w"
    and "fst (get_organization (Some (od_org_id details)) None w) = Inr (Some org)"
    and "process_organization_create_event env details w = (Inr (), w')"
  shows "organization_table (stored w') = organization_table (session w) \<and>
    (\<exists>received. fst (organization_of_metadata env (od_metadata details) (od_metadata_uri details) w) = Inr received \<and>
      (\<exists>s \<in> set (org_state_table (stored w')). os_org_uuid s = o_uuid org \<and>
         os_state s = organization_status_value (status_after_event env org received (od_transaction_hash details))))"
proof -
  have org: "get_organization (Some (od_org_id details)) None w = (Inr (Some org), w)"
    using assms(2) get_organization_reads by (metis prod.collapse)
  from get_organization_result [OF this] obtain r where r: "r \<in> set (organization_table (session w))"
    "org_domain_entity_from_repo_model (session w) r = Inr org" by blast
  from assms(3) org obtain received w1 uuid w2 where
    received: "organization_of_metadata env (od_metadata details) (od_metadata_uri details) w = (Inr received, w1)"
    and stored: "store_event_organization env (Some org) received (od_transaction_hash details) w1 = (Inr uuid, w2)"
    and members: "update_org_members env uuid (od_owner details) (od_members details) w2 = (Inr (), w')"
    by (auto simp: process_organization_create_event_def try_except_apply andthen_apply
        split: sum.splits prod.splits)
  have same: "session w1 = session w" "stored w1 = stored w"
    using staysD [OF metadata_keeps_tables received] by (auto simp: same_tables_def)
  have "reg_inv w1" using assms(1) same by (simp add: reg_inv_def)
  from store_known_event [OF this _ _ stored] r same have
    w2: "session w2 = stored w2" "organization_table (session w2) = organization_table (session w)"
      "\<exists>s \<in> set (org_state_table (session w2)). os_org_uuid s = o_uuid org \<and>
         os_state s = organization_status_value (status_after_event env org received (od_transaction_hash details))"
    by metis+
  have "shows_tables (organization_table (session w2)) (org_state_table (session w2)) w'"
    using staysD [OF members_keep_tables members] w2(1) by (auto simp: keeping_def shows_tables_def)
  with w2 received show ?thesis by (auto simp: shows_tables_def)
qed


definition demo_details :: org_details where
  "demo_details =
     \<lparr>od_org_id = ''snet'', od_metadata = PDict [(''org_id'', PStr ''snet''), (''org_name'', PStr ''renamed'')],
      od_metadata_uri = ''ipfs://n'', od_transaction_hash = PStr ''0x2'', od_owner = PStr ''0xowner'',
      od_members = [PStr ''0xa'', PStr ''0xb'']\<rparr>"

definition demo_event_run :: "(exn + unit) \<times> reg_world" where
  "demo_event_run = process_organization_create_event reg_demo_env demo_details demo_reg_world"

definition demo_known_organization :: organization where
  "demo_known_organization = projr (org_domain_entity_from_repo_model demo_reg_db (demo_organization ''u1'' ''snet''))"

lemma demo_known_found:
  "fst (get_organization (Some (od_org_id demo_details)) None demo_reg_world) = Inr (Some demo_known_organization)"
  by (simp add: demo_details_def) code_simp

lemma demo_event_succeeds:
  "process_organization_create_event reg_demo_env demo_details demo_reg_world = (Inr (), snd (demo_event_run))"
proof -
  have "fst demo_event_run = Inr ()" by code_simp
  then show ?thesis by (metis demo_event_run_def prod.collapse)
qed


lemma received_uuid:
  assumes "fst (organization_of_metadata env metadata uri w) = Inr received"
  shows "o_uuid received = []"
proof -
  from assms obtain w' where "organization_of_metadata env metadata uri w = (Inr received, w')"
    by (metis prod.collapse)
  then show ?thesis unfolding organization_of_metadata_def by (auto elim!: andthen_InrE)
qed

lemma known_uuid_given:
  assumes "reg_inv w" and "fst (get_organization i u w) = Inr (Some org)"
  shows "o_uuid org \<noteq> []"
proof -
  from assms(2) obtain w' where "get_organization i u w = (Inr (Some org), w')" by (metis prod.collapse)
  from get_organization_result [OF this] obtain r where
    "r \<in> set (organization_table (session w))" "o_uuid org = org_uuid r" by blast
  with assms(1) show ?thesis using reg_ok_uuid [of "session w" r] by (simp add: reg_inv_def)
qed

text \<open>
  C18. Every other transaction needs approval: the comparison leaves out paths of attributes that the
  class does not have, so the identifier of the received organization, which is empty, already counts as
  a major change. Whatever an event with another transaction hash contains, the organization becomes
  APPROVAL_PENDING.
\<close>

definition compares_uuids :: "reg_env \<Rightarrow> bool" where
  "compares_uuids env \<longleftrightarrow>
     (\<forall>types paths patterns a b. ''root.uuid'' \<notin> set paths \<longrightarrow>
        (\<forall>p \<in> set patterns. take 7 p = ''root'' @ [CHR 0x5C] @ ''._'') \<longrightarrow>
        o_uuid a \<noteq> o_uuid b \<longrightarrow> deep_diff env types paths patterns a b)"


lemma demo_compares_uuids: "compares_uuids reg_demo_env"
  by (auto simp: compares_uuids_def reg_demo_env_def)


section \<open>Members that come from the blockchain\<close>

text \<open>The row in which members without user name are kept.\<close>

definition nameless_member :: "string \<Rightarrow> member_row \<Rightarrow> bool" where
  "nameless_member uuid r \<longleftrightarrow> mb_org_uuid r = uuid \<and> mb_username r = PStr [] \<and> mb_role r = PStr (role_value MEMBER)"

lemma touched_member_fields:
  "mb_org_uuid (touch_member env f x) = mb_org_uuid (f x)" "mb_username (touch_member env f x) = mb_username (f x)"
  "mb_role (touch_member env f x) = mb_role (f x)" "mb_address (touch_member env f x) = mb_address (f x)"
  by (simp_all add: touch_member_def touch_def)

lemma published_member_fields [simp]:
  "m_org_uuid (published_member uuid role a) = uuid" "m_username (published_member uuid role a) = PStr []"
  "m_role (published_member uuid role a) = PStr (role_value role)" "m_address (published_member uuid role a) = a"
  by (simp_all add: published_member_def)

lemma upsert_org_member_apply:
  "upsert_org_member env m w =
     (let same = (\<lambda>r. mb_org_uuid r = m_org_uuid m \<and> mb_username r = m_username m \<and> mb_role r = m_role m);
          rows = member_table (session w);
          commit_members = (\<lambda>rows'. (Inr (), w\<lparr>session := (session w)\<lparr>member_table := rows'\<rparr>,
             stored := (session w)\<lparr>member_table := rows'\<rparr>\<rparr>)) in
      case sql_first same rows of
        None \<Rightarrow> if m_org_uuid m \<in> org_uuid ` set (organization_table (session w))
          then commit_members (rows @ [member_row_of env m]) else (Inl IntegrityError, w\<lparr>session := stored w\<rparr>)
      | Some _ \<Rightarrow> commit_members (update_first same
            (touch_member env (\<lambda>r. r\<lparr>mb_status := m_status m, mb_address := m_address m,
               mb_invite_code := m_invite_code m,
               mb_invited_on := map_option (column_time env) (m_invited_on m),
               mb_transaction_hash := m_transaction_hash m\<rparr>)) rows))"
  by (simp add: upsert_org_member_def write_ops_apply andthen_apply Let_def split: option.split)

lemma upsert_nameless:
  assumes "uuid \<in> org_uuid ` set (organization_table (session w))"
    and "member_table (session w) = rows @ kept" and "\<forall>r \<in> set rows. \<not> nameless_member uuid r"
    and "kept = [] \<or> (\<exists>k. kept = [k] \<and> nameless_member uuid k)"
  shows "\<exists>k w'. upsert_org_member env (published_member uuid MEMBER a) w = (Inr (), w') \<and>
    organization_table (session w') = organization_table (session w) \<and> session w' = stored w' \<and>
    member_table (session w') = rows @ [k] \<and> nameless_member uuid k \<and> mb_address k = a"
proof -
  let ?m = "published_member uuid MEMBER a"
  let ?same = "\<lambda>r. mb_org_uuid r = m_org_uuid ?m \<and> mb_username r = m_username ?m \<and> mb_role r = m_role ?m"
  have same: "?same r \<longleftrightarrow> nameless_member uuid r" for r by (auto simp: nameless_member_def)
  have none: "sql_first ?same rows = None" using assms(3) same by (simp add: sql_first_None)
  from assms(4) consider "kept = []" | k where "kept = [k]" "nameless_member uuid k" by blast
  then show ?thesis
  proof cases
    case 1
    then have "upsert_org_member env ?m w = (Inr (), w\<lparr>session := (session w)\<lparr>member_table := rows @ [member_row_of env ?m]\<rparr>,
        stored := (session w)\<lparr>member_table := rows @ [member_row_of env ?m]\<rparr>\<rparr>)"
      using assms(1,2) none by (simp add: upsert_org_member_apply)
    then show ?thesis by (simp add: member_row_of_def nameless_member_def)
  next
    case 2
    let ?f = "touch_member env (\<lambda>r. r\<lparr>mb_status := m_status ?m, mb_address := m_address ?m,
               mb_invite_code := m_invite_code ?m,
               mb_invited_on := map_option (column_time env) (m_invited_on ?m),
               mb_transaction_hash := m_transaction_hash ?m\<rparr>)"
    have upd: "update_first ?same f (rows @ [k]) = rows @ [f k]" for f
      using assms(3) same 2(2) by (auto simp: update_first_append)
    have first: "sql_first ?same (rows @ [k]) = Some k"
      using none same 2(2) by (simp add: sql_first_append)
    have "nameless_member uuid (?f k) \<and> mb_address (?f k) = a"
      using 2(2) by (simp add: nameless_member_def touched_member_fields)
    moreover have "upsert_org_member env ?m w = (Inr (), w\<lparr>session := (session w)\<lparr>member_table := rows @ [?f k]\<rparr>,
        stored := (session w)\<lparr>member_table := rows @ [?f k]\<rparr>\<rparr>)"
      unfolding upsert_org_member_apply assms(2) 2(1) Let_def first upd by simp
    ultimately show ?thesis by simp
  qed
qed

text \<open>
  Members that the blockchain adds to an organization collapse into one: those without a row of
  their own are kept under the empty user name, so that each new one takes the place of the one before.
  Of all the new addresses only the last is stored.
\<close>

theorem new_members_collapse:
  assumes "uuid \<in> org_uuid ` set (organization_table (session w))"
    and "\<forall>r \<in> set (member_table (session w)). \<not> nameless_member uuid r"
    and "addresses \<noteq> []" and "\<forall>a \<in> set addresses. map_of current_members_map a = None"
  shows "\<exists>row w'. process_members env uuid addresses current_members_map w = (Inr (), w') \<and>
    member_table (stored w') = member_table (session w) @ [row] \<and> nameless_member uuid row \<and>
    mb_address row = last addresses"
proof -
  have "\<exists>row w'. process_members env uuid addresses current_members_map w = (Inr (), w') \<and>
      organization_table (session w') = organization_table (session w) \<and> session w' = stored w' \<and>
      member_table (session w') = member_table (session w) @ [row] \<and> nameless_member uuid row \<and>
      mb_address row = last addresses"
    using assms(3,4)
  proof (induction addresses rule: rev_nonempty_induct)
    case (single a)
    with upsert_nameless [OF assms(1), of "member_table (session w)" "[]" env a] assms(2)
    show ?case by (auto simp: process_members_def)
  next
    case (snoc a as)
    then obtain row w1 where run: "process_members env uuid as current_members_map w = (Inr (), w1)"
      and at: "organization_table (session w1) = organization_table (session w)"
        "member_table (session w1) = member_table (session w) @ [row]" "nameless_member uuid row"
      by auto
    have "uuid \<in> org_uuid ` set (organization_table (session w1))" using assms(1) at(1) by simp
    from upsert_nameless [OF this at(2) assms(2), of env a] at(3) obtain k w' where
      "upsert_org_member env (published_member uuid MEMBER a) w1 = (Inr (), w')"
      "organization_table (session w') = organization_table (session w1)" "session w' = stored w'"
      "member_table (session w') = member_table (session w) @ [k]" "nameless_member uuid k" "mb_address k = a" by auto
    with run at(1) snoc.prems show ?case
      by (intro exI [of _ k] exI [of _ w']) (simp add: process_members_def for_each_append andthen_apply)
  qed
  then show ?thesis by metis
qed

lemma new_members_collapse_witness:
  "\<exists>row w'. process_members reg_demo_env ''u1'' [PStr ''0xa'', PStr ''0xb''] [] demo_reg_world = (Inr (), w') \<and>
    length (member_table (stored w')) = 4 \<and> mb_address row = PStr ''0xb'' \<and> row \<in> set (member_table (stored w'))"
proof -
  have "''u1'' \<in> org_uuid ` set (organization_table (session demo_reg_world))"
    and "\<forall>r \<in> set (member_table (session demo_reg_world)). \<not> nameless_member ''u1'' r"
    by (simp_all add: reg_demo_defs nameless_member_def)
  from new_members_collapse [OF this, of "[PStr ''0xa'', PStr ''0xb'']" "[]" reg_demo_env] show ?thesis
    by (fastforce simp: reg_demo_defs)
qed

end
