(* ===== verification/Json.thy ===== *)
theory Json
  imports Common
begin

text \<open>
  Reading JSON back. The services exchange texts that one writes with \<open>json.dumps\<close> and the other reads
  with \<open>json.loads\<close>; \<open>json_codec\<close> is what they rely on, and \<open>json_loads\<close> is a reader that has it.
\<close>

section \<open>The values that survive\<close>

text \<open>A float is written as its \<open>repr\<close>; the reader tells it from an int by its text.\<close>

definition number_char :: "char \<Rightarrow> bool" where
  "number_char c \<longleftrightarrow> c \<in> set ''0123456789+-.eE''"

definition int_text :: "string \<Rightarrow> bool" where
  "int_text s \<longleftrightarrow>
     (let digits = (case s of [] \<Rightarrow> [] | c # cs \<Rightarrow> if c = CHR ''-'' then cs else s)
      in digits \<noteq> [] \<and> list_all (\<lambda>c. c \<in> set ''0123456789'') digits)"

definition float_text :: "string \<Rightarrow> bool" where
  "float_text r \<longleftrightarrow> r \<noteq> [] \<and> list_all number_char r \<and> hd r \<in> set ''-0123456789'' \<and> \<not> int_text r"

fun json_ok :: "pyval \<Rightarrow> bool" where
  "json_ok (PTime t) = False"
| "json_ok (PFloat r) = float_text r"
| "json_ok (PList vs) = list_all json_ok vs"
| "json_ok (PDict d) = (distinct (map fst d) \<and> list_all (\<lambda>kv. json_ok (snd kv)) d)"
| "json_ok v = True"

lemma json_ok_serialisable: "json_ok v \<Longrightarrow> serialisable v"
  by (induction v rule: json_ok.induct) (auto simp: list_all_iff)

definition json_codec :: "(string \<Rightarrow> exn + pyval) \<Rightarrow> bool" where
  "json_codec loads \<longleftrightarrow>
     (\<forall>v t. json_ok v \<longrightarrow> json_dumps v = Inr t \<longrightarrow> loads t = Inr v) \<and>
     (\<forall>t v. loads t = Inr v \<longrightarrow> json_ok v)"

section \<open>Texts\<close>

definition hex_value :: "char \<Rightarrow> nat option" where
  "hex_value c =
     (let n = (of_char c :: nat) in
      if 48 \<le> n \<and> n \<le> 57 then Some (n - 48) else if 97 \<le> n \<and> n \<le> 102 then Some (n - 87)
      else if 65 \<le> n \<and> n \<le> 70 then Some (n - 55) else None)"

text \<open>What a backslash stands for. Characters here are those below 256.\<close>

fun escape_value :: "string \<Rightarrow> (char \<times> string) option" where
  "escape_value (a # b # c # d # e # rest) =
     (if a = CHR ''u'' then
        (if b = CHR ''0'' \<and> c = CHR ''0'' then
           (case (hex_value d, hex_value e) of
              (Some x, Some y) \<Rightarrow> Some (char_of (x * 16 + y), rest)
            | _ \<Rightarrow> None)
         else None)
      else map_option (\<lambda>x. (x, b # c # d # e # rest))
        (map_of [(CHR 0x22, CHR 0x22), (CHR 0x5C, CHR 0x5C), (CHR ''/'', CHR ''/''), (CHR ''b'', CHR 0x08),
           (CHR ''f'', CHR 0x0C), (CHR ''n'', CHR 0x0A), (CHR ''r'', CHR 0x0D), (CHR ''t'', CHR 0x09)] a))"
| "escape_value (a # rest) =
     map_option (\<lambda>x. (x, rest))
       (map_of [(CHR 0x22, CHR 0x22), (CHR 0x5C, CHR 0x5C), (CHR ''/'', CHR ''/''), (CHR ''b'', CHR 0x08),
          (CHR ''f'', CHR 0x0C), (CHR ''n'', CHR 0x0A), (CHR ''r'', CHR 0x0D), (CHR ''t'', CHR 0x09)] a)"
| "escape_value [] = None"

lemma escape_value_shorter: "escape_value s = Some (c, rest) \<Longrightarrow> length rest < length s"
  by (induction s rule: escape_value.induct) (auto split: if_splits option.splits prod.splits)

function read_text :: "string \<Rightarrow> (string \<times> string) option" where
  "read_text s =
     (case s of
        [] \<Rightarrow> None
      | c # cs \<Rightarrow>
          if c = CHR 0x22 then Some ([], cs)
          else if c = CHR 0x5C then
            (case escape_value cs of
               None \<Rightarrow> None
             | Some (x, rest) \<Rightarrow> map_option (\<lambda>(t, r). (x # t, r)) (read_text rest))
          else if of_char c < (32 :: nat) then None
          else map_option (\<lambda>(t, r). (c # t, r)) (read_text cs))"
  by auto
termination
  by (relation "measure length") (auto dest!: escape_value_shorter)

declare read_text.simps [simp del]

lemma read_text_quote [simp]: "read_text (CHR 0x22 # rest) = Some ([], rest)"
  by (subst read_text.simps) simp

lemma read_text_plain: "c \<noteq> CHR 0x22 \<Longrightarrow> c \<noteq> CHR 0x5C \<Longrightarrow> 32 \<le> (of_char c :: nat) \<Longrightarrow>
  read_text (c # cs) = map_option (\<lambda>(t, r). (c # t, r)) (read_text cs)"
  by (subst read_text.simps) simp

lemma read_text_escape: "escape_value cs = Some (x, rest) \<Longrightarrow>
  read_text (CHR 0x5C # cs) = map_option (\<lambda>(t, r). (x # t, r)) (read_text rest)"
  by (subst read_text.simps) simp

lemma hex_value_digit: "n < 16 \<Longrightarrow> hex_value (hex_digit n) = Some n"
  by (auto simp: hex_value_def hex_digit_def Let_def)

lemma list4_cases:
  obtains "xs = []" | a where "xs = [a]" | a b where "xs = [a, b]" | a b c where "xs = [a, b, c]"
  | a b c d ys where "xs = a # b # c # d # ys"
  by (metis list.exhaust)

lemma read_escaped: "read_text (json_escape c @ rest) = map_option (\<lambda>(t, r). (c # t, r)) (read_text rest)"
proof -
  define n where "n = (of_char c :: nat)"
  have n: "n < 256" unfolding n_def by simp
  have c: "c = char_of n" by (simp add: n_def)
  consider (special) "n \<in> {34, 92, 10, 13, 9, 8, 12}" | (hex) "n \<notin> {34, 92, 10, 13, 9, 8, 12}" "n < 32 \<or> 126 < n"
    | (plain) "n \<notin> {34, 92, 10, 13, 9, 8, 12}" "32 \<le> n" "n \<le> 126" by fastforce
  then show ?thesis
  proof cases
    case special
    have "escape_value (CHR ''n'' # rest) = Some (CHR 0x0A, rest)" "escape_value (CHR ''r'' # rest) = Some (CHR 0x0D, rest)"
      "escape_value (CHR ''t'' # rest) = Some (CHR 0x09, rest)" "escape_value (CHR ''b'' # rest) = Some (CHR 0x08, rest)"
      "escape_value (CHR ''f'' # rest) = Some (CHR 0x0C, rest)" "escape_value (CHR 0x22 # rest) = Some (CHR 0x22, rest)"
      "escape_value (CHR 0x5C # rest) = Some (CHR 0x5C, rest)"
      by (cases rest rule: list4_cases; simp)+
    note known = this [THEN read_text_escape]
    have "char_of (92 :: nat) = CHR 0x5C" "char_of (34 :: nat) = CHR 0x22" "char_of (10 :: nat) = CHR 0x0A"
      "char_of (13 :: nat) = CHR 0x0D" "char_of (9 :: nat) = CHR 0x09" "char_of (8 :: nat) = CHR 0x08"
      "char_of (12 :: nat) = CHR 0x0C" by code_simp+
    note chars = this
    from special show ?thesis
      by (auto simp: json_escape_def n_def [symmetric] Let_def known chars c)
  next
    case hex
    have "escape_value (''u00'' @ [hex_digit (n div 16), hex_digit (n mod 16)] @ rest) = Some (c, rest)"
      using n by (simp add: hex_value_digit c)
    moreover have "char_of (92 :: nat) = CHR 0x5C" by code_simp
    ultimately show ?thesis using read_text_escape [of "''u00'' @ [hex_digit (n div 16), hex_digit (n mod 16)] @ rest"] hex
      by (auto simp: json_escape_def n_def [symmetric] Let_def)
  next
    case plain
    then have "json_escape c = [c]" by (auto simp: json_escape_def n_def [symmetric] Let_def)
    moreover have "c \<noteq> CHR 0x22" "c \<noteq> CHR 0x5C" using plain by (auto simp: n_def)
    ultimately show ?thesis using plain read_text_plain [of c rest] by (simp add: n_def)
  qed
qed

lemma read_text_json_string: "read_text (concat (map json_escape s) @ CHR 0x22 # rest) = Some (s, rest)"
  by (induction s) (simp_all add: read_escaped)

section \<open>Numbers\<close>

definition digit_value :: "char \<Rightarrow> nat" where
  "digit_value c = of_char c - 48"

definition digits_value :: "string \<Rightarrow> nat" where
  "digits_value ds = foldl (\<lambda>n d. 10 * n + digit_value d) 0 ds"

definition int_value :: "string \<Rightarrow> int" where
  "int_value s =
     (case s of
        [] \<Rightarrow> 0
      | c # cs \<Rightarrow> if c = CHR ''-'' then - int (digits_value cs) else int (digits_value s))"

lemma str_nat_digits: "str_nat n \<noteq> [] \<and> list_all (\<lambda>c. c \<in> set ''0123456789'') (str_nat n) \<and> digits_value (str_nat n) = n"
proof (induction n rule: str_nat.induct)
  case (1 n)
  have digit: "char_of (48 + m) \<in> set ''0123456789''" "digit_value (char_of (48 + m)) = m" if "m < 10" for m :: nat
  proof -
    have "\<forall>k \<in> set [0, 1, 2, 3, 4, 5, 6, 7, 8, 9 :: nat]. char_of (48 + k) \<in> set ''0123456789''"
      by code_simp
    moreover from that have "m \<in> set [0, 1, 2, 3, 4, 5, 6, 7, 8, 9]" by auto
    ultimately show "char_of (48 + m) \<in> set ''0123456789''" by blast
    show "digit_value (char_of (48 + m)) = m" using that by (simp add: digit_value_def)
  qed
  show ?case
  proof (cases "n < 10")
    case True
    then show ?thesis using digit [OF True] by (subst (1 2 3) str_nat.simps) (simp add: digits_value_def)
  next
    case False
    then show ?thesis using 1 digit [of "n mod 10"]
      by (subst (1 2 3) str_nat.simps) (simp add: digits_value_def)
  qed
qed

lemma int_text_str_int: "int_text (str_int i) \<and> int_value (str_int i) = i"
proof -
  have "hd (str_nat n) \<noteq> CHR ''-''" for n
    using str_nat_digits [of n] by (cases "str_nat n") auto
  then show ?thesis
    using str_nat_digits [of "nat i"] str_nat_digits [of "nat (- i)"]
    by (cases "str_nat (nat i)") (auto simp: str_int_def int_text_def int_value_def Let_def)
qed

lemma int_text_numeric:
  assumes "int_text s"
  shows "s \<noteq> [] \<and> list_all number_char s \<and> hd s \<in> set ''-0123456789''"
proof -
  have digit: "number_char c \<and> c \<in> set ''-0123456789''" if "c \<in> set ''0123456789''" for c
    using that unfolding number_char_def by auto
  obtain c cs where s: "s = c # cs" using assms by (cases s) (auto simp: int_text_def)
  show ?thesis
  proof (cases "c = CHR ''-''")
    case True
    then have "list_all number_char cs" using assms digit by (auto simp: s int_text_def list_all_iff)
    then show ?thesis using True by (simp add: s number_char_def)
  next
    case False
    then have "list_all (\<lambda>c. c \<in> set ''0123456789'') s" using assms by (simp add: s int_text_def)
    then show ?thesis using digit by (auto simp: s list_all_iff)
  qed
qed

definition read_number :: "string \<Rightarrow> (pyval \<times> string) option" where
  "read_number s =
     (let t = takeWhile number_char s in
      if int_text t then Some (PInt (int_value t), dropWhile number_char s)
      else if float_text t then Some (PFloat t, dropWhile number_char s)
      else None)"

definition ends_number :: "string \<Rightarrow> bool" where
  "ends_number rest \<longleftrightarrow> rest = [] \<or> \<not> number_char (hd rest)"

lemma takeWhile_number:
  assumes "list_all number_char t" and "ends_number rest"
  shows "takeWhile number_char (t @ rest) = t" and "dropWhile number_char (t @ rest) = rest"
  using assms by (cases rest; simp add: ends_number_def list_all_iff takeWhile_append)+

lemma read_int: "ends_number rest \<Longrightarrow> read_number (str_int i @ rest) = Some (PInt i, rest)"
  using int_text_str_int [of i] int_text_numeric [of "str_int i"]
  by (simp add: read_number_def takeWhile_number)

lemma read_float: "float_text r \<Longrightarrow> ends_number rest \<Longrightarrow> read_number (r @ rest) = Some (PFloat r, rest)"
  by (simp add: read_number_def takeWhile_number float_text_def)

section \<open>The reader\<close>

definition skip_space :: "string \<Rightarrow> string" where
  "skip_space s = dropWhile (\<lambda>c. c \<in> {CHR '' '', CHR 0x09, CHR 0x0A, CHR 0x0D}) s"

text \<open>A literal at the start of a text, and what follows it.\<close>

definition after_word :: "string \<Rightarrow> string \<Rightarrow> string option" where
  "after_word w s = (if prefix_of w s then Some (drop (length w) s) else None)"

definition read_atom :: "string \<Rightarrow> (pyval \<times> string) option" where
  "read_atom s =
     (case s of
        [] \<Rightarrow> None
      | c # cs \<Rightarrow>
          if c = CHR 0x22 then map_option (\<lambda>(t, r). (PStr t, r)) (read_text cs)
          else if c = CHR ''n'' then map_option (\<lambda>r. (PNone, r)) (after_word ''null'' s)
          else if c = CHR ''t'' then map_option (\<lambda>r. (PBool True, r)) (after_word ''true'' s)
          else if c = CHR ''f'' then map_option (\<lambda>r. (PBool False, r)) (after_word ''false'' s)
          else read_number s)"

definition read_key :: "string \<Rightarrow> (string \<times> string) option" where
  "read_key s =
     (case skip_space s of
        [] \<Rightarrow> None
      | q # cs \<Rightarrow>
          if q \<noteq> CHR 0x22 then None
          else (case read_text cs of
             None \<Rightarrow> None
           | Some (k, r) \<Rightarrow>
               (case skip_space r of
                  [] \<Rightarrow> None
                | x # r \<Rightarrow> if x = CHR '':'' then Some (k, r) else None)))"

fun read_value :: "nat \<Rightarrow> string \<Rightarrow> (pyval \<times> string) option"
  and read_list :: "nat \<Rightarrow> string \<Rightarrow> (pyval list \<times> string) option"
  and read_items :: "nat \<Rightarrow> pydict \<Rightarrow> string \<Rightarrow> (pydict \<times> string) option" where
  "read_value 0 s = None"
| "read_value (Suc n) s =
     (case skip_space s of
        [] \<Rightarrow> None
      | c # cs \<Rightarrow>
          if c = CHR ''['' then
            (case skip_space cs of
               [] \<Rightarrow> None
             | x # r \<Rightarrow> if x = CHR '']'' then Some (PList [], r)
                 else map_option (\<lambda>(vs, r). (PList vs, r)) (read_list n cs))
          else if c = CHR ''{'' then
            (case skip_space cs of
               [] \<Rightarrow> None
             | x # r \<Rightarrow> if x = CHR ''}'' then Some (PDict [], r)
                 else map_option (\<lambda>(d, r). (PDict d, r)) (read_items n [] cs))
          else read_atom (c # cs))"
| "read_list 0 s = None"
| "read_list (Suc n) s =
     (case read_value n s of
        None \<Rightarrow> None
      | Some (v, r) \<Rightarrow>
          (case skip_space r of
             [] \<Rightarrow> None
           | c # cs \<Rightarrow>
               if c = CHR '','' then map_option (\<lambda>(vs, r). (v # vs, r)) (read_list n cs)
               else if c = CHR '']'' then Some ([v], cs)
               else None))"
| "read_items 0 d s = None"
| "read_items (Suc n) d s =
     (case read_key s of
        None \<Rightarrow> None
      | Some (k, r) \<Rightarrow>
          (case read_value n r of
             None \<Rightarrow> None
           | Some (v, r) \<Rightarrow>
               (case skip_space r of
                  [] \<Rightarrow> None
                | c # cs \<Rightarrow>
                    if c = CHR '','' then read_items n (dict_set k v d) cs
                    else if c = CHR ''}'' then Some (dict_set k v d, cs)
                    else None)))"

definition json_loads :: "string \<Rightarrow> exn + pyval" where
  "json_loads t =
     (case read_value (Suc (length t)) t of
        Some (v, rest) \<Rightarrow> if skip_space rest = [] then Inr v else Inl (PyExc ''JSONDecodeError'' [])
      | None \<Rightarrow> Inl (PyExc ''JSONDecodeError'' []))"

section \<open>Everything read is a value that survives\<close>

lemma read_number_ok: "read_number s = Some (v, r) \<Longrightarrow> json_ok v"
  by (auto simp: read_number_def Let_def split: if_splits)

lemma read_atom_ok: "read_atom s = Some (v, r) \<Longrightarrow> json_ok v"
  by (auto simp: read_atom_def read_number_ok split: list.splits if_splits)

lemma dict_set_ok:
  assumes "json_ok (PDict d)" and "json_ok v"
  shows "json_ok (PDict (dict_set k v d))"
proof -
  have "list_all (\<lambda>kv. json_ok (snd kv)) d \<Longrightarrow> list_all (\<lambda>kv. json_ok (snd kv)) (AList.update k v d)"
    using assms(2) by (induction d) auto
  with assms show ?thesis by (simp add: dict_set_def distinct_update)
qed

lemma read_ok:
  "\<forall>v r. read_value n s = Some (v, r) \<longrightarrow> json_ok v"
  "\<forall>vs r. read_list n s = Some (vs, r) \<longrightarrow> list_all json_ok vs"
  "\<forall>e r. read_items n d s = Some (e, r) \<longrightarrow> json_ok (PDict d) \<longrightarrow> json_ok (PDict e)"
proof (induction n s and n s and n d s rule: read_value_read_list_read_items.induct)
  case (2 n s)
  then show ?case by (auto simp: read_atom_ok split: list.splits if_splits)
next
  case (4 n s)
  then show ?case by (auto split: list.splits if_splits option.splits prod.splits)
next
  case (6 n d s)
  show ?case
  proof (intro allI impI)
    fix e r
    assume run: "read_items (Suc n) d s = Some (e, r)" and d: "json_ok (PDict d)"
    then obtain k r1 v r2 c cs where k: "read_key s = Some (k, r1)" and v: "read_value n r1 = Some (v, r2)"
      and r2: "skip_space r2 = c # cs" by (auto split: option.splits list.splits)
    have "json_ok (PDict (dict_set k v d))" using 6(1) [OF k] v d dict_set_ok by blast
    with run k v r2 6(2) [OF k refl v refl r2] show "json_ok (PDict e)"
      by (auto simp del: json_ok.simps split: if_splits)
  qed
qed auto

lemma json_loads_ok: "json_loads t = Inr v \<Longrightarrow> json_ok v"
  using read_ok(1) [of "Suc (length t)" t]
  by (auto simp: json_loads_def simp del: read_value.simps split: option.splits prod.splits if_splits)

section \<open>What is written is read back\<close>

lemma skip_space_plain: "s \<noteq> [] \<Longrightarrow> hd s \<notin> {CHR '' '', CHR 0x09, CHR 0x0A, CHR 0x0D} \<Longrightarrow> skip_space s = s"
  by (cases s) (auto simp: skip_space_def)

lemma skip_space_space [simp]: "skip_space (CHR '' '' # s) = skip_space s"
  by (simp add: skip_space_def)

lemma read_after_space [simp]:
  "read_value n (CHR '' '' # s) = read_value n s" "read_list n (CHR '' '' # s) = read_list n s"
  "read_items n d (CHR '' '' # s) = read_items n d s"
proof -
  have key: "read_key (CHR '' '' # s) = read_key s" by (simp add: read_key_def)
  show atom: "read_value n (CHR '' '' # s) = read_value n s" for n by (cases n) simp_all
  show "read_list n (CHR '' '' # s) = read_list n s" by (cases n) (simp_all add: atom)
  show "read_items n d (CHR '' '' # s) = read_items n d s" by (cases n) (simp_all add: key)
qed

abbreviation value_heads :: string where "value_heads \<equiv> ''-0123456789ntf[{'' @ [CHR 0x22]"

lemma dumps_head:
  assumes "json_ok v" and "json_dumps v = Inr t"
  shows "t \<noteq> [] \<and> hd t \<in> set value_heads"
proof (cases v)
  case (PInt i)
  with assms int_text_numeric [of "str_int i"] int_text_str_int [of i] show ?thesis by auto
next
  case (PFloat r)
  with assms have t: "t = r" "float_text r"
    by (auto simp: json_float_def float_text_def number_char_def split: if_splits)
  then show ?thesis by (auto simp: float_text_def)
next
  case (PBool b)
  with assms show ?thesis by (cases b) auto
next
  case (PStr x)
  have "char_of (34 :: nat) = CHR 0x22" by code_simp
  with assms PStr show ?thesis by (auto simp: json_string_def)
qed (use assms in \<open>auto split: sum.splits\<close>)

lemma ends_before [simp]: "ends_number (CHR '','' # r)" "ends_number (CHR '']'' # r)" "ends_number (CHR ''}'' # r)" "ends_number []"
  by (simp_all add: ends_number_def number_char_def)

lemma plain_heads: "c \<in> set value_heads \<Longrightarrow> c \<notin> {CHR '' '', CHR 0x09, CHR 0x0A, CHR 0x0D, CHR '']'', CHR ''}''}"
  by auto

lemma read_atom_number:
  assumes "s \<noteq> []" and "hd s \<in> set ''-0123456789''"
  shows "read_atom (s @ rest) = read_number (s @ rest)"
proof -
  obtain c cs where s: "s = c # cs" using assms(1) by (cases s) auto
  have "c \<notin> {CHR 0x22, CHR ''n'', CHR ''t'', CHR ''f''}" using assms(2) by (auto simp: s)
  then show ?thesis by (simp add: s read_atom_def)
qed

lemma read_atom_dumps:
  assumes "json_ok v" and "json_dumps v = Inr t" and "ends_number rest"
    and "\<forall>vs. v \<noteq> PList vs" and "\<forall>d. v \<noteq> PDict d"
  shows "read_atom (t @ rest) = Some (v, rest)"
proof (cases v)
  case (PInt i)
  with assms(2) have "t = str_int i" by simp
  with PInt read_atom_number [of t rest] int_text_numeric [of t] int_text_str_int [of i] read_int [OF assms(3), of i]
  show ?thesis by simp
next
  case (PFloat r)
  with assms(1,2) have "t = r" "float_text r"
    by (auto simp: json_float_def float_text_def number_char_def split: if_splits)
  with PFloat read_atom_number [of t rest] read_float [OF _ assms(3), of r] show ?thesis
    by (simp add: float_text_def)
next
  case (PBool b)
  with assms(2) show ?thesis by (cases b) (auto simp: read_atom_def after_word_def)
next
  case PNone
  with assms(2) show ?thesis by (auto simp: read_atom_def after_word_def)
next
  case (PStr x)
  have "char_of (34 :: nat) = CHR 0x22" by code_simp
  with assms(2) PStr read_text_json_string [of x rest] show ?thesis
    by (auto simp: read_atom_def json_string_def)
qed (use assms in auto)

lemma read_value_atom:
  assumes "json_ok v" and "json_dumps v = Inr t" and "ends_number rest"
    and "\<forall>vs. v \<noteq> PList vs" and "\<forall>d. v \<noteq> PDict d" and "0 < n"
  shows "read_value n (t @ rest) = Some (v, rest)"
proof -
  obtain m where n: "n = Suc m" using assms(6) by (cases n) auto
  have head: "t \<noteq> []" "hd t \<in> set value_heads" using dumps_head [OF assms(1,2)] by blast+
  moreover have "hd t \<noteq> CHR ''[''" "hd t \<noteq> CHR ''{''"
  proof -
    have "read_atom (CHR ''['' # r) = None" "read_atom (CHR ''{'' # r) = None" for r
      by (simp_all add: read_atom_def read_number_def number_char_def int_text_def float_text_def)
    with read_atom_dumps [OF assms(1-5)] head(1) show "hd t \<noteq> CHR ''[''" "hd t \<noteq> CHR ''{''"
      by (cases t; auto)+
  qed
  moreover have "skip_space (t @ rest) = t @ rest"
    using head by (intro skip_space_plain) auto
  ultimately show ?thesis using read_atom_dumps [OF assms(1-5)] by (cases t) (auto simp: n)
qed

lemma join_Cons: "ts \<noteq> [] \<Longrightarrow> join sep (t # ts) = t @ sep @ join sep ts"
  by (cases ts) simp_all

lemma quote_char: "char_of (34 :: nat) = CHR 0x22"
  by code_simp

lemma read_key_item: "read_key (json_string k @ '': '' @ r) = Some (k, CHR '' '' # r)"
  using read_text_json_string [of k "'': '' @ r"]
  by (simp add: read_key_def json_string_def quote_char skip_space_plain)

lemma dict_set_new: "k \<notin> set (map fst d) \<Longrightarrow> dict_set k v d = d @ [(k, v)]"
  by (induction d) (auto simp: dict_set_def)

lemma read_dumps:
  "json_dumps v = Inr t \<Longrightarrow> json_ok v \<Longrightarrow> ends_number rest \<Longrightarrow> length t < n \<Longrightarrow>
     read_value n (t @ rest) = Some (v, rest)"
  "json_dumps_list vs = Inr ts \<Longrightarrow> list_all json_ok vs \<Longrightarrow> vs \<noteq> [] \<Longrightarrow> length (join '', '' ts) + 1 < n \<Longrightarrow>
     read_list n (join '', '' ts @ CHR '']'' # rest) = Some (vs, rest)"
  "json_dumps_items d = Inr ts \<Longrightarrow> list_all (\<lambda>kv. json_ok (snd kv)) d \<Longrightarrow> d \<noteq> [] \<Longrightarrow>
     distinct (map fst (d0 @ d)) \<Longrightarrow> length (join '', '' ts) + 1 < n \<Longrightarrow>
     read_items n d0 (join '', '' ts @ CHR ''}'' # rest) = Some (d0 @ d, rest)"
proof (induction v and vs and d arbitrary: t rest n and ts rest n and ts rest n d0
    rule: json_dumps_json_dumps_list_json_dumps_items.induct)
  case (7 vs)
  from 7(2) obtain ts where ts: "json_dumps_list vs = Inr ts" "t = ''['' @ join '', '' ts @ '']''"
    by (auto split: sum.splits)
  obtain m where n: "n = Suc m" using 7(5) by (cases n) auto
  show ?case
  proof (cases vs)
    case Nil
    with ts show ?thesis by (auto simp: n skip_space_plain)
  next
    case (Cons v' vs')
    with ts(1) obtain t1 ts' where t1: "json_dumps v' = Inr t1" "ts = t1 # ts'" by (auto split: sum.splits)
    from dumps_head [OF _ t1(1)] 7(3) Cons have head: "t1 \<noteq> []" "hd t1 \<in> set value_heads" by auto
    have "skip_space (join '', '' ts @ CHR '']'' # rest) = join '', '' ts @ CHR '']'' # rest"
      using head t1(2) by (intro skip_space_plain; cases ts'; auto)
    moreover obtain x r where x: "join '', '' ts @ CHR '']'' # rest = x # r" "x \<noteq> CHR '']''"
      using head t1(2) by (cases t1; cases ts'; auto)
    moreover have "read_list m (join '', '' ts @ CHR '']'' # rest) = Some (vs, rest)"
      using 7(1) [OF ts(1)] 7(3,5) ts(2) Cons by (simp add: n)
    ultimately show ?thesis using ts(2) by (simp add: n skip_space_plain)
  qed
next
  case (8 d)
  from 8(2) obtain ts where ts: "json_dumps_items d = Inr ts" "t = ''{'' @ join '', '' ts @ ''}''"
    by (auto split: sum.splits)
  obtain m where n: "n = Suc m" using 8(5) by (cases n) auto
  show ?case
  proof (cases d)
    case Nil
    with ts show ?thesis by (auto simp: n skip_space_plain)
  next
    case (Cons kv d')
    obtain k v' where kv: "kv = (k, v')" by fastforce
    with ts(1) Cons obtain t1 ts' where t1: "ts = (json_string k @ '': '' @ t1) # ts'" by (auto split: sum.splits)
    obtain r where x: "join '', '' ts @ CHR ''}'' # rest = CHR 0x22 # r"
      using t1 by (cases ts'; auto simp: json_string_def quote_char)
    moreover have "read_items m [] (join '', '' ts @ CHR ''}'' # rest) = Some (d, rest)"
      using 8(1) [OF ts(1), where ?d0.0 = "[]" and n = m and rest = rest] 8(3,5) ts(2) Cons by (simp add: n)
    ultimately show ?thesis using ts(2) by (simp add: n skip_space_plain)
  qed
next
  case (10 v vs)
  from 10(3) obtain t1 ts' where t1: "json_dumps v = Inr t1" "json_dumps_list vs = Inr ts'" "ts = t1 # ts'"
    by (auto split: sum.splits)
  obtain m where n: "n = Suc m" using 10(6) by (cases n) auto
  show ?case
  proof (cases "vs = []")
    case True
    with t1 10(4,6) 10(1) [OF t1(1), of "CHR '']'' # rest" m] show ?thesis by (simp add: n skip_space_plain)
  next
    case False
    then have "ts' \<noteq> []" using t1(2) by (cases vs) (auto split: sum.splits)
    then have layout: "join '', '' ts @ CHR '']'' # rest = t1 @ CHR '','' # CHR '' '' # join '', '' ts' @ CHR '']'' # rest"
      and len: "length (join '', '' ts) = length t1 + 2 + length (join '', '' ts')" by (simp_all add: t1(3) join_Cons)
    have "read_value m (t1 @ CHR '','' # CHR '' '' # join '', '' ts' @ CHR '']'' # rest) =
        Some (v, CHR '','' # CHR '' '' # join '', '' ts' @ CHR '']'' # rest)"
      using 10(1) [OF t1(1)] 10(4,6) len by (simp add: n)
    moreover have "read_list m (join '', '' ts' @ CHR '']'' # rest) = Some (vs, rest)"
      using 10(2) [OF t1(1) t1(2)] 10(4,6) len False by (simp add: n)
    ultimately show ?thesis unfolding layout by (simp add: n skip_space_plain)
  qed
next
  case (12 k v d)
  from 12(3) obtain t1 ts' where t1: "json_dumps v = Inr t1" "json_dumps_items d = Inr ts'"
      "ts = (json_string k @ '': '' @ t1) # ts'"
    by (auto split: sum.splits)
  obtain m where n: "n = Suc m" using 12(7) by (cases n) auto
  have new: "dict_set k v d0 = d0 @ [(k, v)]" using 12(6) by (intro dict_set_new) auto
  show ?case
  proof (cases "d = []")
    case True
    then have layout: "join '', '' ts @ CHR ''}'' # rest = json_string k @ '': '' @ t1 @ CHR ''}'' # rest"
      using t1 by simp
    have "read_value m (t1 @ CHR ''}'' # rest) = Some (v, CHR ''}'' # rest)"
      using 12(1) [OF t1(1)] 12(4,7) t1 True by (simp add: n)
    then show ?thesis unfolding layout using True new by (simp add: n read_key_item skip_space_plain del: append_Cons)
  next
    case False
    then have "ts' \<noteq> []" using t1(2) by (cases d) (auto split: sum.splits)
    then have layout: "join '', '' ts @ CHR ''}'' # rest =
        json_string k @ '': '' @ t1 @ CHR '','' # CHR '' '' # join '', '' ts' @ CHR ''}'' # rest"
      and len: "length (join '', '' ts) = length (json_string k) + 2 + length t1 + 2 + length (join '', '' ts')"
      by (simp_all add: t1(3) join_Cons)
    have "read_value m (t1 @ CHR '','' # CHR '' '' # join '', '' ts' @ CHR ''}'' # rest) =
        Some (v, CHR '','' # CHR '' '' # join '', '' ts' @ CHR ''}'' # rest)"
      using 12(1) [OF t1(1)] 12(4,7) len by (simp add: n)
    moreover have "read_items m (d0 @ [(k, v)]) (join '', '' ts' @ CHR ''}'' # rest) = Some ((d0 @ [(k, v)]) @ d, rest)"
      using 12(2) [OF t1(1) t1(2)] 12(4,6,7) len False by (simp add: n)
    ultimately show ?thesis unfolding layout using new
      by (simp add: n read_key_item skip_space_plain del: append_Cons)
  qed
next
  case 1
  then show ?case by (intro read_value_atom) auto
next
  case (2 b)
  then show ?case by (intro read_value_atom) auto
next
  case (3 i)
  then show ?case by (intro read_value_atom) auto
next
  case (4 r)
  then show ?case by (intro read_value_atom) auto
next
  case (5 x)
  then show ?case by (intro read_value_atom) auto
qed simp_all

lemma json_loads_codec: "json_codec json_loads"
proof -
  have "json_loads t = Inr v" if "json_ok v" "json_dumps v = Inr t" for v t
  proof -
    have "read_value (Suc (length t)) (t @ []) = Some (v, [])"
      by (rule read_dumps(1) [OF that(2,1) ends_before(4) lessI])
    then show ?thesis
      unfolding json_loads_def append_Nil2 by (simp only: option.case prod.case) (simp add: skip_space_def)
  qed
  then show ?thesis unfolding json_codec_def using json_loads_ok by blast
qed

section \<open>Bytes in hexadecimal digits\<close>

text \<open>\<open>bytes.hex()\<close> and \<open>bytes.fromhex\<close>, which skips blanks between two bytes.\<close>

definition bytes_hex :: "nat list \<Rightarrow> string" where
  "bytes_hex bytes = concat (map (\<lambda>b. [hex_digit (b div 16), hex_digit (b mod 16)]) bytes)"

definition blank :: "char \<Rightarrow> bool" where
  "blank c \<longleftrightarrow> (of_char c :: nat) \<in> {9, 10, 11, 12, 13, 32}"

definition not_hex :: exn where
  "not_hex = PyExc ''ValueError'' ''non-hexadecimal number found in fromhex() arg''"

fun bytes_fromhex :: "string \<Rightarrow> exn + nat list" where
  "bytes_fromhex [] = Inr []"
| "bytes_fromhex [c] = (if blank c then Inr [] else Inl not_hex)"
| "bytes_fromhex (c # d # s) =
     (if blank c then bytes_fromhex (d # s)
      else case (hex_value c, hex_value d) of
          (Some a, Some b) \<Rightarrow> sbind (bytes_fromhex s) (\<lambda>bytes. Inr ((16 * a + b) # bytes))
        | _ \<Rightarrow> Inl not_hex)"

lemma hex_digit_of_char: "n < 16 \<Longrightarrow> (of_char (hex_digit n) :: nat) = (if n < 10 then 48 + n else 87 + n)"
  by (simp add: hex_digit_def of_char_of)

lemma hex_digit_not_blank: "n < 16 \<Longrightarrow> \<not> blank (hex_digit n)"
  by (simp add: blank_def hex_digit_of_char)

lemma bytes_fromhex_hex: "\<forall>b \<in> set bytes. b < 256 \<Longrightarrow> bytes_fromhex (bytes_hex bytes) = Inr bytes"
proof (induction bytes)
  case Nil
  then show ?case by (simp add: bytes_hex_def)
next
  case (Cons b bytes)
  have "b div 16 < 16" and "b mod 16 < 16" using Cons.prems by (auto simp: less_mult_imp_div_less)
  then have "bytes_fromhex (hex_digit (b div 16) # hex_digit (b mod 16) # bytes_hex bytes) = Inr (b # bytes)"
    using Cons by (simp add: hex_value_digit hex_digit_not_blank)
  then show ?case by (simp add: bytes_hex_def)
qed

lemma str_int_0: "str_int 0 = ''0''"
  by code_simp

end
