(* ===== verification/Orchestrator.thy ===== *)
theory Orchestrator
  imports Json
begin

text \<open>
  \<open>src/orchestrator\<close>: the order workflow over the payment, wallet, signer and contract lambdas, and the
  history of its transactions.

  The other services are one program of the environment, \<open>invoke\<close>, over a state \<open>'w\<close> of their own: it
  gets the function and the text of the payload, and gives the text of the answer.
\<close>

section \<open>State and environment\<close>

text \<open>The functions the configuration names.\<close>

datatype lambda_name =
    CREATE_ORDER_SERVICE_ARN | INITIATE_PAYMENT_SERVICE_ARN | EXECUTE_PAYMENT_SERVICE_ARN
  | ORDER_DETAILS_ORDER_ID_ARN | ORDER_DETAILS_BY_USERNAME_ARN | SIGNER_SERVICE_ARN
  | GET_GROUP_FOR_ORG_API_ARN | GET_ALL_ORG_API_ARN | CREATE_AND_REGISTER_WALLET_ARN
  | CHANNEL_ADD_FUNDS_ARN | GET_CHANNEL_TRANSACTIONS_ARN | GET_CHANNELS_FOR_GROUP
  | CREATE_CHANNEL_EVENT_ARN | GET_WALLETS_ARN | REGISTER_WALLET_ARN | SET_DEFAULT_WALLET_ARN
  | REGISTER_MEMBER_ARN | CREATE_ORG_ARN | VERIFICATION_INITIATE_ARN | NOTIFICATION_ARN

record transaction_history =
  th_username :: string
  th_order_id :: pyval
  th_order_type :: pyval
  th_status :: string
  th_payment_id :: pyval
  th_payment_method :: pyval
  th_raw_payment_data :: string
  th_transaction_hash :: string

record history_row =
  hr_history :: transaction_history
  row_created :: time
  row_updated :: time

record 'w orc_world =
  history_table :: "history_row list"
  outside :: 'w

text \<open>
  \<open>utcnow\<close> is the clock of the process, \<open>db_now\<close> that of the database's session. \<open>usd_float_to_cogs\<close>
  is \<open>round(amount * USD_TO_COGS_CONVERSION_FACTOR)\<close> for a float, \<open>decimal_of\<close> the constructor of
  \<open>decimal.Decimal\<close>, \<open>exn_repr\<close> is \<open>repr\<close> of an
  exception and \<open>py_str\<close> the \<open>str\<close> of a value in a message.
\<close>

text \<open>A \<open>decimal.Decimal\<close>: coefficient and exponent, or one of the values that are no numbers.\<close>

datatype decimal = Finite int int | NotFinite

record 'w orc_env =
  utcnow :: time
  db_now :: time
  column_time :: "time \<Rightarrow> time"
  loads :: "string \<Rightarrow> exn + pyval"
  invoke :: "lambda_name \<Rightarrow> string \<Rightarrow> ('w, string) prog"
  b64decode_hex :: "string \<Rightarrow> exn + string"
  current_block_no :: "exn + int"
  ssm_parameter :: "string \<Rightarrow> exn + string"
  usd_float_to_cogs :: "string \<Rightarrow> exn + int"
  decimal_of :: "string \<Rightarrow> exn + decimal"
  exn_repr :: "exn \<Rightarrow> string"
  py_str :: "pyval \<Rightarrow> string"
  USD_TO_COGS_CONVERSION_FACTOR :: int
  SIGNER_ADDRESS :: string
  EXECUTOR_ADDRESS :: string
  ORDER_EXPIRATION_THRESHOLD_IN_MINUTES :: int
  NETWORK_ID :: int
  ORG_APPROVERS_DLIST :: string

type_synonym ('w, 'a) oprog = "('w orc_world, 'a) prog"

text \<open>A step of the other services.\<close>

definition elsewhere :: "('w, 'a) prog \<Rightarrow> ('w, 'a) oprog" where
  "elsewhere m = (\<lambda>w. case m (outside w) of (r, o') \<Rightarrow> (r, w\<lparr>outside := o'\<rparr>))"

text \<open>\<open>json.loads(client.invoke(..., Payload=json.dumps(payload)).get('Payload').read())\<close>.\<close>

definition invoke_lambda :: "'w orc_env \<Rightarrow> lambda_name \<Rightarrow> pyval \<Rightarrow> ('w, pyval) oprog" where
  "invoke_lambda env name payload =
     andthen (of_sum (json_dumps payload)) (\<lambda>request.
     andthen (elsewhere (invoke env name request)) (\<lambda>answer.
     of_sum (loads env answer)))"

text \<open>An event whose body is a JSON text.\<close>

definition body_event :: "pydict \<Rightarrow> exn + pyval" where
  "body_event body = sbind (json_dumps (PDict body)) (\<lambda>t. Inr (PDict [(''body'', PStr t)]))"

text \<open>\<open>json.loads(response["body"])\<close>, once its \<open>statusCode\<close> is the expected one.\<close>

definition parsed_body :: "'w orc_env \<Rightarrow> pyval \<Rightarrow> exn + pyval" where
  "parsed_body env response = sbind (sbind (getitem response ''body'') as_text) (loads env)"

definition expect_status :: "int \<Rightarrow> exn \<Rightarrow> pyval \<Rightarrow> exn + unit" where
  "expect_status code failure response =
     sbind (getitem response ''statusCode'') (\<lambda>status. if status = PInt code then Inr () else Inl failure)"

text \<open>A loop over \<open>v\<close> that changes each item in place.\<close>

definition map_items :: "(pyval \<Rightarrow> exn + pyval) \<Rightarrow> pyval \<Rightarrow> exn + pyval" where
  "map_items f v =
     sbind (py_items v) (\<lambda>items. sbind (smap f items) (\<lambda>changed.
     Inr (case v of PList vs \<Rightarrow> PList changed | _ \<Rightarrow> v)))"

definition setitem :: "string \<Rightarrow> pyval \<Rightarrow> pyval \<Rightarrow> exn + pyval" where
  "setitem k x v = (case v of PDict d \<Rightarrow> Inr (PDict (dict_set k x d)) | _ \<Rightarrow> Inl TypeError)"

section \<open>dao/transaction\_history\_dao.py\<close>

text \<open>The table has no key but its row number, so that every insertion is a new row.\<close>

definition insert_transaction_history :: "'w orc_env \<Rightarrow> transaction_history \<Rightarrow> ('w, unit) oprog" where
  "insert_transaction_history env h =
     modify (\<lambda>w. w\<lparr>history_table := history_table w @
       [\<lparr>hr_history = h, row_created = column_time env (utcnow env), row_updated = column_time env (utcnow env)\<rparr>]\<rparr>)"

definition open_statuses :: "string list" where
  "open_statuses = [''PAYMENT_INITIATED'', ''PAYMENT_INITIATION_FAILED'', ''PAYMENT_EXECUTION_FAILED'']"

text \<open>\<open>TIMESTAMPDIFF(MINUTE, a, b)\<close>.\<close>

definition minutes_between :: "time \<Rightarrow> time \<Rightarrow> int" where
  "minutes_between a b = (if a \<le> b then (b - a) div 60000000 else - ((a - b) div 60000000))"

definition get_order_id_for_expired_transaction :: "'w orc_env \<Rightarrow> ('w, pyval list) oprog" where
  "get_order_id_for_expired_transaction env =
     gets (\<lambda>w. map (\<lambda>r. th_order_id (hr_history r)) (filter (\<lambda>r. th_status (hr_history r) \<in> set open_statuses \<and>
       minutes_between (row_created r) (db_now env) > ORDER_EXPIRATION_THRESHOLD_IN_MINUTES env) (history_table w)))"

definition to_be_updated :: "pyval list \<Rightarrow> history_row \<Rightarrow> bool" where
  "to_be_updated order_ids r \<longleftrightarrow>
     th_order_id (hr_history r) \<in> set order_ids \<and> th_status (hr_history r) \<in> set open_statuses"

definition update_transaction_status :: "pyval list \<Rightarrow> string \<Rightarrow> ('w, pyval) oprog" where
  "update_transaction_status list_of_order_id status =
     (if list_of_order_id = [] then ret (PStr ''No order id found'')
      else
        andthen (gets (\<lambda>w. length (filter (to_be_updated list_of_order_id) (history_table w)))) (\<lambda>count.
        andthen (modify (\<lambda>w. w\<lparr>history_table := sql_update (to_be_updated list_of_order_id)
           (\<lambda>r. r\<lparr>hr_history := (hr_history r)\<lparr>th_status := status\<rparr>\<rparr>) (history_table w)\<rparr>)) (\<lambda>_.
        ret (PList [PInt (int count), PDict [(''last_row_id'', PInt 0)]]))))"

definition get_transaction_details_for_given_order_id :: "pyval \<Rightarrow> ('w, transaction_history) oprog" where
  "get_transaction_details_for_given_order_id order_id =
     andthen (gets (\<lambda>w. sql_first (\<lambda>r. th_order_id (hr_history r) = order_id) (history_table w))) (\<lambda>found.
     case found of
       None \<Rightarrow> raise (py_exception ''Order Id does not exist.'')
     | Some r \<Rightarrow> ret (hr_history r))"

section \<open>services/wallet\_service.py\<close>

definition create_channel :: "'w orc_env \<Rightarrow> pydict \<Rightarrow> ('w, unit) oprog" where
  "create_channel env open_channel_body =
     andthen (of_sum (body_event open_channel_body)) (\<lambda>payload.
     andthen (invoke_lambda env CREATE_CHANNEL_EVENT_ARN payload) (\<lambda>response.
     of_sum (expect_status 201 (py_exception ''Failed to create channel'') response)))"

definition get_channel_transactions :: "'w orc_env \<Rightarrow> string \<Rightarrow> pyval \<Rightarrow> pyval \<Rightarrow> ('w, pyval) oprog" where
  "get_channel_transactions env username org_id group_id =
     andthen (of_sum (body_event [(''username'', PStr username), (''group_id'', group_id), (''org_id'', org_id)])) (\<lambda>payload.
     andthen (invoke_lambda env GET_CHANNEL_TRANSACTIONS_ARN payload) (\<lambda>response.
     andthen (of_sum (expect_status 200 (py_exception (''Failed to fetch wallet details for username: '' @ username)) response)) (\<lambda>_.
     of_sum (sbind (parsed_body env response) (\<lambda>body. getitems body [''data'', ''wallets''])))))"

text \<open>An answer without \<open>statusCode\<close> is a failure of its own, with the same outcome.\<close>

definition get_channels_from_contract :: "'w orc_env \<Rightarrow> pyval \<Rightarrow> pyval \<Rightarrow> pyval \<Rightarrow> ('w, pyval) oprog" where
  "get_channels_from_contract env user_address org_id group_id =
     andthen (invoke_lambda env GET_CHANNELS_FOR_GROUP (PDict [(''queryStringParameters'', PDict
        [(''user_address'', user_address), (''org_id'', org_id), (''group_id'', group_id)])])) (\<lambda>response.
     andthen (of_sum (py_in ''statusCode'' response)) (\<lambda>present.
     if \<not> present then raise (py_exception ''Failed to get channel details from contract API'')
     else
       andthen (of_sum (expect_status 200 (py_exception ''Failed to get channel details from contract API username'') response)) (\<lambda>_.
       of_sum (sbind (parsed_body env response) (\<lambda>body. getitems body [''data'', ''channels''])))))"

definition pending_transaction :: "pyval \<Rightarrow> exn + pyval" where
  "pending_transaction trxn =
     sbind (getitem trxn ''status'') (\<lambda>status.
     if status \<in> {PStr ''PROCESSING'', PStr ''NOT_SUBMITTED''} then setitem ''status'' (PStr ''PENDING'') trxn else Inr trxn)"

definition wallet_with_channels :: "'w orc_env \<Rightarrow> pyval \<Rightarrow> pyval \<Rightarrow> pyval \<Rightarrow> ('w, pyval) oprog" where
  "wallet_with_channels env org_id group_id wallet =
     andthen (of_sum (getitem wallet ''address'')) (\<lambda>user_address.
     andthen (get_channels_from_contract env user_address org_id group_id) (\<lambda>channels.
     of_sum (sbind (setitem ''channels'' channels wallet) (\<lambda>wallet.
       sbind (sbind (getitem wallet ''transactions'') (map_items pending_transaction)) (\<lambda>transactions.
       setitem ''transactions'' transactions wallet)))))"

definition get_channel_details :: "'w orc_env \<Rightarrow> string \<Rightarrow> pyval \<Rightarrow> pyval \<Rightarrow> ('w, pydict) oprog" where
  "get_channel_details env username org_id group_id =
     andthen (get_channel_transactions env username org_id group_id) (\<lambda>wallets.
     andthen (of_sum (py_items wallets)) (\<lambda>items.
     andthen (map_each (wallet_with_channels env org_id group_id) items) (\<lambda>changed.
     ret [(''username'', PStr username), (''org_id'', org_id), (''group_id'', group_id),
          (''wallets'', case wallets of PList vs \<Rightarrow> PList changed | _ \<Rightarrow> wallets)])))"

definition without_key :: "pyval \<Rightarrow> exn + pyval" where
  "without_key wallet =
     (case wallet of
        PDict d \<Rightarrow> if dict_has d ''private_key'' then Inr (PDict (dict_del ''private_key'' d)) else Inl (KeyError ''private_key'')
      | _ \<Rightarrow> Inl TypeError)"

definition get_wallets :: "'w orc_env \<Rightarrow> string \<Rightarrow> bool \<Rightarrow> ('w, pyval) oprog" where
  "get_wallets env username remove_keys =
     andthen (of_sum (body_event [(''username'', PStr username)])) (\<lambda>payload.
     andthen (invoke_lambda env GET_WALLETS_ARN payload) (\<lambda>response.
     andthen (of_sum (expect_status 200 (py_exception ''Unable to get wallets for username %s'') response)) (\<lambda>_.
     of_sum (sbind (sbind (parsed_body env response) (\<lambda>body. getitem body ''data'')) (\<lambda>wallets.
       if remove_keys then
         sbind (sbind (getitem wallets ''wallets'') (map_items without_key)) (\<lambda>ws.
         setitem ''wallets'' ws wallets)
       else Inr wallets)))))"

text \<open>\<open>int(status)\<close>: the lambdas answer a number or its digits.\<close>

definition int_of_status :: "pyval \<Rightarrow> exn + int" where
  "int_of_status v =
     (case v of PInt i \<Rightarrow> Inr i
      | PStr s \<Rightarrow> if int_text s then Inr (int_value s) else Inl (PyExc ''ValueError'' s)
      | _ \<Rightarrow> Inl TypeError)"

definition register_wallet :: "'w orc_env \<Rightarrow> string \<Rightarrow> pyval \<Rightarrow> ('w, pyval) oprog" where
  "register_wallet env username wallet_details =
     andthen (of_sum (getitem wallet_details ''address'')) (\<lambda>address.
     andthen (of_sum (getitem wallet_details ''type'')) (\<lambda>wallet_type.
     andthen (of_sum (body_event [(''address'', address), (''type'', wallet_type), (''username'', PStr username)])) (\<lambda>payload.
     andthen (invoke_lambda env REGISTER_WALLET_ARN payload) (\<lambda>response.
     andthen (of_sum (sbind (getitem response ''statusCode'') int_of_status)) (\<lambda>status.
     if status \<noteq> 200 then raise (py_exception ''Unable to register wallet for username %s'')
     else of_sum (sbind (parsed_body env response) (\<lambda>body. getitem body ''data'')))))))"

definition set_default_wallet :: "'w orc_env \<Rightarrow> string \<Rightarrow> pyval \<Rightarrow> ('w, pyval) oprog" where
  "set_default_wallet env username address =
     andthen (of_sum (body_event [(''address'', address), (''username'', PStr username)])) (\<lambda>payload.
     andthen (invoke_lambda env SET_DEFAULT_WALLET_ARN payload) (\<lambda>response.
     of_sum (sbind (parsed_body env response) (\<lambda>body. getitem body ''data''))))"

text \<open>The last of the wallets that are default and general; an \<open>is_default\<close> of \<open>True\<close> equals 1.\<close>

definition is_default_wallet :: "pyval \<Rightarrow> exn + bool" where
  "is_default_wallet wallet =
     sbind (getitem wallet ''is_default'') (\<lambda>d.
     if d \<in> {PInt 1, PBool True, PFloat ''1.0''} then
       sbind (getitem wallet ''type'') (\<lambda>t. Inr (t = PStr ''GENERAL''))
     else Inr False)"

fun last_default_wallet :: "pyval option \<Rightarrow> pyval list \<Rightarrow> exn + pyval option" where
  "last_default_wallet found [] = Inr found"
| "last_default_wallet found (wallet # wallets) =
     sbind (is_default_wallet wallet) (\<lambda>yes.
     last_default_wallet (if yes then Some wallet else found) wallets)"

definition get_default_wallet :: "'w orc_env \<Rightarrow> string \<Rightarrow> ('w, pyval) oprog" where
  "get_default_wallet env username =
     andthen (get_wallets env username True) (\<lambda>answer.
     of_sum (sbind (sbind (getitem answer ''wallets'') py_items) (\<lambda>wallets.
       sbind (last_default_wallet None wallets) (\<lambda>found.
       case found of None \<Rightarrow> Inl (py_exception ''No active paypal wallet'') | Some wallet \<Rightarrow> Inr wallet))))"

end
