(* ===== verification/Orchestrator_Orders.thy ===== *)
theory Orchestrator_Orders
  imports Orchestrator
begin

text \<open>\<open>services/order_service.py\<close>: placing, paying and processing an order, its history and its amounts.\<close>

section \<open>Amounts\<close>

fun digits :: "nat \<Rightarrow> nat" where
  "digits n = (if n < 10 then 1 else Suc (digits (n div 10)))"

declare digits.simps [simp del]

text \<open>\<open>n / d\<close> to the nearest integer, ties to even.\<close>

definition half_even :: "nat \<Rightarrow> nat \<Rightarrow> nat" where
  "half_even n d =
     (let q = n div d; r = n mod d in
      if 2 * r < d then q else if d < 2 * r then Suc q else if even q then q else Suc q)"

text \<open>A decimal number under a context of so many digits.\<close>

definition to_precision :: "nat \<Rightarrow> int \<times> int \<Rightarrow> int \<times> int" where
  "to_precision prec = (\<lambda>(c, e).
     (let n = nat \<bar>c\<bar>; k = digits n - prec; q = half_even n (10 ^ k) in
      if k = 0 then (c, e)
      else if prec < digits q then (sgn c * int (q div 10), e + int k + 1)
      else (sgn c * int q, e + int k)))"

definition round_decimal :: "int \<times> int \<Rightarrow> int" where
  "round_decimal = (\<lambda>(c, e).
     if 0 \<le> e then c * 10 ^ nat e else sgn c * int (half_even (nat \<bar>c\<bar>) (10 ^ nat (- e))))"

text \<open>\<open>str\<close> of a decimal number.\<close>

definition str_decimal :: "int \<times> int \<Rightarrow> string" where
  "str_decimal = (\<lambda>(c, e).
     (let ds = str_nat (nat \<bar>c\<bar>); adjusted = e + int (length ds) - 1; sign = (if c < 0 then ''-'' else []) in
      sign @
      (if e \<le> 0 \<and> -6 \<le> adjusted then
         (if e = 0 then ds
          else if - e < int (length ds) then
            take (length ds - nat (- e)) ds @ ''.'' @ drop (length ds - nat (- e)) ds
          else ''0.'' @ replicate (nat (- e) - length ds) (CHR ''0'') @ ds)
       else
         take 1 ds @ (if drop 1 ds = [] then [] else ''.'' @ drop 1 ds) @ ''E'' @
         (if 0 \<le> adjusted then ''+'' else []) @ str_int adjusted)))"

text \<open>\<open>Utils.cogs_to_agi\<close>: eight digits.\<close>

definition cogs_to_agi :: "int \<Rightarrow> int \<times> int" where
  "cogs_to_agi cogs = to_precision 8 (cogs, -8)"

text \<open>\<open>round(amount * USD_TO_COGS_CONVERSION_FACTOR)\<close>.\<close>

definition amount_times_factor :: "'w orc_env \<Rightarrow> pyval \<Rightarrow> exn + int" where
  "amount_times_factor env amount =
     (case amount of
        PInt i \<Rightarrow> Inr (i * USD_TO_COGS_CONVERSION_FACTOR env)
      | PBool b \<Rightarrow> Inr ((if b then 1 else 0) * USD_TO_COGS_CONVERSION_FACTOR env)
      | PFloat r \<Rightarrow> usd_float_to_cogs env r
      | _ \<Rightarrow> Inl TypeError)"

definition currency_error :: exn where
  "currency_error = py_exception ''Currency %s not supported.''"

definition calculate_amount_in_cogs :: "'w orc_env \<Rightarrow> pyval \<Rightarrow> pyval \<Rightarrow> exn + int" where
  "calculate_amount_in_cogs env amount currency =
     (if currency = PStr ''USD'' then amount_times_factor env amount else Inl currency_error)"

definition decimal_amount_in_cogs :: "'w orc_env \<Rightarrow> decimal \<Rightarrow> pyval \<Rightarrow> exn + int" where
  "decimal_amount_in_cogs env amount currency =
     (if currency = PStr ''USD'' then
        (case amount of
           Finite c e \<Rightarrow> Inr (round_decimal (to_precision 28 (c * USD_TO_COGS_CONVERSION_FACTOR env, e)))
         | NotFinite \<Rightarrow> Inl (PyExc ''ValueError'' ''cannot convert to integer''))
      else Inl currency_error)"

definition currency_to_token :: "'w orc_env \<Rightarrow> pyval \<Rightarrow> pyval \<Rightarrow> exn + pydict" where
  "currency_to_token env amount currency =
     sbind (sbind (as_text amount) (decimal_of env)) (\<lambda>value.
     sbind (decimal_amount_in_cogs env value currency) (\<lambda>amount_in_cogs.
     sbind (as_text currency) (\<lambda>name.
     Inr [(''base'', currency), (''amount'', amount), (''amount_in_cogs'', PStr (str_int amount_in_cogs)),
          (''amount_in_agi'', PStr (str_decimal (cogs_to_agi amount_in_cogs))),
          (name @ ''/cogs'', PStr (str_int (USD_TO_COGS_CONVERSION_FACTOR env))), (''agi/cogs'', PStr ''0.00000001'')])))"

section \<open>Calls of the other services\<close>

definition unreserved :: "char \<Rightarrow> bool" where
  "unreserved c \<longleftrightarrow>
     c \<in> set ''ABCDEFGHIJKLMNOPQRSTUVWXYZabcdefghijklmnopqrstuvwxyz0123456789_.-~''"

definition upper_hex_digit :: "nat \<Rightarrow> char" where
  "upper_hex_digit n = (if n < 10 then char_of (48 + n) else char_of (55 + n))"

text \<open>\<open>urllib.parse.quote(s, safe="")\<close>.\<close>

definition quote :: "string \<Rightarrow> string" where
  "quote s = concat (map (\<lambda>c. if unreserved c then [c]
     else concat (map (\<lambda>b. [CHR ''%'', upper_hex_digit (b div 16), upper_hex_digit (b mod 16)]) (utf8_char c))) s)"

definition get_payment_address_for_org :: "'w orc_env \<Rightarrow> pyval \<Rightarrow> pyval \<Rightarrow> ('w, pyval) oprog" where
  "get_payment_address_for_org env org_id group_id =
     andthen (of_sum (as_text group_id)) (\<lambda>group_text.
     andthen (invoke_lambda env GET_GROUP_FOR_ORG_API_ARN (PDict [(''pathParameters'', PDict
        [(''org_id'', org_id), (''group_id'', PStr (quote group_text))])])) (\<lambda>response.
     andthen (of_sum (expect_status 200 (py_exception ''Failed to fetch group details'') response)) (\<lambda>_.
     andthen (of_sum (sbind (parsed_body env response) (\<lambda>body. getitems body [''data'', ''groups'']))) (\<lambda>groups.
     of_sum (case groups of
         PList [] \<Rightarrow> Inl (py_exception ''Failed to find group'')
       | PList (g # _) \<Rightarrow> getitems g [''payment'', ''payment_address'']
       | _ \<Rightarrow> Inl TypeError)))))"

text \<open>\<open>wallet["channels"]\<close>: whether there is one, and the first.\<close>

definition py_len :: "pyval \<Rightarrow> exn + nat" where
  "py_len v = (case v of PList vs \<Rightarrow> Inr (length vs) | PDict d \<Rightarrow> Inr (length d) | PStr s \<Rightarrow> Inr (length s)
     | _ \<Rightarrow> Inl TypeError)"

definition item_0 :: "pyval \<Rightarrow> exn + pyval" where
  "item_0 v =
     (case v of
        PList [] \<Rightarrow> Inl (PyExc ''IndexError'' []) | PList (x # _) \<Rightarrow> Inr x
      | PStr [] \<Rightarrow> Inl (PyExc ''IndexError'' []) | PStr (c # _) \<Rightarrow> Inr (PStr [c])
      | PDict d \<Rightarrow> Inl (KeyError ''0'') | _ \<Rightarrow> Inl TypeError)"

definition topup_channel :: "'w orc_env \<Rightarrow> pyval \<Rightarrow> exn + pyval option" where
  "topup_channel env wallet =
     sbind (getitem wallet ''type'') (\<lambda>wallet_type.
     if wallet_type \<noteq> PStr ''GENERAL'' then Inr None
     else
       sbind (getitem wallet ''channels'') (\<lambda>channels.
       sbind (py_len channels) (\<lambda>n.
       if n = 0 then Inr None
       else
         sbind (item_0 channels) (\<lambda>channel.
         sbind (getitem channel ''signer'') (\<lambda>signer.
         if signer \<noteq> PStr (SIGNER_ADDRESS env) then Inr None
         else
           sbind (getitem wallet ''address'') (\<lambda>address.
           sbind (setitem ''address'' address channel) (\<lambda>channel.
           Inr (Some channel))))))))"

fun first_topup_channel :: "'w orc_env \<Rightarrow> pyval list \<Rightarrow> exn + pyval option" where
  "first_topup_channel env [] = Inr None"
| "first_topup_channel env (wallet # wallets) =
     sbind (topup_channel env wallet) (\<lambda>found.
     case found of None \<Rightarrow> first_topup_channel env wallets | Some c \<Rightarrow> Inr (Some c))"

definition get_channel_for_topup :: "'w orc_env \<Rightarrow> string \<Rightarrow> pyval \<Rightarrow> pyval \<Rightarrow> ('w, pyval option) oprog" where
  "get_channel_for_topup env username group_id org_id =
     andthen (get_channel_details env username org_id group_id) (\<lambda>channel_details.
     of_sum (sbind (sbind (getitem (PDict channel_details) ''wallets'') py_items) (first_topup_channel env)))"

definition manage_create_order :: "'w orc_env \<Rightarrow> string \<Rightarrow> pyval \<Rightarrow> pyval \<Rightarrow> ('w, pyval) oprog" where
  "manage_create_order env username item_details price =
     andthen (of_sum (json_dumps (PDict
        [(''price'', price), (''item_details'', item_details), (''username'', PStr username)]))) (\<lambda>body.
     andthen (invoke_lambda env CREATE_ORDER_SERVICE_ARN (PDict
        [(''path'', PStr ''/order/create''), (''httpMethod'', PStr ''POST''), (''body'', PStr body)])) (\<lambda>response.
     andthen (of_sum (expect_status 201 (py_exception (''Error creating order for user '' @ username)) response)) (\<lambda>_.
     of_sum (parsed_body env response))))"

definition PaymentInitiateFailed :: exn where
  "PaymentInitiateFailed = PyExc ''PaymentInitiateFailed'' []"

definition manage_initiate_payment :: "'w orc_env \<Rightarrow> pyval \<Rightarrow> pyval \<Rightarrow> pyval \<Rightarrow> ('w, pyval) oprog" where
  "manage_initiate_payment env order_id price payment_method =
     andthen (of_sum (json_dumps (PDict [(''price'', price), (''payment_method'', payment_method)]))) (\<lambda>body.
     andthen (invoke_lambda env INITIATE_PAYMENT_SERVICE_ARN (PDict
        [(''pathParameters'', PDict [(''order_id'', order_id)]), (''httpMethod'', PStr ''POST''), (''body'', PStr body)])) (\<lambda>response.
     andthen (of_sum (expect_status 201 PaymentInitiateFailed response)) (\<lambda>_.
     of_sum (parsed_body env response))))"

definition manage_execute_payment ::
  "'w orc_env \<Rightarrow> string \<Rightarrow> pyval \<Rightarrow> pyval \<Rightarrow> pyval \<Rightarrow> pyval \<Rightarrow> ('w, pyval) oprog" where
  "manage_execute_payment env username order_id payment_id payment_details payment_method =
     andthen (of_sum (json_dumps (PDict
        [(''payment_method'', payment_method), (''payment_details'', payment_details)]))) (\<lambda>body.
     andthen (invoke_lambda env EXECUTE_PAYMENT_SERVICE_ARN (PDict
        [(''pathParameters'', PDict [(''order_id'', order_id), (''payment_id'', payment_id)]), (''body'', PStr body)])) (\<lambda>response.
     andthen (of_sum (expect_status 201 (py_exception (''Error executing payment for username '' @ username)) response)) (\<lambda>_.
     ret response)))"

definition get_order_details_by_order_id :: "'w orc_env \<Rightarrow> pyval \<Rightarrow> string \<Rightarrow> ('w, pyval) oprog" where
  "get_order_details_by_order_id env order_id username =
     (let failure = py_exception (''Failed to fetch order details for order_id'') in
      andthen (of_sum (as_text order_id)) (\<lambda>order_text.
      andthen (invoke_lambda env ORDER_DETAILS_ORDER_ID_ARN (PDict
         [(''path'', PStr (''order/'' @ order_text)), (''pathParameters'', PDict [(''order_id'', order_id)]),
          (''httpMethod'', PStr ''GET'')])) (\<lambda>response.
      andthen (of_sum (expect_status 200 failure response)) (\<lambda>_.
      andthen (of_sum (parsed_body env response)) (\<lambda>data.
      andthen (of_sum (getitem data ''username'')) (\<lambda>owner.
      if owner \<noteq> PStr username then raise failure else ret data))))))"

section \<open>Processing a paid order\<close>

definition generate_signature_for_open_channel_for_third_party ::
  "'w orc_env \<Rightarrow> pyval \<Rightarrow> string \<Rightarrow> int \<Rightarrow> int \<Rightarrow> int \<Rightarrow> pyval \<Rightarrow> string \<Rightarrow> ('w, pyval) oprog" where
  "generate_signature_for_open_channel_for_third_party env recipient group_id amount_in_cogs expiration message_nonce
      sender_private_key executor_wallet_address =
     andthen (of_sum (json_dumps (PDict
        [(''recipient'', recipient), (''group_id'', PStr group_id), (''amount_in_cogs'', PInt amount_in_cogs),
         (''expiration'', PInt expiration), (''message_nonce'', PInt message_nonce),
         (''signer_key'', sender_private_key), (''executor_wallet_address'', PStr executor_wallet_address)]))) (\<lambda>body.
     andthen (invoke_lambda env SIGNER_SERVICE_ARN (PDict
        [(''path'', PStr ''/signer/open-channel-for-third-party''), (''body'', PStr body),
         (''httpMethod'', PStr ''POST'')])) (\<lambda>response.
     andthen (of_sum (expect_status 200 (py_exception ''Failed to create signature'') response)) (\<lambda>_.
     of_sum (sbind (parsed_body env response) (\<lambda>details. getitem details ''data'')))))"

text \<open>The wallet a channel is opened from: a new one, or the sender's with its key.\<close>

definition create_wallet :: "'w orc_env \<Rightarrow> string \<Rightarrow> ('w, pyval) oprog" where
  "create_wallet env username =
     andthen (of_sum (body_event [(''username'', PStr username)])) (\<lambda>payload.
     andthen (invoke_lambda env CREATE_AND_REGISTER_WALLET_ARN payload) (\<lambda>response.
     andthen (of_sum (expect_status 200 (py_exception ''Failed to create wallet'') response)) (\<lambda>_.
     of_sum (sbind (parsed_body env response) (\<lambda>body. getitem body ''data'')))))"

fun wallet_with_address :: "pyval \<Rightarrow> pyval list \<Rightarrow> exn + pyval option" where
  "wallet_with_address sender [] = Inr None"
| "wallet_with_address sender (wallet # wallets) =
     sbind (getitem wallet ''address'') (\<lambda>address.
     if address = sender then Inr (Some wallet) else wallet_with_address sender wallets)"

definition sender_wallet :: "'w orc_env \<Rightarrow> string \<Rightarrow> pyval \<Rightarrow> ('w, pyval) oprog" where
  "sender_wallet env username sender =
     andthen (get_wallets env username False) (\<lambda>answer.
     of_sum (sbind (getitem answer ''wallets'') (\<lambda>wallets.
       sbind (py_len wallets) (\<lambda>n.
       if n = 0 then Inl (py_exception (''No wallet found for username '' @ username))
       else
         sbind (sbind (py_items wallets) (wallet_with_address sender)) (\<lambda>found.
         case found of
           None \<Rightarrow> Inl (py_exception (''No wallet found for username '' @ username))
         | Some wallet \<Rightarrow>
             sbind (getitem wallet ''private_key'') (\<lambda>key.
             if truthy key then Inr wallet else Inl (py_exception (''Wallet doesn'' @ CHR 0x27 # ''t have private key''))))))))"

text \<open>Ten years of blocks.\<close>

definition channel_lifetime :: int where
  "channel_lifetime = 10 * 365 * 24 * 60 * 4"

definition open_channel ::
  "'w orc_env \<Rightarrow> pyval \<Rightarrow> pyval \<Rightarrow> pyval \<Rightarrow> pyval \<Rightarrow> pyval \<Rightarrow> pyval \<Rightarrow> pyval \<Rightarrow> int \<Rightarrow> ('w, unit) oprog" where
  "open_channel env wallet order_id group_id org_id amount currency recipient amount_in_cogs =
     andthen (of_sum (current_block_no env)) (\<lambda>block_no.
     andthen (of_sum (ssm_parameter env (EXECUTOR_ADDRESS env))) (\<lambda>executor_wallet_address.
     andthen (of_sum (sbind (as_text group_id) (b64decode_hex env))) (\<lambda>group_hex.
     andthen (of_sum (getitem wallet ''private_key'')) (\<lambda>private_key.
     andthen (generate_signature_for_open_channel_for_third_party env recipient (''0x'' @ group_hex) amount_in_cogs
       (block_no + channel_lifetime) block_no private_key executor_wallet_address) (\<lambda>signature_details.
     andthen (of_sum (getitem wallet ''address'')) (\<lambda>address.
     andthen (of_sum (getitem signature_details ''signature'')) (\<lambda>signature.
     andthen (of_sum (getitem signature_details ''r'')) (\<lambda>r.
     andthen (of_sum (getitem signature_details ''s'')) (\<lambda>s.
     andthen (of_sum (getitem signature_details ''v'')) (\<lambda>v.
     create_channel env
       [(''order_id'', order_id), (''sender'', address), (''signature'', signature), (''r'', r), (''s'', s), (''v'', v),
        (''group_id'', group_id), (''org_id'', org_id), (''amount'', amount), (''currency'', currency),
        (''recipient'', recipient), (''current_block_no'', PInt block_no), (''amount_in_cogs'', PInt amount_in_cogs)]))))))))))"

definition channel_creation_failed :: "pyval \<Rightarrow> pyval \<Rightarrow> pyval \<Rightarrow> pyval \<Rightarrow> exn + 'a" where
  "channel_creation_failed wallet amount currency order_data =
     sbind (getitem wallet ''address'') (\<lambda>address.
     Inl (DataExc ''ChannelCreationFailed'' (PDict
       [(''transaction_hash'', PStr []), (''signature'', PStr []), (''amount_in_cogs'', PInt 0),
        (''price'', PDict [(''amount'', amount), (''currency'', currency)]), (''item_details'', order_data),
        (''address'', address)])))"

definition FundChannelFailed :: exn where
  "FundChannelFailed = PyExc ''FundChannelFailed'' []"

definition fund_channel :: "'w orc_env \<Rightarrow> pydict \<Rightarrow> ('w, unit) oprog" where
  "fund_channel env fund_channel_body =
     andthen (of_sum (body_event fund_channel_body)) (\<lambda>payload.
     andthen (invoke_lambda env CHANNEL_ADD_FUNDS_ARN payload) (\<lambda>response.
     andthen (of_sum (expect_status 200 (py_exception ''Failed to add funds in channel'') response)) (\<lambda>_.
     andthen (of_sum (sbind (parsed_body env response) (\<lambda>body. getitem body ''data''))) (\<lambda>_.
     ret ()))))"

definition manage_process_order ::
  "'w orc_env \<Rightarrow> string \<Rightarrow> pyval \<Rightarrow> pyval \<Rightarrow> pyval \<Rightarrow> pyval \<Rightarrow> pyval \<Rightarrow> int \<Rightarrow> ('w, unit) oprog" where
  "manage_process_order env username order_id order_type amount currency order_data amount_in_cogs =
     andthen (of_sum (getitem order_data ''group_id'')) (\<lambda>group_id.
     andthen (of_sum (getitem order_data ''org_id'')) (\<lambda>org_id.
     andthen (of_sum (getitem order_data ''recipient'')) (\<lambda>recipient.
     andthen (of_sum (getitem order_data ''channel_id'')) (\<lambda>channel_id.
     andthen (of_sum (getitem order_data ''wallet_address'')) (\<lambda>sender.
     if order_type \<in> {PStr ''CREATE_WALLET_AND_CHANNEL'', PStr ''CREATE_CHANNEL''} then
       andthen (if order_type = PStr ''CREATE_WALLET_AND_CHANNEL'' then create_wallet env username
                else sender_wallet env username sender) (\<lambda>wallet.
       try_except (open_channel env wallet order_id group_id org_id amount currency recipient amount_in_cogs)
         (\<lambda>e. of_sum (channel_creation_failed wallet amount currency order_data)))
     else if order_type = PStr ''FUND_CHANNEL'' then
       try_except (fund_channel env
          [(''order_id'', order_id), (''group_id'', group_id), (''org_id'', org_id), (''amount'', amount),
           (''channel_id'', channel_id), (''currency'', currency), (''recipient'', recipient), (''sender'', sender),
           (''amount_in_cogs'', PInt amount_in_cogs)])
         (\<lambda>e. raise FundChannelFailed)
     else raise (py_exception ''Order type is not valid.''))))))"

section \<open>The workflow\<close>

definition initial_history :: "string \<Rightarrow> pyval \<Rightarrow> pyval \<Rightarrow> string \<Rightarrow> transaction_history" where
  "initial_history username order_id order_type status =
     \<lparr>th_username = username, th_order_id = order_id, th_order_type = order_type, th_status = status,
      th_payment_id = PStr [], th_payment_method = PStr [], th_raw_payment_data = ''{}'', th_transaction_hash = []\<rparr>"

definition failed_with :: "'w orc_env \<Rightarrow> transaction_history \<Rightarrow> exn \<Rightarrow> ('w, 'a) oprog" where
  "failed_with env h e = andthen (insert_transaction_history env h) (\<lambda>_. raise e)"

text \<open>The details of the item, with what the order needs, by type of order.\<close>

definition complete_item_details ::
  "'w orc_env \<Rightarrow> string \<Rightarrow> pyval \<Rightarrow> pyval \<Rightarrow> pyval \<Rightarrow> pyval \<Rightarrow> ('w, pyval) oprog" where
  "complete_item_details env username order_type group_id org_id item_details =
     (if order_type = PStr ''CREATE_WALLET_AND_CHANNEL'' then
        andthen (of_sum (setitem ''wallet_address'' (PStr []) item_details)) (\<lambda>item_details.
        andthen (get_payment_address_for_org env org_id group_id) (\<lambda>recipient.
        of_sum (sbind (setitem ''channel_id'' (PStr []) item_details) (setitem ''recipient'' recipient))))
      else if order_type = PStr ''CREATE_CHANNEL'' then
        andthen (get_payment_address_for_org env org_id group_id) (\<lambda>recipient.
        of_sum (sbind (setitem ''channel_id'' (PStr []) item_details) (setitem ''recipient'' recipient)))
      else if order_type = PStr ''FUND_CHANNEL'' then
        andthen (get_channel_for_topup env username group_id org_id) (\<lambda>found.
        case found of
          None \<Rightarrow> raise (py_exception (''Channel not found for the user: '' @ username))
        | Some channel \<Rightarrow>
            of_sum (sbind (getitem channel ''recipient'') (\<lambda>recipient.
              sbind (getitem channel ''channel_id'') (\<lambda>channel_id.
              sbind (getitem channel ''address'') (\<lambda>address.
              sbind (setitem ''wallet_address'' address item_details) (\<lambda>item_details.
              sbind (setitem ''channel_id'' channel_id item_details) (setitem ''recipient'' recipient)))))))
      else raise (py_exception ''Invalid order type''))"

definition positive_cogs :: "int \<Rightarrow> exn + unit" where
  "positive_cogs n =
     (if n < 1 then Inl (py_exception ''Amount in cogs should be greater than equal to 1'') else Inr ())"

definition initiate_order :: "'w orc_env \<Rightarrow> string \<Rightarrow> pyval \<Rightarrow> ('w, pydict) oprog" where
  "initiate_order env username payload =
     andthen (of_sum (getitem payload ''price'')) (\<lambda>price.
     andthen (of_sum (getitems payload [''item_details'', ''order_type''])) (\<lambda>order_type.
     andthen (of_sum (getitem payload ''item_details'')) (\<lambda>item_details.
     andthen (of_sum (getitem item_details ''group_id'')) (\<lambda>group_id.
     andthen (of_sum (getitem item_details ''org_id'')) (\<lambda>org_id.
     andthen (of_sum (getitem price ''amount'')) (\<lambda>amount.
     andthen (of_sum (getitem price ''currency'')) (\<lambda>currency.
     andthen (of_sum (calculate_amount_in_cogs env amount currency)) (\<lambda>amount_in_cogs.
     andthen (of_sum (positive_cogs amount_in_cogs)) (\<lambda>_.
     andthen (of_sum (setitem ''amount_in_cogs'' (PInt amount_in_cogs) item_details)) (\<lambda>item_details.
     andthen (complete_item_details env username order_type group_id org_id item_details) (\<lambda>item_details.
     andthen (manage_create_order env username item_details price) (\<lambda>order_details.
     andthen (of_sum (getitem order_details ''order_id'')) (\<lambda>order_id.
     try_except
       (andthen (of_sum (getitem payload ''payment_method'')) (\<lambda>payment_method.
        andthen (manage_initiate_payment env order_id price payment_method) (\<lambda>payment_data.
        andthen (of_sum (getitem payment_data ''payment_id'')) (\<lambda>payment_id.
        andthen (of_sum (sbind (getitem payment_data ''payment'') json_dumps)) (\<lambda>raw_payment_data.
        andthen (insert_transaction_history env ((initial_history username order_id order_type ''PAYMENT_INITIATED'')
           \<lparr>th_payment_id := payment_id, th_raw_payment_data := raw_payment_data\<rparr>)) (\<lambda>_.
        of_sum (sbind (getitems payment_data [''payment'', ''payment_url'']) (\<lambda>payment_url.
          Inr [(''payment_url'', payment_url)]))))))))
       (failed_with env (initial_history username order_id order_type ''PAYMENT_INITIATION_FAILED'')))))))))))))))"

fun payment_with_id :: "pyval \<Rightarrow> pyval list \<Rightarrow> exn + pyval option" where
  "payment_with_id payment_id [] = Inr None"
| "payment_with_id payment_id (p # ps) =
     sbind (getitem p ''payment_id'') (\<lambda>i.
     if i = payment_id then Inr (Some p) else payment_with_id payment_id ps)"

text \<open>The part of an order's execution after its payment: the status in the history when it fails says
  how far it came.\<close>

definition process_paid_order ::
  "'w orc_env \<Rightarrow> string \<Rightarrow> pyval \<Rightarrow> pyval \<Rightarrow> pyval \<Rightarrow> pyval \<Rightarrow> pyval \<Rightarrow> pyval \<Rightarrow> pyval \<Rightarrow> ('w, pydict) oprog" where
  "process_paid_order env username order_id payment_id order_type item_details payment_method paid_payment_details price =
     (let failure = initial_history username order_id order_type in
      andthen
        (try_except
          (andthen (of_sum (getitem price ''amount'')) (\<lambda>amount.
           andthen (of_sum (getitem price ''currency'')) (\<lambda>currency.
           andthen (of_sum (calculate_amount_in_cogs env amount currency)) (\<lambda>amount_in_cogs.
           andthen (of_sum (positive_cogs amount_in_cogs)) (\<lambda>_.
           manage_process_order env username order_id order_type amount currency item_details amount_in_cogs)))))
          (failed_with env (failure ''ORDER_PROCESSING_FAILED''))) (\<lambda>_.
      try_except
        (andthen (of_sum (json_dumps paid_payment_details)) (\<lambda>raw_payment_data.
         andthen (insert_transaction_history env ((initial_history username order_id order_type ''ORDER_PROCESSED'')
            \<lparr>th_payment_id := payment_id, th_payment_method := payment_method,
             th_raw_payment_data := raw_payment_data\<rparr>)) (\<lambda>_.
         of_sum (sbind (getitem item_details ''item'') (\<lambda>item.
           sbind (getitem item_details ''quantity'') (\<lambda>quantity.
           Inr [(''price'', price), (''item_details'', PDict [(''item'', item), (''quantity'', quantity)])]))))))
        (failed_with env (failure ''ORDER_PROCESSED''))))"

definition execute_order :: "'w orc_env \<Rightarrow> string \<Rightarrow> pyval \<Rightarrow> ('w, pydict) oprog" where
  "execute_order env username payload =
     andthen (of_sum (getitem payload ''order_id'')) (\<lambda>order_id.
     andthen (of_sum (getitem payload ''payment_id'')) (\<lambda>payment_id.
     andthen (get_order_details_by_order_id env order_id username) (\<lambda>order.
     andthen (of_sum (sbind (sbind (getitem order ''payments'') py_items) (payment_with_id payment_id))) (\<lambda>found.
     case found of
       None \<Rightarrow> raise (py_exception ''Failed to fetch order details'')
     | Some payment \<Rightarrow>
         andthen (of_sum (getitems order [''item_details'', ''order_type''])) (\<lambda>order_type.
         andthen (of_sum (getitem order ''item_details'')) (\<lambda>item_details.
         andthen (of_sum (getitems payment [''payment_details'', ''payment_method''])) (\<lambda>payment_method.
         andthen (of_sum (getitem payload ''payment_details'')) (\<lambda>paid_payment_details.
         andthen (of_sum (getitem payment ''price'')) (\<lambda>price.
         andthen (manage_execute_payment env username order_id payment_id paid_payment_details payment_method) (\<lambda>_.
         process_paid_order env username order_id payment_id order_type item_details payment_method
           paid_payment_details price))))))))))"

definition cancel_order :: "'w orc_env \<Rightarrow> ('w, pyval) oprog" where
  "cancel_order env =
     andthen (get_order_id_for_expired_transaction env) (\<lambda>expired.
     update_transaction_status expired ''ORDER_CANCELED'')"

text \<open>The third of the statuses in the source is the member of the enumeration, not its value, and equals
  no text.\<close>

definition cancel_order_for_given_order_id :: "pyval \<Rightarrow> ('w, string) oprog" where
  "cancel_order_for_given_order_id order_id =
     andthen (get_transaction_details_for_given_order_id order_id) (\<lambda>h.
     andthen (of_sum (as_text order_id)) (\<lambda>order_text.
     if th_status h = ''ORDER_CANCELED'' then
       ret (''Order with order_id '' @ order_text @ '' is already canceled.'')
     else if th_status h \<in> {''PAYMENT_INITIATED'', ''PAYMENT_INITIATION_FAILED''} then
       andthen (update_transaction_status [order_id] ''ORDER_CANCELED'') (\<lambda>_.
       ret (''Order with order_id '' @ order_text @ '' is canceled successfully.''))
     else ret (''Unable to cancel order with order_id '' @ order_text)))"

section \<open>The orders of a user\<close>

definition hashable :: "pyval \<Rightarrow> bool" where
  "hashable v \<longleftrightarrow> (case v of PList _ \<Rightarrow> False | PDict _ \<Rightarrow> False | _ \<Rightarrow> True)"

fun name_mapping :: "(pyval \<times> pyval) list \<Rightarrow> pyval list \<Rightarrow> exn + (pyval \<times> pyval) list" where
  "name_mapping m [] = Inr m"
| "name_mapping m (org # orgs) =
     sbind (getitem org ''org_name'') (\<lambda>name.
     sbind (getitem org ''org_id'') (\<lambda>org_id.
     if hashable org_id then name_mapping (AList.update org_id name m) orgs else Inl TypeError))"

definition get_organizations_from_contract :: "'w orc_env \<Rightarrow> ('w, (pyval \<times> pyval) list) oprog" where
  "get_organizations_from_contract env =
     andthen (invoke_lambda env GET_ALL_ORG_API_ARN (PList [PDict []])) (\<lambda>response.
     andthen (of_sum (expect_status 200 (py_exception ''Failed to get org details'') response)) (\<lambda>_.
     of_sum (sbind (parsed_body env response) (\<lambda>body.
       sbind (sbind (getitem body ''data'') py_items) (name_mapping [])))))"

text \<open>The first status that is no success, if any.\<close>

fun first_failure :: "string \<Rightarrow> pyval list \<Rightarrow> exn + pyval option" where
  "first_failure key [] = Inr None"
| "first_failure key (v # vs) =
     sbind (getitem v key) (\<lambda>status.
     if status \<noteq> PStr ''SUCCESS'' then Inr (Some status) else first_failure key vs)"

definition with_organization_name :: "(pyval \<times> pyval) list \<Rightarrow> pyval \<Rightarrow> exn + pyval" where
  "with_organization_name names order =
     sbind (getitem order ''item_details'') (\<lambda>item_details.
     sbind (py_in ''org_id'' item_details) (\<lambda>present.
     if \<not> present then Inr order
     else
       sbind (getitem item_details ''org_id'') (\<lambda>org_id.
       if \<not> hashable org_id then Inl TypeError
       else case map_of names org_id of
           None \<Rightarrow> Inr order
         | Some name \<Rightarrow> sbind (setitem ''organization_name'' name item_details) (\<lambda>item_details.
             setitem ''item_details'' item_details order))))"

definition order_status :: "pyval \<Rightarrow> exn + pyval" where
  "order_status order =
     sbind (sbind (sbind (getitem order ''payments'') py_items) (first_failure ''payment_status'')) (\<lambda>payment.
     sbind (sbind (sbind (getitem order ''wallet_transactions'') py_items) (first_failure ''status'')) (\<lambda>transaction.
     Inr (case transaction of Some s \<Rightarrow> s | None \<Rightarrow> (case payment of Some s \<Rightarrow> s | None \<Rightarrow> PStr ''SUCCESS''))))"

definition complete_order :: "'w orc_env \<Rightarrow> (pyval \<times> pyval) list \<Rightarrow> pyval \<Rightarrow> ('w, pyval) oprog" where
  "complete_order env names order =
     andthen (of_sum (getitem order ''order_id'')) (\<lambda>order_id.
     andthen (of_sum (sbind (setitem ''wallet_type'' (PStr ''GENERAL'') order) (with_organization_name names))) (\<lambda>order.
     andthen (of_sum (body_event [(''order_id'', order_id)])) (\<lambda>payload.
     andthen (invoke_lambda env GET_CHANNEL_TRANSACTIONS_ARN payload) (\<lambda>response.
     andthen (of_sum (expect_status 200 (py_exception ''Failed to fetch transaction details'') response)) (\<lambda>_.
     of_sum (sbind (sbind (parsed_body env response) (\<lambda>body. getitems body [''data'', ''transactions''])) (\<lambda>transactions.
       sbind (setitem ''wallet_transactions'' transactions order) (\<lambda>order.
       sbind (order_status order) (\<lambda>status.
       setitem ''order_status'' status order)))))))))"

definition get_order_details_by_username :: "'w orc_env \<Rightarrow> string \<Rightarrow> ('w, pydict) oprog" where
  "get_order_details_by_username env username =
     andthen (invoke_lambda env ORDER_DETAILS_BY_USERNAME_ARN (PDict
        [(''path'', PStr ''/order''), (''queryStringParameters'', PDict [(''username'', PStr username)]),
         (''httpMethod'', PStr ''GET'')])) (\<lambda>response.
     andthen (of_sum (expect_status 200 (py_exception (''Failed to fetch order details for username'' @ username)) response)) (\<lambda>_.
     andthen (get_organizations_from_contract env) (\<lambda>names.
     andthen (of_sum (sbind (parsed_body env response) (\<lambda>body. getitem body ''orders''))) (\<lambda>orders.
     andthen (of_sum (py_items orders)) (\<lambda>items.
     andthen (map_each (complete_order env names) items) (\<lambda>changed.
     ret [(''orders'', case orders of PList vs \<Rightarrow> PList changed | _ \<Rightarrow> orders)]))))))"

end
