(* ===== verification/Orchestrator_Handlers.thy ===== *)
theory Orchestrator_Handlers
  imports Orchestrator_Orders
begin

text \<open>
  \<open>handlers/order_handler.py\<close>, \<open>handlers/cancel_order_handler.py\<close>,
  \<open>handlers/update_transaction_status_handler.py\<close> and \<open>lambda_handler.py\<close>.
\<close>

section \<open>handlers/order\_handler.py\<close>

text \<open>\<open>errors.py\<close>.\<close>

definition error_entry :: "string \<Rightarrow> pyval" where
  "error_entry message = PDict [(''code'', PInt 0), (''message'', PStr message)]"

definition email_of :: "pydict \<Rightarrow> exn + string" where
  "email_of event =
     sbind (getitems (PDict event) [''requestContext'', ''authorizer'', ''claims'', ''email'']) as_text"

definition orc_json_body :: "'w orc_env \<Rightarrow> pydict \<Rightarrow> exn + pyval" where
  "orc_json_body env event = sbind (sbind (getitem (PDict event) ''body'') as_text) (loads env)"

text \<open>
  The frame of the handlers: the code, status, response and error that \<open>try\<close> or one of its
  \<open>except\<close> branches leaves, put into the response after it.
\<close>

type_synonym outcome = "nat \<times> string \<times> pyval \<times> pyval"

definition reply :: "('w, outcome) oprog \<Rightarrow> (exn \<Rightarrow> outcome) \<Rightarrow> ('w, lambda_response) oprog" where
  "reply attempt failure =
     andthen (try_except attempt (\<lambda>e. ret (failure e))) (\<lambda>(code, status, response, error).
     of_sum (generate_lambda_response code (PDict (make_response_body (PStr status) response error)) True))"

definition bad_outcome :: outcome where
  "bad_outcome = (400, ''failed'', PStr ''Bad Request'', PDict [])"

definition undefined_failure :: "string \<Rightarrow> exn \<Rightarrow> outcome" where
  "undefined_failure response e = (500, ''failed'', PStr response, error_entry ''UNDEFINED_ERROR'')"

fun initiate_failure :: "exn \<Rightarrow> outcome" where
  "initiate_failure (PyExc cls t) =
     (500, ''failed'', PStr ''Failed to initiate order'',
      error_entry (if cls = ''PaymentInitiateFailed'' then ''PAYMENT_INITIATE_FAILED'' else ''UNDEFINED_ERROR''))"
| "initiate_failure e = undefined_failure ''Failed to initiate order'' e"

definition handle_initiate_order :: "'w orc_env \<Rightarrow> pydict \<Rightarrow> ('w, lambda_response) oprog" where
  "handle_initiate_order env event = reply
     (andthen (of_sum (email_of event)) (\<lambda>username.
      andthen (of_sum (orc_json_body env event)) (\<lambda>payload.
      andthen (of_sum (validate_dict payload [''price'', ''item_details'', ''payment_method''])) (\<lambda>valid.
      if \<not> valid then ret bad_outcome
      else
        andthen (initiate_order env username payload) (\<lambda>response.
        ret (201, ''success'', PDict response, PDict []))))))
     initiate_failure"

fun execute_failure :: "exn \<Rightarrow> outcome" where
  "execute_failure (DataExc cls v) =
     (if cls = ''ChannelCreationFailed'' then (500, ''failed'', v, error_entry ''CHANNEL_CREATION_FAILED'')
      else undefined_failure ''Failed to execute order'' (DataExc cls v))"
| "execute_failure (PyExc cls t) =
     (if cls = ''FundChannelFailed'' then (500, ''failed'', PStr ''Failed to fund channel'', error_entry ''FUND_CHANNEL_FAILED'')
      else undefined_failure ''Failed to execute order'' (PyExc cls t))"
| "execute_failure e = undefined_failure ''Failed to execute order'' e"

definition handle_execute_order :: "'w orc_env \<Rightarrow> pydict \<Rightarrow> ('w, lambda_response) oprog" where
  "handle_execute_order env event = reply
     (andthen (of_sum (email_of event)) (\<lambda>username.
      andthen (of_sum (orc_json_body env event)) (\<lambda>payload.
      andthen (of_sum (validate_dict payload [''order_id'', ''payment_id'', ''payment_details''])) (\<lambda>valid.
      if \<not> valid then ret bad_outcome
      else
        andthen (execute_order env username payload) (\<lambda>response.
        ret (201, ''success'', PDict response, PDict []))))))
     execute_failure"

definition handle_get_order :: "'w orc_env \<Rightarrow> pydict \<Rightarrow> ('w, lambda_response) oprog" where
  "handle_get_order env event = reply
     (andthen (of_sum (email_of event)) (\<lambda>username.
      andthen (of_sum (getitem (PDict event) ''pathParameters'')) (\<lambda>path_parameters.
      andthen (if path_parameters = PNone then ret PNone else of_sum (getitem path_parameters ''order_id'')) (\<lambda>order_id.
      andthen (if order_id = PNone then
                 andthen (get_order_details_by_username env username) (\<lambda>orders. ret (PDict orders))
               else get_order_details_by_order_id env order_id username) (\<lambda>response.
      ret (201, ''success'', response, PDict []))))))
     (undefined_failure ''Failed to get orders'')"

definition handle_cancel_order :: "pydict \<Rightarrow> ('w, lambda_response) oprog" where
  "handle_cancel_order event = reply
     (andthen (of_sum (getitem (PDict event) ''pathParameters'')) (\<lambda>path_parameters.
      andthen (of_sum (case path_parameters of
          PNone \<Rightarrow> Inr PNone
        | PDict d \<Rightarrow> Inr (case dict_get d ''order_id'' of None \<Rightarrow> PNone | Some v \<Rightarrow> v)
        | _ \<Rightarrow> Inl AttributeError)) (\<lambda>order_id.
      if order_id = PNone then ret bad_outcome
      else
        andthen (cancel_order_for_given_order_id order_id) (\<lambda>response.
        ret (201, ''success'', PStr response, PDict [])))))
     (undefined_failure ''Failed to cancel order'')"

text \<open>\<open>common.utils.format_error_message\<close>.\<close>

definition format_error_message :: "string \<Rightarrow> string \<Rightarrow> pyval \<Rightarrow> int \<Rightarrow> pyval \<Rightarrow> pyval \<Rightarrow> exn + string" where
  "format_error_message status error payload net_id handler resource =
     json_dumps (PDict [(''status'', PStr status), (''error'', PStr error), (''resource'', resource),
       (''payload'', payload), (''network_id'', PInt net_id), (''handler'', handler)])"

text \<open>A message as the whole body.\<close>

definition plain_response :: "nat \<Rightarrow> pyval \<Rightarrow> ('w, lambda_response) oprog" where
  "plain_response code message = of_sum (generate_lambda_response code message True)"

definition error_response ::
  "'w orc_env \<Rightarrow> exn \<Rightarrow> pyval \<Rightarrow> pyval \<Rightarrow> pyval \<Rightarrow> ('w, lambda_response) oprog" where
  "error_response env e payload handler resource =
     andthen (of_sum (format_error_message ''failed'' (exn_repr env e) payload (NETWORK_ID env) handler resource)) (\<lambda>message.
     plain_response 500 (PStr message))"

definition success_body :: "pyval \<Rightarrow> pyval" where
  "success_body data = PDict [(''status'', PStr ''success''), (''data'', data)]"

text \<open>The event of a lambda is a dict with the two keys, or refused; \<open>path_parameters\<close> is set before
  anything can fail.\<close>

definition handle_currency_to_token_conversion :: "'w orc_env \<Rightarrow> pydict \<Rightarrow> ('w, lambda_response) oprog" where
  "handle_currency_to_token_conversion env event =
     (case (dict_get event ''pathParameters'', dict_get event ''queryStringParameters'') of
        (Some path_parameters, Some query_string_parameters) \<Rightarrow>
          try_except
            (andthen (of_sum (getitem path_parameters ''currency'')) (\<lambda>currency.
             andthen (of_sum (getitem query_string_parameters ''amount'')) (\<lambda>amount.
             andthen (of_sum (currency_to_token env amount currency)) (\<lambda>response_data.
             plain_response 200 (success_body (PDict response_data))))))
            (\<lambda>e. error_response env e path_parameters (PStr ''currency-to-token-conversion'') PNone)
      | _ \<Rightarrow> plain_response 400 (PStr ''Bad Request''))"

section \<open>handlers/cancel\_order\_handler.py and handlers/update\_transaction\_status\_handler.py\<close>

definition handle_cancel_order_request :: "'w orc_env \<Rightarrow> pydict \<Rightarrow> ('w, lambda_response) oprog" where
  "handle_cancel_order_request env event =
     try_except
       (case dict_get event ''pathParameters'' of
          None \<Rightarrow> plain_response 400 (PStr ''Bad Request'')
        | Some path_parameters \<Rightarrow>
            andthen (of_sum (getitem path_parameters ''order_id'')) (\<lambda>order_id.
            andthen (cancel_order_for_given_order_id order_id) (\<lambda>cancel_order_status.
            plain_response 200 (success_body (PStr cancel_order_status)))))
       (\<lambda>e. error_response env e (PDict event) (PStr ''cancel_order_handler'') PNone)"

text \<open>Nothing is returned after an exception.\<close>

definition handle_update_transaction_status :: "'w orc_env \<Rightarrow> ('w, pyval) oprog" where
  "handle_update_transaction_status env =
     try_except (andthen (cancel_order env) (\<lambda>_. ret (PStr ''success''))) (\<lambda>e. ret PNone)"

section \<open>lambda\_handler.py\<close>

text \<open>\<open>re.sub(r"^(\/orchestrator)", "", path)\<close>, and the pattern of an order's path.\<close>

definition strip_prefix :: "string \<Rightarrow> string \<Rightarrow> string" where
  "strip_prefix p s = (if prefix_of p s then drop (length p) s else s)"

definition order_path :: "string \<Rightarrow> bool" where
  "order_path path \<longleftrightarrow>
     prefix_of ''/order/'' path \<and>
     (let rest = dropWhile (\<lambda>c. c \<noteq> CHR ''/'') (drop 7 path) in rest \<in> {[], ''/'', ''/'' @ [CHR 0x0A]})"

definition extract_payload :: "'w orc_env \<Rightarrow> pyval \<Rightarrow> pydict \<Rightarrow> exn + (bool \<times> pyval \<times> pyval)" where
  "extract_payload env method event =
     (let path_parameters = (case dict_get event ''pathParameters'' of None \<Rightarrow> PNone | Some v \<Rightarrow> v) in
      if method = PStr ''POST'' then
        sbind (orc_json_body env event) (\<lambda>payload. Inr (True, path_parameters, payload))
      else if method = PStr ''GET'' then
        Inr (True, path_parameters, case dict_get event ''queryStringParameters'' of None \<Rightarrow> PDict [] | Some v \<Rightarrow> v)
      else Inr (False, path_parameters, PNone))"

definition context_email :: "pyval \<Rightarrow> exn + string" where
  "context_email request_context = sbind (getitems request_context [''authorizer'', ''claims'', ''email'']) as_text"

text \<open>\<open>None\<close> when there is no such path.\<close>

definition route_path ::
  "'w orc_env \<Rightarrow> string \<Rightarrow> pyval \<Rightarrow> pyval \<Rightarrow> pyval \<Rightarrow> pyval \<Rightarrow> ('w, pyval option) oprog" where
  "route_path env path method payload request_context path_parameters =
     (if path = ''/wallet'' then
        andthen (of_sum (context_email request_context)) (\<lambda>username.
        andthen (get_wallets env username True) (\<lambda>wallets. ret (Some wallets)))
      else if path = ''/wallet/channel'' \<and> method = PStr ''GET'' then
        andthen (of_sum (getitem payload ''org_id'')) (\<lambda>org_id.
        andthen (of_sum (context_email request_context)) (\<lambda>username.
        andthen (of_sum (getitem payload ''group_id'')) (\<lambda>group_id.
        andthen (get_channel_details env username org_id group_id) (\<lambda>details. ret (Some (PDict details))))))
      else if order_path path then
        andthen (of_sum (context_email request_context)) (\<lambda>username.
        andthen (of_sum (getitem path_parameters ''order_id'')) (\<lambda>order_id.
        andthen (get_order_details_by_order_id env order_id username) (\<lambda>order. ret (Some order))))
      else if path = ''/wallet/register'' \<and> method = PStr ''POST'' then
        andthen (of_sum (context_email request_context)) (\<lambda>username.
        andthen (register_wallet env username payload) (\<lambda>answer. ret (Some answer)))
      else if path = ''/wallet/status'' \<and> method = PStr ''POST'' then
        andthen (of_sum (context_email request_context)) (\<lambda>username.
        andthen (of_sum (getitem payload ''address'')) (\<lambda>address.
        andthen (set_default_wallet env username address) (\<lambda>answer. ret (Some answer))))
      else ret None)"

text \<open>The \<open>except\<close> branch reads \<open>path\<close> and \<open>payload_dict\<close>; an exception before they are set makes it
  fail itself.\<close>

definition unbound_local :: exn where
  "unbound_local = PyExc ''UnboundLocalError'' []"

definition orchestrator_request_handler :: "'w orc_env \<Rightarrow> pydict \<Rightarrow> ('w, lambda_response) oprog" where
  "orchestrator_request_handler env event =
     (case (dict_get event ''path'', dict_get event ''httpMethod'') of
        (Some raw_path, Some method) \<Rightarrow>
          (case sbind (case raw_path of PStr s \<Rightarrow> Inr (strip_prefix ''/orchestrator'' (map to_lower s)) | _ \<Rightarrow> Inl AttributeError)
             (\<lambda>path. sbind (extract_payload env method event) (\<lambda>extracted. Inr (path, extracted))) of
             Inl e \<Rightarrow> raise unbound_local
           | Inr (path, method_found, path_parameters, payload) \<Rightarrow>
               if \<not> method_found then plain_response 405 (PStr ''Method Not Allowed'')
               else try_except
                 (andthen (route_path env path method payload
                    (case dict_get event ''requestContext'' of None \<Rightarrow> PNone | Some v \<Rightarrow> v) path_parameters) (\<lambda>routed.
                  case routed of
                    None \<Rightarrow> plain_response 404 (PStr ''Not Found'')
                  | Some data \<Rightarrow>
                      if data = PNone then
                        andthen (of_sum (format_error_message ''failed'' ''Bad Request'' payload (NETWORK_ID env) PNone (PStr path))) (\<lambda>message.
                        plain_response 500 (PStr message))
                      else plain_response 200 (success_body data)))
                 (\<lambda>e. error_response env e payload PNone (PStr path)))
      | _ \<Rightarrow> plain_response 400 (PStr ''Bad Request''))"

end
