(* ===== verification/Orchestrator_Payments.thy ===== *)
theory Orchestrator_Payments
  imports Orchestrator_Handlers Payment_Handlers
begin

text \<open>
  The order workflow composed with the payment service: the lambdas of \<open>src/payments/serverless.yml\<close>
  run the payment handlers over their own tables, every other lambda is a program of the environment
  over the rest of the world. An order is processed, and any other service is reached, only once its
  payment is stored as successful.
\<close>

section \<open>The lambdas of the payment service\<close>

record 'v services =
  payment_service :: pay_state
  other_services :: 'v

text \<open>What the runtime of a lambda makes of the text of an event and of the response of its handler:
  the text of the error when it raises.\<close>

definition response_value :: "lambda_response \<Rightarrow> pyval" where
  "response_value r = PDict
     [(''statusCode'', PInt (int (status_code r))), (''body'', PStr (resp_body r)),
      (''headers'', PDict (map (\<lambda>(k, v). (k, PStr v)) (resp_headers r)))]"

definition lambda_runtime ::
  "(string \<Rightarrow> exn + pyval) \<Rightarrow> (exn \<Rightarrow> string) \<Rightarrow> (pydict \<Rightarrow> ('s, lambda_response) prog) \<Rightarrow> string \<Rightarrow> ('s, string) prog" where
  "lambda_runtime decode error_text handler payload = try_except
     (andthen (of_sum (decode payload)) (\<lambda>event.
      case event of
        PDict d \<Rightarrow> andthen (handler d) (\<lambda>r. of_sum (json_dumps (response_value r)))
      | _ \<Rightarrow> raise TypeError))
     (\<lambda>e. ret (error_text e))"

fun payment_lambda :: "pay_env \<Rightarrow> lambda_name \<Rightarrow> (pydict \<Rightarrow> (pay_state, lambda_response) prog) option" where
  "payment_lambda penv CREATE_ORDER_SERVICE_ARN = Some (handle_create penv)"
| "payment_lambda penv INITIATE_PAYMENT_SERVICE_ARN = Some (handle_initiate penv)"
| "payment_lambda penv EXECUTE_PAYMENT_SERVICE_ARN = Some (handle_execute penv)"
| "payment_lambda penv ORDER_DETAILS_ORDER_ID_ARN = Some handle_get_order_from_order_id"
| "payment_lambda penv ORDER_DETAILS_BY_USERNAME_ARN = Some handle_get_order_details_for_user"
| "payment_lambda penv name = None"

definition on_payments :: "(pay_state, 'a) prog \<Rightarrow> ('v services, 'a) prog" where
  "on_payments m = (\<lambda>o'. case m (payment_service o') of (r, p) \<Rightarrow> (r, o'\<lparr>payment_service := p\<rparr>))"

definition on_others :: "('v, 'a) prog \<Rightarrow> ('v services, 'a) prog" where
  "on_others m = (\<lambda>o'. case m (other_services o') of (r, v) \<Rightarrow> (r, o'\<lparr>other_services := v\<rparr>))"

definition invoke_services ::
  "(string \<Rightarrow> exn + pyval) \<Rightarrow> (exn \<Rightarrow> string) \<Rightarrow> pay_env \<Rightarrow> (lambda_name \<Rightarrow> string \<Rightarrow> ('v, string) prog) \<Rightarrow>
   lambda_name \<Rightarrow> string \<Rightarrow> ('v services, string) prog" where
  "invoke_services decode error_text penv others name payload =
     (case payment_lambda penv name of
        Some handler \<Rightarrow> on_payments (lambda_runtime decode error_text handler payload)
      | None \<Rightarrow> on_others (others name payload))"

text \<open>The environment of the orchestrator whose lambdas are these.\<close>

definition connected ::
  "'v services orc_env \<Rightarrow> (exn \<Rightarrow> string) \<Rightarrow> pay_env \<Rightarrow> (lambda_name \<Rightarrow> string \<Rightarrow> ('v, string) prog) \<Rightarrow> bool" where
  "connected env error_text penv others \<longleftrightarrow>
     invoke env = invoke_services (loads env) error_text penv others \<and>
     pay_json_loads penv = loads env \<and> json_codec (loads env) \<and>
     (\<forall>e. \<exists>v. loads env (error_text e) = Inr v \<and> getitem v ''statusCode'' \<noteq> Inr (PInt 201))"

section \<open>What an executed payment leaves\<close>

definition paid :: "string \<Rightarrow> string \<Rightarrow> pay_state \<Rightarrow> bool" where
  "paid order_id payment_id s \<longleftrightarrow>
     (\<exists>row \<in> set (payment_table (pay_db s)). payment_key order_id payment_id row \<and> pr_payment_status row = ''SUCCESS'')"

lemma executed_is_paid:
  assumes "execute_payment_against_order env oid pid d m s = (Inr r, s')"
  shows "paid oid pid s'"
proof -
  from assms obtain order s1 order' p s2 where load: "load_order oid s = (Inr order, s1)"
    and exec: "execute_payment env order pid d m s1 = (Inr (order', p), s2)"
    and upd: "update_payment_status order' (p_payment_id p) s2 = (Inr (), s')"
    by (auto simp: execute_payment_against_order_def elim!: andthen_InrE)
  from execute_paymentD [OF exec] obtain q where q: "get_payment order pid = Some q"
    and p: "p = q\<lparr>p_payment_status := ''SUCCESS''\<rparr>" "order' = with_payment p order"
      "get_payment order' pid = Some p" "p_payment_id p = pid" by blast
  have s1: "s1 = s" and oid: "o_order_id order = oid" using load_orderD [OF load] by simp_all
  obtain row where row: "sql_first (payment_key oid pid) (payment_table (pay_db s)) = Some row"
    using loaded_payment [OF load q] by blast
  have db: "pay_db s2 = pay_db s"
    using staysD [OF execute_payment_db exec] s1 by (simp add: unchanged_def)
  obtain o' where "sql_first (\<lambda>r. or_id r = oid) (order_table (pay_db s)) = Some o'"
    using load_orderD(3) [OF load] by blast
  then have "s' = set_status oid pid ''SUCCESS'' s2"
    using upd update_payment_status_run [OF p(3,4), of s2 o'] p oid db by (simp add: with_payment_def)
  moreover have "\<exists>row' \<in> set (update_first P (\<lambda>r. r\<lparr>pr_payment_status := st\<rparr>) t). P row' \<and> pr_payment_status row' = st"
    if "sql_first P t = Some row" "\<And>r. P (r\<lparr>pr_payment_status := st\<rparr>) = P r" for P t st
    using that by (induction t) (auto split: if_splits)
  from this [OF row, of "''SUCCESS''"] have "\<exists>row' \<in> set (update_first (payment_key oid pid)
      (\<lambda>r. r\<lparr>pr_payment_status := ''SUCCESS''\<rparr>) (payment_table (pay_db s))).
      payment_key oid pid row' \<and> pr_payment_status row' = ''SUCCESS''"
    by (simp add: payment_key_def)
  ultimately show ?thesis
    using db by (simp add: paid_def set_status_def)
qed

lemma as_text_InrD: "as_text v = Inr t \<Longrightarrow> v = PStr t"
  by (cases v) auto

lemma handle_execute_201:
  assumes "handle_execute env [(''pathParameters'', PDict [(''order_id'', oid), (''payment_id'', pid)]), (''body'', b)] s
      = (Inr r, s')" and "status_code r = 201"
  shows "\<exists>oid' pid'. oid = PStr oid' \<and> pid = PStr pid' \<and> paid oid' pid' s'"
  using assms
  by (auto simp: handle_execute_def respond_to_def json_body_def try_except_def bad_request_def
      generate_lambda_response_def getitem_def sbind_Inr_iff elim!: andthen_InrE
      split: sum.splits prod.splits if_splits dest!: executed_is_paid as_text_InrD)

section \<open>Calls\<close>

lemma json_ok_getitem: "getitem v k = Inr x \<Longrightarrow> json_ok v \<Longrightarrow> json_ok x"
  by (auto simp: getitem_def dict_get_def list_all_iff split: pyval.splits option.splits dest!: map_of_SomeD)

text \<open>What the orchestrator has of its own, and what the payment service has.\<close>

definition aside :: "'v services orc_world \<Rightarrow> history_row list \<times> 'v" where
  "aside w = (history_table w, other_services (outside w))"

definition payments_of_world :: "'v services orc_world \<Rightarrow> pay_state" where
  "payments_of_world w = payment_service (outside w)"

lemma elsewhere_payments: "stays (unchanged aside) (elsewhere (on_payments m))"
  by (auto simp: stays_def unchanged_def elsewhere_def on_payments_def aside_def split: prod.splits)

lemma elsewhere_others: "stays (unchanged payments_of_world) (elsewhere (on_others m))"
  by (auto simp: stays_def unchanged_def elsewhere_def on_others_def payments_of_world_def split: prod.splits)

lemma invoke_payments:
  assumes "connected env et penv others" and "payment_lambda penv name = Some h"
  shows "stays (unchanged aside) (invoke_lambda env name v)"
  using assms unfolding invoke_lambda_def connected_def
  by (auto intro!: same.stays_rules simp: invoke_services_def elsewhere_payments)

lemma invoke_others:
  assumes "connected env et penv others" and "payment_lambda penv name = None"
  shows "stays (unchanged payments_of_world) (invoke_lambda env name v)"
  using assms unfolding invoke_lambda_def connected_def
  by (auto intro!: same.stays_rules simp: invoke_services_def elsewhere_others)

lemma response_value_ok: "generate_lambda_response code v False = Inr r \<Longrightarrow> json_ok (response_value r)"
  by (auto simp: generate_lambda_response_def response_value_def split: sum.splits)

lemma respond_to_response: "respond_to message attempt s = (Inr r, s') \<Longrightarrow> json_ok (response_value r)"
  unfolding respond_to_def by (erule andthen_InrE) (auto split: prod.splits dest: response_value_ok)

lemma handle_execute_response: "handle_execute env event s = (Inr r, s') \<Longrightarrow> json_ok (response_value r)"
  unfolding handle_execute_def by (rule respond_to_response)

lemma invoke_lambda_InrE:
  assumes "invoke_lambda env name v w = (Inr resp, w')"
  obtains t a o' where "json_dumps v = Inr t" and "invoke env name t (outside w) = (Inr a, o')"
    and "w' = w\<lparr>outside := o'\<rparr>" and "loads env a = Inr resp"
  using assms unfolding invoke_lambda_def
  by (elim andthen_InrE) (auto simp: elsewhere_def simp del: json_dumps.simps split: prod.splits)

lemma lambda_runtime_InrE:
  assumes "lambda_runtime decode et handler payload s = (Inr a, s')" and "decode payload = Inr (PDict event)"
    and "\<And>r s'. handler event s = (Inr r, s') \<Longrightarrow> json_ok (response_value r)"
  obtains (failed) e where "a = et e"
    | (answered) r where "handler event s = (Inr r, s')" and "json_dumps (response_value r) = Inr a"
      and "json_ok (response_value r)"
proof -
  obtain q s1 where handled: "handler event s = (q, s1)" by fastforce
  show thesis
  proof (cases q)
    case (Inl e)
    with assms(1,2) handled have "a = et e" by (simp add: lambda_runtime_def try_except_def andthen_def)
    then show thesis by (rule failed)
  next
    case (Inr r)
    with assms(3) handled have ok: "json_ok (response_value r)" by blast
    then obtain b where "json_dumps (response_value r) = Inr b"
      using json_ok_serialisable json_dumps_serialisable(1) by metis
    with assms(1,2) handled Inr ok answered show thesis
      by (simp add: lambda_runtime_def try_except_def andthen_def del: json_dumps.simps)
  qed
qed

lemma invoke_execute:
  assumes con: "connected env et penv others" and ok: "json_ok oid" "json_ok pid"
    and run: "invoke_lambda env EXECUTE_PAYMENT_SERVICE_ARN
        (PDict [(''pathParameters'', PDict [(''order_id'', oid), (''payment_id'', pid)]), (''body'', PStr b)]) w = (Inr resp, w')"
    and status: "getitem resp ''statusCode'' = Inr (PInt 201)"
  shows "\<exists>oid' pid'. oid = PStr oid' \<and> pid = PStr pid' \<and> paid oid' pid' (payments_of_world w')"
proof -
  let ?event = "[(''pathParameters'', PDict [(''order_id'', oid), (''payment_id'', pid)]), (''body'', PStr b)]"
  from run obtain t a o' where t: "json_dumps (PDict ?event) = Inr t"
    and inv: "invoke env EXECUTE_PAYMENT_SERVICE_ARN t (outside w) = (Inr a, o')"
    and w': "w' = w\<lparr>outside := o'\<rparr>" and a: "loads env a = Inr resp" by (rule invoke_lambda_InrE)
  have "json_ok (PDict ?event)" using ok by simp
  with t con have event: "loads env t = Inr (PDict ?event)" unfolding connected_def json_codec_def by blast
  obtain p' where ran: "lambda_runtime (loads env) et (handle_execute penv) t (payments_of_world w) = (Inr a, p')"
    and p': "p' = payments_of_world w'"
    using con inv w' by (auto simp: connected_def invoke_services_def on_payments_def payments_of_world_def split: prod.splits)
  show ?thesis
  proof (rule lambda_runtime_InrE [OF ran event handle_execute_response])
    fix e
    assume "a = et e"
    with con a status show ?thesis unfolding connected_def by (metis sum.inject(2))
  next
    fix r
    assume answered: "handle_execute penv ?event (payments_of_world w) = (Inr r, p')"
      and "json_dumps (response_value r) = Inr a" and "json_ok (response_value r)"
    then have "loads env a = Inr (response_value r)" using con unfolding connected_def json_codec_def by blast
    with a status have "status_code r = 201" by (auto simp: response_value_def getitem_def)
    with handle_execute_201 [OF answered] p' show ?thesis by blast
  qed
qed

section \<open>Executing an order\<close>

lemma expect_statusD: "expect_status c e v = Inr () \<Longrightarrow> getitem v ''statusCode'' = Inr (PInt c)"
  by (auto simp: expect_status_def sbind_Inr_iff split: if_splits)

lemma executed_payment:
  assumes "connected env et penv others" and "json_ok oid" and "json_ok pid"
    and "manage_execute_payment env u oid pid d m w = (Inr resp, w')"
  shows "\<exists>oid' pid'. oid = PStr oid' \<and> pid = PStr pid' \<and> paid oid' pid' (payments_of_world w')"
  using assms(4) unfolding manage_execute_payment_def
  by (elim andthen_InrE)
    (auto simp del: json_dumps.simps dest!: expect_statusD dest: invoke_execute [OF assms(1-3)])

lemmas before_payment = invoke_payments [of _ _ _ _ EXECUTE_PAYMENT_SERVICE_ARN]
  invoke_payments [of _ _ _ _ ORDER_DETAILS_ORDER_ID_ARN]

lemma manage_execute_payment_aside:
  "connected env et penv others \<Longrightarrow> stays (unchanged aside) (manage_execute_payment env u oid pid d m)"
  unfolding manage_execute_payment_def by (intro same.stays_rules before_payment) simp_all

lemma order_details_aside:
  "connected env et penv others \<Longrightarrow> stays (unchanged aside) (get_order_details_by_order_id env oid u)"
  unfolding get_order_details_by_order_id_def Let_def
  by (intro same.stays_rules before_payment) (simp_all add: same.stays_raise same.stays_ret)

lemmas other_service = invoke_others [of _ _ _ _ SIGNER_SERVICE_ARN]
  invoke_others [of _ _ _ _ CREATE_AND_REGISTER_WALLET_ARN] invoke_others [of _ _ _ _ CHANNEL_ADD_FUNDS_ARN]
  invoke_others [of _ _ _ _ CREATE_CHANNEL_EVENT_ARN] invoke_others [of _ _ _ _ GET_WALLETS_ARN]

lemma insert_history_payments: "stays (unchanged payments_of_world) (insert_transaction_history env h)"
  unfolding insert_transaction_history_def
  by (intro same.stays_modify) (simp add: unchanged_def payments_of_world_def)

lemma manage_process_order_payments:
  assumes "connected env et penv others"
  shows "stays (unchanged payments_of_world) (manage_process_order env u oid ot a c d n)"
proof -
  note other = other_service [OF assms, simplified]
  have "stays (unchanged payments_of_world) (create_wallet env u)"
    unfolding create_wallet_def by (intro same.stays_rules other)
  moreover have "stays (unchanged payments_of_world) (sender_wallet env u s)" for s
    unfolding sender_wallet_def get_wallets_def by (intro same.stays_rules other)
  moreover have "stays (unchanged payments_of_world) (open_channel env w oid g i a c r n)" for w g i r
    unfolding open_channel_def generate_signature_for_open_channel_for_third_party_def create_channel_def
    by (intro same.stays_rules other)
  moreover have "stays (unchanged payments_of_world) (fund_channel env b)" for b
    unfolding fund_channel_def by (intro same.stays_rules other)
  ultimately show ?thesis
    unfolding manage_process_order_def by (intro same.stays_rules)
qed

lemma process_paid_order_payments:
  assumes "connected env et penv others"
  shows "stays (unchanged payments_of_world) (process_paid_order env u oid pid ot d m pd p)"
  unfolding process_paid_order_def failed_with_def Let_def
  by (intro same.stays_rules insert_history_payments manage_process_order_payments [OF assms])

text \<open>A run that leaves everything beside the payments as it was and ends as \<open>C\<close> says, or reaches \<open>Q\<close>.\<close>

definition guarded ::
  "(exn + 'a \<Rightarrow> bool) \<Rightarrow> ('v services orc_world \<Rightarrow> bool) \<Rightarrow> ('v services, 'a) oprog \<Rightarrow> bool" where
  "guarded C Q m \<longleftrightarrow> (\<forall>w r w'. m w = (r, w') \<longrightarrow> aside w' = aside w \<and> C r \<or> Q w')"

lemma guarded_of_sum: "C r \<Longrightarrow> guarded C Q (of_sum r)"
  by (simp add: guarded_def)

lemma guarded_andthen:
  assumes "stays (unchanged aside) m" and "\<And>e. C (Inl e)" and "\<And>s a s'. m s = (Inr a, s') \<Longrightarrow> guarded C Q (f a)"
  shows "guarded C Q (andthen m f)"
  unfolding guarded_def
proof (intro allI impI)
  fix w r w'
  assume run: "andthen m f w = (r, w')"
  obtain q w1 where m: "m w = (q, w1)" by fastforce
  with assms(1) have aside: "aside w1 = aside w" by (auto dest: staysD simp: unchanged_def)
  show "aside w' = aside w \<and> C r \<or> Q w'"
  proof (cases q)
    case (Inl e)
    with run m aside assms(2) [of e] show ?thesis by (auto simp: andthen_def)
  next
    case (Inr a)
    with assms(3) m run aside show ?thesis by (fastforce simp: andthen_def guarded_def)
  qed
qed

lemma guarded_last:
  assumes "stays (unchanged aside) m" and "\<And>e. C (Inl e)" and "\<And>s a s'. m s = (Inr a, s') \<Longrightarrow> P (g s')"
    and "\<And>a. stays (unchanged g) (f a)"
  shows "guarded C (\<lambda>w. P (g w)) (andthen m f)"
  unfolding guarded_def
proof (intro allI impI)
  fix w r w'
  assume run: "andthen m f w = (r, w')"
  obtain q w1 where m: "m w = (q, w1)" by fastforce
  with assms(1) have aside: "aside w1 = aside w" by (auto dest: staysD simp: unchanged_def)
  show "aside w' = aside w \<and> C r \<or> P (g w')"
  proof (cases q)
    case (Inl e)
    with run m aside assms(2) [of e] show ?thesis by (auto simp: andthen_def)
  next
    case (Inr a)
    with run m have "f a w1 = (r, w')" by (simp add: andthen_def)
    then have "g w' = g w1" using staysD [OF assms(4)] by (simp add: unchanged_def)
    with assms(3) m Inr show ?thesis by simp
  qed
qed

lemma guarded_result:
  assumes "guarded (\<lambda>r. \<exists>e. r = Inl e) Q m" and "\<And>e. C (Inl e)" 
  shows "guarded C Q (andthen m (\<lambda>a. ret (f a)))"
  unfolding guarded_def
proof (intro allI impI)
  fix w r w'
  assume run: "andthen m (\<lambda>a. ret (f a)) w = (r, w')"
  obtain q w1 where m: "m w = (q, w1)" by fastforce
  with run have "w1 = w'" and "\<And>e. q = Inl e \<Longrightarrow> r = Inl e" by (auto simp: andthen_def split: sum.splits)
  moreover have "aside w1 = aside w \<and> (\<exists>e. q = Inl e) \<or> Q w1" using assms(1) m by (simp add: guarded_def)
  ultimately show "aside w' = aside w \<and> C r \<or> Q w'" using assms(2) by blast
qed

definition not_created :: "exn + outcome \<Rightarrow> bool" where
  "not_created r = (case r of Inl _ \<Rightarrow> True | Inr (code, _) \<Rightarrow> code \<noteq> 201)"

definition order_paid :: "pyval \<Rightarrow> pay_state \<Rightarrow> bool" where
  "order_paid payload s \<longleftrightarrow>
     (\<exists>oid pid. getitem payload ''order_id'' = Inr (PStr oid) \<and> getitem payload ''payment_id'' = Inr (PStr pid)
        \<and> paid oid pid s)"

lemma execute_order_guarded:
  assumes con: "connected env et penv others" and ok: "json_ok payload"
  shows "guarded (\<lambda>r. \<exists>e. r = Inl e) (\<lambda>w. order_paid payload (payments_of_world w)) (execute_order env u payload)"
  unfolding execute_order_def
proof ((rule guarded_andthen, rule same.stays_of_sum order_details_aside [OF con], blast)+, goal_cases)
  case (1 s1 oid s1' s2 pid s2' s3 order s3' s4 found s4')
  then have ids: "getitem payload ''order_id'' = Inr oid" "getitem payload ''payment_id'' = Inr pid" by simp_all
  then have "json_ok oid" "json_ok pid" using ok by (auto dest: json_ok_getitem)
  note executed = executed_payment [OF con this]
  have last: "guarded (\<lambda>r. \<exists>e. r = Inl e) (\<lambda>w. order_paid payload (payments_of_world w))
      (andthen (manage_execute_payment env u oid pid d m) (\<lambda>_. process_paid_order env u oid pid ot it m d p))" for d m ot it p
    by (rule guarded_last [OF manage_execute_payment_aside [OF con] _ _ process_paid_order_payments [OF con]])
      (auto simp: order_paid_def ids simp del: getitem_def dest: executed)
  show ?case
  proof (cases found)
    case None
    then show ?thesis by (simp add: guarded_def)
  next
    case (Some payment)
    then show ?thesis
      by (simp del: getitems.simps) ((rule guarded_andthen, rule same.stays_of_sum, blast)+, rule last)
  qed
qed

lemma reply_run:
  assumes "reply attempt failure w = (Inr resp, w')" and "\<And>e. fst (failure e) \<noteq> 201"
  shows "\<exists>q. attempt w = (q, w') \<and> (status_code resp = 201 \<longrightarrow> \<not> not_created q)"
proof -
  obtain q w1 where q: "attempt w = (q, w1)" by fastforce
  show ?thesis
  proof (cases q)
    case (Inl e)
    obtain code rest where "failure e = (code, rest)" by (cases "failure e")
    with Inl q assms(1) assms(2) [of e] show ?thesis
      by (auto simp: reply_def try_except_def andthen_def generate_lambda_response_def simp del: json_dumps.simps
          split: sum.splits prod.splits)
  next
    case (Inr c)
    with q assms(1) show ?thesis
      by (auto simp: reply_def try_except_def andthen_def generate_lambda_response_def not_created_def
          simp del: json_dumps.simps split: sum.splits prod.splits)
  qed
qed

lemma execute_failure_code: "fst (execute_failure e) \<noteq> 201"
  by (cases e rule: execute_failure.cases) (auto simp: undefined_failure_def)

text \<open>
  C4. An order is processed only once it is paid: whenever the handler that executes an order writes to
  the transaction history, reaches any service but the payments (the wallets, the signer, the channels, the
  contracts) or answers 201, the payment the event names is stored as successful for the order it names.
\<close>

theorem nothing_before_payment:
  assumes "connected env et penv others" and "handle_execute_order env event w = (Inr resp, w')"
    and "history_table w' \<noteq> history_table w \<or> other_services (outside w') \<noteq> other_services (outside w)
      \<or> status_code resp = 201"
  shows "\<exists>payload. orc_json_body env event = Inr payload \<and> order_paid payload (payment_service (outside w'))"
proof -
  let ?Q = "\<lambda>w. \<exists>payload. orc_json_body env event = Inr payload \<and> order_paid payload (payments_of_world w)"
  have run: "guarded (\<lambda>r. \<exists>e. r = Inl e) ?Q (execute_order env u payload)" if "orc_json_body env event = Inr payload" for u payload
  proof -
    have "json_ok payload"
      using that assms(1) unfolding orc_json_body_def sbind_Inr_iff connected_def json_codec_def by blast
    from execute_order_guarded [OF assms(1) this, of u] that show ?thesis
      unfolding guarded_def by blast
  qed
  have body: "guarded not_created ?Q (if \<not> b then ret bad_outcome else andthen (execute_order env u payload)
      (\<lambda>response. ret (201, ''success'', PDict response, PDict [])))"
    if "orc_json_body env event = Inr payload" for b u payload
  proof (cases b)
    case False
    then show ?thesis by (simp add: guarded_def bad_outcome_def not_created_def)
  next
    case True
    with guarded_result [OF run [OF that], where C = not_created] show ?thesis by (simp add: not_created_def)
  qed
  let ?attempt = "andthen (of_sum (email_of event)) (\<lambda>username.
      andthen (of_sum (orc_json_body env event)) (\<lambda>payload.
      andthen (of_sum (validate_dict payload [''order_id'', ''payment_id'', ''payment_details''])) (\<lambda>valid.
      if \<not> valid then ret bad_outcome
      else andthen (execute_order env username payload) (\<lambda>response. ret (201, ''success'', PDict response, PDict [])))))"
  have attempt: "guarded not_created ?Q ?attempt"
    by ((rule guarded_andthen, rule same.stays_of_sum, simp add: not_created_def)+, rule body) simp
  from reply_run [OF assms(2) [unfolded handle_execute_order_def] execute_failure_code]
  obtain q where "?attempt w = (q, w')" and "status_code resp = 201 \<longrightarrow> \<not> not_created q" by blast
  with attempt assms(3) show ?thesis
    by (auto simp: guarded_def aside_def payments_of_world_def)
qed

text \<open>A paid top-up of a channel: PayPal executes the payment, every other service answers with no data.\<close>

definition dumped :: "pyval \<Rightarrow> string" where
  "dumped v = (case json_dumps v of Inl e \<Rightarrow> [] | Inr t \<Rightarrow> t)"

definition demo_error_text :: "exn \<Rightarrow> string" where
  "demo_error_text e = dumped (PDict [(''errorMessage'', PStr [])])"

definition demo_pay_env :: pay_env where
  "demo_pay_env =
     \<lparr>pay_now = 0, pay_json_loads = json_loads, pay_uuid = str_nat, ssm_parameter = (\<lambda>k. Inr k),
      paypal_create = (\<lambda>_ _. Inr None), paypal_find = (\<lambda>_ _. Inr ()), paypal_execute = (\<lambda>_ _ _. Inr True),
      PAYPAL_CLIENT = [], PAYPAL_SECRET = [], return_url_format = (\<lambda>_ _ _ _. []), cancel_url_format = (\<lambda>_ _ _ _. [])\<rparr>"

definition demo_others :: "lambda_name \<Rightarrow> string \<Rightarrow> (lambda_name list, string) prog" where
  "demo_others name payload = (\<lambda>calls. (Inr (dumped (PDict
     [(''statusCode'', PInt 200), (''body'', PStr (dumped (PDict [(''data'', PDict [])])))])), calls @ [name]))"

definition demo_orc_env :: "lambda_name list services orc_env" where
  "demo_orc_env =
     \<lparr>utcnow = 0, db_now = 0, column_time = id, loads = json_loads,
      invoke = invoke_services json_loads demo_error_text demo_pay_env demo_others, b64decode_hex = Inr,
      current_block_no = Inr 1, ssm_parameter = Inr, usd_float_to_cogs = (\<lambda>_. Inr 1), decimal_of = (\<lambda>_. Inr NotFinite),
      exn_repr = (\<lambda>_. []), py_str = (\<lambda>_. []), USD_TO_COGS_CONVERSION_FACTOR = 100, SIGNER_ADDRESS = ''0x1'', EXECUTOR_ADDRESS = ''/executor'',
      ORDER_EXPIRATION_THRESHOLD_IN_MINUTES = 15, NETWORK_ID = 3, ORG_APPROVERS_DLIST = ''approvers''\<rparr>"

definition demo_pay_state :: pay_state where
  "demo_pay_state = \<lparr>pay_db = \<lparr>order_table = [demo_order
       \<lparr>or_item_details := PDict [(''order_type'', PStr ''FUND_CHANNEL''), (''group_id'', PStr ''g''), (''org_id'', PStr ''o''),
          (''recipient'', PStr ''r''), (''channel_id'', PInt 1), (''wallet_address'', PStr ''w''), (''item'', PStr ''i''), (''quantity'', PInt 1)]\<rparr>],
     payment_table = [demo_payment\<lparr>pr_payment_status := ''PENDING''\<rparr>]\<rparr>, paypal_calls = [], uuid_count = 0\<rparr>"

definition demo_world :: "history_row list \<Rightarrow> lambda_name list services orc_world" where
  "demo_world history = \<lparr>history_table = history, outside = \<lparr>payment_service = demo_pay_state, other_services = []\<rparr>\<rparr>"

definition demo_payload :: pyval where
  "demo_payload = PDict [(''order_id'', PStr ''o1''), (''payment_id'', PStr ''p1''),
     (''payment_details'', PDict [(''payer_id'', PStr ''x'')])]"

definition demo_execute_event :: pydict where
  "demo_execute_event =
     [(''requestContext'', PDict [(''authorizer'', PDict [(''claims'', PDict [(''email'', PStr ''user'')])])]),
      (''body'', PStr (dumped demo_payload))]"

lemma dumps_dumped: "serialisable v \<Longrightarrow> json_dumps v = Inr (dumped v)"
  unfolding dumped_def using json_dumps_serialisable(1) [of v] by (auto split: sum.split)

lemma loads_dumped: "json_ok v \<Longrightarrow> json_loads (dumped v) = Inr v"
  using json_loads_codec dumps_dumped [OF json_ok_serialisable] unfolding json_codec_def by blast

lemma demo_orc_env_fields:
  "loads demo_orc_env = json_loads"
  "invoke demo_orc_env = invoke_services json_loads demo_error_text demo_pay_env demo_others"
  "USD_TO_COGS_CONVERSION_FACTOR demo_orc_env = 100"
  by (simp_all add: demo_orc_env_def)

lemmas run_simps = dumps_dumped loads_dumped prog_simps invoke_lambda_def elsewhere_def demo_orc_env_fields
  invoke_services_def on_payments_def on_others_def lambda_runtime_def try_except_def andthen_def getitem_def
  response_value_def generate_lambda_response_def expect_status_def parsed_body_def sbind_def Let_def py_in_def
  dict_has_def respond_to_def json_body_def

lemma demo_details: "get_order_details_by_order_id demo_orc_env (PStr ''o1'') ''user'' (demo_world h) =
   (Inr (PDict (case create_order_details_from_repository (order_table (pay_db demo_pay_state) ! 0) (pay_db demo_pay_state) of
      Inr d \<Rightarrow> d | _ \<Rightarrow> [])), demo_world h)"
  by (simp add: get_order_details_by_order_id_def handle_get_order_from_order_id_def demo_world_def
     get_order_from_order_id_def get_order_by_order_id_def demo_pay_state_def demo_order_def demo_payment_def
     create_order_details_from_repository_def price_of_def payments_of_def payment_details_entry_def
     run_simps del: json_dumps.simps)

definition paid_world :: "history_row list \<Rightarrow> lambda_name list services orc_world" where
  "paid_world h = (demo_world h)\<lparr>outside := (outside (demo_world h))\<lparr>payment_service := 
     demo_pay_state\<lparr>pay_db := (pay_db demo_pay_state)\<lparr>payment_table := [demo_payment]\<rparr>, 
       paypal_calls := [PayPalExecute ''PAY-1'' (PStr ''x'')]\<rparr>\<rparr>\<rparr>"

lemma demo_executed: "\<exists>resp. manage_execute_payment demo_orc_env ''user'' (PStr ''o1'') (PStr ''p1'') (PDict [(''payer_id'', PStr ''x'')])
    (PStr ''paypal'') (demo_world h) = (Inr resp, paid_world h)"
  by (simp add: manage_execute_payment_def handle_execute_def demo_world_def paid_world_def demo_pay_env_def
     execute_payment_against_order_def load_order_def get_order_by_order_id_def demo_pay_state_def demo_order_def demo_payment_def
     create_order_from_repository_order_def price_of_def payments_of_def payment_from_row_def
     execute_payment_def PAYMENT_METHOD_PAYPAL_def get_payment_def paypal_execute_transaction_def execute_transaction_def
     payee_client_api_def with_payment_def update_payment_status_def
     run_simps del: json_dumps.simps)

lemma demo_order_runs: "\<exists>w'. execute_order demo_orc_env ''user'' demo_payload (demo_world h) =
    (Inr [(''price'', PDict [(''amount'', PInt 10), (''currency'', PStr ''USD'')]),
       (''item_details'', PDict [(''item'', PStr ''i''), (''quantity'', PInt 1)])], w')"
proof -
  obtain resp where executed: "manage_execute_payment demo_orc_env ''user'' (PStr ''o1'') (PStr ''p1'')
     (PDict [(''payer_id'', PStr ''x'')]) (PStr ''paypal'') (demo_world h) = (Inr resp, paid_world h)"
    using demo_executed by blast
  have "\<exists>w'. process_paid_order demo_orc_env ''user'' (PStr ''o1'') (PStr ''p1'') (PStr ''FUND_CHANNEL'')
     (or_item_details (order_table (pay_db demo_pay_state) ! 0)) (PStr ''paypal'')
     (PDict [(''payer_id'', PStr ''x'')]) (PDict [(''amount'', PInt 10), (''currency'', PStr ''USD'')]) (paid_world h) =
     (Inr [(''price'', PDict [(''amount'', PInt 10), (''currency'', PStr ''USD'')]),
       (''item_details'', PDict [(''item'', PStr ''i''), (''quantity'', PInt 1)])], w')"
    by (simp add: process_paid_order_def manage_process_order_def fund_channel_def demo_pay_state_def demo_others_def
      calculate_amount_in_cogs_def amount_times_factor_def positive_cogs_def failed_with_def insert_transaction_history_def
      body_event_def paid_world_def demo_world_def run_simps del: json_dumps.simps)
  then show ?thesis
    using executed
    by (auto simp: execute_order_def demo_payload_def demo_details demo_pay_state_def demo_order_def demo_payment_def
      create_order_details_from_repository_def price_of_def payments_of_def payment_details_entry_def py_items_def
      run_simps simp del: json_dumps.simps)
qed

lemma demo_runs:
  "\<exists>resp w'. handle_execute_order demo_orc_env demo_execute_event (demo_world h) = (Inr resp, w') \<and> status_code resp = 201"
proof -
  obtain w' where "execute_order demo_orc_env ''user'' demo_payload (demo_world h) =
    (Inr [(''price'', PDict [(''amount'', PInt 10), (''currency'', PStr ''USD'')]),
       (''item_details'', PDict [(''item'', PStr ''i''), (''quantity'', PInt 1)])], w')" using demo_order_runs by blast
  then show ?thesis
    by (simp add: handle_execute_order_def reply_def demo_execute_event_def email_of_def orc_json_body_def demo_payload_def
      make_response_body_def run_simps del: json_dumps.simps)
qed

lemma nothing_before_payment_witness:
  "\<exists>payload. orc_json_body demo_orc_env demo_execute_event = Inr payload \<and>
     order_paid payload (payment_service (outside (snd (handle_execute_order demo_orc_env demo_execute_event (demo_world [])))))"
proof -
  obtain resp w' where run: "handle_execute_order demo_orc_env demo_execute_event (demo_world []) = (Inr resp, w')"
    and "status_code resp = 201" using demo_runs by blast
  moreover have "connected demo_orc_env demo_error_text demo_pay_env demo_others"
    by (simp add: connected_def demo_orc_env_def demo_pay_env_def demo_error_text_def json_loads_codec loads_dumped
        getitem_def del: json_dumps.simps)
  ultimately show ?thesis using nothing_before_payment by fastforce
qed
end
