(* ===== verification/Orchestrator_History.thy ===== *)
theory Orchestrator_History
  imports Orchestrator_Payments
begin

text \<open>
  The history of transactions and the amounts of the order workflow: rows are only added by placing and
  executing an order, so that the row of its initiation stays open; what the conversion from cogs loses.
\<close>

section \<open>The history only grows\<close>

definition history_grows :: "'w orc_world \<Rightarrow> 'w orc_world \<Rightarrow> bool" where
  "history_grows w w' \<longleftrightarrow> (\<exists>rows. history_table w' = history_table w @ rows)"

interpretation history: step_frame history_grows
  by unfold_locales (auto simp: history_grows_def)

lemma invoke_lambda_history: "stays history_grows (invoke_lambda env name v)"
  unfolding invoke_lambda_def
  by (intro history.stays_rules) (auto simp: stays_def history_grows_def elsewhere_def split: prod.split)

lemma insert_history: "stays history_grows (insert_transaction_history env h)"
  unfolding insert_transaction_history_def by (intro history.stays_modify) (simp add: history_grows_def)

lemmas history_rules = history.stays_rules invoke_lambda_history insert_history

lemma manage_process_order_history: "stays history_grows (manage_process_order env u oid ot a c d n)"
  unfolding manage_process_order_def create_wallet_def sender_wallet_def get_wallets_def open_channel_def
    generate_signature_for_open_channel_for_third_party_def create_channel_def fund_channel_def
  by (intro history_rules)

lemma process_paid_order_history:
  "stays history_grows (process_paid_order env u oid pid ot d m pd p)"
  unfolding process_paid_order_def failed_with_def Let_def
  by (intro history_rules manage_process_order_history)

lemma execute_order_history: "stays history_grows (execute_order env u payload)"
  unfolding execute_order_def get_order_details_by_order_id_def manage_execute_payment_def Let_def
  by (intro history_rules process_paid_order_history) (auto split: option.split intro!: history_rules process_paid_order_history)

text \<open>A processed order has a row that says so.\<close>

lemma process_paid_order_row:
  assumes "process_paid_order env u oid pid ot d m pd p w = (Inr resp, w')"
  shows "\<exists>r \<in> set (history_table w'). th_order_id (hr_history r) = oid \<and> th_status (hr_history r) = ''ORDER_PROCESSED''"
proof -
  from assms obtain w1 where
    "try_except
        (andthen (of_sum (json_dumps pd)) (\<lambda>raw_payment_data.
         andthen (insert_transaction_history env ((initial_history u oid ot ''ORDER_PROCESSED'')
            \<lparr>th_payment_id := pid, th_payment_method := m, th_raw_payment_data := raw_payment_data\<rparr>)) (\<lambda>_.
         of_sum (sbind (getitem d ''item'') (\<lambda>item. sbind (getitem d ''quantity'') (\<lambda>quantity.
           Inr [(''price'', p), (''item_details'', PDict [(''item'', item), (''quantity'', quantity)])]))))))
        (failed_with env (initial_history u oid ot ''ORDER_PROCESSED'')) w1 = (Inr resp, w')"
    unfolding process_paid_order_def Let_def by (elim andthen_InrE)
  then show ?thesis
    by (auto simp: try_except_def andthen_def failed_with_def insert_transaction_history_def initial_history_def
        split: sum.splits prod.splits)
qed

lemma execute_order_row:
  assumes "execute_order env u payload w = (Inr resp, w')" and "getitem payload ''order_id'' = Inr oid"
  shows "\<exists>r \<in> set (history_table w'). th_order_id (hr_history r) = oid \<and> th_status (hr_history r) = ''ORDER_PROCESSED''"
  using assms unfolding execute_order_def
  by (elim andthen_InrE) (auto split: option.splits elim!: andthen_InrE dest!: process_paid_order_row simp del: getitem_def)

section \<open>Cancelling a processed order\<close>

lemma cancel_finds_open_row:
  assumes "sql_first (\<lambda>r. th_order_id (hr_history r) = PStr oid) (history_table w) = Some row"
    and "th_status (hr_history row) = ''PAYMENT_INITIATED''"
  shows "cancel_order_for_given_order_id (PStr oid) w =
    (Inr (''Order with order_id '' @ oid @ '' is canceled successfully.''),
     w\<lparr>history_table := sql_update (to_be_updated [PStr oid])
           (\<lambda>r. r\<lparr>hr_history := (hr_history r)\<lparr>th_status := ''ORDER_CANCELED''\<rparr>\<rparr>) (history_table w)\<rparr>)"
  using assms by (simp add: cancel_order_for_given_order_id_def get_transaction_details_for_given_order_id_def
      update_transaction_status_def andthen_def)

text \<open>
  C27. A processed order can still be cancelled: its execution adds rows to the history and leaves the
  row of its initiation open, and the cancellation reads that row. It answers that the order is canceled
  successfully and sets the row to ORDER_CANCELED, beside the row that records the order as processed.
\<close>

theorem processed_order_can_be_cancelled:
  assumes "sql_first (\<lambda>r. th_order_id (hr_history r) = PStr oid) (history_table w) = Some row"
    and "th_status (hr_history row) = ''PAYMENT_INITIATED''"
    and "getitem payload ''order_id'' = Inr (PStr oid)" and "execute_order env u payload w = (Inr resp, w')"
  shows "\<exists>w2. cancel_order_for_given_order_id (PStr oid) w' =
      (Inr (''Order with order_id '' @ oid @ '' is canceled successfully.''), w2) \<and>
    row\<lparr>hr_history := (hr_history row)\<lparr>th_status := ''ORDER_CANCELED''\<rparr>\<rparr> \<in> set (history_table w2) \<and>
    (\<exists>r \<in> set (history_table w2). th_order_id (hr_history r) = PStr oid \<and> th_status (hr_history r) = ''ORDER_PROCESSED'')"
proof -
  obtain rows where rows: "history_table w' = history_table w @ rows"
    using staysD [OF execute_order_history assms(4)] by (auto simp: history_grows_def)
  have found: "sql_first (\<lambda>r. th_order_id (hr_history r) = PStr oid) (history_table w') = Some row"
    using assms(1) by (simp add: rows sql_first_append)
  have row: "row \<in> set (history_table w')" "to_be_updated [PStr oid] row"
    using sql_first_SomeD [OF found] assms(2) by (auto simp: to_be_updated_def open_statuses_def)
  obtain r where r: "r \<in> set (history_table w')" "th_order_id (hr_history r) = PStr oid"
    "th_status (hr_history r) = ''ORDER_PROCESSED''" using execute_order_row [OF assms(4,3)] by blast
  then have "\<not> to_be_updated [PStr oid] r" by (simp add: to_be_updated_def open_statuses_def)
  with r row show ?thesis
    by (force simp: cancel_finds_open_row [OF found assms(2)] set_sql_update)
qed

definition demo_initiated :: history_row where
  "demo_initiated = \<lparr>hr_history = initial_history ''user'' (PStr ''o1'') (PStr ''FUND_CHANNEL'') ''PAYMENT_INITIATED'',
     row_created = 0, row_updated = 0\<rparr>"

lemma processed_order_can_be_cancelled_witness:
  "\<exists>resp w' w2. execute_order demo_orc_env ''user'' demo_payload (demo_world [demo_initiated]) = (Inr resp, w') \<and>
     cancel_order_for_given_order_id (PStr ''o1'') w' = (Inr ''Order with order_id o1 is canceled successfully.'', w2)"
proof -
  obtain resp w' where run: "execute_order demo_orc_env ''user'' demo_payload (demo_world [demo_initiated]) = (Inr resp, w')"
    using demo_order_runs by blast
  with processed_order_can_be_cancelled [of "''o1''" "demo_world [demo_initiated]" demo_initiated demo_payload] show ?thesis
    by (force simp: demo_world_def demo_initiated_def initial_history_def demo_payload_def getitem_def)
qed

section \<open>Amounts\<close>

lemma digits_bounds: "0 < n \<Longrightarrow> 10 ^ (digits n - 1) \<le> n \<and> n < 10 ^ digits n"
proof (induction n rule: digits.induct)
  case (1 n)
  show ?case
  proof (cases "n < 10")
    case True
    with 1 show ?thesis by (subst (1 2) digits.simps) simp
  next
    case False
    then have "0 < n div 10" by simp
    with 1 False have ih: "10 ^ (digits (n div 10) - 1) \<le> n div 10" "n div 10 < 10 ^ digits (n div 10)" by simp_all
    have "0 < digits (n div 10)" by (subst digits.simps) simp
    then have "(10 :: nat) ^ digits (n div 10) = 10 * 10 ^ (digits (n div 10) - 1)" by (cases "digits (n div 10)") simp_all
    moreover have "10 * a \<le> n \<and> n < 10 * b" if "a \<le> n div 10" "n div 10 < b" for a b using that by linarith
    from this [OF ih] have "10 * 10 ^ (digits (n div 10) - 1) \<le> n \<and> n < 10 * 10 ^ digits (n div 10)" .
    moreover have "digits n = Suc (digits (n div 10))" using False by (subst digits.simps) simp
    ultimately show ?thesis by simp
  qed
qed

lemma digits_0: "digits 0 = 1"
  by (subst digits.simps) simp

lemma half_even_close: "0 < d \<Longrightarrow> 2 * \<bar>int (half_even n d) * int d - int n\<bar> \<le> int d"
proof -
  assume d: "0 < d"
  have n: "int n = int (n div d) * int d + int (n mod d)" by (simp flip: of_nat_mult of_nat_add)
  have "int (n mod d) < int d" using d by simp
  then show ?thesis
    by (auto simp: half_even_def Let_def n abs_if algebra_simps)
qed

lemma half_even_le: "0 < d \<Longrightarrow> n \<le> m * d \<Longrightarrow> half_even n d \<le> m"
proof -
  assume d: "0 < d" and n: "n \<le> m * d"
  have "n div d \<le> m" using div_le_mono [OF n, of d] d by simp
  moreover have "n mod d = 0" if "n div d = m"
    using n that mult_div_mod_eq [of d n] by (metis add_le_same_cancel1 le_zero_eq mult.commute)
  ultimately show ?thesis using d by (cases "n div d = m") (auto simp: half_even_def Let_def)
qed

text \<open>
  An amount below 10^8 cogs is converted to AGI exactly; every other amount is rounded to eight digits,
  at most half a unit of the last digit away from it.
\<close>

theorem cogs_to_agi_bounds:
  "case cogs_to_agi cogs of (c, e) \<Rightarrow>
     \<bar>c\<bar> < 10 ^ 8 \<and> -8 \<le> e \<and> (\<bar>cogs\<bar> < 10 ^ 8 \<longrightarrow> c = cogs \<and> e = -8) \<and>
     2 * \<bar>c * 10 ^ nat (e + 8) - cogs\<bar> \<le> 10 ^ nat (e + 8)"
proof -
  define n where "n = nat \<bar>cogs\<bar>"
  define k where "k = digits n - 8"
  define q where "q = half_even n (10 ^ k)"
  have agi: "cogs_to_agi cogs = (if k = 0 then (cogs, -8) else if 8 < digits q
      then (sgn cogs * int (q div 10), int k - 7) else (sgn cogs * int q, int k - 8))"
    by (simp add: cogs_to_agi_def to_precision_def n_def k_def q_def Let_def)
  have below: "n < 10 ^ digits n" using digits_bounds [of n] by (cases "n = 0") auto
  show ?thesis
  proof (cases "k = 0")
    case True
    then have "10 ^ digits n \<le> (10 :: nat) ^ 8" by (intro power_increasing) (simp_all add: k_def)
    with below have "n < 10 ^ 8" by simp
    then have "\<bar>cogs\<bar> < 10 ^ 8" by (simp add: n_def)
    with True show ?thesis by (simp add: agi)
  next
    case False
    then have "(10 :: nat) ^ 8 \<le> 10 ^ (digits n - 1)" by (intro power_increasing) (simp_all add: k_def)
    moreover have "0 < n" using False by (intro gr0I) (simp add: k_def digits_0)
    ultimately have big: "10 ^ 8 \<le> n" using digits_bounds [of n] by simp
    have "10 ^ digits n = (10 :: nat) ^ 8 * 10 ^ k"
      using False unfolding power_add [symmetric] by (simp add: k_def)
    with below have "n \<le> 10 ^ 8 * 10 ^ k" by simp
    then have q: "q \<le> 10 ^ 8" unfolding q_def by (intro half_even_le) simp_all
    have close: "2 * \<bar>int q * 10 ^ k - int n\<bar> \<le> 10 ^ k" using half_even_close [of "10 ^ k" n] by (simp add: q_def)
    have sign: "\<bar>sgn cogs * x - cogs\<bar> = \<bar>x - int n\<bar>" for x
      using big by (cases "cogs < 0") (auto simp: n_def sgn_if)
    show ?thesis
    proof (cases "8 < digits q")
      case True
      then have "(10 :: nat) ^ 8 \<le> 10 ^ (digits q - 1)" by (intro power_increasing) simp_all
      moreover have "0 < q" using True by (intro gr0I) (simp add: digits_0)
      ultimately have q8: "q = 10 ^ 8" using digits_bounds [of q] q by simp
      have "nat (1 + int k) = Suc k" by simp
      have five: "a \<le> 5 * x" if "2 * a \<le> x" "0 \<le> a" for a x :: int using that by linarith
      from five [OF close] have "\<bar>int q * 10 ^ k - int n\<bar> \<le> 5 * 10 ^ k" by simp
      with q8 \<open>nat (1 + int k) = Suc k\<close> show ?thesis
        using True False big close sign [of "10 ^ 8 * 10 ^ k"] by (auto simp: agi n_def sgn_if)
    next
      case below_8: False
      then have "10 ^ digits q \<le> (10 :: nat) ^ 8" by (intro power_increasing) simp_all
      moreover have "q < 10 ^ digits q" using digits_bounds [of q] by (cases "q = 0") auto
      ultimately have "int q < 10 ^ 8" by simp
      with below_8 False big close sign [of "int q * 10 ^ k"] show ?thesis
        by (auto simp: agi n_def abs_mult sgn_if)
    qed
  qed
qed

lemma cogs_to_agi_bounds_witness: "case cogs_to_agi 12345678 of (c, e) \<Rightarrow> c = 12345678 \<and> e = -8"
  using cogs_to_agi_bounds [of 12345678] by (auto split: prod.splits)

end
