(* ===== verification/Orchestrator_Publisher.thy ===== *)
theory Orchestrator_Publisher
  imports Orchestrator_Handlers
begin

text \<open>
  \<open>publisher/application/services/organization_service.py\<close> with its handlers and mails: the onboarding of an
  organization and of its members, over the registry, wallet, verification and notification lambdas.
\<close>

section \<open>publisher/mail\_templates.py\<close>

text \<open>Subject and body.\<close>

type_synonym mail_template = "string \<times> string"

definition lines_text :: "string list \<Rightarrow> string" where
  "lines_text = join [CHR 0x0A]"

definition get_org_approval_mail :: "string \<Rightarrow> string \<Rightarrow>  mail_template" where
  "get_org_approval_mail org_id org_name =
     (''Organization Approval: organization ('' @ org_id @ '', '' @ org_name @ '')'',
      lines_text
       [''<html>'',
        ''    <head></head>'',
        ''    <body>'',
        ''        <div>'',
        ''            <p>Hello,</p>'',
        ''            <p>The following organization has been submitted for approval. Please review,</p>'',
        ''            <p>Organization id: <strong>'' @ org_id @ ''</strong><br/>'',
        ''            Organization name: <strong>'' @ org_name @ ''</strong><br/></p>'',
        ''        </div>'',
        ''        <br/>'',
        [],
        ''        <i><p>Steps for approval:</p>'',
        ''        <ul>'',
        ''            <li>Go to approval channel</li>'',
        ''            <li><strong>/list-orgs-for-approval</strong> command to get list of services</li>'',
        ''            <li>To review the particular service click on <strong>review</strong>, it will open pop up window</li>'',
        ''            <li>Select appropriate options (Approved, Rejected, Change requested) and give comment.</li>'',
        ''            <li>Click on <strong>submit</strong> to review the service.</li>'',
        ''        </ul></i>'',
        [],
        ''        <br/>'',
        ''        <p>Regards,<br/>SingularityNET Publisher Portal Team</p>'',
        [],
        ''    </body>'',
        ''</html> ''])"

definition get_mail_template_to_user_for_org_onboarding :: "string \<Rightarrow>  mail_template" where
  "get_mail_template_to_user_for_org_onboarding org_id =
     (''Your organization '' @ org_id @ '' has successfully submitted for approval'',
      lines_text
       [''<div>Your organization '' @ org_id @ '' has successfully been submitted for approval. We will notify you once it '',
        ''        is reviewed by our approval team. It usually takes around five to ten business days for approval.'',
        ''        <br/>'',
        ''        <p>Regards,<br/>SingularityNET Publisher Portal Team</p>'',
        ''        </div>'',
        ''        ''])"

section \<open>publisher/application/services/organization\_service.py\<close>

text \<open>A value in an f-string.\<close>

definition shown :: "'w orc_env \<Rightarrow> pyval \<Rightarrow> string" where
  "shown env v = (case v of PStr s \<Rightarrow> s | _ \<Rightarrow> py_str env v)"

definition claims_event :: "pyval \<Rightarrow> pyval" where
  "claims_event email = PDict [(''authorizer'', PDict [(''claims'', PDict [(''email'', email)])])]"

definition registry_register_org_member :: "'w orc_env \<Rightarrow> string \<Rightarrow> pyval \<Rightarrow> pyval \<Rightarrow> ('w, unit) oprog" where
  "registry_register_org_member env username wallet_address invite_code =
     andthen (of_sum (json_dumps (PDict [(''wallet_address'', wallet_address), (''invite_code'', invite_code)]))) (\<lambda>body.
     andthen (invoke_lambda env REGISTER_MEMBER_ARN (PDict
        [(''path'', PStr ''/org/member/register''), (''body'', PStr body), (''httpMethod'', PStr ''POST''),
         (''requestContext'', claims_event (PStr username))])) (\<lambda>response.
     of_sum (expect_status 201 (py_exception (''Failed to register user for invite_code: '' @ shown env invite_code @
       '' username: '' @ username @ '' wallet_address:'' @ shown env wallet_address)) response)))"

definition member_register_wallet :: "'w orc_env \<Rightarrow> string \<Rightarrow> pyval \<Rightarrow> ('w, unit) oprog" where
  "member_register_wallet env username wallet_address =
     andthen (of_sum (body_event [(''address'', wallet_address), (''type'', PStr ''METAMASK''), (''username'', PStr username)])) (\<lambda>payload.
     andthen (invoke_lambda env REGISTER_WALLET_ARN payload) (\<lambda>response.
     andthen (of_sum (sbind (getitem response ''statusCode'') int_of_status)) (\<lambda>status.
     if status \<noteq> 200 then raise (py_exception ''Unable to register wallet for username %s'') else ret ())))"

definition register_org_member :: "'w orc_env \<Rightarrow> string \<Rightarrow> pyval \<Rightarrow> ('w, string) oprog" where
  "register_org_member env username payload =
     andthen (of_sum (getitem payload ''wallet_address'')) (\<lambda>wallet_address.
     andthen (of_sum (getitem payload ''invite_code'')) (\<lambda>invite_code.
     andthen (registry_register_org_member env username wallet_address invite_code) (\<lambda>_.
     andthen (member_register_wallet env username wallet_address) (\<lambda>_.
     ret ''OK''))))"

definition notify :: "'w orc_env \<Rightarrow> mail_template \<Rightarrow> string \<Rightarrow> ('w, unit) oprog" where
  "notify env mail recipient =
     andthen (of_sum (body_event [(''message'', PStr (snd mail)), (''subject'', PStr (fst mail)),
       (''notification_type'', PStr ''support''), (''recipient'', PStr recipient)])) (\<lambda>payload.
     andthen (invoke_lambda env NOTIFICATION_ARN payload) (\<lambda>_. ret ()))"

text \<open>\<open>common.utils.send_email_notification\<close>: failures are only logged.\<close>

definition send_email_notification :: "'w orc_env \<Rightarrow> string list \<Rightarrow> mail_template \<Rightarrow> ('w, unit) oprog" where
  "send_email_notification env recipients mail =
     for_each recipients (\<lambda>recipient.
       try_except (if recipient \<noteq> [] then notify env mail recipient else ret ()) (\<lambda>_. ret ()))"

definition notify_approval_team :: "'w orc_env \<Rightarrow> pyval \<Rightarrow> pyval \<Rightarrow> ('w, unit) oprog" where
  "notify_approval_team env org_id org_name =
     send_email_notification env [ORG_APPROVERS_DLIST env] (get_org_approval_mail (shown env org_id) (shown env org_name))"

definition notify_user_on_start_of_onboarding_process :: "'w orc_env \<Rightarrow> pyval \<Rightarrow> string list \<Rightarrow> ('w, unit) oprog" where
  "notify_user_on_start_of_onboarding_process env org_id recipients =
     for_each recipients (notify env (get_mail_template_to_user_for_org_onboarding (shown env org_id)))"

definition initiate_verification :: "'w orc_env \<Rightarrow> pyval \<Rightarrow> string \<Rightarrow> string \<Rightarrow> ('w, unit) oprog" where
  "initiate_verification env entity_id verification_type username =
     andthen
       (if verification_type = ''INDIVIDUAL'' then
          andthen (of_sum (json_dumps (PDict [(''type'', PStr verification_type)]))) (\<lambda>body.
          ret (PDict [(''requestContext'', claims_event entity_id), (''body'', PStr body)]))
        else if verification_type = ''DUNS'' then
          andthen (of_sum (json_dumps (PDict [(''type'', PStr verification_type), (''entity_id'', entity_id)]))) (\<lambda>body.
          ret (PDict [(''requestContext'', claims_event (PStr username)), (''body'', PStr body)]))
        else raise (py_exception (''Verification initiate failed for Invalid verification type '' @ verification_type)))
       (\<lambda>payload.
     andthen (invoke_lambda env VERIFICATION_INITIATE_ARN payload) (\<lambda>response.
     of_sum (expect_status 201 (py_exception ''Failed to create Organization'') response)))"

definition create_org :: "'w orc_env \<Rightarrow> pyval \<Rightarrow> string \<Rightarrow> ('w, pyval) oprog" where
  "create_org env org_details username =
     andthen (of_sum (json_dumps org_details)) (\<lambda>body.
     andthen (invoke_lambda env CREATE_ORG_ARN
        (PDict [(''requestContext'', claims_event (PStr username)), (''body'', PStr body)])) (\<lambda>response.
     andthen (of_sum (expect_status 200 (py_exception ''Failed to create Organization'') response)) (\<lambda>_.
     of_sum (sbind (parsed_body env response) (\<lambda>answer. getitem answer ''data'')))))"

definition create_and_initiate_verification :: "'w orc_env \<Rightarrow> pyval \<Rightarrow> string \<Rightarrow> ('w, pyval) oprog" where
  "create_and_initiate_verification env create_org_details username =
     andthen (create_org env create_org_details username) (\<lambda>org_details.
     andthen (of_sum (getitem org_details ''org_uuid'')) (\<lambda>org_uuid.
     andthen (of_sum (getitem org_details ''org_type'')) (\<lambda>org_type.
     andthen (if org_type = PStr ''organization'' then initiate_verification env org_uuid ''DUNS'' username
              else if org_type = PStr ''individual'' then initiate_verification env (PStr username) ''INDIVIDUAL'' username
              else raise (py_exception (''Verification initiate failed for Invalid org type '' @ shown env org_type))) (\<lambda>_.
     andthen (of_sum (getitem org_details ''org_id'')) (\<lambda>org_id.
     andthen (of_sum (getitem org_details ''org_name'')) (\<lambda>org_name.
     andthen (notify_approval_team env org_id org_name) (\<lambda>_.
     andthen (notify_user_on_start_of_onboarding_process env org_id [username]) (\<lambda>_.
     ret org_details))))))))"

section \<open>publisher/application/handlers/organization\_handlers.py\<close>

definition created_response :: "pyval \<Rightarrow> ('w, lambda_response) oprog" where
  "created_response data = of_sum (generate_lambda_response 201
     (PDict [(''status'', PStr ''success''), (''data'', data), (''error'', PDict [])]) True)"

definition handle_register_org_member :: "'w orc_env \<Rightarrow> pydict \<Rightarrow> ('w, lambda_response) oprog" where
  "handle_register_org_member env event = exception_handler
     (andthen (of_sum (email_of event)) (\<lambda>username.
      andthen (of_sum (orc_json_body env event)) (\<lambda>payload.
      andthen (of_sum (validate_dict payload [''wallet_address'', ''invite_code''])) (\<lambda>valid.
      if \<not> valid then raise (BadRequestException [] [])
      else
        andthen (register_org_member env username payload) (\<lambda>response.
        created_response (PStr response))))))"

definition handle_create_org :: "'w orc_env \<Rightarrow> pydict \<Rightarrow> ('w, lambda_response) oprog" where
  "handle_create_org env event = exception_handler
     (andthen (of_sum (orc_json_body env event)) (\<lambda>payload.
      andthen (of_sum (email_of event)) (\<lambda>username.
      andthen (create_and_initiate_verification env payload username) created_response)))"

end
