(* ===== verification/Dapp_User.thy ===== *)
theory Dapp_User
  imports Requests Json
begin

text \<open>
  The user service, \<open>src/dapp_user\<close>: users with their preferences, votes and comments in four tables, the
  user pool they come from, and the lambdas of the marketplace a review or a deletion is told to.
\<close>

section \<open>constant.py\<close>

datatype source_dapp = PUBLISHER_DAPP | MARKETPLACE_DAPP | RFAI_DAPP | TOKEN_STAKE_DAPP
datatype communication_type = EMAIL | SMS
datatype preference_type = FEATURE_RELEASE | WEEKLY_SUMMARY | COMMENTS_AND_MESSAGES | TOKEN_STAKE_NOTIFICATION
datatype preference_status = ENABLED | DISABLED

fun source_text :: "source_dapp \<Rightarrow> string" where
  "source_text PUBLISHER_DAPP = ''PUBLISHER_DAPP''"
| "source_text MARKETPLACE_DAPP = ''MARKETPLACE_DAPP''"
| "source_text RFAI_DAPP = ''RFAI_DAPP''"
| "source_text TOKEN_STAKE_DAPP = ''TOKEN_STAKE_DAPP''"

fun communication_text :: "communication_type \<Rightarrow> string" where
  "communication_text EMAIL = ''EMAIL''"
| "communication_text SMS = ''SMS''"

fun preference_text :: "preference_type \<Rightarrow> string" where
  "preference_text FEATURE_RELEASE = ''FEATURE_RELEASE''"
| "preference_text WEEKLY_SUMMARY = ''WEEKLY_SUMMARY''"
| "preference_text COMMENTS_AND_MESSAGES = ''COMMENTS_AND_MESSAGES''"
| "preference_text TOKEN_STAKE_NOTIFICATION = ''TOKEN_STAKE_NOTIFICATION''"

fun status_text :: "preference_status \<Rightarrow> string" where
  "status_text ENABLED = ''ENABLED''"
| "status_text DISABLED = ''DISABLED''"

abbreviation all_sources :: "source_dapp list" where
  "all_sources \<equiv> [PUBLISHER_DAPP, MARKETPLACE_DAPP, RFAI_DAPP, TOKEN_STAKE_DAPP]"
abbreviation all_communications :: "communication_type list" where "all_communications \<equiv> [EMAIL, SMS]"
abbreviation all_preferences :: "preference_type list" where
  "all_preferences \<equiv> [FEATURE_RELEASE, WEEKLY_SUMMARY, COMMENTS_AND_MESSAGES, TOKEN_STAKE_NOTIFICATION]"
abbreviation all_statuses :: "preference_status list" where "all_statuses \<equiv> [ENABLED, DISABLED]"

section \<open>infrastructure/models.py\<close>

record user_row =
  us_row_id :: int
  us_username :: string
  us_account_id :: string
  us_name :: string
  us_email :: string
  us_email_verified :: bool
  us_email_alerts :: bool
  us_status :: bool
  us_terms_accepted :: bool

record preference_row =
  pf_user_row_id :: int
  pf_preference_type :: string
  pf_communication_type :: string
  pf_source :: string
  pf_opt_out_reason :: "string option"
  pf_status :: bool

text \<open>A rating is a \<open>DECIMAL(2, 1)\<close>, here in tenths.\<close>

record vote_row =
  vt_user_row_id :: int
  vt_org_id :: string
  vt_service_id :: string
  vt_rating :: "int option"

record feedback_row =
  fb_user_row_id :: int
  fb_org_id :: string
  fb_service_id :: string
  fb_comment :: "string option"

record dapp_db =
  user_table :: "user_row list"
  preference_table :: "preference_row list"
  vote_table :: "vote_row list"
  feedback_table :: "feedback_row list"

record 'w dapp_world =
  dapp_db :: dapp_db
  user_numbers :: int
  outside :: 'w

section \<open>Environment\<close>

text \<open>
  The lambdas are one program of the environment over a state \<open>'w\<close> of their own; what \<open>boto3\<close> gives back is
  a dict. \<open>list_users\<close> is a page of the user pool, by its token; \<open>rating_column\<close> stores a float as a
  \<open>DECIMAL(2, 1)\<close>; \<open>formatted_errors\<close> is the list of pydantic's errors for a request class and its input.
\<close>

datatype dapp_lambda =
    DELETE_USER_WALLET_FET | DELETE_USER_WALLET_AGIX | UPDATE_SERVICE_RATING_FET | UPDATE_SERVICE_RATING_AGIX

record cognito_page =
  cp_users :: "pyval list"
  cp_token :: "string option"

record 'w dapp_env =
  offline :: bool
  loads :: "string \<Rightarrow> exn + pyval"
  formatted_errors :: "string \<Rightarrow> pyval \<Rightarrow> pyval"
  lambda_invoke :: "dapp_lambda \<Rightarrow> string \<Rightarrow> ('w, pydict) prog"
  list_users :: "string option \<Rightarrow> exn + cognito_page"
  rating_column :: "string \<Rightarrow> exn + int"
  float_value :: "pyval \<Rightarrow> string option"
  exn_text :: "exn \<Rightarrow> string"

type_synonym ('w, 'a) uprog = "('w dapp_world, 'a) prog"

definition elsewhere :: "('w, 'a) prog \<Rightarrow> ('w, 'a) uprog" where
  "elsewhere m = (\<lambda>w. case m (outside w) of (r, o') \<Rightarrow> (r, w\<lparr>outside := o'\<rparr>))"

definition in_db :: "(dapp_db \<Rightarrow> 'a) \<Rightarrow> ('w, 'a) uprog" where
  "in_db f = gets (\<lambda>w. f (dapp_db w))"

definition change_db :: "(dapp_db \<Rightarrow> dapp_db) \<Rightarrow> ('w, unit) uprog" where
  "change_db f = modify (\<lambda>w. w\<lparr>dapp_db := f (dapp_db w)\<rparr>)"

text \<open>\<open>infrastructure/db.py\<close>: commit, or rollback and raise again.\<close>

definition session_scope :: "('w, 'a) uprog \<Rightarrow> ('w, 'a) uprog" where
  "session_scope m =
     (\<lambda>w. case m w of
        (Inl e, w') \<Rightarrow> (Inl e, w'\<lparr>dapp_db := dapp_db w\<rparr>)
      | (Inr a, w') \<Rightarrow> (Inr a, w'))"

definition scalar_one_or_none :: "'r list \<Rightarrow> exn + 'r option" where
  "scalar_one_or_none rows =
     (case rows of [] \<Rightarrow> Inr None | [r] \<Rightarrow> Inr (Some r) | _ \<Rightarrow> Inl (PyExc ''MultipleResultsFound'' []))"

section \<open>exceptions.py and infrastructure/repositories/exceptions.py\<close>

definition UnauthorizedException :: exn where
  "UnauthorizedException = CustomExc OtherClass 401 0 ''You are not allowed to delete this user'' []"

definition UserReviewAlreadyExistHTTPException :: exn where
  "UserReviewAlreadyExistHTTPException = BadRequestException ''User rewiew already exist'' []"

definition UserNotFoundHTTPException :: "string \<Rightarrow> exn" where
  "UserNotFoundHTTPException username =
     BadRequestException (''User with username '' @ CHR 0x27 # username @ CHR 0x27 # '' not found'') []"

definition UserNotFoundException :: "string \<Rightarrow> exn" where
  "UserNotFoundException username =
     PyExc ''UserNotFoundException'' (''User with username '' @ CHR 0x27 # username @ CHR 0x27 # '' not found.'')"

definition UserAlreadyExistsException :: "string \<Rightarrow> exn" where
  "UserAlreadyExistsException username =
     PyExc ''UserAlreadyExistsException'' (''User with username '' @ CHR 0x27 # username @ CHR 0x27 # '' already exists.'')"

definition VoteAlreadyExistsException :: exn where
  "VoteAlreadyExistsException = PyExc ''VoteAlreadyExistsException'' ''User vote is already exists''"

definition FeedbackAlreadyExistsException :: exn where
  "FeedbackAlreadyExistsException = PyExc ''FeedbackAlreadyExistsException'' ''User feedback is already exists''"

text \<open>An \<open>except\<close> clause for some classes.\<close>

definition excepting :: "string list \<Rightarrow> ('s, 'a) prog \<Rightarrow> exn \<Rightarrow> ('s, 'a) prog" where
  "excepting classes m e = try_except m
     (\<lambda>exc. case exc of PyExc cls t \<Rightarrow> raise (if cls \<in> set classes then e else exc) | _ \<Rightarrow> raise exc)"

section \<open>domain/models and domain/factory/user\_factory.py\<close>

record user_preference =
  up_preference_type :: preference_type
  up_communication_type :: communication_type
  up_source :: source_dapp
  up_status :: preference_status
  up_opt_out_reason :: "string option"

definition text_or_none :: "string option \<Rightarrow> pyval" where
  "text_or_none t = (case t of None \<Rightarrow> PNone | Some s \<Rightarrow> PStr s)"

definition preference_to_dict :: "user_preference \<Rightarrow> pydict" where
  "preference_to_dict p =
     [(''preference_type'', PStr (preference_text (up_preference_type p))),
      (''communication_type'', PStr (communication_text (up_communication_type p))),
      (''source'', PStr (source_text (up_source p))), (''status'', PStr (status_text (up_status p))),
      (''opt_out_reason'', text_or_none (up_opt_out_reason p))]"

definition member_of :: "('a \<Rightarrow> string) \<Rightarrow> 'a list \<Rightarrow> string \<Rightarrow> exn + 'a" where
  "member_of value_of members s =
     (case find (\<lambda>m. value_of m = s) members of None \<Rightarrow> Inl (PyExc ''ValueError'' s) | Some m \<Rightarrow> Inr m)"

definition user_preference_from_db_model :: "preference_row \<Rightarrow> exn + user_preference" where
  "user_preference_from_db_model r =
     sbind (member_of preference_text all_preferences (pf_preference_type r)) (\<lambda>p.
     sbind (member_of communication_text all_communications (pf_communication_type r)) (\<lambda>c.
     sbind (member_of source_text all_sources (pf_source r)) (\<lambda>s.
     Inr \<lparr>up_preference_type = p, up_communication_type = c, up_source = s,
          up_status = (if pf_status r then ENABLED else DISABLED), up_opt_out_reason = pf_opt_out_reason r\<rparr>)))"

record new_user =
  nu_account_id :: string
  nu_username :: string
  nu_name :: string
  nu_email :: string
  nu_email_verified :: bool
  nu_email_alerts :: bool
  nu_status :: bool
  nu_terms_accepted :: bool

definition new_user_to_dict :: "new_user \<Rightarrow> pydict" where
  "new_user_to_dict u =
     [(''account_id'', PStr (nu_account_id u)), (''username'', PStr (nu_username u)), (''name'', PStr (nu_name u)),
      (''email'', PStr (nu_email u)), (''email_verified'', PBool (nu_email_verified u))]"

text \<open>\<open>User\<close> has the fields of its row.\<close>

definition user_to_response :: "user_row \<Rightarrow> pydict" where
  "user_to_response u =
     [(''rowId'', PInt (us_row_id u)), (''accountId'', PStr (us_account_id u)), (''username'', PStr (us_username u)),
      (''name'', PStr (us_name u)), (''email'', PStr (us_email u)), (''emailVerified'', PBool (us_email_verified u)),
      (''emailAlerts'', PBool (us_email_alerts u)), (''status'', PBool (us_status u)),
      (''isTermsAccepted'', PBool (us_terms_accepted u))]"

record service_vote =
  sv_user_row_id :: int
  sv_org_id :: string
  sv_service_id :: string
  sv_rating :: string

record service_feedback =
  sf_user_row_id :: int
  sf_org_id :: string
  sf_service_id :: string
  sf_comment :: string

section \<open>application/schemas.py\<close>

text \<open>A field by its alias or its name.\<close>

definition named_field :: "pydict \<Rightarrow> string \<Rightarrow> string \<Rightarrow> (pyval \<Rightarrow> 'a option) \<Rightarrow> 'a option \<Rightarrow> 'a option" where
  "named_field d alias name convert absent = field d alias convert (field d name convert absent)"

fun bool_value :: "pyval \<Rightarrow> bool option" where
  "bool_value (PBool b) = Some b"
| "bool_value (PInt i) = (if i = 0 then Some False else if i = 1 then Some True else None)"
| "bool_value (PFloat r) = (if r = ''0.0'' then Some False else if r = ''1.0'' then Some True else None)"
| "bool_value (PStr s) =
     (let t = map to_lower s in
      if t \<in> {''0'', ''off'', ''f'', ''false'', ''n'', ''no''} then Some False
      else if t \<in> {''1'', ''on'', ''t'', ''true'', ''y'', ''yes''} then Some True else None)"
| "bool_value v = None"

definition preference_request :: "pydict \<Rightarrow> user_preference option" where
  "preference_request d =
     obind (named_field d ''communicationType'' ''communication_type'' (enum_value communication_text all_communications) None) (\<lambda>c.
     obind (named_field d ''preferenceType'' ''preference_type'' (enum_value preference_text all_preferences) None) (\<lambda>p.
     obind (field d ''source'' (enum_value source_text all_sources) None) (\<lambda>s.
     obind (field d ''status'' (enum_value status_text all_statuses) None) (\<lambda>st.
     obind (named_field d ''optOutReason'' ''opt_out_reason'' (optional text_value) (Some None)) (\<lambda>reason.
     Some \<lparr>up_preference_type = p, up_communication_type = c, up_source = s, up_status = st,
           up_opt_out_reason = reason\<rparr>)))))"

definition preferences_request :: "pydict \<Rightarrow> user_preference list option" where
  "preferences_request d = named_field d ''userPreferences'' ''user_preferences''
     (\<lambda>v. case v of PList (x # xs) \<Rightarrow> all_values (object_value preference_request) (x # xs) | _ \<Rightarrow> None) None"

definition validated ::
  "'w dapp_env \<Rightarrow> string \<Rightarrow> string \<Rightarrow> (pydict \<Rightarrow> 'a option) \<Rightarrow> exn + pyval \<Rightarrow> exn + 'a" where
  "validated env cls = parsed_request (formatted_errors env cls)"

definition asserted_body :: "'w dapp_env \<Rightarrow> pydict \<Rightarrow> exn + pyval" where
  "asserted_body env = asserted_payload (loads env)"

definition AddOrUpdateUserPreferencesRequest :: "'w dapp_env \<Rightarrow> pydict \<Rightarrow> exn + user_preference list" where
  "AddOrUpdateUserPreferencesRequest env event =
     validated env ''AddOrUpdateUserPreferencesRequest'' ''validation_errors'' preferences_request (asserted_body env event)"

definition DeleteUserRequest :: "'w dapp_env \<Rightarrow> pydict \<Rightarrow> exn + string option" where
  "DeleteUserRequest env event =
     validated env ''DeleteUserRequest'' ''validation_erros''
       (\<lambda>d. field d ''username'' (optional text_value) (Some None))
       (Inr (let data = event_part event query_part in if truthy data then data else PDict []))"

definition UpdateUserAlertsRequest :: "'w dapp_env \<Rightarrow> pydict \<Rightarrow> exn + bool" where
  "UpdateUserAlertsRequest env event =
     validated env ''UpdateUserAlertsRequest'' ''validation_erros''
       (\<lambda>d. named_field d ''emailAlerts'' ''email_alerts'' bool_value None) (asserted_body env event)"

definition GetUserFeedbackRequest :: "'w dapp_env \<Rightarrow> pydict \<Rightarrow> exn + string \<times> string" where
  "GetUserFeedbackRequest env event =
     validated env ''GetUserFeedbackRequest'' ''validation_erros''
       (\<lambda>d. obind (named_field d ''orgId'' ''org_id'' text_value None) (\<lambda>org_id.
            obind (named_field d ''serviceId'' ''service_id'' text_value None) (\<lambda>service_id.
            Some (org_id, service_id)))) (Inr (event_part event query_part))"

record review_request =
  rv_org_id :: string
  rv_service_id :: string
  rv_user_rating :: string
  rv_comment :: "string option"

definition CreateUserServiceReviewRequest :: "'w dapp_env \<Rightarrow> pydict \<Rightarrow> exn + review_request" where
  "CreateUserServiceReviewRequest env event =
     validated env ''CreateUserServiceReviewRequest'' ''validation_erros''
       (\<lambda>d. obind (named_field d ''orgId'' ''org_id'' text_value None) (\<lambda>org_id.
            obind (named_field d ''serviceId'' ''service_id'' text_value None) (\<lambda>service_id.
            obind (named_field d ''userRating'' ''user_rating'' (float_value env) None) (\<lambda>rating.
            obind (field d ''comment'' (optional text_value) (Some None)) (\<lambda>comment.
            Some \<lparr>rv_org_id = org_id, rv_service_id = service_id, rv_user_rating = rating, rv_comment = comment\<rparr>)))))
       (asserted_body env event)"

record cognito_event =
  ce_trigger_source :: string
  ce_name :: string
  ce_sub :: string
  ce_email :: string
  ce_email_verified :: bool

definition cognito_request :: "pydict \<Rightarrow> (string \<times> string \<times> bool) option" where
  "cognito_request d = named_field d ''userAttributes'' ''user_attributes'' (object_value (\<lambda>a.
     obind (field a ''sub'' text_value None) (\<lambda>sub.
     obind (field a ''email'' text_value None) (\<lambda>email.
     obind (field a ''email_verified'' bool_value None) (\<lambda>verified.
     Some (sub, email, verified)))))) None"

definition CognitoUserPoolEvent :: "pydict \<Rightarrow> cognito_event option" where
  "CognitoUserPoolEvent d =
     obind (field d ''version'' text_value None) (\<lambda>_.
     obind (named_field d ''triggerSource'' ''trigger_source'' text_value None) (\<lambda>trigger_source.
     obind (field d ''region'' text_value None) (\<lambda>_.
     obind (named_field d ''userPoolId'' ''user_pool_id'' text_value None) (\<lambda>_.
     obind (named_field d ''userName'' ''name'' text_value None) (\<lambda>name.
     obind (named_field d ''callerContext'' ''caller_context'' (object_value (\<lambda>c.
        obind (named_field c ''awsSdkVersion'' ''aws_sdk_version'' text_value None) (\<lambda>_.
        named_field c ''clientId'' ''client_id'' text_value None))) None) (\<lambda>_.
     obind (field d ''request'' (object_value cognito_request) None) (\<lambda>(sub, email, verified).
     Some \<lparr>ce_trigger_source = trigger_source, ce_name = name, ce_sub = sub, ce_email = email,
           ce_email_verified = verified\<rparr>)))))))"

definition user_vote_feedback_from_request :: "int \<Rightarrow> review_request \<Rightarrow> service_vote \<times> service_feedback option" where
  "user_vote_feedback_from_request user_row_id request =
     (\<lparr>sv_user_row_id = user_row_id, sv_org_id = rv_org_id request, sv_service_id = rv_service_id request,
       sv_rating = rv_user_rating request\<rparr>,
      case rv_comment request of
        None \<Rightarrow> None
      | Some comment \<Rightarrow>
          if comment = [] then None
          else Some \<lparr>sf_user_row_id = user_row_id, sf_org_id = rv_org_id request,
            sf_service_id = rv_service_id request, sf_comment = comment\<rparr>)"

definition user_from_cognito_request :: "cognito_event \<Rightarrow> new_user" where
  "user_from_cognito_request event =
     \<lparr>nu_account_id = ce_sub event, nu_username = ce_email event, nu_name = ce_name event, nu_email = ce_email event,
      nu_email_verified = ce_email_verified event, nu_email_alerts = False, nu_status = True, nu_terms_accepted = True\<rparr>"

end
