(* ===== verification/Dapp_User_Service.thy ===== *)
theory Dapp_User_Service
  imports Dapp_User
begin

text \<open>
  The repository of users, the clients of the user pool and of the lambdas, the user service and its handlers.
\<close>

section \<open>infrastructure/repositories/user\_repository.py\<close>

definition same_preference :: "int \<Rightarrow> user_preference \<Rightarrow> preference_row \<Rightarrow> bool" where
  "same_preference user_row_id p r \<longleftrightarrow>
     pf_user_row_id r = user_row_id \<and> pf_preference_type r = preference_text (up_preference_type p) \<and>
     pf_communication_type r = communication_text (up_communication_type p) \<and> pf_source r = source_text (up_source p)"

definition update_preference :: "int \<Rightarrow> user_preference \<Rightarrow> ('w, string) uprog" where
  "update_preference user_row_id preference =
     andthen (in_db (\<lambda>db. filter (same_preference user_row_id preference) (preference_table db))) (\<lambda>rows.
     andthen (of_sum (scalar_one_or_none rows)) (\<lambda>existing.
     andthen (change_db (\<lambda>db. db\<lparr>preference_table :=
        (case existing of
           Some _ \<Rightarrow> sql_update (same_preference user_row_id preference)
             (\<lambda>r. r\<lparr>pf_status := (up_status preference = ENABLED), pf_opt_out_reason := up_opt_out_reason preference\<rparr>)
             (preference_table db)
         | None \<Rightarrow> preference_table db @
             [\<lparr>pf_user_row_id = user_row_id, pf_preference_type = preference_text (up_preference_type preference),
               pf_communication_type = communication_text (up_communication_type preference),
               pf_source = source_text (up_source preference), pf_opt_out_reason = up_opt_out_reason preference,
               pf_status = (up_status preference = ENABLED)\<rparr>])\<rparr>)) (\<lambda>_.
     ret (status_text (up_status preference)))))"

definition update_user_preferences :: "user_preference list \<Rightarrow> int \<Rightarrow> ('w, string list) uprog" where
  "update_user_preferences user_preferences user_row_id = map_each (update_preference user_row_id) user_preferences"

definition repo_get_user :: "string \<Rightarrow> ('w, user_row) uprog" where
  "repo_get_user username =
     andthen (in_db (\<lambda>db. sql_first (\<lambda>u. us_username u = username) (user_table db))) (\<lambda>found.
     case found of None \<Rightarrow> raise (UserNotFoundException username) | Some u \<Rightarrow> ret u)"

text \<open>The update of no row is no \<open>IntegrityError\<close>, and no other one can be: the column has no key.\<close>

definition repo_update_user :: "string \<Rightarrow> bool \<Rightarrow> ('w, unit) uprog" where
  "repo_update_user username email_alerts =
     change_db (\<lambda>db. db\<lparr>user_table :=
       sql_update (\<lambda>u. us_username u = username) (\<lambda>u. u\<lparr>us_email_alerts := email_alerts\<rparr>) (user_table db)\<rparr>)"

definition repo_get_user_preferences :: "string \<Rightarrow> ('w, user_preference list) uprog" where
  "repo_get_user_preferences username =
     andthen (in_db (\<lambda>db. concat (map (\<lambda>p. map (\<lambda>_. p)
        (filter (\<lambda>u. us_row_id u = pf_user_row_id p \<and> us_username u = username) (user_table db))) (preference_table db)))) (\<lambda>rows.
     of_sum (smap user_preference_from_db_model rows))"

text \<open>The rows of a deleted user go with it.\<close>

definition repo_delete_user :: "string \<Rightarrow> ('w, unit) uprog" where
  "repo_delete_user username =
     andthen (in_db (\<lambda>db. map us_row_id (filter (\<lambda>u. us_username u = username) (user_table db)))) (\<lambda>gone.
     andthen (change_db (\<lambda>db.
        \<lparr>user_table = filter (\<lambda>u. us_username u \<noteq> username) (user_table db),
         preference_table = filter (\<lambda>p. pf_user_row_id p \<notin> set gone) (preference_table db),
         vote_table = filter (\<lambda>v. vt_user_row_id v \<notin> set gone) (vote_table db),
         feedback_table = filter (\<lambda>f. fb_user_row_id f \<notin> set gone) (feedback_table db)\<rparr>)) (\<lambda>_.
     if gone = [] then raise (UserNotFoundException username) else ret ()))"

definition user_row_of :: "int \<Rightarrow> bool \<Rightarrow> string \<Rightarrow> new_user \<Rightarrow> user_row" where
  "user_row_of row_id status username user =
     \<lparr>us_row_id = row_id, us_username = username, us_account_id = nu_account_id user, us_name = nu_name user,
      us_email = nu_email user, us_email_verified = nu_email_verified user, us_email_alerts = nu_email_alerts user,
      us_status = status, us_terms_accepted = nu_terms_accepted user\<rparr>"

definition next_user_row_id :: "('w, int) uprog" where
  "next_user_row_id = andthen (gets user_numbers) (\<lambda>n. andthen (modify (\<lambda>w. w\<lparr>user_numbers := n + 1\<rparr>)) (\<lambda>_. ret n))"

text \<open>The row a duplicate key is about: the unique keys are tried in the order of their creation.\<close>

definition duplicate_of :: "user_row \<Rightarrow> user_row list \<Rightarrow> user_row option" where
  "duplicate_of r t =
     (case sql_first (\<lambda>u. us_account_id u = us_account_id r) t of
        Some u \<Rightarrow> Some u
      | None \<Rightarrow> (case sql_first (\<lambda>u. us_email u = us_email r) t of
          Some u \<Rightarrow> Some u
        | None \<Rightarrow> sql_first (\<lambda>u. us_username u = us_username r) t))"

definition upsert_user :: "new_user \<Rightarrow> ('w, unit) uprog" where
  "upsert_user user =
     andthen next_user_row_id (\<lambda>row_id.
     let r = user_row_of row_id (nu_status user) (nu_username user) user in
     andthen (in_db (\<lambda>db. duplicate_of r (user_table db))) (\<lambda>duplicate.
     case duplicate of
       None \<Rightarrow> change_db (\<lambda>db. db\<lparr>user_table := user_table db @ [r]\<rparr>)
     | Some u \<Rightarrow>
         andthen (in_db (\<lambda>db. \<exists>v \<in> set (user_table db). us_row_id v \<noteq> us_row_id u \<and> us_email v = us_email r)) (\<lambda>taken.
         if taken then raise IntegrityError
         else change_db (\<lambda>db. db\<lparr>user_table := sql_update (\<lambda>v. us_row_id v = us_row_id u)
                (\<lambda>v. v\<lparr>us_name := us_name r, us_email := us_email r\<rparr>) (user_table db)\<rparr>))))"

definition batch_insert_users :: "new_user list \<Rightarrow> ('w, unit) uprog" where
  "batch_insert_users users =
     (if users = [] then ret ()
      else andthen (of_sum (chunked users 100)) (\<lambda>batches. for_each batches (\<lambda>batch. for_each batch upsert_user)))"

definition insert_user :: "new_user \<Rightarrow> ('w, unit) uprog" where
  "insert_user user =
     andthen next_user_row_id (\<lambda>row_id.
     let r = user_row_of row_id (nu_email_verified user) (nu_email user) user in
     andthen (in_db (\<lambda>db. duplicate_of r (user_table db))) (\<lambda>duplicate.
     if duplicate \<noteq> None then raise (UserAlreadyExistsException (nu_email user))
     else change_db (\<lambda>db. db\<lparr>user_table := user_table db @ [r]\<rparr>)))"

definition same_vote :: "int \<Rightarrow> string \<Rightarrow> string \<Rightarrow> vote_row \<Rightarrow> bool" where
  "same_vote user_row_id org_id service_id v \<longleftrightarrow>
     vt_user_row_id v = user_row_id \<and> vt_org_id v = org_id \<and> vt_service_id v = service_id"

definition update_or_set_user_vote :: "'w dapp_env \<Rightarrow> service_vote \<Rightarrow> ('w, unit) uprog" where
  "update_or_set_user_vote env vote =
     (let same = same_vote (sv_user_row_id vote) (sv_org_id vote) (sv_service_id vote) in
      andthen (in_db (\<lambda>db. filter same (vote_table db))) (\<lambda>rows.
      andthen (of_sum (scalar_one_or_none rows)) (\<lambda>existing.
      andthen (of_sum (rating_column env (sv_rating vote))) (\<lambda>rating.
      change_db (\<lambda>db. db\<lparr>vote_table :=
        (case existing of
           Some _ \<Rightarrow> sql_update same (\<lambda>v. v\<lparr>vt_rating := Some rating\<rparr>) (vote_table db)
         | None \<Rightarrow> vote_table db @
             [\<lparr>vt_user_row_id = sv_user_row_id vote, vt_org_id = sv_org_id vote, vt_service_id = sv_service_id vote,
               vt_rating = Some rating\<rparr>])\<rparr>)))))"

definition same_feedback :: "int \<Rightarrow> string \<Rightarrow> string \<Rightarrow> feedback_row \<Rightarrow> bool" where
  "same_feedback user_row_id org_id service_id f \<longleftrightarrow>
     fb_user_row_id f = user_row_id \<and> fb_org_id f = org_id \<and> fb_service_id f = service_id"

definition update_or_set_user_feedback :: "service_feedback \<Rightarrow> ('w, unit) uprog" where
  "update_or_set_user_feedback feedback =
     (let same = same_feedback (sf_user_row_id feedback) (sf_org_id feedback) (sf_service_id feedback) in
      andthen (in_db (\<lambda>db. filter same (feedback_table db))) (\<lambda>rows.
      andthen (of_sum (scalar_one_or_none rows)) (\<lambda>existing.
      change_db (\<lambda>db. db\<lparr>feedback_table :=
        (case existing of
           Some _ \<Rightarrow> sql_update same (\<lambda>f. f\<lparr>fb_comment := Some (sf_comment feedback)\<rparr>) (feedback_table db)
         | None \<Rightarrow> feedback_table db @
             [\<lparr>fb_user_row_id = sf_user_row_id feedback, fb_org_id = sf_org_id feedback,
               fb_service_id = sf_service_id feedback, fb_comment = Some (sf_comment feedback)\<rparr>])\<rparr>))))"

text \<open>\<open>AVG\<close> of tenths has five decimals, the last rounded half away from zero; \<open>float\<close> of it is written
  by \<open>repr\<close> without the zeros at its end.\<close>

definition avg_of :: "int list \<Rightarrow> int" where
  "avg_of ratings =
     (let s = sum_list ratings * 10000; n = int (length ratings) in sgn s * ((2 * \<bar>s\<bar> + n) div (2 * n)))"

definition trailing_zeros_removed :: "string \<Rightarrow> string" where
  "trailing_zeros_removed ds = rev (dropWhile ((=) CHR ''0'') (rev ds))"

definition float_of_avg :: "int \<Rightarrow> string" where
  "float_of_avg n =
     (let a = nat \<bar>n\<bar>; frac = trailing_zeros_removed (pad 5 (a mod 100000)) in
      (if n < 0 then ''-'' else []) @
      (if 0 < a \<and> a < 10 then str_nat a @ ''e-05''
       else str_nat (a div 100000) @ ''.'' @ (if frac = [] then ''0'' else frac)))"

definition aggregate_service_rating :: "string \<Rightarrow> string \<Rightarrow> ('w, string \<times> int) uprog" where
  "aggregate_service_rating org_id service_id =
     in_db (\<lambda>db.
       let ratings = List.map_filter vt_rating (filter (\<lambda>v. vt_org_id v = org_id \<and> vt_service_id v = service_id) (vote_table db)) in
       (if ratings = [] then ''0.0'' else float_of_avg (avg_of ratings), int (length ratings)))"

definition submit_user_review :: "'w dapp_env \<Rightarrow> service_vote \<Rightarrow> service_feedback option \<Rightarrow> ('w, string \<times> int) uprog" where
  "submit_user_review env user_vote user_feedback =
     andthen (excepting [''IntegrityError''] (update_or_set_user_vote env user_vote) VoteAlreadyExistsException) (\<lambda>_.
     andthen (case user_feedback of
                None \<Rightarrow> ret ()
              | Some f \<Rightarrow> excepting [''IntegrityError''] (update_or_set_user_feedback f) FeedbackAlreadyExistsException) (\<lambda>_.
     aggregate_service_rating (sv_org_id user_vote) (sv_service_id user_vote)))"

text \<open>The comments of the user joined with the votes of the user on the same service.\<close>

definition reviews_of :: "string \<Rightarrow> string \<Rightarrow> string \<Rightarrow> dapp_db \<Rightarrow> (feedback_row \<times> vote_row) list" where
  "reviews_of username org_id service_id db =
     [(f, v). f \<leftarrow> feedback_table db, u \<leftarrow> user_table db, v \<leftarrow> vote_table db,
        us_row_id u = fb_user_row_id f \<and> same_vote (us_row_id u) (fb_org_id f) (fb_service_id f) v
        \<and> us_username u = username \<and> fb_org_id f = org_id \<and> fb_service_id f = service_id]"

definition get_user_service_vote_and_feedback ::
  "string \<Rightarrow> string \<Rightarrow> string \<Rightarrow> ('w, (feedback_row \<times> vote_row) option) uprog" where
  "get_user_service_vote_and_feedback username org_id service_id =
     andthen (in_db (reviews_of username org_id service_id)) (\<lambda>rows. of_sum (scalar_one_or_none rows))"

definition get_user_service_feedback :: "string \<Rightarrow> string \<Rightarrow> string \<Rightarrow> ('w, feedback_row option) uprog" where
  "get_user_service_feedback username org_id service_id =
     andthen (in_db (\<lambda>db. [f. f \<leftarrow> feedback_table db, u \<leftarrow> user_table db,
        us_row_id u = fb_user_row_id f \<and> us_username u = username \<and> fb_org_id f = org_id \<and> fb_service_id f = service_id]))
       (\<lambda>rows. of_sum (scalar_one_or_none rows))"

definition get_user_service_vote :: "int \<Rightarrow> string \<Rightarrow> string \<Rightarrow> ('w, vote_row option) uprog" where
  "get_user_service_vote user_row_id org_id service_id =
     andthen (in_db (\<lambda>db. filter (same_vote user_row_id org_id service_id) (vote_table db)))
       (\<lambda>rows. of_sum (scalar_one_or_none rows))"

section \<open>Clients\<close>

text \<open>\<open>infrastructure/cognito\_api.py\<close>: the pages of the pool until one has no token, which may be never.\<close>

definition attr_map :: "pyval \<Rightarrow> exn + pydict" where
  "attr_map user =
     sbind (case user of PDict d \<Rightarrow> Inr (case dict_get d ''Attributes'' of None \<Rightarrow> PList [] | Some v \<Rightarrow> v) | _ \<Rightarrow> Inl AttributeError) (\<lambda>attributes.
     case attributes of
       PList items \<Rightarrow>
         sbind (smap (\<lambda>a. sbind (sbind (getitem a ''Name'') as_text) (\<lambda>n. sbind (getitem a ''Value'') (\<lambda>v. Inr (n, v)))) items) (\<lambda>pairs.
         Inr (fold (\<lambda>(n, v) d. dict_set n v d) pairs []))
     | _ \<Rightarrow> Inl TypeError)"

definition parse_terms_accepted :: "'w dapp_env \<Rightarrow> pyval \<Rightarrow> bool" where
  "parse_terms_accepted env v =
     (case v of
        PStr s \<Rightarrow> s \<noteq> [] \<and> (case loads env s of Inr (PDict d) \<Rightarrow> dict_get d ''accepted'' = Some (PBool True) | _ \<Rightarrow> False)
      | _ \<Rightarrow> False)"

definition user_of_pool :: "'w dapp_env \<Rightarrow> pyval \<Rightarrow> exn + new_user option" where
  "user_of_pool env user =
     sbind (attr_map user) (\<lambda>attrs.
     let nickname = (case dict_get attrs ''nickname'' of None \<Rightarrow> PNone | Some v \<Rightarrow> v) in
     if \<not> truthy nickname then Inr None
     else
       sbind (sbind (getitem (PDict attrs) ''sub'') as_text) (\<lambda>sub.
       sbind (sbind (getitem (PDict attrs) ''email'') as_text) (\<lambda>email.
       sbind (as_text nickname) (\<lambda>name.
       Inr (Some \<lparr>nu_account_id = sub, nu_username = email, nu_name = name, nu_email = email,
         nu_email_verified = True, nu_email_alerts = True, nu_status = True,
         nu_terms_accepted = parse_terms_accepted env
           (case dict_get attrs ''custom:publisher_tnc'' of None \<Rightarrow> PNone | Some v \<Rightarrow> v)\<rparr>)))))"

partial_function (option) pool_pages ::
  "'w dapp_env \<Rightarrow> string option \<Rightarrow> new_user list \<Rightarrow> (exn + new_user list) option" where
  "pool_pages env token users =
     (case sbind (list_users env token) (\<lambda>page. sbind (smap (user_of_pool env) (cp_users page)) (\<lambda>found.
             Inr (users @ List.map_filter id found, cp_token page))) of
        Inl e \<Rightarrow> Some (Inl e)
      | Inr (users, next_token) \<Rightarrow>
          (if next_token = None \<or> next_token = Some [] then Some (Inr users) else pool_pages env next_token users))"

definition get_all_users :: "'w dapp_env \<Rightarrow> (exn + new_user list) option" where
  "get_all_users env = pool_pages env None []"

datatype token_symbol = AGIX | FET

text \<open>\<open>infrastructure/wallets\_api\_client.py\<close>: the client names the lambda of the ratings.\<close>

definition delete_user_wallet :: "'w dapp_env \<Rightarrow> string \<Rightarrow> token_symbol \<Rightarrow> ('w, bool) uprog" where
  "delete_user_wallet env username token_name =
     (let lambda_arn = (case token_name of FET \<Rightarrow> UPDATE_SERVICE_RATING_FET | AGIX \<Rightarrow> UPDATE_SERVICE_RATING_AGIX) in
      andthen (try_except
        (andthen (of_sum (json_dumps (PDict [(''httpMethod'', PStr ''DELETE''),
           (''pathParameters'', PDict [(''username'', PStr username)])]))) (\<lambda>payload.
         elsewhere (lambda_invoke env lambda_arn payload)))
        (\<lambda>e. raise (PyExc ''DeleteUserWalletError'' (''Failed to invoke delete user wallet lambda: '' @ exn_text env e)))) (\<lambda>response.
      of_sum (sbind (getitem (PDict response) ''StatusCode'') (\<lambda>s. Inr (s = PInt 200)))))"

definition ContractAPIClientError :: "string \<Rightarrow> exn" where
  "ContractAPIClientError message = PyExc ''ContractAPIClientError'' (''Contract API Client response error: '' @ message)"

definition str_exn :: "'w dapp_env \<Rightarrow> exn \<Rightarrow> string" where
  "str_exn env e = (case e of PyExc cls t \<Rightarrow> if cls = ''ContractAPIClientError'' then t else exn_text env e | _ \<Rightarrow> exn_text env e)"

definition update_service_rating ::
  "'w dapp_env \<Rightarrow> string \<Rightarrow> string \<Rightarrow> string \<Rightarrow> int \<Rightarrow> token_symbol \<Rightarrow> ('w, unit) uprog" where
  "update_service_rating env org_id service_id rating total_users_rated token_name = try_except
     (andthen (of_sum (json_dumps (PDict [(''rating'', PFloat rating), (''total_users_rated'', PInt total_users_rated)]))) (\<lambda>body.
      andthen (of_sum (json_dumps (PDict [(''pathParameters'', PDict [(''org_id'', PStr org_id), (''service_id'', PStr service_id)]),
        (''body'', PStr body)]))) (\<lambda>payload.
      andthen (elsewhere (lambda_invoke env
        (case token_name of FET \<Rightarrow> UPDATE_SERVICE_RATING_FET | AGIX \<Rightarrow> UPDATE_SERVICE_RATING_AGIX) payload)) (\<lambda>response.
      of_sum (sbind (getitem (PDict response) ''StatusCode'') (\<lambda>s.
        if s = PInt 200 then Inr ()
        else sbind (sbind (getitem (PDict response) ''FunctionError'') as_text) (\<lambda>t. Inl (ContractAPIClientError t))))))))
     (\<lambda>e. raise (ContractAPIClientError (str_exn env e)))"

section \<open>application/services/user\_service.py\<close>

definition not_found_as_http :: "string \<Rightarrow> ('s, 'a) prog \<Rightarrow> ('s, 'a) prog" where
  "not_found_as_http username m = excepting [''UserNotFoundException''] m (UserNotFoundHTTPException username)"

definition add_or_update_user_preference :: "string \<Rightarrow> user_preference list \<Rightarrow> ('w, string list) uprog" where
  "add_or_update_user_preference username request = not_found_as_http username (session_scope
     (andthen (repo_get_user username) (\<lambda>user. update_user_preferences request (us_row_id user))))"

definition get_user :: "string \<Rightarrow> ('w, pydict) uprog" where
  "get_user username = not_found_as_http username (session_scope
     (andthen (repo_get_user username) (\<lambda>user. ret (user_to_response user))))"

definition get_user_preferences :: "string \<Rightarrow> ('w, pydict list) uprog" where
  "get_user_preferences username =
     andthen (session_scope (repo_get_user_preferences username)) (\<lambda>preferences. ret (map preference_to_dict preferences))"

definition get_token_from_origin :: "string \<Rightarrow> token_symbol" where
  "get_token_from_origin origin = (if substring ''agix'' origin then AGIX else FET)"

definition delete_user :: "'w dapp_env \<Rightarrow> string \<Rightarrow> string \<Rightarrow> ('w, unit) uprog" where
  "delete_user env origin username =
     andthen (not_found_as_http username (session_scope (repo_delete_user username))) (\<lambda>_.
     try_except
       (andthen (delete_user_wallet env username (get_token_from_origin origin)) (\<lambda>_. ret ()))
       (\<lambda>e. case e of
          PyExc cls t \<Rightarrow>
            if cls = ''DeleteUserWalletError'' then
              raise (BadGateway (''Failed to delete user wallet for '' @ username @ '': '' @ t) [])
            else raise e
        | _ \<Rightarrow> raise e))"

text \<open>\<open>None\<close> when the pages of the pool never end.\<close>

definition sync_users :: "'w dapp_env \<Rightarrow> ('w, unit) uprog option" where
  "sync_users env =
     map_option (\<lambda>users. andthen (of_sum users) (\<lambda>users. session_scope (batch_insert_users users))) (get_all_users env)"

definition register_user :: "cognito_event \<Rightarrow> ('w, pydict) uprog" where
  "register_user request =
     (let user = user_from_cognito_request request in
      andthen (session_scope (insert_user user)) (\<lambda>_. ret (new_user_to_dict user)))"

definition update_user :: "string \<Rightarrow> bool \<Rightarrow> ('w, unit) uprog" where
  "update_user username email_alerts =
     excepting [''UserNotFoundException''] (session_scope (repo_update_user username email_alerts))
       (UserNotFoundHTTPException (''User '' @ username @ '' not found''))"

text \<open>\<open>float\<close> of a rating in tenths.\<close>

definition float_of_tenths :: "int \<Rightarrow> string" where
  "float_of_tenths n =
     (if n < 0 then ''-'' else []) @ str_nat (nat \<bar>n\<bar> div 10) @ ''.'' @ str_nat (nat \<bar>n\<bar> mod 10)"

definition get_user_service_review :: "string \<Rightarrow> string \<Rightarrow> string \<Rightarrow> ('w, pydict) uprog" where
  "get_user_service_review username org_id service_id =
     andthen (session_scope (get_user_service_vote_and_feedback username org_id service_id)) (\<lambda>found.
     of_sum (case found of
         None \<Rightarrow> Inr [(''rating'', PNone), (''comment'', PNone)]
       | Some (feedback, vote) \<Rightarrow>
           (case vt_rating vote of
              None \<Rightarrow> Inl TypeError
            | Some rating \<Rightarrow> Inr [(''rating'', PFloat (float_of_tenths rating)), (''comment'', text_or_none (fb_comment feedback))])))"

definition create_user_review :: "'w dapp_env \<Rightarrow> string \<Rightarrow> string \<Rightarrow> review_request \<Rightarrow> ('w, unit) uprog" where
  "create_user_review env origin username request =
     andthen (excepting [''VoteAlreadyExistsException'', ''FeedbackAlreadyExistsException'']
       (session_scope
         (andthen (repo_get_user username) (\<lambda>user.
          let (user_vote, user_feedback) = user_vote_feedback_from_request (us_row_id user) request in
          submit_user_review env user_vote user_feedback)))
       UserReviewAlreadyExistHTTPException) (\<lambda>(rating, total_users_rated).
     try_except
       (update_service_rating env (rv_org_id request) (rv_service_id request) rating total_users_rated
         (get_token_from_origin origin))
       (\<lambda>e. case e of
          PyExc cls t \<Rightarrow>
            if cls = ''ContractAPIClientError'' then
              raise (BadGateway (''Failed to update service rating for '' @ rv_org_id request @ ''/'' @
                rv_service_id request @ '': '' @ t) [])
            else raise e
        | _ \<Rightarrow> raise e))"

section \<open>application/handlers/user\_handlers.py\<close>

definition success_with :: "pyval \<Rightarrow> ('w, lambda_response) uprog" where
  "success_with data = of_sum (generate_lambda_response 200 (PDict [(''status'', PStr ''success''), (''data'', data)]) True)"

definition with_context :: "'w dapp_env \<Rightarrow> pydict \<Rightarrow> (request_context \<Rightarrow> ('w, 'a) uprog) \<Rightarrow> ('w, 'a) uprog" where
  "with_context env event m = andthen (of_sum (RequestContext (offline env) event)) m"

definition get_user_handler :: "'w dapp_env \<Rightarrow> pydict \<Rightarrow> ('w, lambda_response) uprog" where
  "get_user_handler env event = exception_handler (with_context env event (\<lambda>ctx.
     andthen (get_user (rc_username ctx)) (\<lambda>response. success_with (PDict response))))"

definition add_or_update_user_preference_handler :: "'w dapp_env \<Rightarrow> pydict \<Rightarrow> ('w, lambda_response) uprog" where
  "add_or_update_user_preference_handler env event = exception_handler (with_context env event (\<lambda>ctx.
     andthen (of_sum (AddOrUpdateUserPreferencesRequest env event)) (\<lambda>request.
     andthen (add_or_update_user_preference (rc_username ctx) request) (\<lambda>response.
     success_with (PList (map PStr response))))))"

text \<open>The one handler without the decorator: its exceptions leave it.\<close>

definition update_user_alerts_handler :: "'w dapp_env \<Rightarrow> pydict \<Rightarrow> ('w, lambda_response) uprog" where
  "update_user_alerts_handler env event = with_context env event (\<lambda>ctx.
     andthen (of_sum (UpdateUserAlertsRequest env event)) (\<lambda>email_alerts.
     andthen (update_user (rc_username ctx) email_alerts) (\<lambda>_.
     success_with PNone)))"

definition get_user_preferences_handler :: "'w dapp_env \<Rightarrow> pydict \<Rightarrow> ('w, lambda_response) uprog" where
  "get_user_preferences_handler env event = exception_handler (with_context env event (\<lambda>ctx.
     andthen (get_user_preferences (rc_username ctx)) (\<lambda>response. success_with (PList (map PDict response)))))"

definition delete_user_handler :: "'w dapp_env \<Rightarrow> pydict \<Rightarrow> ('w, lambda_response) uprog" where
  "delete_user_handler env event = exception_handler (with_context env event (\<lambda>ctx.
     andthen (of_sum (DeleteUserRequest env event)) (\<lambda>request.
     if request \<noteq> None \<and> request \<noteq> Some [] \<and> request \<noteq> Some (rc_username ctx) then raise UnauthorizedException
     else
       andthen (delete_user env (rc_origin ctx) (rc_username ctx)) (\<lambda>_.
       success_with PNone))))"

definition get_user_service_review_handler :: "'w dapp_env \<Rightarrow> pydict \<Rightarrow> ('w, lambda_response) uprog" where
  "get_user_service_review_handler env event = exception_handler (with_context env event (\<lambda>ctx.
     andthen (of_sum (GetUserFeedbackRequest env event)) (\<lambda>(org_id, service_id).
     andthen (get_user_service_review (rc_username ctx) org_id service_id) (\<lambda>response.
     success_with (PDict response)))))"

definition create_user_review_handler :: "'w dapp_env \<Rightarrow> pydict \<Rightarrow> ('w, lambda_response) uprog" where
  "create_user_review_handler env event = exception_handler (with_context env event (\<lambda>ctx.
     andthen (of_sum (CreateUserServiceReviewRequest env event)) (\<lambda>request.
     andthen (create_user_review env (rc_origin ctx) (rc_username ctx) request) (\<lambda>_.
     success_with PNone))))"

definition post_aws_cognito_signup_handler :: "pydict \<Rightarrow> ('w, pydict) uprog" where
  "post_aws_cognito_signup_handler event = worker_exception_handler
     (case CognitoUserPoolEvent event of
        None \<Rightarrow> raise ValidationError
      | Some cognito_event \<Rightarrow>
          andthen (if ce_trigger_source cognito_event = ''PostConfirmation_ConfirmSignUp''
                   then andthen (register_user cognito_event) (\<lambda>_. ret ()) else ret ()) (\<lambda>_.
          ret event))"

definition sync_users_handler :: "'w dapp_env \<Rightarrow> ('w, pyval) uprog option" where
  "sync_users_handler env =
     map_option (\<lambda>m. try_except (andthen m (\<lambda>_. ret PNone)) (\<lambda>_. ret (PDict []))) (sync_users env)"

end
