(* ===== verification/Dapp_User_Laws.thy ===== *)
theory Dapp_User_Laws
  imports Dapp_User_Service
begin

text \<open>
  What the tables of the user service always satisfy, whatever requests are served, and that they can then be
  read.
\<close>

section \<open>Well-typed tables\<close>

definition preference_key :: "preference_row \<Rightarrow> int \<times> string \<times> string \<times> string" where
  "preference_key p = (pf_user_row_id p, pf_preference_type p, pf_communication_type p, pf_source p)"

definition vote_key :: "vote_row \<Rightarrow> int \<times> string \<times> string" where
  "vote_key v = (vt_user_row_id v, vt_org_id v, vt_service_id v)"

definition feedback_key :: "feedback_row \<Rightarrow> int \<times> string \<times> string" where
  "feedback_key f = (fb_user_row_id f, fb_org_id f, fb_service_id f)"

text \<open>A preference names members of the enumerations.\<close>

definition preference_typed :: "preference_row \<Rightarrow> bool" where
  "preference_typed p \<longleftrightarrow>
     pf_preference_type p \<in> preference_text ` set all_preferences \<and>
     pf_communication_type p \<in> communication_text ` set all_communications \<and>
     pf_source p \<in> source_text ` set all_sources"

definition users_ok :: "int \<Rightarrow> user_row list \<Rightarrow> bool" where
  "users_ok n t \<longleftrightarrow>
     distinct (map us_row_id t) \<and> distinct (map us_username t) \<and> distinct (map us_account_id t) \<and>
     distinct (map us_email t) \<and> (\<forall>i \<in> set (map us_row_id t). i < n)"

definition rows_ok :: "dapp_db \<Rightarrow> bool" where
  "rows_ok db \<longleftrightarrow>
     distinct (map preference_key (preference_table db)) \<and> distinct (map vote_key (vote_table db)) \<and>
     distinct (map feedback_key (feedback_table db)) \<and>
     (\<forall>p \<in> set (preference_table db). preference_typed p \<and> pf_user_row_id p \<in> us_row_id ` set (user_table db)) \<and>
     (\<forall>v \<in> set (vote_table db). vt_rating v \<noteq> None \<and> vt_user_row_id v \<in> us_row_id ` set (user_table db)) \<and>
     (\<forall>f \<in> set (feedback_table db). fb_user_row_id f \<in> us_row_id ` set (user_table db))"

definition typed_world :: "'w dapp_world \<Rightarrow> bool" where
  "typed_world w \<longleftrightarrow> users_ok (user_numbers w) (user_table (dapp_db w)) \<and> rows_ok (dapp_db w)"

definition dapp_evolves :: "'w dapp_world \<Rightarrow> 'w dapp_world \<Rightarrow> bool" where
  "dapp_evolves w w' \<longleftrightarrow> user_numbers w \<le> user_numbers w' \<and> (typed_world w \<longrightarrow> typed_world w')"

interpretation dapp: step_frame dapp_evolves
  by unfold_locales (auto simp: dapp_evolves_def)

text \<open>The same while a user is there.\<close>

definition with_user :: "int \<Rightarrow> 'w dapp_world \<Rightarrow> bool" where
  "with_user i w \<longleftrightarrow> typed_world w \<and> i \<in> us_row_id ` set (user_table (dapp_db w))"

definition user_stays :: "int \<Rightarrow> 'w dapp_world \<Rightarrow> 'w dapp_world \<Rightarrow> bool" where
  "user_stays i w w' \<longleftrightarrow> user_numbers w \<le> user_numbers w' \<and> (with_user i w \<longrightarrow> with_user i w')"

interpretation its_user: step_frame "user_stays i" for i
  by unfold_locales (auto simp: user_stays_def)

lemma in_db_dapp: "stays dapp_evolves (in_db f)" "stays (user_stays i) (in_db f)"
  unfolding in_db_def by (rule dapp.stays_gets its_user.stays_gets)+

lemma elsewhere_dapp: "stays dapp_evolves (elsewhere m)"
  by (auto simp: stays_def elsewhere_def dapp_evolves_def typed_world_def split: prod.split)

lemma next_number_dapp: "stays dapp_evolves next_user_row_id"
  by (auto simp: stays_def next_user_row_id_def andthen_def dapp_evolves_def typed_world_def users_ok_def)

lemma session_scope_dapp: "stays dapp_evolves m \<Longrightarrow> stays dapp_evolves (session_scope m)"
  unfolding stays_def
proof (intro allI)
  fix w
  assume m: "\<forall>s. dapp_evolves s (snd (m s))"
  obtain r w' where run: "m w = (r, w')" by fastforce
  with m have "dapp_evolves w w'" by (metis snd_conv)
  then show "dapp_evolves w (snd (session_scope m w))"
    by (cases r) (auto simp: session_scope_def run dapp_evolves_def typed_world_def users_ok_def)
qed

lemma excepting_dapp: "stays dapp_evolves m \<Longrightarrow> stays dapp_evolves (excepting cs m e)"
  unfolding excepting_def by (auto intro!: dapp.stays_try_except dapp.stays_raise split: exn.split)

lemma excepting_user: "stays (user_stays i) m \<Longrightarrow> stays (user_stays i) (excepting cs m e)"
  unfolding excepting_def by (auto intro!: its_user.stays_try_except its_user.stays_raise split: exn.split)

section \<open>What the operations keep\<close>

lemma preference_typed_update [simp]:
  "preference_typed (r\<lparr>pf_status := a, pf_opt_out_reason := b\<rparr>) = preference_typed r"
  by (simp add: preference_typed_def)

lemma distinct_snoc_key: "distinct (map k t) \<Longrightarrow> filter (\<lambda>r. k r = k x) t = [] \<Longrightarrow> distinct (map k (t @ [x]))"
  by (auto simp: filter_empty_conv)

lemma update_preference_user: "stays (user_stays i) (update_preference i p)"
proof (rule staysI)
  fix w :: "'a dapp_world" and r w'
  assume run: "update_preference i p w = (r, w')"
  let ?rows = "filter (same_preference i p) (preference_table (dapp_db w))"
  let ?new = "\<lparr>pf_user_row_id = i, pf_preference_type = preference_text (up_preference_type p),
    pf_communication_type = communication_text (up_communication_type p), pf_source = source_text (up_source p),
    pf_opt_out_reason = up_opt_out_reason p, pf_status = (up_status p = ENABLED)\<rparr>"
  have key: "same_preference i p = (\<lambda>r. preference_key r = preference_key ?new)"
    by (auto simp: same_preference_def preference_key_def fun_eq_iff)
  have typed: "preference_typed ?new"
    by (cases "up_preference_type p"; cases "up_communication_type p"; cases "up_source p") (auto simp: preference_typed_def)
  show "user_stays i w w'"
  proof (cases ?rows)
    case Nil
    with run have "w' = w\<lparr>dapp_db := (dapp_db w)\<lparr>preference_table := preference_table (dapp_db w) @ [?new]\<rparr>\<rparr>"
      by (simp add: update_preference_def in_db_def change_db_def andthen_def scalar_one_or_none_def)
    moreover have "distinct (map preference_key (preference_table (dapp_db w) @ [?new]))"
      if "rows_ok (dapp_db w)" using that Nil by (intro distinct_snoc_key) (auto simp: rows_ok_def key)
    ultimately show ?thesis
      using typed by (auto simp: user_stays_def with_user_def typed_world_def rows_ok_def)
  next
    case (Cons r1 rest)
    let ?f = "\<lambda>r. r\<lparr>pf_status := (up_status p = ENABLED), pf_opt_out_reason := up_opt_out_reason p\<rparr>"
    have "w' = w \<or> w' = w\<lparr>dapp_db := (dapp_db w)\<lparr>preference_table := sql_update (same_preference i p) ?f (preference_table (dapp_db w))\<rparr>\<rparr>"
      using run Cons by (cases rest) (auto simp: update_preference_def in_db_def change_db_def andthen_def scalar_one_or_none_def)
    moreover have "map preference_key (sql_update (same_preference i p) ?f t) = map preference_key t" for t
      by (rule map_sql_update) (simp add: preference_key_def)
    ultimately show ?thesis
      by (auto simp: user_stays_def with_user_def typed_world_def rows_ok_def set_sql_update)
  qed
qed

lemma update_or_set_user_vote_user:
  assumes "sv_user_row_id v = i"
  shows "stays (user_stays i) (update_or_set_user_vote env v)"
proof (rule staysI)
  fix w :: "'a dapp_world" and r w'
  assume run: "update_or_set_user_vote env v w = (r, w')"
  let ?same = "same_vote (sv_user_row_id v) (sv_org_id v) (sv_service_id v)"
  let ?rows = "filter ?same (vote_table (dapp_db w))"
  show "user_stays i w w'"
  proof (cases "rating_column env (sv_rating v)")
    case (Inl e)
    with run have "w' = w"
      by (auto simp: update_or_set_user_vote_def Let_def in_db_def andthen_def split: sum.splits)
    then show ?thesis by (simp add: its_user.refl)
  next
    case (Inr n)
    let ?new = "\<lparr>vt_user_row_id = sv_user_row_id v, vt_org_id = sv_org_id v, vt_service_id = sv_service_id v, vt_rating = Some n\<rparr>"
    have key: "?same = (\<lambda>r. vote_key r = vote_key ?new)" by (auto simp: same_vote_def vote_key_def fun_eq_iff)
    show ?thesis
    proof (cases ?rows)
      case Nil
      with run Inr have "w' = w\<lparr>dapp_db := (dapp_db w)\<lparr>vote_table := vote_table (dapp_db w) @ [?new]\<rparr>\<rparr>"
        by (simp add: update_or_set_user_vote_def Let_def in_db_def change_db_def andthen_def scalar_one_or_none_def)
      moreover have "distinct (map vote_key (vote_table (dapp_db w) @ [?new]))"
        if "rows_ok (dapp_db w)" using that Nil by (intro distinct_snoc_key) (auto simp: rows_ok_def key)
      ultimately show ?thesis
        using assms by (auto simp: user_stays_def with_user_def typed_world_def rows_ok_def)
    next
      case (Cons r1 rest)
      let ?f = "\<lambda>r. r\<lparr>vt_rating := Some n\<rparr>"
      have "w' = w \<or> w' = w\<lparr>dapp_db := (dapp_db w)\<lparr>vote_table := sql_update ?same ?f (vote_table (dapp_db w))\<rparr>\<rparr>"
        using run Cons Inr by (cases rest) (auto simp: update_or_set_user_vote_def Let_def in_db_def change_db_def andthen_def scalar_one_or_none_def)
      moreover have "map vote_key (sql_update ?same ?f t) = map vote_key t" for t
        by (rule map_sql_update) (simp add: vote_key_def)
      ultimately show ?thesis
        by (auto simp: user_stays_def with_user_def typed_world_def rows_ok_def set_sql_update)
    qed
  qed
qed

lemma update_or_set_user_feedback_user:
  assumes "sf_user_row_id v = i"
  shows "stays (user_stays i) (update_or_set_user_feedback v)"
proof (rule staysI)
  fix w :: "'a dapp_world" and r w'
  assume run: "update_or_set_user_feedback v w = (r, w')"
  let ?same = "same_feedback (sf_user_row_id v) (sf_org_id v) (sf_service_id v)"
  let ?rows = "filter ?same (feedback_table (dapp_db w))"
  let ?new = "\<lparr>fb_user_row_id = sf_user_row_id v, fb_org_id = sf_org_id v, fb_service_id = sf_service_id v,
    fb_comment = Some (sf_comment v)\<rparr>"
  have key: "?same = (\<lambda>r. feedback_key r = feedback_key ?new)" by (auto simp: same_feedback_def feedback_key_def fun_eq_iff)
  show "user_stays i w w'"
  proof (cases ?rows)
    case Nil
    with run have "w' = w\<lparr>dapp_db := (dapp_db w)\<lparr>feedback_table := feedback_table (dapp_db w) @ [?new]\<rparr>\<rparr>"
      by (simp add: update_or_set_user_feedback_def Let_def in_db_def change_db_def andthen_def scalar_one_or_none_def)
    moreover have "distinct (map feedback_key (feedback_table (dapp_db w) @ [?new]))"
      if "rows_ok (dapp_db w)" using that Nil by (intro distinct_snoc_key) (auto simp: rows_ok_def key)
    ultimately show ?thesis
      using assms by (auto simp: user_stays_def with_user_def typed_world_def rows_ok_def)
  next
    case (Cons r1 rest)
    let ?f = "\<lambda>r. r\<lparr>fb_comment := Some (sf_comment v)\<rparr>"
    have "w' = w \<or> w' = w\<lparr>dapp_db := (dapp_db w)\<lparr>feedback_table := sql_update ?same ?f (feedback_table (dapp_db w))\<rparr>\<rparr>"
      using run Cons by (cases rest) (auto simp: update_or_set_user_feedback_def Let_def in_db_def change_db_def andthen_def scalar_one_or_none_def)
    moreover have "map feedback_key (sql_update ?same ?f t) = map feedback_key t" for t
      by (rule map_sql_update) (simp add: feedback_key_def)
    ultimately show ?thesis
      by (auto simp: user_stays_def with_user_def typed_world_def rows_ok_def set_sql_update)
  qed
qed

text \<open>Operations of a user that was found.\<close>

lemma of_found_user:
  assumes "\<And>u. stays (user_stays (us_row_id u)) (f u)"
  shows "stays dapp_evolves (andthen (repo_get_user username) f)"
proof (rule staysI)
  fix w :: "'a dapp_world" and r w'
  assume run: "andthen (repo_get_user username) f w = (r, w')"
  show "dapp_evolves w w'"
  proof (cases "sql_first (\<lambda>u. us_username u = username) (user_table (dapp_db w))")
    case None
    with run have "w' = w" by (auto simp: repo_get_user_def in_db_def andthen_def)
    then show ?thesis by (simp add: dapp.refl)
  next
    case (Some u)
    with run have "f u w = (r, w')" by (simp add: repo_get_user_def in_db_def andthen_def)
    then have "user_stays (us_row_id u) w w'" by (rule staysD [OF assms])
    moreover have "u \<in> set (user_table (dapp_db w))" using sql_first_SomeD [OF Some] by simp
    ultimately show ?thesis by (auto simp: user_stays_def dapp_evolves_def with_user_def)
  qed
qed

lemma add_or_update_dapp: "stays dapp_evolves (add_or_update_user_preference username request)"
  unfolding add_or_update_user_preference_def not_found_as_http_def update_user_preferences_def
  by (intro excepting_dapp session_scope_dapp of_found_user its_user.stays_map_each update_preference_user)

lemma submit_user_review_user:
  assumes "sv_user_row_id v = i" and "\<And>x. f = Some x \<Longrightarrow> sf_user_row_id x = i"
  shows "stays (user_stays i) (submit_user_review env v f)"
  unfolding submit_user_review_def aggregate_service_rating_def using assms
  by (auto split: option.split intro!: its_user.stays_andthen excepting_user update_or_set_user_vote_user
      update_or_set_user_feedback_user its_user.stays_ret in_db_dapp)

lemma create_user_review_dapp: "stays dapp_evolves (create_user_review env origin username request)"
proof -
  have "stays (user_stays (us_row_id u)) (let (user_vote, user_feedback) = user_vote_feedback_from_request (us_row_id u) request in
          submit_user_review env user_vote user_feedback)" for u
    unfolding user_vote_feedback_from_request_def Let_def
    by (auto intro!: submit_user_review_user split: option.splits if_splits)
  then have "stays dapp_evolves (session_scope (andthen (repo_get_user username) (\<lambda>user.
          let (user_vote, user_feedback) = user_vote_feedback_from_request (us_row_id user) request in
          submit_user_review env user_vote user_feedback)))"
    by (intro session_scope_dapp of_found_user)
  then show ?thesis
    unfolding create_user_review_def update_service_rating_def
    by (intro dapp.stays_andthen excepting_dapp)
      (auto intro!: dapp.stays_try_except dapp.stays_andthen dapp.stays_of_sum dapp.stays_raise elsewhere_dapp split: prod.split exn.split)
qed

lemma users_ok_flag:
  "users_ok n (sql_update p (\<lambda>u. u\<lparr>us_email_alerts := b\<rparr>) t) = users_ok n t"
proof -
  have "map us_row_id (sql_update p (\<lambda>u. u\<lparr>us_email_alerts := b\<rparr>) t) = map us_row_id t"
    "map us_username (sql_update p (\<lambda>u. u\<lparr>us_email_alerts := b\<rparr>) t) = map us_username t"
    "map us_account_id (sql_update p (\<lambda>u. u\<lparr>us_email_alerts := b\<rparr>) t) = map us_account_id t"
    "map us_email (sql_update p (\<lambda>u. u\<lparr>us_email_alerts := b\<rparr>) t) = map us_email t"
    by (simp_all add: map_sql_update)
  then show ?thesis unfolding users_ok_def by metis
qed

lemma update_user_dapp: "stays dapp_evolves (update_user username b)"
proof -
  have ids: "us_row_id ` set (sql_update p (\<lambda>u. u\<lparr>us_email_alerts := b\<rparr>) t) = us_row_id ` set t" for p t
    by (rule key_set_update) simp
  have "stays dapp_evolves (repo_update_user username b)"
    by (simp add: stays_def repo_update_user_def change_db_def dapp_evolves_def typed_world_def users_ok_flag rows_ok_def ids)
  then show ?thesis unfolding update_user_def by (intro excepting_dapp session_scope_dapp)
qed

lemma repo_delete_user_dapp: "stays dapp_evolves (repo_delete_user username)"
proof (rule staysI)
  fix w :: "'a dapp_world" and r w'
  assume run: "repo_delete_user username w = (r, w')"
  let ?gone = "map us_row_id (filter (\<lambda>u. us_username u = username) (user_table (dapp_db w)))"
  have w': "w' = w\<lparr>dapp_db := \<lparr>user_table = filter (\<lambda>u. us_username u \<noteq> username) (user_table (dapp_db w)),
         preference_table = filter (\<lambda>p. pf_user_row_id p \<notin> set ?gone) (preference_table (dapp_db w)),
         vote_table = filter (\<lambda>v. vt_user_row_id v \<notin> set ?gone) (vote_table (dapp_db w)),
         feedback_table = filter (\<lambda>f. fb_user_row_id f \<notin> set ?gone) (feedback_table (dapp_db w))\<rparr>\<rparr>"
    using run by (auto simp: repo_delete_user_def in_db_def change_db_def andthen_def simp del: set_map split: if_splits)
  have "users_ok n (filter P t)" if "users_ok n t" for n P t
    using that by (auto simp: users_ok_def distinct_map_filter)
  moreover have "i \<in> us_row_id ` set (filter (\<lambda>u. us_username u \<noteq> username) (user_table (dapp_db w)))"
    if "i \<in> us_row_id ` set (user_table (dapp_db w))" "i \<notin> set ?gone" for i
    using that by auto
  ultimately show "dapp_evolves w w'"
    unfolding w' dapp_evolves_def typed_world_def rows_ok_def by (simp add: distinct_map_filter del: set_map)
qed

lemma delete_user_dapp: "stays dapp_evolves (delete_user env origin username)"
  unfolding delete_user_def not_found_as_http_def delete_user_wallet_def Let_def
  by (intro dapp.stays_andthen excepting_dapp session_scope_dapp repo_delete_user_dapp dapp.stays_try_except
      dapp.stays_of_sum dapp.stays_ret dapp.stays_raise elsewhere_dapp)
    (auto intro!: dapp.stays_raise split: exn.split)

lemma duplicate_none:
  "duplicate_of r t = None \<Longrightarrow> us_account_id r \<notin> us_account_id ` set t \<and> us_email r \<notin> us_email ` set t \<and>
     us_username r \<notin> us_username ` set t"
  by (auto simp: duplicate_of_def sql_first_None split: option.splits)

lemma duplicate_some: "duplicate_of r t = Some u \<Longrightarrow> u \<in> set t"
  by (auto simp: duplicate_of_def dest: sql_first_SomeD split: option.splits)

lemma add_user_typed:
  assumes "typed_world w" and "duplicate_of r (user_table (dapp_db w)) = None" and "us_row_id r = user_numbers w"
  shows "typed_world (w\<lparr>user_numbers := user_numbers w + 1, dapp_db := (dapp_db w)\<lparr>user_table := user_table (dapp_db w) @ [r]\<rparr>\<rparr>)"
  using assms duplicate_none [OF assms(2)]
  by (force simp: typed_world_def users_ok_def rows_ok_def)

lemma insert_user_dapp: "stays dapp_evolves (insert_user u)"
proof (rule staysI)
  fix w :: "'a dapp_world" and r w'
  assume run: "insert_user u w = (r, w')"
  let ?r = "user_row_of (user_numbers w) (nu_email_verified u) (nu_email u) u"
  have "w' = w\<lparr>user_numbers := user_numbers w + 1\<rparr> \<or> duplicate_of ?r (user_table (dapp_db w)) = None \<and>
    w' = w\<lparr>user_numbers := user_numbers w + 1, dapp_db := (dapp_db w)\<lparr>user_table := user_table (dapp_db w) @ [?r]\<rparr>\<rparr>"
    using run by (auto simp: insert_user_def next_user_row_id_def in_db_def change_db_def andthen_def Let_def split: if_splits)
  moreover have "dapp_evolves w (w\<lparr>user_numbers := user_numbers w + 1\<rparr>)"
    by (auto simp: dapp_evolves_def typed_world_def users_ok_def)
  ultimately show "dapp_evolves w w'"
    using add_user_typed [of w ?r] by (auto simp: dapp_evolves_def user_row_of_def)
qed

lemma upsert_user_dapp: "stays dapp_evolves (upsert_user u)"
proof (rule staysI)
  fix w :: "'a dapp_world" and r w'
  assume run: "upsert_user u w = (r, w')"
  let ?r = "user_row_of (user_numbers w) (nu_status u) (nu_username u) u"
  let ?w = "w\<lparr>user_numbers := user_numbers w + 1\<rparr>"
  have number: "dapp_evolves w ?w" by (auto simp: dapp_evolves_def typed_world_def users_ok_def)
  show "dapp_evolves w w'"
  proof (cases "duplicate_of ?r (user_table (dapp_db w))")
    case None
    with run have "w' = w\<lparr>user_numbers := user_numbers w + 1, dapp_db := (dapp_db w)\<lparr>user_table := user_table (dapp_db w) @ [?r]\<rparr>\<rparr>"
      by (simp add: upsert_user_def next_user_row_id_def in_db_def change_db_def andthen_def Let_def)
    with add_user_typed [of w ?r] None show ?thesis by (auto simp: dapp_evolves_def user_row_of_def)
  next
    case (Some x)
    let ?t = "user_table (dapp_db w)"
    let ?p = "\<lambda>v. us_row_id v = us_row_id x"
    let ?f = "\<lambda>v. v\<lparr>us_name := us_name ?r, us_email := us_email ?r\<rparr>"
    show ?thesis
    proof (cases "\<exists>v \<in> set ?t. us_row_id v \<noteq> us_row_id x \<and> us_email v = us_email ?r")
      case True
      with run Some have "w' = ?w"
        by (auto simp: upsert_user_def next_user_row_id_def in_db_def change_db_def andthen_def Let_def split: if_splits)
      with number show ?thesis by simp
    next
      case False
      with run Some have w': "w' = ?w\<lparr>dapp_db := (dapp_db w)\<lparr>user_table := sql_update ?p ?f ?t\<rparr>\<rparr>"
        by (auto simp: upsert_user_def next_user_row_id_def in_db_def change_db_def andthen_def Let_def split: if_splits)
      have same: "map us_row_id (sql_update ?p ?f ?t) = map us_row_id ?t"
        "map us_username (sql_update ?p ?f ?t) = map us_username ?t"
        "map us_account_id (sql_update ?p ?f ?t) = map us_account_id ?t"
        by (simp_all add: map_sql_update)
      have "distinct (map us_email (sql_update ?p ?f t))"
        if "distinct (map us_row_id t)" "distinct (map us_email t)"
          "\<not> (\<exists>v \<in> set t. us_row_id v \<noteq> us_row_id x \<and> us_email v = us_email ?r)" for t
        using that by (induction t) (auto simp: set_sql_update image_iff)
      with same False have "users_ok (user_numbers w) ?t \<Longrightarrow> users_ok (user_numbers w + 1) (sql_update ?p ?f ?t)"
        unfolding users_ok_def by (auto simp del: set_map)
      moreover have "us_row_id ` set (sql_update ?p ?f ?t) = us_row_id ` set ?t" by (rule key_set_update) simp
      ultimately show ?thesis unfolding w' by (simp add: dapp_evolves_def typed_world_def rows_ok_def)
    qed
  qed
qed

section \<open>The service\<close>

datatype dapp_request =
    GetUser pydict | AddOrUpdatePreferences pydict | UpdateAlerts pydict | GetPreferences pydict | DeleteUser pydict
  | GetReview pydict | CreateReview pydict | SignUp pydict | SyncUsers

fun dapp_step :: "'w dapp_env \<Rightarrow> dapp_request \<Rightarrow> 'w dapp_world \<Rightarrow> 'w dapp_world" where
  "dapp_step env (GetUser event) w = snd (get_user_handler env event w)"
| "dapp_step env (AddOrUpdatePreferences event) w = snd (add_or_update_user_preference_handler env event w)"
| "dapp_step env (UpdateAlerts event) w = snd (update_user_alerts_handler env event w)"
| "dapp_step env (GetPreferences event) w = snd (get_user_preferences_handler env event w)"
| "dapp_step env (DeleteUser event) w = snd (delete_user_handler env event w)"
| "dapp_step env (GetReview event) w = snd (get_user_service_review_handler env event w)"
| "dapp_step env (CreateReview event) w = snd (create_user_review_handler env event w)"
| "dapp_step env (SignUp event) w = snd (post_aws_cognito_signup_handler event w)"
| "dapp_step env SyncUsers w = (case sync_users_handler env of None \<Rightarrow> w | Some m \<Rightarrow> snd (m w))"

fun dapp_serve :: "('w dapp_env \<times> dapp_request) list \<Rightarrow> 'w dapp_world \<Rightarrow> 'w dapp_world" where
  "dapp_serve [] w = w"
| "dapp_serve ((env, r) # rs) w = dapp_serve rs (dapp_step env r w)"

lemma with_context_dapp: "(\<And>ctx. stays dapp_evolves (m ctx)) \<Longrightarrow> stays dapp_evolves (with_context env event m)"
  unfolding with_context_def by (intro dapp.stays_andthen dapp.stays_of_sum)

lemma exception_handler_dapp: "stays dapp_evolves m \<Longrightarrow> stays dapp_evolves (exception_handler m)"
  unfolding exception_handler_def by (intro dapp.stays_try_except dapp.stays_of_sum)

lemma read_dapp:
  "stays dapp_evolves (get_user username)" "stays dapp_evolves (get_user_preferences username)"
  "stays dapp_evolves (get_user_service_review username org_id service_id)"
  unfolding get_user_def not_found_as_http_def get_user_preferences_def repo_get_user_preferences_def
    get_user_service_review_def get_user_service_vote_and_feedback_def repo_get_user_def
  by (auto intro!: excepting_dapp session_scope_dapp dapp.stays_andthen in_db_dapp dapp.stays_ret dapp.stays_raise
      dapp.stays_of_sum split: option.split)

lemma register_user_dapp: "stays dapp_evolves (register_user e)"
  unfolding register_user_def Let_def
  by (intro dapp.stays_andthen session_scope_dapp insert_user_dapp dapp.stays_ret)

lemma sync_users_dapp: "sync_users env = Some m \<Longrightarrow> stays dapp_evolves m"
  unfolding sync_users_def batch_insert_users_def
  by (auto intro!: dapp.stays_andthen dapp.stays_of_sum session_scope_dapp dapp.stays_ret dapp.stays_for_each
      upsert_user_dapp)

lemmas dapp_operations = read_dapp add_or_update_dapp update_user_dapp delete_user_dapp create_user_review_dapp
  register_user_dapp

lemma dapp_step_evolves:
  fixes w :: "'a dapp_world"
  shows "dapp_evolves w (dapp_step env r w)"
proof -
  have answer: "stays dapp_evolves (success_with v)" for v
    unfolding success_with_def by (rule dapp.stays_of_sum)
  have returned: "stays dapp_evolves (Pair (Inr v))" for v :: pydict by (simp add: stays_def dapp.refl)
  have handlers: "stays dapp_evolves (get_user_handler env event)"
    "stays dapp_evolves (add_or_update_user_preference_handler env event)"
    "stays dapp_evolves (update_user_alerts_handler env event)"
    "stays dapp_evolves (get_user_preferences_handler env event)"
    "stays dapp_evolves (delete_user_handler env event)"
    "stays dapp_evolves (create_user_review_handler env event)"
    "stays dapp_evolves (post_aws_cognito_signup_handler event :: ('a, pydict) uprog)" for event
    unfolding get_user_handler_def add_or_update_user_preference_handler_def update_user_alerts_handler_def
      get_user_preferences_handler_def delete_user_handler_def create_user_review_handler_def
      post_aws_cognito_signup_handler_def worker_exception_handler_def
    by (auto intro!: exception_handler_dapp with_context_dapp dapp.stays_andthen dapp.stays_of_sum dapp_operations
        dapp.stays_raise dapp.stays_try_except dapp.stays_ret answer returned split: option.split)
  have review: "stays dapp_evolves (get_user_service_review_handler env event)" for event
    unfolding get_user_service_review_handler_def
    by (intro exception_handler_dapp with_context_dapp dapp.stays_andthen dapp.stays_of_sum)
      (auto intro!: dapp.stays_andthen read_dapp answer split: prod.split)
  have sync: "stays dapp_evolves m" if "sync_users_handler env = Some m" for m :: "('a, pyval) uprog"
    using that by (auto simp: sync_users_handler_def intro!: dapp.stays_try_except dapp.stays_andthen dapp.stays_ret sync_users_dapp)
  show ?thesis
    using handlers review sync by (cases r) (auto simp: stays_def dapp.refl split: option.split)
qed

lemma dapp_serve_evolves: "dapp_evolves w (dapp_serve rs w)"
  by (induction rs w rule: dapp_serve.induct) (auto intro: dapp.refl dapp.trans dapp_step_evolves)

section \<open>Reading\<close>

lemma typed_preference_reads: "preference_typed p \<Longrightarrow> \<exists>q. user_preference_from_db_model p = Inr q"
  by (auto simp: preference_typed_def user_preference_from_db_model_def member_of_def)

lemma smap_total: "(\<And>x. x \<in> set xs \<Longrightarrow> \<exists>y. f x = Inr y) \<Longrightarrow> \<exists>ys. smap f xs = Inr ys"
  by (induction xs) fastforce+

lemma preferences_read:
  assumes "rows_ok (dapp_db w)"
  shows "\<exists>ps. fst (get_user_preferences username w) = Inr ps"
proof -
  let ?rows = "concat (map (\<lambda>p. map (\<lambda>_. p)
        (filter (\<lambda>u. us_row_id u = pf_user_row_id p \<and> us_username u = username) (user_table (dapp_db w)))) (preference_table (dapp_db w)))"
  have "\<exists>qs. smap user_preference_from_db_model ?rows = Inr qs"
    using assms by (intro smap_total) (auto simp: rows_ok_def intro: typed_preference_reads)
  then show ?thesis
    by (auto simp: get_user_preferences_def repo_get_user_preferences_def session_scope_def in_db_def andthen_def)
qed

text \<open>At most one element of a list of distinct keys has a given key.\<close>

lemma one_with_key: "distinct (map k t) \<Longrightarrow> (\<And>r. P r \<Longrightarrow> k r = x) \<Longrightarrow> length (filter P t) \<le> 1"
  by (induction t) (auto simp: image_iff filter_empty_conv)

lemma at_most_one: "length rows \<le> 1 \<Longrightarrow> scalar_one_or_none rows = Inr (first_or_none rows)"
  by (cases rows rule: list.exhaust) (auto simp: scalar_one_or_none_def first_or_none_def split: list.split)

lemma concat_at_most_one:
  assumes "distinct (map k xs)" and "\<And>x. x \<in> set xs \<Longrightarrow> g x \<noteq> [] \<Longrightarrow> k x = c" and "\<And>x. x \<in> set xs \<Longrightarrow> length (g x) \<le> 1"
  shows "length (concat (map g xs)) \<le> 1"
  using assms
proof (induction xs)
  case Nil
  show ?case by simp
next
  case (Cons x xs)
  show ?case
  proof (cases "g x = []")
    case True
    with Cons show ?thesis by simp
  next
    case False
    with Cons.prems(2) have "k x = c" by simp
    with Cons.prems(1,2) have "g y = []" if "y \<in> set xs" for y using that by (force simp: image_iff)
    then have none: "concat (map g xs) = []" by simp
    have "length (g x) \<le> 1" using Cons.prems(3) by simp
    with none show ?thesis by (simp only: list.map concat.simps append_Nil2)
  qed
qed

text \<open>The join has one row at most: its comments have the keys of its votes.\<close>

lemma reviews_bounded:
  assumes "rows_ok db" and "users_ok n (user_table db)"
  shows "length (reviews_of username org_id service_id db) \<le> 1"
proof -
  define uid where "uid = us_row_id (THE u. u \<in> set (user_table db) \<and> us_username u = username)"
  have names: "distinct (map us_username (user_table db))" using assms(2) by (simp add: users_ok_def)
  have uid: "us_row_id u = uid" if u: "u \<in> set (user_table db)" "us_username u = username" for u
  proof -
    have only: "v = u" if "v \<in> set (user_table db) \<and> us_username v = username" for v
      by (rule key_unique [OF names]) (simp_all add: that u)
    have "(THE u. u \<in> set (user_table db) \<and> us_username u = username) = u"
      by (rule the_equality, simp add: u, erule only)
    then show ?thesis by (simp add: uid_def)
  qed
  let ?cond = "\<lambda>f u v. us_row_id u = fb_user_row_id f \<and> same_vote (us_row_id u) (fb_org_id f) (fb_service_id f) v
        \<and> us_username u = username \<and> fb_org_id f = org_id \<and> fb_service_id f = service_id"
  have votes: "length (concat (map (\<lambda>v. if ?cond f u v then [(f, v)] else []) (vote_table db))) \<le> 1" for f u
    using assms(1) by (intro concat_at_most_one [where k = vote_key and c = "(us_row_id u, org_id, service_id)"])
      (auto simp: rows_ok_def vote_key_def same_vote_def split: if_splits)
  have users: "length (concat (map (\<lambda>u. concat (map (\<lambda>v. if ?cond f u v then [(f, v)] else []) (vote_table db))) (user_table db))) \<le> 1" for f
    using assms(2) votes by (intro concat_at_most_one [where k = us_username and c = username])
      (auto simp: users_ok_def split: if_splits)
  show ?thesis
    unfolding reviews_of_def using assms(1) users
    by (intro concat_at_most_one [where k = feedback_key and c = "(uid, org_id, service_id)"])
      (auto simp: rows_ok_def feedback_key_def uid split: if_splits)
qed

lemma review_reads:
  assumes "typed_world w"
  shows "\<exists>d. fst (get_user_service_review username org_id service_id w) = Inr d"
proof -
  let ?rows = "reviews_of username org_id service_id (dapp_db w)"
  have "scalar_one_or_none ?rows = Inr (first_or_none ?rows)"
    using assms reviews_bounded by (intro at_most_one) (auto simp: typed_world_def)
  moreover have "\<exists>n. vt_rating v = Some n" if "?rows = (f, v) # rest" for f v rest
  proof -
    have "(f, v) \<in> set ?rows" using that by simp
    then show ?thesis using assms by (auto simp: reviews_of_def typed_world_def rows_ok_def)
  qed
  ultimately show ?thesis
    by (cases ?rows) (auto simp: get_user_service_review_def get_user_service_vote_and_feedback_def session_scope_def in_db_def
        andthen_def first_or_none_def split: prod.split)
qed

text \<open>
  C28. The tables stay well typed under every mix of requests, sign-ups and synchronisations: unique keys, preferences
  that name members of the enumerations, ratings that are numbers, and votes, comments and preferences
  of existing users only. So every user's preferences and reviews can be read without an exception.
\<close>

theorem dapp_tables_well_typed:
  assumes "typed_world w"
  shows "typed_world (dapp_serve requests w) \<and>
    (\<exists>ps. fst (get_user_preferences username (dapp_serve requests w)) = Inr ps) \<and>
    (\<exists>d. fst (get_user_service_review username org_id service_id (dapp_serve requests w)) = Inr d)"
proof -
  have "typed_world (dapp_serve requests w)"
    using dapp_serve_evolves [of w requests] assms by (simp add: dapp_evolves_def)
  moreover have "rows_ok (dapp_db (dapp_serve requests w))" using calculation by (simp add: typed_world_def)
  ultimately show ?thesis
    using preferences_read review_reads by blast
qed

definition demo_dapp_env :: "unit dapp_env" where
  "demo_dapp_env =
     \<lparr>offline = False, loads = json_loads, formatted_errors = (\<lambda>_ _. PList []),
      lambda_invoke = (\<lambda>_ _. ret [(''StatusCode'', PInt 200)]), list_users = (\<lambda>_. Inr \<lparr>cp_users = [], cp_token = None\<rparr>),
      rating_column = (\<lambda>t. Inr (if t = ''4.0'' then 40 else 25)), float_value = (\<lambda>v. Some ''4.0''), exn_text = (\<lambda>_. [])\<rparr>"

definition demo_user :: user_row where
  "demo_user = \<lparr>us_row_id = 1, us_username = ''a@b'', us_account_id = ''acc'', us_name = ''A'', us_email = ''a@b'',
     us_email_verified = True, us_email_alerts = False, us_status = True, us_terms_accepted = True\<rparr>"

definition demo_preference :: preference_row where
  "demo_preference = \<lparr>pf_user_row_id = 1, pf_preference_type = ''WEEKLY_SUMMARY'', pf_communication_type = ''EMAIL'',
     pf_source = ''RFAI_DAPP'', pf_opt_out_reason = None, pf_status = True\<rparr>"

definition demo_dapp_world :: "unit dapp_world" where
  "demo_dapp_world = \<lparr>dapp_db = \<lparr>user_table = [demo_user], preference_table = [demo_preference], vote_table = [],
     feedback_table = []\<rparr>, user_numbers = 2, outside = ()\<rparr>"

lemma typed_demo: "typed_world demo_dapp_world"
  by (simp add: typed_world_def users_ok_def rows_ok_def demo_dapp_world_def demo_user_def demo_preference_def
      preference_typed_def)

lemma dapp_tables_well_typed_witness:
  "\<exists>ps. fst (get_user_preferences ''a@b'' (dapp_serve [(demo_dapp_env, SyncUsers), (demo_dapp_env, DeleteUser [])] demo_dapp_world)) = Inr ps"
  using dapp_tables_well_typed [OF typed_demo] by blast

end
