(* ===== verification/Dapp_User_Reviews.thy ===== *)
theory Dapp_User_Reviews
  imports Dapp_User_Laws
begin

text \<open>
  The rating the user service tells the marketplace against a reference, reviews that cannot be read back, and
  the lambda a deleted user's wallet is left to.
\<close>

section \<open>The rating of a service\<close>

text \<open>The reference: the latest rating of each user, and their mean in units of 10^-5.\<close>

definition rate :: "(string \<Rightarrow> int) \<Rightarrow> string \<Rightarrow> string \<Rightarrow> service_vote \<Rightarrow> (int \<times> int) list \<Rightarrow> (int \<times> int) list" where
  "rate tenths org_id service_id v ratings =
     (if sv_org_id v = org_id \<and> sv_service_id v = service_id then AList.update (sv_user_row_id v) (tenths (sv_rating v)) ratings
      else ratings)"

definition latest_ratings :: "(string \<Rightarrow> int) \<Rightarrow> string \<Rightarrow> string \<Rightarrow> service_vote list \<Rightarrow> int list" where
  "latest_ratings tenths org_id service_id votes = map snd (fold (rate tenths org_id service_id) votes [])"

definition store_vote :: "service_vote \<Rightarrow> int \<Rightarrow> vote_row list \<Rightarrow> vote_row list" where
  "store_vote v n t =
     (let same = same_vote (sv_user_row_id v) (sv_org_id v) (sv_service_id v) in
      if filter same t = [] then t @ [\<lparr>vt_user_row_id = sv_user_row_id v, vt_org_id = sv_org_id v, vt_service_id = sv_service_id v,
               vt_rating = Some n\<rparr>]
      else sql_update same (\<lambda>v. v\<lparr>vt_rating := Some n\<rparr>) t)"

definition service_votes :: "string \<Rightarrow> string \<Rightarrow> vote_row list \<Rightarrow> (int \<times> int) list" where
  "service_votes org_id service_id t =
     map (\<lambda>v. (vt_user_row_id v, the (vt_rating v))) (filter (\<lambda>v. vt_org_id v = org_id \<and> vt_service_id v = service_id) t)"

lemma update_vote_run:
  assumes "distinct (map vote_key (vote_table (dapp_db w)))" and "rating_column env (sv_rating v) = Inr n"
  shows "update_or_set_user_vote env v w =
    (Inr (), w\<lparr>dapp_db := (dapp_db w)\<lparr>vote_table := store_vote v n (vote_table (dapp_db w))\<rparr>\<rparr>)"
proof -
  let ?same = "same_vote (sv_user_row_id v) (sv_org_id v) (sv_service_id v)"
  have "length (filter ?same (vote_table (dapp_db w))) \<le> 1"
    by (rule one_with_key [OF assms(1)]) (auto simp: same_vote_def vote_key_def)
  from at_most_one [OF this] assms(2) show ?thesis
    by (cases "filter ?same (vote_table (dapp_db w))")
      (auto simp: update_or_set_user_vote_def store_vote_def in_db_def change_db_def andthen_def Let_def first_or_none_def)
qed

lemma store_vote_keys: "distinct (map vote_key t) \<Longrightarrow> distinct (map vote_key (store_vote v n t))"
proof -
  let ?same = "same_vote (sv_user_row_id v) (sv_org_id v) (sv_service_id v)"
  assume t: "distinct (map vote_key t)"
  have "map vote_key (sql_update ?same (\<lambda>v. v\<lparr>vt_rating := Some n\<rparr>) t) = map vote_key t"
    by (rule map_sql_update) (simp add: vote_key_def)
  with t show ?thesis
    by (auto simp: store_vote_def Let_def filter_empty_conv same_vote_def vote_key_def simp del: map_map)
qed

lemma service_votes_store:
  assumes "distinct (map vote_key t)" and "\<forall>r \<in> set t. vt_rating r \<noteq> None"
  shows "service_votes org sid (store_vote v n t) =
    (if sv_org_id v = org \<and> sv_service_id v = sid then AList.update (sv_user_row_id v) n (service_votes org sid t)
     else service_votes org sid t)"
  using assms
proof (induction t)
  case Nil
  show ?case by (simp add: store_vote_def service_votes_def)
next
  case (Cons r t)
  let ?same = "same_vote (sv_user_row_id v) (sv_org_id v) (sv_service_id v)"
  show ?case
  proof (cases "?same r")
    case True
    with Cons.prems(1) have "filter ?same t = []"
      by (auto simp: filter_empty_conv same_vote_def vote_key_def image_iff)
    then have "sql_update ?same (\<lambda>v. v\<lparr>vt_rating := Some n\<rparr>) t = t"
      by (auto simp: sql_update_def filter_empty_conv intro!: map_idI)
    with True show ?thesis by (auto simp: store_vote_def service_votes_def same_vote_def)
  next
    case False
    then have step: "store_vote v n (r # t) = r # store_vote v n t" by (simp add: store_vote_def Let_def)
    have "service_votes org sid (r # u) = (if vt_org_id r = org \<and> vt_service_id r = sid
        then (vt_user_row_id r, the (vt_rating r)) # service_votes org sid u else service_votes org sid u)" for u
      by (simp add: service_votes_def)
    with False Cons step show ?thesis by (auto simp: same_vote_def)
  qed
qed

text \<open>One review stores its vote, whatever it does with its comment.\<close>

definition review_ready :: "'w dapp_world \<Rightarrow> bool" where
  "review_ready w \<longleftrightarrow> distinct (map vote_key (vote_table (dapp_db w))) \<and> distinct (map feedback_key (feedback_table (dapp_db w))) \<and>
     (\<forall>r \<in> set (vote_table (dapp_db w)). vt_rating r \<noteq> None)"

definition mean_of :: "int list \<Rightarrow> string \<times> int" where
  "mean_of ratings = (if ratings = [] then ''0.0'' else float_of_avg (avg_of ratings), int (length ratings))"

lemma update_feedback_run:
  assumes "distinct (map feedback_key (feedback_table (dapp_db w)))"
  shows "\<exists>t. update_or_set_user_feedback f w = (Inr (), w\<lparr>dapp_db := (dapp_db w)\<lparr>feedback_table := t\<rparr>\<rparr>) \<and>
    distinct (map feedback_key t)"
proof -
  let ?same = "same_feedback (sf_user_row_id f) (sf_org_id f) (sf_service_id f)"
  let ?t = "feedback_table (dapp_db w)"
  have "length (filter ?same ?t) \<le> 1"
    by (rule one_with_key [OF assms]) (auto simp: same_feedback_def feedback_key_def)
  note one = at_most_one [OF this]
  show ?thesis
  proof (cases "filter ?same ?t")
    case Nil
    let ?new = "\<lparr>fb_user_row_id = sf_user_row_id f, fb_org_id = sf_org_id f, fb_service_id = sf_service_id f,
      fb_comment = Some (sf_comment f)\<rparr>"
    have "update_or_set_user_feedback f w = (Inr (), w\<lparr>dapp_db := (dapp_db w)\<lparr>feedback_table := ?t @ [?new]\<rparr>\<rparr>)"
      using one Nil by (simp add: update_or_set_user_feedback_def in_db_def change_db_def andthen_def Let_def first_or_none_def)
    moreover have "distinct (map feedback_key (?t @ [?new]))"
      using Nil assms by (auto simp: filter_empty_conv same_feedback_def feedback_key_def)
    ultimately show ?thesis by blast
  next
    case (Cons r rest)
    have "map feedback_key (sql_update ?same (\<lambda>r. r\<lparr>fb_comment := Some (sf_comment f)\<rparr>) ?t) = map feedback_key ?t"
      by (rule map_sql_update) (simp add: feedback_key_def)
    with one assms Cons show ?thesis
      by (auto simp: update_or_set_user_feedback_def in_db_def change_db_def andthen_def Let_def first_or_none_def)
  qed
qed

lemma store_vote_rated: "\<forall>r \<in> set t. vt_rating r \<noteq> None \<Longrightarrow> \<forall>r \<in> set (store_vote v n t). vt_rating r \<noteq> None"
  by (auto simp: store_vote_def Let_def set_sql_update split: if_splits)

lemma submit_review_run:
  assumes "review_ready w" and "rating_column env (sv_rating v) = Inr n"
  shows "\<exists>r w'. submit_user_review env v f w = (Inr r, w') \<and> review_ready w' \<and>
    vote_table (dapp_db w') = store_vote v n (vote_table (dapp_db w))"
proof -
  let ?w = "w\<lparr>dapp_db := (dapp_db w)\<lparr>vote_table := store_vote v n (vote_table (dapp_db w))\<rparr>\<rparr>"
  have vote: "excepting cs (update_or_set_user_vote env v) e w = (Inr (), ?w)" for cs e
    using update_vote_run [of w env v n] assms by (simp add: excepting_def try_except_def review_ready_def)
  have ready: "review_ready ?w"
    using assms(1) store_vote_rated [of "vote_table (dapp_db w)" v n] by (simp add: review_ready_def store_vote_keys)
  show ?thesis
  proof (cases f)
    case None
    with vote ready show ?thesis
      by (simp add: submit_user_review_def andthen_def aggregate_service_rating_def in_db_def)
  next
    case (Some x)
    obtain t where "update_or_set_user_feedback x ?w = (Inr (), ?w\<lparr>dapp_db := (dapp_db ?w)\<lparr>feedback_table := t\<rparr>\<rparr>)"
      and "distinct (map feedback_key t)"
      using update_feedback_run [of ?w x] ready by (auto simp: review_ready_def)
    with Some vote ready show ?thesis
      by (simp add: submit_user_review_def andthen_def aggregate_service_rating_def in_db_def excepting_def [where m = "update_or_set_user_feedback x"]
          try_except_def review_ready_def)
  qed
qed

lemma reviews_run:
  assumes "review_ready w" and "\<And>t. rating_column env t = Inr (tenths t)"
  shows "\<exists>rs w'. map_each (\<lambda>(v, f). submit_user_review env v f) reviews w = (Inr rs, w') \<and> review_ready w' \<and>
    service_votes org sid (vote_table (dapp_db w')) =
      fold (rate tenths org sid) (map fst reviews) (service_votes org sid (vote_table (dapp_db w)))"
  using assms(1)
proof (induction reviews arbitrary: w)
  case Nil
  then show ?case by simp
next
  case (Cons r reviews)
  obtain v f where r: "r = (v, f)" by fastforce
  obtain a w1 where one: "submit_user_review env v f w = (Inr a, w1)" "review_ready w1"
    "vote_table (dapp_db w1) = store_vote v (tenths (sv_rating v)) (vote_table (dapp_db w))"
    using submit_review_run [OF Cons.prems assms(2)] by blast
  have "service_votes org sid (vote_table (dapp_db w1)) = rate tenths org sid v (service_votes org sid (vote_table (dapp_db w)))"
    using Cons.prems one(3) by (simp add: service_votes_store review_ready_def rate_def)
  with Cons.IH [OF one(2)] show ?case
    by (auto simp: r one(1) andthen_def)
qed

lemma aggregate_run:
  assumes "\<forall>r \<in> set (vote_table (dapp_db w)). vt_rating r \<noteq> None"
  shows "aggregate_service_rating org sid w = (Inr (mean_of (map snd (service_votes org sid (vote_table (dapp_db w))))), w)"
proof -
  have "List.map_filter vt_rating (filter P t) = map (\<lambda>v. the (vt_rating v)) (filter P t)"
    if "\<forall>r \<in> set t. vt_rating r \<noteq> None" for P and t :: "vote_row list"
    using that by (induction t) (auto simp: List.map_filter_def)
  from this [OF assms] show ?thesis
    by (simp add: aggregate_service_rating_def in_db_def mean_of_def service_votes_def Let_def comp_def)
qed

lemma avg_close:
  assumes "ratings \<noteq> []"
  shows "2 * \<bar>avg_of ratings * int (length ratings) - 10000 * sum_list ratings\<bar> \<le> int (length ratings)"
proof -
  define n where "n = int (length ratings)"
  define s where "s = 10000 * sum_list ratings"
  have n: "0 < n" using assms by (simp add: n_def)
  define q where "q = (2 * \<bar>s\<bar> + n) div (2 * n)"
  have "d * (x div d) \<le> x \<and> x < d * (x div d) + d" if "0 < d" for d x :: int
    using mult_div_mod_eq [of d x] pos_mod_bound [OF that, of x] pos_mod_sign [OF that, of x] by linarith
  from this [of "2 * n" "2 * \<bar>s\<bar> + n"] n
  have "2 * n * q \<le> 2 * \<bar>s\<bar> + n" and "2 * \<bar>s\<bar> + n < 2 * n * q + 2 * n" unfolding q_def by simp_all
  moreover have "2 * \<bar>p - a\<bar> \<le> n" if "2 * p \<le> 2 * a + n" "2 * a + n < 2 * p + 2 * n" for p a :: int
    using that by (auto simp: abs_if)
  ultimately have "2 * \<bar>q * n - \<bar>s\<bar>\<bar> \<le> n" by (simp add: mult.assoc mult.commute [of q])
  moreover have "avg_of ratings = sgn s * q" by (simp add: avg_of_def Let_def q_def n_def s_def mult.commute)
  ultimately show ?thesis
    unfolding n_def [symmetric] s_def [symmetric] by (cases "s = 0") (auto simp: sgn_if abs_if algebra_simps split: if_splits)
qed



section \<open>Reviews without a comment\<close>

lemma elsewhere_keeps_db: "stays (unchanged dapp_db) (elsewhere m)"
  by (auto simp: stays_def unchanged_def elsewhere_def split: prod.split)

lemma update_service_rating_db: "stays (unchanged dapp_db) (update_service_rating env o' s r n t)"
  unfolding update_service_rating_def by (intro same.stays_rules elsewhere_keeps_db)

lemma create_review_run:
  assumes "sql_first (\<lambda>u. us_username u = username) (user_table (dapp_db w)) = Some u" and "rv_comment request \<in> {None, Some []}"
    and "distinct (map vote_key (vote_table (dapp_db w)))" and "create_user_review env origin username request w = (Inr (), w')"
  shows "\<exists>n v. dapp_db w' = (dapp_db w)\<lparr>vote_table := store_vote v n (vote_table (dapp_db w))\<rparr> \<and> sv_user_row_id v = us_row_id u \<and>
    sv_org_id v = rv_org_id request \<and> sv_service_id v = rv_service_id request"
proof -
  let ?v = "\<lparr>sv_user_row_id = us_row_id u, sv_org_id = rv_org_id request, sv_service_id = rv_service_id request,
       sv_rating = rv_user_rating request\<rparr>"
  define body where "body = andthen (repo_get_user username) (\<lambda>user.
          let (user_vote, user_feedback) = user_vote_feedback_from_request (us_row_id user) request in
          submit_user_review env user_vote user_feedback)"
  have review: "body w = submit_user_review env ?v None w"
    using assms(1,2) by (auto simp: body_def repo_get_user_def in_db_def andthen_def user_vote_feedback_from_request_def)
  from assms(4) obtain a w1 where first: "excepting [''VoteAlreadyExistsException'', ''FeedbackAlreadyExistsException'']
       (session_scope body) UserReviewAlreadyExistHTTPException w = (Inr a, w1)" and "dapp_db w' = dapp_db w1"
    unfolding create_user_review_def body_def [symmetric]
    by (elim andthen_InrE) (auto simp: try_except_def split: sum.splits prod.splits exn.splits if_splits
        dest!: staysD [OF update_service_rating_db] simp: unchanged_def)
  moreover have "submit_user_review env ?v None w = (Inr a, w1)"
    using first by (auto simp: excepting_def try_except_def session_scope_def review split: sum.splits prod.splits exn.splits)
  moreover obtain n where n: "rating_column env (rv_user_rating request) = Inr n"
    using calculation(3) by (cases "rating_column env (rv_user_rating request)")
      (auto simp: submit_user_review_def excepting_def try_except_def update_or_set_user_vote_def in_db_def Let_def
        elim!: andthen_InrE split: sum.splits prod.splits exn.splits)
  moreover have "update_or_set_user_vote env ?v w = (Inr (), w\<lparr>dapp_db := (dapp_db w)\<lparr>vote_table := store_vote ?v n (vote_table (dapp_db w))\<rparr>\<rparr>)"
    using update_vote_run [OF assms(3), of env ?v n] n by simp
  ultimately have "dapp_db w' = (dapp_db w)\<lparr>vote_table := store_vote ?v n (vote_table (dapp_db w))\<rparr>"
    by (auto simp: submit_user_review_def excepting_def try_except_def andthen_def aggregate_service_rating_def in_db_def)
  then show ?thesis by force
qed

lemma store_vote_stores: "\<exists>r \<in> set (store_vote v n t). same_vote (sv_user_row_id v) (sv_org_id v) (sv_service_id v) r \<and> vt_rating r = Some n"
proof (cases "\<exists>x \<in> set t. same_vote (sv_user_row_id v) (sv_org_id v) (sv_service_id v) x")
  case True
  then obtain x where x: "x \<in> set t" "same_vote (sv_user_row_id v) (sv_org_id v) (sv_service_id v) x" by blast
  from sql_update_mem [where p = "same_vote (sv_user_row_id v) (sv_org_id v) (sv_service_id v)"
      and f = "\<lambda>v. v\<lparr>vt_rating := Some n\<rparr>", OF x]
  have "x\<lparr>vt_rating := Some n\<rparr> \<in> set (store_vote v n t)"
    using x by (auto simp: store_vote_def Let_def filter_empty_conv)
  with x(2) show ?thesis by (intro bexI [where x = "x\<lparr>vt_rating := Some n\<rparr>"]) (simp_all add: same_vote_def)
next
  case False
  then show ?thesis by (auto simp: store_vote_def Let_def same_vote_def filter_empty_conv)
qed

text \<open>
  A rating without a comment cannot be read back: once such a review is accepted its rating is stored, but
  the user's own review of the service is answered as if there were none.
\<close>

theorem rating_without_comment_unreadable:
  assumes "typed_world w" and "sql_first (\<lambda>u. us_username u = username) (user_table (dapp_db w)) = Some u"
    and "\<forall>f \<in> set (feedback_table (dapp_db w)). \<not> same_feedback (us_row_id u) (rv_org_id request) (rv_service_id request) f"
    and "rv_comment request \<in> {None, Some []}" and "create_user_review env origin username request w = (Inr (), w')"
  shows "(\<exists>v \<in> set (vote_table (dapp_db w')). same_vote (us_row_id u) (rv_org_id request) (rv_service_id request) v \<and> vt_rating v \<noteq> None) \<and>
    fst (get_user_service_review username (rv_org_id request) (rv_service_id request) w') =
      Inr [(''rating'', PNone), (''comment'', PNone)]"
proof -
  have keys: "distinct (map vote_key (vote_table (dapp_db w)))" "distinct (map us_username (user_table (dapp_db w)))"
    using assms(1) by (simp_all add: typed_world_def rows_ok_def users_ok_def)
  from create_review_run [OF assms(2,4) keys(1) assms(5)] obtain n v
    where db: "dapp_db w' = (dapp_db w)\<lparr>vote_table := store_vote v n (vote_table (dapp_db w))\<rparr>"
      and v: "sv_user_row_id v = us_row_id u" "sv_org_id v = rv_org_id request" "sv_service_id v = rv_service_id request" by blast
  have "u' = u" if "u' \<in> set (user_table (dapp_db w))" "us_username u' = username" for u'
    using key_unique [OF keys(2) that(1)] sql_first_SomeD [OF assms(2)] that(2) by simp
  then have "reviews_of username (rv_org_id request) (rv_service_id request) (dapp_db w') = []"
    using assms(3) by (auto simp: reviews_of_def db same_feedback_def)
  then show ?thesis
    using store_vote_stores [of v n "vote_table (dapp_db w)"]
    by (auto simp: db v get_user_service_review_def get_user_service_vote_and_feedback_def session_scope_def in_db_def andthen_def
        scalar_one_or_none_def)
qed

definition demo_review :: review_request where
  "demo_review = \<lparr>rv_org_id = ''o'', rv_service_id = ''s'', rv_user_rating = ''4.0'', rv_comment = None\<rparr>"

lemma rating_without_comment_unreadable_witness:
  "\<exists>w'. create_user_review demo_dapp_env ''https://agix'' ''a@b'' demo_review demo_dapp_world = (Inr (), w') \<and>
     fst (get_user_service_review ''a@b'' ''o'' ''s'' w') = Inr [(''rating'', PNone), (''comment'', PNone)]"
proof -
  obtain w' where run: "create_user_review demo_dapp_env ''https://agix'' ''a@b'' demo_review demo_dapp_world = (Inr (), w')"
    by (simp add: create_user_review_def demo_dapp_env_def demo_dapp_world_def demo_review_def repo_get_user_def in_db_def
        change_db_def user_vote_feedback_from_request_def submit_user_review_def update_or_set_user_vote_def excepting_def
        try_except_def session_scope_def aggregate_service_rating_def scalar_one_or_none_def update_service_rating_def
        elsewhere_def andthen_def demo_user_def getitem_def Let_def split: prod.split)
  have "sql_first (\<lambda>u. us_username u = ''a@b'') (user_table (dapp_db demo_dapp_world)) = Some demo_user"
    and "rv_comment demo_review \<in> {None, Some []}" and "feedback_table (dapp_db demo_dapp_world) = []"
    by (simp_all add: demo_dapp_world_def demo_user_def demo_review_def)
  with rating_without_comment_unreadable [OF typed_demo _ _ _ run] run show ?thesis
    by (simp add: demo_review_def)
qed

section \<open>The wallets of deleted users\<close>

text \<open>
  Deleting a user never calls the lambda that deletes wallets: whatever that lambda would do, the handler
  does and answers the same; the client calls the lambda of the service ratings instead.
\<close>

theorem wallet_lambda_never_called:
  "delete_user_handler (env\<lparr>lambda_invoke := (\<lambda>l. if l \<in> {DELETE_USER_WALLET_FET, DELETE_USER_WALLET_AGIX} then other l
      else lambda_invoke env l)\<rparr>) event w = delete_user_handler env event w"
proof -
  define env' where "env' = env\<lparr>lambda_invoke := (\<lambda>l. if l \<in> {DELETE_USER_WALLET_FET, DELETE_USER_WALLET_AGIX} then other l
      else lambda_invoke env l)\<rparr>"
  have "delete_user_wallet env' = delete_user_wallet env"
    by (intro ext) (simp add: env'_def delete_user_wallet_def Let_def split: token_symbol.split)
  then have "delete_user env' = delete_user env" by (intro ext) (simp add: delete_user_def)
  moreover have "DeleteUserRequest env' = DeleteUserRequest env"
    unfolding DeleteUserRequest_def validated_def parsed_request_def by (intro ext) (simp add: env'_def split: option.split sum.split)
  moreover have "offline env' = offline env" by (simp add: env'_def)
  ultimately show ?thesis unfolding env'_def [symmetric] by (simp add: delete_user_handler_def with_context_def cong: if_cong)
qed

end
