(* ===== verification/Wallets.thy ===== *)
theory Wallets
  imports Json
begin

text \<open>
  The wallet service, \<open>src/wallets\<close>: the wallets of the users, the transactions that open and fund their
  payment channels, the queue of channels to be opened, and the node of the blockchain they are sent to.
\<close>

section \<open>constant.py and domain/models\<close>

datatype wallet_status = ACTIVE | INACTIVE

fun wallet_status_value :: "wallet_status \<Rightarrow> int" where
  "wallet_status_value ACTIVE = 0"
| "wallet_status_value INACTIVE = 1"

definition GENERAL_WALLET_TYPE :: string where
  "GENERAL_WALLET_TYPE = ''GENERAL''"

text \<open>\<open>WalletModel\<close>: its status is the number of its constructor's call, or the truth value of the column.\<close>

record wallet_model =
  wm_row_id :: "int option"
  wm_address :: pyval
  wm_type :: pyval
  wm_encrypted_key :: pyval
  wm_status :: pyval

definition wallet_to_response :: "wallet_model \<Rightarrow> pydict" where
  "wallet_to_response w =
     [(''address'', wm_address w), (''type'', wm_type w), (''private_key'', PNone), (''status'', wm_status w)]"

record user_wallet_model =
  uw_row_id :: int
  uw_username :: pyval
  uw_address :: pyval
  uw_is_default :: bool

definition user_wallet_to_dict :: "user_wallet_model \<Rightarrow> pydict" where
  "user_wallet_to_dict u =
     [(''row_id'', PInt (uw_row_id u)), (''username'', uw_username u), (''address'', uw_address u),
      (''is_default'', PBool (uw_is_default u))]"

record create_channel_event_model =
  ev_row_id :: int
  ev_payload :: string
  ev_status :: string

record channel_transaction =
  ct_order_id :: pyval
  ct_amount :: pyval
  ct_currency :: pyval
  ct_type :: pyval
  ct_address :: pyval
  ct_recipient :: pyval
  ct_signature :: pyval
  ct_org_id :: pyval
  ct_group_id :: pyval
  ct_request_parameters :: pyval
  ct_transaction_hash :: pyval
  ct_status :: string
  ct_row_updated :: "time option"
  ct_row_created :: "time option"

definition time_text :: "time option \<Rightarrow> pyval" where
  "time_text t = (case t of None \<Rightarrow> PNone | Some t \<Rightarrow> PStr (strftime t))"

definition channel_transaction_to_dict :: "channel_transaction \<Rightarrow> pydict" where
  "channel_transaction_to_dict t =
     [(''order_id'', ct_order_id t), (''amount'', ct_amount t), (''currency'', ct_currency t), (''type'', ct_type t),
      (''address'', ct_address t), (''recipient'', ct_recipient t), (''signature'', ct_signature t),
      (''org_id'', ct_org_id t), (''group_id'', ct_group_id t), (''request_parameters'', ct_request_parameters t),
      (''transaction_hash'', ct_transaction_hash t), (''status'', PStr (ct_status t)),
      (''updated_at'', time_text (ct_row_updated t)), (''created_at'', time_text (ct_row_created t))]"

section \<open>infrastructure/models.py\<close>

text \<open>
  The columns the code reads. The two truth columns hold truth values; the times of wallets, user wallets and events
  are never read. A row of \<open>user_wallet\<close> has the fields of its model, as have the rows of the events.
\<close>

record wallet_row =
  wl_row_id :: int
  wl_address :: pyval
  wl_type :: pyval
  wl_encrypted_key :: pyval
  wl_status :: bool

record wallet_db =
  wallet_table :: "wallet_row list"
  user_wallet_table :: "user_wallet_model list"
  event_table :: "create_channel_event_model list"
  transaction_table :: "channel_transaction list"

text \<open>
  One session for all repositories, \<open>default_session\<close>: the first statement begins its transaction, which lasts
  until a commit or a rollback. A number of an \<open>AUTO_INCREMENT\<close> column is used up by a failed insertion too; the
  tables take theirs from one counter, since numbers are only compared within their table.
\<close>

record 'w wallet_world =
  wallet_db :: wallet_db
  in_transaction :: bool
  row_numbers :: int
  outside :: 'w

section \<open>Environment\<close>

text \<open>
  \<open>stored\<close> is what a column holds once a parameter is written to it, \<open>None\<close> when the database refuses the value (a text
  too long, a missing value of a column that needs one). The node and the services of the cloud are programs
  over a state \<open>'w\<close> of their own: \<open>transaction_receipt\<close> gives the \<open>status\<close> of the receipt, \<open>build_transaction\<close> the
  transaction of a method of a contract. \<open>fernet_encrypt\<close> and \<open>fernet_decrypt\<close> work on bytes with the service's key.
\<close>

record 'w wallet_env =
  utcnow :: time
  column_time :: "time \<Rightarrow> time"
  stored :: "string \<Rightarrow> pyval \<Rightarrow> pyval option"
  loads :: "string \<Rightarrow> exn + pyval"
  py_str :: "pyval \<Rightarrow> string"
  tuple_str :: "pyval list \<Rightarrow> string"
  float_less :: "string \<Rightarrow> int \<Rightarrow> bool"
  float_plus :: "string \<Rightarrow> int \<Rightarrow> pyval"
  b64decode_hex :: "pyval \<Rightarrow> exn + string"
  fernet_encrypt :: "nat list \<Rightarrow> ('w, nat list) prog"
  fernet_decrypt :: "nat list \<Rightarrow> exn + nat list"
  ssm_parameter :: "string \<Rightarrow> ('w, string) prog"
  invoke_lambda :: "string \<Rightarrow> string \<Rightarrow> ('w, pyval) prog"
  contract_json :: "string \<Rightarrow> exn + pyval"
  to_checksum_address :: "pyval \<Rightarrow> exn + string"
  account_create :: "('w, string \<times> string) prog"
  transaction_count :: "string \<Rightarrow> ('w, int) prog"
  gas_price :: "('w, int) prog"
  build_transaction :: "pyval \<Rightarrow> string \<Rightarrow> string \<Rightarrow> pyval list \<Rightarrow> pydict \<Rightarrow> ('w, pydict) prog"
  sign_transaction :: "pydict \<Rightarrow> string \<Rightarrow> exn + string"
  send_raw_transaction :: "string \<Rightarrow> ('w, string) prog"
  transaction_receipt :: "pyval \<Rightarrow> ('w, int option) prog"
  NETWORK_ID :: int
  TOKEN_NAME :: string
  STAGE :: string
  SIGNER_ADDRESS :: string
  EXECUTOR_ADDRESS :: string
  EXECUTOR_KEY :: string
  MINIMUM_AMOUNT_IN_COGS_ALLOWED :: int
  GET_RAW_EVENT_DETAILS :: string
  MPE_CNTRCT_PATH :: string
  MPE_ADDR_PATH :: string

type_synonym ('w, 'a) wprog = "('w wallet_world, 'a) prog"

definition elsewhere :: "('w, 'a) prog \<Rightarrow> ('w, 'a) wprog" where
  "elsewhere m = (\<lambda>w. case m (outside w) of (r, o') \<Rightarrow> (r, w\<lparr>outside := o'\<rparr>))"

text \<open>A query, which begins a transaction when there is none, and a change followed by a commit, or by a rollback.\<close>

definition in_session :: "(wallet_db \<Rightarrow> 'a) \<Rightarrow> ('w, 'a) wprog" where
  "in_session f = (\<lambda>w. (Inr (f (wallet_db w)), w\<lparr>in_transaction := True\<rparr>))"

definition committed :: "(wallet_db \<Rightarrow> exn + wallet_db) \<Rightarrow> ('w, unit) wprog" where
  "committed change =
     (\<lambda>w. case change (wallet_db w) of
        Inl e \<Rightarrow> (Inl e, w\<lparr>in_transaction := False\<rparr>)
      | Inr db \<Rightarrow> (Inr (), w\<lparr>wallet_db := db, in_transaction := False\<rparr>))"

definition next_row_id :: "('w, int) wprog" where
  "next_row_id = andthen (gets row_numbers) (\<lambda>n. andthen (modify (\<lambda>w. w\<lparr>row_numbers := n + 1\<rparr>)) (\<lambda>_. ret n))"

definition DataError :: exn where
  "DataError = PyExc ''DataError'' []"

definition column :: "'w wallet_env \<Rightarrow> string \<Rightarrow> pyval \<Rightarrow> exn + pyval" where
  "column env name v = (case stored env name v of None \<Rightarrow> Inl DataError | Some x \<Rightarrow> Inr x)"

section \<open>domain/wallets\_factory.py\<close>

definition convert_wallet_db_model_to_entity_model :: "wallet_row \<Rightarrow> wallet_model" where
  "convert_wallet_db_model_to_entity_model r =
     \<lparr>wm_row_id = Some (wl_row_id r), wm_address = wl_address r, wm_type = wl_type r,
      wm_encrypted_key = wl_encrypted_key r, wm_status = PBool (wl_status r)\<rparr>"

section \<open>infrastructure/repositories/wallet\_repository.py\<close>

definition linked :: "pyval \<Rightarrow> pyval \<Rightarrow> user_wallet_model \<Rightarrow> bool" where
  "linked username address u \<longleftrightarrow> uw_username u = username \<and> uw_address u = address"

definition add_user_for_wallet :: "'w wallet_env \<Rightarrow> pyval \<Rightarrow> pyval \<Rightarrow> ('w, unit) wprog" where
  "add_user_for_wallet env address username = try_except
     (andthen next_row_id (\<lambda>row_id.
      committed (\<lambda>db.
        sbind (column env ''username'' username) (\<lambda>username.
        sbind (column env ''address'' address) (\<lambda>address.
        if \<exists>u \<in> set (user_wallet_table db). linked username address u then Inl IntegrityError
        else Inr (db\<lparr>user_wallet_table := user_wallet_table db @
          [\<lparr>uw_row_id = row_id, uw_username = username, uw_address = address, uw_is_default = False\<rparr>]\<rparr>))))))
     (\<lambda>_. raise (py_exception ''Failed to link user to the wallet''))"

definition wallet_repo_get_wallet_details :: "pyval \<Rightarrow> ('w, wallet_model option) wprog" where
  "wallet_repo_get_wallet_details address =
     in_session (\<lambda>db. map_option convert_wallet_db_model_to_entity_model
       (sql_first (\<lambda>r. wl_address r = address) (wallet_table db)))"

definition insert_wallet :: "'w wallet_env \<Rightarrow> wallet_model \<Rightarrow> ('w, unit) wprog" where
  "insert_wallet env wallet = try_except
     (andthen next_row_id (\<lambda>row_id.
      committed (\<lambda>db.
        sbind (column env ''address'' (wm_address wallet)) (\<lambda>address.
        sbind (column env ''type'' (wm_type wallet)) (\<lambda>wallet_type.
        sbind (column env ''encrypted_key'' (wm_encrypted_key wallet)) (\<lambda>encrypted_key.
        if \<exists>r \<in> set (wallet_table db). wl_address r = address then Inl IntegrityError
        else Inr (db\<lparr>wallet_table := wallet_table db @
          [\<lparr>wl_row_id = row_id, wl_address = address, wl_type = wallet_type, wl_encrypted_key = encrypted_key,
            wl_status = truthy (wm_status wallet)\<rparr>]\<rparr>)))))))
     (\<lambda>_. raise (py_exception ''Failed to insert the wallet''))"

definition get_wallet_data_by_username :: "pyval \<Rightarrow> ('w, (user_wallet_model \<times> wallet_model) list) wprog" where
  "get_wallet_data_by_username username =
     in_session (\<lambda>db. [(u, convert_wallet_db_model_to_entity_model r).
       u \<leftarrow> user_wallet_table db, r \<leftarrow> wallet_table db, uw_address u = wl_address r \<and> uw_username u = username])"

text \<open>\<open>session.begin()\<close> raises when the session has a transaction already.\<close>

definition wallet_repo_set_default_wallet :: "'w wallet_env \<Rightarrow> pyval \<Rightarrow> pyval \<Rightarrow> ('w, unit) wprog" where
  "wallet_repo_set_default_wallet env username address = try_except
     (andthen (gets in_transaction) (\<lambda>begun. committed (\<lambda>db.
        if begun then Inl (PyExc ''InvalidRequestError'' [])
        else Inr (db\<lparr>user_wallet_table :=
          sql_update (\<lambda>u. uw_username u = username \<and> uw_address u \<noteq> address) (\<lambda>u. u\<lparr>uw_is_default := False\<rparr>)
            (sql_update (linked username address) (\<lambda>u. u\<lparr>uw_is_default := True\<rparr>) (user_wallet_table db))\<rparr>))))
     (\<lambda>_. raise (py_exception (''Unable to set default wallet as '' @ py_str env address @ '' for username '' @ py_str env username)))"

definition repo_remove_user_wallet :: "pyval \<Rightarrow> ('w, unit) wprog" where
  "repo_remove_user_wallet username =
     committed (\<lambda>db. Inr (db\<lparr>user_wallet_table := filter (\<lambda>u. uw_username u \<noteq> username) (user_wallet_table db)\<rparr>))"

section \<open>infrastructure/repositories/channel\_repository.py\<close>

text \<open>A missing or empty argument is no condition.\<close>

definition get_channel_transaction_history_data ::
  "pyval \<Rightarrow> string \<Rightarrow> ('w, channel_transaction list) wprog" where
  "get_channel_transaction_history_data transaction_hash status =
     in_session (\<lambda>db. filter (\<lambda>t. (truthy transaction_hash \<longrightarrow> ct_transaction_hash t = transaction_hash) \<and>
       (status \<noteq> [] \<longrightarrow> ct_status t = status)) (transaction_table db))"

definition stored_transaction :: "'w wallet_env \<Rightarrow> channel_transaction \<Rightarrow> exn + channel_transaction" where
  "stored_transaction env t =
     sbind (column env ''order_id'' (ct_order_id t)) (\<lambda>order_id.
     sbind (column env ''amount'' (ct_amount t)) (\<lambda>amount.
     sbind (column env ''currency'' (ct_currency t)) (\<lambda>currency.
     sbind (column env ''type'' (ct_type t)) (\<lambda>transaction_type.
     sbind (column env ''address'' (ct_address t)) (\<lambda>address.
     sbind (column env ''recipient'' (ct_recipient t)) (\<lambda>recipient.
     sbind (column env ''signature'' (ct_signature t)) (\<lambda>signature.
     sbind (column env ''org_id'' (ct_org_id t)) (\<lambda>org_id.
     sbind (column env ''group_id'' (ct_group_id t)) (\<lambda>group_id.
     sbind (column env ''request_parameters'' (ct_request_parameters t)) (\<lambda>request_parameters.
     sbind (column env ''transaction_hash'' (ct_transaction_hash t)) (\<lambda>transaction_hash.
     Inr \<lparr>ct_order_id = order_id, ct_amount = amount, ct_currency = currency, ct_type = transaction_type,
       ct_address = address, ct_recipient = recipient, ct_signature = signature, ct_org_id = org_id,
       ct_group_id = group_id, ct_request_parameters = request_parameters, ct_transaction_hash = transaction_hash,
       ct_status = ct_status t, ct_row_updated = Some (column_time env (utcnow env)),
       ct_row_created = Some (column_time env (utcnow env))\<rparr>)))))))))))"

definition add_channel_transaction_history_record :: "'w wallet_env \<Rightarrow> channel_transaction \<Rightarrow> ('w, unit) wprog" where
  "add_channel_transaction_history_record env t =
     committed (\<lambda>db.
       sbind (stored_transaction env t) (\<lambda>row.
       if \<exists>r \<in> set (transaction_table db). ct_order_id r = ct_order_id row then Inl IntegrityError
       else Inr (db\<lparr>transaction_table := transaction_table db @ [row]\<rparr>)))"

text \<open>
  Three of the assignments end in a comma; the driver writes a tuple of one value like the value. The first row of the
  order is the one that has it, since the column is a key.
\<close>

definition update_channel_transaction_history_status_by_order_id ::
  "'w wallet_env \<Rightarrow> channel_transaction \<Rightarrow> ('w, unit) wprog" where
  "update_channel_transaction_history_status_by_order_id env t =
     andthen (in_session (\<lambda>db. sql_first (\<lambda>r. ct_order_id r = ct_order_id t) (transaction_table db))) (\<lambda>found.
     case found of
       None \<Rightarrow> add_channel_transaction_history_record env t
     | Some _ \<Rightarrow> committed (\<lambda>db.
         sbind (column env ''transaction_hash'' (ct_transaction_hash t)) (\<lambda>transaction_hash.
         sbind (column env ''request_parameters'' (ct_request_parameters t)) (\<lambda>request_parameters.
         Inr (db\<lparr>transaction_table := update_first (\<lambda>r. ct_order_id r = ct_order_id t)
           (\<lambda>r. r\<lparr>ct_transaction_hash := transaction_hash, ct_request_parameters := request_parameters,
              ct_status := ct_status t, ct_row_updated := Some (column_time env (utcnow env))\<rparr>)
           (transaction_table db)\<rparr>)))))"

definition unfinished_of :: "pyval \<Rightarrow> pyval \<Rightarrow> user_wallet_model \<Rightarrow> channel_transaction \<Rightarrow> bool" where
  "unfinished_of org_id group_id u t \<longleftrightarrow>
     uw_address u = ct_address t \<and> ct_status t \<noteq> ''SUCCESS'' \<and> ct_org_id t = org_id \<and> ct_group_id t = group_id"

text \<open>The outer join: a wallet without such a transaction comes once, with none.\<close>

definition outer_join :: "('t \<Rightarrow> bool) \<Rightarrow> 't list \<Rightarrow> 't option list" where
  "outer_join p ts = (if filter p ts = [] then [None] else map Some (filter p ts))"

definition get_channel_transactions_for_username_recipient ::
  "pyval \<Rightarrow> pyval \<Rightarrow> pyval \<Rightarrow> ('w, (user_wallet_model \<times> wallet_model \<times> channel_transaction option) list) wprog" where
  "get_channel_transactions_for_username_recipient username org_id group_id =
     in_session (\<lambda>db. [(u, convert_wallet_db_model_to_entity_model r, t).
       u \<leftarrow> user_wallet_table db, r \<leftarrow> wallet_table db, t \<leftarrow> outer_join (unfinished_of org_id group_id u) (transaction_table db),
       uw_address u = wl_address r \<and> uw_username u = username])"

definition repo_get_channel_transactions_against_order_id :: "pyval \<Rightarrow> ('w, channel_transaction list) wprog" where
  "repo_get_channel_transactions_against_order_id order_id =
     in_session (\<lambda>db. filter (\<lambda>t. ct_order_id t = order_id) (transaction_table db))"

definition persist_create_channel_event :: "pydict \<Rightarrow> ('w, bool) wprog" where
  "persist_create_channel_event payload =
     andthen (of_sum (json_dumps (PDict payload))) (\<lambda>text.
     andthen next_row_id (\<lambda>row_id.
     andthen (committed (\<lambda>db. Inr (db\<lparr>event_table := event_table db @
        [\<lparr>ev_row_id = row_id, ev_payload = text, ev_status = ''PENDING''\<rparr>]\<rparr>))) (\<lambda>_.
     ret True)))"

definition get_one_create_channel_event :: "string \<Rightarrow> ('w, create_channel_event_model option) wprog" where
  "get_one_create_channel_event status = in_session (\<lambda>db. sql_first (\<lambda>e. ev_status e = status) (event_table db))"

definition update_create_channel_event :: "create_channel_event_model \<Rightarrow> string \<Rightarrow> ('w, bool) wprog" where
  "update_create_channel_event event_details status =
     andthen (in_session (\<lambda>db. length (filter (\<lambda>e. ev_row_id e = ev_row_id event_details) (event_table db)))) (\<lambda>matched.
     andthen (committed (\<lambda>db. Inr (db\<lparr>event_table :=
        sql_update (\<lambda>e. ev_row_id e = ev_row_id event_details) (\<lambda>e. e\<lparr>ev_status := status\<rparr>) (event_table db)\<rparr>))) (\<lambda>_.
     ret (matched = 1)))"

end
