(* ===== verification/Wallets_Service.thy ===== *)
theory Wallets_Service
  imports Wallets
begin

text \<open>
  The node of the blockchain as \<open>BlockChainUtil\<close> uses it, the wallet service, the channel service and their handlers.
\<close>

section \<open>infrastructure/blockchain\_util.py\<close>

definition read_contract_address ::
  "'w wallet_env \<Rightarrow> int \<Rightarrow> string \<Rightarrow> string \<Rightarrow> string \<Rightarrow> string \<Rightarrow> exn + string" where
  "read_contract_address env net_id path token_name stage key =
     sbind (contract_json env path) (\<lambda>contract.
     sbind (getitems contract [str_int net_id, token_name, stage, key]) (to_checksum_address env))"

text \<open>The gas price is asked for twice, once for the log.\<close>

definition create_transaction_object ::
  "'w wallet_env \<Rightarrow> pyval list \<Rightarrow> string \<Rightarrow> string \<Rightarrow> string \<Rightarrow> string \<Rightarrow> int \<Rightarrow> string \<Rightarrow> string \<Rightarrow> int option \<Rightarrow> ('w, pydict) wprog" where
  "create_transaction_object env positional_inputs method_name address contract_path contract_address_path net_id
     token_name stage gas =
     andthen (elsewhere (transaction_count env address)) (\<lambda>nonce.
     andthen (of_sum (contract_json env contract_path)) (\<lambda>contract.
     andthen (of_sum (read_contract_address env net_id contract_address_path token_name stage ''address'')) (\<lambda>contract_address.
     andthen (elsewhere (gas_price env)) (\<lambda>_.
     andthen (elsewhere (gas_price env)) (\<lambda>price.
     let options = [(''from'', PStr address), (''nonce'', PInt nonce), (''gasPrice'', PInt (3 * price)), (''chainId'', PInt net_id)] in
     elsewhere (build_transaction env contract contract_address method_name positional_inputs
       (case gas of None \<Rightarrow> options | Some g \<Rightarrow> dict_set ''gas'' (PInt g) options)))))))"

datatype contract_type = REGISTRY | MPE | RFAI | TokenStake | SingularityAirdrop | SingularityOccamAirdrop
  | ConverterAGIX | ConverterNTX | ConverterRJV | ConverterCGV

fun contract_type_value :: "contract_type \<Rightarrow> string" where
  "contract_type_value REGISTRY = ''REGISTRY''"
| "contract_type_value MPE = ''MPE''"
| "contract_type_value RFAI = ''RFAI''"
| "contract_type_value TokenStake = ''TokenStake''"
| "contract_type_value SingularityAirdrop = ''SingularityAirdrop''"
| "contract_type_value SingularityOccamAirdrop = ''SingularityOccamAirdrop''"
| "contract_type_value ConverterAGIX = ''ConverterAGIX''"
| "contract_type_value ConverterNTX = ''ConverterNTX''"
| "contract_type_value ConverterRJV = ''ConverterRJV''"
| "contract_type_value ConverterCGV = ''ConverterCGV''"

definition contract_file :: "string \<Rightarrow> exn + string" where
  "contract_file contract_name =
     (if contract_name = contract_type_value REGISTRY then Inr ''Registry.json''
      else if contract_name = contract_type_value MPE then Inr ''MultiPartyEscrow.json''
      else if contract_name = contract_type_value RFAI then Inr ''ServiceRequest.json''
      else if contract_name = contract_type_value TokenStake then Inr ''TokenStake.json''
      else if contract_name = contract_type_value SingularityAirdrop then Inr ''SingularityAirdrop.json''
      else if contract_name = contract_type_value SingularityOccamAirdrop then Inr ''SingularityOccamAirdrop.json''
      else if contract_name \<in> set (map contract_type_value [ConverterAGIX, ConverterNTX, ConverterRJV, ConverterCGV])
        then Inr ''TokenConversionManager.json''
      else Inl (py_exception (''Invalid contract Type '' @ contract_name)))"

definition get_contract_file_paths :: "string \<Rightarrow> string \<Rightarrow> exn + string \<times> string" where
  "get_contract_file_paths base_path contract_name =
     sbind (contract_file contract_name) (\<lambda>json_file.
     let token =
       (if contract_name = contract_type_value ConverterAGIX then ''AGIX/''
        else if contract_name = contract_type_value ConverterNTX then ''NTX/''
        else if contract_name = contract_type_value ConverterRJV then ''RJV/''
        else if contract_name = contract_type_value ConverterCGV then ''CGV/'' else []) in
     Inr (base_path @ ''/networks/'' @ token @ json_file, base_path @ ''/abi/'' @ json_file))"

section \<open>application/service/wallet\_service.py\<close>

definition encrypt_key :: "'w wallet_env \<Rightarrow> string \<Rightarrow> ('w, string) wprog" where
  "encrypt_key env private_key =
     andthen (of_sum (bytes_fromhex private_key)) (\<lambda>key_in_bytes.
     andthen (elsewhere (fernet_encrypt env key_in_bytes)) (\<lambda>encrypted_key.
     ret (bytes_hex encrypted_key)))"

definition decrypt_key :: "'w wallet_env \<Rightarrow> string \<Rightarrow> exn + string" where
  "decrypt_key env encrypted_key =
     sbind (bytes_fromhex encrypted_key) (\<lambda>encrypted_key_in_bytes.
     sbind (fernet_decrypt env encrypted_key_in_bytes) (\<lambda>decrypted_key. Inr (bytes_hex decrypted_key)))"

definition link_wallet :: "'w wallet_env \<Rightarrow> wallet_model \<Rightarrow> pyval \<Rightarrow> ('w, unit) wprog" where
  "link_wallet env wallet username =
     andthen (wallet_repo_get_wallet_details (wm_address wallet)) (\<lambda>existing_wallet.
     andthen (if existing_wallet = None then insert_wallet env wallet else ret ()) (\<lambda>_.
     add_user_for_wallet env (wm_address wallet) username))"

definition create_and_register_wallet :: "'w wallet_env \<Rightarrow> pyval \<Rightarrow> ('w, pydict) wprog" where
  "create_and_register_wallet env username =
     andthen (elsewhere (account_create env)) (\<lambda>(address, private_key).
     andthen (encrypt_key env private_key) (\<lambda>encrypted_key.
     let wallet = \<lparr>wm_row_id = None, wm_address = PStr address, wm_type = PStr GENERAL_WALLET_TYPE,
       wm_encrypted_key = PStr encrypted_key, wm_status = PInt (wallet_status_value ACTIVE)\<rparr> in
     andthen (link_wallet env wallet username) (\<lambda>_.
     ret (dict_set ''private_key'' (PStr private_key) (wallet_to_response wallet)))))"

definition register_wallet :: "'w wallet_env \<Rightarrow> pyval \<Rightarrow> pyval \<Rightarrow> int \<Rightarrow> pyval \<Rightarrow> ('w, pydict) wprog" where
  "register_wallet env wallet_address wallet_type status username =
     (let wallet = \<lparr>wm_row_id = None, wm_address = wallet_address, wm_type = wallet_type,
        wm_encrypted_key = PNone, wm_status = PInt status\<rparr> in
      andthen (link_wallet env wallet username) (\<lambda>_. ret (wallet_to_response wallet)))"

definition wallet_details :: "'w wallet_env \<Rightarrow> user_wallet_model \<times> wallet_model \<Rightarrow> exn + pyval" where
  "wallet_details env = (\<lambda>(user_wallet, wallet).
     sbind (if wm_encrypted_key wallet = PNone then Inr (wallet_to_response wallet)
            else sbind (as_text (wm_encrypted_key wallet)) (\<lambda>t. sbind (decrypt_key env t) (\<lambda>private_key.
              Inr (dict_set ''private_key'' (PStr private_key) (wallet_to_response wallet))))) (\<lambda>new_wallet.
     Inr (PDict (dict_set ''is_default'' (PBool (uw_is_default user_wallet)) new_wallet))))"

definition get_wallet_details :: "'w wallet_env \<Rightarrow> pyval \<Rightarrow> ('w, pydict) wprog" where
  "get_wallet_details env username =
     andthen (get_wallet_data_by_username username) (\<lambda>wallet_data.
     andthen (of_sum (smap (wallet_details env) wallet_data)) (\<lambda>wallets.
     ret [(''username'', username), (''wallets'', PList wallets)]))"

section \<open>application/service/channel\_service.py\<close>

text \<open>\<open>v < n\<close> and \<open>v + n\<close> for an integer \<open>n\<close>.\<close>

definition less_than :: "'w wallet_env \<Rightarrow> pyval \<Rightarrow> int \<Rightarrow> exn + bool" where
  "less_than env v n =
     (case v of PInt i \<Rightarrow> Inr (i < n) | PBool b \<Rightarrow> Inr (of_bool b < n) | PFloat r \<Rightarrow> Inr (float_less env r n) | _ \<Rightarrow> Inl TypeError)"

definition plus_int :: "'w wallet_env \<Rightarrow> pyval \<Rightarrow> int \<Rightarrow> exn + pyval" where
  "plus_int env v n =
     (case v of PInt i \<Rightarrow> Inr (PInt (i + n)) | PBool b \<Rightarrow> Inr (PInt (of_bool b + n)) | PFloat r \<Rightarrow> Inr (float_plus env r n)
      | _ \<Rightarrow> Inl TypeError)"

definition validate_cogs :: "'w wallet_env \<Rightarrow> pyval \<Rightarrow> exn + unit" where
  "validate_cogs env amount_in_cogs =
     sbind (less_than env amount_in_cogs (MINIMUM_AMOUNT_IN_COGS_ALLOWED env)) (\<lambda>insufficient.
     if insufficient then Inl (py_exception ''Insufficient amount to buy minimum amount in cogs allowed.'') else Inr ())"

text \<open>What both ways to send a transaction have in common: it is built, signed with the executor's key and sent.\<close>

definition send_transaction ::
  "'w wallet_env \<Rightarrow> pyval list \<Rightarrow> string \<Rightarrow> string \<Rightarrow> string \<Rightarrow> int option \<Rightarrow> ('w, string) wprog" where
  "send_transaction env positional_inputs method_name wallet_address wallet_key gas =
     andthen (create_transaction_object env positional_inputs method_name wallet_address (MPE_CNTRCT_PATH env)
       (MPE_ADDR_PATH env) (NETWORK_ID env) (TOKEN_NAME env) (STAGE env) gas) (\<lambda>transaction_object.
     andthen (of_sum (sign_transaction env transaction_object wallet_key)) (\<lambda>raw_transaction.
     elsewhere (send_raw_transaction env raw_transaction)))"

definition add_funds_to_channel ::
  "'w wallet_env \<Rightarrow> pyval \<Rightarrow> pyval \<Rightarrow> pyval \<Rightarrow> pyval \<Rightarrow> pyval \<Rightarrow> pyval \<Rightarrow> pyval \<Rightarrow> pyval \<Rightarrow> pyval \<Rightarrow> ('w, pydict) wprog" where
  "add_funds_to_channel env org_id group_id channel_id sender recipient order_id amount currency amount_in_cogs =
     andthen (elsewhere (ssm_parameter env (EXECUTOR_ADDRESS env))) (\<lambda>wallet_address.
     andthen (elsewhere (ssm_parameter env (EXECUTOR_KEY env))) (\<lambda>wallet_key.
     andthen (of_sum (validate_cogs env amount_in_cogs)) (\<lambda>_.
     let positional_inputs = [channel_id, amount_in_cogs] in
     andthen (send_transaction env positional_inputs ''channelAddFunds'' wallet_address wallet_key None) (\<lambda>transaction_hash.
     andthen (update_channel_transaction_history_status_by_order_id env
       \<lparr>ct_order_id = order_id, ct_amount = amount, ct_currency = currency, ct_type = PStr ''channelAddFunds'',
        ct_address = sender, ct_recipient = recipient, ct_signature = PNone, ct_org_id = org_id, ct_group_id = group_id,
        ct_request_parameters = PStr (tuple_str env positional_inputs), ct_transaction_hash = PStr transaction_hash,
        ct_status = ''PENDING'', ct_row_updated = None, ct_row_created = None\<rparr>) (\<lambda>_.
     ret [(''transaction_hash'', PStr transaction_hash), (''amount_in_cogs'', amount_in_cogs), (''type'', PStr ''channelAddFunds'')])))))"

text \<open>One block in 15 seconds, for ten years.\<close>

definition ten_years_of_blocks :: int where
  "ten_years_of_blocks = 10 * 365 * 24 * 60 * 4"

definition open_channel_by_third_party ::
  "'w wallet_env \<Rightarrow> pyval \<Rightarrow> pyval \<Rightarrow> pyval \<Rightarrow> pyval \<Rightarrow> pyval \<Rightarrow> pyval \<Rightarrow> pyval \<Rightarrow> pyval \<Rightarrow> pyval \<Rightarrow> pyval \<Rightarrow> pyval \<Rightarrow> pyval \<Rightarrow> pyval \<Rightarrow>
   ('w, pydict) wprog" where
  "open_channel_by_third_party env order_id sender signature r s v group_id org_id amount currency recipient
     current_block_no amount_in_cogs =
     andthen (elsewhere (ssm_parameter env (EXECUTOR_ADDRESS env))) (\<lambda>wallet_address.
     andthen (elsewhere (ssm_parameter env (EXECUTOR_KEY env))) (\<lambda>wallet_key.
     andthen (of_sum (read_contract_address env (NETWORK_ID env) (MPE_ADDR_PATH env) (TOKEN_NAME env) (STAGE env) ''address'')) (\<lambda>_.
     andthen (of_sum (plus_int env current_block_no ten_years_of_blocks)) (\<lambda>expiration.
     andthen (of_sum (validate_cogs env amount_in_cogs)) (\<lambda>_.
     andthen (of_sum (b64decode_hex env group_id)) (\<lambda>group_id_hex.
     let positional_inputs = [sender, PStr (SIGNER_ADDRESS env), recipient, PStr (''0x'' @ group_id_hex), amount_in_cogs,
       expiration, current_block_no, v, r, s] in
     andthen (send_transaction env positional_inputs ''openChannelByThirdParty'' wallet_address wallet_key (Some 250000)) (\<lambda>transaction_hash.
     andthen (update_channel_transaction_history_status_by_order_id env
       \<lparr>ct_order_id = order_id, ct_amount = amount, ct_currency = currency, ct_type = PStr ''openChannelByThirdParty'',
        ct_address = sender, ct_recipient = recipient, ct_signature = signature, ct_org_id = org_id, ct_group_id = group_id,
        ct_request_parameters = PStr (tuple_str env positional_inputs), ct_transaction_hash = PStr transaction_hash,
        ct_status = ''PENDING'', ct_row_updated = None, ct_row_created = None\<rparr>) (\<lambda>_.
     ret [(''transaction_hash'', PStr transaction_hash), (''signature'', signature), (''amount_in_cogs'', amount_in_cogs),
       (''type'', PStr ''openChannelByThirdParty'')]))))))))"

end
