(* ===== verification/Wallets_Handlers.thy ===== *)
theory Wallets_Handlers
  imports Wallets_Service
begin

text \<open>
  The transactions of a user, the queue of channels to be opened and the job that follows the transactions of the
  channels, in \<open>application/service/channel\_service.py\<close>; the handlers of wallets and channels.
\<close>

section \<open>Transactions\<close>

text \<open>A key the dict has by its construction.\<close>

definition item :: "pydict \<Rightarrow> string \<Rightarrow> pyval" where
  "item d k = (case dict_get d k of None \<Rightarrow> PNone | Some v \<Rightarrow> v)"

definition int_of_bool :: "bool \<Rightarrow> pyval" where
  "int_of_bool b = PInt (of_bool b)"

definition transaction_of_row :: "user_wallet_model \<times> wallet_model \<times> channel_transaction option \<Rightarrow> pydict" where
  "transaction_of_row = (\<lambda>(u, w, t).
     let transaction = (case t of None \<Rightarrow> []
       | Some t \<Rightarrow> (let d = channel_transaction_to_dict t in dict_del ''type'' (dict_set ''transaction_type'' (item d ''type'') d)));
       user_wallet = dict_set ''type'' (wm_type w) (user_wallet_to_dict u)
     in dict_set ''has_private_key''
       (int_of_bool (wm_encrypted_key w \<noteq> PNone \<and> wm_encrypted_key w \<noteq> PStr []))
       (dict_update transaction user_wallet))"

definition wallet_entry :: "pydict \<Rightarrow> pydict" where
  "wallet_entry rec =
     [(''address'', item rec ''address''), (''is_default'', int_of_bool (truthy (item rec ''is_default''))),
      (''type'', item rec ''type''), (''has_private_key'', item rec ''has_private_key''), (''transactions'', PList [])]"

definition transaction_entry :: "pyval \<Rightarrow> pyval \<Rightarrow> pydict \<Rightarrow> pydict" where
  "transaction_entry org_id group_id rec =
     [(''org_id'', org_id), (''group_id'', group_id), (''recipient'', item rec ''recipient''), (''amount'', item rec ''amount''),
      (''transaction_type'', item rec ''transaction_type''), (''currency'', item rec ''currency''),
      (''status'', item rec ''status''), (''created_at'', item rec ''created_at'')]"

definition with_transaction :: "pydict \<Rightarrow> pydict \<Rightarrow> pydict" where
  "with_transaction t wallet =
     dict_set ''transactions'' (case item wallet ''transactions'' of PList ts \<Rightarrow> PList (ts @ [PDict t]) | v \<Rightarrow> v) wallet"

definition add_transaction :: "pyval \<Rightarrow> pyval \<Rightarrow> pydict \<Rightarrow> (pyval \<times> pydict) list \<Rightarrow> (pyval \<times> pydict) list" where
  "add_transaction org_id group_id rec wallets =
     (let sender = item rec ''address'';
          wallets = (if sender \<in> fst ` set wallets then wallets else wallets @ [(sender, wallet_entry rec)])
      in if \<not> dict_has rec ''recipient'' then wallets
         else map (\<lambda>(a, w). (a, if a = sender then with_transaction (transaction_entry org_id group_id rec) w else w)) wallets)"

definition get_transactions_from_username_recipient :: "pyval \<Rightarrow> pyval \<Rightarrow> pyval \<Rightarrow> ('w, pydict) wprog" where
  "get_transactions_from_username_recipient username org_id group_id =
     andthen (get_channel_transactions_for_username_recipient username org_id group_id) (\<lambda>channel_data.
     let wallets = fold (add_transaction org_id group_id) (map transaction_of_row channel_data) [] in
     ret [(''username'', username), (''wallets'', PList (map (\<lambda>(_, w). PDict w) wallets))])"

definition get_channel_transactions_against_order_id :: "pyval \<Rightarrow> ('w, pydict) wprog" where
  "get_channel_transactions_against_order_id order_id =
     andthen (repo_get_channel_transactions_against_order_id order_id) (\<lambda>history.
     ret [(''order_id'', order_id), (''transactions'', PList (map (\<lambda>t. PDict (channel_transaction_to_dict t)) history))])"

section \<open>The queue of channels to be opened\<close>

definition or_else :: "pydict \<Rightarrow> string \<Rightarrow> pyval \<Rightarrow> pyval" where
  "or_else d k v = (case dict_get d k of None \<Rightarrow> v | Some x \<Rightarrow> x)"

definition requested_transaction :: "pydict \<Rightarrow> exn + channel_transaction" where
  "requested_transaction payload =
     (let field = getitem (PDict payload) in
      sbind (field ''order_id'') (\<lambda>order_id. sbind (field ''amount'') (\<lambda>amount. sbind (field ''currency'') (\<lambda>currency.
      sbind (field ''sender'') (\<lambda>sender. sbind (field ''recipient'') (\<lambda>recipient. sbind (field ''signature'') (\<lambda>signature.
      sbind (field ''org_id'') (\<lambda>org_id. sbind (field ''group_id'') (\<lambda>group_id.
      Inr \<lparr>ct_order_id = order_id, ct_amount = amount, ct_currency = currency,
        ct_type = or_else payload ''type'' (PStr ''openChannelByThirdParty''), ct_address = sender, ct_recipient = recipient,
        ct_signature = signature, ct_org_id = org_id, ct_group_id = group_id,
        ct_request_parameters = or_else payload ''request_parameters'' (PStr []),
        ct_transaction_hash = or_else payload ''transaction_hash'' (PStr []), ct_status = ''NOT_SUBMITTED'',
        ct_row_updated = None, ct_row_created = None\<rparr>)))))))))"

definition record_create_channel :: "'w wallet_env \<Rightarrow> pydict \<Rightarrow> ('w, pydict) wprog" where
  "record_create_channel env payload =
     andthen (of_sum (requested_transaction payload)) (\<lambda>t.
     andthen (add_channel_transaction_history_record env t) (\<lambda>_.
     andthen (persist_create_channel_event payload) (\<lambda>persisted.
     if \<not> persisted then raise (py_exception ''Failed to create record'') else ret [])))"

text \<open>The call with the fields of a payload, each read from it.\<close>

definition open_channel_of :: "'w wallet_env \<Rightarrow> pyval \<Rightarrow> ('w, pydict) wprog" where
  "open_channel_of env payload =
     (let arg = (\<lambda>k f. andthen (of_sum (getitem payload k)) f) in
      arg ''order_id'' (\<lambda>order_id. arg ''sender'' (\<lambda>sender. arg ''signature'' (\<lambda>signature. arg ''r'' (\<lambda>r. arg ''s'' (\<lambda>s.
      arg ''v'' (\<lambda>v. arg ''current_block_no'' (\<lambda>current_block_no. arg ''group_id'' (\<lambda>group_id. arg ''org_id'' (\<lambda>org_id.
      arg ''recipient'' (\<lambda>recipient. arg ''amount'' (\<lambda>amount. arg ''currency'' (\<lambda>currency. arg ''amount_in_cogs'' (\<lambda>amount_in_cogs.
      open_channel_by_third_party env order_id sender signature r s v group_id org_id amount currency recipient
        current_block_no amount_in_cogs))))))))))))))"

definition manage_create_channel_event :: "'w wallet_env \<Rightarrow> ('w, unit) wprog" where
  "manage_create_channel_event env =
     andthen (get_one_create_channel_event ''PENDING'') (\<lambda>pending.
     case pending of
       None \<Rightarrow> ret ()
     | Some event \<Rightarrow>
         andthen (of_sum (loads env (ev_payload event))) (\<lambda>payload.
         try_except
           (andthen (open_channel_of env payload) (\<lambda>_.
            andthen (update_create_channel_event event ''SUCCESS'') (\<lambda>_. ret ())))
           (\<lambda>_. andthen (update_create_channel_event event ''FAILED'') (\<lambda>_. ret ()))))"

section \<open>The status of the transactions\<close>

definition get_mpe_processed_transactions_from_event_pub_sub :: "'w wallet_env \<Rightarrow> pyval list \<Rightarrow> ('w, pyval) wprog" where
  "get_mpe_processed_transactions_from_event_pub_sub env transaction_list =
     andthen (of_sum (json_dumps (PDict [(''transaction_hash_list'', PList transaction_list), (''contract_name'', PStr ''MPE'')]))) (\<lambda>payload.
     andthen (elsewhere (invoke_lambda env (GET_RAW_EVENT_DETAILS env) payload)) (\<lambda>response.
     of_sum (sbind (getitem response ''statusCode'') (\<lambda>code.
       if code \<noteq> PInt 200 then Inl (py_exception ''Error getting processed transactions from event pubsub'')
       else sbind (sbind (getitem response ''body'') as_text) (\<lambda>body. sbind (loads env body) (\<lambda>b. getitem b ''data''))))))"

definition follow_pending :: "'w wallet_env \<Rightarrow> channel_transaction \<Rightarrow> ('w, unit) wprog" where
  "follow_pending env txn_data =
     (if \<not> truthy (ct_transaction_hash txn_data) then ret ()
      else
        andthen (elsewhere (transaction_receipt env (ct_transaction_hash txn_data))) (\<lambda>txn_receipt.
        case txn_receipt of
          None \<Rightarrow> ret ()
        | Some receipt_status \<Rightarrow>
            update_channel_transaction_history_status_by_order_id env
              (txn_data\<lparr>ct_status := (if receipt_status = 1 then ''PROCESSING'' else ''FAILED'')\<rparr>)))"

definition follow_processed :: "'w wallet_env \<Rightarrow> channel_transaction list \<Rightarrow> pyval \<Rightarrow> ('w, unit) wprog" where
  "follow_processed env processing txn =
     andthen (of_sum (getitem txn ''processed'')) (\<lambda>processed.
     if \<not> truthy processed then ret ()
     else
       andthen (of_sum (getitem txn ''transactionHash'')) (\<lambda>transaction_hash.
       case sql_first (\<lambda>t. ct_transaction_hash t = transaction_hash) processing of
         None \<Rightarrow> raise IndexError
       | Some txn_data \<Rightarrow> update_channel_transaction_history_status_by_order_id env (txn_data\<lparr>ct_status := ''SUCCESS''\<rparr>)))"

definition manage_channel_transaction_status :: "'w wallet_env \<Rightarrow> ('w, unit) wprog" where
  "manage_channel_transaction_status env =
     andthen (get_channel_transaction_history_data PNone ''PENDING'') (\<lambda>pending.
     andthen (for_each pending (follow_pending env)) (\<lambda>_.
     andthen (get_channel_transaction_history_data PNone ''PROCESSING'') (\<lambda>processing.
     if processing = [] then ret ()
     else
       andthen (get_mpe_processed_transactions_from_event_pub_sub env (map ct_transaction_hash processing)) (\<lambda>processed.
       andthen (of_sum (py_items processed)) (\<lambda>items.
       for_each items (follow_processed env processing))))))"

section \<open>Handlers\<close>

text \<open>The frame of the handlers: the body of the event, and its fields that may not be missing.\<close>

definition wallet_body :: "'w wallet_env \<Rightarrow> pydict \<Rightarrow> exn + pyval" where
  "wallet_body env event =
     (case dict_get event ''body'' of
        None \<Rightarrow> Inl (BadRequestException ''Body not found'' [])
      | Some PNone \<Rightarrow> Inl (BadRequestException ''Body not found'' [])
      | Some body \<Rightarrow> sbind (as_text body) (loads env))"

definition get_or_none :: "pyval \<Rightarrow> string \<Rightarrow> exn + pyval" where
  "get_or_none payload k = (case payload of PDict d \<Rightarrow> Inr (or_else d k PNone) | _ \<Rightarrow> Inl AttributeError)"

definition str_quoted :: "string \<Rightarrow> string" where
  "str_quoted t = CHR 0x27 # t @ [CHR 0x27]"

definition required :: "pyval \<Rightarrow> string \<Rightarrow> exn + pyval" where
  "required payload k =
     sbind (get_or_none payload k) (\<lambda>v.
     if v = PNone then Inl (BadRequestException (str_quoted k @ '' field in the request body not found'') []) else Inr v)"

definition success :: "nat \<Rightarrow> pyval \<Rightarrow> ('w, lambda_response) wprog" where
  "success code data = of_sum (generate_lambda_response code (PDict [(''status'', PStr ''success''), (''data'', data)]) False)"

definition with_fields ::
  "'w wallet_env \<Rightarrow> pydict \<Rightarrow> string list \<Rightarrow> (pyval list \<Rightarrow> ('w, lambda_response) wprog) \<Rightarrow> ('w, lambda_response) wprog" where
  "with_fields env event ks m = exception_handler
     (andthen (of_sum (sbind (wallet_body env event) (\<lambda>payload. smap (required payload) ks))) m)"

definition remove_user_wallet_handler :: "'w wallet_env \<Rightarrow> pydict \<Rightarrow> ('w, lambda_response) wprog" where
  "remove_user_wallet_handler env event = with_fields env event [''username''] (\<lambda>args.
     andthen (repo_remove_user_wallet (args ! 0)) (\<lambda>_.
     of_sum (generate_lambda_response 200 (PDict (make_response_body (PStr ''success'') (PStr ''OK'') (PDict []))) False)))"

definition create_and_register_wallet_handler :: "'w wallet_env \<Rightarrow> pydict \<Rightarrow> ('w, lambda_response) wprog" where
  "create_and_register_wallet_handler env event = with_fields env event [''username''] (\<lambda>args.
     andthen (create_and_register_wallet env (args ! 0)) (\<lambda>data. success 200 (PDict data)))"

definition get_wallets_handler :: "'w wallet_env \<Rightarrow> pydict \<Rightarrow> ('w, lambda_response) wprog" where
  "get_wallets_handler env event = with_fields env event [''username''] (\<lambda>args.
     andthen (get_wallet_details env (args ! 0)) (\<lambda>data. success 200 (PDict data)))"

text \<open>The status 1, active according to the comment beside it.\<close>

definition register_wallet_handler :: "'w wallet_env \<Rightarrow> pydict \<Rightarrow> ('w, lambda_response) wprog" where
  "register_wallet_handler env event = with_fields env event [''username'', ''address'', ''type''] (\<lambda>args.
     andthen (register_wallet env (args ! 1) (args ! 2) 1 (args ! 0)) (\<lambda>data. success 200 (PDict data)))"

definition set_default_wallet_handler :: "'w wallet_env \<Rightarrow> pydict \<Rightarrow> ('w, lambda_response) wprog" where
  "set_default_wallet_handler env event = with_fields env event [''username'', ''address''] (\<lambda>args.
     andthen (wallet_repo_set_default_wallet env (args ! 0) (args ! 1)) (\<lambda>_. success 200 (PStr ''OK'')))"

text \<open>A strict validation asks a value that is no dict for its keys only when it has all the required ones.\<close>

definition channel_fields :: "string list" where
  "channel_fields = [''order_id'', ''sender'', ''signature'', ''r'', ''s'', ''v'', ''current_block_no'', ''group_id'', ''org_id'',
     ''amount'', ''currency'', ''recipient'', ''amount_in_cogs'']"

definition funds_fields :: "string list" where
  "funds_fields = [''org_id'', ''group_id'', ''channel_id'', ''sender'', ''recipient'', ''order_id'', ''amount'', ''currency'', ''amount_in_cogs'']"

definition str_of_texts :: "string list \<Rightarrow> string" where
  "str_of_texts ts = ''['' @ join '', '' (map str_quoted ts) @ '']''"

definition strict_payload :: "'w wallet_env \<Rightarrow> pydict \<Rightarrow> string list \<Rightarrow> exn + pydict" where
  "strict_payload env event required_fields =
     sbind (wallet_body env event) (\<lambda>payload.
     sbind (case payload of
              PDict d \<Rightarrow> sbind (validate_dict_strict d required_fields) (\<lambda>valid. Inr (valid, d))
            | _ \<Rightarrow> sbind (validate_dict payload required_fields) (\<lambda>valid. if valid then Inl AttributeError else Inr (False, []))) (\<lambda>(valid, d).
     if \<not> valid then Inl (BadRequestException (''Missing required fields. Required fields: '' @ str_of_texts required_fields) [])
     else Inr d))"

definition create_channel_handler :: "'w wallet_env \<Rightarrow> pydict \<Rightarrow> ('w, lambda_response) wprog" where
  "create_channel_handler env event = exception_handler
     (andthen (of_sum (strict_payload env event channel_fields)) (\<lambda>payload.
      andthen (open_channel_of env (PDict payload)) (\<lambda>data. success 201 (PDict data))))"

definition record_create_channel_event_handler :: "'w wallet_env \<Rightarrow> pydict \<Rightarrow> ('w, lambda_response) wprog" where
  "record_create_channel_event_handler env event = exception_handler
     (andthen (of_sum (strict_payload env event channel_fields)) (\<lambda>payload.
      andthen (record_create_channel env payload) (\<lambda>data. success 201 (PDict data))))"

definition get_transactions_for_order_handler :: "'w wallet_env \<Rightarrow> pydict \<Rightarrow> ('w, lambda_response) wprog" where
  "get_transactions_for_order_handler env event = exception_handler
     (andthen (of_sum (sbind (wallet_body env event) (\<lambda>payload.
        smap (get_or_none payload) [''order_id'', ''username'', ''org_id'', ''group_id'']))) (\<lambda>args.
      let order_id = args ! 0; username = args ! 1; org_id = args ! 2; group_id = args ! 3 in
      if order_id \<noteq> PNone then
        andthen (get_channel_transactions_against_order_id order_id) (\<lambda>data. success 200 (PDict data))
      else if username \<noteq> PNone \<and> org_id \<noteq> PNone \<and> group_id \<noteq> PNone then
        andthen (get_transactions_from_username_recipient username org_id group_id) (\<lambda>data. success 200 (PDict data))
      else raise (BadRequestException
        (''Body must contain either '' @ str_quoted ''order_id'' @ '' or '' @ str_quoted ''username'' @ '' and '' @
         str_quoted ''org_id'' @ '' and '' @ str_quoted ''group_id'') [])))"

definition channel_add_funds_handler :: "'w wallet_env \<Rightarrow> pydict \<Rightarrow> ('w, lambda_response) wprog" where
  "channel_add_funds_handler env event = exception_handler
     (andthen (of_sum (strict_payload env event funds_fields)) (\<lambda>payload.
      let arg = item payload in
      andthen (add_funds_to_channel env (arg ''org_id'') (arg ''group_id'') (arg ''channel_id'') (arg ''sender'') (arg ''recipient'')
        (arg ''order_id'') (arg ''amount'') (arg ''currency'') (arg ''amount_in_cogs'')) (\<lambda>data. success 200 (PDict data))))"

text \<open>The two jobs answer nothing when they succeed, and the response of the failure otherwise.\<close>

definition job :: "('w, unit) wprog \<Rightarrow> ('w, lambda_response option) wprog" where
  "job m = try_except (andthen m (\<lambda>_. ret None)) (\<lambda>exc. andthen (of_sum (failure_response exc)) (\<lambda>r. ret (Some r)))"

definition update_channel_transaction_status_handler :: "'w wallet_env \<Rightarrow> ('w, lambda_response option) wprog" where
  "update_channel_transaction_status_handler env = job (manage_channel_transaction_status env)"

definition open_channel_by_third_party_handler :: "'w wallet_env \<Rightarrow> ('w, lambda_response option) wprog" where
  "open_channel_by_third_party_handler env = job (manage_create_channel_event env)"

end
