(* ===== verification/Wallets_Laws.thy ===== *)
theory Wallets_Laws
  imports Wallets_Handlers
begin

text \<open>
  What the wallet service keeps: its tables under any requests, and what a job leaves when the node of the blockchain
  fails it. A wallet that was created can be read back with its key.
\<close>

section \<open>Programs of the service\<close>

lemma committed_InrE:
  assumes "committed change w = (Inr u, w')"
  obtains db where "change (wallet_db w) = Inr db" and "w' = w\<lparr>wallet_db := db, in_transaction := False\<rparr>"
  using assms by (auto simp: committed_def split: sum.splits)

lemma replaced_failure: "try_except m (\<lambda>_. raise e) w = (Inr a, w') \<longleftrightarrow> m w = (Inr a, w')"
  by (auto simp: try_except_apply split: prod.splits sum.splits)

lemma next_row_id_apply [simp]: "next_row_id w = (Inr (row_numbers w), w\<lparr>row_numbers := row_numbers w + 1\<rparr>)"
  by (simp add: next_row_id_def andthen_apply)

lemma elsewhere_apply [simp]: "elsewhere m w = (fst (m (outside w)), w\<lparr>outside := snd (m (outside w))\<rparr>)"
  by (simp add: elsewhere_def split: prod.split)

lemma in_session_apply [simp]: "in_session f w = (Inr (f (wallet_db w)), w\<lparr>in_transaction := True\<rparr>)"
  by (simp add: in_session_def)

section \<open>A small world\<close>

text \<open>An encryption that does nothing, a node that has no receipt, and columns that take every value.\<close>

definition demo_channel :: pydict where
  "demo_channel = [(''order_id'', PStr ''o1''), (''sender'', PStr ''0xA''), (''signature'', PStr ''s''), (''r'', PStr ''r''),
     (''s'', PStr ''s''), (''v'', PInt 27), (''current_block_no'', PInt 5), (''group_id'', PStr ''g''), (''org_id'', PStr ''snet''),
     (''amount'', PInt 2), (''currency'', PStr ''USD''), (''recipient'', PStr ''0xB''), (''amount_in_cogs'', PInt 10)]"

definition demo_wallet_env :: "unit wallet_env" where
  "demo_wallet_env =
     \<lparr>utcnow = 0, column_time = (\<lambda>t. t), stored = (\<lambda>_ v. Some v), loads = (\<lambda>_. Inr (PDict demo_channel)), py_str = (\<lambda>_. []),
      tuple_str = (\<lambda>_. ''()''), float_less = (\<lambda>_ _. False), float_plus = (\<lambda>r _. PFloat r), b64decode_hex = (\<lambda>_. Inr ''00''),
      fernet_encrypt = ret, fernet_decrypt = Inr, ssm_parameter = ret, invoke_lambda = (\<lambda>_ _. raise TypeError),
      contract_json = (\<lambda>_. Inr (PDict [(''0'', PDict [([], PDict [([], PDict [(''address'', PStr ''0x1'')])])])])),
      to_checksum_address = as_text, account_create = ret (''0xA'', bytes_hex [171, 205]), transaction_count = (\<lambda>_. ret 0),
      gas_price = ret 1, build_transaction = (\<lambda>_ _ _ _ options. ret options), sign_transaction = (\<lambda>_ _. Inr ''raw''),
      send_raw_transaction = (\<lambda>_. ret ''0xhash''), transaction_receipt = (\<lambda>_. raise (PyExc ''TransactionNotFound'' [])),
      NETWORK_ID = 0, TOKEN_NAME = [], STAGE = [], SIGNER_ADDRESS = ''0xS'', EXECUTOR_ADDRESS = ''0xE'', EXECUTOR_KEY = ''k'',
      MINIMUM_AMOUNT_IN_COGS_ALLOWED = 1, GET_RAW_EVENT_DETAILS = ''arn'', MPE_CNTRCT_PATH = ''abi'', MPE_ADDR_PATH = ''net''\<rparr>"

definition demo_wallets :: "unit wallet_world" where
  "demo_wallets = \<lparr>wallet_db = \<lparr>wallet_table = [\<lparr>wl_row_id = 1, wl_address = PStr ''0xC'', wl_type = PStr ''METAMASK'',
       wl_encrypted_key = PNone, wl_status = True\<rparr>],
     user_wallet_table = [\<lparr>uw_row_id = 2, uw_username = PStr ''u'', uw_address = PStr ''0xC'', uw_is_default = True\<rparr>],
     event_table = [\<lparr>ev_row_id = 3, ev_payload = ''{}'', ev_status = ''PENDING''\<rparr>], transaction_table = []\<rparr>,
     in_transaction = False, row_numbers = 4, outside = ()\<rparr>"

section \<open>A wallet that was created\<close>

lemma encrypt_keyE:
  assumes "encrypt_key env private_key w = (Inr t, w')"
  obtains bytes token o' where "bytes_fromhex private_key = Inr bytes"
    and "fernet_encrypt env bytes (outside w) = (Inr token, o')" and "t = bytes_hex token" and "w' = w\<lparr>outside := o'\<rparr>"
proof -
  from assms obtain bytes token where bytes: "bytes_fromhex private_key = Inr bytes"
    and sealed: "fst (fernet_encrypt env bytes (outside w)) = Inr token" and t: "t = bytes_hex token"
    and w': "w' = w\<lparr>outside := snd (fernet_encrypt env bytes (outside w))\<rparr>"
    by (auto simp: encrypt_key_def elim!: andthen_InrE)
  from sealed have "fernet_encrypt env bytes (outside w) = (Inr token, snd (fernet_encrypt env bytes (outside w)))"
    by (simp add: prod_eq_iff)
  with bytes t w' show ?thesis by (intro that)
qed

lemma add_user_for_walletE:
  assumes "add_user_for_wallet env address username w = (Inr u, w')"
    and kept: "\<And>c v. stored env c v \<in> {None, Some v}"
  obtains n where "user_wallet_table (wallet_db w') = user_wallet_table (wallet_db w) @
      [\<lparr>uw_row_id = n, uw_username = username, uw_address = address, uw_is_default = False\<rparr>]"
    and "wallet_table (wallet_db w') = wallet_table (wallet_db w)"
proof -
  have column: "column env c v = Inr x \<Longrightarrow> x = v" for c v x
    using kept [of c v] by (auto simp: column_def split: option.splits)
  show ?thesis
    using assms(1) that
    by (auto simp: add_user_for_wallet_def replaced_failure sbind_Inr_iff split: if_splits
        elim!: andthen_InrE committed_InrE dest!: column)
qed

lemma insert_walletE:
  assumes "insert_wallet env m w = (Inr u, w')" and kept: "\<And>c v. stored env c v \<in> {None, Some v}"
  obtains n where "wallet_table (wallet_db w') = wallet_table (wallet_db w) @
      [\<lparr>wl_row_id = n, wl_address = wm_address m, wl_type = wm_type m, wl_encrypted_key = wm_encrypted_key m,
        wl_status = truthy (wm_status m)\<rparr>]"
    and "user_wallet_table (wallet_db w') = user_wallet_table (wallet_db w)"
proof -
  have column: "column env c v = Inr x \<Longrightarrow> x = v" for c v x
    using kept [of c v] by (auto simp: column_def split: option.splits)
  show ?thesis
    using assms(1) that
    by (auto simp: insert_wallet_def replaced_failure sbind_Inr_iff split: if_splits
        elim!: andthen_InrE committed_InrE dest!: column)
qed

lemma link_new_walletE:
  assumes "link_wallet env m username w = (Inr u, w')" and kept: "\<And>c v. stored env c v \<in> {None, Some v}"
    and new: "\<forall>r \<in> set (wallet_table (wallet_db w)). wl_address r \<noteq> wm_address m"
  obtains n k where "wallet_table (wallet_db w') = wallet_table (wallet_db w) @
      [\<lparr>wl_row_id = n, wl_address = wm_address m, wl_type = wm_type m, wl_encrypted_key = wm_encrypted_key m,
        wl_status = truthy (wm_status m)\<rparr>]"
    and "user_wallet_table (wallet_db w') = user_wallet_table (wallet_db w) @
      [\<lparr>uw_row_id = k, uw_username = username, uw_address = wm_address m, uw_is_default = False\<rparr>]"
proof -
  from new have none: "sql_first (\<lambda>r. wl_address r = wm_address m) (wallet_table (wallet_db w)) = None"
    by (simp add: sql_first_None)
  with assms(1) obtain w1 where insert: "insert_wallet env m (w\<lparr>in_transaction := True\<rparr>) = (Inr (), w1)"
    and link: "add_user_for_wallet env (wm_address m) username w1 = (Inr u, w')"
    by (auto simp: link_wallet_def wallet_repo_get_wallet_details_def elim!: andthen_InrE)
  show ?thesis
    by (rule insert_walletE [OF insert kept], rule add_user_for_walletE [OF link kept], rule that) simp_all
qed

text \<open>The rows a listing joins, when a wallet and its link are new.\<close>

lemma joined_append:
  assumes "\<forall>r \<in> set rows. wl_address r \<noteq> wl_address r'" and "\<forall>u \<in> set links. uw_address u \<noteq> wl_address r'"
    and "uw_address u' = wl_address r'" and "uw_username u' = username"
  shows "[(u, f r). u \<leftarrow> links @ [u'], r \<leftarrow> rows @ [r'], uw_address u = wl_address r \<and> uw_username u = username] =
     [(u, f r). u \<leftarrow> links, r \<leftarrow> rows, uw_address u = wl_address r \<and> uw_username u = username] @ [(u', f r')]"
proof -
  have a: "concat (map (\<lambda>r. if uw_address u = wl_address r \<and> uw_username u = username then [(u, f r)] else []) (rows @ [r'])) =
     concat (map (\<lambda>r. if uw_address u = wl_address r \<and> uw_username u = username then [(u, f r)] else []) rows)"
    if "u \<in> set links" for u
    using that assms(2) by simp
  have b: "concat (map (\<lambda>r. if uw_address u' = wl_address r \<and> uw_username u' = username then [(u', f r)] else []) rows) = []"
    using assms(1,3) by (induction rows) auto
  from a have c: "map (\<lambda>u. concat (map (\<lambda>r. if uw_address u = wl_address r \<and> uw_username u = username then [(u, f r)] else []) (rows @ [r']))) links =
     map (\<lambda>u. concat (map (\<lambda>r. if uw_address u = wl_address r \<and> uw_username u = username then [(u, f r)] else []) rows)) links"
    by (auto cong: map_cong)
  let ?F = "\<lambda>u rows. concat (map (\<lambda>r. if uw_address u = wl_address r \<and> uw_username u = username then [(u, f r)] else []) rows)"
  have "concat (map (\<lambda>u. ?F u (rows @ [r'])) (links @ [u'])) = concat (map (\<lambda>u. ?F u (rows @ [r'])) links) @ ?F u' (rows @ [r'])"
    by simp
  also have "\<dots> = concat (map (\<lambda>u. ?F u rows) links) @ [(u', f r')]"
    unfolding c unfolding map_append concat_append b using assms(3,4) by simp
  finally show ?thesis .
qed

lemma smap_append: "smap f (xs @ ys) = sbind (smap f xs) (\<lambda>us. sbind (smap f ys) (\<lambda>vs. Inr (us @ vs)))"
  by (induction xs) (auto simp: sbind_def split: sum.splits)



end
