(* ===== verification/Wallets_Runs.thy ===== *)
theory Wallets_Runs
  imports Wallets_Laws
begin

text \<open>
  The wallet service under sequences of requests: its tables stay well formed, a user has at most one default wallet,
  and the queue of channels to be opened is worked off; an unmined transaction stops the job of the statuses.
\<close>

section \<open>The invariant of the tables\<close>

definition default_of :: "pyval \<Rightarrow> user_wallet_model \<Rightarrow> bool" where
  "default_of username u \<longleftrightarrow> uw_username u = username \<and> uw_is_default u"

definition link_key :: "user_wallet_model \<Rightarrow> pyval \<times> pyval" where
  "link_key u = (uw_username u, uw_address u)"

definition wallet_db_ok :: "wallet_db \<Rightarrow> bool" where
  "wallet_db_ok db \<longleftrightarrow>
     distinct (map wl_address (wallet_table db)) \<and> distinct (map link_key (user_wallet_table db)) \<and>
     (\<forall>username. length (filter (default_of username) (user_wallet_table db)) \<le> 1) \<and>
     distinct (map ct_order_id (transaction_table db)) \<and> distinct (map ev_row_id (event_table db))"

definition wallet_ok :: "'w wallet_world \<Rightarrow> bool" where
  "wallet_ok w \<longleftrightarrow> wallet_db_ok (wallet_db w) \<and> (\<forall>e \<in> set (event_table (wallet_db w)). ev_row_id e < row_numbers w)"

text \<open>What the rest of the world does not change.\<close>

lemma wallet_ok_other [simp]:
  "wallet_ok (w\<lparr>outside := o'\<rparr>) = wallet_ok w" "wallet_ok (w\<lparr>in_transaction := b\<rparr>) = wallet_ok w"
  by (simp_all add: wallet_ok_def)

lemma ok_elsewhere: "stays (keeping wallet_ok) (elsewhere m)"
  by (auto simp: stays_def keeping_def)

lemma ok_in_session: "stays (keeping wallet_ok) (in_session f)"
  by (auto simp: stays_def keeping_def)

lemma ok_next_row_id: "stays (keeping wallet_ok) next_row_id"
  by (auto simp: stays_def keeping_def wallet_ok_def)

lemma ok_committed:
  assumes "\<And>db db'. wallet_db_ok db \<Longrightarrow> change db = Inr db' \<Longrightarrow>
     wallet_db_ok db' \<and> ev_row_id ` set (event_table db') \<subseteq> ev_row_id ` set (event_table db)"
  shows "stays (keeping wallet_ok) (committed change)"
proof (rule staysI)
  fix w r w'
  assume run: "committed change w = (r, w')"
  show "keeping wallet_ok w w'"
  proof (cases "change (wallet_db w)")
    case (Inl e)
    then show ?thesis using run by (auto simp: committed_def keeping_def)
  next
    case (Inr db)
    then have w': "w' = w\<lparr>wallet_db := db, in_transaction := False\<rparr>" using run by (auto simp: committed_def)
    have "wallet_ok w \<longrightarrow> wallet_ok w'"
      using assms [OF _ Inr] by (fastforce simp: w' wallet_ok_def)
    then show ?thesis by (simp add: keeping_def)
  qed
qed

lemmas ok_rules = keeps.stays_rules ok_elsewhere ok_in_session ok_next_row_id

lemma filter_key_le: "distinct (map k t) \<Longrightarrow> length (filter (\<lambda>r. k r = v) t) \<le> 1"
  by (induction t) (auto simp: filter_empty_conv image_iff)

lemma filter_default_set:
  assumes "distinct (map link_key t)" and "\<forall>x. length (filter (default_of x) t) \<le> Suc 0"
  shows "length (filter (default_of x)
     (sql_update (\<lambda>u. uw_username u = username \<and> uw_address u \<noteq> address) (\<lambda>u. u\<lparr>uw_is_default := False\<rparr>)
       (sql_update (linked username address) (\<lambda>u. u\<lparr>uw_is_default := True\<rparr>) t))) \<le> Suc 0"
    (is "length (filter _ (?new t)) \<le> _")
proof (cases "x = username")
  case True
  have "length (filter (default_of x) (?new t)) = length (filter (\<lambda>u. link_key u = (username, address)) t)"
    by (induction t) (auto simp: True default_of_def linked_def link_key_def)
  with filter_key_le [OF assms(1)] show ?thesis by (metis One_nat_def)
next
  case False
  have "length (filter (default_of x) (?new t)) = length (filter (default_of x) t)"
    using False by (induction t) (auto simp: default_of_def linked_def)
  with assms(2) show ?thesis by simp
qed

lemma link_key_update:
  "map link_key (sql_update p (\<lambda>u. u\<lparr>uw_is_default := b\<rparr>) t) = map link_key t"
  by (rule map_sql_update) (simp add: link_key_def)

lemma ok_add_user_for_wallet: "stays (keeping wallet_ok) (add_user_for_wallet env address username)"
  unfolding add_user_for_wallet_def
  by (intro ok_rules ok_committed)
    (auto simp: wallet_db_ok_def sbind_Inr_iff linked_def link_key_def default_of_def split: if_splits)

lemma ok_insert_wallet: "stays (keeping wallet_ok) (insert_wallet env wallet)"
  unfolding insert_wallet_def
  by (intro ok_rules ok_committed) (auto simp: wallet_db_ok_def sbind_Inr_iff split: if_splits)

lemma ok_set_default: "stays (keeping wallet_ok) (wallet_repo_set_default_wallet env username address)"
  unfolding wallet_repo_set_default_wallet_def
  by (intro ok_rules ok_committed) (auto simp: wallet_db_ok_def link_key_update filter_default_set split: if_splits)

lemma filter_le: "length (filter p t) \<le> n \<Longrightarrow> length (filter (\<lambda>x. q x \<and> p x) t) \<le> n"
proof (rule order_trans)
  show "length (filter (\<lambda>x. q x \<and> p x) t) \<le> length (filter p t)" by (induction t) auto
qed

lemma ok_remove: "stays (keeping wallet_ok) (repo_remove_user_wallet username)"
  unfolding repo_remove_user_wallet_def
  by (intro ok_committed) (auto simp: wallet_db_ok_def distinct_map_filter filter_le)

lemma ok_add_record: "stays (keeping wallet_ok) (add_channel_transaction_history_record env t)"
  unfolding add_channel_transaction_history_record_def
  by (intro ok_committed) (fastforce simp: wallet_db_ok_def sbind_Inr_iff split: if_splits)

lemma ok_update_transaction: "stays (keeping wallet_ok) (update_channel_transaction_history_status_by_order_id env t)"
  unfolding update_channel_transaction_history_status_by_order_id_def
  by (intro keeps.stays_andthen ok_in_session, split option.split, intro conjI allI impI ok_add_record ok_committed)
    (auto simp: wallet_db_ok_def sbind_Inr_iff map_update_first)

lemma ok_update_event: "stays (keeping wallet_ok) (update_create_channel_event event status)"
  unfolding update_create_channel_event_def
  by (intro ok_rules ok_committed) (clarsimp simp: wallet_db_ok_def map_sql_update key_set_update)

lemma ok_persist_event: "stays (keeping wallet_ok) (persist_create_channel_event payload)"
  by (rule staysI)
    (auto simp: persist_create_channel_event_def andthen_apply committed_def keeping_def wallet_ok_def wallet_db_ok_def
      split: sum.splits)

lemmas ok_repositories = ok_add_user_for_wallet ok_insert_wallet ok_set_default ok_remove ok_add_record
  ok_update_transaction ok_update_event ok_persist_event

section \<open>Services and handlers\<close>

lemma ok_link_wallet: "stays (keeping wallet_ok) (link_wallet env wallet username)"
  unfolding link_wallet_def wallet_repo_get_wallet_details_def by (intro ok_rules ok_repositories)

lemma ok_create_wallet: "stays (keeping wallet_ok) (create_and_register_wallet env username)"
  unfolding create_and_register_wallet_def encrypt_key_def Let_def
  by (intro ok_rules ok_link_wallet, split prod.split, intro allI impI ok_rules ok_link_wallet)

lemma ok_register_wallet: "stays (keeping wallet_ok) (register_wallet env a t status username)"
  unfolding register_wallet_def Let_def by (intro ok_rules ok_link_wallet)

lemma ok_get_wallet_details: "stays (keeping wallet_ok) (get_wallet_details env username)"
  unfolding get_wallet_details_def get_wallet_data_by_username_def by (intro ok_rules)

lemma ok_send: "stays (keeping wallet_ok) (send_transaction env inputs m a k gas)"
  unfolding send_transaction_def create_transaction_object_def Let_def by (intro ok_rules)

lemma ok_add_funds: "stays (keeping wallet_ok) (add_funds_to_channel env a b c d e f g h i)"
  unfolding add_funds_to_channel_def Let_def by (intro ok_rules ok_send ok_update_transaction)

lemma ok_open_channel: "stays (keeping wallet_ok) (open_channel_of env payload)"
  unfolding open_channel_of_def open_channel_by_third_party_def Let_def by (intro ok_rules ok_send ok_update_transaction)

lemma ok_record: "stays (keeping wallet_ok) (record_create_channel env payload)"
  unfolding record_create_channel_def by (intro ok_rules ok_repositories)

lemma ok_manage_event: "stays (keeping wallet_ok) (manage_create_channel_event env)"
  unfolding manage_create_channel_event_def get_one_create_channel_event_def
  by (intro ok_rules, split option.split, intro conjI allI impI ok_rules ok_open_channel ok_update_event)

lemma ok_manage_status: "stays (keeping wallet_ok) (manage_channel_transaction_status env)"
proof -
  have a: "stays (keeping wallet_ok) (follow_pending env t)" for t
    unfolding follow_pending_def
    by (intro ok_rules, split option.split, intro conjI allI impI ok_rules ok_update_transaction)
  have b: "stays (keeping wallet_ok) (follow_processed env ts x)" for ts x
    unfolding follow_processed_def
    by (intro ok_rules, split option.split, intro conjI allI impI ok_rules ok_update_transaction)
  show ?thesis
    unfolding manage_channel_transaction_status_def get_channel_transaction_history_data_def
      get_mpe_processed_transactions_from_event_pub_sub_def
    by (intro ok_rules a b)
qed

lemma ok_success: "stays (keeping wallet_ok) (success c d)"
  unfolding success_def by (intro ok_rules)

lemma ok_with_fields:
  "(\<And>args. stays (keeping wallet_ok) (m args)) \<Longrightarrow> stays (keeping wallet_ok) (with_fields env event ks m)"
  unfolding with_fields_def exception_handler_def by (intro ok_rules)

lemmas ok_services = ok_rules ok_repositories ok_create_wallet ok_register_wallet ok_get_wallet_details ok_add_funds
  ok_open_channel ok_record ok_manage_event ok_manage_status ok_success ok_with_fields

datatype wallet_request =
    RemoveUserWallet pydict | CreateAndRegisterWallet pydict | GetWallets pydict | RegisterWallet pydict
  | SetDefaultWallet pydict | CreateChannel pydict | RecordCreateChannelEvent pydict | GetTransactionsForOrder pydict
  | ChannelAddFunds pydict | OpenChannelByThirdParty | UpdateChannelTransactionStatus

fun serve :: "'w wallet_env \<Rightarrow> wallet_request \<Rightarrow> 'w wallet_world \<Rightarrow> 'w wallet_world" where
  "serve env (RemoveUserWallet event) w = snd (remove_user_wallet_handler env event w)"
| "serve env (CreateAndRegisterWallet event) w = snd (create_and_register_wallet_handler env event w)"
| "serve env (GetWallets event) w = snd (get_wallets_handler env event w)"
| "serve env (RegisterWallet event) w = snd (register_wallet_handler env event w)"
| "serve env (SetDefaultWallet event) w = snd (set_default_wallet_handler env event w)"
| "serve env (CreateChannel event) w = snd (create_channel_handler env event w)"
| "serve env (RecordCreateChannelEvent event) w = snd (record_create_channel_event_handler env event w)"
| "serve env (GetTransactionsForOrder event) w = snd (get_transactions_for_order_handler env event w)"
| "serve env (ChannelAddFunds event) w = snd (channel_add_funds_handler env event w)"
| "serve env OpenChannelByThirdParty w = snd (open_channel_by_third_party_handler env w)"
| "serve env UpdateChannelTransactionStatus w = snd (update_channel_transaction_status_handler env w)"

lemma ok_get_transactions: "stays (keeping wallet_ok) (get_transactions_for_order_handler env event)"
  unfolding get_transactions_for_order_handler_def exception_handler_def get_channel_transactions_against_order_id_def
    repo_get_channel_transactions_against_order_id_def get_transactions_from_username_recipient_def
    get_channel_transactions_for_username_recipient_def Let_def
  by (intro ok_rules ok_success)

lemma serve_ok: "wallet_ok w \<Longrightarrow> wallet_ok (serve env request w)"
proof (cases request)
  case (GetTransactionsForOrder event)
  then show "wallet_ok w \<Longrightarrow> ?thesis" using ok_get_transactions by (auto dest: stays_keepingD)
qed (simp; rule stays_keepingD; assumption?; unfold remove_user_wallet_handler_def create_and_register_wallet_handler_def
      get_wallets_handler_def register_wallet_handler_def set_default_wallet_handler_def create_channel_handler_def
      record_create_channel_event_handler_def channel_add_funds_handler_def open_channel_by_third_party_handler_def
      update_channel_transaction_status_handler_def job_def exception_handler_def Let_def; intro ok_services)+

lemma served_ok: "wallet_ok w \<Longrightarrow> wallet_ok (fold (serve env) requests w)"
  by (induction requests arbitrary: w) (simp_all add: serve_ok)

lemma default_after_set:
  "u \<in> set (sql_update (\<lambda>u. uw_username u = username \<and> uw_address u \<noteq> address) (\<lambda>u. u\<lparr>uw_is_default := False\<rparr>)
       (sql_update (linked username address) (\<lambda>u. u\<lparr>uw_is_default := True\<rparr>) t)) \<Longrightarrow>
     uw_username u = username \<Longrightarrow> uw_is_default u \<longleftrightarrow> uw_address u = address"
proof -
  let ?on = "\<lambda>u. if linked username address u then u\<lparr>uw_is_default := True\<rparr> else u"
  let ?off = "\<lambda>u. if uw_username u = username \<and> uw_address u \<noteq> address then u\<lparr>uw_is_default := False\<rparr> else u"
  assume "u \<in> set (sql_update (\<lambda>u. uw_username u = username \<and> uw_address u \<noteq> address) (\<lambda>u. u\<lparr>uw_is_default := False\<rparr>)
       (sql_update (linked username address) (\<lambda>u. u\<lparr>uw_is_default := True\<rparr>) t))"
    and user: "uw_username u = username"
  then have "u \<in> (\<lambda>v. ?off (?on v)) ` set t" by (simp only: sql_update_def list.set_map image_image)
  then obtain v where u: "u = ?off (?on v)" by (rule imageE)
  from user show "uw_is_default u \<longleftrightarrow> uw_address u = address"
    unfolding u by (cases "uw_username v = username"; cases "uw_address v = address") (simp_all add: linked_def)
qed

text \<open>C31. Under any sequence of requests and jobs, whatever the node and the other services do, no user has two default
  wallets; a change of the default that succeeds leaves just the wallets with that address default.\<close>

theorem one_default_wallet:
  assumes "wallet_ok w0" and "w = fold (serve env) requests w0"
  shows "length (filter (default_of username) (user_wallet_table (wallet_db w))) \<le> 1 \<and>
     (wallet_repo_set_default_wallet env username address w = (Inr (), w') \<longrightarrow>
       (\<forall>u \<in> set (user_wallet_table (wallet_db w')). uw_username u = username \<longrightarrow> (uw_is_default u \<longleftrightarrow> uw_address u = address)))"
proof (intro conjI impI)
  have "wallet_ok w" using served_ok [OF assms(1)] assms(2) by simp
  then show "length (filter (default_of username) (user_wallet_table (wallet_db w))) \<le> 1"
    by (simp add: wallet_ok_def wallet_db_ok_def)
next
  assume "wallet_repo_set_default_wallet env username address w = (Inr (), w')"
  then have run: "committed (\<lambda>db. if in_transaction w then Inl (PyExc ''InvalidRequestError'' []) else Inr (db\<lparr>user_wallet_table :=
      sql_update (\<lambda>u. uw_username u = username \<and> uw_address u \<noteq> address) (\<lambda>u. u\<lparr>uw_is_default := False\<rparr>)
        (sql_update (linked username address) (\<lambda>u. u\<lparr>uw_is_default := True\<rparr>) (user_wallet_table db))\<rparr>)) w = (Inr (), w')"
    unfolding wallet_repo_set_default_wallet_def replaced_failure by simp
  have "user_wallet_table (wallet_db w') =
      sql_update (\<lambda>u. uw_username u = username \<and> uw_address u \<noteq> address) (\<lambda>u. u\<lparr>uw_is_default := False\<rparr>)
        (sql_update (linked username address) (\<lambda>u. u\<lparr>uw_is_default := True\<rparr>) (user_wallet_table (wallet_db w)))"
    by (rule committed_InrE [OF run]) (auto split: if_splits)
  then show "\<forall>u \<in> set (user_wallet_table (wallet_db w')). uw_username u = username \<longrightarrow> (uw_is_default u \<longleftrightarrow> uw_address u = address)"
    using default_after_set by simp
qed

theorem one_default_wallet_witness:
  "length (filter (default_of (PStr ''u'')) (user_wallet_table (wallet_db
     (fold (serve demo_wallet_env) [RegisterWallet [(''body'', PStr ''x'')], OpenChannelByThirdParty] demo_wallets)))) \<le> 1"
proof -
  have "wallet_ok demo_wallets" by (simp add: wallet_ok_def wallet_db_ok_def demo_wallets_def default_of_def)
  from one_default_wallet [OF this HOL.refl] show ?thesis by blast
qed

section \<open>The queue of channels to be opened\<close>

definition waiting :: "create_channel_event_model \<Rightarrow> bool" where
  "waiting e \<longleftrightarrow> ev_status e = ''PENDING''"

abbreviation events :: "'w wallet_world \<Rightarrow> create_channel_event_model list" where
  "events w \<equiv> event_table (wallet_db w)"

definition settle :: "create_channel_event_model \<Rightarrow> string \<Rightarrow> create_channel_event_model list \<Rightarrow> create_channel_event_model list" where
  "settle event status = sql_update (\<lambda>e. ev_row_id e = ev_row_id event) (\<lambda>e. e\<lparr>ev_status := status\<rparr>)"

text \<open>Opening a channel does not touch the queue.\<close>

lemma events_elsewhere: "stays (unchanged events) (elsewhere m)"
  by (simp add: stays_def unchanged_def)

lemma events_update_transaction: "stays (unchanged events) (update_channel_transaction_history_status_by_order_id env t)"
  unfolding update_channel_transaction_history_status_by_order_id_def add_channel_transaction_history_record_def
  by (rule staysI)
    (auto simp: unchanged_def andthen_apply committed_def sbind_def split: option.splits sum.splits if_splits)

lemma events_open_channel: "stays (unchanged events) (open_channel_of env payload)"
  unfolding open_channel_of_def open_channel_by_third_party_def send_transaction_def create_transaction_object_def Let_def
  by (intro same.stays_rules events_elsewhere events_update_transaction)

lemma update_event_run:
  "\<exists>b w'. update_create_channel_event event status w = (Inr b, w') \<and> events w' = settle event status (events w)"
  by (simp add: update_create_channel_event_def andthen_apply committed_def settle_def)

text \<open>A run of the job takes the first waiting event and settles it.\<close>

lemma manage_event_run:
  assumes "sql_first waiting (events w) = Some event" and "loads env (ev_payload event) = Inr payload"
  shows "\<exists>status w'. manage_create_channel_event env w = (Inr (), w') \<and> status \<in> {''SUCCESS'', ''FAILED''} \<and>
     events w' = settle event status (events w)"
proof -
  define w1 where "w1 = w\<lparr>in_transaction := True\<rparr>"
  have found: "get_one_create_channel_event ''PENDING'' w = (Inr (Some event), w1)"
    using assms(1) by (simp add: get_one_create_channel_event_def waiting_def [abs_def] w1_def)
  obtain r w2 where opened: "open_channel_of env payload w1 = (r, w2)" by fastforce
  have same: "events w2 = events w"
    using staysD [OF events_open_channel opened] by (simp add: unchanged_def w1_def)
  define status where "status = (if isl r then ''FAILED'' else ''SUCCESS'')"
  obtain b w3 where update: "update_create_channel_event event status w2 = (Inr b, w3)"
    and after: "events w3 = settle event status (events w2)"
    using update_event_run by blast
  have "manage_create_channel_event env w = (Inr (), w3)"
    using update opened by (cases r) (simp_all add: manage_create_channel_event_def found assms(2) try_except_apply status_def)
  with after same show ?thesis by (auto simp: status_def split: if_splits)
qed

lemma waiting_settle:
  assumes "distinct (map ev_row_id t)" and "sql_first waiting t = Some event" and "status \<noteq> ''PENDING''"
  shows "filter waiting (settle event status t) = tl (filter waiting t)"
  using assms
proof (induction t)
  case Nil
  then show ?case by simp
next
  case (Cons e t)
  show ?case
  proof (cases "waiting e")
    case True
    with Cons.prems have e: "event = e" by simp
    have "settle event status t = t"
      using Cons.prems(1) by (induction t) (auto simp: settle_def e)
    with True Cons.prems show ?thesis by (simp add: settle_def e) (simp add: waiting_def)
  next
    case False
    with Cons.prems have first: "sql_first waiting t = Some event" by simp
    then have "ev_row_id e \<noteq> ev_row_id event" using Cons.prems(1) by (auto dest!: sql_first_SomeD)
    with False Cons first show ?thesis by (simp add: settle_def)
  qed
qed

definition open_job :: "'w wallet_env \<Rightarrow> 'w wallet_world \<Rightarrow> 'w wallet_world" where
  "open_job env w = serve env OpenChannelByThirdParty w"

lemma open_job_run: "manage_create_channel_event env w = (Inr (), w') \<Longrightarrow> open_job env w = w'"
  by (simp add: open_job_def open_channel_by_third_party_handler_def job_def try_except_apply)

text \<open>C32. The queue is worked off: as many runs of the job as there are waiting events leave none, whatever the node of the
  blockchain and the other services answer. No event is lost or added, and each one that was waiting has succeeded or failed.\<close>

theorem queue_is_worked_off:
  assumes "wallet_ok w" and "\<forall>e \<in> set (filter waiting (events w)). \<exists>payload. loads env (ev_payload e) = Inr payload"
    and "n = length (filter waiting (events w))" and "w' = (open_job env ^^ n) w"
  shows "filter waiting (events w') = [] \<and> list_all2 (\<lambda>e e'. ev_row_id e' = ev_row_id e \<and>
     (if waiting e then ev_status e' \<in> {''SUCCESS'', ''FAILED''} else e' = e)) (events w) (events w')"
  using assms
proof (induction n arbitrary: w)
  case 0
  then show ?case by (auto simp: filter_empty_conv intro!: list.rel_refl_strong)
next
  case (Suc n)
  from Suc.prems(3) obtain event where first: "sql_first waiting (events w) = Some event"
    by (cases "filter waiting (events w)") (auto simp: sql_first_def first_or_none_def)
  then have "event \<in> set (filter waiting (events w))" by (auto dest: sql_first_SomeD)
  with Suc.prems(2) obtain payload where "loads env (ev_payload event) = Inr payload" by blast
  from manage_event_run [OF first this] obtain status w1
    where run: "manage_create_channel_event env w = (Inr (), w1)" and status: "status \<in> {''SUCCESS'', ''FAILED''}"
    and w1: "events w1 = settle event status (events w)" by blast
  have distinct: "distinct (map ev_row_id (events w))" using Suc.prems(1) by (simp add: wallet_ok_def wallet_db_ok_def)
  have rest: "filter waiting (events w1) = tl (filter waiting (events w))"
    unfolding w1 using status by (intro waiting_settle distinct first) auto
  have ok: "wallet_ok w1" using Suc.prems(1) ok_manage_event run by (metis stays_keepingD snd_conv)
  have readable: "\<forall>e \<in> set (filter waiting (events w1)). \<exists>payload. loads env (ev_payload e) = Inr payload"
    unfolding rest using Suc.prems(2) by (cases "filter waiting (events w)") auto
  have w': "w' = (open_job env ^^ n) w1"
    using Suc.prems(4) by (simp add: funpow_swap1 open_job_run [OF run] del: funpow.simps) (simp add: funpow_swap1 open_job_run [OF run])
  from Suc.IH [OF ok readable _ w'] have final: "filter waiting (events w') = []"
    and later: "list_all2 (\<lambda>e e'. ev_row_id e' = ev_row_id e \<and>
      (if waiting e then ev_status e' \<in> {''SUCCESS'', ''FAILED''} else e' = e)) (events w1) (events w')"
    using Suc.prems(3) rest by auto
  have "list_all2 (\<lambda>e e'. e' = e \<or> ev_row_id e' = ev_row_id e \<and> waiting e \<and> ev_status e' = status) (events w) (events w1)"
    unfolding w1 settle_def
  proof (rule sql_update_all2)
    fix e assume "e \<in> set (events w)" and "ev_row_id e = ev_row_id event"
    with first distinct have "e = event" by (meson key_unique sql_first_SomeD)
    with first show "e\<lparr>ev_status := status\<rparr> = e \<or> ev_row_id (e\<lparr>ev_status := status\<rparr>) = ev_row_id e \<and> waiting e \<and>
        ev_status (e\<lparr>ev_status := status\<rparr>) = status"
      by (auto dest: sql_first_SomeD)
  qed simp
  then have "list_all2 (\<lambda>e e'. ev_row_id e' = ev_row_id e \<and>
      (if waiting e then ev_status e' \<in> {''SUCCESS'', ''FAILED''} else e' = e)) (events w) (events w')"
    by (rule list_all2_trans [rotated, OF _ later]) (use status in \<open>auto simp: waiting_def split: if_splits\<close>)
  with final show ?case by blast
qed

theorem queue_is_worked_off_witness:
  "filter waiting (events ((open_job demo_wallet_env ^^ 1) demo_wallets)) = []"
proof -
  have "wallet_ok demo_wallets" by (simp add: wallet_ok_def wallet_db_ok_def demo_wallets_def default_of_def)
  moreover have "\<forall>e \<in> set (filter waiting (events demo_wallets)). \<exists>payload. loads demo_wallet_env (ev_payload e) = Inr payload"
    by (simp add: demo_wallet_env_def)
  moreover have "1 = length (filter waiting (events demo_wallets))" by (simp add: demo_wallets_def waiting_def)
  ultimately show ?thesis using queue_is_worked_off [OF _ _ _ HOL.refl] by blast
qed

section \<open>A transaction that is not mined\<close>

definition status_job :: "'w wallet_env \<Rightarrow> 'w wallet_world \<Rightarrow> 'w wallet_world" where
  "status_job env w = serve env UpdateChannelTransactionStatus w"

lemma status_job_stops:
  assumes "filter (\<lambda>t. ct_status t = ''PENDING'') (transaction_table (wallet_db w)) = t # ts"
    and "truthy (ct_transaction_hash t)"
    and "transaction_receipt env (ct_transaction_hash t) (outside w) = (Inl e, o')"
  shows "manage_channel_transaction_status env w = (Inl e, w\<lparr>in_transaction := True, outside := o'\<rparr>)"
  using assms by (simp add: manage_channel_transaction_status_def get_channel_transaction_history_data_def andthen_apply follow_pending_def)

text \<open>C33. As long as the node raises for the receipt of the first pending transaction, as it does for one that is not mined
  yet, no run of the job changes any transaction: later pending ones that are mined stay pending and processing ones
  stay processing. Each run ends with that exception after the one call to the node.\<close>

theorem unmined_transaction_blocks_job:
  assumes first: "filter (\<lambda>t. ct_status t = ''PENDING'') (transaction_table (wallet_db w)) = t # ts"
    and hash: "truthy (ct_transaction_hash t)"
    and unmined: "\<And>o1. \<exists>e o2. transaction_receipt env (ct_transaction_hash t) o1 = (Inl e, o2)"
  shows "wallet_db ((status_job env ^^ n) w) = wallet_db w \<and>
     (\<exists>e o2. transaction_receipt env (ct_transaction_hash t) (outside ((status_job env ^^ n) w)) = (Inl e, o2) \<and>
        manage_channel_transaction_status env ((status_job env ^^ n) w) =
          (Inl e, ((status_job env ^^ n) w)\<lparr>in_transaction := True, outside := o2\<rparr>))"
proof -
  have step: "wallet_db (status_job env v) = wallet_db v" if "wallet_db v = wallet_db w" for v
  proof -
    from unmined obtain e o2 where "transaction_receipt env (ct_transaction_hash t) (outside v) = (Inl e, o2)" by blast
    from status_job_stops [OF _ hash this] first that show ?thesis
      by (simp add: status_job_def update_channel_transaction_status_handler_def job_def try_except_apply andthen_apply split: sum.split)
  qed
  have same: "wallet_db ((status_job env ^^ n) w) = wallet_db w" by (induction n) (simp_all add: step)
  moreover from unmined obtain e o2
    where call: "transaction_receipt env (ct_transaction_hash t) (outside ((status_job env ^^ n) w)) = (Inl e, o2)" by blast
  moreover from status_job_stops [OF _ hash call] first same
  have "manage_channel_transaction_status env ((status_job env ^^ n) w) =
      (Inl e, ((status_job env ^^ n) w)\<lparr>in_transaction := True, outside := o2\<rparr>)" by simp
  ultimately show ?thesis by blast
qed

theorem unmined_transaction_blocks_job_witness:
  "wallet_db ((status_job demo_wallet_env ^^ 3) (serve demo_wallet_env (CreateChannel [(''body'', PStr ''x'')]) demo_wallets)) =
     wallet_db (serve demo_wallet_env (CreateChannel [(''body'', PStr ''x'')]) demo_wallets)"
proof -
  let ?w = "serve demo_wallet_env (CreateChannel [(''body'', PStr ''x'')]) demo_wallets"
  have "\<exists>t. filter (\<lambda>t. ct_status t = ''PENDING'') (transaction_table (wallet_db ?w)) = [t] \<and> truthy (ct_transaction_hash t)"
    by (simp add: create_channel_handler_def exception_handler_def strict_payload_def wallet_body_def demo_wallet_env_def
        demo_channel_def validate_dict_PDict validate_dict_strict_def dict_has_def channel_fields_def py_in_def
        try_except_apply andthen_apply open_channel_of_def getitem_def open_channel_by_third_party_def read_contract_address_def
        getitems.simps str_int_0 plus_int_def ten_years_of_blocks_def validate_cogs_def less_than_def
        send_transaction_def create_transaction_object_def dict_set_def Let_def
        update_channel_transaction_history_status_by_order_id_def add_channel_transaction_history_record_def committed_def
        stored_transaction_def column_def demo_wallets_def success_def generate_lambda_response_def)
  then obtain t where "filter (\<lambda>t. ct_status t = ''PENDING'') (transaction_table (wallet_db ?w)) = t # []"
    and "truthy (ct_transaction_hash t)" by blast
  from unmined_transaction_blocks_job [OF this, of demo_wallet_env 3] show ?thesis
    by (simp add: demo_wallet_env_def)
qed

end
