(* ===== verification/Signer.thy ===== *)
theory Signer
  imports Requests Json
begin

text \<open>
  The signer, \<open>src/signer\<close>: signatures for free calls, with a table of the tokens that daemons gave, and signatures for
  the calls and the channels that are paid for.
\<close>

section \<open>State and environment\<close>

text \<open>\<open>infrastructure/models.py\<close>; the bytes of a token are numbers.\<close>

record token_row =
  tk_username :: string
  tk_organization_id :: string
  tk_service_id :: string
  tk_group_id :: string
  tk_token :: "nat list"
  tk_expiration_block_number :: int

record 'w signer_world =
  token_table :: "token_row list"
  outside :: 'w

text \<open>
  The node, the lambda of the contract API and the daemons are programs over a state \<open>'w\<close> of their own.
  \<open>sign_hash\<close> signs the hash of typed values with a key: a signature is \<open>r\<close>, \<open>s\<close> and \<open>v\<close>, 32, 32 and one bytes.
  \<open>hexbytes_hex\<close> is the method \<open>hex\<close> of the library's bytes, \<open>int_of\<close> the conversion of pydantic to an integer.
\<close>

record free_call_token_request =
  fr_address :: string
  fr_signature :: "nat list"
  fr_current_block :: int
  fr_user_id :: string
  fr_token_lifetime_in_blocks :: int

record 'w signer_env =
  offline :: bool
  loads :: "string \<Rightarrow> exn + pyval"
  formatted_errors :: "string \<Rightarrow> pyval \<Rightarrow> pyval"
  int_of :: "pyval \<Rightarrow> int option"
  urlparse :: "string \<Rightarrow> exn + url_parts"
  is_connected :: "('w, bool) prog"
  block_number :: "('w, int) prog"
  contract_json :: "string \<Rightarrow> exn + pyval"
  to_checksum_address :: "pyval \<Rightarrow> exn + string"
  sign_hash :: "string list \<Rightarrow> pyval list \<Rightarrow> string \<Rightarrow> exn + nat list"
  signed_bytes :: "nat list \<Rightarrow> pyval"
  hexbytes_hex :: "nat list \<Rightarrow> string"
  get_service_details :: "string \<Rightarrow> ('w, string) prog"
  daemon_token :: "bool \<Rightarrow> string \<Rightarrow> free_call_token_request \<Rightarrow> ('w, nat list \<times> int) prog"
  NETWORK_ID :: int
  STAGE :: string
  MPE_ADDR_PATH :: string
  signer_key :: string
  signer_address :: string
  expiration_block_count :: int

type_synonym ('w, 'a) sprog = "('w signer_world, 'a) prog"

definition elsewhere :: "('w, 'a) prog \<Rightarrow> ('w, 'a) sprog" where
  "elsewhere m = (\<lambda>w. case m (outside w) of (r, o') \<Rightarrow> (r, w\<lparr>outside := o'\<rparr>))"

section \<open>exceptions.py\<close>

definition ZeroFreeCallsAvailable :: exn where
  "ZeroFreeCallsAvailable = BadRequestException ''No free call tokens available.'' []"

definition DaemonUnavailable :: exn where
  "DaemonUnavailable = BadGateway ''The daemon is not responding. Please contact the service owner.'' []"

definition GetFreeCallTokenError :: exn where
  "GetFreeCallTokenError = PyExc ''GetFreeCallTokenError'' ''Error in making get free call token request to daemon''"

definition SignerContractAPIClientError :: "string \<Rightarrow> exn" where
  "SignerContractAPIClientError message = PyExc ''ContractAPIClientError'' (''Contract API Client response error: '' @ message)"

section \<open>common/blockchain\_util.py\<close>

definition read_contract_address ::
  "'w signer_env \<Rightarrow> int \<Rightarrow> string \<Rightarrow> string \<Rightarrow> string \<Rightarrow> string \<Rightarrow> exn + string" where
  "read_contract_address env net_id path token_name stage key =
     sbind (contract_json env path) (\<lambda>contract.
     sbind (getitems contract [str_int net_id, token_name, stage, key]) (to_checksum_address env))"

text \<open>Whether the connection is closed or renewed, the number is asked for.\<close>

definition get_current_block_no :: "'w signer_env \<Rightarrow> ('w, int) sprog" where
  "get_current_block_no env =
     andthen (try_except (elsewhere (is_connected env))
       (\<lambda>e. case e of PyExc cls t \<Rightarrow> if cls = ''ConnectionClosed'' then ret False else raise e | _ \<Rightarrow> raise e)) (\<lambda>_.
     elsewhere (block_number env))"

definition with_prefix :: "string \<Rightarrow> string" where
  "with_prefix key = (if prefix_of ''0x'' key then key else ''0x'' @ key)"

definition generate_signature :: "'w signer_env \<Rightarrow> string list \<Rightarrow> pyval list \<Rightarrow> string \<Rightarrow> exn + string" where
  "generate_signature env data_types values key =
     sbind (sign_hash env data_types values (with_prefix key)) (\<lambda>signature. Inr (hexbytes_hex env signature))"

definition generate_signature_bytes :: "'w signer_env \<Rightarrow> string list \<Rightarrow> pyval list \<Rightarrow> string \<Rightarrow> exn + nat list" where
  "generate_signature_bytes env data_types values key = sign_hash env data_types values (with_prefix key)"

section \<open>infrastructure/signers.py\<close>

datatype token_symbol = AGIX | FET

fun token_symbol_value :: "token_symbol \<Rightarrow> string" where
  "token_symbol_value AGIX = ''AGIX''"
| "token_symbol_value FET = ''FET''"

record signer =
  sg_mpe_address :: string
  sg_current_block_no :: int

definition new_signer :: "'w signer_env \<Rightarrow> token_symbol \<Rightarrow> ('w, signer) sprog" where
  "new_signer env token_name =
     andthen (of_sum (read_contract_address env (NETWORK_ID env) (MPE_ADDR_PATH env) (token_symbol_value token_name) (STAGE env) ''address'')) (\<lambda>mpe_address.
     andthen (get_current_block_no env) (\<lambda>current_block_no.
     ret \<lparr>sg_mpe_address = mpe_address, sg_current_block_no = current_block_no\<rparr>))"

definition free_trial :: "string \<Rightarrow> string \<Rightarrow> string \<Rightarrow> string \<Rightarrow> string \<Rightarrow> int \<Rightarrow> pyval list" where
  "free_trial address username organization_id service_id group_id current_block =
     [PStr ''__prefix_free_trial'', PStr address, PStr username, PStr organization_id, PStr service_id, PStr group_id, PInt current_block]"

abbreviation text_types :: "string list" where "text_types \<equiv> replicate 6 ''string''"

definition generate_signature_to_get_free_call_token ::
  "'w signer_env \<Rightarrow> string \<Rightarrow> string \<Rightarrow> string \<Rightarrow> string \<Rightarrow> string \<Rightarrow> int \<Rightarrow> exn + nat list" where
  "generate_signature_to_get_free_call_token env address username organization_id service_id group_id current_block =
     generate_signature_bytes env (text_types @ [''uint256''])
       (free_trial address username organization_id service_id group_id current_block) (signer_key env)"

definition generate_signature_for_free_call ::
  "'w signer_env \<Rightarrow> string \<Rightarrow> string \<Rightarrow> string \<Rightarrow> string \<Rightarrow> string \<Rightarrow> int \<Rightarrow> nat list \<Rightarrow> exn + nat list" where
  "generate_signature_for_free_call env address username organization_id service_id group_id current_block token =
     generate_signature_bytes env (text_types @ [''uint256'', ''bytes32''])
       (free_trial address username organization_id service_id group_id current_block @ [signed_bytes env token]) (signer_key env)"

definition signature_for_regular_call :: "'w signer_env \<Rightarrow> signer \<Rightarrow> int \<Rightarrow> int \<Rightarrow> int \<Rightarrow> exn + pydict" where
  "signature_for_regular_call env sg channel_id nonce amount =
     (case generate_signature env [''string'', ''address'', ''uint256'', ''uint256'', ''uint256'']
         [PStr ''__MPE_claim_message'', PStr (sg_mpe_address sg), PInt channel_id, PInt nonce, PInt amount] (signer_key env) of
        Inl e \<Rightarrow> Inl (py_exception ''Unable to generate signature for daemon call for username'')
      | Inr signature \<Rightarrow> Inr
         [(''snet-payment-channel-signature-bin'', PStr signature), (''snet-payment-type'', PStr ''escrow''),
          (''snet-payment-channel-id'', PInt channel_id), (''snet-payment-channel-nonce'', PInt nonce),
          (''snet-payment-channel-amount'', PInt amount), (''snet-current-block-number'', PInt (sg_current_block_no sg))])"

definition signature_for_state_service :: "'w signer_env \<Rightarrow> signer \<Rightarrow> int \<Rightarrow> exn + pydict" where
  "signature_for_state_service env sg channel_id =
     (case generate_signature env [''string'', ''address'', ''uint256'', ''uint256'']
         [PStr ''__get_channel_state'', PStr (sg_mpe_address sg), PInt channel_id, PInt (sg_current_block_no sg)] (signer_key env) of
        Inl e \<Rightarrow> Inl (py_exception ''Unable to generate signature for daemon call for username %s'')
      | Inr signature \<Rightarrow> Inr [(''signature'', PStr signature), (''snet-current-block-number'', PInt (sg_current_block_no sg))])"

text \<open>\<open>s[-n:]\<close>, and \<open>Web3.to_int(hexstr=...)\<close> of hexadecimal digits.\<close>

definition last_chars :: "nat \<Rightarrow> string \<Rightarrow> string" where
  "last_chars n s = drop (length s - n) s"

fun hex_number :: "nat \<Rightarrow> string \<Rightarrow> exn + nat" where
  "hex_number n [] = Inr n"
| "hex_number n (c # cs) =
     (case hex_value c of None \<Rightarrow> Inl (PyExc ''ValueError'' []) | Some d \<Rightarrow> hex_number (16 * n + d) cs)"

definition split_signature :: "string \<Rightarrow> exn + pydict" where
  "split_signature signature =
     sbind (hex_number 0 (last_chars 2 signature)) (\<lambda>v.
     Inr [(''r'', PStr (take 66 signature)), (''s'', PStr (''0x'' @ take 64 (drop 66 signature))), (''v'', PInt (int v)),
          (''signature'', PStr signature)])"

definition signature_for_open_channel_for_third_party ::
  "'w signer_env \<Rightarrow> signer \<Rightarrow> string \<Rightarrow> string \<Rightarrow> int \<Rightarrow> int \<Rightarrow> int \<Rightarrow> string \<Rightarrow> string \<Rightarrow> exn + pydict" where
  "signature_for_open_channel_for_third_party env sg recipient group_id amount_in_cogs expiration message_nonce
     sender_private_key executor_wallet_address =
     sbind (generate_signature env
        [''string'', ''address'', ''address'', ''address'', ''address'', ''bytes32'', ''uint256'', ''uint256'', ''uint256'']
        [PStr ''__openChannelByThirdParty'', PStr (sg_mpe_address sg), PStr executor_wallet_address, PStr (signer_address env),
         PStr recipient, PStr group_id, PInt amount_in_cogs, PInt expiration, PInt message_nonce] sender_private_key)
       split_signature"

section \<open>infrastructure/repositories/free\_call\_token\_repository.py\<close>

text \<open>The entity has the fields of the row. The key of a token: user, organization, service and group.\<close>

definition token_of :: "string \<Rightarrow> string \<Rightarrow> string \<Rightarrow> string \<Rightarrow> token_row \<Rightarrow> bool" where
  "token_of username organization_id service_id group_id r \<longleftrightarrow>
     tk_username r = username \<and> tk_organization_id r = organization_id \<and> tk_service_id r = service_id \<and> tk_group_id r = group_id"

definition get_free_call_token_info_by_username ::
  "string \<Rightarrow> string \<Rightarrow> string \<Rightarrow> string \<Rightarrow> ('w, token_row option) sprog" where
  "get_free_call_token_info_by_username username organization_id service_id group_id =
     gets (\<lambda>w. sql_first (token_of username organization_id service_id group_id) (token_table w))"

text \<open>The column of the token is unique; a refused commit is rolled back.\<close>

definition insert_or_update_free_call_token_info ::
  "string \<Rightarrow> string \<Rightarrow> string \<Rightarrow> string \<Rightarrow> int \<Rightarrow> nat list \<Rightarrow> ('w, token_row) sprog" where
  "insert_or_update_free_call_token_info username organization_id service_id group_id expiration_block_number new_token =
     (let here = token_of username organization_id service_id group_id;
          row = \<lparr>tk_username = username, tk_organization_id = organization_id, tk_service_id = service_id,
            tk_group_id = group_id, tk_token = new_token, tk_expiration_block_number = expiration_block_number\<rparr> in
      andthen (gets (\<lambda>w.
         case sql_first here (token_table w) of
           Some _ \<Rightarrow> update_first here (\<lambda>_. row) (token_table w)
         | None \<Rightarrow> token_table w @ [row])) (\<lambda>changed.
      if \<not> distinct (map tk_token (filter (\<lambda>r. tk_token r = new_token) changed)) then raise IntegrityError
      else andthen (modify (\<lambda>w. w\<lparr>token_table := changed\<rparr>)) (\<lambda>_. ret row)))"

section \<open>infrastructure/contract\_api\_client.py\<close>

text \<open>
  A group that is not the one asked for is logged with \<open>groups_data["groupId"]\<close>, the id of the list.
\<close>

definition first_item :: "pyval \<Rightarrow> exn + pyval" where
  "first_item v = (case v of PList (x # _) \<Rightarrow> Inr x | PList [] \<Rightarrow> Inl IndexError | PStr (c # _) \<Rightarrow> Inr (PStr [c])
     | PStr [] \<Rightarrow> Inl IndexError | PDict _ \<Rightarrow> Inl (KeyError ''0'') | _ \<Rightarrow> Inl TypeError)"

fun find_group :: "pyval \<Rightarrow> string \<Rightarrow> exn \<Rightarrow> pyval list \<Rightarrow> exn + pyval \<times> pyval" where
  "find_group groups_data group_id missing [] = Inl missing"
| "find_group groups_data group_id missing (group_data # rest) =
     sbind (getitem group_data ''groupId'') (\<lambda>i.
     if i = PStr group_id then
       sbind (sbind (sbind (getitem group_data ''endpoints'') first_item) (\<lambda>e. getitem e ''endpoint'')) (\<lambda>endpoint.
       sbind (get_default group_data ''freeCalls'' (PInt 0)) (\<lambda>free_calls. Inr (endpoint, free_calls)))
     else sbind (getitem groups_data ''groupId'') (\<lambda>_. find_group groups_data group_id missing rest))"

definition get_daemon_endpoint_and_free_call_for_group ::
  "'w signer_env \<Rightarrow> string \<Rightarrow> string \<Rightarrow> string \<Rightarrow> ('w, pyval \<times> pyval) sprog" where
  "get_daemon_endpoint_and_free_call_for_group env org_id service_id group_id =
     andthen (of_sum (json_dumps (PDict [(''pathParameters'', PDict [(''orgId'', PStr org_id), (''serviceId'', PStr service_id)])]))) (\<lambda>payload.
     andthen (elsewhere (get_service_details env payload)) (\<lambda>answer.
     of_sum (sbind (sbind (sbind (sbind (loads env answer) (\<lambda>r. getitem r ''body'')) as_text) (loads env)) (\<lambda>response.
       let missing = SignerContractAPIClientError (''Unable to fetch daemon Endpoint information for service '' @ service_id @
         '' under organization '' @ org_id @ '' for '' @ group_id @ '' group.'') in
       sbind (getitem response ''status'') (\<lambda>status.
       if status = PStr ''success'' then
         sbind (sbind (getitem response ''data'') (\<lambda>data. get_default data ''groups'' (PList []))) (\<lambda>groups_data.
         sbind (py_items groups_data) (find_group groups_data group_id missing))
       else Inl missing)))))"

section \<open>infrastructure/daemon\_client.py\<close>

text \<open>Whether the channel is secure, and its endpoint.\<close>

definition make_endpoint_channel :: "'w signer_env \<Rightarrow> string \<Rightarrow> exn + bool \<times> string" where
  "make_endpoint_channel env daemon_endpoint = endpoint_channel (urlparse env) daemon_endpoint"

definition get_free_call_token ::
  "'w signer_env \<Rightarrow> string \<Rightarrow> nat list \<Rightarrow> int \<Rightarrow> string \<Rightarrow> pyval \<Rightarrow> int \<Rightarrow> ('w, nat list \<times> int) sprog" where
  "get_free_call_token env address signature current_block username daemon_endpoint token_lifetime_in_blocks = try_except
     (andthen (of_sum (sbind (as_text daemon_endpoint) (make_endpoint_channel env))) (\<lambda>(secure, endpoint).
      elsewhere (daemon_token env secure endpoint
        \<lparr>fr_address = address, fr_signature = signature, fr_current_block = current_block, fr_user_id = username,
         fr_token_lifetime_in_blocks = token_lifetime_in_blocks\<rparr>)))
     (\<lambda>e. case e of PyExc cls t \<Rightarrow> raise (if cls = ''RpcError'' then GetFreeCallTokenError else e) | _ \<Rightarrow> raise e)"

section \<open>application/schemas.py\<close>

record free_call_request =
  fc_organization_id :: string
  fc_service_id :: string
  fc_group_id :: string

definition signer_request :: "'w signer_env \<Rightarrow> string \<Rightarrow> (pydict \<Rightarrow> 'a option) \<Rightarrow> pydict \<Rightarrow> exn + 'a" where
  "signer_request env cls parse event =
     parsed_request (formatted_errors env cls) ''validation_erros'' parse (asserted_payload (loads env) event)"

definition GetFreeCallSignatureRequest :: "'w signer_env \<Rightarrow> pydict \<Rightarrow> exn + free_call_request" where
  "GetFreeCallSignatureRequest env = signer_request env ''GetFreeCallSignatureRequest'' (\<lambda>d.
     obind (field d ''organization_id'' text_value None) (\<lambda>organization_id.
     obind (field d ''service_id'' text_value None) (\<lambda>service_id.
     obind (field d ''group_id'' text_value None) (\<lambda>group_id.
     Some \<lparr>fc_organization_id = organization_id, fc_service_id = service_id, fc_group_id = group_id\<rparr>))))"

definition GetSignatureForStateServiceRequest :: "'w signer_env \<Rightarrow> pydict \<Rightarrow> exn + int" where
  "GetSignatureForStateServiceRequest env = signer_request env ''GetSignatureForStateServiceRequest''
     (\<lambda>d. field d ''channel_id'' (int_of env) None)"

definition GetSignatureForRegularCallRequest :: "'w signer_env \<Rightarrow> pydict \<Rightarrow> exn + int \<times> int \<times> int" where
  "GetSignatureForRegularCallRequest env = signer_request env ''GetSignatureForRegularCallRequest'' (\<lambda>d.
     obind (field d ''channel_id'' (int_of env) None) (\<lambda>channel_id.
     obind (field d ''nonce'' (int_of env) None) (\<lambda>nonce.
     obind (field d ''amount'' (int_of env) None) (\<lambda>amount. Some (channel_id, nonce, amount)))))"

record third_party_request =
  tp_recipient :: string
  tp_group_id :: string
  tp_amount_in_cogs :: int
  tp_expiration :: int
  tp_message_nonce :: int
  tp_signer_key :: string
  tp_executor_wallet_address :: string

definition GetSignatureForOpenChannelForThirdPartyRequest :: "'w signer_env \<Rightarrow> pydict \<Rightarrow> exn + third_party_request" where
  "GetSignatureForOpenChannelForThirdPartyRequest env = signer_request env ''GetSignatureForOpenChannelForThirdPartyRequest'' (\<lambda>d.
     obind (field d ''recipient'' text_value None) (\<lambda>recipient.
     obind (field d ''group_id'' text_value None) (\<lambda>group_id.
     obind (field d ''amount_in_cogs'' (int_of env) None) (\<lambda>amount_in_cogs.
     obind (field d ''expiration'' (int_of env) None) (\<lambda>expiration.
     obind (field d ''message_nonce'' (int_of env) None) (\<lambda>message_nonce.
     obind (field d ''signer_key'' text_value None) (\<lambda>key.
     obind (field d ''executor_wallet_address'' text_value None) (\<lambda>executor_wallet_address.
     Some \<lparr>tp_recipient = recipient, tp_group_id = group_id, tp_amount_in_cogs = amount_in_cogs, tp_expiration = expiration,
       tp_message_nonce = message_nonce, tp_signer_key = key, tp_executor_wallet_address = executor_wallet_address\<rparr>))))))))"

section \<open>application/service.py\<close>

definition get_token_from_origin :: "string \<Rightarrow> token_symbol" where
  "get_token_from_origin origin = (if substring ''agix'' origin then AGIX else FET)"

text \<open>\<open>v == 0\<close>.\<close>

definition equals_zero :: "pyval \<Rightarrow> bool" where
  "equals_zero v \<longleftrightarrow> v \<in> {PInt 0, PBool False, PFloat ''0.0'', PFloat ''-0.0''}"

definition new_free_call_token ::
  "'w signer_env \<Rightarrow> string \<Rightarrow> free_call_request \<Rightarrow> int \<Rightarrow> ('w, token_row \<times> int) sprog" where
  "new_free_call_token env username request current_block =
     andthen (of_sum (generate_signature_to_get_free_call_token env (signer_address env) username (fc_organization_id request)
       (fc_service_id request) (fc_group_id request) current_block)) (\<lambda>signature.
     andthen (get_daemon_endpoint_and_free_call_for_group env (fc_organization_id request) (fc_service_id request)
       (fc_group_id request)) (\<lambda>(daemon_endpoint, free_calls_count).
     if equals_zero free_calls_count then raise ZeroFreeCallsAvailable
     else
       andthen (try_except
         (get_free_call_token env (signer_address env) signature current_block username daemon_endpoint (expiration_block_count env))
         (\<lambda>e. raise (if e = GetFreeCallTokenError then DaemonUnavailable else e))) (\<lambda>(new_token, expiration_block_number).
       andthen (insert_or_update_free_call_token_info username (fc_organization_id request) (fc_service_id request)
         (fc_group_id request) (current_block + expiration_block_count env) new_token) (\<lambda>info.
       ret (info, expiration_block_number)))))"

definition get_free_call_signature :: "'w signer_env \<Rightarrow> request_context \<Rightarrow> free_call_request \<Rightarrow> ('w, pydict) sprog" where
  "get_free_call_signature env ctx request =
     andthen (new_signer env (get_token_from_origin (rc_origin ctx))) (\<lambda>_.
     andthen (get_current_block_no env) (\<lambda>current_block.
     andthen (get_free_call_token_info_by_username (rc_username ctx) (fc_organization_id request) (fc_service_id request)
       (fc_group_id request)) (\<lambda>found.
     andthen (case found of
         Some info \<Rightarrow>
           if tk_expiration_block_number info \<le> current_block then new_free_call_token env (rc_username ctx) request current_block
           else ret (info, tk_expiration_block_number info)
       | None \<Rightarrow> new_free_call_token env (rc_username ctx) request current_block) (\<lambda>(info, expiration_block_number).
     andthen (of_sum (generate_signature_for_free_call env (signer_address env) (rc_username ctx) (fc_organization_id request)
       (fc_service_id request) (fc_group_id request) current_block (tk_token info))) (\<lambda>signature.
     ret [(''signer_address'', PStr (signer_address env)), (''signature_hex'', PStr (bytes_hex signature)),
          (''free_call_token_hex'', PStr (bytes_hex (tk_token info))), (''expiration_block_number'', PInt expiration_block_number),
          (''current_block_number'', PInt current_block)])))))"

definition get_signature_for_state_service :: "'w signer_env \<Rightarrow> request_context \<Rightarrow> int \<Rightarrow> ('w, pydict) sprog" where
  "get_signature_for_state_service env ctx channel_id =
     andthen (new_signer env (get_token_from_origin (rc_origin ctx))) (\<lambda>sg.
     of_sum (signature_for_state_service env sg channel_id))"

definition get_signature_for_regular_call :: "'w signer_env \<Rightarrow> request_context \<Rightarrow> int \<times> int \<times> int \<Rightarrow> ('w, pydict) sprog" where
  "get_signature_for_regular_call env ctx = (\<lambda>(channel_id, nonce, amount).
     andthen (new_signer env (get_token_from_origin (rc_origin ctx))) (\<lambda>sg.
     of_sum (signature_for_regular_call env sg channel_id nonce amount)))"

definition get_signature_for_open_channel_for_third_party ::
  "'w signer_env \<Rightarrow> request_context \<Rightarrow> third_party_request \<Rightarrow> ('w, pydict) sprog" where
  "get_signature_for_open_channel_for_third_party env ctx request =
     andthen (new_signer env (get_token_from_origin (rc_origin ctx))) (\<lambda>sg.
     of_sum (signature_for_open_channel_for_third_party env sg (tp_recipient request) (tp_group_id request)
       (tp_amount_in_cogs request) (tp_expiration request) (tp_message_nonce request) (tp_signer_key request)
       (tp_executor_wallet_address request)))"

definition get_freecall_signer_address :: "'w signer_env \<Rightarrow> pydict" where
  "get_freecall_signer_address env = [(''free_call_signer_address'', PStr (signer_address env))]"

section \<open>application/handlers.py\<close>

definition signer_success :: "pydict \<Rightarrow> ('w, lambda_response) sprog" where
  "signer_success data = of_sum (generate_lambda_response 200 (PDict [(''status'', PStr ''success''), (''data'', PDict data)]) True)"

definition signer_handler ::
  "exn + request_context \<Rightarrow> exn + 'r \<Rightarrow> (request_context \<Rightarrow> 'r \<Rightarrow> ('w, pydict) sprog) \<Rightarrow> ('w, lambda_response) sprog" where
  "signer_handler ctx request serve = exception_handler
     (andthen (of_sum ctx) (\<lambda>ctx. andthen (of_sum request) (\<lambda>request. andthen (serve ctx request) signer_success)))"

definition get_free_call_signature_handler :: "'w signer_env \<Rightarrow> pydict \<Rightarrow> ('w, lambda_response) sprog" where
  "get_free_call_signature_handler env event =
     signer_handler (RequestContext (offline env) event) (GetFreeCallSignatureRequest env event) (get_free_call_signature env)"

text \<open>Who brings no claims is served under the name of the contract API.\<close>

definition state_service_context :: "'w signer_env \<Rightarrow> pydict \<Rightarrow> exn + request_context" where
  "state_service_context env event =
     (case RequestContext (offline env) event of
        Inl (CustomExc BadRequestClass h c m d) \<Rightarrow>
          RequestContext_as (offline env) event ''CONTRACT_API_SERVICE'' ''CONTRACT_API_SERVICE''
      | r \<Rightarrow> r)"

definition get_state_service_signature_handler :: "'w signer_env \<Rightarrow> pydict \<Rightarrow> ('w, lambda_response) sprog" where
  "get_state_service_signature_handler env event =
     signer_handler (state_service_context env event) (GetSignatureForStateServiceRequest env event)
       (get_signature_for_state_service env)"

definition get_regular_call_signature_handler :: "'w signer_env \<Rightarrow> pydict \<Rightarrow> ('w, lambda_response) sprog" where
  "get_regular_call_signature_handler env event =
     signer_handler (RequestContext (offline env) event) (GetSignatureForRegularCallRequest env event)
       (get_signature_for_regular_call env)"

definition get_open_channel_for_third_party_signature_handler :: "'w signer_env \<Rightarrow> pydict \<Rightarrow> ('w, lambda_response) sprog" where
  "get_open_channel_for_third_party_signature_handler env event =
     signer_handler (RequestContext (offline env) event) (GetSignatureForOpenChannelForThirdPartyRequest env event)
       (get_signature_for_open_channel_for_third_party env)"

definition get_free_call_signer_address_handler :: "'w signer_env \<Rightarrow> ('w, lambda_response) sprog" where
  "get_free_call_signer_address_handler env = exception_handler (signer_success (get_freecall_signer_address env))"

end
