(* ===== verification/Signer_Laws.thy ===== *)
theory Signer_Laws
  imports Signer
begin

text \<open>
  What the signer promises: a free-call token is asked for once and then reused, the parts of the signature that opens a
  channel, and the one group of a service whose tokens can be had.
\<close>

section \<open>A small world\<close>

definition demo_signer_env :: "unit signer_env" where
  "demo_signer_env =
     \<lparr>offline = False, loads = (\<lambda>t. Inr (if t = ''p'' then PDict [(''body'', PStr ''b'')] else
        PDict [(''status'', PStr ''success''), (''data'', PDict [(''groups'', PList [PDict [(''groupId'', PStr ''g''),
          (''endpoints'', PList [PDict [(''endpoint'', PStr ''http://d'')]]), (''freeCalls'', PInt 3)]])])])),
      formatted_errors = (\<lambda>_ _. PNone), int_of = (\<lambda>_. None),
      urlparse = (\<lambda>_. Inr \<lparr>url_scheme = ''http'', url_hostname = Some ''d'', url_port = None\<rparr>), is_connected = ret True,
      block_number = ret 7, contract_json = (\<lambda>_. Inr (PDict [(''0'', PDict [(''FET'', PDict [([], PDict [(''address'', PStr ''0x1'')])])])])),
      to_checksum_address = as_text, sign_hash = (\<lambda>_ _ _. Inr (replicate 64 1 @ [27])), signed_bytes = (\<lambda>_. PNone),
      hexbytes_hex = bytes_hex, get_service_details = (\<lambda>_. ret ''p''), daemon_token = (\<lambda>_ _ _. ret ([5, 6], 90)),
      NETWORK_ID = 0, STAGE = [], MPE_ADDR_PATH = [], signer_key = ''k'', signer_address = ''0xS'', expiration_block_count = 100\<rparr>"

section \<open>A node that stands at a block\<close>

definition at_block :: "'w signer_env \<Rightarrow> int \<Rightarrow> bool" where
  "at_block env n \<longleftrightarrow> is_connected env = ret True \<and> block_number env = ret n"

lemma elsewhere_ret [simp]: "elsewhere (ret a) = ret a"
  by (rule ext) (simp add: elsewhere_def)

lemma current_block: "at_block env n \<Longrightarrow> get_current_block_no env = ret n"
  by (rule ext) (simp add: get_current_block_no_def at_block_def try_except_apply andthen_apply)

lemma new_signer_run: "at_block env n \<Longrightarrow> \<exists>r. new_signer env token = of_sum r"
  by (rule exI [where x = "sbind (read_contract_address env (NETWORK_ID env) (MPE_ADDR_PATH env) (token_symbol_value token) (STAGE env) ''address'')
        (\<lambda>a. Inr \<lparr>sg_mpe_address = a, sg_current_block_no = n\<rparr>)"])
    (rule ext, auto simp: new_signer_def current_block andthen_apply sbind_def split: sum.split)

section \<open>Free calls\<close>

text \<open>The answer for a stored token.\<close>

definition free_call_answer ::
  "'w signer_env \<Rightarrow> request_context \<Rightarrow> free_call_request \<Rightarrow> int \<Rightarrow> nat list \<Rightarrow> int \<Rightarrow> exn + pydict" where
  "free_call_answer env ctx request n token expiration =
     sbind (generate_signature_for_free_call env (signer_address env) (rc_username ctx) (fc_organization_id request)
       (fc_service_id request) (fc_group_id request) n token) (\<lambda>signature.
     Inr [(''signer_address'', PStr (signer_address env)), (''signature_hex'', PStr (bytes_hex signature)),
          (''free_call_token_hex'', PStr (bytes_hex token)), (''expiration_block_number'', PInt expiration),
          (''current_block_number'', PInt n)])"

abbreviation own_token :: "request_context \<Rightarrow> free_call_request \<Rightarrow> token_row \<Rightarrow> bool" where
  "own_token ctx request \<equiv> token_of (rc_username ctx) (fc_organization_id request) (fc_service_id request) (fc_group_id request)"

lemma free_call_stored:
  assumes "at_block env n" and "new_signer env (get_token_from_origin (rc_origin ctx)) = of_sum (Inr sg)"
    and "sql_first (own_token ctx request) (token_table w) = Some info" and "n < tk_expiration_block_number info"
  shows "get_free_call_signature env ctx request w =
     (free_call_answer env ctx request n (tk_token info) (tk_expiration_block_number info), w)"
  using assms
  by (simp add: get_free_call_signature_def current_block get_free_call_token_info_by_username_def andthen_apply
      free_call_answer_def sbind_def split: sum.split)

lemma sql_first_after_update:
  "sql_first p t = Some r \<Longrightarrow> p row \<Longrightarrow> sql_first p (update_first p (\<lambda>_. row) t) = Some row"
  by (induction t) (auto split: if_splits)

lemma stored_tokenE:
  assumes "insert_or_update_free_call_token_info u og s g expiration token w = (Inr info, w')"
  shows "sql_first (token_of u og s g) (token_table w') = Some info \<and> tk_expiration_block_number info = expiration \<and> tk_token info = token"
proof -
  let ?row = "\<lparr>tk_username = u, tk_organization_id = og, tk_service_id = s, tk_group_id = g, tk_token = token,
    tk_expiration_block_number = expiration\<rparr>"
  have mine: "token_of u og s g ?row" by (simp add: token_of_def)
  show ?thesis
    using assms mine
    by (cases "sql_first (token_of u og s g) (token_table w)")
      (auto simp: insert_or_update_free_call_token_info_def andthen_apply Let_def sql_first_append sql_first_after_update
        split: if_splits)
qed

lemma new_tokenE:
  assumes "new_free_call_token env u request n w = (Inr (info, e), w')"
  shows "sql_first (token_of u (fc_organization_id request) (fc_service_id request) (fc_group_id request)) (token_table w') = Some info \<and>
    tk_expiration_block_number info = n + expiration_block_count env"
  using assms unfolding new_free_call_token_def
  by (elim andthen_InrE) (auto split: prod.splits if_splits elim!: andthen_InrE dest!: stored_tokenE)

text \<open>C34. A token is asked for once: after a request for a free call that was answered, the same request at the same
  block reaches neither the contract API nor a daemon and changes nothing. It is answered the same token and signature;
  only the block of expiration may be another one, the stored instead of the daemon's, and it lies ahead.\<close>

theorem free_call_token_is_kept:
  assumes "at_block env n" and "0 < expiration_block_count env"
    and answered: "get_free_call_signature env ctx request w = (Inr d, w1)"
  shows "\<exists>expiration > n. get_free_call_signature env ctx request w1 =
     (Inr (dict_set ''expiration_block_number'' (PInt expiration) d), w1)"
proof -
  obtain r where "new_signer env (get_token_from_origin (rc_origin ctx)) = of_sum r"
    using new_signer_run [OF assms(1)] by blast
  with answered obtain sg where signer: "new_signer env (get_token_from_origin (rc_origin ctx)) = of_sum (Inr sg)"
    by (cases r) (auto simp: get_free_call_signature_def andthen_apply)
  define found where "found = sql_first (own_token ctx request) (token_table w)"
  have "\<exists>info e. n < tk_expiration_block_number info \<and> sql_first (own_token ctx request) (token_table w1) = Some info \<and>
      free_call_answer env ctx request n (tk_token info) e = Inr d"
  proof (cases "\<exists>info. found = Some info \<and> n < tk_expiration_block_number info")
    case True
    then obtain info where "found = Some info" and ahead: "n < tk_expiration_block_number info" by blast
    with free_call_stored [OF assms(1) signer, of request w info] answered show ?thesis
      by (auto simp: found_def)
  next
    case False
    then have "get_free_call_signature env ctx request w =
       andthen (new_free_call_token env (rc_username ctx) request n) (\<lambda>(info, e). of_sum (free_call_answer env ctx request n (tk_token info) e)) w"
      using signer assms(1)
      by (auto simp: get_free_call_signature_def current_block get_free_call_token_info_by_username_def andthen_apply
          free_call_answer_def sbind_def found_def [symmetric] split: option.splits sum.splits prod.splits)
    with answered obtain info e where new: "new_free_call_token env (rc_username ctx) request n w = (Inr (info, e), w1)"
      and answer: "free_call_answer env ctx request n (tk_token info) e = Inr d"
      by (auto split: prod.splits elim!: andthen_InrE)
    from new_tokenE [OF new] answer assms(2) show ?thesis by auto
  qed
  then obtain info e where ahead: "n < tk_expiration_block_number info"
    and first: "sql_first (own_token ctx request) (token_table w1) = Some info"
    and answer: "free_call_answer env ctx request n (tk_token info) e = Inr d" by blast
  from answer have "free_call_answer env ctx request n (tk_token info) (tk_expiration_block_number info) =
      Inr (dict_set ''expiration_block_number'' (PInt (tk_expiration_block_number info)) d)"
    by (auto simp: free_call_answer_def sbind_Inr_iff dict_set_def)
  with free_call_stored [OF assms(1) signer first ahead] ahead show ?thesis by auto
qed

lemma demo_signer_fields:
  "loads demo_signer_env = (\<lambda>t. Inr (if t = ''p'' then PDict [(''body'', PStr ''b'')] else
        PDict [(''status'', PStr ''success''), (''data'', PDict [(''groups'', PList [PDict [(''groupId'', PStr ''g''),
          (''endpoints'', PList [PDict [(''endpoint'', PStr ''http://d'')]]), (''freeCalls'', PInt 3)]])])]))"
  "urlparse demo_signer_env = (\<lambda>_. Inr \<lparr>url_scheme = ''http'', url_hostname = Some ''d'', url_port = None\<rparr>)"
  "contract_json demo_signer_env = (\<lambda>_. Inr (PDict [(''0'', PDict [(''FET'', PDict [([], PDict [(''address'', PStr ''0x1'')])])])]))"
  "to_checksum_address demo_signer_env = as_text"
  "sign_hash demo_signer_env = (\<lambda>_ _ _. Inr (replicate 64 1 @ [27]))"
  "signed_bytes demo_signer_env = (\<lambda>_. PNone)"
  "get_service_details demo_signer_env = (\<lambda>_. ret ''p'')"
  "daemon_token demo_signer_env = (\<lambda>_ _ _. ret ([5, 6], 90))"
  "NETWORK_ID demo_signer_env = 0"
  "STAGE demo_signer_env = []"
  "MPE_ADDR_PATH demo_signer_env = []"
  "signer_key demo_signer_env = ''k''"
  "signer_address demo_signer_env = ''0xS''"
  "expiration_block_count demo_signer_env = 100"
  by (simp_all add: demo_signer_env_def)

lemma demo_endpoint: "get_daemon_endpoint_and_free_call_for_group demo_signer_env ''o'' ''s'' ''g'' w = (Inr (PStr ''http://d'', PInt 3), w)"
  by (simp add: get_daemon_endpoint_and_free_call_for_group_def demo_signer_fields getitem_def first_item_def get_default_def py_items_def andthen_apply)

lemma demo_token: "get_free_call_token demo_signer_env a sig 7 ''u'' (PStr ''http://d'') 100 w = (Inr ([5, 6], 90), w)"
  by (simp add: get_free_call_token_def make_endpoint_channel_def try_except_apply andthen_apply demo_signer_fields endpoint_channel_def)

theorem free_call_token_is_kept_witness:
  "\<exists>d w1 e. get_free_call_signature demo_signer_env \<lparr>rc_username = ''u'', rc_origin = ''fet'', rc_account_id = ''a''\<rparr>
      \<lparr>fc_organization_id = ''o'', fc_service_id = ''s'', fc_group_id = ''g''\<rparr> \<lparr>token_table = [], outside = ()\<rparr> = (Inr d, w1) \<and> e > 7 \<and>
    get_free_call_signature demo_signer_env \<lparr>rc_username = ''u'', rc_origin = ''fet'', rc_account_id = ''a''\<rparr>
      \<lparr>fc_organization_id = ''o'', fc_service_id = ''s'', fc_group_id = ''g''\<rparr> w1 = (Inr (dict_set ''expiration_block_number'' (PInt e) d), w1)"
proof -
  have block: "at_block demo_signer_env 7" by (simp add: at_block_def demo_signer_env_def)
  have "\<exists>d w1. get_free_call_signature demo_signer_env \<lparr>rc_username = ''u'', rc_origin = ''fet'', rc_account_id = ''a''\<rparr>
      \<lparr>fc_organization_id = ''o'', fc_service_id = ''s'', fc_group_id = ''g''\<rparr> \<lparr>token_table = [], outside = ()\<rparr> = (Inr d, w1)"
    by (simp add: get_free_call_signature_def new_signer_def current_block [OF block] read_contract_address_def getitem_def
        andthen_apply get_free_call_token_info_by_username_def new_free_call_token_def generate_signature_to_get_free_call_token_def
        generate_signature_bytes_def demo_endpoint equals_zero_def demo_token try_except_apply
        insert_or_update_free_call_token_info_def generate_signature_for_free_call_def get_token_from_origin_def
        demo_signer_fields str_int_0 Let_def)
  then obtain d w1 where first: "get_free_call_signature demo_signer_env \<lparr>rc_username = ''u'', rc_origin = ''fet'', rc_account_id = ''a''\<rparr>
      \<lparr>fc_organization_id = ''o'', fc_service_id = ''s'', fc_group_id = ''g''\<rparr> \<lparr>token_table = [], outside = ()\<rparr> = (Inr d, w1)" by blast
  from free_call_token_is_kept [OF block _ first] first show ?thesis by (auto simp: demo_signer_env_def)
qed

section \<open>The groups of a service\<close>

text \<open>If the first group of a service is another one, the loop raises before it looks at the next.\<close>

lemma only_first_group_found:
  assumes "getitem group_data ''groupId'' = Inr (PStr other)" and "other \<noteq> group_id"
  shows "find_group (PList groups) group_id missing (group_data # rest) = Inl TypeError"
  using assms by (simp add: getitem_def)

section \<open>The signature that opens a channel\<close>

lemma length_bytes_hex: "length (bytes_hex bytes) = 2 * length bytes"
  by (induction bytes) (simp_all add: bytes_hex_def)

lemma bytes_hex_append: "bytes_hex (xs @ ys) = bytes_hex xs @ bytes_hex ys"
  by (simp add: bytes_hex_def)

lemma take_drop_bytes_hex:
  "take (2 * n) (bytes_hex bytes) = bytes_hex (take n bytes)" "drop (2 * n) (bytes_hex bytes) = bytes_hex (drop n bytes)"
proof -
  have "bytes_hex bytes = bytes_hex (take n bytes) @ bytes_hex (drop n bytes)"
    by (metis append_take_drop_id bytes_hex_append)
  moreover have "length (bytes_hex (take n bytes)) = 2 * min n (length bytes)" by (simp add: length_bytes_hex)
  ultimately show "take (2 * n) (bytes_hex bytes) = bytes_hex (take n bytes)" "drop (2 * n) (bytes_hex bytes) = bytes_hex (drop n bytes)"
    by (cases "n \<le> length bytes"; simp add: min_def bytes_hex_def)+
qed

lemma hex_number_byte: "v < 256 \<Longrightarrow> hex_number 0 (bytes_hex [v]) = Inr v"
  by (simp add: bytes_hex_def hex_value_digit less_mult_imp_div_less)

lemma last_byte:
  assumes "length sig = 65"
  shows "last_chars 2 (bytes_hex sig) = bytes_hex [last sig]" "last_chars 2 (''0x'' @ bytes_hex sig) = bytes_hex [last sig]"
proof -
  have "drop 128 (bytes_hex sig) = bytes_hex (drop 64 sig)" using take_drop_bytes_hex(2) [of 64 sig] by simp
  moreover have "drop 64 sig = [last sig]" using assms by (metis append_butlast_last_id append_eq_conv_conj length_butlast
        list.size(3) diff_Suc_1 eval_nat_numeral(3) numeral_eq_Suc zero_neq_numeral)
  ultimately show "last_chars 2 (bytes_hex sig) = bytes_hex [last sig]" "last_chars 2 (''0x'' @ bytes_hex sig) = bytes_hex [last sig]"
    using assms by (simp_all add: last_chars_def length_bytes_hex)
qed

lemma split_plain:
  assumes "length sig = 65" and "\<forall>b \<in> set sig. b < 256"
  shows "split_signature (bytes_hex sig) = Inr [(''r'', PStr (bytes_hex (take 33 sig))), (''s'', PStr (''0x'' @ bytes_hex (drop 33 sig))),
     (''v'', PInt (int (last sig))), (''signature'', PStr (bytes_hex sig))]"
proof -
  have "last sig < 256" using assms by (cases sig rule: rev_cases) auto
  moreover have "take 66 (bytes_hex sig) = bytes_hex (take 33 sig)" using take_drop_bytes_hex(1) [of 33 sig] by simp
  moreover have "drop 66 (bytes_hex sig) = bytes_hex (drop 33 sig)" using take_drop_bytes_hex(2) [of 33 sig] by simp
  moreover have "take 64 (bytes_hex (drop 33 sig)) = bytes_hex (drop 33 sig)" using assms(1) by (simp add: length_bytes_hex)
  ultimately show ?thesis by (simp add: split_signature_def last_byte [OF assms(1)] hex_number_byte)
qed

lemma split_prefixed:
  assumes "length sig = 65" and "\<forall>b \<in> set sig. b < 256"
  shows "split_signature (''0x'' @ bytes_hex sig) =
     Inr [(''r'', PStr (''0x'' @ bytes_hex (take 32 sig))), (''s'', PStr (''0x'' @ bytes_hex (take 32 (drop 32 sig)))),
       (''v'', PInt (int (last sig))), (''signature'', PStr (''0x'' @ bytes_hex sig))]"
proof -
  have "last sig < 256" using assms by (cases sig rule: rev_cases) auto
  moreover have "take 66 (''0x'' @ bytes_hex sig) = ''0x'' @ bytes_hex (take 32 sig)" using take_drop_bytes_hex(1) [of 32 sig] by simp
  moreover have "drop 66 (''0x'' @ bytes_hex sig) = bytes_hex (drop 32 sig)" using take_drop_bytes_hex(2) [of 32 sig] by simp
  moreover have "take 64 (bytes_hex (drop 32 sig)) = bytes_hex (take 32 (drop 32 sig))" using take_drop_bytes_hex(1) [of 32 "drop 32 sig"] by simp
  ultimately show ?thesis by (simp only: split_signature_def last_byte(2) [OF assms(1)]) (simp add: hex_number_byte)
qed

text \<open>C35. The parts of the signature that opens a channel: with a library whose \<open>hex\<close> writes the prefix, \<open>r\<close> and \<open>s\<close> of
  the answer are the first and the second 32 bytes of the signature. With one that writes the digits alone, the version
  the service runs with, \<open>r\<close> has 33 bytes and no prefix, and \<open>s\<close> is the 31 bytes that are left with \<open>v\<close> at the end, so
  that no contract accepts them. \<open>v\<close> is right in both.\<close>

theorem third_party_signature_parts:
  assumes library: "\<And>tys vals k sig. sign_hash env tys vals k = Inr sig \<Longrightarrow> length sig = 65 \<and> (\<forall>b \<in> set sig. b < 256)"
    and known: "hexbytes_hex env = bytes_hex \<or> hexbytes_hex env = (\<lambda>b. ''0x'' @ bytes_hex b)"
    and answered: "signature_for_open_channel_for_third_party env sg recipient group_id amount expiration nonce key executor = Inr d"
  shows "\<exists>sig. length sig = 65 \<and> dict_get d ''v'' = Some (PInt (int (last sig))) \<and>
     (hexbytes_hex env = (\<lambda>b. ''0x'' @ bytes_hex b) \<longrightarrow>
        dict_get d ''r'' = Some (PStr (''0x'' @ bytes_hex (take 32 sig))) \<and>
        dict_get d ''s'' = Some (PStr (''0x'' @ bytes_hex (take 32 (drop 32 sig)))) \<and>
        dict_get d ''signature'' = Some (PStr (''0x'' @ bytes_hex sig))) \<and>
     (hexbytes_hex env = bytes_hex \<longrightarrow>
        dict_get d ''r'' = Some (PStr (bytes_hex (take 33 sig))) \<and>
        dict_get d ''s'' = Some (PStr (''0x'' @ bytes_hex (drop 33 sig))) \<and>
        dict_get d ''signature'' = Some (PStr (bytes_hex sig)))"
    (is "\<exists>sig. ?parts sig")
proof -
  from answered obtain sig tys vals k where "sign_hash env tys vals k = Inr sig"
    and split: "split_signature (hexbytes_hex env sig) = Inr d"
    by (auto simp: signature_for_open_channel_for_third_party_def generate_signature_def sbind_Inr_iff)
  with library have sig: "length sig = 65" "\<forall>b \<in> set sig. b < 256" by blast+
  have other: "bytes_hex \<noteq> (\<lambda>b. ''0x'' @ bytes_hex b)" by (metis append_self_conv2 list.distinct(1))
  show ?thesis
  proof (rule exI [where x = sig], cases "hexbytes_hex env = bytes_hex")
    case True
    with split split_plain [OF sig] have d: "d = [(''r'', PStr (bytes_hex (take 33 sig))), (''s'', PStr (''0x'' @ bytes_hex (drop 33 sig))),
       (''v'', PInt (int (last sig))), (''signature'', PStr (bytes_hex sig))]" by simp
    with True other sig(1) show "?parts sig" unfolding d True by simp
  next
    case False
    with known have prefixed: "hexbytes_hex env = (\<lambda>b. ''0x'' @ bytes_hex b)" by blast
    with split split_prefixed [OF sig] have d: "d = [(''r'', PStr (''0x'' @ bytes_hex (take 32 sig))),
       (''s'', PStr (''0x'' @ bytes_hex (take 32 (drop 32 sig)))), (''v'', PInt (int (last sig))),
       (''signature'', PStr (''0x'' @ bytes_hex sig))]" by simp
    with False sig(1) show "?parts sig" unfolding d by simp
  qed
qed

theorem third_party_signature_parts_witness:
  "\<exists>d sig. signature_for_open_channel_for_third_party demo_signer_env \<lparr>sg_mpe_address = [], sg_current_block_no = 7\<rparr> [] [] 1 2 3 [] [] = Inr d \<and>
     length sig = 65 \<and> dict_get d ''r'' = Some (PStr (bytes_hex (take 33 sig)))"
proof -
  have library: "sign_hash demo_signer_env tys vals k = Inr sig \<Longrightarrow> length sig = 65 \<and> (\<forall>b \<in> set sig. b < 256)" for tys vals k sig
    by (auto simp: demo_signer_env_def)
  have hex: "hexbytes_hex demo_signer_env = bytes_hex" by (simp add: demo_signer_env_def)
  have "\<exists>d. signature_for_open_channel_for_third_party demo_signer_env \<lparr>sg_mpe_address = [], sg_current_block_no = 7\<rparr> [] [] 1 2 3 [] [] = Inr d"
    using split_plain [of "replicate 64 1 @ [27]"]
    by (simp add: signature_for_open_channel_for_third_party_def generate_signature_def demo_signer_env_def)
  then obtain d where "signature_for_open_channel_for_third_party demo_signer_env \<lparr>sg_mpe_address = [], sg_current_block_no = 7\<rparr> [] [] 1 2 3 [] [] = Inr d" ..
  note answer = this
  show ?thesis
    by (rule exE [OF third_party_signature_parts [OF _ disjI1 [OF hex] answer]], erule library) (use answer hex in blast)
qed

end
