(* ===== verification/Text_Patterns.thy ===== *)
theory Text_Patterns
  imports Prelude
begin

text \<open>
  The regular expressions of Python's \<open>re\<close> that the program writes: classes of characters, sequences, alternatives and
  repetitions. Whether a text matches is decided by reading it character by character; \<open>spells\<close> says which texts a
  pattern stands for, and the two agree.
\<close>

section \<open>Patterns\<close>

datatype pattern =
    Never
  | Blank
  | One "char \<Rightarrow> bool"
  | Then pattern pattern
  | Either pattern pattern
  | Many pattern

inductive spells :: "pattern \<Rightarrow> string \<Rightarrow> bool" where
  blank: "spells Blank []"
| one: "q c \<Longrightarrow> spells (One q) [c]"
| seq: "spells p s \<Longrightarrow> spells q t \<Longrightarrow> spells (Then p q) (s @ t)"
| left: "spells p s \<Longrightarrow> spells (Either p q) s"
| right: "spells q s \<Longrightarrow> spells (Either p q) s"
| no_more: "spells (Many p) []"
| once_more: "spells p s \<Longrightarrow> spells (Many p) t \<Longrightarrow> spells (Many p) (s @ t)"

inductive_simps spells_simps:
  "spells Never s"
  "spells Blank s"
  "spells (One q) s"
  "spells (Then p q) s"
  "spells (Either p q) s"

section \<open>Reading a text\<close>

fun takes_nothing :: "pattern \<Rightarrow> bool" where
  "takes_nothing Never = False"
| "takes_nothing Blank = True"
| "takes_nothing (One q) = False"
| "takes_nothing (Then p q) = (takes_nothing p \<and> takes_nothing q)"
| "takes_nothing (Either p q) = (takes_nothing p \<or> takes_nothing q)"
| "takes_nothing (Many p) = True"

text \<open>What is left of a pattern when a character has been read.\<close>

fun after :: "char \<Rightarrow> pattern \<Rightarrow> pattern" where
  "after c Never = Never"
| "after c Blank = Never"
| "after c (One q) = (if q c then Blank else Never)"
| "after c (Then p q) =
     (if takes_nothing p then Either (Then (after c p) q) (after c q) else Then (after c p) q)"
| "after c (Either p q) = Either (after c p) (after c q)"
| "after c (Many p) = Then (after c p) (Many p)"

text \<open>\<open>re.fullmatch(p, s)\<close>, and \<open>re.match(p, s)\<close>: a prefix matches.\<close>

fun fits :: "pattern \<Rightarrow> string \<Rightarrow> bool" where
  "fits p [] = takes_nothing p"
| "fits p (c # s) = fits (after c p) s"

fun fits_start :: "pattern \<Rightarrow> string \<Rightarrow> bool" where
  "fits_start p [] = takes_nothing p"
| "fits_start p (c # s) = (takes_nothing p \<or> fits_start (after c p) s)"

text \<open>\<open>re.search("^...$", s)\<close>: a line break may follow the match.\<close>

definition fits_line :: "pattern \<Rightarrow> string \<Rightarrow> bool" where
  "fits_line p s \<longleftrightarrow> fits p s \<or> (s \<noteq> [] \<and> last s = char_of (10 :: nat) \<and> fits p (butlast s))"

fun in_order :: "pattern list \<Rightarrow> pattern" where
  "in_order [] = Blank"
| "in_order (p # ps) = Then p (in_order ps)"

definition literally :: "string \<Rightarrow> pattern" where
  "literally s = in_order (map (\<lambda>c. One (\<lambda>d. d = c)) s)"

text \<open>\<open>+\<close> and \<open>?\<close>.\<close>

definition some_of :: "pattern \<Rightarrow> pattern" where
  "some_of p = Then p (Many p)"

definition perhaps :: "pattern \<Rightarrow> pattern" where
  "perhaps p = Either Blank p"

text \<open>\<open>.\<close> is any character but a line break, \<open>\w\<close> a letter, a number or an underscore.\<close>

definition any_char :: "char \<Rightarrow> bool" where
  "any_char c \<longleftrightarrow> c \<noteq> char_of (10 :: nat)"

definition word_char :: "char \<Rightarrow> bool" where
  "word_char c \<longleftrightarrow>
     (let n = (of_char c :: nat) in
      48 \<le> n \<and> n \<le> 57 \<or> 65 \<le> n \<and> n \<le> 90 \<or> n = 95 \<or> 97 \<le> n \<and> n \<le> 122 \<or> n \<in> {170, 178, 179, 181, 185, 186, 188, 189, 190}
      \<or> 192 \<le> n \<and> n \<noteq> 215 \<and> n \<noteq> 247)"

section \<open>Reading decides what a pattern stands for\<close>

lemma takes_nothing_spells: "takes_nothing p \<longleftrightarrow> spells p []"
  by (induction p) (auto simp: spells_simps intro: spells.no_more)

text \<open>A repetition that is not empty begins with a round that is not empty.\<close>

lemma first_round:
  "spells r u \<Longrightarrow> r = Many p \<Longrightarrow> u = c # v \<Longrightarrow> \<exists>s t. v = s @ t \<and> spells p (c # s) \<and> spells (Many p) t"
proof (induction arbitrary: v rule: spells.induct)
  case (once_more q s t)
  then show ?case by (cases s) auto
qed simp_all

lemma after_spells: "spells (after c p) s \<longleftrightarrow> spells p (c # s)"
proof (induction p arbitrary: s)
  case (Then p q)
  have "spells (Then p q) (c # s) \<longleftrightarrow>
      (\<exists>u v. s = u @ v \<and> spells p (c # u) \<and> spells q v) \<or> spells p [] \<and> spells q (c # s)"
    by (auto simp: spells_simps Cons_eq_append_conv)
  with Then.IH show ?case by (auto simp: spells_simps takes_nothing_spells)
next
  case (Many p)
  have "spells (Many p) (c # s) \<longleftrightarrow> (\<exists>u v. s = u @ v \<and> spells p (c # u) \<and> spells (Many p) v)"
    using first_round spells.once_more [of p "c # _"] by fastforce
  with Many.IH show ?case by (simp add: spells_simps)
qed (auto simp: spells_simps)

lemma fits_spells: "fits p s \<longleftrightarrow> spells p s"
  by (induction s arbitrary: p) (simp_all add: takes_nothing_spells after_spells)

lemma fits_start_spells: "fits_start p s \<longleftrightarrow> (\<exists>u v. s = u @ v \<and> spells p u)"
proof (induction s arbitrary: p)
  case Nil
  show ?case by (simp add: takes_nothing_spells)
next
  case (Cons c s)
  have "(\<exists>u v. c # s = u @ v \<and> spells p u) \<longleftrightarrow> spells p [] \<or> (\<exists>u v. s = u @ v \<and> spells p (c # u))"
    by (auto simp: Cons_eq_append_conv)
  with Cons.IH show ?case by (simp add: takes_nothing_spells after_spells)
qed

lemma spells_literally [simp]: "spells (literally t) s \<longleftrightarrow> s = t"
proof (induction t arbitrary: s)
  case Nil
  show ?case by (simp add: literally_def spells_simps)
next
  case (Cons c t)
  then show ?case by (auto simp: literally_def spells_simps)
qed

end
