(* ===== verification/Service_Status.thy ===== *)
theory Service_Status
  imports Requests Json Text_Patterns "HOL-Library.Option_ord"
begin

text \<open>
  The monitor of the services, \<open>src/service_status\<close>: the health check of the daemons' endpoints with its growing
  intervals, the watch over their certificates, the notifications, and the lambdas. It works on the tables of the
  contract API, one committed statement at a time.
\<close>

section \<open>State and environment\<close>

text \<open>
  The columns of the tables that the monitor names. \<open>curated\<close> has the services with \<open>is_curated = 1\<close>, \<open>contributors\<close>
  the text of the JSON column of \<open>service_metadata\<close>. No migration makes the table of the statistics, so it may be missing.
\<close>

record endpoint_row =
  ep_row_id :: int
  ep_org_id :: string
  ep_service_id :: string
  ep_endpoint :: "string option"
  ep_is_available :: "int option"
  ep_last_check :: "time option"
  ep_next_check :: "time option"
  ep_failed_status_count :: int

record stats_row =
  st_org_id :: string
  st_service_id :: string
  st_previous_state :: string
  st_current_state :: string
  st_row_created :: time
  st_row_updated :: time

record 'w status_world =
  endpoints :: "endpoint_row list"
  curated :: "(string \<times> string) list"
  contributors :: "((string \<times> string) \<times> string) list"
  status_stats :: "stats_row list option"
  outside :: 'w

text \<open>
  The clocks of the program and of the database, the daemons, the search engine, the lambda of notifications and the
  certificates are programs over a state \<open>'w\<close>. \<open>health_check\<close> is \<open>Check\<close> of the health stub, over a secure channel or not:
  the status of a response. A call that fails raises \<open>rpc_error\<close>: the first argument of gRPC's exception is the state of
  the call, with its fields. \<open>rounded\<close> is the rounding of a quotient in \<open>timedelta\<close>, \<open>no_space\<close> is \<open>lstrip\<close>.
\<close>

definition rpc_error :: "pydict \<Rightarrow> exn" where
  "rpc_error state = DataExc ''RpcError'' (PDict state)"

record 'w status_env =
  loads :: "string \<Rightarrow> exn + pyval"
  utcnow :: "'w \<Rightarrow> time \<times> 'w"
  utc_timestamp :: "'w \<Rightarrow> time \<times> 'w"
  current_timestamp :: "'w \<Rightarrow> time \<times> 'w"
  column_time :: "time \<Rightarrow> time"
  health_check :: "bool \<Rightarrow> string \<Rightarrow> ('w, int option) prog"
  index_exists :: "string \<Rightarrow> ('w, bool) prog"
  index_create :: "string \<Rightarrow> pydict \<Rightarrow> ('w, unit) prog"
  index_document :: "string \<Rightarrow> pydict \<Rightarrow> ('w, unit) prog"
  invoke_lambda :: "string \<Rightarrow> string \<Rightarrow> ('w, unit) prog"
  urlparse :: "string \<Rightarrow> exn + url_parts"
  peer_certificate :: "string option \<Rightarrow> int option \<Rightarrow> ('w, pyval) prog"
  strptime :: "pyval \<Rightarrow> exn + time"
  rounded :: "int \<Rightarrow> int \<Rightarrow> int"
  no_space :: "string \<Rightarrow> string"

type_synonym ('w, 'a) stprog = "('w status_world, 'a) prog"

definition elsewhere :: "('w, 'a) prog \<Rightarrow> ('w, 'a) stprog" where
  "elsewhere m = (\<lambda>w. case m (outside w) of (r, o') \<Rightarrow> (r, w\<lparr>outside := o'\<rparr>))"

definition clock :: "('w \<Rightarrow> time \<times> 'w) \<Rightarrow> ('w, time) stprog" where
  "clock c = (\<lambda>w. case c (outside w) of (t, o') \<Rightarrow> (Inr t, w\<lparr>outside := o'\<rparr>))"

section \<open>constant.py and config.py\<close>

text \<open>The configuration as it is in the repository; a deployment may have its own.\<close>

definition LIMIT :: nat where
  "LIMIT = 10"

definition NETWORK_NAME :: string where
  "NETWORK_NAME = ''TEST''"

definition NOTIFICATION_ARN :: string where
  "NOTIFICATION_ARN = ''''"

definition MAXIMUM_INTERVAL_IN_HOUR :: int where
  "MAXIMUM_INTERVAL_IN_HOUR = 12"

definition MINIMUM_INTERVAL_IN_HOUR :: int where
  "MINIMUM_INTERVAL_IN_HOUR = 1"

definition CERTIFICATION_EXPIRATION_THRESHOLD :: int where
  "CERTIFICATION_EXPIRATION_THRESHOLD = 10"

definition BASE_URL_TO_RESET_SERVICE_HEALTH :: string where
  "BASE_URL_TO_RESET_SERVICE_HEALTH = ''''"

section \<open>service\_status.py\<close>

subsection \<open>The tables\<close>

text \<open>
  An \<open>UPDATE\<close> answers the number of rows that it changed. A new value is stored as the column rounds it.
\<close>

definition update_endpoints :: "(endpoint_row \<Rightarrow> bool) \<Rightarrow> (endpoint_row \<Rightarrow> endpoint_row) \<Rightarrow> ('w, nat) stprog" where
  "update_endpoints here f =
     andthen (gets (\<lambda>w. length (filter (\<lambda>r. here r \<and> f r \<noteq> r) (endpoints w)))) (\<lambda>n.
     andthen (modify (\<lambda>w. w\<lparr>endpoints := sql_update here f (endpoints w)\<rparr>)) (\<lambda>_. ret n))"

text \<open>
  The expression of the addresses that are not public: \<open>^(http://)*(https://)*127.0.0.1\<close> and four more.
\<close>

definition rex_for_pb_ip :: pattern where
  "rex_for_pb_ip =
     (let schemes = [Many (literally ''http://''), Many (literally ''https://'')]; any = One any_char;
          network = (\<lambda>number. in_order (schemes @ [literally number, any])) in
      Either (in_order (schemes @ [literally ''127'', any, literally ''0'', any, literally ''0'', any, literally ''1'']))
     (Either (in_order (schemes @ [literally ''localhost'']))
     (Either (network ''192'') (Either (network ''172'') (network ''10'')))))"

definition is_curated :: "'w status_world \<Rightarrow> endpoint_row \<Rightarrow> bool" where
  "is_curated w r \<longleftrightarrow> (ep_org_id r, ep_service_id r) \<in> set (curated w)"

definition public_endpoint :: "endpoint_row \<Rightarrow> bool" where
  "public_endpoint r = (case ep_endpoint r of None \<Rightarrow> False | Some url \<Rightarrow> \<not> fits_start rex_for_pb_ip url)"

definition get_service_endpoint_data :: "'w status_env \<Rightarrow> ('w, endpoint_row list) stprog" where
  "get_service_endpoint_data env =
     andthen (clock (utc_timestamp env)) (\<lambda>t.
     gets (\<lambda>w. take LIMIT (order_asc ep_last_check
       (filter (\<lambda>r. (case ep_next_check r of None \<Rightarrow> False | Some u \<Rightarrow> u < t) \<and> public_endpoint r \<and> is_curated w r)
          (endpoints w)))))"

definition update_service_status_parameters ::
  "'w status_env \<Rightarrow> int \<Rightarrow> time \<Rightarrow> int \<Rightarrow> int \<Rightarrow> ('w, nat) stprog" where
  "update_service_status_parameters env status next_check_timestamp failed_status_count row_id =
     andthen (clock (current_timestamp env)) (\<lambda>t.
     update_endpoints (\<lambda>r. ep_row_id r = row_id)
       (\<lambda>r. r\<lparr>ep_is_available := Some status, ep_last_check := Some (column_time env t),
              ep_next_check := Some (column_time env next_check_timestamp),
              ep_failed_status_count := failed_status_count\<rparr>))"

definition update_service_failed_status_count :: "int \<Rightarrow> int \<Rightarrow> ('w, nat) stprog" where
  "update_service_failed_status_count failed_status_count row_id =
     update_endpoints (\<lambda>r. ep_row_id r = row_id) (\<lambda>r. r\<lparr>ep_failed_status_count := failed_status_count\<rparr>)"

text \<open>A failed insertion is logged only.\<close>

definition update_service_status_stats ::
  "'w status_env \<Rightarrow> string \<Rightarrow> string \<Rightarrow> int option \<Rightarrow> int \<Rightarrow> ('w, unit) stprog" where
  "update_service_status_stats env org_id service_id old_status status =
     (let state = (\<lambda>up. if up then ''UP'' else ''DOWN'') in
      try_except
       (andthen (clock (utcnow env)) (\<lambda>created.
        andthen (clock (utcnow env)) (\<lambda>updated.
        andthen (gets status_stats) (\<lambda>found.
        case found of
          None \<Rightarrow> raise (PyExc ''ProgrammingError'' [])
        | Some t \<Rightarrow> modify (\<lambda>w. w\<lparr>status_stats := Some (t @
            [\<lparr>st_org_id = org_id, st_service_id = service_id, st_previous_state = state (old_status = Some 1),
              st_current_state = state (status = 1), st_row_created = column_time env created,
              st_row_updated = column_time env updated\<rparr>])\<rparr>)))))
       (\<lambda>_. ret ()))"

text \<open>Both classes have their own copy of this method.\<close>

fun email_ids :: "pyval list \<Rightarrow> exn + pyval list" where
  "email_ids [] = Inr []"
| "email_ids (contact # contacts) =
     sbind (get_default contact ''email_id'' PNone) (\<lambda>email_id.
     sbind (email_ids contacts) (\<lambda>emails. Inr (if email_id = PNone then emails else email_id # emails)))"

definition get_service_provider_email :: "'w status_env \<Rightarrow> string \<Rightarrow> string \<Rightarrow> ('w, pyval list option) stprog" where
  "get_service_provider_email env org_id service_id =
     andthen (gets (\<lambda>w. map_of (contributors w) (org_id, service_id))) (\<lambda>found.
     case found of
       None \<Rightarrow> ret None
     | Some contacts \<Rightarrow>
         andthen (of_sum (sbind (sbind (loads env contacts) py_items) email_ids)) (\<lambda>emails. ret (Some emails)))"

subsection \<open>The check of one endpoint\<close>

text \<open>
  \<open>e.args[0].details\<close> and \<open>e.args[0].debug_error_string\<close>: only an exception of gRPC has them.
\<close>

definition failure_details :: "exn \<Rightarrow> exn + pyval \<times> pyval" where
  "failure_details e =
     (case e of
        DataExc cls (PDict d) \<Rightarrow>
          if cls = ''RpcError'' then
            (case (dict_get d ''details'', dict_get d ''debug_error_string'') of
               (Some details, Some debug) \<Rightarrow> Inr (details, debug)
             | _ \<Rightarrow> Inl AttributeError)
          else Inl AttributeError
      | _ \<Rightarrow> Inl AttributeError)"

definition get_service_status :: "'w status_env \<Rightarrow> string \<Rightarrow> bool \<Rightarrow> ('w, int \<times> pyval \<times> pyval) stprog" where
  "get_service_status env url secure = try_except
     (andthen (elsewhere (health_check env secure url)) (\<lambda>response.
      ret (if response = Some 1 then 1 else 0, PStr '''', PStr '''')))
     (\<lambda>e. andthen (of_sum (failure_details e)) (\<lambda>(details, debug). ret (0, details, debug)))"

definition is_https_endpoint :: "string \<Rightarrow> bool" where
  "is_https_endpoint endpoint \<longleftrightarrow>
     \<not> (map to_lower (take 4 endpoint) = ''http'' \<and> map to_lower (take 5 endpoint) \<noteq> ''https'')"

definition ping_url :: "'w status_env \<Rightarrow> string \<Rightarrow> ('w, int \<times> pyval \<times> pyval) stprog" where
  "ping_url env url =
     (if \<not> fits_start rex_for_pb_ip url then
        get_service_status env (remove_http_https_prefix url) (is_https_endpoint url)
      else ret (0, PStr '''', PStr ''''))"

definition calculate_failed_status_count :: "int \<Rightarrow> int option \<Rightarrow> int \<Rightarrow> int" where
  "calculate_failed_status_count current_status old_status old_failed_status_count =
     (if current_status = 0 \<and> old_status = Some 0 then old_failed_status_count + 1 else 1)"

abbreviation hour :: int where "hour \<equiv> 3600000000"

text \<open>\<open>timedelta(hours=MINIMUM_INTERVAL_IN_HOUR * 2 ** (failed_status_count - 1))\<close>, a fraction below one.\<close>

definition check_interval :: "'w status_env \<Rightarrow> int \<Rightarrow> time" where
  "check_interval env failed_status_count =
     (if failed_status_count < 6 then
        if 1 \<le> failed_status_count then MINIMUM_INTERVAL_IN_HOUR * 2 ^ nat (failed_status_count - 1) * hour
        else rounded env (MINIMUM_INTERVAL_IN_HOUR * hour) (2 ^ nat (1 - failed_status_count))
      else MAXIMUM_INTERVAL_IN_HOUR * hour)"

definition calculate_next_check_timestamp :: "'w status_env \<Rightarrow> int \<Rightarrow> ('w, time) stprog" where
  "calculate_next_check_timestamp env failed_status_count =
     andthen (clock (utcnow env)) (\<lambda>t. ret (t + check_interval env failed_status_count))"

subsection \<open>Logs and notifications\<close>

definition send_logs_to_opensearch :: "'w status_env \<Rightarrow> string \<Rightarrow> pyval \<Rightarrow> string \<Rightarrow> string \<Rightarrow> ('w, unit) stprog" where
  "send_logs_to_opensearch env service_id debug_error_string org_id endpoint =
     andthen (clock (utcnow env)) (\<lambda>timestamp.
     let day = (case civil_from_days (timestamp div 86400000000) of
           (y, m, d) \<Rightarrow> pad 4 (nat y) @ ''.'' @ pad 2 (nat m) @ ''.'' @ pad 2 (nat d));
         index_name = ''services-logs-'' @ NETWORK_NAME @ ''-'' @ day in
     andthen (elsewhere (index_exists env index_name)) (\<lambda>there.
     andthen (if there then ret () else
       elsewhere (index_create env index_name
         [(''settings'', PDict [(''index'', PDict [(''number_of_shards'', PInt 1)])])])) (\<lambda>_.
     elsewhere (index_document env index_name
       [(''@timestamp'', PTime timestamp), (''Log'', debug_error_string), (''Service'', PStr service_id),
        (''Organization'', PStr org_id), (''Endpoint'', PStr endpoint)]))))"

text \<open>\<open>\w+([\.-]?\w+)*@\w+([\.-]?\w+)*(\.\w{2,3})+\<close>, from the beginning to the end of the line.\<close>

definition email_pattern :: pattern where
  "email_pattern =
     (let w = One word_char;
          words = Then (some_of w) (Many (Then (perhaps (One (\<lambda>c. c = CHR ''.'' \<or> c = CHR ''-''))) (some_of w)));
          ending = in_order [literally ''.'', w, w, perhaps w] in
      in_order [words, literally ''@'', words, some_of ending])"

definition valid_email :: "pyval \<Rightarrow> exn + bool" where
  "valid_email email = (case email of PStr s \<Rightarrow> Inr (fits_line email_pattern s) | _ \<Rightarrow> Inl TypeError)"

definition notification_payload :: "string \<Rightarrow> string \<Rightarrow> pyval \<Rightarrow> exn + string" where
  "notification_payload message subject recipient =
     sbind (json_dumps (PDict [(''message'', PStr message), (''subject'', PStr subject),
       (''notification_type'', PStr ''support''), (''recipient'', recipient)])) (\<lambda>body.
     json_dumps (PDict [(''body'', PStr body)]))"

definition down_message :: "string \<Rightarrow> string \<Rightarrow> string" where
  "down_message org_id service_id =
     (let url = BASE_URL_TO_RESET_SERVICE_HEALTH @ ''/org/'' @ org_id @ ''/service/'' @ service_id @ ''/health/reset'' in
      ''<html><head></head><body><div><p>Hello,</p><p>Your service '' @ service_id @ '' under organization '' @ org_id @
      '' is down.</p><p>Please click the below URL to update service status on priority. <br/> <a href='' @
      CHR 0x27 # url @ CHR 0x27 # ''>'' @ url @ ''</a></p><br /><p><em>Please do not reply to the email for any enquiries '' @
      ''for any queries please email at cs-marketplace@singularitynet.io. </em></p><p>Warmest regards, <br /> '' @
      ''SingularityNET Marketplace Team</p></div></body></html>'')"

definition send_email_notification :: "'w status_env \<Rightarrow> string \<Rightarrow> string \<Rightarrow> pyval \<Rightarrow> ('w, unit) stprog" where
  "send_email_notification env org_id service_id recipient =
     andthen (of_sum (notification_payload (down_message org_id service_id)
       (''Your service '' @ service_id @ '' is down for '' @ NETWORK_NAME @ '' network.'') recipient)) (\<lambda>payload.
     elsewhere (invoke_lambda env NOTIFICATION_ARN payload))"

definition send_notification :: "'w status_env \<Rightarrow> string \<Rightarrow> string \<Rightarrow> pyval list option \<Rightarrow> ('w, unit) stprog" where
  "send_notification env org_id service_id recipients =
     (case recipients of
        None \<Rightarrow> raise TypeError
      | Some rs \<Rightarrow> for_each rs (\<lambda>recipient.
          if recipient = PNone then ret ()
          else andthen (of_sum (valid_email recipient)) (\<lambda>valid.
            if valid then send_email_notification env org_id service_id recipient else ret ())))"

subsection \<open>A run\<close>

text \<open>
  The body of the loop. Before the first write come the answer of the daemon, which may raise, and the clock; what follows
  the writes may raise too. The number of updated rows is only logged.
\<close>

definition report_failure :: "'w status_env \<Rightarrow> endpoint_row \<Rightarrow> string \<Rightarrow> pyval \<Rightarrow> int \<Rightarrow> ('w, unit) stprog" where
  "report_failure env record endpoint debug_error_string failed_status_count =
     andthen (get_service_provider_email env (ep_org_id record) (ep_service_id record)) (\<lambda>recipients.
     andthen (send_logs_to_opensearch env (ep_service_id record) debug_error_string (ep_org_id record) endpoint) (\<lambda>_.
     if failed_status_count \<le> 10 then send_notification env (ep_org_id record) (ep_service_id record) recipients
     else ret ()))"

definition store_status :: "'w status_env \<Rightarrow> endpoint_row \<Rightarrow> int \<Rightarrow> int \<Rightarrow> ('w, nat) stprog" where
  "store_status env record status failed_status_count =
     andthen (calculate_next_check_timestamp env failed_status_count) (\<lambda>next_check_timestamp.
     andthen (update_service_status_parameters env status next_check_timestamp failed_status_count (ep_row_id record)) (\<lambda>n.
     if ep_is_available record \<noteq> Some status then
       andthen (update_service_status_stats env (ep_org_id record) (ep_service_id record) (ep_is_available record) status) (\<lambda>_.
       if status = 1 then update_service_failed_status_count 0 (ep_row_id record) else ret n)
     else ret n))"

definition check_endpoint :: "'w status_env \<Rightarrow> endpoint_row \<Rightarrow> ('w, unit) stprog" where
  "check_endpoint env record =
     andthen (of_sum (case ep_endpoint record of None \<Rightarrow> Inl TypeError | Some url \<Rightarrow> Inr url)) (\<lambda>endpoint.
     andthen (ping_url env endpoint) (\<lambda>(status, error_details, debug_error_string).
     let failed_status_count =
       calculate_failed_status_count status (ep_is_available record) (ep_failed_status_count record) in
     andthen (store_status env record status failed_status_count) (\<lambda>_.
     if status = 0 then report_failure env record endpoint debug_error_string failed_status_count else ret ())))"

definition update_service_status :: "'w status_env \<Rightarrow> ('w, unit) stprog" where
  "update_service_status env =
     andthen (get_service_endpoint_data env) (\<lambda>records. for_each records (check_endpoint env))"

section \<open>monitor\_service.py\<close>

text \<open>All callers pass no limit, and the same expression of addresses.\<close>

definition get_available_endpoints :: "('w, endpoint_row list) stprog" where
  "get_available_endpoints =
     gets (\<lambda>w. filter (\<lambda>r. ep_is_available r = Some 1 \<and> public_endpoint r \<and> is_curated w r) (endpoints w))"

definition send_certificate_notification ::
  "'w status_env \<Rightarrow> pyval list option \<Rightarrow> string \<Rightarrow> string \<Rightarrow> ('w, unit) stprog" where
  "send_certificate_notification env recipients subject message =
     (case recipients of
        None \<Rightarrow> raise TypeError
      | Some rs \<Rightarrow> for_each rs (\<lambda>recipient.
          andthen (of_sum (notification_payload message subject recipient)) (\<lambda>payload.
          elsewhere (invoke_lambda env NOTIFICATION_ARN payload))))"

definition valid_url :: "string \<Rightarrow> bool" where
  "valid_url url \<longleftrightarrow> \<not> fits_start rex_for_pb_ip url"

text \<open>An endpoint that is not public or not secure has no certificate, and every failure is logged and passed over.\<close>

definition get_certification_expiration_date :: "'w status_env \<Rightarrow> string option \<Rightarrow> ('w, time option) stprog" where
  "get_certification_expiration_date env endpoint = try_except
     (andthen (of_sum (case endpoint of None \<Rightarrow> Inl AttributeError | Some e \<Rightarrow> Inr (no_space env e))) (\<lambda>endpoint.
      if valid_url endpoint \<and> is_https_endpoint endpoint then
        andthen (of_sum (urlparse env endpoint)) (\<lambda>url.
        andthen (elsewhere (peer_certificate env (url_hostname url) (url_port url))) (\<lambda>certificate.
        andthen (of_sum (sbind (sbind (sbind (sbind (json_dumps certificate) (loads env))
          (\<lambda>data. getitem data ''notAfter'')) (strptime env)) (\<lambda>t. Inr (Some t)))) ret))
      else ret None))
     (\<lambda>_. ret None)"

definition expiration_subject :: "string \<Rightarrow> string" where
  "expiration_subject service_id =
     ''Certificates are about to expire for service '' @ service_id @ '' for '' @ NETWORK_NAME @ '' network.''"

definition expiration_message :: "string \<Rightarrow> string \<Rightarrow> string \<Rightarrow> int \<Rightarrow> string" where
  "expiration_message org_id service_id endpoint days_left_for_expiration =
     ''<html><head></head><body><div><p>Hello,</p><p>Your certificates for service '' @ service_id @ '' under organization '' @
     org_id @ '' for the '' @ NETWORK_NAME @ '' network are about to expire in '' @ str_int days_left_for_expiration @
     '' days. Please take immediate action to renew them.</p><p>Endpoint: '' @ endpoint @ ''</p><br /> <br /><p><em>'' @
     ''Please do not reply to the email for any enquiries for any queries please email at '' @
     ''cs-marketplace@singularitynet.io.</em></p><p>Warmest regards, <br />SingularityNET Marketplace Team</p></div></body></html>''"

definition send_notification_for_certificate_expiration ::
  "'w status_env \<Rightarrow> string \<Rightarrow> string \<Rightarrow> string \<Rightarrow> int \<Rightarrow> ('w, unit) stprog" where
  "send_notification_for_certificate_expiration env org_id service_id endpoint days_left_for_expiration =
     andthen (get_service_provider_email env org_id service_id) (\<lambda>recipients.
     send_certificate_notification env recipients (expiration_subject service_id)
       (expiration_message org_id service_id endpoint days_left_for_expiration))"

definition check_certificate :: "'w status_env \<Rightarrow> endpoint_row \<Rightarrow> ('w, unit) stprog" where
  "check_certificate env record =
     andthen (get_certification_expiration_date env (ep_endpoint record)) (\<lambda>expiration_date.
     case expiration_date of
       None \<Rightarrow> ret ()
     | Some t \<Rightarrow>
         andthen (clock (utcnow env)) (\<lambda>datetime_now.
         let days_left_for_expiration = (t - datetime_now) div 86400000000 in
         if days_left_for_expiration < CERTIFICATION_EXPIRATION_THRESHOLD then
           send_notification_for_certificate_expiration env (ep_org_id record) (ep_service_id record)
             (case ep_endpoint record of None \<Rightarrow> ''None'' | Some e \<Rightarrow> e) days_left_for_expiration
         else ret ()))"

definition notify_service_contributors_for_certificate_expiration :: "'w status_env \<Rightarrow> ('w, unit) stprog" where
  "notify_service_contributors_for_certificate_expiration env =
     andthen get_available_endpoints (\<lambda>records. for_each records (check_certificate env))"

definition update_next_service_health_check_timestamp ::
  "'w status_env \<Rightarrow> time \<Rightarrow> string \<Rightarrow> string \<Rightarrow> ('w, string) stprog" where
  "update_next_service_health_check_timestamp env next_check_timestamp org_id service_id =
     andthen (update_endpoints (\<lambda>r. ep_org_id r = org_id \<and> ep_service_id r = service_id)
       (\<lambda>r. r\<lparr>ep_next_check := Some (column_time env next_check_timestamp)\<rparr>)) (\<lambda>n.
     ret (if 0 < n then ''We will trigger a health check immediately.'' else ''Unable to reset next health check time.''))"

definition reset_next_service_health_check_timestamp :: "'w status_env \<Rightarrow> string \<Rightarrow> string \<Rightarrow> ('w, string) stprog" where
  "reset_next_service_health_check_timestamp env org_id service_id =
     andthen (clock (utcnow env)) (\<lambda>t. update_next_service_health_check_timestamp env t org_id service_id)"

section \<open>handlers/monitor\_service\_handlers.py\<close>

text \<open>A scheduled lambda answers a text, or the response that the decorator makes of an exception.\<close>

datatype job_answer = Job_Done string | Job_Failed lambda_response

definition monitor_job :: "('w, unit) stprog \<Rightarrow> ('w, job_answer) stprog" where
  "monitor_job m = try_except (andthen m (\<lambda>_. ret (Job_Done ''success'')))
     (\<lambda>exc. andthen (of_sum (failure_response exc)) (\<lambda>r. ret (Job_Failed r)))"

definition request_handler :: "'w status_env \<Rightarrow> ('w, job_answer) stprog" where
  "request_handler env = monitor_job (update_service_status env)"

definition monitor_service_certificates_expiry_handler :: "'w status_env \<Rightarrow> ('w, job_answer) stprog" where
  "monitor_service_certificates_expiry_handler env =
     monitor_job (notify_service_contributors_for_certificate_expiration env)"

definition monitor_service_health :: "('w, job_answer) stprog" where
  "monitor_service_health = monitor_job (ret ())"

definition manage_monitor_service_health :: "('w, job_answer) stprog" where
  "manage_monitor_service_health = monitor_job (ret ())"

definition reset_service_health_next_check_time :: "'w status_env \<Rightarrow> pydict \<Rightarrow> ('w, lambda_response) stprog" where
  "reset_service_health_next_check_time env event = exception_handler
     (andthen (of_sum (getitem (PDict event) ''pathParameters'')) (\<lambda>path_parameters.
      andthen (of_sum (sbind (py_in ''org_id'' path_parameters) (\<lambda>has_org.
        if has_org then Inr True else py_in ''service_id'' path_parameters))) (\<lambda>given.
      if \<not> given then raise (BadRequestException [] [])
      else
        andthen (of_sum (sbind (getitem path_parameters ''org_id'') as_text)) (\<lambda>org_id.
        andthen (of_sum (sbind (getitem path_parameters ''service_id'') as_text)) (\<lambda>service_id.
        andthen (reset_next_service_health_check_timestamp env org_id service_id) (\<lambda>response.
        of_sum (generate_lambda_response 200
          (PDict [(''status'', PStr ''success''), (''data'', PStr response), (''error'', PDict [])]) True)))))))"

end
