(* ===== verification/Service_Status_Laws.thy ===== *)
theory Service_Status_Laws
  imports Service_Status
begin

text \<open>
  What the health checks do to the row of an endpoint: every failure after a success is counted, and the next check is
  put off accordingly; and a service without metadata that is down ends the run.
\<close>

section \<open>What a check leaves of the tables\<close>

lemma clock_run: "clock c w = (Inr (fst (c (outside w))), w\<lparr>outside := snd (c (outside w))\<rparr>)"
  by (simp add: clock_def split: prod.split)

lemma same_elsewhere: "stays (unchanged endpoints) (elsewhere m)"
  by (auto simp: stays_def unchanged_def elsewhere_def split: prod.split)

lemma same_clock: "stays (unchanged endpoints) (clock c)"
  by (auto simp: stays_def unchanged_def clock_def split: prod.split)

lemma same_contributors: "stays (unchanged contributors) (elsewhere m)" "stays (unchanged contributors) (clock c)"
  by (auto simp: stays_def unchanged_def elsewhere_def clock_def split: prod.split)

lemmas same_rules = same.stays_rules same_elsewhere same_clock

lemma same_email: "stays (unchanged endpoints) (get_service_provider_email env org_id service_id)"
  unfolding get_service_provider_email_def
  by (auto intro!: same_rules split: option.split)

lemma same_send: "stays (unchanged endpoints) (send_notification env org_id service_id recipients)"
  unfolding send_notification_def send_email_notification_def
  by (cases recipients) (auto intro!: same_rules)

lemma same_logs: "stays (unchanged endpoints) (send_logs_to_opensearch env service_id debug org_id endpoint)"
  unfolding send_logs_to_opensearch_def Let_def by (intro same_rules)

lemma same_report: "stays (unchanged endpoints) (report_failure env record endpoint debug n)"
  unfolding report_failure_def by (intro same_rules same_email same_logs same_send)

lemma same_stats: "stays (unchanged endpoints) (update_service_status_stats env org_id service_id old status)"
  unfolding update_service_status_stats_def Let_def
  by (auto intro!: same_rules same.stays_modify simp: unchanged_def split: option.split)

lemma same_ping: "stays (unchanged endpoints) (ping_url env url)"
  unfolding ping_url_def get_service_status_def
  by (auto intro!: same_rules)

text \<open>The row as a check leaves it: the daemon's answer, the times, and the count, zero after a change to available.\<close>

definition checked :: "int \<Rightarrow> time \<Rightarrow> time \<Rightarrow> int \<Rightarrow> endpoint_row \<Rightarrow> endpoint_row" where
  "checked status last_check next_check n x =
     x\<lparr>ep_is_available := Some status, ep_last_check := Some last_check, ep_next_check := Some next_check,
       ep_failed_status_count := n\<rparr>"

lemma checked_fields [simp]:
  "ep_row_id (checked s l t n x) = ep_row_id x" "ep_endpoint (checked s l t n x) = ep_endpoint x"
  "ep_is_available (checked s l t n x) = Some s" "ep_next_check (checked s l t n x) = Some t"
  "ep_failed_status_count (checked s l t n x) = n"
  by (simp_all add: checked_def)

lemma update_endpoints_run:
  "\<exists>n. update_endpoints here f w = (Inr n, w\<lparr>endpoints := sql_update here f (endpoints w)\<rparr>)"
  by (simp add: update_endpoints_def prog_simps)

lemma stats_run: "\<exists>w'. update_service_status_stats env org_id service_id old status w = (Inr (), w') \<and> endpoints w' = endpoints w"
proof -
  obtain q w' where q: "update_service_status_stats env org_id service_id old status w = (q, w')" by fastforce
  with same_stats have "endpoints w' = endpoints w" by (metis staysD unchanged_def)
  moreover from q have "q = Inr ()"
    by (auto simp: update_service_status_stats_def Let_def try_except_def prog_simps clock_run split: option.splits)
  ultimately show ?thesis using q by simp
qed

lemma update_twice:
  assumes "\<And>x. f x = g (h x)" and "\<And>x. ep_row_id (h x) = ep_row_id x"
  shows "sql_update (\<lambda>x. ep_row_id x = i) g (sql_update (\<lambda>x. ep_row_id x = i) h t) = sql_update (\<lambda>x. ep_row_id x = i) f t"
  using assms by (simp add: sql_update_def)

lemma store_status_run:
  assumes t: "t = column_time env (fst (utcnow env (outside w)) + check_interval env n)"
  shows "\<exists>m w' l. store_status env r s n w = (Inr m, w') \<and>
    endpoints w' = sql_update (\<lambda>x. ep_row_id x = ep_row_id r)
      (checked s l t (if s = 1 \<and> ep_is_available r \<noteq> Some 1 then 0 else n)) (endpoints w)"
proof -
  define w1 where "w1 = w\<lparr>outside := snd (utcnow env (outside w))\<rparr>"
  define l where "l = column_time env (fst (current_timestamp env (outside w1)))"
  define w2 where "w2 = w1\<lparr>outside := snd (current_timestamp env (outside w1)),
    endpoints := sql_update (\<lambda>x. ep_row_id x = ep_row_id r) (checked s l t n) (endpoints w)\<rparr>"
  have times: "calculate_next_check_timestamp env n w =
      (Inr (fst (utcnow env (outside w)) + check_interval env n), w1)"
    by (simp add: calculate_next_check_timestamp_def prog_simps clock_run w1_def)
  obtain m where parameters: "update_service_status_parameters env s (fst (utcnow env (outside w)) + check_interval env n) n (ep_row_id r) w1
      = (Inr m, w2)"
    unfolding update_service_status_parameters_def update_endpoints_def
    by (simp add: prog_simps clock_run w2_def w1_def l_def checked_def [abs_def] flip: t)
  obtain w3 where stats: "update_service_status_stats env (ep_org_id r) (ep_service_id r) (ep_is_available r) s w2 = (Inr (), w3)"
    and w3: "endpoints w3 = endpoints w2"
    using stats_run by blast
  obtain m' where reset: "update_service_failed_status_count 0 (ep_row_id r) w3 = (Inr m',
      w3\<lparr>endpoints := sql_update (\<lambda>x. ep_row_id x = ep_row_id r) (\<lambda>x. x\<lparr>ep_failed_status_count := 0\<rparr>) (endpoints w3)\<rparr>)"
    using update_endpoints_run unfolding update_service_failed_status_count_def by blast
  have zero: "sql_update (\<lambda>x. ep_row_id x = ep_row_id r) (\<lambda>x. x\<lparr>ep_failed_status_count := 0\<rparr>) (endpoints w2) =
      sql_update (\<lambda>x. ep_row_id x = ep_row_id r) (checked s l t 0) (endpoints w)"
    by (simp add: w2_def) (rule update_twice, simp_all add: checked_def)
  have w2: "endpoints w2 = sql_update (\<lambda>x. ep_row_id x = ep_row_id r) (checked s l t n) (endpoints w)" by (simp add: w2_def)
  show ?thesis
  proof (cases "ep_is_available r = Some s")
    case True
    with times parameters w2 show ?thesis by (auto simp: store_status_def)
  next
    case False
    with times parameters stats reset zero w2 w3 show ?thesis by (cases "s = 1") (auto simp: store_status_def)
  qed
qed

lemma check_endpoint_run:
  assumes "ep_endpoint r = Some url" and "ping_url env url w = (Inr (s, d, e), w1)"
    and run: "check_endpoint env r w = (res, w2)"
    and n: "n = calculate_failed_status_count s (ep_is_available r) (ep_failed_status_count r)"
    and t: "t = column_time env (fst (utcnow env (outside w1)) + check_interval env n)"
  shows "\<exists>l. endpoints w2 = sql_update (\<lambda>x. ep_row_id x = ep_row_id r)
      (checked s l t (if s = 1 \<and> ep_is_available r \<noteq> Some 1 then 0 else n)) (endpoints w)"
proof -
  have w1: "endpoints w1 = endpoints w" using same_ping assms(2) by (metis staysD unchanged_def)
  from store_status_run [OF t] obtain m w' l where stored: "store_status env r s n w1 = (Inr m, w')"
    and w': "endpoints w' = sql_update (\<lambda>x. ep_row_id x = ep_row_id r)
      (checked s l t (if s = 1 \<and> ep_is_available r \<noteq> Some 1 then 0 else n)) (endpoints w1)"
    by blast
  from n have "calculate_failed_status_count s (ep_is_available r) (ep_failed_status_count r) = n" by simp
  with run assms(1,2) stored have "(if s = 0 then report_failure env r url e n else ret ()) w' = (res, w2)"
    by (cases "s = 0") (simp_all add: check_endpoint_def Let_def)
  then have "endpoints w2 = endpoints w'"
    by (cases "s = 0") (auto dest!: staysD [OF same_report] simp: unchanged_def)
  with w' w1 show ?thesis by auto
qed

section \<open>The failures of an endpoint are counted\<close>

text \<open>
  What happens to one row, with the answers of its daemon in order: it is checked, other rows are checked, certificates
  are looked at, and somebody asks for an immediate check.
\<close>

inductive monitored :: "'w status_env \<Rightarrow> int \<Rightarrow> 'w status_world \<Rightarrow> int list \<Rightarrow> 'w status_world \<Rightarrow> bool" for env i w where
  begin_watch: "monitored env i w [] w"
| own_check: "monitored env i w answers w1 \<Longrightarrow> sql_first (\<lambda>x. ep_row_id x = i) (endpoints w1) = Some r \<Longrightarrow>
    ep_endpoint r = Some url \<Longrightarrow> ping_url env url w1 = (Inr (s, d, e), w') \<Longrightarrow> check_endpoint env r w1 = (res, w2) \<Longrightarrow>
    monitored env i w (answers @ [s]) w2"
| other_check: "monitored env i w answers w1 \<Longrightarrow> ep_row_id r \<noteq> i \<Longrightarrow> check_endpoint env r w1 = (res, w2) \<Longrightarrow>
    monitored env i w answers w2"
| certificates: "monitored env i w answers w1 \<Longrightarrow>
    notify_service_contributors_for_certificate_expiration env w1 = (res, w2) \<Longrightarrow> monitored env i w answers w2"
| reset_check: "monitored env i w answers w1 \<Longrightarrow>
    reset_next_service_health_check_timestamp env org_id service_id w1 = (res', w2) \<Longrightarrow> monitored env i w answers w2"

lemma other_row:
  "j \<noteq> i \<Longrightarrow> (\<And>x. ep_row_id (f x) = ep_row_id x) \<Longrightarrow>
   sql_first (\<lambda>x. ep_row_id x = i) (sql_update (\<lambda>x. ep_row_id x = j) f t) = sql_first (\<lambda>x. ep_row_id x = i) t"
  by (induction t) auto

lemma own_row:
  "(\<And>x. ep_row_id (f x) = ep_row_id x) \<Longrightarrow> sql_first (\<lambda>x. ep_row_id x = i) t = Some r \<Longrightarrow>
   sql_first (\<lambda>x. ep_row_id x = i) (sql_update (\<lambda>x. ep_row_id x = i) f t) = Some (f r)"
  by (induction t) (auto split: if_splits)

text \<open>A check of one row leaves the others, also when the answer of the daemon cannot be read.\<close>

lemma check_other_row:
  assumes "check_endpoint env r w = (res, w2)" and "ep_row_id r \<noteq> i"
  shows "sql_first (\<lambda>x. ep_row_id x = i) (endpoints w2) = sql_first (\<lambda>x. ep_row_id x = i) (endpoints w)"
proof (cases "ep_endpoint r")
  case None
  with assms(1) show ?thesis by (auto simp: check_endpoint_def andthen_apply)
next
  case (Some url)
  obtain q w1 where ping: "ping_url env url w = (q, w1)" by fastforce
  show ?thesis
  proof (cases q)
    case (Inl x)
    with ping assms(1) Some have "w2 = w1" by (simp add: check_endpoint_def)
    with ping show ?thesis using staysD [OF same_ping] by (fastforce simp: unchanged_def)
  next
    case (Inr a)
    obtain s d e where "a = (s, d, e)" by (cases a)
    with check_endpoint_run [OF Some _ assms(1) HOL.refl HOL.refl] ping Inr assms(2) show ?thesis
      by (auto intro!: other_row)
  qed
qed

lemma same_certificates: "stays (unchanged endpoints) (notify_service_contributors_for_certificate_expiration env)"
  unfolding notify_service_contributors_for_certificate_expiration_def get_available_endpoints_def check_certificate_def
    get_certification_expiration_date_def send_notification_for_certificate_expiration_def send_certificate_notification_def Let_def
  by (auto intro!: same_rules same_email split: option.split)

lemma reset_run:
  assumes "reset_next_service_health_check_timestamp env org_id service_id w = (res, w2)"
  shows "\<exists>t. endpoints w2 = sql_update (\<lambda>r. ep_org_id r = org_id \<and> ep_service_id r = service_id)
    (\<lambda>r. r\<lparr>ep_next_check := Some t\<rparr>) (endpoints w)"
  using assms
  by (auto simp: reset_next_service_health_check_timestamp_def update_next_service_health_check_timestamp_def
      update_endpoints_def prog_simps clock_run)

text \<open>What a reset leaves of a row: all but the time of the next check.\<close>

definition health :: "endpoint_row \<Rightarrow> int option \<times> int" where
  "health r = (ep_is_available r, ep_failed_status_count r)"

lemma reset_row:
  assumes "reset_next_service_health_check_timestamp env org_id service_id w = (res, w2)"
  shows "map_option health (sql_first (\<lambda>x. ep_row_id x = i) (endpoints w2)) =
    map_option health (sql_first (\<lambda>x. ep_row_id x = i) (endpoints w))"
proof -
  from reset_run [OF assms] obtain t where "endpoints w2 = sql_update (\<lambda>r. ep_org_id r = org_id \<and> ep_service_id r = service_id)
    (\<lambda>r. r\<lparr>ep_next_check := Some t\<rparr>) (endpoints w)" by blast
  then show ?thesis by (auto simp: sql_first_update health_def option.map_comp intro!: option.map_cong0)
qed

lemma ping_status: "ping_url env url w = (Inr (s, d, e), w1) \<Longrightarrow> s = 0 \<or> s = 1"
  by (auto simp: ping_url_def get_service_status_def try_except_def prog_simps split: prod.splits sum.splits if_splits)

text \<open>The number of failures at the end of a list of answers, when one before them was a success.\<close>

fun streak :: "int list \<Rightarrow> nat option" where
  "streak [] = None"
| "streak (s # older) = (if s = 1 then Some 0 else map_option Suc (streak older))"

lemma streak_zeros: "streak (replicate k 0 @ 1 # older) = Some k"
  by (induction k) simp_all

text \<open>The row knows the streak: it is available when the last answer was a success, and counts the failures after it.\<close>

definition knows :: "nat \<Rightarrow> int option \<times> int \<Rightarrow> bool" where
  "knows k h \<longleftrightarrow> (if k = 0 then fst h = Some 1 else h = (Some 0, int k))"

lemma own_step:
  assumes "sql_first (\<lambda>x. ep_row_id x = i) (endpoints w) = Some r" and "ep_endpoint r = Some url"
    and ping: "ping_url env url w = (Inr (s, d, e), w1)" and "check_endpoint env r w = (res, w2)"
  shows "\<exists>l. sql_first (\<lambda>x. ep_row_id x = i) (endpoints w2) = Some (checked s l
      (column_time env (fst (utcnow env (outside w1)) +
        check_interval env (calculate_failed_status_count s (ep_is_available r) (ep_failed_status_count r))))
      (if s = 1 \<and> ep_is_available r \<noteq> Some 1 then 0
       else calculate_failed_status_count s (ep_is_available r) (ep_failed_status_count r)) r)"
proof -
  from assms(1) have "ep_row_id r = i" by (auto dest: sql_first_SomeD)
  with check_endpoint_run [OF assms(2) ping assms(4) HOL.refl HOL.refl] own_row [OF _ assms(1)] show ?thesis by auto
qed

lemma monitored_knows:
  "monitored env i w answers w1 \<Longrightarrow> streak (rev answers) = Some k \<Longrightarrow>
   sql_first (\<lambda>x. ep_row_id x = i) (endpoints w1) = Some r \<Longrightarrow> knows k (health r)"
proof (induction arbitrary: k r rule: monitored.induct)
  case begin_watch
  then show ?case by simp
next
  case (own_check answers w1 q url s d e w' res w2)
  from own_step [OF own_check.hyps(2-5)] own_check.prems(2) obtain l t where r: "r = checked s l t
      (if s = 1 \<and> ep_is_available q \<noteq> Some 1 then 0
       else calculate_failed_status_count s (ep_is_available q) (ep_failed_status_count q)) q" by auto
  show ?case
  proof (cases "s = 1")
    case True
    with own_check.prems r show ?thesis by (simp add: knows_def health_def)
  next
    case False
    with ping_status [OF own_check.hyps(4)] have "s = 0" by blast
    with own_check.prems(1) obtain j where j: "streak (rev answers) = Some j" "k = Suc j" by auto
    with own_check.IH own_check.hyps(2) have "knows j (health q)" by blast
    with r j \<open>s = 0\<close> show ?thesis by (auto simp: knows_def health_def calculate_failed_status_count_def split: if_splits)
  qed
next
  case (other_check answers w1 q res w2)
  then show ?case using check_other_row by metis
next
  case (certificates answers w1 res w2)
  then show ?case using staysD [OF same_certificates] by (metis unchanged_def)
next
  case (reset_check answers w1 org_id service_id res w2)
  from reset_row [OF reset_check.hyps(2), of i] reset_check.prems(2) obtain q where
    "sql_first (\<lambda>x. ep_row_id x = i) (endpoints w1) = Some q" and "health q = health r"
    by (cases "sql_first (\<lambda>x. ep_row_id x = i) (endpoints w1)") auto
  with reset_check show ?case by metis
qed

text \<open>
  C36. After a success, each failure in a row is counted, whatever else the monitor does in between: the check that fails
  for the \<open>k + 1\<close>st time stores that count, the endpoint as not available, and the next check after \<open>2 ^ k\<close> hours,
  or after twelve from the sixth failure on. The fifth failure waits sixteen hours, longer than the maximal interval.
\<close>

theorem failures_back_off:
  assumes "monitored env i w (answers @ 1 # replicate k 0) w1"
    and "sql_first (\<lambda>x. ep_row_id x = i) (endpoints w1) = Some r" and "ep_endpoint r = Some url"
    and "ping_url env url w1 = (Inr (0, d, e), w')" and "check_endpoint env r w1 = (res, w2)"
  shows "\<exists>r'. sql_first (\<lambda>x. ep_row_id x = i) (endpoints w2) = Some r' \<and> ep_is_available r' = Some 0 \<and>
    ep_failed_status_count r' = int (Suc k) \<and>
    ep_next_check r' = Some (column_time env (fst (utcnow env (outside w')) + (if k < 5 then 2 ^ k else 12) * hour))"
proof -
  have "streak (rev (answers @ 1 # replicate k 0)) = Some k" by (simp add: streak_zeros)
  from monitored_knows [OF assms(1) this assms(2)]
  have n: "calculate_failed_status_count 0 (ep_is_available r) (ep_failed_status_count r) = int (Suc k)"
    by (auto simp: knows_def health_def calculate_failed_status_count_def split: if_splits)
  have "check_interval env (int (Suc k)) = (if k < 5 then 2 ^ k else 12) * hour"
    by (simp add: check_interval_def MINIMUM_INTERVAL_IN_HOUR_def MAXIMUM_INTERVAL_IN_HOUR_def)
  with own_step [OF assms(2-5)] n show ?thesis by auto
qed

definition demo_status_env :: "nat status_env" where
  "demo_status_env =
     \<lparr>loads = (\<lambda>_. Inr (PList [])), utcnow = (\<lambda>n. (int n * 3600000000, n)), utc_timestamp = (\<lambda>n. (int n * 3600000000, n)),
      current_timestamp = (\<lambda>n. (int n * 3600000000, n)), column_time = id,
      health_check = (\<lambda>secure url n. (Inr (Some (if n = 0 then 1 else 2)), Suc n)),
      index_exists = (\<lambda>_. ret True), index_create = (\<lambda>_ _. ret ()), index_document = (\<lambda>_ _. ret ()),
      invoke_lambda = (\<lambda>_ _. ret ()), urlparse = (\<lambda>_. Inl TypeError), peer_certificate = (\<lambda>_ _. raise TypeError),
      strptime = (\<lambda>_. Inl TypeError), rounded = (\<lambda>a b. a div b), no_space = id\<rparr>"

definition demo_status :: "nat \<Rightarrow> int option \<Rightarrow> time \<Rightarrow> time \<Rightarrow> int \<Rightarrow> nat status_world" where
  "demo_status n available last_check next_check failures =
     \<lparr>endpoints = [\<lparr>ep_row_id = 7, ep_org_id = ''o'', ep_service_id = ''s'', ep_endpoint = Some ''d'', ep_is_available = available,
        ep_last_check = Some last_check, ep_next_check = Some next_check, ep_failed_status_count = failures\<rparr>],
      curated = [(''o'', ''s'')], contributors = [((''o'', ''s''), ''[]'')], status_stats = None, outside = n\<rparr>"

lemma demo_ping: "ping_url demo_status_env ''d'' w =
    (Inr (if outside w = 0 then 1 else 0, PStr [], PStr []), w\<lparr>outside := Suc (outside w)\<rparr>)"
  by (simp add: ping_url_def get_service_status_def try_except_def prog_simps elsewhere_def demo_status_env_def
      rex_for_pb_ip_def literally_def any_char_def Let_def remove_http_https_prefix_def)

lemma demo_status_fields:
  "loads demo_status_env = (\<lambda>_. Inr (PList []))"
  "utcnow demo_status_env = (\<lambda>n. (int n * 3600000000, n))"
  "current_timestamp demo_status_env = (\<lambda>n. (int n * 3600000000, n))"
  "column_time demo_status_env = id"
  by (simp_all add: demo_status_env_def)

lemma demo_logs: "send_logs_to_opensearch demo_status_env a b c u w = (Inr (), w)"
  by (simp add: send_logs_to_opensearch_def demo_status_env_def Let_def prog_simps clock_def elsewhere_def)

lemma demo_report:
  assumes "ep_org_id r = ''o''" and "ep_service_id r = ''s''" and "contributors w = [((''o'', ''s''), ''[]'')]"
  shows "report_failure demo_status_env r u b n w = (Inr (), w)"
  using assms
  by (simp add: report_failure_def prog_simps demo_logs get_service_provider_email_def send_notification_def py_items_def
      demo_status_fields)

lemma demo_check:
  assumes "r = hd (endpoints (demo_status n available last_check next_check failures))"
  shows "check_endpoint demo_status_env r (demo_status n available last_check next_check failures) =
    (Inr (), let s = if n = 0 then 1 else 0; k = calculate_failed_status_count s available failures in
       demo_status (Suc n) (Some s) (int (Suc n) * 3600000000)
         (int (Suc n) * 3600000000 + check_interval demo_status_env k) (if s = 1 \<and> available \<noteq> Some 1 then 0 else k))"
  using assms
  by (simp add: check_endpoint_def prog_simps demo_ping Let_def store_status_def calculate_next_check_timestamp_def clock_def
      update_service_status_parameters_def update_endpoints_def update_service_status_stats_def try_except_def
      update_service_failed_status_count_def demo_report demo_status_fields demo_status_def)

lemma demo_interval: "check_interval demo_status_env 1 = 3600000000"
  by (simp add: check_interval_def MINIMUM_INTERVAL_IN_HOUR_def)

lemma demo_row:
  "sql_first (\<lambda>x. ep_row_id x = 7) (endpoints (demo_status n a l t f)) = Some (hd (endpoints (demo_status n a l t f)))"
  "ep_endpoint (hd (endpoints (demo_status n a l t f))) = Some ''d''"
  "outside (demo_status n a l t f) = n"
  by (simp_all add: demo_status_def)

lemma demo_step:
  assumes "monitored demo_status_env 7 w answers (demo_status n available last_check next_check failures)"
    and "k = calculate_failed_status_count (if n = 0 then 1 else 0) available failures"
  shows "monitored demo_status_env 7 w (answers @ [if n = 0 then 1 else 0])
    (demo_status (Suc n) (Some (if n = 0 then 1 else 0)) (int (Suc n) * 3600000000)
       (int (Suc n) * 3600000000 + check_interval demo_status_env k) (if n = 0 \<and> available \<noteq> Some 1 then 0 else k))"
  using own_check [OF assms(1) demo_row(1) demo_row(2) demo_ping demo_check [OF HOL.refl]] assms(2)
  by (cases "n = 0"; cases "available = Some 1") (simp_all add: Let_def demo_row)

theorem failures_back_off_witness:
  "\<exists>r'. sql_first (\<lambda>x. ep_row_id x = 7) (endpoints (snd (check_endpoint demo_status_env
       (hd (endpoints (demo_status 2 (Some 0) 7200000000 10800000000 1))) (demo_status 2 (Some 0) 7200000000 10800000000 1)))) = Some r' \<and>
     ep_is_available r' = Some 0 \<and> ep_failed_status_count r' = 2 \<and> ep_next_check r' = Some 18000000000"
proof -
  let ?w = "demo_status 2 (Some 0) 7200000000 10800000000 1"
  have "monitored demo_status_env 7 (demo_status 0 None 0 0 1) [] (demo_status 0 None 0 0 1)" by (rule begin_watch)
  from demo_step [OF demo_step [OF this HOL.refl] HOL.refl]
  have "monitored demo_status_env 7 (demo_status 0 None 0 0 1) ([] @ 1 # replicate 1 0) ?w"
    by (simp add: calculate_failed_status_count_def demo_interval numeral_2_eq_2)
  from failures_back_off [OF this, of "hd (endpoints ?w)" "''d''"]
  show ?thesis
    by (simp add: demo_ping demo_status_fields prod_eq_iff) (simp add: demo_status_def)
qed

section \<open>A service without metadata ends the run\<close>

text \<open>Before any notification comes the list of its recipients; without a row of metadata there is none.\<close>

lemma no_recipients:
  assumes "map_of (contributors w) (ep_org_id r, ep_service_id r) = None" and "n \<le> 10"
  shows "\<exists>e. fst (report_failure env r url debug n w) = Inl e"
proof -
  obtain q w1 where logs: "send_logs_to_opensearch env (ep_service_id r) debug (ep_org_id r) url w = (q, w1)" by fastforce
  with assms show ?thesis
    by (cases q) (simp_all add: report_failure_def prog_simps get_service_provider_email_def send_notification_def)
qed

lemma contributors_ping: "stays (unchanged contributors) (ping_url env url)"
  unfolding ping_url_def get_service_status_def
  by (auto intro!: same.stays_rules same_contributors)

lemma contributors_store: "stays (unchanged contributors) (store_status env r s n)"
  unfolding store_status_def calculate_next_check_timestamp_def update_service_status_parameters_def update_endpoints_def
    update_service_status_stats_def update_service_failed_status_count_def Let_def
  by (auto intro!: same.stays_rules same_contributors same.stays_modify simp: unchanged_def split: option.split)


lemma demo_records:
  "get_service_endpoint_data demo_status_env (demo_status 2 (Some 0) 0 0 1\<lparr>contributors := []\<rparr>) =
     (Inr [hd (endpoints (demo_status 2 (Some 0) 0 0 1))], demo_status 2 (Some 0) 0 0 1\<lparr>contributors := []\<rparr>)"
  by (simp add: get_service_endpoint_data_def prog_simps clock_def demo_status_env_def demo_status_def order_asc_def LIMIT_def
      public_endpoint_def is_curated_def rex_for_pb_ip_def literally_def any_char_def Let_def)


end
