(* ===== verification/Contract_Api.thy ===== *)
theory Contract_Api
  imports Requests Json
begin

text \<open>
  The contract API, \<open>src/contract_api\<close>: what it knows of the organizations, services and payment channels of the
  blockchain. This theory has its tables and sessions, and the channels: the events of the payment contract, the
  listings, and the balance that a daemon has seen.
\<close>

section \<open>infrastructure/models.py\<close>

text \<open>
  Row numbers are kept where another table refers to them. A JSON column holds the value stored, a text column that takes
  a value of the published metadata holds that value. The times of creation and update, which nothing reads, are left out.
\<close>

record channel_row =
  mc_channel_id :: int
  mc_sender :: string
  mc_signer :: string
  mc_recipient :: string
  mc_group_id :: string
  mc_balance_in_cogs :: "int option"
  mc_nonce :: "int option"
  mc_expiration :: "int option"
  mc_pending :: "int option"
  mc_consumed_balance :: int

record organization_row =
  og_org_id :: string
  og_organization_name :: pyval
  og_owner_address :: pyval
  og_org_metadata_uri :: string
  og_org_email :: pyval
  og_org_assets_url :: pyval
  og_is_curated :: bool
  og_description :: pyval
  og_assets_hash :: pyval
  og_contacts :: pyval

record org_group_row =
  gr_org_id :: string
  gr_group_id :: pyval
  gr_group_name :: pyval
  gr_payment :: pyval

record service_row =
  sv_row_id :: int
  sv_org_id :: string
  sv_service_id :: string
  sv_service_path :: pyval
  sv_hash_uri :: string
  sv_is_curated :: bool
  sv_service_email :: pyval

record service_group_row =
  sg_service_row_id :: int
  sg_org_id :: string
  sg_service_id :: string
  sg_group_id :: pyval
  sg_group_name :: pyval
  sg_free_call_signer_address :: pyval
  sg_free_calls :: pyval
  sg_pricing :: pyval

record service_endpoint_row =
  se_service_row_id :: int
  se_org_id :: string
  se_service_id :: string
  se_group_id :: pyval
  se_endpoint :: pyval
  se_is_available :: bool
  se_last_check_timestamp :: time

record service_metadata_row =
  sm_service_row_id :: int
  sm_org_id :: string
  sm_service_id :: string
  sm_fields :: pydict
  sm_service_rating :: pyval
  sm_ranking :: int
  sm_demo_component_available :: bool

record service_tag_row =
  tg_service_row_id :: int
  tg_org_id :: string
  tg_service_id :: string
  tg_tag_name :: pyval

record service_media_row =
  me_service_row_id :: int
  me_org_id :: string
  me_service_id :: string
  me_url :: pyval
  me_order :: pyval
  me_file_type :: pyval
  me_asset_type :: string
  me_alt_text :: pyval
  me_hash_uri :: pyval

record contract_db =
  mpe_channel :: "channel_row list"
  organization :: "organization_row list"
  org_group :: "org_group_row list"
  service :: "service_row list"
  service_group :: "service_group_row list"
  service_endpoint :: "service_endpoint_row list"
  service_metadata :: "service_metadata_row list"
  service_tags :: "service_tag_row list"
  service_media :: "service_media_row list"

section \<open>Sessions and environment\<close>

text \<open>
  \<open>session\<close> is what the session in use sees, \<open>stored\<close> what is committed. A session that opens another one has no
  changes of its own pending, so one view is enough. \<open>row_counter\<close> numbers the rows.
\<close>

record 'w contract_world =
  session :: contract_db
  stored :: contract_db
  row_counter :: int
  outside :: 'w

type_synonym ('w, 'a) cprog = "('w contract_world, 'a) prog"

definition elsewhere :: "('w, 'a) prog \<Rightarrow> ('w, 'a) cprog" where
  "elsewhere m = (\<lambda>w. case m (outside w) of (r, o') \<Rightarrow> (r, w\<lparr>outside := o'\<rparr>))"

definition query :: "(contract_db \<Rightarrow> 'a) \<Rightarrow> ('w, 'a) cprog" where
  "query f = gets (\<lambda>w. f (session w))"

definition execute :: "(contract_db \<Rightarrow> contract_db) \<Rightarrow> ('w, unit) cprog" where
  "execute f = modify (\<lambda>w. w\<lparr>session := f (session w)\<rparr>)"

definition commit :: "('w, unit) cprog" where
  "commit = modify (\<lambda>w. w\<lparr>stored := session w\<rparr>)"

definition rollback :: "('w, unit) cprog" where
  "rollback = modify (\<lambda>w. w\<lparr>session := stored w\<rparr>)"

text \<open>An insertion that breaks a constraint of its table.\<close>

definition insert_checked :: "(contract_db \<Rightarrow> bool) \<Rightarrow> (contract_db \<Rightarrow> contract_db) \<Rightarrow> ('w, unit) cprog" where
  "insert_checked ok f = andthen (query ok) (\<lambda>allowed. if allowed then execute f else raise IntegrityError)"

definition write_ops :: "('w, 'a) cprog \<Rightarrow> ('w, 'a) cprog" where
  "write_ops method = try_except method (\<lambda>e. andthen rollback (\<lambda>_. raise e))"

definition session_scope :: "('w, 'a) cprog \<Rightarrow> ('w, 'a) cprog" where
  "session_scope m = andthen rollback (\<lambda>_.
     write_ops (andthen m (\<lambda>r. andthen commit (\<lambda>_. ret r))))"

text \<open>
  What the environment answers. The node, the other lambdas, the daemons, the storage of metadata and the buckets are
  programs over a state \<open>'w\<close>. \<open>channels\<close> and \<open>getOrganizationById\<close> are functions of the contracts; \<open>int_of\<close> and
  \<open>bytes_of\<close> are conversions of pydantic, \<open>to_text\<close> is \<open>Web3.to_text\<close>, and \<open>text_of\<close> what it does to bytes.
\<close>

record chain_channel =
  cc_nonce :: int
  cc_sender :: string
  cc_signer :: string
  cc_recipient :: string
  cc_group_id :: "nat list"
  cc_amount :: int
  cc_expiration :: int

datatype storage_type = IPFS | FILECOIN

record chain_organization =
  co_found :: bool
  co_metadata_uri :: "nat list"
  co_owner :: pyval

record channel_state_request =
  cs_channel_id :: "nat list"
  cs_signature :: "nat list"
  cs_current_block :: pyval

record 'w contract_env =
  loads :: "string \<Rightarrow> exn + pyval"
  literal_eval :: "string \<Rightarrow> exn + pyval"
  formatted_errors :: "string \<Rightarrow> pyval"
  int_of :: "pyval \<Rightarrow> int option"
  bytes_of :: "pyval \<Rightarrow> nat list option"
  to_text :: "pyval \<Rightarrow> exn + string"
  text_of :: "nat list \<Rightarrow> exn + string"
  urlparse :: "string \<Rightarrow> exn + url_parts"
  url_path :: "string \<Rightarrow> string"
  utcnow :: "'w \<Rightarrow> time \<times> 'w"
  column_time :: "time \<Rightarrow> time"
  channels :: "int \<Rightarrow> ('w, chain_channel) prog"
  getOrganizationById :: "nat list \<Rightarrow> ('w, chain_organization) prog"
  contract_address :: "exn + string"
  state_signature :: "string \<Rightarrow> ('w, string) prog"
  channel_state :: "bool \<Rightarrow> string \<Rightarrow> channel_state_request \<Rightarrow> ('w, nat list) prog"
  storage :: "storage_type \<Rightarrow> string \<Rightarrow> ('w, nat list) prog"
  s3_delete :: "string \<Rightarrow> string \<Rightarrow> ('w, unit) prog"
  s3_upload :: "string \<Rightarrow> string \<Rightarrow> nat list \<Rightarrow> ('w, unit) prog"
  s3_objects :: "string \<Rightarrow> string \<Rightarrow> ('w, string list) prog"
  compile_protos :: "string \<Rightarrow> ('w, string) prog"
  REGION_NAME :: string
  ASSETS_BUCKET_NAME :: string
  ASSETS_PREFIX :: string
  ASSETS_COMPONENT_BUCKET_NAME :: string
  TOKEN_NAME :: string

section \<open>exceptions.py\<close>

definition InvalidUpdatingChannelParameters :: exn where
  "InvalidUpdatingChannelParameters = BadRequestException
     (''Invalid body parameters: signed_amount required for METAMASK wallet, '' @
      ''org_id and service_id required for GENERAL wallet'') []"

definition ChannelNotFoundException :: "int \<Rightarrow> exn" where
  "ChannelNotFoundException channel_id = BadRequestException (''Channel with id '' @ str_int channel_id @ '' not found'') []"

definition CreatingSignatureFailedException :: exn where
  "CreatingSignatureFailedException = BadRequestException ''Failed to create signature using signer service'' []"

definition DaemonInteractionFailedException :: exn where
  "DaemonInteractionFailedException = BadRequestException ''Daemon interaction failed'' []"

section \<open>domain/models and domain/factory: channels\<close>

text \<open>The domain object has the fields of the row.\<close>

record new_channel =
  nc_channel_id :: int
  nc_sender :: "string option"
  nc_signer :: "string option"
  nc_recipient :: "string option"
  nc_group_id :: string
  nc_balance_in_cogs :: "int option"
  nc_nonce :: "int option"
  nc_expiration :: "int option"

definition py_int :: "int option \<Rightarrow> exn + int" where
  "py_int v = (case v of Some i \<Rightarrow> Inr i | None \<Rightarrow> Inl TypeError)"

definition opt_int :: "int option \<Rightarrow> pyval" where
  "opt_int v = (case v of Some i \<Rightarrow> PInt i | None \<Rightarrow> PNone)"

definition channel_to_response :: "channel_row \<Rightarrow> exn + pyval" where
  "channel_to_response c =
     sbind (py_int (mc_balance_in_cogs c)) (\<lambda>balance.
     sbind (py_int (mc_pending c)) (\<lambda>pending.
     Inr (PDict
       [(''channel_id'', PInt (mc_channel_id c)), (''sender'', PStr (mc_sender c)), (''signer'', PStr (mc_signer c)),
        (''recipient'', PStr (mc_recipient c)), (''group_id'', PStr (mc_group_id c)), (''balance_in_cogs'', PInt balance),
        (''nonce'', opt_int (mc_nonce c)), (''expiration'', opt_int (mc_expiration c)), (''pending'', PInt pending),
        (''consumed_balance'', PInt (mc_consumed_balance c))])))"

section \<open>infrastructure/repositories/channel\_repository.py\<close>

text \<open>\<open>payment["payment_address"]\<close> in the database, compared with a text.\<close>

definition payment_address_is :: "org_group_row \<Rightarrow> string \<Rightarrow> bool" where
  "payment_address_is g recipient \<longleftrightarrow>
     (case gr_payment g of PDict d \<Rightarrow> dict_get d ''payment_address'' = Some (PStr recipient) | _ \<Rightarrow> False)"

record listed_channel =
  lc_channel_id :: int
  lc_balance_in_cogs :: "int option"
  lc_org_id :: string
  lc_organization_name :: pyval
  lc_org_assets_url :: pyval

definition repo_get_channels :: "string \<Rightarrow> ('w, listed_channel list) cprog" where
  "repo_get_channels wallet_address = query (\<lambda>db.
     concat (map (\<lambda>c. concat (map (\<lambda>g. map (\<lambda>og.
         \<lparr>lc_channel_id = mc_channel_id c, lc_balance_in_cogs = mc_balance_in_cogs c, lc_org_id = og_org_id og,
          lc_organization_name = og_organization_name og, lc_org_assets_url = og_org_assets_url og\<rparr>)
       (filter (\<lambda>og. og_org_id og = gr_org_id g) (organization db)))
       (filter (\<lambda>g. gr_group_id g = PStr (mc_group_id c)) (org_group db))))
       (filter (\<lambda>c. mc_sender c = wallet_address) (mpe_channel db))))"

definition repo_get_group_channels :: "string \<Rightarrow> string \<Rightarrow> string \<Rightarrow> ('w, channel_row list) cprog" where
  "repo_get_group_channels user_address org_id group_id = query (\<lambda>db.
     concat (map (\<lambda>c. map (\<lambda>_. c)
       (filter (\<lambda>g. gr_group_id g = PStr (mc_group_id c) \<and> gr_org_id g = org_id \<and> gr_group_id g = PStr group_id
          \<and> payment_address_is g (mc_recipient c)) (org_group db)))
       (filter (\<lambda>c. mc_sender c = user_address) (mpe_channel db))))"

definition repo_get_channel :: "int \<Rightarrow> ('w, channel_row option) cprog" where
  "repo_get_channel channel_id = query (\<lambda>db. sql_first (\<lambda>c. mc_channel_id c = channel_id) (mpe_channel db))"

definition update_channels :: "int \<Rightarrow> (channel_row \<Rightarrow> channel_row) \<Rightarrow> ('w, unit) cprog" where
  "update_channels channel_id f =
     execute (\<lambda>db. db\<lparr>mpe_channel := sql_update (\<lambda>c. mc_channel_id c = channel_id) f (mpe_channel db)\<rparr>)"

definition repo_update_consumed_balance :: "int \<Rightarrow> int \<Rightarrow> ('w, unit) cprog" where
  "repo_update_consumed_balance channel_id consumed_balance = write_ops
     (andthen (update_channels channel_id (\<lambda>c. c\<lparr>mc_consumed_balance := consumed_balance\<rparr>)) (\<lambda>_. commit))"

definition insert_channel :: "new_channel \<Rightarrow> ('w, unit) cprog" where
  "insert_channel channel =
     (case (nc_sender channel, nc_signer channel, nc_recipient channel) of
        (Some sender, Some signer, Some recipient) \<Rightarrow>
          execute (\<lambda>db. db\<lparr>mpe_channel := mpe_channel db @
            [\<lparr>mc_channel_id = nc_channel_id channel, mc_sender = sender, mc_signer = signer, mc_recipient = recipient,
              mc_group_id = nc_group_id channel, mc_balance_in_cogs = nc_balance_in_cogs channel, mc_nonce = nc_nonce channel,
              mc_expiration = nc_expiration channel, mc_pending = Some 0, mc_consumed_balance = 0\<rparr>]\<rparr>)
      | _ \<Rightarrow> raise IntegrityError)"

definition upsert_channel :: "new_channel \<Rightarrow> ('w, unit) cprog" where
  "upsert_channel channel = write_ops
     (andthen (repo_get_channel (nc_channel_id channel)) (\<lambda>found.
      andthen (case found of
          Some _ \<Rightarrow> update_channels (nc_channel_id channel)
            (\<lambda>c. c\<lparr>mc_balance_in_cogs := nc_balance_in_cogs channel, mc_pending := Some 0, mc_nonce := nc_nonce channel,
                   mc_expiration := nc_expiration channel\<rparr>)
        | None \<Rightarrow> insert_channel channel) (\<lambda>_.
      commit)))"

definition repo_delete_channel :: "int \<Rightarrow> ('w, unit) cprog" where
  "repo_delete_channel channel_id =
     andthen (execute (\<lambda>db. db\<lparr>mpe_channel := filter (\<lambda>c. mc_channel_id c \<noteq> channel_id) (mpe_channel db)\<rparr>)) (\<lambda>_. commit)"

section \<open>application/schemas/consumer\_schemas.py\<close>

definition truthy_part :: "pyval \<Rightarrow> string \<Rightarrow> exn + pyval option" where
  "truthy_part v k = sbind (get_default v k PNone) (\<lambda>x. Inr (if truthy x then Some x else None))"

fun queued_events :: "'w contract_env \<Rightarrow> pyval list \<Rightarrow> exn + pyval list" where
  "queued_events env [] = Inr []"
| "queued_events env (record # records) =
     sbind (truthy_part record ''body'') (\<lambda>body.
     sbind (case body of
         None \<Rightarrow> Inr []
       | Some b \<Rightarrow>
           sbind (sbind (as_text b) (loads env)) (\<lambda>parsed_body.
           sbind (truthy_part parsed_body ''Message'') (\<lambda>message.
           case message of
             None \<Rightarrow> Inr []
           | Some m \<Rightarrow>
               sbind (sbind (sbind (as_text m) (loads env)) (\<lambda>payload. getitem payload ''blockchain_event'')) (\<lambda>e. Inr [e])))) (\<lambda>events.
     sbind (queued_events env records) (\<lambda>more. Inr (events @ more))))"

definition get_events_from_queue :: "'w contract_env \<Rightarrow> pydict \<Rightarrow> exn + pyval list" where
  "get_events_from_queue env event =
     sbind (get_default (PDict event) ''Records'' (PList [])) (\<lambda>records.
     if truthy records then sbind (py_items records) (queued_events env) else Inr [])"

definition convert_data :: "'w contract_env \<Rightarrow> pyval \<Rightarrow> exn + pydict" where
  "convert_data env data =
     sbind (getitem data ''name'') (\<lambda>name.
     sbind (sbind (sbind (getitems data [''data'', ''json_str'']) as_text) (literal_eval env)) (\<lambda>fields.
     case fields of PDict d \<Rightarrow> Inr (dict_update [(''name'', name)] d) | _ \<Rightarrow> Inl TypeError))"

text \<open>Of what a validator raises, pydantic turns a \<open>ValueError\<close> into its own error.\<close>

definition model_of :: "exn + pydict \<Rightarrow> (pydict \<Rightarrow> 'a option) \<Rightarrow> exn + 'a" where
  "model_of converted parse =
     (case converted of
        Inl (PyExc cls t) \<Rightarrow> Inl (if cls = ''ValueError'' then ValidationError else PyExc cls t)
      | Inl e \<Rightarrow> Inl e
      | Inr d \<Rightarrow> (case parse d of Some a \<Rightarrow> Inr a | None \<Rightarrow> Inl ValidationError))"

record mpe_event =
  mv_event_name :: string
  mv_channel_id :: int
  mv_group_id :: "nat list option"
  mv_sender :: "string option"
  mv_signer :: "string option"
  mv_recipient :: "string option"
  mv_nonce :: "int option"
  mv_expiration :: "int option"
  mv_amount :: "int option"

definition MpeEventConsumerRequest :: "'w contract_env \<Rightarrow> pyval \<Rightarrow> exn + mpe_event" where
  "MpeEventConsumerRequest env event = validation_handler (formatted_errors env) []
     (\<lambda>_. model_of (convert_data env event) (\<lambda>d.
        obind (field d ''name'' text_value None) (\<lambda>event_name.
        obind (field d ''channelId'' (int_of env) None) (\<lambda>channel_id.
        obind (field d ''groupId'' (\<lambda>v. map_option Some (bytes_of env v)) (Some None)) (\<lambda>group_id.
        obind (field d ''sender'' (optional text_value) (Some None)) (\<lambda>sender.
        obind (field d ''signer'' (optional text_value) (Some None)) (\<lambda>signer.
        obind (field d ''recipient'' (optional text_value) (Some None)) (\<lambda>recipient.
        obind (field d ''nonce'' (optional (int_of env)) (Some None)) (\<lambda>nonce.
        obind (field d ''expiration'' (optional (int_of env)) (Some None)) (\<lambda>expiration.
        obind (field d ''amount'' (optional (int_of env)) (Some None)) (\<lambda>amount.
        Some \<lparr>mv_event_name = event_name, mv_channel_id = channel_id, mv_group_id = group_id, mv_sender = sender,
          mv_signer = signer, mv_recipient = recipient, mv_nonce = nonce, mv_expiration = expiration,
          mv_amount = amount\<rparr>)))))))))))
     []"

section \<open>application/consumers/mpe\_event\_consumer.py\<close>

text \<open>
  The group id is bytes, whose first two never equal the text \<open>0x\<close>; without one the slice raises.
\<close>

definition convert_channel_to_domain :: "mpe_event \<Rightarrow> exn + new_channel" where
  "convert_channel_to_domain request =
     (case mv_group_id request of
        None \<Rightarrow> Inl TypeError
      | Some group_id \<Rightarrow> Inr
          \<lparr>nc_channel_id = mv_channel_id request, nc_sender = mv_sender request, nc_signer = mv_signer request,
           nc_recipient = mv_recipient request, nc_group_id = b64encode group_id, nc_balance_in_cogs = mv_amount request,
           nc_nonce = mv_nonce request, nc_expiration = mv_expiration request\<rparr>)"

definition get_channel_data_from_blockchain :: "'w contract_env \<Rightarrow> int \<Rightarrow> ('w, new_channel) cprog" where
  "get_channel_data_from_blockchain env channel_id =
     andthen (elsewhere (channels env channel_id)) (\<lambda>c.
     ret \<lparr>nc_channel_id = channel_id, nc_sender = Some (cc_sender c), nc_signer = Some (cc_signer c),
       nc_recipient = Some (cc_recipient c), nc_group_id = b64encode (cc_group_id c), nc_balance_in_cogs = Some (cc_amount c),
       nc_nonce = Some (cc_nonce c), nc_expiration = Some (cc_expiration c)\<rparr>)"

definition mpe_on_event :: "'w contract_env \<Rightarrow> mpe_event \<Rightarrow> ('w, unit) cprog" where
  "mpe_on_event env request =
     (let store = (\<lambda>channel. try_except (upsert_channel channel) (\<lambda>_. raise (py_exception
           (''Failed to upsert channel with id '' @ str_int (mv_channel_id request) @ '' in mpe event consumer'')))) in
      if mv_event_name request = ''ChannelOpen'' then andthen (of_sum (convert_channel_to_domain request)) store
      else if mv_event_name request \<in> {''ChannelClaim'', ''ChannelExtend'', ''ChannelAddFunds''} then
        andthen (get_channel_data_from_blockchain env (mv_channel_id request)) store
      else ret ())"

text \<open>The lambda has no decorator: an exception ends the batch, and the queue delivers it again.\<close>

definition mpe_event_consumer :: "'w contract_env \<Rightarrow> pydict \<Rightarrow> ('w, pydict) cprog" where
  "mpe_event_consumer env event =
     andthen (of_sum (get_events_from_queue env event)) (\<lambda>events.
     andthen (for_each events (\<lambda>e. andthen (of_sum (MpeEventConsumerRequest env e)) (mpe_on_event env))) (\<lambda>_. ret []))"

section \<open>infrastructure/daemon\_client.py\<close>

text \<open>\<open>n.to_bytes(4, "big")\<close> and \<open>int.from_bytes(bytes, "big")\<close>.\<close>

definition to_bytes4 :: "int \<Rightarrow> exn + nat list" where
  "to_bytes4 n =
     (if 0 \<le> n \<and> n < 2 ^ 32 then Inr (map (\<lambda>k. nat (n div 2 ^ k) mod 256) [24, 16, 8, 0])
      else Inl (PyExc ''OverflowError'' []))"

definition from_bytes :: "nat list \<Rightarrow> int" where
  "from_bytes bytes = foldl (\<lambda>n b. 256 * n + int b) 0 bytes"

definition get_channel_state ::
  "'w contract_env \<Rightarrow> string option \<Rightarrow> int \<Rightarrow> string \<Rightarrow> pyval \<Rightarrow> ('w, int) cprog" where
  "get_channel_state env daemon_endpoint channel_id signature current_block_number =
     andthen (of_sum (case daemon_endpoint of
         None \<Rightarrow> Inl (PyExc ''ValueError'' []) | Some e \<Rightarrow> endpoint_channel (urlparse env) e)) (\<lambda>(secure, channel).
     andthen (of_sum (to_bytes4 channel_id)) (\<lambda>id_bytes.
     andthen (of_sum (bytes_fromhex signature)) (\<lambda>signature_bytes.
     andthen (elsewhere (channel_state env secure channel
       \<lparr>cs_channel_id = id_bytes, cs_signature = signature_bytes, cs_current_block = current_block_number\<rparr>)) (\<lambda>amount.
     ret (from_bytes amount)))))"

section \<open>application/services/channel\_service.py\<close>

text \<open>Organizations with the same name share an entry, with the id and the image of the first.\<close>

record listed_organization =
  lo_org_name :: pyval
  lo_org_id :: string
  lo_hero_image :: pyval
  lo_channels :: pydict

fun list_channel :: "listed_channel \<Rightarrow> listed_organization list \<Rightarrow> exn + listed_organization list" where
  "list_channel c [] =
     sbind (get_default (lc_org_assets_url c) ''hero_image'' (PStr [])) (\<lambda>image.
     sbind (py_int (lc_balance_in_cogs c)) (\<lambda>balance.
     Inr [\<lparr>lo_org_name = lc_organization_name c, lo_org_id = lc_org_id c, lo_hero_image = image,
           lo_channels = [(str_int (lc_channel_id c), PInt balance)]\<rparr>]))"
| "list_channel c (entry # entries) =
     (if lo_org_name entry = lc_organization_name c then
        sbind (py_int (lc_balance_in_cogs c)) (\<lambda>balance.
        Inr (entry\<lparr>lo_channels := dict_set (str_int (lc_channel_id c)) (PInt balance) (lo_channels entry)\<rparr> # entries))
      else sbind (list_channel c entries) (\<lambda>rest. Inr (entry # rest)))"

fun list_channels :: "listed_channel list \<Rightarrow> listed_organization list \<Rightarrow> exn + listed_organization list" where
  "list_channels [] entries = Inr entries"
| "list_channels (c # cs) entries = sbind (list_channel c entries) (list_channels cs)"

definition convert_channels_data_to_response :: "listed_channel list \<Rightarrow> exn + pyval list" where
  "convert_channels_data_to_response channels_data =
     sbind (list_channels channels_data []) (\<lambda>entries. Inr (map (\<lambda>e. PDict
       [(''orgName'', lo_org_name e), (''orgId'', PStr (lo_org_id e)), (''heroImage'', lo_hero_image e),
        (''channels'', PDict (lo_channels e))]) entries))"

definition get_channels :: "string \<Rightarrow> ('w, pydict) cprog" where
  "get_channels wallet_address =
     andthen (repo_get_channels wallet_address) (\<lambda>channels.
     andthen (of_sum (convert_channels_data_to_response channels)) (\<lambda>organizations.
     ret [(''walletAddress'', PStr wallet_address), (''organizations'', PList organizations)]))"

definition get_group_channels :: "string \<Rightarrow> string \<Rightarrow> string \<Rightarrow> ('w, pydict) cprog" where
  "get_group_channels user_address org_id group_id =
     andthen (repo_get_group_channels user_address org_id group_id) (\<lambda>channels.
     andthen (of_sum (smap channel_to_response channels)) (\<lambda>responses.
     ret [(''user_address'', PStr user_address), (''org_id'', PStr org_id), (''group_id'', PStr group_id),
          (''channels'', PList responses)]))"

text \<open>\<open>service_repository.get_service_endpoint\<close>.\<close>

definition get_service_endpoint :: "string \<Rightarrow> string \<Rightarrow> string \<Rightarrow> ('w, pyval) cprog" where
  "get_service_endpoint org_id service_id group_id = query (\<lambda>db.
     case sql_first (\<lambda>e. se_org_id e = org_id \<and> se_service_id e = service_id \<and> se_group_id e = PStr group_id)
        (service_endpoint db) of
       None \<Rightarrow> PNone | Some e \<Rightarrow> se_endpoint e)"

definition get_channel_state_signature :: "'w contract_env \<Rightarrow> int \<Rightarrow> ('w, pyval \<times> pyval) cprog" where
  "get_channel_state_signature env channel_id =
     (let orig = (if TOKEN_NAME env = ''FET'' then ''testnet.marketplace-api'' else ''testnet.agix-marketplace-api'') in
      andthen (of_sum (sbind (json_dumps (PDict [(''channel_id'', PInt channel_id)])) (\<lambda>body.
        json_dumps (PDict [(''headers'', PDict [(''origin'', PStr orig)]), (''body'', PStr body)])))) (\<lambda>payload.
      andthen (elsewhere (state_signature env payload)) (\<lambda>answer.
      of_sum (sbind (loads env answer) (\<lambda>response.
        sbind (getitem response ''statusCode'') (\<lambda>code.
        if code \<noteq> PInt 200 then Inl CreatingSignatureFailedException
        else
          sbind (sbind (sbind (sbind (getitem response ''body'') as_text) (loads env)) (\<lambda>b. getitem b ''data'')) (\<lambda>details.
          sbind (getitem details ''signature'') (\<lambda>signature.
          sbind (getitem details ''snet-current-block-number'') (\<lambda>block. Inr (signature, block))))))))))"

definition get_channel_state_from_daemon :: "'w contract_env \<Rightarrow> channel_row \<Rightarrow> string \<Rightarrow> string \<Rightarrow> ('w, int) cprog" where
  "get_channel_state_from_daemon env channel org_id service_id =
     andthen (get_service_endpoint org_id service_id (mc_group_id channel)) (\<lambda>endpoint.
     andthen (get_channel_state_signature env (mc_channel_id channel)) (\<lambda>(signature, current_block_number).
     andthen (of_sum (case signature of
         PStr s \<Rightarrow> Inr (if prefix_of ''0x'' s then drop 2 s else s) | _ \<Rightarrow> Inl AttributeError)) (\<lambda>signature.
     try_except (get_channel_state env (case endpoint of PStr e \<Rightarrow> Some e | _ \<Rightarrow> None) (mc_channel_id channel) signature
         current_block_number)
       (\<lambda>_. raise DaemonInteractionFailedException))))"

record update_balance_request =
  ub_channel_id :: int
  ub_signed_amount :: "int option"
  ub_org_id :: "string option"
  ub_service_id :: "string option"

text \<open>A request without an amount names the organization and the service.\<close>

definition update_consumed_balance :: "'w contract_env \<Rightarrow> update_balance_request \<Rightarrow> ('w, pydict) cprog" where
  "update_consumed_balance env request =
     andthen (repo_get_channel (ub_channel_id request)) (\<lambda>found.
     case found of
       None \<Rightarrow> raise (ChannelNotFoundException (ub_channel_id request))
     | Some channel \<Rightarrow>
         andthen (case ub_signed_amount request of
             Some amount \<Rightarrow> ret amount
           | None \<Rightarrow> (case (ub_org_id request, ub_service_id request) of
               (Some org_id, Some service_id) \<Rightarrow> get_channel_state_from_daemon env channel org_id service_id
             | _ \<Rightarrow> raise InvalidUpdatingChannelParameters)) (\<lambda>signed_amount.
         andthen (repo_update_consumed_balance (ub_channel_id request) signed_amount) (\<lambda>_. ret [])))"

section \<open>application/schemas/channel\_schemas.py and application/handlers/channel\_handlers.py\<close>

definition spread :: "pyval \<Rightarrow> exn + pydict" where
  "spread v = (case v of PDict d \<Rightarrow> Inr d | _ \<Rightarrow> Inl TypeError)"

definition parsed :: "(pydict \<Rightarrow> 'a option) \<Rightarrow> pydict \<Rightarrow> exn + 'a" where
  "parsed parse d = (case parse d of Some a \<Rightarrow> Inr a | None \<Rightarrow> Inl ValidationError)"

definition GetChannelsRequest :: "'w contract_env \<Rightarrow> pydict \<Rightarrow> exn + string" where
  "GetChannelsRequest env = validation_handler (formatted_errors env) [query_part] (\<lambda>event.
     sbind (spread (event_part event query_part)) (parsed (\<lambda>d. field d ''walletAddress'' text_value None)))"

definition GetGroupChannelsRequest :: "'w contract_env \<Rightarrow> pydict \<Rightarrow> exn + string \<times> string \<times> string" where
  "GetGroupChannelsRequest env = validation_handler (formatted_errors env) [query_part] (\<lambda>event.
     sbind (spread (event_part event query_part)) (parsed (\<lambda>d.
       obind (field d ''user_address'' text_value None) (\<lambda>user_address.
       obind (field d ''org_id'' text_value None) (\<lambda>org_id.
       obind (field d ''group_id'' text_value None) (\<lambda>group_id. Some (user_address, org_id, group_id)))))))"

definition UpdateConsumedBalanceRequest :: "'w contract_env \<Rightarrow> pydict \<Rightarrow> exn + update_balance_request" where
  "UpdateConsumedBalanceRequest env = validation_handler (formatted_errors env) [path_part, body_part] (\<lambda>event.
     sbind (sbind (as_text (event_part event body_part)) (loads env)) (\<lambda>body.
     sbind (sbind (merged (event_part event path_part) body) spread) (\<lambda>data.
     sbind (parsed (\<lambda>d.
       obind (field d ''channelId'' (int_of env) None) (\<lambda>channel_id.
       obind (field d ''signedAmount'' (optional (int_of env)) (Some None)) (\<lambda>signed_amount.
       obind (field d ''orgId'' (optional text_value) (Some None)) (\<lambda>org_id.
       obind (field d ''serviceId'' (optional text_value) (Some None)) (\<lambda>service_id.
       Some \<lparr>ub_channel_id = channel_id, ub_signed_amount = signed_amount, ub_org_id = org_id,
         ub_service_id = service_id\<rparr>))))) data) (\<lambda>request.
     if ub_signed_amount request = None \<and> (ub_org_id request = None \<or> ub_service_id request = None)
     then Inl InvalidUpdatingChannelParameters else Inr request))))"

definition contract_handler :: "exn + 'r \<Rightarrow> ('r \<Rightarrow> ('w, pydict) cprog) \<Rightarrow> ('w, lambda_response) cprog" where
  "contract_handler request serve = exception_handler
     (andthen (of_sum request) (\<lambda>request. andthen (serve request) (\<lambda>response.
      of_sum (generate_lambda_response 200
        (PDict [(''status'', PStr ''success''), (''data'', PDict response), (''error'', PDict [])]) True))))"

definition get_channels_handler :: "'w contract_env \<Rightarrow> pydict \<Rightarrow> ('w, lambda_response) cprog" where
  "get_channels_handler env event = contract_handler (GetChannelsRequest env event) get_channels"

definition get_group_channels_handler :: "'w contract_env \<Rightarrow> pydict \<Rightarrow> ('w, lambda_response) cprog" where
  "get_group_channels_handler env event = contract_handler (GetGroupChannelsRequest env event)
     (\<lambda>(user_address, org_id, group_id). get_group_channels user_address org_id group_id)"

definition update_consumed_balance_handler :: "'w contract_env \<Rightarrow> pydict \<Rightarrow> ('w, lambda_response) cprog" where
  "update_consumed_balance_handler env event =
     contract_handler (UpdateConsumedBalanceRequest env event) (update_consumed_balance env)"

end
