(* ===== verification/Contract_Events.thy ===== *)
theory Contract_Events
  imports Contract_Api
begin

text \<open>
  The events of the registry contract in the contract API: organizations and services are read from the blockchain and
  from the storage of metadata, their assets are copied to a bucket, and the tables are brought up to date. Then the
  listing of organizations.
\<close>

section \<open>common/storage\_provider.py and common/s3\_util.py\<close>

definition uri_to_hash :: "string \<Rightarrow> storage_type \<times> string" where
  "uri_to_hash s =
     (if prefix_of ''ipfs://'' s then (IPFS, drop 7 s)
      else if prefix_of ''filecoin://'' s then (FILECOIN, drop 11 s)
      else (IPFS, s))"

text \<open>A URI that is no text has no \<open>startswith\<close>.\<close>

definition storage_get_bytes :: "'w contract_env \<Rightarrow> pyval \<Rightarrow> ('w, nat list) cprog" where
  "storage_get_bytes env uri =
     (case uri of
        PStr s \<Rightarrow> elsewhere (case uri_to_hash s of (provider, hash) \<Rightarrow> storage env provider hash)
      | _ \<Rightarrow> raise AttributeError)"

definition storage_get :: "'w contract_env \<Rightarrow> pyval \<Rightarrow> ('w, pyval) cprog" where
  "storage_get env uri =
     andthen (storage_get_bytes env uri) (\<lambda>bytes. of_sum (sbind (text_of env bytes) (loads env)))"

definition get_bucket_and_key_from_url :: "'w contract_env \<Rightarrow> string \<Rightarrow> exn + string \<times> string" where
  "get_bucket_and_key_from_url env url =
     sbind (urlparse env url) (\<lambda>parts.
     case url_hostname parts of
       None \<Rightarrow> Inl AttributeError
     | Some hostname \<Rightarrow> Inr (hd (split_char (CHR ''.'') hostname), drop 1 (url_path env url)))"

definition delete_file_from_s3 :: "'w contract_env \<Rightarrow> pyval \<Rightarrow> ('w, unit) cprog" where
  "delete_file_from_s3 env url =
     andthen (of_sum (sbind (as_text url) (get_bucket_and_key_from_url env))) (\<lambda>(bucket, key).
     elsewhere (s3_delete env bucket key))"

definition push_io_bytes_to_s3 :: "'w contract_env \<Rightarrow> string \<Rightarrow> string \<Rightarrow> nat list \<Rightarrow> ('w, string) cprog" where
  "push_io_bytes_to_s3 env key bucket_name io_bytes =
     andthen (elsewhere (s3_upload env bucket_name key io_bytes)) (\<lambda>_.
     ret (''https://'' @ bucket_name @ ''.s3.amazonaws.com/'' @ key))"

section \<open>application/consumers/event\_consumer.py\<close>

text \<open>
  \<open>hash_uri.split("//")[1].split("/")[0]\<close> is the text between the first double slash and the next slash.
\<close>

fun after_slashes :: "string \<Rightarrow> string" where
  "after_slashes [] = []"
| "after_slashes (c # s) = (if prefix_of ''//'' (c # s) then drop 1 s else after_slashes s)"

definition asset_filename :: "string \<Rightarrow> string" where
  "asset_filename hash_uri =
     (if substring ''://'' hash_uri then takeWhile (\<lambda>c. c \<noteq> CHR ''/'') (after_slashes hash_uri)
      else last (split_char (CHR ''/'') hash_uri))"

text \<open>An organization has no service id, or the empty one.\<close>

definition push_asset_to_s3_using_hash ::
  "'w contract_env \<Rightarrow> pyval \<Rightarrow> string \<Rightarrow> string option \<Rightarrow> string \<Rightarrow> ('w, string) cprog" where
  "push_asset_to_s3_using_hash env hash_uri org_id service_id asset_type =
     andthen (storage_get_bytes env hash_uri) (\<lambda>io_bytes.
     andthen (of_sum (as_text hash_uri)) (\<lambda>uri.
     let filename = asset_filename uri @ ''_'' @ asset_type;
         folder = (case service_id of None \<Rightarrow> [] | Some s \<Rightarrow> if s = [] then [] else s @ ''/'') in
     push_io_bytes_to_s3 env (ASSETS_PREFIX env @ ''/'' @ org_id @ ''/'' @ folder @ filename) (ASSETS_BUCKET_NAME env) io_bytes))"

definition or_empty :: "pyval \<Rightarrow> pyval" where
  "or_empty v = (if truthy v then v else PDict [])"

text \<open>The new address of one asset, if it is a text or a list.\<close>

definition new_asset_url ::
  "'w contract_env \<Rightarrow> pyval \<Rightarrow> pyval \<Rightarrow> string \<Rightarrow> string option \<Rightarrow> string \<Rightarrow> pyval \<Rightarrow> ('w, pyval option) cprog" where
  "new_asset_url env existing_assets_hash existing_assets_url org_id service_id asset_type asset_hash =
     (case asset_hash of
        PList hashes \<Rightarrow>
          andthen (of_sum (py_in asset_type existing_assets_url)) (\<lambda>known.
          andthen (if known then
              andthen (of_sum (sbind (getitem existing_assets_url asset_type) py_items)) (\<lambda>urls.
              for_each urls (delete_file_from_s3 env))
            else ret ()) (\<lambda>_.
          andthen (map_each (\<lambda>h. push_asset_to_s3_using_hash env h org_id service_id asset_type) hashes) (\<lambda>new_urls.
          ret (Some (PList (map PStr new_urls))))))
      | PStr hash \<Rightarrow>
          andthen (of_sum (sbind (py_in asset_type existing_assets_hash) (\<lambda>known.
            if known then sbind (getitem existing_assets_hash asset_type) (\<lambda>old. Inr (old = PStr hash)) else Inr False))) (\<lambda>same.
          if same then andthen (of_sum (getitem existing_assets_url asset_type)) (\<lambda>url. ret (Some url))
          else
            andthen (of_sum (py_in asset_type existing_assets_url)) (\<lambda>known.
            andthen (if known then
                andthen (of_sum (getitem existing_assets_url asset_type)) (delete_file_from_s3 env)
              else ret ()) (\<lambda>_.
            andthen (push_asset_to_s3_using_hash env asset_hash org_id service_id asset_type) (\<lambda>url. ret (Some (PStr url))))))
      | _ \<Rightarrow> ret None)"

fun compare_assets ::
  "(string \<Rightarrow> pyval \<Rightarrow> ('w, pyval option) cprog) \<Rightarrow> pydict \<Rightarrow> pydict \<Rightarrow> ('w, pydict) cprog" where
  "compare_assets new_url [] mapping = ret mapping"
| "compare_assets new_url ((asset_type, asset_hash) # assets) mapping =
     andthen (new_url asset_type asset_hash) (\<lambda>url.
     compare_assets new_url assets (case url of None \<Rightarrow> mapping | Some u \<Rightarrow> dict_set asset_type u mapping))"

definition compare_assets_and_push_to_s3 ::
  "'w contract_env \<Rightarrow> pyval \<Rightarrow> pyval \<Rightarrow> pyval \<Rightarrow> string \<Rightarrow> string option \<Rightarrow> ('w, pydict) cprog" where
  "compare_assets_and_push_to_s3 env existing_assets_hash new_assets_hash existing_assets_url org_id service_id =
     (case or_empty new_assets_hash of
        PDict assets \<Rightarrow> compare_assets
          (new_asset_url env (or_empty existing_assets_hash) (or_empty existing_assets_url) org_id service_id) assets []
      | _ \<Rightarrow> raise AttributeError)"

section \<open>infrastructure/repositories/new\_organization\_repository.py\<close>

definition get_organization :: "string \<Rightarrow> ('w, organization_row option) cprog" where
  "get_organization org_id = query (\<lambda>db. sql_first (\<lambda>o'. og_org_id o' = org_id) (organization db))"

text \<open>Rows that refer to a deleted row go with it.\<close>

definition without_services :: "(service_row \<Rightarrow> bool) \<Rightarrow> contract_db \<Rightarrow> contract_db" where
  "without_services gone db =
     (let numbers = map sv_row_id (filter gone (service db)); stays_row = (\<lambda>n. n \<notin> set numbers) in
      db\<lparr>service := filter (\<lambda>s. \<not> gone s) (service db),
         service_group := filter (\<lambda>r. stays_row (sg_service_row_id r)) (service_group db),
         service_endpoint := filter (\<lambda>r. stays_row (se_service_row_id r)) (service_endpoint db),
         service_metadata := filter (\<lambda>r. stays_row (sm_service_row_id r)) (service_metadata db),
         service_tags := filter (\<lambda>r. stays_row (tg_service_row_id r)) (service_tags db),
         service_media := filter (\<lambda>r. stays_row (me_service_row_id r)) (service_media db)\<rparr>)"

definition delete_organization :: "string \<Rightarrow> ('w, unit) cprog" where
  "delete_organization org_id = write_ops
     (andthen (execute (\<lambda>db. (without_services (\<lambda>s. sv_org_id s = org_id) db)
        \<lparr>organization := filter (\<lambda>o'. og_org_id o' \<noteq> org_id) (organization db),
         org_group := filter (\<lambda>g. gr_org_id g \<noteq> org_id) (org_group db)\<rparr>)) (\<lambda>_. commit))"

text \<open>The new organization is given as a row; the address for mail is not among what an update sets.\<close>

definition upsert_organization :: "organization_row \<Rightarrow> ('w, unit) cprog" where
  "upsert_organization new =
     andthen (get_organization (og_org_id new)) (\<lambda>found.
     case found of
       Some _ \<Rightarrow> execute (\<lambda>db. db\<lparr>organization := sql_update (\<lambda>o'. og_org_id o' = og_org_id new)
         (\<lambda>o'. new\<lparr>og_org_email := og_org_email o'\<rparr>) (organization db)\<rparr>)
     | None \<Rightarrow> execute (\<lambda>db. db\<lparr>organization := organization db @ [new]\<rparr>))"

definition delete_org_groups :: "string \<Rightarrow> ('w, unit) cprog" where
  "delete_org_groups org_id = execute (\<lambda>db. db\<lparr>org_group := filter (\<lambda>g. gr_org_id g \<noteq> org_id) (org_group db)\<rparr>)"

text \<open>Two groups of an organization have different ids, unless these are null.\<close>

definition create_org_groups :: "org_group_row list \<Rightarrow> ('w, unit) cprog" where
  "create_org_groups groups = for_each groups (\<lambda>group. insert_checked
     (\<lambda>db. gr_group_id group = PNone \<or>
        (\<forall>g \<in> set (org_group db). \<not> (gr_org_id g = gr_org_id group \<and> gr_group_id g = gr_group_id group)))
     (\<lambda>db. db\<lparr>org_group := org_group db @ [group]\<rparr>))"

section \<open>application/consumers/organization\_event\_consumers.py\<close>

definition encoded_org_id :: "string \<Rightarrow> nat list" where
  "encoded_org_id org_id =
     (let bytes = concat (map utf8_char org_id) in take 32 (bytes @ replicate (32 - length bytes) 0))"

definition get_org_details_from_blockchain ::
  "'w contract_env \<Rightarrow> string \<Rightarrow> ('w, chain_organization \<times> pyval \<times> string) cprog" where
  "get_org_details_from_blockchain env org_id =
     andthen (elsewhere (getOrganizationById env (encoded_org_id org_id))) (\<lambda>org_data.
     andthen (of_sum (sbind (text_of env (co_metadata_uri org_data)) (\<lambda>t. Inr (rstrip_nul t)))) (\<lambda>org_metadata_uri.
     andthen (storage_get env (PStr org_metadata_uri)) (\<lambda>org_metadata.
     ret (org_data, org_metadata, org_metadata_uri))))"

definition new_org_assets_url :: "'w contract_env \<Rightarrow> string \<Rightarrow> pyval \<Rightarrow> ('w, pydict) cprog" where
  "new_org_assets_url env org_id new_ipfs_data =
     andthen (of_sum (get_default new_ipfs_data ''assets'' (PDict []))) (\<lambda>new_assets_hash.
     andthen (get_organization org_id) (\<lambda>existing.
     case existing of
       None \<Rightarrow> compare_assets_and_push_to_s3 env (PDict []) new_assets_hash (PDict []) org_id (Some [])
     | Some o' \<Rightarrow> compare_assets_and_push_to_s3 env (og_assets_hash o') new_assets_hash (og_org_assets_url o') org_id (Some [])))"

fun new_org_groups :: "string \<Rightarrow> pyval list \<Rightarrow> exn + org_group_row list" where
  "new_org_groups org_id [] = Inr []"
| "new_org_groups org_id (g # groups) =
     sbind (getitem g ''group_id'') (\<lambda>group_id.
     sbind (getitem g ''group_name'') (\<lambda>group_name.
     sbind (getitem g ''payment'') (\<lambda>payment.
     sbind (new_org_groups org_id groups) (\<lambda>rows.
     Inr (\<lparr>gr_org_id = org_id, gr_group_id = group_id, gr_group_name = group_name, gr_payment = payment\<rparr> # rows)))))"

definition process_organization_create_update_event ::
  "'w contract_env \<Rightarrow> string \<Rightarrow> chain_organization \<Rightarrow> pyval \<Rightarrow> string \<Rightarrow> ('w, unit) cprog" where
  "process_organization_create_update_event env org_id org_data org_metadata org_metadata_uri =
     (if co_found org_data then session_scope
       (andthen (of_sum (get_default org_metadata ''assets'' (PDict []))) (\<lambda>new_assets_hash.
        andthen (new_org_assets_url env org_id org_metadata) (\<lambda>mapping.
        andthen (of_sum (get_default org_metadata ''description'' (PStr []))) (\<lambda>description.
        andthen (of_sum (get_default org_metadata ''contacts'' (PDict []))) (\<lambda>contacts.
        andthen (of_sum (getitem org_metadata ''org_name'')) (\<lambda>organization_name.
        andthen (upsert_organization
          \<lparr>og_org_id = org_id, og_organization_name = organization_name, og_owner_address = co_owner org_data,
           og_org_metadata_uri = org_metadata_uri, og_org_email = PNone, og_org_assets_url = PDict mapping, og_is_curated = True,
           og_description = description, og_assets_hash = new_assets_hash, og_contacts = contacts\<rparr>) (\<lambda>_.
        andthen (delete_org_groups org_id) (\<lambda>_.
        andthen (of_sum (sbind (sbind (get_default org_metadata ''groups'' (PList [])) py_items) (new_org_groups org_id))) (\<lambda>groups.
        create_org_groups groups)))))))))
      else ret ())"

definition organization_created_on_event :: "'w contract_env \<Rightarrow> string \<Rightarrow> ('w, unit) cprog" where
  "organization_created_on_event env org_id =
     andthen (get_org_details_from_blockchain env org_id) (\<lambda>(org_data, org_metadata, org_metadata_uri).
     process_organization_create_update_event env org_id org_data org_metadata org_metadata_uri)"

definition organization_deleted_on_event :: "string \<Rightarrow> ('w, unit) cprog" where
  "organization_deleted_on_event org_id = session_scope (delete_organization org_id)"

section \<open>infrastructure/repositories/new\_service\_repository.py, what the events use\<close>

definition get_service_metadata :: "string \<Rightarrow> string option \<Rightarrow> ('w, service_metadata_row option) cprog" where
  "get_service_metadata org_id service_id =
     query (\<lambda>db. sql_first (\<lambda>m. sm_org_id m = org_id \<and> Some (sm_service_id m) = service_id) (service_metadata db))"

definition delete_service :: "string \<Rightarrow> string option \<Rightarrow> ('w, unit) cprog" where
  "delete_service org_id service_id = write_ops
     (andthen (execute (without_services (\<lambda>s. sv_org_id s = org_id \<and> Some (sv_service_id s) = service_id))) (\<lambda>_. commit))"

definition get_services :: "string \<Rightarrow> ('w, service_row list) cprog" where
  "get_services org_id = query (\<lambda>db. filter (\<lambda>s. sv_org_id s = org_id) (service db))"

definition delete_service_dependents :: "string \<Rightarrow> string option \<Rightarrow> ('w, unit) cprog" where
  "delete_service_dependents org_id service_id =
     andthen (execute (\<lambda>db. db
       \<lparr>service_group := filter (\<lambda>r. \<not> (sg_org_id r = org_id \<and> Some (sg_service_id r) = service_id)) (service_group db)\<rparr>)) (\<lambda>_.
     andthen (execute (\<lambda>db. db
       \<lparr>service_tags := filter (\<lambda>r. \<not> (tg_org_id r = org_id \<and> Some (tg_service_id r) = service_id)) (service_tags db)\<rparr>)) (\<lambda>_.
     andthen (execute (\<lambda>db. db
       \<lparr>service_endpoint := filter (\<lambda>r. \<not> (se_org_id r = org_id \<and> Some (se_service_id r) = service_id)) (service_endpoint db)\<rparr>))
       (\<lambda>_. commit)))"

text \<open>A service belongs to an organization; its id is not null.\<close>

definition next_row_number :: "('w, int) cprog" where
  "next_row_number = andthen (gets row_counter) (\<lambda>n. andthen (modify (\<lambda>w. w\<lparr>row_counter := n + 1\<rparr>)) (\<lambda>_. ret n))"

definition upsert_service :: "string \<Rightarrow> string option \<Rightarrow> string \<Rightarrow> bool \<Rightarrow> ('w, service_row) cprog" where
  "upsert_service org_id service_id hash_uri is_curated =
     (let here = (\<lambda>s. sv_org_id s = org_id \<and> Some (sv_service_id s) = service_id) in
      andthen (query (\<lambda>db. sql_first here (service db))) (\<lambda>found.
      andthen (case found of
          Some _ \<Rightarrow> execute (\<lambda>db. db\<lparr>service := sql_update here
            (\<lambda>s. s\<lparr>sv_hash_uri := hash_uri, sv_is_curated := is_curated\<rparr>) (service db)\<rparr>)
        | None \<Rightarrow> (case service_id of
              None \<Rightarrow> raise IntegrityError
            | Some sid \<Rightarrow> andthen next_row_number (\<lambda>n. insert_checked
                (\<lambda>db. org_id \<in> og_org_id ` set (organization db))
                (\<lambda>db. db\<lparr>service := service db @ [\<lparr>sv_row_id = n, sv_org_id = org_id, sv_service_id = sid, sv_service_path = PNone,
                   sv_hash_uri = hash_uri, sv_is_curated = is_curated, sv_service_email = PNone\<rparr>]\<rparr>)))) (\<lambda>_.
      andthen commit (\<lambda>_.
      andthen (query (\<lambda>db. sql_first here (service db))) (\<lambda>again.
      case again of Some s \<Rightarrow> ret s | None \<Rightarrow> raise (PyExc ''NoResultFound'' []))))))"

text \<open>The domain object has the fields of the row; a new row has the rating and the defaults of the columns.\<close>

definition upsert_service_metadata :: "int \<Rightarrow> string \<Rightarrow> string \<Rightarrow> pydict \<Rightarrow> ('w, service_metadata_row) cprog" where
  "upsert_service_metadata service_row_id org_id service_id values' =
     (let here = (\<lambda>m. sm_org_id m = org_id \<and> sm_service_id m = service_id) in
      andthen (query (\<lambda>db. sql_first here (service_metadata db))) (\<lambda>found.
      andthen (case found of
          Some _ \<Rightarrow> execute (\<lambda>db. db\<lparr>service_metadata := sql_update here
            (\<lambda>m. m\<lparr>sm_service_row_id := service_row_id, sm_fields := values'\<rparr>) (service_metadata db)\<rparr>)
        | None \<Rightarrow> execute (\<lambda>db. db\<lparr>service_metadata := service_metadata db @
            [\<lparr>sm_service_row_id = service_row_id, sm_org_id = org_id, sm_service_id = service_id, sm_fields = values',
              sm_service_rating = PDict [(''rating'', PFloat ''0.0''), (''total_users_rated'', PInt 0)], sm_ranking = 1,
              sm_demo_component_available = False\<rparr>]\<rparr>)) (\<lambda>_.
      andthen (query (\<lambda>db. sql_first here (service_metadata db))) (\<lambda>again.
      case again of Some m \<Rightarrow> ret m | None \<Rightarrow> raise (PyExc ''NoResultFound'' [])))))"

text \<open>An insertion or an update by the key of the new row, whose columns \<open>not_null\<close> must be set.\<close>

definition upsert_row ::
  "(contract_db \<Rightarrow> 'r list) \<Rightarrow> (('r list \<Rightarrow> 'r list) \<Rightarrow> contract_db \<Rightarrow> contract_db) \<Rightarrow> ('r \<Rightarrow> 'r \<Rightarrow> bool) \<Rightarrow> bool \<Rightarrow> 'r \<Rightarrow> ('w, unit) cprog" where
  "upsert_row table in_table same_key not_null new =
     andthen (query (\<lambda>db. sql_first (same_key new) (table db))) (\<lambda>found.
     if \<not> not_null then raise IntegrityError
     else case found of
       Some _ \<Rightarrow> execute (in_table (sql_update (same_key new) (\<lambda>_. new)))
     | None \<Rightarrow> execute (in_table (\<lambda>t. t @ [new])))"

definition upsert_service_group :: "service_group_row \<Rightarrow> ('w, unit) cprog" where
  "upsert_service_group new = upsert_row service_group (\<lambda>f db. db\<lparr>service_group := f (service_group db)\<rparr>)
     (\<lambda>a b. sg_org_id b = sg_org_id a \<and> sg_service_id b = sg_service_id a \<and> sg_group_id b = sg_group_id a)
     (sg_group_id new \<noteq> PNone \<and> sg_group_name new \<noteq> PNone) new"

definition upsert_service_endpoint :: "service_endpoint_row \<Rightarrow> ('w, unit) cprog" where
  "upsert_service_endpoint new = upsert_row service_endpoint (\<lambda>f db. db\<lparr>service_endpoint := f (service_endpoint db)\<rparr>)
     (\<lambda>a b. se_org_id b = se_org_id a \<and> se_service_id b = se_service_id a \<and> se_group_id b = se_group_id a)
     (se_group_id new \<noteq> PNone) new"

definition upsert_service_media :: "service_media_row \<Rightarrow> ('w, unit) cprog" where
  "upsert_service_media new = upsert_row service_media (\<lambda>f db. db\<lparr>service_media := f (service_media db)\<rparr>)
     (\<lambda>a b. me_org_id b = me_org_id a \<and> me_service_id b = me_service_id a \<and> me_asset_type b = me_asset_type a) True new"

definition create_service_tag :: "service_tag_row \<Rightarrow> ('w, unit) cprog" where
  "create_service_tag new =
     andthen (query (\<lambda>db. sql_first (\<lambda>t. t = new \<and> tg_tag_name t \<noteq> PNone) (service_tags db))) (\<lambda>found.
     case found of
       Some _ \<Rightarrow> ret ()
     | None \<Rightarrow> execute (\<lambda>db. db\<lparr>service_tags := service_tags db @ [new]\<rparr>))"

end
