(* ===== verification/Contract_Services.thy ===== *)
theory Contract_Services
  imports Contract_Events
begin

text \<open>
  The events of services in the contract API: the metadata of a service with its groups, endpoints, tags and media, and
  the stubs that are compiled for it; the dispatch of the registry's events; and the listing of organizations.
\<close>

section \<open>domain/factory/service\_factory.py\<close>

text \<open>
  The columns of the metadata and their defaults by type. A field comes from the keyword arguments, else from the
  metadata, else it is the default.
\<close>

definition metadata_columns :: pydict where
  "metadata_columns =
     [(''display_name'', PStr []), (''description'', PStr []), (''short_description'', PStr []), (''url'', PStr []),
      (''json'', PStr []), (''model_hash'', PStr []), (''encoding'', PStr []), (''type'', PStr []), (''mpe_address'', PStr []),
      (''assets_url'', PDict []), (''assets_hash'', PDict []), (''contributors'', PDict [])]"

definition service_metadata_from_metadata_dict :: "pydict \<Rightarrow> pydict \<Rightarrow> pydict" where
  "service_metadata_from_metadata_dict metadata_dict kwargs =
     map (\<lambda>(name, absent). (name,
       case dict_get kwargs name of
         Some v \<Rightarrow> v
       | None \<Rightarrow> (case dict_get metadata_dict name of Some v \<Rightarrow> v | None \<Rightarrow> absent))) metadata_columns"

text \<open>A keyword argument that is given twice is an error.\<close>

definition named_arguments :: "string list" where
  "named_arguments = [''metadata_dict'', ''service_row_id'', ''org_id'', ''service_id'', ''assets_url'', ''model_hash'', ''type'']"

definition new_service_metadata :: "pydict \<Rightarrow> pydict \<Rightarrow> exn + pydict" where
  "new_service_metadata metadata assets_url =
     sbind (get_default (PDict metadata) ''service_api_source'' (PStr [])) (\<lambda>model_hash.
     sbind (get_default (PDict metadata) ''service_type'' (PStr [])) (\<lambda>service_type.
     sbind (getitem (PDict metadata) ''service_description'') (\<lambda>description.
     case description of
       PDict d \<Rightarrow>
         if \<exists>k \<in> set (map fst d). k \<in> set named_arguments then Inl TypeError
         else Inr (service_metadata_from_metadata_dict metadata
           ([(''assets_url'', PDict assets_url), (''model_hash'', model_hash), (''type'', service_type)] @ d))
     | _ \<Rightarrow> Inl TypeError)))"

section \<open>application/consumers/service\_event\_consumers.py\<close>

subsection \<open>Groups, endpoints, tags and media\<close>

definition utc_now :: "'w contract_env \<Rightarrow> ('w, time) cprog" where
  "utc_now env = elsewhere (\<lambda>o'. case utcnow env o' of (t, o'') \<Rightarrow> (Inr t, o''))"

definition create_service_group ::
  "'w contract_env \<Rightarrow> service_row \<Rightarrow> pyval \<Rightarrow> ('w, unit) cprog" where
  "create_service_group env s g =
     andthen (of_sum (getitem g ''group_id'')) (\<lambda>group_id.
     andthen (of_sum (getitem g ''group_name'')) (\<lambda>group_name.
     andthen (of_sum (get_default g ''free_call_signer_address'' (PStr []))) (\<lambda>free_call_signer_address.
     andthen (of_sum (get_default g ''free_calls'' (PInt 0))) (\<lambda>free_calls.
     andthen (of_sum (get_default g ''pricing'' (PDict []))) (\<lambda>pricing.
     andthen (upsert_service_group
       \<lparr>sg_service_row_id = sv_row_id s, sg_org_id = sv_org_id s, sg_service_id = sv_service_id s, sg_group_id = group_id,
        sg_group_name = group_name, sg_free_call_signer_address = free_call_signer_address, sg_free_calls = free_calls,
        sg_pricing = pricing\<rparr>) (\<lambda>_.
     andthen (of_sum (sbind (get_default g ''endpoints'' (PList [])) py_items)) (\<lambda>urls.
     for_each urls (\<lambda>url.
       andthen (utc_now env) (\<lambda>t.
       upsert_service_endpoint
         \<lparr>se_service_row_id = sv_row_id s, se_org_id = sv_org_id s, se_service_id = sv_service_id s, se_group_id = group_id,
          se_endpoint = url, se_is_available = True, se_last_check_timestamp = column_time env t\<rparr>)))))))))"

definition create_tag :: "service_row \<Rightarrow> pyval \<Rightarrow> ('w, unit) cprog" where
  "create_tag s tag_name = create_service_tag
     \<lparr>tg_service_row_id = sv_row_id s, tg_org_id = sv_org_id s, tg_service_id = sv_service_id s, tg_tag_name = tag_name\<rparr>"

text \<open>An external address is kept; anything else is the hash of an asset, which is copied.\<close>

definition create_media_item :: "'w contract_env \<Rightarrow> service_row \<Rightarrow> pyval \<Rightarrow> ('w, unit) cprog" where
  "create_media_item env s item =
     andthen (of_sum (get_default item ''file_type'' PNone)) (\<lambda>file_type.
     if file_type \<noteq> PStr ''image'' \<and> file_type \<noteq> PStr ''video'' then ret ()
     else
       andthen (of_sum (get_default item ''url'' (PStr []))) (\<lambda>url.
       andthen (of_sum (case url of PStr u \<Rightarrow> Inr (if_external_link u) | _ \<Rightarrow> Inl AttributeError)) (\<lambda>external.
       andthen (if external then ret (url, PStr [])
         else andthen (push_asset_to_s3_using_hash env url (sv_org_id s) (Some (sv_service_id s)) []) (\<lambda>updated_url.
           ret (PStr updated_url, url))) (\<lambda>(updated_url, hash_uri).
       andthen (of_sum (get_default item ''asset_type'' (PStr []))) (\<lambda>asset_type.
       andthen (of_sum (get_default item ''order'' (PInt 0))) (\<lambda>order.
       andthen (of_sum (get_default item ''alt_text'' (PStr []))) (\<lambda>alt_text.
       upsert_service_media
         \<lparr>me_service_row_id = sv_row_id s, me_org_id = sv_org_id s, me_service_id = sv_service_id s, me_url = updated_url,
          me_order = order, me_file_type = file_type,
          me_asset_type = (if asset_type \<noteq> PStr ''hero_image'' then ''media_gallery'' else ''hero_image''),
          me_alt_text = alt_text, me_hash_uri = hash_uri\<rparr>)))))))"

definition create_service_media :: "'w contract_env \<Rightarrow> service_row \<Rightarrow> pyval \<Rightarrow> ('w, unit) cprog" where
  "create_service_media env s media =
     andthen (of_sum (py_items media)) (\<lambda>items. for_each items (create_media_item env s))"

subsection \<open>Deployment\<close>

text \<open>The archive passes through a temporary file.\<close>

definition upload_proto_file_from_hash_to_bucket ::
  "'w contract_env \<Rightarrow> string \<Rightarrow> string \<Rightarrow> pyval \<Rightarrow> ('w, unit) cprog" where
  "upload_proto_file_from_hash_to_bucket env org_id service_id asset_hash =
     andthen (storage_get_bytes env asset_hash) (\<lambda>io_bytes.
     elsewhere (s3_upload env (ASSETS_COMPONENT_BUCKET_NAME env)
       (''assets/'' @ org_id @ ''/'' @ service_id @ ''/proto.tar.gz'') io_bytes))"

text \<open>The message of the exception shows the response.\<close>

definition compile_proto_stubs :: "'w contract_env \<Rightarrow> string \<Rightarrow> string \<Rightarrow> ('w, string list) cprog" where
  "compile_proto_stubs env org_id service_id =
     (let output_url = ''s3://'' @ ASSETS_COMPONENT_BUCKET_NAME env @ ''/assets/'' @ org_id @ ''/'' @ service_id @ ''/'';
          base_url = output_url @ ''proto.tar.gz'' in
      andthen (of_sum (json_dumps (PDict [(''input_s3_path'', PStr base_url), (''output_s3_path'', PStr output_url),
        (''org_id'', PStr org_id), (''service_id'', PStr service_id)]))) (\<lambda>payload.
      andthen (elsewhere (compile_protos env payload)) (\<lambda>answer.
      andthen (of_sum (loads env answer)) (\<lambda>response.
      andthen (of_sum (getitem response ''statusCode'')) (\<lambda>code.
      if code \<noteq> PInt 200 then raise (DataExc ''Exception'' response)
      else
        andthen (of_sum (get_bucket_and_key_from_url env (output_url @ ''stubs''))) (\<lambda>(output_bucket, output_key).
        andthen (elsewhere (s3_objects env output_bucket output_key)) (\<lambda>keys.
        ret (map (\<lambda>k. ''https://'' @ output_bucket @ ''.s3.'' @ REGION_NAME env @ ''.amazonaws.com/'' @ k) keys))))))))"

definition update_proto_stubs :: "service_metadata_row \<Rightarrow> string list \<Rightarrow> ('w, unit) cprog" where
  "update_proto_stubs m proto_stubs = for_each proto_stubs (\<lambda>stub. upsert_service_media
     \<lparr>me_service_row_id = sm_service_row_id m, me_org_id = sm_org_id m, me_service_id = sm_service_id m, me_url = PStr stub,
      me_order = PInt 0, me_file_type = PStr ''grpc-stub'', me_asset_type = ''grpc-stub/dadadadad'', me_alt_text = PStr [],
      me_hash_uri = PStr []\<rparr>)"

definition model_hash_of :: "service_metadata_row \<Rightarrow> pyval" where
  "model_hash_of m = (case dict_get (sm_fields m) ''model_hash'' of Some v \<Rightarrow> v | None \<Rightarrow> PNone)"

definition process_service_deployment :: "'w contract_env \<Rightarrow> service_metadata_row \<Rightarrow> ('w, unit) cprog" where
  "process_service_deployment env m =
     andthen (upload_proto_file_from_hash_to_bucket env (sm_org_id m) (sm_service_id m) (model_hash_of m)) (\<lambda>_.
     andthen (compile_proto_stubs env (sm_org_id m) (sm_service_id m)) (update_proto_stubs m))"

definition handle_deployment_event :: "'w contract_env \<Rightarrow> string \<Rightarrow> string option \<Rightarrow> ('w, unit) cprog" where
  "handle_deployment_event env org_id service_id =
     andthen (get_service_metadata org_id service_id) (\<lambda>found.
     case found of None \<Rightarrow> ret () | Some m \<Rightarrow> process_service_deployment env m)"

definition deployment_on_event :: "'w contract_env \<Rightarrow> string \<Rightarrow> string option \<Rightarrow> ('w, unit) cprog" where
  "deployment_on_event env org_id service_id = session_scope (handle_deployment_event env org_id service_id)"

subsection \<open>A service is created or changed\<close>

definition asset_column :: "service_metadata_row \<Rightarrow> string \<Rightarrow> pyval" where
  "asset_column m k = (case dict_get (sm_fields m) k of Some v \<Rightarrow> v | None \<Rightarrow> PDict [])"

definition new_service_assets_url ::
  "'w contract_env \<Rightarrow> string \<Rightarrow> string option \<Rightarrow> pydict \<Rightarrow> service_metadata_row option \<Rightarrow> ('w, pydict) cprog" where
  "new_service_assets_url env org_id service_id new_ipfs_data existing =
     andthen (of_sum (get_default (PDict new_ipfs_data) ''assets'' (PDict []))) (\<lambda>new_assets_hash.
     case existing of
       None \<Rightarrow> compare_assets_and_push_to_s3 env (PDict []) new_assets_hash (PDict []) org_id service_id
     | Some m \<Rightarrow> compare_assets_and_push_to_s3 env (asset_column m ''assets_hash'') new_assets_hash
         (asset_column m ''assets_url'') org_id service_id)"

text \<open>Whether the archive of a service is another one than before.\<close>

definition needs_deployment :: "service_metadata_row option \<Rightarrow> pydict \<Rightarrow> exn + bool" where
  "needs_deployment existing metadata =
     (case existing of
        None \<Rightarrow> Inr True
      | Some m \<Rightarrow> sbind (getitem (PDict metadata) ''service_api_source'') (\<lambda>h. Inr (model_hash_of m \<noteq> h)))"

text \<open>What is written after the service: the metadata, the groups, the tags, the media, the stubs.\<close>

definition store_service_data ::
  "'w contract_env \<Rightarrow> service_row \<Rightarrow> pydict \<Rightarrow> pydict \<Rightarrow> service_metadata_row option \<Rightarrow> ('w, unit) cprog" where
  "store_service_data env s metadata assets_url existing =
     andthen (of_sum (new_service_metadata metadata assets_url)) (\<lambda>fields.
     andthen (upsert_service_metadata (sv_row_id s) (sv_org_id s) (sv_service_id s) fields) (\<lambda>m.
     andthen (of_sum (sbind (get_default (PDict metadata) ''groups'' (PList [])) py_items)) (\<lambda>groups.
     andthen (for_each groups (create_service_group env s)) (\<lambda>_.
     andthen (of_sum (sbind (get_default (PDict metadata) ''tags'' (PList [])) py_items)) (\<lambda>tags.
     andthen (for_each tags (create_tag s)) (\<lambda>_.
     andthen (of_sum (get_default (PDict metadata) ''media'' (PList []))) (\<lambda>media.
     andthen (create_service_media env s media) (\<lambda>_.
     andthen (of_sum (needs_deployment existing metadata)) (\<lambda>deploy.
     if deploy then process_service_deployment env m else ret ())))))))))"

definition process_service_data ::
  "'w contract_env \<Rightarrow> string \<Rightarrow> string option \<Rightarrow> string \<Rightarrow> pydict \<Rightarrow> ('w, unit) cprog" where
  "process_service_data env org_id service_id new_hash metadata = session_scope
     (andthen (get_service_metadata org_id service_id) (\<lambda>existing.
      andthen (new_service_assets_url env org_id service_id metadata existing) (\<lambda>assets_url.
      andthen (delete_service_dependents org_id service_id) (\<lambda>_.
      andthen (upsert_service org_id service_id new_hash True) (\<lambda>s.
      store_service_data env s metadata assets_url existing)))))"

text \<open>
  A service of another payment contract is deleted, and its organization with its last service. The deletion of a service
  that is not there is no error; so is any failure of it.
\<close>

definition forget_foreign_service :: "string \<Rightarrow> string option \<Rightarrow> ('w, unit) cprog" where
  "forget_foreign_service org_id service_id = session_scope
     (andthen (try_except (delete_service org_id service_id) (\<lambda>_. ret ())) (\<lambda>_.
      andthen (get_organization org_id) (\<lambda>org_data.
      if org_data = None then ret ()
      else andthen (get_services org_id) (\<lambda>org_services.
        if org_services = [] then delete_organization org_id else ret ()))))"

definition service_created_on_event ::
  "'w contract_env \<Rightarrow> string \<Rightarrow> string option \<Rightarrow> string option \<Rightarrow> ('w, unit) cprog" where
  "service_created_on_event env org_id service_id metadata_uri =
     andthen (storage_get env (case metadata_uri of None \<Rightarrow> PNone | Some u \<Rightarrow> PStr u)) (\<lambda>service_metadata.
     andthen (of_sum (get_default service_metadata ''mpe_address'' PNone)) (\<lambda>service_mpe_address.
     andthen (of_sum (contract_address env)) (\<lambda>current_mpe_address.
     if service_mpe_address \<noteq> PStr current_mpe_address then forget_foreign_service org_id service_id
     else
       andthen (of_sum (spread service_metadata)) (\<lambda>metadata.
       session_scope
        (andthen (get_organization org_id) (\<lambda>org_data.
         andthen (if org_data = None then organization_created_on_event env org_id else ret ()) (\<lambda>_.
         process_service_data env org_id service_id (case metadata_uri of None \<Rightarrow> [] | Some u \<Rightarrow> u) metadata)))))))"

definition service_deleted_on_event :: "string \<Rightarrow> string option \<Rightarrow> ('w, unit) cprog" where
  "service_deleted_on_event org_id service_id = session_scope (delete_service org_id service_id)"

section \<open>The registry's events\<close>

record registry_event =
  rv_event_name :: string
  rv_org_id :: string
  rv_service_id :: "string option"
  rv_metadata_uri :: "string option"

fun texts_of :: "'w contract_env \<Rightarrow> pydict \<Rightarrow> exn + pydict" where
  "texts_of env [] = Inr []"
| "texts_of env ((key, v) # d) =
     sbind (if key \<noteq> ''name'' then sbind (to_text env v) (\<lambda>t. Inr (PStr (rstrip_nul t))) else Inr v) (\<lambda>new_value.
     sbind (texts_of env d) (\<lambda>rest. Inr ((key, new_value) # rest)))"

definition RegistryEventConsumerRequest :: "'w contract_env \<Rightarrow> pyval \<Rightarrow> exn + registry_event" where
  "RegistryEventConsumerRequest env event = validation_handler (formatted_errors env) []
     (\<lambda>_. model_of (sbind (convert_data env event) (texts_of env)) (\<lambda>d.
        obind (field d ''name'' text_value None) (\<lambda>event_name.
        obind (field d ''orgId'' text_value None) (\<lambda>org_id.
        obind (field d ''serviceId'' (optional text_value) (Some None)) (\<lambda>service_id.
        obind (field d ''metadataURI'' (optional text_value) (Some None)) (\<lambda>metadata_uri.
        Some \<lparr>rv_event_name = event_name, rv_org_id = org_id, rv_service_id = service_id, rv_metadata_uri = metadata_uri\<rparr>))))))
     []"

text \<open>\<open>get_registry_event_consumer\<close> with the \<open>on_event\<close> of the consumer it picks.\<close>

definition registry_on_event :: "'w contract_env \<Rightarrow> registry_event \<Rightarrow> ('w, unit) cprog" where
  "registry_on_event env request =
     (if rv_event_name request \<in> {''ServiceCreated'', ''ServiceMetadataModified''} then
        service_created_on_event env (rv_org_id request) (rv_service_id request) (rv_metadata_uri request)
      else if rv_event_name request = ''ServiceDeleted'' then service_deleted_on_event (rv_org_id request) (rv_service_id request)
      else if rv_event_name request \<in> {''OrganizationCreated'', ''OrganizationModified''} then
        organization_created_on_event env (rv_org_id request)
      else if rv_event_name request = ''OrganizationDeleted'' then organization_deleted_on_event (rv_org_id request)
      else ret ())"

definition registry_event_consumer :: "'w contract_env \<Rightarrow> pydict \<Rightarrow> ('w, pydict) cprog" where
  "registry_event_consumer env event =
     andthen (of_sum (get_events_from_queue env event)) (\<lambda>events.
     andthen (for_each events (\<lambda>e. andthen (of_sum (RegistryEventConsumerRequest env e)) (registry_on_event env))) (\<lambda>_. ret []))"

text \<open>The lambda answers the status as its message.\<close>

definition manage_service_deployment :: "'w contract_env \<Rightarrow> pydict \<Rightarrow> ('w, lambda_response) cprog" where
  "manage_service_deployment env event = exception_handler
     (andthen (of_sum (RegistryEventConsumerRequest env (PDict event))) (\<lambda>request.
      andthen (deployment_on_event env (rv_org_id request) (rv_service_id request)) (\<lambda>_.
      of_sum (generate_lambda_response 200 (PInt 200) False))))"

section \<open>application/services/organization\_service.py and its handlers\<close>

definition organization_to_response :: "organization_row \<Rightarrow> pyval" where
  "organization_to_response o' = PDict
     [(''org_id'', PStr (og_org_id o')), (''organization_name'', og_organization_name o'),
      (''owner_address'', og_owner_address o'), (''org_metadata_uri'', PStr (og_org_metadata_uri o')),
      (''org_assets_url'', og_org_assets_url o'), (''is_curated'', PBool (og_is_curated o')),
      (''description'', og_description o'), (''assets_hash'', og_assets_hash o'), (''contacts'', og_contacts o'),
      (''org_email'', og_org_email o')]"

definition org_group_to_response :: "org_group_row \<Rightarrow> pyval" where
  "org_group_to_response g = PDict
     [(''org_id'', PStr (gr_org_id g)), (''group_id'', gr_group_id g), (''group_name'', gr_group_name g),
      (''payment'', gr_payment g)]"

definition get_organizations_with_curated_services :: "('w, organization_row list) cprog" where
  "get_organizations_with_curated_services = query (\<lambda>db.
     filter (\<lambda>o'. \<exists>s \<in> set (service db). sv_org_id s = og_org_id o' \<and> sv_is_curated s) (organization db))"

definition get_groups :: "string \<Rightarrow> string option \<Rightarrow> ('w, org_group_row list) cprog" where
  "get_groups org_id group_id = query (\<lambda>db.
     filter (\<lambda>g. gr_org_id g = org_id \<and> (case group_id of None \<Rightarrow> True | Some i \<Rightarrow> gr_group_id g = PStr i)) (org_group db))"

definition get_all_organizations :: "('w, pyval list) cprog" where
  "get_all_organizations =
     andthen get_organizations_with_curated_services (\<lambda>orgs. ret (map organization_to_response orgs))"

definition get_group :: "string \<Rightarrow> string \<Rightarrow> ('w, pydict) cprog" where
  "get_group org_id group_id =
     andthen (get_groups org_id (Some group_id)) (\<lambda>groups. ret [(''groups'', PList (map org_group_to_response groups))])"

definition GetGroupRequest :: "'w contract_env \<Rightarrow> pydict \<Rightarrow> exn + string \<times> string" where
  "GetGroupRequest env = validation_handler (formatted_errors env) [path_part] (\<lambda>event.
     sbind (spread (event_part event path_part)) (parsed (\<lambda>d.
       obind (field d ''org_id'' text_value None) (\<lambda>org_id.
       obind (field d ''group_id'' text_value None) (\<lambda>group_id. Some (org_id, group_id))))))"

definition success_data :: "pyval \<Rightarrow> ('w, lambda_response) cprog" where
  "success_data data = of_sum (generate_lambda_response 200 (PDict [(''status'', PStr ''success''), (''data'', data)]) True)"

definition get_all_organizations_handler :: "pydict \<Rightarrow> ('w, lambda_response) cprog" where
  "get_all_organizations_handler event = exception_handler
     (andthen get_all_organizations (\<lambda>orgs. success_data (PList orgs)))"

definition get_group_handler :: "'w contract_env \<Rightarrow> pydict \<Rightarrow> ('w, lambda_response) cprog" where
  "get_group_handler env event = exception_handler
     (andthen (of_sum (GetGroupRequest env event)) (\<lambda>(org_id, group_id).
      andthen (get_group org_id group_id) (\<lambda>response. success_data (PDict response))))"

end
