(* ===== verification/Contract_Laws.thy ===== *)
theory Contract_Laws
  imports Contract_Services
begin

text \<open>
  The tables of the contract API under any events and requests: keys stay unique and every row refers to rows that are
  there, whether the events succeed or not.
\<close>

section \<open>The constraints of the tables\<close>

definition service_ids :: "contract_db \<Rightarrow> int set" where
  "service_ids db = sv_row_id ` set (service db)"

definition org_ids :: "contract_db \<Rightarrow> string set" where
  "org_ids db = og_org_id ` set (organization db)"

definition group_key :: "service_group_row \<Rightarrow> string \<times> string \<times> pyval" where
  "group_key r = (sg_org_id r, sg_service_id r, sg_group_id r)"

definition endpoint_key :: "service_endpoint_row \<Rightarrow> string \<times> string \<times> pyval" where
  "endpoint_key r = (se_org_id r, se_service_id r, se_group_id r)"

definition media_key :: "service_media_row \<Rightarrow> string \<times> string \<times> string" where
  "media_key r = (me_org_id r, me_service_id r, me_asset_type r)"

definition unique_keys :: "contract_db \<Rightarrow> bool" where
  "unique_keys db \<longleftrightarrow>
     distinct (map mc_channel_id (mpe_channel db)) \<and> distinct (map og_org_id (organization db)) \<and>
     distinct (map sv_row_id (service db)) \<and> distinct (map (\<lambda>s. (sv_org_id s, sv_service_id s)) (service db)) \<and>
     distinct (map group_key (service_group db)) \<and> distinct (map endpoint_key (service_endpoint db)) \<and>
     distinct (map media_key (service_media db)) \<and>
     distinct (map (\<lambda>m. (sm_org_id m, sm_service_id m)) (service_metadata db))"

definition references_ok :: "contract_db \<Rightarrow> bool" where
  "references_ok db \<longleftrightarrow>
     sv_org_id ` set (service db) \<subseteq> org_ids db \<and> gr_org_id ` set (org_group db) \<subseteq> org_ids db \<and>
     sg_service_row_id ` set (service_group db) \<subseteq> service_ids db \<and>
     se_service_row_id ` set (service_endpoint db) \<subseteq> service_ids db \<and>
     sm_service_row_id ` set (service_metadata db) \<subseteq> service_ids db \<and>
     tg_service_row_id ` set (service_tags db) \<subseteq> service_ids db \<and>
     me_service_row_id ` set (service_media db) \<subseteq> service_ids db"

definition db_ok :: "int \<Rightarrow> contract_db \<Rightarrow> bool" where
  "db_ok n db \<longleftrightarrow> unique_keys db \<and> references_ok db \<and> (\<forall>i \<in> service_ids db. i < n)"

text \<open>\<open>S\<close> are numbers of services that the session is known to have.\<close>

definition contract_ok :: "int set \<Rightarrow> 'w contract_world \<Rightarrow> bool" where
  "contract_ok S w \<longleftrightarrow> db_ok (row_counter w) (session w) \<and> db_ok (row_counter w) (stored w) \<and> S \<subseteq> service_ids (session w)"

lemma distinct_map_filter_key: "distinct (map k t) \<Longrightarrow> distinct (map k (filter p t))"
  by (induction t) auto

lemma distinct_snoc: "distinct (map k t) \<Longrightarrow> sql_first (\<lambda>r. k r = k x) t = None \<Longrightarrow> distinct (map k (t @ [x]))"
  by (auto simp: sql_first_None)

lemma unique_filters:
  "unique_keys db \<Longrightarrow> unique_keys (db\<lparr>service_group := filter p1 (service_group db)\<rparr>)"
  "unique_keys db \<Longrightarrow> unique_keys (db\<lparr>service_endpoint := filter p2 (service_endpoint db)\<rparr>)"
  "unique_keys db \<Longrightarrow> unique_keys (db\<lparr>service_tags := filter p3 (service_tags db)\<rparr>)"
  "unique_keys db \<Longrightarrow> unique_keys (db\<lparr>mpe_channel := filter p4 (mpe_channel db)\<rparr>)"
  by (simp_all add: unique_keys_def distinct_map_filter_key)

lemma references_filters:
  "references_ok db \<Longrightarrow> references_ok (db\<lparr>service_group := filter p1 (service_group db)\<rparr>)"
  "references_ok db \<Longrightarrow> references_ok (db\<lparr>service_endpoint := filter p2 (service_endpoint db)\<rparr>)"
  "references_ok db \<Longrightarrow> references_ok (db\<lparr>service_tags := filter p3 (service_tags db)\<rparr>)"
  by (auto simp: references_ok_def service_ids_def org_ids_def)

section \<open>The steps of a program\<close>

abbreviation kept :: "int set \<Rightarrow> ('w, 'a) cprog \<Rightarrow> bool" where
  "kept S m \<equiv> stays (keeping (contract_ok S)) m"

lemma kept_elsewhere: "kept S (elsewhere m)"
  by (auto simp: stays_def keeping_def elsewhere_def contract_ok_def split: prod.split)

lemma kept_query: "kept S (query f)"
  by (simp add: stays_def keeping_def query_def)

lemma kept_execute:
  assumes "\<And>n db. db_ok n db \<Longrightarrow> S \<subseteq> service_ids db \<Longrightarrow> db_ok n (f db)" and "\<And>db. service_ids (f db) = service_ids db"
  shows "kept S (execute f)"
  using assms by (simp add: stays_def keeping_def execute_def contract_ok_def)

lemma kept_commit: "kept S commit"
  by (simp add: stays_def keeping_def commit_def contract_ok_def)

lemma kept_rollback: "kept {} rollback"
  by (simp add: stays_def keeping_def rollback_def contract_ok_def)

lemma kept_insert_checked:
  assumes "\<And>n db. db_ok n db \<Longrightarrow> S \<subseteq> service_ids db \<Longrightarrow> ok db \<Longrightarrow> db_ok n (f db)" and "\<And>db. service_ids (f db) = service_ids db"
  shows "kept S (insert_checked ok f)"
  using assms by (simp add: stays_def keeping_def insert_checked_def query_def execute_def andthen_def contract_ok_def)

lemma kept_write_ops: "kept {} m \<Longrightarrow> kept {} (write_ops m)"
  unfolding write_ops_def by (intro keeps.stays_rules kept_rollback)

lemma kept_session_scope: "kept {} m \<Longrightarrow> kept {} (session_scope m)"
  unfolding session_scope_def by (intro keeps.stays_rules kept_write_ops kept_rollback kept_commit)

lemma kept_case_prod: "(\<And>a b. kept S (f a b)) \<Longrightarrow> kept S (case p of (a, b) \<Rightarrow> f a b)"
  by (cases p) simp

lemma kept_case_option: "kept S m \<Longrightarrow> (\<And>a. kept S (f a)) \<Longrightarrow> kept S (case v of None \<Rightarrow> m | Some a \<Rightarrow> f a)"
  by (cases v) simp_all

lemmas kept_rules = keeps.stays_rules kept_elsewhere kept_query kept_commit kept_case_prod kept_case_option

section \<open>Channels\<close>

lemma kept_update_channels:
  "(\<And>c. mc_channel_id (f c) = mc_channel_id c) \<Longrightarrow> kept S (update_channels channel_id f)"
  unfolding update_channels_def
  by (rule kept_execute) (auto simp: db_ok_def unique_keys_def references_ok_def service_ids_def org_ids_def map_sql_update)

lemma kept_update_consumed_balance: "kept {} (repo_update_consumed_balance channel_id amount)"
  unfolding repo_update_consumed_balance_def by (intro kept_rules kept_write_ops kept_update_channels) simp

lemma insert_channel_ok:
  assumes "db_ok n db" and "sql_first (\<lambda>c. mc_channel_id c = mc_channel_id x) (mpe_channel db) = None"
  shows "db_ok n (db\<lparr>mpe_channel := mpe_channel db @ [x]\<rparr>)"
  using assms distinct_snoc [of mc_channel_id "mpe_channel db" x]
  by (simp add: db_ok_def unique_keys_def references_ok_def service_ids_def org_ids_def)

lemma kept_upsert_channel: "kept {} (upsert_channel c)"
proof -
  let ?m = "andthen (repo_get_channel (nc_channel_id c)) (\<lambda>found.
      andthen (case found of
          Some _ \<Rightarrow> update_channels (nc_channel_id c)
            (\<lambda>r. r\<lparr>mc_balance_in_cogs := nc_balance_in_cogs c, mc_pending := Some 0, mc_nonce := nc_nonce c,
                   mc_expiration := nc_expiration c\<rparr>)
        | None \<Rightarrow> insert_channel c) (\<lambda>_. commit))"
  have "kept {} ?m"
  proof (rule staysI)
    fix w r w'
    assume run: "?m w = (r, w')"
    show "keeping (contract_ok {}) w w'"
    proof (cases "sql_first (\<lambda>x. mc_channel_id x = nc_channel_id c) (mpe_channel (session w))")
      case None
      then have "andthen (insert_channel c) (\<lambda>_. commit) w = (r, w')"
        using run by (simp add: andthen_apply repo_get_channel_def query_def)
      with None show ?thesis
        by (auto simp: insert_channel_def execute_def commit_def andthen_apply keeping_def contract_ok_def insert_channel_ok
            split: option.splits)
    next
      case (Some x)
      let ?update = "update_channels (nc_channel_id c) (\<lambda>r. r\<lparr>mc_balance_in_cogs := nc_balance_in_cogs c, mc_pending := Some 0,
        mc_nonce := nc_nonce c, mc_expiration := nc_expiration c\<rparr>)"
      have "andthen ?update (\<lambda>_. commit) w = (r, w')"
        using Some run by (simp add: andthen_apply repo_get_channel_def query_def)
      moreover have "kept {} (andthen ?update (\<lambda>_. commit))" by (intro kept_rules kept_update_channels) simp
      ultimately show ?thesis by (metis staysD)
    qed
  qed
  then show ?thesis unfolding upsert_channel_def by (rule kept_write_ops)
qed

lemma kept_mpe_on_event: "kept {} (mpe_on_event env request)"
  unfolding mpe_on_event_def get_channel_data_from_blockchain_def Let_def
  by (auto intro!: kept_rules kept_upsert_channel)

lemma kept_mpe_event_consumer: "kept {} (mpe_event_consumer env event)"
  unfolding mpe_event_consumer_def by (intro kept_rules kept_mpe_on_event)

lemma kept_update_consumed_balance_handler: "kept {} (update_consumed_balance_handler env event)"
  unfolding update_consumed_balance_handler_def contract_handler_def exception_handler_def update_consumed_balance_def
    get_channel_state_from_daemon_def get_channel_state_signature_def get_channel_state_def get_service_endpoint_def
    repo_get_channel_def Let_def
  by (auto intro!: kept_rules kept_update_consumed_balance)

section \<open>Organizations and assets\<close>

lemma kept_assets: "kept S (compare_assets_and_push_to_s3 env a b c org_id service_id)"
proof -
  have push: "kept S (push_asset_to_s3_using_hash env h org_id service_id t)" for h t
    unfolding push_asset_to_s3_using_hash_def storage_get_bytes_def push_io_bytes_to_s3_def Let_def
    by (auto intro!: kept_rules split: pyval.split)
  have delete: "kept S (delete_file_from_s3 env u)" for u
    unfolding delete_file_from_s3_def by (intro kept_rules)
  have url: "kept S (new_asset_url env eh eu org_id service_id t h)" for eh eu t h
    unfolding new_asset_url_def by (cases h) (auto intro!: kept_rules push delete)
  have "kept S (compare_assets (new_asset_url env eh eu org_id service_id) assets mapping)" for eh eu assets mapping
    by (induction assets arbitrary: mapping) (auto intro!: kept_rules url)
  then show ?thesis
    unfolding compare_assets_and_push_to_s3_def by (cases "or_empty b") (auto intro!: keeps.stays_raise)
qed

lemma kept_push_asset: "kept S (push_asset_to_s3_using_hash env h org_id service_id t)"
  unfolding push_asset_to_s3_using_hash_def storage_get_bytes_def push_io_bytes_to_s3_def Let_def
  by (auto intro!: kept_rules split: pyval.split)

lemma kept_storage: "kept S (storage_get env uri)" "kept S (storage_get_bytes env uri)"
  unfolding storage_get_def storage_get_bytes_def by (auto intro!: kept_rules split: pyval.split)

text \<open>Deleted services take their rows with them.\<close>

lemma without_services_ids: "service_ids (without_services gone db) = service_ids db - sv_row_id ` {s \<in> set (service db). gone s}"
  if "distinct (map sv_row_id (service db))"
  using that by (auto simp: service_ids_def without_services_def Let_def distinct_map inj_on_def)

lemma without_services_ok:
  assumes "db_ok n db"
  shows "db_ok n (without_services gone db)"
proof -
  have u: "unique_keys db" and r: "references_ok db" and b: "\<forall>i \<in> service_ids db. i < n"
    using assms by (simp_all add: db_ok_def)
  have ids: "service_ids (without_services gone db) = service_ids db - sv_row_id ` {s \<in> set (service db). gone s}"
    using u by (intro without_services_ids) (simp add: unique_keys_def)
  have "unique_keys (without_services gone db)"
    using u by (simp add: unique_keys_def without_services_def Let_def distinct_map_filter_key)
  moreover have "references_ok (without_services gone db)"
    unfolding references_ok_def ids
    using r by (auto simp: references_ok_def without_services_def Let_def org_ids_def service_ids_def)
  ultimately show ?thesis using b ids by (simp add: db_ok_def)
qed

definition without_organization :: "string \<Rightarrow> contract_db \<Rightarrow> contract_db" where
  "without_organization org_id db = (without_services (\<lambda>s. sv_org_id s = org_id) db)
     \<lparr>organization := filter (\<lambda>o'. og_org_id o' \<noteq> org_id) (organization db),
      org_group := filter (\<lambda>g. gr_org_id g \<noteq> org_id) (org_group db)\<rparr>"

lemma without_organization_ok:
  assumes "db_ok n db"
  shows "db_ok n (without_organization org_id db)"
proof -
  let ?db = "without_services (\<lambda>s. sv_org_id s = org_id) db"
  have ok: "db_ok n ?db" using assms by (rule without_services_ok)
  have same: "organization ?db = organization db" "org_group ?db = org_group db"
    "service ?db = filter (\<lambda>s. sv_org_id s \<noteq> org_id) (service db)"
    by (simp_all add: without_services_def Let_def)
  have "unique_keys (without_organization org_id db)"
    using ok same by (simp add: db_ok_def unique_keys_def without_organization_def distinct_map_filter_key)
  moreover have "service_ids (without_organization org_id db) = service_ids ?db"
    by (simp add: service_ids_def without_organization_def)
  moreover have "references_ok (without_organization org_id db)"
    using ok same unfolding db_ok_def references_ok_def
    by (auto simp: without_organization_def service_ids_def org_ids_def)
  ultimately show ?thesis using ok by (simp add: db_ok_def)
qed

lemma kept_whole:
  assumes "\<And>n db. db_ok n db \<Longrightarrow> db_ok n (f db)"
  shows "kept {} (execute f)"
  using assms by (simp add: stays_def keeping_def execute_def contract_ok_def)

lemma kept_delete_organization: "kept {} (delete_organization org_id)"
  unfolding delete_organization_def without_organization_def [symmetric]
  by (intro kept_rules kept_write_ops kept_whole without_organization_ok)

lemma kept_delete_service: "kept {} (delete_service org_id service_id)"
  unfolding delete_service_def by (intro kept_rules kept_write_ops kept_whole without_services_ok)

lemma organization_step_ok:
  assumes "db_ok n db" and "set (map og_org_id t) \<supseteq> org_ids db" and "distinct (map og_org_id t)"
  shows "db_ok n (db\<lparr>organization := t\<rparr>)"
  using assms unfolding db_ok_def unique_keys_def references_ok_def
  by (simp add: service_ids_def org_ids_def) (metis subset_trans)

lemma kept_upsert_organization: "kept {} (upsert_organization new)"
proof (rule staysI)
  fix w :: "'w contract_world" and r w'
  let ?here = "\<lambda>o'. og_org_id o' = og_org_id new"
  let ?new = "\<lambda>db. if sql_first ?here (organization db) = None then organization db @ [new]
    else sql_update ?here (\<lambda>o'. new\<lparr>og_org_email := og_org_email o'\<rparr>) (organization db)"
  assume "upsert_organization new w = (r, w')"
  then have w': "w' = w\<lparr>session := session w\<lparr>organization := ?new (session w)\<rparr>\<rparr>"
    by (auto simp: upsert_organization_def get_organization_def query_def execute_def andthen_apply split: option.splits)
  have "db_ok n db \<Longrightarrow> db_ok n (db\<lparr>organization := ?new db\<rparr>)" for n db
  proof (rule organization_step_ok)
    assume "db_ok n db"
    then have d: "distinct (map og_org_id (organization db))" by (simp add: db_ok_def unique_keys_def)
    have keys: "map og_org_id (sql_update ?here (\<lambda>o'. new\<lparr>og_org_email := og_org_email o'\<rparr>) (organization db)) =
        map og_org_id (organization db)"
      by (rule map_sql_update) simp
    show "distinct (map og_org_id (?new db))" using d keys distinct_snoc [of og_org_id "organization db" new] by simp
    show "set (map og_org_id (?new db)) \<supseteq> org_ids db" using keys by (auto simp: org_ids_def simp flip: set_map)
  qed
  with w' show "keeping (contract_ok {}) w w'" by (simp add: keeping_def contract_ok_def)
qed

text \<open>Groups are created for an organization that the session has.\<close>

definition has_organization :: "string \<Rightarrow> 'w contract_world \<Rightarrow> bool" where
  "has_organization org_id w \<longleftrightarrow> contract_ok {} w \<and> org_id \<in> org_ids (session w)"

lemma org_group_step_ok:
  "db_ok n db \<Longrightarrow> gr_org_id ` set t \<subseteq> org_ids db \<Longrightarrow> db_ok n (db\<lparr>org_group := t\<rparr>)"
  unfolding db_ok_def unique_keys_def references_ok_def by (auto simp: service_ids_def org_ids_def)

lemma groups_of: "new_org_groups org_id gs = Inr rows \<Longrightarrow> x \<in> set rows \<Longrightarrow> gr_org_id x = org_id"
  by (induction gs arbitrary: rows) (auto simp: sbind_Inr_iff)

lemma keeps_groups:
  assumes "\<And>x. x \<in> set rows \<Longrightarrow> gr_org_id x = org_id"
  shows "stays (keeping (has_organization org_id)) (create_org_groups rows)"
  unfolding create_org_groups_def
proof (rule keeps.stays_for_each)
  fix x
  assume "x \<in> set rows"
  with assms have "gr_org_id x = org_id" by blast
  moreover have refs: "db_ok n db \<Longrightarrow> gr_org_id ` set (org_group db) \<subseteq> org_ids db" for n db
    by (simp add: db_ok_def references_ok_def)
  ultimately have "db_ok n db \<Longrightarrow> org_id \<in> org_ids db \<Longrightarrow> db_ok n (db\<lparr>org_group := org_group db @ [x]\<rparr>)" for n db
    by (intro org_group_step_ok) auto
  moreover have "org_ids (db\<lparr>org_group := t\<rparr>) = org_ids db" for db t by (simp add: org_ids_def)
  ultimately show "stays (keeping (has_organization org_id)) (insert_checked
      (\<lambda>db. gr_group_id x = PNone \<or> (\<forall>g \<in> set (org_group db). \<not> (gr_org_id g = gr_org_id x \<and> gr_group_id g = gr_group_id x)))
      (\<lambda>db. db\<lparr>org_group := org_group db @ [x]\<rparr>))"
    by (simp add: stays_def keeping_def has_organization_def insert_checked_def query_def execute_def andthen_def contract_ok_def)
qed

text \<open>A step after which more is known, and the rest of the program that keeps it.\<close>

lemma kept_enter:
  assumes first: "\<And>w r w'. contract_ok S w \<Longrightarrow> m w = (r, w') \<Longrightarrow> contract_ok S w' \<and> (\<forall>a. r = Inr a \<longrightarrow> I a w')"
    and rest: "\<And>a. stays (keeping (I a)) (f a)" and more: "\<And>a w. I a w \<Longrightarrow> contract_ok S w"
  shows "kept S (andthen m f)"
proof (rule staysI)
  fix w r w'
  assume run: "andthen m f w = (r, w')"
  show "keeping (contract_ok S) w w'"
    unfolding keeping_def
  proof
    assume ok: "contract_ok S w"
    obtain q w1 where m: "m w = (q, w1)" by fastforce
    show "contract_ok S w'"
    proof (cases q)
      case (Inl e)
      with run m first [OF ok m] show ?thesis by simp
    next
      case (Inr a)
      with run m have "f a w1 = (r, w')" by simp
      with rest first [OF ok m] Inr have "I a w'" by (metis staysD keeping_def)
      then show ?thesis by (rule more)
    qed
  qed
qed

lemma organization_known:
  assumes "contract_ok {} w" and run: "upsert_organization new w = (r, w')"
  shows "contract_ok {} w' \<and> (\<forall>a. r = Inr a \<longrightarrow> has_organization (og_org_id new) w')"
proof -
  have ok: "contract_ok {} w'" using assms kept_upsert_organization by (metis staysD keeping_def)
  have "og_org_id new \<in> org_ids (session w')"
    using run by (auto simp: upsert_organization_def get_organization_def query_def execute_def andthen_apply org_ids_def
        set_sql_update split: option.splits dest!: sql_first_SomeD) (auto simp: image_Un image_image)
  with ok show ?thesis by (simp add: has_organization_def)
qed

lemma keeps_delete_groups: "stays (keeping (has_organization org_id)) (delete_org_groups any)"
proof -
  have "gr_org_id ` set (org_group db) \<subseteq> org_ids db" if "db_ok n db" for n db
    using that by (simp add: db_ok_def references_ok_def)
  then have "db_ok n db \<Longrightarrow> db_ok n (db\<lparr>org_group := filter (\<lambda>g. gr_org_id g \<noteq> any) (org_group db)\<rparr>)" for n db
    by (intro org_group_step_ok) auto
  moreover have "org_ids (db\<lparr>org_group := t\<rparr>) = org_ids db" for db t by (simp add: org_ids_def)
  ultimately show ?thesis
    by (simp add: stays_def keeping_def has_organization_def delete_org_groups_def execute_def contract_ok_def)
qed

lemma kept_process_organization:
  fixes env :: "'w contract_env"
  shows "kept {} (process_organization_create_update_event env org_id org_data metadata uri)"
proof -
  define saved :: "organization_row \<Rightarrow> exn + pyval list \<Rightarrow> ('w, unit) cprog" where
    "saved new x = andthen (upsert_organization new) (\<lambda>_. andthen (delete_org_groups org_id) (\<lambda>_.
      andthen (of_sum (sbind x (new_org_groups org_id))) create_org_groups))" for new x
  have "kept {} (saved new x)" if id: "og_org_id new = org_id" for new x
    unfolding saved_def
  proof (rule kept_enter [where I = "\<lambda>_. has_organization org_id"])
    show "contract_ok {} w \<Longrightarrow> upsert_organization new w = (r, w') \<Longrightarrow>
        contract_ok {} w' \<and> (\<forall>a. r = Inr a \<longrightarrow> has_organization org_id w')" for w :: "'w contract_world" and r w'
      using organization_known id by blast
    have "stays (keeping (has_organization org_id))
        (andthen (of_sum (sbind x (new_org_groups org_id))) create_org_groups :: ('w, unit) cprog)"
    proof (rule keeps.stays_andthen_result [OF keeps.stays_of_sum])
      fix w a and w' :: "'w contract_world"
      assume "of_sum (sbind x (new_org_groups org_id)) w = (Inr a, w')"
      then obtain gs where "new_org_groups org_id gs = Inr a" by (auto simp: sbind_Inr_iff)
      then show "stays (keeping (has_organization org_id)) (create_org_groups a)"
        using groups_of by (intro keeps_groups) blast
    qed
    then show "stays (keeping (has_organization org_id)) (andthen (delete_org_groups org_id) (\<lambda>_.
        andthen (of_sum (sbind x (new_org_groups org_id))) create_org_groups) :: ('w, unit) cprog)"
      by (rule keeps.stays_andthen [OF keeps_delete_groups])
    show "has_organization org_id w \<Longrightarrow> contract_ok {} w" for w :: "'w contract_world" by (simp add: has_organization_def)
  qed
  then show ?thesis
    unfolding process_organization_create_update_event_def new_org_assets_url_def get_organization_def saved_def [symmetric]
    by (auto intro!: kept_rules kept_session_scope kept_assets)
qed

lemma kept_organization_created: "kept {} (organization_created_on_event env org_id)"
  unfolding organization_created_on_event_def get_org_details_from_blockchain_def
  by (intro kept_rules kept_storage kept_process_organization)

section \<open>Services\<close>

lemma kept_delete_dependents: "kept {} (delete_service_dependents org_id service_id)"
  unfolding delete_service_dependents_def
  by (intro kept_rules kept_whole) (auto simp: db_ok_def unique_filters references_filters service_ids_def)

lemma service_update_ok:
  assumes "db_ok n db" and "\<And>s. sv_row_id (f s) = sv_row_id s \<and> sv_org_id (f s) = sv_org_id s \<and> sv_service_id (f s) = sv_service_id s"
  shows "db_ok n (db\<lparr>service := sql_update p f (service db)\<rparr>)" "service_ids (db\<lparr>service := sql_update p f (service db)\<rparr>) = service_ids db"
proof -
  have keys: "map sv_row_id (sql_update p f t) = map sv_row_id t" "map sv_org_id (sql_update p f t) = map sv_org_id t"
    "map (\<lambda>s. (sv_org_id s, sv_service_id s)) (sql_update p f t) = map (\<lambda>s. (sv_org_id s, sv_service_id s)) t" for t
    using assms(2) by (intro map_sql_update; simp)+
  then have sets: "sv_row_id ` set (sql_update p f t) = sv_row_id ` set t" "sv_org_id ` set (sql_update p f t) = sv_org_id ` set t" for t
    by (metis list.set_map)+
  show "service_ids (db\<lparr>service := sql_update p f (service db)\<rparr>) = service_ids db" by (simp add: service_ids_def sets)
  with assms(1) keys sets show "db_ok n (db\<lparr>service := sql_update p f (service db)\<rparr>)"
    by (simp add: db_ok_def unique_keys_def references_ok_def org_ids_def)
qed

lemma new_service_ok:
  assumes ok: "db_ok n db" and org: "sv_org_id x \<in> org_ids db" and id: "sv_row_id x = n"
    and new: "sql_first (\<lambda>s. sv_org_id s = sv_org_id x \<and> sv_service_id s = sv_service_id x) (service db) = None"
  shows "db_ok (n + 1) (db\<lparr>service := service db @ [x]\<rparr>)"
proof -
  have "n \<notin> service_ids db" using ok by (auto simp: db_ok_def)
  moreover have "(sv_org_id x, sv_service_id x) \<notin> (\<lambda>s. (sv_org_id s, sv_service_id s)) ` set (service db)"
    using new by (auto simp: sql_first_None)
  ultimately have "unique_keys (db\<lparr>service := service db @ [x]\<rparr>)"
    using ok id by (auto simp: db_ok_def unique_keys_def service_ids_def)
  moreover have "references_ok (db\<lparr>service := service db @ [x]\<rparr>)"
    using ok org unfolding db_ok_def references_ok_def by (auto simp: service_ids_def org_ids_def)
  ultimately show ?thesis using ok id by (auto simp: db_ok_def service_ids_def)
qed

lemma db_ok_later: "db_ok n db \<Longrightarrow> db_ok (n + 1) db"
  by (auto simp: db_ok_def)

lemma service_known:
  assumes ok: "contract_ok {} w" and run: "upsert_service org_id service_id h c w = (r, w')"
  shows "contract_ok {} w' \<and> (\<forall>s. r = Inr s \<longrightarrow> contract_ok {sv_row_id s} w')"
proof -
  let ?here = "\<lambda>s. sv_org_id s = org_id \<and> Some (sv_service_id s) = service_id"
  let ?update = "\<lambda>db. db\<lparr>service := sql_update ?here (\<lambda>s. s\<lparr>sv_hash_uri := h, sv_is_curated := c\<rparr>) (service db)\<rparr>"
  have found: "s \<in> set t" if "sql_first ?here t = Some s" for s t using that by (auto dest: sql_first_SomeD)
  show ?thesis
  proof (cases "sql_first ?here (service (session w))")
    case (Some x)
    have "db_ok n db \<Longrightarrow> db_ok n (?update db)" for n db by (rule service_update_ok) simp_all
    with Some run ok show ?thesis
      by (auto simp: upsert_service_def Let_def query_def execute_def commit_def andthen_apply contract_ok_def service_ids_def
          split: option.splits dest!: found)
  next
    case none: None
    show ?thesis
    proof (cases service_id)
      case None
      with none run ok show ?thesis by (auto simp: upsert_service_def Let_def query_def andthen_apply)
    next
      case (Some sid)
      define x where "x = \<lparr>sv_row_id = row_counter w, sv_org_id = org_id, sv_service_id = sid, sv_service_path = PNone,
        sv_hash_uri = h, sv_is_curated = c, sv_service_email = PNone\<rparr>"
      have new: "sql_first (\<lambda>s. sv_org_id s = sv_org_id x \<and> sv_service_id s = sv_service_id x) (service (session w)) = None"
        using none Some by (simp add: x_def)
      have later: "contract_ok {} (w\<lparr>row_counter := row_counter w + 1\<rparr>)"
        using ok by (simp add: contract_ok_def db_ok_later)
      show ?thesis
      proof (cases "org_id \<in> org_ids (session w)")
        case False
        with none Some run later show ?thesis
          by (auto simp: upsert_service_def Let_def query_def andthen_apply next_row_number_def insert_checked_def org_ids_def)
      next
        case True
        have stored: "db_ok (row_counter w + 1) (session w\<lparr>service := service (session w) @ [x]\<rparr>)"
          using ok True new by (intro new_service_ok) (simp_all add: contract_ok_def x_def)
        have again: "sql_first ?here (service (session w) @ [x]) = Some x"
          using none Some by (simp add: sql_first_append x_def)
        have "upsert_service org_id service_id h c w = (Inr x, w\<lparr>row_counter := row_counter w + 1,
            session := session w\<lparr>service := service (session w) @ [x]\<rparr>, stored := session w\<lparr>service := service (session w) @ [x]\<rparr>\<rparr>)"
          using none Some True again
          by (simp add: upsert_service_def Let_def query_def andthen_apply next_row_number_def insert_checked_def execute_def
              commit_def org_ids_def x_def)
        with run stored show ?thesis by (auto simp: contract_ok_def service_ids_def)
      qed
    qed
  qed
qed

text \<open>A row that is put in place of the row with its key, or at the end.\<close>

definition put_row :: "('r \<Rightarrow> 'k) \<Rightarrow> 'r \<Rightarrow> 'r list \<Rightarrow> 'r list" where
  "put_row key new t = (if sql_first (\<lambda>r. key r = key new) t = None then t @ [new]
     else sql_update (\<lambda>r. key r = key new) (\<lambda>_. new) t)"

lemma put_row_distinct: "distinct (map key t) \<Longrightarrow> distinct (map key (put_row key new t))"
proof -
  assume d: "distinct (map key t)"
  have "map key (sql_update (\<lambda>r. key r = key new) (\<lambda>_. new) t) = map key t" by (rule map_sql_update) simp
  with d distinct_snoc [of key t new] show ?thesis by (simp add: put_row_def)
qed

lemma put_row_set: "r \<in> set (put_row key new t) \<Longrightarrow> r = new \<or> r \<in> set t"
  by (auto simp: put_row_def set_sql_update split: if_splits)

lemma upsert_row_run:
  assumes "\<And>a b. same a b \<longleftrightarrow> key b = key a"
  shows "upsert_row table in_table same not_null new w =
    (if not_null then (Inr (), w\<lparr>session := in_table (if sql_first (\<lambda>r. key r = key new) (table (session w)) = None
        then (\<lambda>t. t @ [new]) else sql_update (\<lambda>r. key r = key new) (\<lambda>_. new)) (session w)\<rparr>) else (Inl IntegrityError, w))"
proof -
  have "same new = (\<lambda>r. key r = key new)" using assms by blast
  then show ?thesis by (simp add: upsert_row_def query_def execute_def andthen_apply split: option.split)
qed

lemma upsert_group_run: "upsert_service_group new w = (if sg_group_id new \<noteq> PNone \<and> sg_group_name new \<noteq> PNone
    then (Inr (), w\<lparr>session := session w\<lparr>service_group := put_row group_key new (service_group (session w))\<rparr>\<rparr>)
    else (Inl IntegrityError, w))"
  unfolding upsert_service_group_def
  by (subst upsert_row_run [where key = group_key]) (auto simp: group_key_def put_row_def)

lemma upsert_endpoint_run: "upsert_service_endpoint new w = (if se_group_id new \<noteq> PNone
    then (Inr (), w\<lparr>session := session w\<lparr>service_endpoint := put_row endpoint_key new (service_endpoint (session w))\<rparr>\<rparr>)
    else (Inl IntegrityError, w))"
  unfolding upsert_service_endpoint_def
  by (subst upsert_row_run [where key = endpoint_key]) (auto simp: endpoint_key_def put_row_def)

lemma upsert_media_run: "upsert_service_media new w =
    (Inr (), w\<lparr>session := session w\<lparr>service_media := put_row media_key new (service_media (session w))\<rparr>\<rparr>)"
  unfolding upsert_service_media_def
  by (subst upsert_row_run [where key = media_key]) (auto simp: media_key_def put_row_def)

lemma rows_ok:
  assumes "db_ok n db"
  shows "sg_service_row_id g \<in> service_ids db \<Longrightarrow> db_ok n (db\<lparr>service_group := put_row group_key g (service_group db)\<rparr>)"
    and "se_service_row_id e \<in> service_ids db \<Longrightarrow> db_ok n (db\<lparr>service_endpoint := put_row endpoint_key e (service_endpoint db)\<rparr>)"
    and "me_service_row_id m \<in> service_ids db \<Longrightarrow> db_ok n (db\<lparr>service_media := put_row media_key m (service_media db)\<rparr>)"
    and "tg_service_row_id t \<in> service_ids db \<Longrightarrow> db_ok n (db\<lparr>service_tags := service_tags db @ [t]\<rparr>)"
  using assms unfolding db_ok_def unique_keys_def references_ok_def
  by (auto simp: put_row_distinct service_ids_def org_ids_def dest!: put_row_set)

text \<open>Rows of a service that the session has.\<close>

lemma kept_rows:
  "sg_service_row_id g = i \<Longrightarrow> kept {i} (upsert_service_group g)"
  "se_service_row_id e = i \<Longrightarrow> kept {i} (upsert_service_endpoint e)"
  "me_service_row_id m = i \<Longrightarrow> kept {i} (upsert_service_media m)"
  by (simp_all add: stays_def keeping_def contract_ok_def upsert_group_run upsert_endpoint_run upsert_media_run rows_ok)
    (simp_all add: service_ids_def)

lemma kept_tag: "tg_service_row_id t = i \<Longrightarrow> kept {i} (create_service_tag t)"
  unfolding create_service_tag_def
  by (intro kept_rules kept_execute) (simp_all add: rows_ok(4), simp_all add: service_ids_def)

lemma kept_group: "kept {sv_row_id s} (create_service_group env s g)"
  unfolding create_service_group_def utc_now_def by (intro kept_rules kept_rows) simp_all

lemma kept_media_item: "kept {sv_row_id s} (create_media_item env s item)"
  unfolding create_media_item_def by (auto intro!: kept_rules kept_push_asset kept_rows(3))

lemma kept_media: "kept {sv_row_id s} (create_service_media env s media)"
  unfolding create_service_media_def by (intro kept_rules kept_media_item)

text \<open>The stubs are stored with the service of the metadata they belong to.\<close>

lemma kept_compile: "kept S (compile_proto_stubs env org_id service_id)"
  unfolding compile_proto_stubs_def Let_def by (auto intro!: kept_rules)

lemma kept_deployment: "kept {sm_service_row_id m} (process_service_deployment env m)"
  unfolding process_service_deployment_def upload_proto_file_from_hash_to_bucket_def update_proto_stubs_def
  by (intro kept_rules kept_storage kept_compile kept_rows(3)) simp

lemma metadata_rows_ok:
  assumes "db_ok n db" and "set (map sm_service_row_id t) \<subseteq> service_ids db"
    and "distinct (map (\<lambda>m. (sm_org_id m, sm_service_id m)) t)"
  shows "db_ok n (db\<lparr>service_metadata := t\<rparr>)"
  using assms unfolding db_ok_def unique_keys_def references_ok_def by (auto simp: service_ids_def org_ids_def)

lemma metadata_known:
  assumes ok: "contract_ok {i} w" and run: "upsert_service_metadata i org_id service_id values' w = (r, w')"
  shows "contract_ok {i} w' \<and> (\<forall>m. r = Inr m \<longrightarrow> sm_service_row_id m = i)"
proof -
  let ?here = "\<lambda>m. sm_org_id m = org_id \<and> sm_service_id m = service_id"
  let ?key = "\<lambda>m. (sm_org_id m, sm_service_id m)"
  define new where "new = \<lparr>sm_service_row_id = i, sm_org_id = org_id, sm_service_id = service_id, sm_fields = values',
    sm_service_rating = PDict [(''rating'', PFloat ''0.0''), (''total_users_rated'', PInt 0)], sm_ranking = 1,
    sm_demo_component_available = False\<rparr>"
  let ?f = "\<lambda>m. m\<lparr>sm_service_row_id := i, sm_fields := values'\<rparr>"
  let ?put = "\<lambda>t. if sql_first ?here t = None then t @ [new] else sql_update ?here ?f t"
  have put: "w' = w\<lparr>session := session w\<lparr>service_metadata := ?put (service_metadata (session w))\<rparr>\<rparr>
      \<and> (\<forall>m. r = Inr m \<longrightarrow> sql_first ?here (?put (service_metadata (session w))) = Some m)"
    using run by (auto simp: upsert_service_metadata_def Let_def query_def execute_def andthen_apply new_def split: option.splits)
  have rows: "set (map sm_service_row_id (?put t)) \<subseteq> insert i (set (map sm_service_row_id t))" for t
    by (auto simp: set_sql_update new_def)
  have keys: "distinct (map ?key t) \<Longrightarrow> distinct (map ?key (?put t))" for t
  proof -
    assume d: "distinct (map ?key t)"
    have "map ?key (sql_update ?here ?f t) = map ?key t" by (rule map_sql_update) simp
    with d distinct_snoc [of ?key t new] show ?thesis by (simp add: new_def)
  qed
  have "sm_service_row_id m = i" if "sql_first ?here (?put t) = Some m" for m t
    using that by (cases "sql_first ?here t") (auto simp: sql_first_append sql_first_update new_def dest: sql_first_SomeD)
  moreover have "db_ok n (db\<lparr>service_metadata := ?put (service_metadata db)\<rparr>)"
    if ok': "db_ok n db" and mem: "i \<in> service_ids db" for n db
  proof (rule metadata_rows_ok [OF ok'])
    have "insert i (set (map sm_service_row_id (service_metadata db))) \<subseteq> service_ids db"
      using ok' mem by (simp add: db_ok_def references_ok_def)
    with rows show "set (map sm_service_row_id (?put (service_metadata db))) \<subseteq> service_ids db" by (rule subset_trans)
    show "distinct (map ?key (?put (service_metadata db)))" using keys ok' by (simp add: db_ok_def unique_keys_def)
  qed
  ultimately show ?thesis using put ok by (auto simp: contract_ok_def service_ids_def)
qed

lemma kept_store_service_data: "kept {sv_row_id s} (store_service_data env s metadata assets_url existing)"
proof -
  have rest: "kept {sv_row_id s} (andthen (of_sum (sbind (get_default (PDict metadata) ''groups'' (PList [])) py_items)) (\<lambda>groups.
     andthen (for_each groups (create_service_group env s)) (\<lambda>_.
     andthen (of_sum (sbind (get_default (PDict metadata) ''tags'' (PList [])) py_items)) (\<lambda>tags.
     andthen (for_each tags (create_tag s)) (\<lambda>_.
     andthen (of_sum (get_default (PDict metadata) ''media'' (PList []))) (\<lambda>media.
     andthen (create_service_media env s media) (\<lambda>_.
     andthen (of_sum (needs_deployment existing metadata)) (\<lambda>deploy.
     if deploy then process_service_deployment env m else ret ()))))))))"
    if "sm_service_row_id m = sv_row_id s" for m
    using kept_deployment [of m env] that unfolding create_tag_def
    by (intro kept_rules kept_group kept_media kept_tag) simp_all
  show ?thesis
    unfolding store_service_data_def
  proof (rule keeps.stays_andthen [OF keeps.stays_of_sum],
      rule kept_enter [where I = "\<lambda>m w. contract_ok {sv_row_id s} w \<and> sm_service_row_id m = sv_row_id s"], goal_cases)
    case (1 fields w r w')
    then show ?case using metadata_known by blast
  next
    case (2 fields m)
    show ?case
    proof (cases "sm_service_row_id m = sv_row_id s")
      case True
      then show ?thesis using rest [OF True] by (simp add: keeping_def [abs_def])
    next
      case False
      then show ?thesis by (simp add: stays_def keeping_def)
    qed
  next
    case (3 fields m w)
    then show ?case by blast
  qed
qed

lemma contract_ok_weaken: "contract_ok S w \<Longrightarrow> contract_ok {} w"
  by (simp add: contract_ok_def)

lemma kept_process_service_data:
  fixes env :: "'w contract_env"
  shows "kept {} (process_service_data env org_id service_id h metadata)"
proof -
  define saved :: "pydict \<Rightarrow> service_metadata_row option \<Rightarrow> ('w, unit) cprog" where
    "saved u existing = andthen (upsert_service org_id service_id h True)
      (\<lambda>s. store_service_data env s metadata u existing)" for u existing
  have "kept {} (saved u existing)" for u existing
    unfolding saved_def using service_known kept_store_service_data contract_ok_weaken
    by (intro kept_enter [where I = "\<lambda>s. contract_ok {sv_row_id s}"]) blast+
  then show ?thesis
    unfolding process_service_data_def new_service_assets_url_def get_service_metadata_def saved_def [symmetric]
    by (intro kept_rules kept_session_scope kept_assets kept_delete_dependents)
qed

lemma kept_service_created: "kept {} (service_created_on_event env org_id service_id uri)"
  unfolding service_created_on_event_def forget_foreign_service_def get_organization_def get_services_def
  by (auto intro!: kept_rules kept_storage kept_session_scope kept_delete_service kept_delete_organization
      kept_organization_created kept_process_service_data)

lemma kept_deployment_event: "kept {} (deployment_on_event env org_id service_id)"
proof -
  have "kept {} (handle_deployment_event env org_id service_id)"
  proof (rule staysI)
    fix w r w'
    assume run: "handle_deployment_event env org_id service_id w = (r, w')"
    let ?here = "\<lambda>m. sm_org_id m = org_id \<and> Some (sm_service_id m) = service_id"
    show "keeping (contract_ok {}) w w'"
    proof (cases "sql_first ?here (service_metadata (session w))")
      case None
      with run show ?thesis
        by (simp add: handle_deployment_event_def get_service_metadata_def query_def andthen_apply keeping_def)
    next
      case (Some m)
      with run have "process_service_deployment env m w = (r, w')"
        by (simp add: handle_deployment_event_def get_service_metadata_def query_def andthen_apply)
      then have "keeping (contract_ok {sm_service_row_id m}) w w'" using kept_deployment by (metis staysD)
      moreover have "m \<in> set (service_metadata (session w))" using Some by (auto dest: sql_first_SomeD)
      then have "contract_ok {} w \<Longrightarrow> contract_ok {sm_service_row_id m} w"
        by (auto simp: contract_ok_def db_ok_def references_ok_def)
      ultimately show ?thesis using contract_ok_weaken by (fastforce simp: keeping_def)
    qed
  qed
  then show ?thesis unfolding deployment_on_event_def by (rule kept_session_scope)
qed

lemma kept_registry_event: "kept {} (registry_on_event env request)"
  unfolding registry_on_event_def service_deleted_on_event_def organization_deleted_on_event_def
  by (auto intro!: keeps.stays_ret kept_service_created kept_session_scope kept_delete_service kept_delete_organization
      kept_organization_created)

section \<open>All requests\<close>

datatype contract_request =
    Mpe_Events pydict
  | Registry_Events pydict
  | Deployment pydict
  | Update_Balance pydict
  | Read_Channels pydict
  | Read_Group_Channels pydict
  | Read_Organizations pydict
  | Read_Group pydict

definition ignoring :: "('w, 'a) cprog \<Rightarrow> ('w, unit) cprog" where
  "ignoring m = andthen m (\<lambda>_. ret ())"

fun contract_serve :: "'w contract_env \<Rightarrow> contract_request \<Rightarrow> ('w, unit) cprog" where
  "contract_serve env (Mpe_Events event) = ignoring (mpe_event_consumer env event)"
| "contract_serve env (Registry_Events event) = ignoring (registry_event_consumer env event)"
| "contract_serve env (Deployment event) = ignoring (manage_service_deployment env event)"
| "contract_serve env (Update_Balance event) = ignoring (update_consumed_balance_handler env event)"
| "contract_serve env (Read_Channels event) = ignoring (get_channels_handler env event)"
| "contract_serve env (Read_Group_Channels event) = ignoring (get_group_channels_handler env event)"
| "contract_serve env (Read_Organizations event) = ignoring (get_all_organizations_handler event)"
| "contract_serve env (Read_Group event) = ignoring (get_group_handler env event)"

lemma kept_ignoring: "kept S m \<Longrightarrow> kept S (ignoring m)"
  unfolding ignoring_def by (intro kept_rules)

lemma kept_serve: "kept {} (contract_serve env request)"
proof (cases request)
  case (Registry_Events event)
  then show ?thesis unfolding registry_event_consumer_def
    by (simp add: registry_event_consumer_def) (intro kept_ignoring kept_rules kept_registry_event)
next
  case (Deployment event)
  then show ?thesis
    by (simp add: manage_service_deployment_def exception_handler_def) (intro kept_ignoring kept_rules kept_deployment_event)
qed (auto simp: get_channels_handler_def get_group_channels_handler_def get_all_organizations_handler_def get_group_handler_def
    contract_handler_def exception_handler_def get_channels_def get_group_channels_def get_all_organizations_def get_group_def
    get_groups_def success_data_def get_organizations_with_curated_services_def repo_get_channels_def repo_get_group_channels_def
    intro!: kept_ignoring kept_rules kept_mpe_event_consumer kept_update_consumed_balance_handler)

text \<open>The lambda answers or dies; the tables are what it left.\<close>

definition contract_run :: "'w contract_env \<Rightarrow> contract_request list \<Rightarrow> 'w contract_world \<Rightarrow> 'w contract_world" where
  "contract_run env requests w = fold (\<lambda>request w. snd (contract_serve env request w)) requests w"

lemma run_keeps: "contract_ok {} w \<Longrightarrow> contract_ok {} (contract_run env requests w)"
  unfolding contract_run_def
proof (induction requests arbitrary: w)
  case (Cons request requests)
  then show ?case using Cons.IH [OF stays_keepingD [OF kept_serve Cons.prems]] by simp
qed simp

end
