(* ===== verification/Contract_Runs.thy ===== *)
theory Contract_Runs
  imports Contract_Laws
begin

text \<open>
  What the events leave in the tables of the contract API: the channel of the last event, the last endpoint of a group,
  and a service without endpoints when an update fails half way.
\<close>

section \<open>Channels follow the events\<close>

definition channel_row_of :: "int \<Rightarrow> 'w contract_world \<Rightarrow> channel_row option" where
  "channel_row_of i w = sql_first (\<lambda>c. mc_channel_id c = i) (mpe_channel (stored w))"

text \<open>What an event about a channel stores: a new row, or three columns of the one that is there.\<close>

definition stored_channel :: "new_channel \<Rightarrow> channel_row option \<Rightarrow> channel_row" where
  "stored_channel c found =
     (case found of
        None \<Rightarrow> \<lparr>mc_channel_id = nc_channel_id c, mc_sender = the (nc_sender c), mc_signer = the (nc_signer c),
          mc_recipient = the (nc_recipient c), mc_group_id = nc_group_id c, mc_balance_in_cogs = nc_balance_in_cogs c,
          mc_nonce = nc_nonce c, mc_expiration = nc_expiration c, mc_pending = Some 0, mc_consumed_balance = 0\<rparr>
      | Some r \<Rightarrow> r\<lparr>mc_balance_in_cogs := nc_balance_in_cogs c, mc_pending := Some 0, mc_nonce := nc_nonce c,
          mc_expiration := nc_expiration c\<rparr>)"

lemma upsert_channel_run:
  assumes "nc_sender c \<noteq> None" and "nc_signer c \<noteq> None" and "nc_recipient c \<noteq> None" and "session w = stored w"
  shows "\<exists>w'. upsert_channel c w = (Inr (), w') \<and> session w' = stored w' \<and> outside w' = outside w \<and>
    channel_row_of (nc_channel_id c) w' = Some (stored_channel c (channel_row_of (nc_channel_id c) w))"
proof (cases "sql_first (\<lambda>r. mc_channel_id r = nc_channel_id c) (mpe_channel (stored w))")
  case None
  with assms show ?thesis
    by (auto simp: upsert_channel_def write_ops_def try_except_def andthen_apply repo_get_channel_def query_def insert_channel_def
        execute_def commit_def channel_row_of_def stored_channel_def sql_first_append)
next
  case (Some r)
  then have "mc_channel_id r = nc_channel_id c" by (auto dest: sql_first_SomeD)
  with Some assms(4) show ?thesis
    by (simp add: upsert_channel_def write_ops_def try_except_def andthen_apply repo_get_channel_def query_def
        update_channels_def execute_def commit_def channel_row_of_def stored_channel_def sql_first_update)
qed

lemma open_event_run:
  assumes "mv_event_name e = ''ChannelOpen''" and "mv_group_id e = Some g" and "mv_sender e \<noteq> None" and "mv_signer e \<noteq> None"
    and "mv_recipient e \<noteq> None" and "session w = stored w"
  shows "\<exists>w' c. mpe_on_event env e w = (Inr (), w') \<and> session w' = stored w' \<and> outside w' = outside w \<and>
    channel_row_of (mv_channel_id e) w' = Some (stored_channel c (channel_row_of (mv_channel_id e) w)) \<and>
    nc_balance_in_cogs c = mv_amount e \<and> nc_nonce c = mv_nonce e \<and> nc_expiration c = mv_expiration e"
proof -
  obtain c where c: "convert_channel_to_domain e = Inr c" and f: "nc_channel_id c = mv_channel_id e" "nc_sender c = mv_sender e"
    "nc_signer c = mv_signer e" "nc_recipient c = mv_recipient e" "nc_balance_in_cogs c = mv_amount e" "nc_nonce c = mv_nonce e"
    "nc_expiration c = mv_expiration e"
    using assms(2) by (simp add: convert_channel_to_domain_def)
  from upsert_channel_run [of c w] assms f obtain w' where "upsert_channel c w = (Inr (), w')" and "session w' = stored w'"
    and "outside w' = outside w" and "channel_row_of (mv_channel_id e) w' = Some (stored_channel c (channel_row_of (mv_channel_id e) w))"
    by auto
  with assms(1) c f show ?thesis by (auto simp: mpe_on_event_def try_except_def andthen_apply)
qed

lemma other_event_run:
  assumes "mv_event_name e \<in> {''ChannelClaim'', ''ChannelExtend'', ''ChannelAddFunds''}"
    and "channels env (mv_channel_id e) (outside w) = (Inr c, o')" and "session w = stored w"
  shows "\<exists>w' r. mpe_on_event env e w = (Inr (), w') \<and> session w' = stored w' \<and> outside w' = o' \<and>
    channel_row_of (mv_channel_id e) w' = Some r \<and>
    mc_balance_in_cogs r = Some (cc_amount c) \<and> mc_nonce r = Some (cc_nonce c) \<and> mc_expiration r = Some (cc_expiration c)"
proof -
  define w1 where "w1 = w\<lparr>outside := o'\<rparr>"
  obtain d where d: "get_channel_data_from_blockchain env (mv_channel_id e) w = (Inr d, w1)" and f: "nc_channel_id d = mv_channel_id e"
    "nc_sender d \<noteq> None" "nc_signer d \<noteq> None" "nc_recipient d \<noteq> None" "nc_balance_in_cogs d = Some (cc_amount c)"
    "nc_nonce d = Some (cc_nonce c)" "nc_expiration d = Some (cc_expiration c)"
    using assms(2) by (simp add: get_channel_data_from_blockchain_def elsewhere_def andthen_apply w1_def)
  have w1: "session w1 = stored w1" "outside w1 = o'" using assms(3) by (simp_all add: w1_def)
  from upsert_channel_run [OF f(2-4) w1(1)] f(1) w1(2) obtain w' where run: "upsert_channel d w1 = (Inr (), w')"
    and w': "session w' = stored w'" "outside w' = o'"
      "channel_row_of (mv_channel_id e) w' = Some (stored_channel d (channel_row_of (mv_channel_id e) w1))"
    by auto
  from assms(1) d run have "mpe_on_event env e w = (Inr (), w')"
    by (auto simp: mpe_on_event_def try_except_def andthen_apply)
  moreover have "mc_balance_in_cogs (stored_channel d found) = Some (cc_amount c) \<and> mc_nonce (stored_channel d found) = Some (cc_nonce c)
      \<and> mc_expiration (stored_channel d found) = Some (cc_expiration c)" for found
    using f by (simp add: stored_channel_def split: option.split)
  ultimately show ?thesis using w' by blast
qed

text \<open>
  C38. After an event that adds funds the row of a channel is what the blockchain says, also when the channel was opened
  before. But the queue may deliver the opening a second time, as it does with a whole batch when a later event of it
  fails: then the row goes back to the amount, the nonce and the expiration of the opening.
\<close>

theorem redelivered_open_resets_channel:
  assumes "mv_event_name opened = ''ChannelOpen''" and "mv_group_id opened = Some g" and "mv_sender opened \<noteq> None"
    and "mv_signer opened \<noteq> None" and "mv_recipient opened \<noteq> None" and "session w = stored w"
    and "mv_event_name funded = ''ChannelAddFunds''" and "mv_channel_id funded = mv_channel_id opened"
    and "channels env (mv_channel_id opened) (outside w) = (Inr c, o')"
  shows "\<exists>w1 r1 w2 r2. for_each [opened, funded] (mpe_on_event env) w = (Inr (), w1) \<and>
    channel_row_of (mv_channel_id opened) w1 = Some r1 \<and> mc_balance_in_cogs r1 = Some (cc_amount c) \<and>
    mc_nonce r1 = Some (cc_nonce c) \<and> mc_expiration r1 = Some (cc_expiration c) \<and>
    mpe_on_event env opened w1 = (Inr (), w2) \<and> channel_row_of (mv_channel_id opened) w2 = Some r2 \<and>
    mc_balance_in_cogs r2 = mv_amount opened \<and> mc_nonce r2 = mv_nonce opened \<and> mc_expiration r2 = mv_expiration opened"
proof -
  from open_event_run [where env = env, OF assms(1-6)] obtain v where v: "mpe_on_event env opened w = (Inr (), v)" "session v = stored v"
    "outside v = outside w" by blast
  from other_event_run [of funded env v] assms(7-9) v obtain w1 r1 where w1: "mpe_on_event env funded v = (Inr (), w1)"
    "session w1 = stored w1" "channel_row_of (mv_channel_id opened) w1 = Some r1" "mc_balance_in_cogs r1 = Some (cc_amount c)"
    "mc_nonce r1 = Some (cc_nonce c)" "mc_expiration r1 = Some (cc_expiration c)" by auto
  from open_event_run [where env = env, OF assms(1-5) w1(2)] obtain w2 d where w2: "mpe_on_event env opened w1 = (Inr (), w2)"
    "channel_row_of (mv_channel_id opened) w2 = Some (stored_channel d (Some r1))" "nc_balance_in_cogs d = mv_amount opened"
    "nc_nonce d = mv_nonce opened" "nc_expiration d = mv_expiration opened" using w1(3) by auto
  have "for_each [opened, funded] (mpe_on_event env) w = (Inr (), w1)" using v w1 by simp
  with w1 w2 show ?thesis by (auto simp: stored_channel_def)
qed

section \<open>Only the last endpoint of a group is kept\<close>

definition endpoints_of :: "string \<times> string \<times> pyval \<Rightarrow> contract_db \<Rightarrow> pyval list" where
  "endpoints_of k db = map se_endpoint (filter (\<lambda>e. endpoint_key e = k) (service_endpoint db))"

lemma filter_put_row:
  "filter (\<lambda>r. key r = k) (put_row key new t) =
     (if key new \<noteq> k then filter (\<lambda>r. key r = k) t
      else if filter (\<lambda>r. key r = k) t = [] then [new] else map (\<lambda>_. new) (filter (\<lambda>r. key r = k) t))"
proof -
  have updated: "filter (\<lambda>r. key r = k) (sql_update (\<lambda>r. key r = key new) (\<lambda>_. new) t) =
      (if key new = k then map (\<lambda>_. new) (filter (\<lambda>r. key r = k) t) else filter (\<lambda>r. key r = k) t)"
    by (induction t) auto
  have "sql_first (\<lambda>r. key r = key new) t = None \<longleftrightarrow> filter (\<lambda>r. key r = key new) t = []"
    by (auto simp: sql_first_None filter_empty_conv)
  with updated show ?thesis by (auto simp: put_row_def)
qed

lemma endpoint_stored:
  assumes "upsert_service_endpoint e w = (Inr (), w')" and "length (endpoints_of k (session w)) \<le> 1"
  shows "endpoints_of k (session w') = (if endpoint_key e = k then [se_endpoint e] else endpoints_of k (session w))"
  using assms by (auto simp: upsert_endpoint_run endpoints_of_def filter_put_row le_Suc_eq length_Suc_conv split: if_splits)

lemma endpoints_stored:
  assumes "for_each urls (\<lambda>url. andthen (utc_now env) (\<lambda>t.
       upsert_service_endpoint (e t url))) w = (Inr (), w')"
    and "\<And>t url. endpoint_key (e t url) = j \<and> se_endpoint (e t url) = url" and "length (endpoints_of k (session w)) \<le> 1"
  shows "endpoints_of k (session w') = (if j = k \<and> urls \<noteq> [] then [last urls] else endpoints_of k (session w))"
  using assms
proof (induction urls arbitrary: w)
  case (Cons url urls)
  from Cons.prems(1) obtain v' where first: "andthen (utc_now env) (\<lambda>t. upsert_service_endpoint (e t url)) w = (Inr (), v')"
    and rest: "for_each urls (\<lambda>url. andthen (utc_now env) (\<lambda>t. upsert_service_endpoint (e t url))) v' = (Inr (), w')"
    by (auto elim: andthen_InrE)
  from first obtain t v where now: "utc_now env w = (Inr t, v)" and e: "upsert_service_endpoint (e t url) v = (Inr (), v')"
    by (rule andthen_InrE)
  from now have v: "session v = session w" by (auto simp: utc_now_def elsewhere_def split: prod.splits)
  from endpoint_stored [OF e] Cons.prems(2,3) v
  have one: "endpoints_of k (session v') = (if j = k then [url] else endpoints_of k (session w))" by simp
  with Cons.prems(3) have "length (endpoints_of k (session v')) \<le> 1" by simp
  from Cons.IH [OF rest Cons.prems(2) this] one show ?case by auto
qed simp

text \<open>What a step must leave alone: the endpoints of the session.\<close>

abbreviation same_endpoints :: "('w, 'a) cprog \<Rightarrow> bool" where
  "same_endpoints \<equiv> stays (unchanged (\<lambda>w. service_endpoint (session w)))"

lemma same_outside: "same_endpoints (elsewhere m)"
  by (auto simp: stays_def unchanged_def elsewhere_def split: prod.split)

lemma same_query: "same_endpoints (query f)"
  by (simp add: stays_def unchanged_def query_def)

lemma same_execute: "(\<And>db. service_endpoint (f db) = service_endpoint db) \<Longrightarrow> same_endpoints (execute f)"
  by (simp add: stays_def unchanged_def execute_def)

lemma same_rows: "same_endpoints (upsert_service_group g)" "same_endpoints (upsert_service_media m)"
  by (auto simp: stays_def unchanged_def upsert_group_run upsert_media_run)

lemma same_case_prod: "(\<And>a b. same_endpoints (f a b)) \<Longrightarrow> same_endpoints (case p of (a, b) \<Rightarrow> f a b)"
  by (cases p) simp

lemma same_case_option: "same_endpoints m \<Longrightarrow> (\<And>a. same_endpoints (f a)) \<Longrightarrow> same_endpoints (case v of None \<Rightarrow> m | Some a \<Rightarrow> f a)"
  by (cases v) simp_all

lemmas same_rules = same.stays_rules same_outside same_query same_rows same_case_prod same_case_option

lemma same_storage: "same_endpoints (storage_get_bytes env uri)"
  unfolding storage_get_bytes_def by (auto intro!: same_rules split: pyval.split)

lemma same_after_groups:
  "same_endpoints (create_tag s t)" "same_endpoints (create_service_media env s media)"
  "same_endpoints (process_service_deployment env m)"
  "same_endpoints (upsert_service_metadata i org_id service_id values')"
proof -
  show "same_endpoints (create_tag s t)"
    unfolding create_tag_def create_service_tag_def by (auto intro!: same_rules same_execute)
  have push: "same_endpoints (push_asset_to_s3_using_hash env h org_id service_id t)" for h org_id service_id t
    unfolding push_asset_to_s3_using_hash_def push_io_bytes_to_s3_def Let_def by (auto intro!: same_rules same_storage)
  show "same_endpoints (create_service_media env s media)"
    unfolding create_service_media_def create_media_item_def by (auto intro!: same_rules push)
  show "same_endpoints (process_service_deployment env m)"
    unfolding process_service_deployment_def upload_proto_file_from_hash_to_bucket_def update_proto_stubs_def
      compile_proto_stubs_def Let_def
    by (auto intro!: same_rules same_storage)
  show "same_endpoints (upsert_service_metadata i org_id service_id values')"
    unfolding upsert_service_metadata_def Let_def by (auto intro!: same_rules same_execute)
qed

text \<open>The groups of the metadata one after the other.\<close>

lemma group_endpoints:
  assumes run: "create_service_group env s g w = (Inr (), w')" and one: "length (endpoints_of k (session w)) \<le> 1"
  shows "\<exists>i urls. getitem g ''group_id'' = Inr i \<and> sbind (get_default g ''endpoints'' (PList [])) py_items = Inr urls \<and>
    endpoints_of k (session w') =
      (if (sv_org_id s, sv_service_id s, i) = k \<and> urls \<noteq> [] then [last urls] else endpoints_of k (session w))"
proof -
  define e where "e i t url = \<lparr>se_service_row_id = sv_row_id s, se_org_id = sv_org_id s, se_service_id = sv_service_id s,
    se_group_id = i, se_endpoint = url, se_is_available = True, se_last_check_timestamp = column_time env t\<rparr>" for i t url
  from run obtain i new z v urls where i: "getitem g ''group_id'' = Inr i" and v: "upsert_service_group new w = (Inr z, v)"
    and urls: "sbind (get_default g ''endpoints'' (PList [])) py_items = Inr urls"
    and rest: "for_each urls (\<lambda>url. andthen (utc_now env) (\<lambda>t. upsert_service_endpoint (e i t url))) v = (Inr (), w')"
    unfolding create_service_group_def e_def by (elim andthen_of_sumE andthen_InrE)
  from v have "endpoints_of k (session v) = endpoints_of k (session w)"
    using staysD [OF same_rows(1)] by (fastforce simp: unchanged_def endpoints_of_def)
  with endpoints_stored [OF rest, of "(sv_org_id s, sv_service_id s, i)" k] one i urls show ?thesis
    by (auto simp: e_def endpoint_key_def)
qed

lemma groups_endpoints:
  assumes "for_each gs (create_service_group env s) w = (Inr (), w')" and "length (endpoints_of k (session w)) \<le> 1"
    and "\<And>h j. h \<in> set gs \<Longrightarrow> getitem h ''group_id'' = Inr j \<Longrightarrow> (sv_org_id s, sv_service_id s, j) = k \<Longrightarrow>
      sbind (get_default h ''endpoints'' (PList [])) py_items = Inr us" and "us \<noteq> []"
    and "(\<exists>h \<in> set gs. \<exists>j. getitem h ''group_id'' = Inr j \<and> (sv_org_id s, sv_service_id s, j) = k) \<or>
      endpoints_of k (session w) = [last us]"
  shows "endpoints_of k (session w') = [last us]"
  using assms
proof (induction gs arbitrary: w)
  case (Cons g gs)
  from Cons.prems(1) obtain v where g: "create_service_group env s g w = (Inr (), v)"
    and rest: "for_each gs (create_service_group env s) v = (Inr (), w')" by (auto elim: andthen_InrE)
  from group_endpoints [OF g Cons.prems(2)] obtain i urls where i: "getitem g ''group_id'' = Inr i"
    and urls: "sbind (get_default g ''endpoints'' (PList [])) py_items = Inr urls" and v: "endpoints_of k (session v) =
      (if (sv_org_id s, sv_service_id s, i) = k \<and> urls \<noteq> [] then [last urls] else endpoints_of k (session w))" by blast
  show ?case
  proof (rule Cons.IH [OF rest])
    show "length (endpoints_of k (session v)) \<le> 1" using v Cons.prems(2) by simp
    show "sbind (get_default h ''endpoints'' (PList [])) py_items = Inr us"
      if "h \<in> set gs" "getitem h ''group_id'' = Inr j" "(sv_org_id s, sv_service_id s, j) = k" for h j
      using that Cons.prems(3) by auto
    show "us \<noteq> []" by (rule Cons.prems(4))
    show "(\<exists>h \<in> set gs. \<exists>j. getitem h ''group_id'' = Inr j \<and> (sv_org_id s, sv_service_id s, j) = k) \<or>
        endpoints_of k (session v) = [last us]"
      using v i urls Cons.prems(3) [of g i] Cons.prems(4,5) by (auto split: if_splits)
  qed
qed auto

text \<open>The rest of an update leaves what the groups stored.\<close>

lemma store_endpoints:
  assumes run: "store_service_data env s metadata u existing w = (Inr (), w')"
  shows "\<exists>gs v v'. sbind (get_default (PDict metadata) ''groups'' (PList [])) py_items = Inr gs \<and>
    service_endpoint (session v) = service_endpoint (session w) \<and> for_each gs (create_service_group env s) v = (Inr (), v') \<and>
    service_endpoint (session w') = service_endpoint (session v')"
proof -
  from run obtain fields m v gs z v' tags z2 v2 media z3 v3 deploy where
    m: "upsert_service_metadata (sv_row_id s) (sv_org_id s) (sv_service_id s) fields w = (Inr m, v)"
    and gs: "sbind (get_default (PDict metadata) ''groups'' (PList [])) py_items = Inr gs"
    and v': "for_each gs (create_service_group env s) v = (Inr z, v')"
    and v2: "for_each tags (create_tag s) v' = (Inr z2, v2)" and v3: "create_service_media env s media v2 = (Inr z3, v3)"
    and w': "(if deploy then process_service_deployment env m else ret ()) v3 = (Inr (), w')"
    unfolding store_service_data_def by (elim andthen_of_sumE andthen_InrE)
  have "same_endpoints (for_each tags (create_tag s))" by (intro same_rules same_after_groups)
  moreover have "same_endpoints (if deploy then process_service_deployment env m else ret ())"
    by (intro same_rules same_after_groups)
  ultimately have "service_endpoint (session w') = service_endpoint (session v')"
    using staysD [OF same_after_groups(2) v3] v2 w' by (fastforce simp: unchanged_def dest: staysD)
  with staysD [OF same_after_groups(4) m] gs v' show ?thesis by (auto simp: unchanged_def)
qed

lemma write_scope_InrD:
  assumes "session_scope m w = (Inr a, w')"
  shows "\<exists>v. m (w\<lparr>session := stored w\<rparr>) = (Inr a, v) \<and> stored w' = session v"
  using assms
  by (auto simp: session_scope_def write_ops_def try_except_def andthen_apply rollback_def commit_def raise_def
      split: prod.splits sum.splits)

lemma deleted_dependents:
  "delete_service_dependents org_id service_id w = (Inr (), w\<lparr>session := db, stored := db\<rparr>)"
  if "db = session w
    \<lparr>service_group := filter (\<lambda>r. \<not> (sg_org_id r = org_id \<and> Some (sg_service_id r) = service_id)) (service_group (session w)),
     service_tags := filter (\<lambda>r. \<not> (tg_org_id r = org_id \<and> Some (tg_service_id r) = service_id)) (service_tags (session w)),
     service_endpoint := filter (\<lambda>r. \<not> (se_org_id r = org_id \<and> Some (se_service_id r) = service_id)) (service_endpoint (session w))\<rparr>"
  using that by (simp add: delete_service_dependents_def execute_def commit_def andthen_apply)

lemma upserted_service:
  assumes "upsert_service org_id (Some service_id) h c w = (Inr s, w')"
  shows "sv_org_id s = org_id \<and> sv_service_id s = service_id \<and> service_endpoint (session w') = service_endpoint (session w)"
proof -
  have "same_endpoints (upsert_service org_id (Some service_id) h c)"
    unfolding upsert_service_def next_row_number_def insert_checked_def commit_def Let_def
    by (auto intro!: same_rules same_execute same.stays_modify simp: unchanged_def)
  then have "service_endpoint (session w') = service_endpoint (session w)" using assms by (auto dest!: staysD simp: unchanged_def)
  moreover obtain t where "sql_first (\<lambda>s. sv_org_id s = org_id \<and> sv_service_id s = service_id) t = Some s"
    using assms unfolding upsert_service_def Let_def
    by (elim andthen_InrE) (auto simp: query_def split: option.splits)
  then have "sv_org_id s = org_id \<and> sv_service_id s = service_id" by (auto dest: sql_first_SomeD)
  ultimately show ?thesis by blast
qed

text \<open>
  C39. A group of a service may name several endpoints, but the endpoints are stored by group: after a successful update
  the table has one endpoint of the group, the last.
\<close>

theorem last_endpoint_is_kept:
  assumes run: "process_service_data env org_id (Some service_id) h metadata w = (Inr (), w')"
    and groups: "get_default (PDict metadata) ''groups'' (PList []) = Inr (PList gs)" and g: "g \<in> set gs"
    and i: "getitem g ''group_id'' = Inr i" and only: "\<forall>x \<in> set gs. getitem x ''group_id'' = Inr i \<longrightarrow> x = g"
    and urls: "get_default g ''endpoints'' (PList []) = Inr (PList (urls @ [url]))"
  shows "endpoints_of (org_id, service_id, i) (stored w') = [url]"
proof -
  from write_scope_InrD [OF run [unfolded process_service_data_def]] obtain existing u v1 z v2 s v3 v4 where
    deleted: "delete_service_dependents org_id (Some service_id) v1 = (Inr z, v2)"
    and s: "upsert_service org_id (Some service_id) h True v2 = (Inr s, v3)"
    and saved: "store_service_data env s metadata u existing v3 = (Inr (), v4)" and w': "stored w' = session v4"
    by (auto elim!: andthen_InrE)
  let ?k = "(org_id, service_id, i)"
  have none: "endpoints_of ?k (session v3) = []"
    using deleted upserted_service [OF s] by (auto simp: deleted_dependents [OF HOL.refl] endpoints_of_def endpoint_key_def filter_empty_conv)
  from store_endpoints [OF saved] obtain gs' v v' where gs': "sbind (get_default (PDict metadata) ''groups'' (PList [])) py_items = Inr gs'"
    and v3: "service_endpoint (session v) = service_endpoint (session v3)"
    and all: "for_each gs' (create_service_group env s) v = (Inr (), v')"
    and w4: "service_endpoint (session v4) = service_endpoint (session v')" by blast
  have each: "for_each gs (create_service_group env s) v = (Inr (), v')" using gs' groups all by (simp add: py_items_def)
  have v: "endpoints_of ?k (session v) = []" using none v3 by (simp add: endpoints_of_def)
  have "endpoints_of ?k (session v') = [last (urls @ [url])]"
  proof (rule groups_endpoints [OF each])
    show "length (endpoints_of ?k (session v)) \<le> 1" using v by simp
    show "sbind (get_default x ''endpoints'' (PList [])) py_items = Inr (urls @ [url])"
      if "x \<in> set gs" "getitem x ''group_id'' = Inr j" "(sv_org_id s, sv_service_id s, j) = ?k" for x j
      using that only urls by (auto simp: py_items_def)
    show "urls @ [url] \<noteq> []" by simp
    show "(\<exists>x \<in> set gs. \<exists>j. getitem x ''group_id'' = Inr j \<and> (sv_org_id s, sv_service_id s, j) = ?k) \<or>
        endpoints_of ?k (session v) = [last (urls @ [url])]"
      using g i upserted_service [OF s] by blast
  qed
  with w' w4 show ?thesis by (simp add: endpoints_of_def)
qed

section \<open>A failed update\<close>

lemma write_scope_Inl:
  assumes "m (w\<lparr>session := stored w\<rparr>) = (Inl e, v)"
  shows "session_scope m w = (Inl e, v\<lparr>session := stored v\<rparr>)"
  using assms by (simp add: session_scope_def write_ops_def try_except_def andthen_apply rollback_def raise_def)

lemma updated_service:
  assumes "sql_first (\<lambda>s. sv_org_id s = org_id \<and> sv_service_id s = service_id) (service (session w)) = Some s"
  shows "upsert_service org_id (Some service_id) h c w =
    (let db = session w\<lparr>service := sql_update (\<lambda>s. sv_org_id s = org_id \<and> sv_service_id s = service_id)
        (\<lambda>s. s\<lparr>sv_hash_uri := h, sv_is_curated := c\<rparr>) (service (session w))\<rparr>
     in (Inr (s\<lparr>sv_hash_uri := h, sv_is_curated := c\<rparr>), w\<lparr>session := db, stored := db\<rparr>))"
proof -
  have "sv_org_id s = org_id \<and> sv_service_id s = service_id" using assms by (auto dest: sql_first_SomeD)
  then show ?thesis
    using assms by (simp add: upsert_service_def Let_def query_def execute_def commit_def andthen_apply sql_first_update)
qed


section \<open>Concrete runs\<close>

definition demo_contract_env :: "unit contract_env" where
  "demo_contract_env =
     \<lparr>loads = (\<lambda>_. Inl (PyExc ''ValueError'' [])), literal_eval = (\<lambda>_. Inl (PyExc ''ValueError'' [])), formatted_errors = (\<lambda>_. PList []),
      int_of = (\<lambda>v. case v of PInt i \<Rightarrow> Some i | _ \<Rightarrow> None), bytes_of = (\<lambda>_. None), to_text = as_text,
      text_of = (\<lambda>bytes. Inr (map char_of bytes)), urlparse = (\<lambda>_. Inl TypeError), url_path = id, utcnow = (\<lambda>o'. (0, o')),
      column_time = id, channels = (\<lambda>i. ret \<lparr>cc_nonce = 1, cc_sender = ''a'', cc_signer = ''s'', cc_recipient = ''r'', cc_group_id = [],
        cc_amount = 30, cc_expiration = 9\<rparr>),
      getOrganizationById = (\<lambda>_. raise TypeError), contract_address = Inr ''m'', state_signature = (\<lambda>_. raise TypeError),
      channel_state = (\<lambda>_ _ _. raise TypeError), storage = (\<lambda>_ _. raise TypeError), s3_delete = (\<lambda>_ _. ret ()),
      s3_upload = (\<lambda>_ _ _. ret ()), s3_objects = (\<lambda>_ _. ret []), compile_protos = (\<lambda>_. raise TypeError),
      REGION_NAME = [], ASSETS_BUCKET_NAME = [], ASSETS_PREFIX = [], ASSETS_COMPONENT_BUCKET_NAME = [], TOKEN_NAME = ''FET''\<rparr>"

definition demo_service :: service_row where
  "demo_service = \<lparr>sv_row_id = 1, sv_org_id = ''o'', sv_service_id = ''s'', sv_service_path = PNone, sv_hash_uri = ''u'',
     sv_is_curated = True, sv_service_email = PNone\<rparr>"

definition demo_contract_db :: contract_db where
  "demo_contract_db =
     \<lparr>mpe_channel = [],
      organization = [\<lparr>og_org_id = ''o'', og_organization_name = PStr ''O'', og_owner_address = PStr [], og_org_metadata_uri = [],
        og_org_email = PNone, og_org_assets_url = PDict [], og_is_curated = True, og_description = PStr [], og_assets_hash = PDict [],
        og_contacts = PDict []\<rparr>],
      org_group = [], service = [demo_service],
      service_group = [\<lparr>sg_service_row_id = 1, sg_org_id = ''o'', sg_service_id = ''s'', sg_group_id = PStr ''g'', sg_group_name = PStr ''n'',
        sg_free_call_signer_address = PStr [], sg_free_calls = PInt 0, sg_pricing = PDict []\<rparr>],
      service_endpoint = [\<lparr>se_service_row_id = 1, se_org_id = ''o'', se_service_id = ''s'', se_group_id = PStr ''g'',
        se_endpoint = PStr ''x'', se_is_available = True, se_last_check_timestamp = 0\<rparr>],
      service_metadata = [\<lparr>sm_service_row_id = 1, sm_org_id = ''o'', sm_service_id = ''s'', sm_fields = [(''model_hash'', PStr ''h'')],
        sm_service_rating = PDict [], sm_ranking = 1, sm_demo_component_available = False\<rparr>],
      service_tags = [], service_media = []\<rparr>"

definition demo_contract_world :: "unit contract_world" where
  "demo_contract_world = \<lparr>session = demo_contract_db, stored = demo_contract_db, row_counter = 2, outside = ()\<rparr>"

definition demo_opened :: mpe_event where
  "demo_opened = \<lparr>mv_event_name = ''ChannelOpen'', mv_channel_id = 5, mv_group_id = Some [], mv_sender = Some ''a'', mv_signer = Some ''s'',
     mv_recipient = Some ''r'', mv_nonce = Some 0, mv_expiration = Some 7, mv_amount = Some 10\<rparr>"

theorem redelivered_open_resets_channel_witness:
  "\<exists>w1 r1 w2 r2. for_each [demo_opened, demo_opened\<lparr>mv_event_name := ''ChannelAddFunds''\<rparr>] (mpe_on_event demo_contract_env) demo_contract_world
      = (Inr (), w1) \<and> channel_row_of 5 w1 = Some r1 \<and> mc_balance_in_cogs r1 = Some 30 \<and>
    mpe_on_event demo_contract_env demo_opened w1 = (Inr (), w2) \<and> channel_row_of 5 w2 = Some r2 \<and> mc_balance_in_cogs r2 = Some 10"
  using redelivered_open_resets_channel [of demo_opened "[]" demo_contract_world "demo_opened\<lparr>mv_event_name := ''ChannelAddFunds''\<rparr>"
    demo_contract_env "\<lparr>cc_nonce = 1, cc_sender = ''a'', cc_signer = ''s'', cc_recipient = ''r'', cc_group_id = [], cc_amount = 30,
      cc_expiration = 9\<rparr>" "()"]
  by (fastforce simp: demo_opened_def demo_contract_world_def demo_contract_env_def)

definition demo_metadata :: pydict where
  "demo_metadata = [(''service_description'', PDict []), (''service_api_source'', PStr ''h''), (''groups'', PList [PDict [(''group_id'', PStr ''g''),
     (''group_name'', PStr ''n''), (''endpoints'', PList [PStr ''a'', PStr ''b''])]])]"

lemma demo_update: "\<exists>w'. process_service_data demo_contract_env ''o'' (Some ''s'') ''u2'' demo_metadata demo_contract_world = (Inr (), w')"
  by (simp add: process_service_data_def session_scope_def write_ops_def try_except_def prog_simps rollback_def commit_def
      get_service_metadata_def query_def new_service_assets_url_def get_default_def getitem_def compare_assets_and_push_to_s3_def
      or_empty_def delete_service_dependents_def execute_def upsert_service_def store_service_data_def new_service_metadata_def
      service_metadata_from_metadata_dict_def metadata_columns_def named_arguments_def upsert_service_metadata_def py_items_def
      create_service_group_def upsert_group_run upsert_endpoint_run utc_now_def elsewhere_def create_service_media_def
      needs_deployment_def model_hash_of_def demo_contract_world_def demo_contract_db_def demo_service_def demo_metadata_def
      demo_contract_env_def Let_def)

theorem last_endpoint_is_kept_witness:
  "\<exists>w'. process_service_data demo_contract_env ''o'' (Some ''s'') ''u2'' demo_metadata demo_contract_world = (Inr (), w') \<and>
    endpoints_of (''o'', ''s'', PStr ''g'') (stored w') = [PStr ''b'']"
proof -
  let ?g = "PDict [(''group_id'', PStr ''g''), (''group_name'', PStr ''n''), (''endpoints'', PList [PStr ''a'', PStr ''b''])]"
  obtain w' where run: "process_service_data demo_contract_env ''o'' (Some ''s'') ''u2'' demo_metadata demo_contract_world = (Inr (), w')"
    using demo_update by blast
  have "endpoints_of (''o'', ''s'', PStr ''g'') (stored w') = [PStr ''b'']"
    by (rule last_endpoint_is_kept [OF run, where gs = "[?g]" and g = ?g and urls = "[PStr ''a'']"])
      (simp_all add: demo_metadata_def get_default_def getitem_def)
  with run show ?thesis by blast
qed


text \<open>
  C9. Whatever events and requests arrive, and whether they succeed, fail or fail half way: channels, organizations,
  services, groups, endpoints, metadata and media keep one row for each key, every row of a service refers to a service
  that is there, and every service and group to an organization.
\<close>

theorem contract_tables_stay_consistent:
  "contract_ok {} w \<Longrightarrow> contract_ok {} (contract_run env requests w)"
  by (rule run_keeps)

theorem contract_tables_stay_consistent_witness:
  "contract_ok {} (contract_run demo_contract_env [Registry_Events [(''Records'', PList [])], Mpe_Events []] demo_contract_world)"
proof (rule contract_tables_stay_consistent)
  have "db_ok 2 demo_contract_db"
    by (simp add: db_ok_def unique_keys_def references_ok_def service_ids_def org_ids_def demo_contract_db_def demo_service_def)
  then show "contract_ok {} demo_contract_world" by (simp add: contract_ok_def demo_contract_world_def)
qed

end
