(* ===== verification/Spec2Isabelle.thy ===== *)
theory Spec2Isabelle
  imports Payment_Handlers Deployer_History Deployer_Metrics Registry_Events Orchestrator_History Orchestrator_Publisher Dapp_User_Reviews Wallets_Runs Signer_Laws Service_Status_Laws Contract_Runs
begin

text \<open>
  The backend of the SingularityNET marketplace: Python services that run as AWS lambdas, each with
  its own MySQL schema, which call each other, the blockchain and a few outside systems. This
  development models services one by one, from the lambda handler down to the rows of the tables.

  \<^bold>\<open>Shared ground.\<close> \<open>Prelude\<close> has JSON values (\<open>pyval\<close>) with Python's truth and access rules,
  exceptions as values (\<open>exn\<close>), programs that pass a state and may raise (\<open>prog\<close>, with \<open>andthen\<close>,
  \<open>try_except\<close>, \<open>for_each\<close>, \<open>map_each\<close>), tables as lists of rows, and the locale \<open>step_frame\<close>: a
  reflexive and transitive relation between the states before and after a program, with one rule per
  program construct. Invariants (\<open>keeping I\<close>), ledgers and lifecycles are instances of it. \<open>Common\<close>
  models \<open>src/common\<close>: exceptions, responses, the decorators of the handlers and the request context.
  \<open>Requests\<close> holds what the request classes of several services share.

  \<^bold>\<open>Payments\<close> (\<open>src/payments\<close>). \<open>Payments\<close>: orders, payments, the PayPal payment, the repository and
  the order manager. \<open>Payment_Laws\<close>: the invariant of the tables, the finality of successful payments
  and each operation's effect. \<open>Payment_Handlers\<close>: the six lambdas and the responses they give.

  \<^bold>\<open>Deployer\<close> (\<open>src/deployer\<close>). \<open>Deployer_Model\<close>: the seven tables, the domain objects and their JSON.
  \<open>Deployer_Clients\<close>: the state, database sessions, and the clients of HaaS, GitHub, other lambdas, SNS
  and the price service. \<open>Deployer_Repositories\<close>, \<open>Deployer_Billing\<close>, \<open>Deployer_Daemons\<close>,
  \<open>Deployer_Deployments\<close>, \<open>Deployer_Access\<close>: the repositories and application services.
  \<open>Deployer_Handlers\<close> and \<open>Deployer_Lambdas\<close>: requests and lambdas. \<open>Deployer_Tables\<close>,
  \<open>Deployer_Ledger\<close> and \<open>Deployer_Runs\<close> show that any sequence of operations keeps the constraints of
  the tables, the life of every order and the books of every account; \<open>Deployer_Billing_Laws\<close>,
  \<open>Deployer_Billing_Cases\<close> and \<open>Deployer_History\<close> give the effect of each billing operation, and
  \<open>Deployer_Metrics\<close> the paging loop, the access checks and the credentials of a daemon.
  \<open>Deployer_Demo\<close> has the concrete state the witnesses run on.

  \<^bold>\<open>Registry, organizations\<close> (\<open>src/registry\<close>). \<open>Registry_Model\<close>: rows, domain objects, the session and
  the environment. \<open>Registry_Domain\<close>: the organization with its state machine, and the factory.
  \<open>Registry_Repository\<close>: the organization tables. \<open>Registry_Publisher\<close>: the publisher service, the
  transaction poll, storage and access control. \<open>Registry_Consumer\<close>: blockchain events.
  \<open>Registry_Requests\<close>: request classes and the sixteen lambdas. \<open>Registry_Laws\<close> has the locale
  \<open>lifecycle\<close>: from a relation of the steps a status may take it derives what programs may do to the
  stored states. \<open>Registry_Portal\<close> interprets it for the requests of users, \<open>Registry_Events\<close> for
  events; \<open>Registry_Demo\<close> has the concrete state and the portal's properties.

  \<^bold>\<open>Orchestrator\<close> (\<open>src/orchestrator\<close>). \<open>Json\<close>: the reader of JSON texts, and that it reads what
  \<open>json.dumps\<close> writes. \<open>Orchestrator\<close>: the history table and the wallet service. \<open>Orchestrator_Orders\<close>
  and \<open>Orchestrator_Handlers\<close>: the order service with its lambdas; \<open>Orchestrator_Publisher\<close>: the calls
  for publishers. The other services are one function of the environment. \<open>Orchestrator_Payments\<close>
  puts the payment handlers of this development in its place and shows that nothing is done for an
  order before its payment is stored; \<open>Orchestrator_History\<close> is about cancellation and conversion.

  \<^bold>\<open>Users\<close> (\<open>src/dapp_user\<close>). \<open>Dapp_User\<close>: tables, domain objects and requests.
  \<open>Dapp_User_Service\<close>: repository, clients, service and lambdas. \<open>Dapp_User_Laws\<close>: the typing of the
  tables, kept by every request; \<open>Dapp_User_Reviews\<close>: the stored rating against the mean of the reviews,
  and two flaws.

  \<^bold>\<open>Wallets\<close> (\<open>src/wallets\<close>). \<open>Wallets\<close>: tables, models and repositories over one session.
  \<open>Wallets_Service\<close>: the node of the blockchain, the keys, and the two ways to send a transaction.
  \<open>Wallets_Handlers\<close>: listings, the queue of channels, the two jobs and the lambdas. \<open>Wallets_Laws\<close>: a
  created wallet is read back with its key; \<open>Wallets_Runs\<close>: the invariant with its one default wallet,
  the queue that is worked off, and the job an unmined transaction stops.

  \<^bold>\<open>Signer\<close> (\<open>src/signer\<close>). \<open>Signer\<close>: the table of free-call tokens, the node, the clients of the contract
  API and of the daemons, the signatures, requests, service and lambdas. \<open>Signer_Laws\<close>: a token that was
  given is used until it expires; the parts of the signature that opens a channel.

  \<^bold>\<open>Monitor\<close> (\<open>src/service_status\<close>). \<open>Text_Patterns\<close>: regular expressions, with a reader that is shown to
  decide them. \<open>Service_Status\<close>: the checks of endpoints and certificates, notifications and lambdas.
  \<open>Service_Status_Laws\<close>: failures are counted and put the next check off; what ends a run early.

  \<^bold>\<open>Contract API\<close> (\<open>src/contract_api\<close>). \<open>Contract_Api\<close>: its nine tables, sessions that commit and
  roll back, and the payment channels with the events of their contract. \<open>Contract_Events\<close>: the storage of
  metadata, the copies of assets, the repositories of organizations and services, and the events of
  organizations. \<open>Contract_Services\<close>: the events of services, the dispatch of the registry's events and the
  listing of organizations. \<open>Contract_Laws\<close>: keys stay unique and references complete, step by step;
  \<open>Contract_Runs\<close>: the same for any requests, and what three kinds of event leave behind.

  \<^bold>\<open>Conventions.\<close>
  \<^item> A value computed by a pydantic model, a decorator or a handler is a value of \<open>exn + 'a\<close>: each raise
    is a branch. \<open>PyExc\<close> is an exception of Python or a library, by class and text.
  \<^item> \<open>session_scope\<close> of the deployer rolls the tables back on an exception, while calls of other systems
    stay made. The registry and the payments share a long-lived session: \<open>session\<close> is what it shows,
    \<open>stored\<close> what is committed; assigning a column keeps the value as assigned until it is read again.
  \<^item> Another system is a function of the environment from the calls made so far and the call; the calls
    are recorded in the state, in order. Clocks, random identifiers, the parsers of JSON and literals,
    PayPal, DeepDiff and the contracts are functions of the environment. In the wallets, the
    signer, the monitor and the contract API the outside world is a state \<open>'w\<close> the programs thread through.
  \<^item> \<open>TIMESTAMP\<close> columns store \<open>column_time\<close> of a time; an update sets \<open>updated_at\<close> when it changes the
    row (\<open>touch\<close>). Texts are compared exactly, not by a collation. \<open>ORDER BY\<close> keeps insertion order
    among equals. Integers are unbounded, as Python's are; columns are not cut to their width.
  \<^item> The paging loops of the metrics and of the user pool may not end, so they are \<open>partial_function\<close>s:
    \<open>None\<close> is not returning. The reader of JSON has the length of its text and one as fuel, enough for
    all that \<open>json.dumps\<close> writes (\<open>json_loads_codec\<close>); batches and the removal of a prefix have the length
    of their list or text (\<open>concat_chunks\<close>, \<open>remove_all_enough\<close>). Every other loop is structural.

  \<^bold>\<open>Not modelled.\<close> Logging, Slack alerts, the drivers of MySQL, web3 and boto3 beyond what they
  answer, files on disk, and the alembic migrations, which have no logic of the program. Of the
  services: the publication of services in the registry, the search over services and the builds in
  \<open>contract_api\<close>, \<open>utility\<close> and the verification history of the orchestrator.
\<close>

end
